(* ===== verification/Prelude.thy ===== *)
theory Prelude
  imports Main "HOL-Library.Word"
begin

text \<open>
  The vocabulary the component theories share: the machine integers of the Go program, results
  with an error branch, the collections of simplification rules the proofs draw on, and generic
  facts on lists, maps and words.
  A Go \<open>byte\<close> is an \<open>8 word\<close>, a \<open>uint16\<close> a \<open>16 word\<close>; a conversion \<open>byte(x)\<close>, \<open>uint16(x)\<close> of
  the source is \<open>ucast\<close> (truncation or zero extension). A Go \<open>int\<close> or \<open>int64\<close> that only counts
  bytes, offsets or list positions is an \<open>int\<close> or a \<open>nat\<close>. A call that returns
  \<open>(value, error)\<close> is a value of \<open>'e + 'a\<close>, with \<open>Inl\<close> for the error.
\<close>

unbundle bit_operations_syntax

section \<open>Types\<close>

type_synonym byte = "8 word"
type_synonym u16 = "16 word"
type_synonym u32 = "32 word"
type_synonym u64 = "64 word"
type_synonym bytes = "byte list"

text \<open>
  \<open>wire_simps\<close> collects the equations that evaluate encoders and decoders, \<open>state_simps\<close> those
  that evaluate the operations on component states.
\<close>

named_theorems wire_simps
named_theorems state_simps

section \<open>Results\<close>

definition is_ok :: "'e + 'a \<Rightarrow> bool" where
  "is_ok r = (case r of Inl _ \<Rightarrow> False | Inr _ \<Rightarrow> True)"

lemma is_ok_simps [simp]: "is_ok (Inr x)" "\<not> is_ok (Inl e)"
  by (simp_all add: is_ok_def)

lemma is_ok_iff: "is_ok r \<longleftrightarrow> (\<exists>x. r = Inr x)"
  by (cases r) simp_all

section \<open>Lists\<close>

lemma split_snoc2:
  assumes "2 \<le> length xs"
  obtains ys a b where "xs = ys @ [a, b]"
proof -
  from assms have "xs \<noteq> []" by auto
  then obtain zs b where zs: "xs = zs @ [b]" by (metis rev_exhaust)
  with assms have "zs \<noteq> []" by auto
  then obtain ys a where "zs = ys @ [a]" by (metis rev_exhaust)
  with zs that show ?thesis by simp
qed

lemma upt_split: "i \<le> j \<Longrightarrow> j \<le> k \<Longrightarrow> [i..<j] @ [j..<k] = [i..<k]"
  by (metis le_Suc_ex upt_add_eq_append)

section \<open>Words\<close>

lemma word_and_1_eq: "(x :: 'a::len word) AND 1 = (if odd x then 1 else 0)"
  by (simp add: and_one_eq mod_2_eq_odd)

lemma word_xor_right_cancel [simp]: "(a :: 'a::len word) XOR k = b XOR k \<longleftrightarrow> a = b"
  by (metis xor.assoc xor_self_eq xor.right_neutral)

lemma word_xor_left_cancel [simp]: "(k :: 'a::len word) XOR a = k XOR b \<longleftrightarrow> a = b"
  by (metis word_xor_right_cancel xor.commute)

lemma ucast_byte_u16_inj: "(ucast (a :: byte) :: u16) = ucast b \<longleftrightarrow> a = b"
proof
  assume e: "(ucast a :: u16) = ucast b"
  show "a = b"
  proof (rule bit_word_eqI)
    fix n
    assume "n < LENGTH(8)"
    moreover have "bit (ucast a :: u16) n = bit (ucast b :: u16) n" using e by simp
    ultimately show "bit a n = bit b n" by (simp add: bit_simps)
  qed
qed simp

lemma even_odd_drop_bit_eq:
  assumes "drop_bit 1 a = drop_bit 1 (b :: 'a::len word)" and "odd a = odd b"
  shows "a = b"
proof (rule bit_word_eqI)
  fix n
  show "bit a n = bit b n"
  proof (cases n)
    case 0
    then show ?thesis using assms(2) by (simp add: bit_0)
  next
    case (Suc m)
    have "bit (drop_bit 1 a) m = bit (drop_bit 1 b) m" using assms(1) by simp
    then show ?thesis using Suc by (simp add: bit_drop_bit_eq)
  qed
qed

lemma unat_byte_less [simp]: "unat (b :: byte) < 256"
  using unsigned_less [of b, where ?'a = nat] by simp

lemma unat_u16_less [simp]: "unat (v :: u16) < 65536"
  using unsigned_less [of v, where ?'a = nat] by simp

end
