(* ===== verification/GoMaps.thy ===== *)
theory GoMaps
  imports Prelude
begin

text \<open>
  A Go map that is iterated, listed or counted is an association list with distinct keys: the
  order of the list is the order of an iteration, which the language leaves open, so no statement
  depends on it. Lookups are \<open>map_of\<close>.
\<close>

type_synonym ('k, 'v) table = "('k \<times> 'v) list"

definition table_ok :: "('k, 'v) table \<Rightarrow> bool" where
  "table_ok t = distinct (map fst t)"

definition table_del :: "'k \<Rightarrow> ('k, 'v) table \<Rightarrow> ('k, 'v) table" where
  "table_del k t = filter (\<lambda>(j, _). j \<noteq> k) t"

definition table_put :: "'k \<Rightarrow> 'v \<Rightarrow> ('k, 'v) table \<Rightarrow> ('k, 'v) table" where
  "table_put k v t = (k, v) # table_del k t"

text \<open>The loop \<open>for _, x := range xs { m[key(x)] = value(x) }\<close>\<close>

definition table_put_all :: "('a \<Rightarrow> 'k) \<Rightarrow> ('a \<Rightarrow> 'v) \<Rightarrow> 'a list \<Rightarrow> ('k, 'v) table \<Rightarrow> ('k, 'v) table" where
  "table_put_all key val xs t = foldl (\<lambda>t x. table_put (key x) (val x) t) t xs"

definition sorted_keys :: "('k :: linorder, 'v) table \<Rightarrow> 'k list" where
  "sorted_keys t = sort (map fst t)"

lemma map_of_table_del [simp]: "map_of (table_del k t) = (map_of t)(k := None)"
  by (induction t) (auto simp: table_del_def)

lemma map_of_table_put [simp]: "map_of (table_put k v t) = (map_of t)(k \<mapsto> v)"
  by (auto simp: table_put_def)

lemma table_ok_Nil [simp]: "table_ok []"
  by (simp add: table_ok_def)

lemma table_ok_del [simp]: "table_ok t \<Longrightarrow> table_ok (table_del k t)"
  by (induction t) (auto simp: table_ok_def table_del_def)

lemma keys_table_del [simp]: "fst ` set (table_del k t) = fst ` set t - {k}"
  by (auto simp: table_del_def image_iff)

lemma table_ok_put [simp]: "table_ok t \<Longrightarrow> table_ok (table_put k v t)"
  using table_ok_del [of t k] keys_table_del [of k t]
  by (auto simp: table_put_def table_ok_def)

lemma table_ok_put_all: "table_ok t \<Longrightarrow> table_ok (table_put_all key val xs t)"
  unfolding table_put_all_def by (induction xs arbitrary: t) simp_all

lemma dom_put_all: "dom (map_of (table_put_all key val xs t)) = dom (map_of t) \<union> key ` set xs"
  unfolding table_put_all_def by (induction xs arbitrary: t) auto

lemma table_entry: "table_ok t \<Longrightarrow> (k, v) \<in> set t \<longleftrightarrow> map_of t k = Some v"
  by (auto simp: table_ok_def intro: map_of_SomeD)

lemma table_all: "table_ok t \<Longrightarrow> (\<forall>e \<in> set t. P e) \<longleftrightarrow> (\<forall>k v. map_of t k = Some v \<longrightarrow> P (k, v))"
  by (auto simp: table_entry)

lemma set_sorted_keys [simp]: "set (sorted_keys t) = dom (map_of t)"
  by (simp add: sorted_keys_def dom_map_of_conv_image_fst)

lemma sorted_sorted_keys [simp]: "sorted (sorted_keys t)"
  by (simp add: sorted_keys_def)

lemma distinct_sorted_keys: "table_ok t \<Longrightarrow> distinct (sorted_keys t)"
  by (simp add: sorted_keys_def table_ok_def)

end
