(* ===== verification/GoStrings.thy ===== *)
theory GoStrings
  imports Prelude "HOL-Library.Char_ord" "HOL-Library.List_Lexorder"
begin

text \<open>
  The functions of Go's standard library on strings that the program calls (packages
  \<open>strings\<close>, \<open>strconv\<close>, \<open>encoding/hex\<close>). A Go string is a sequence of bytes, which is what HOL's
  \<open>string\<close> is, so conversions between \<open>string\<close> and \<open>[]byte\<close> are \<open>bytes_of\<close> and \<open>string_of\<close>, and
  the library's lexicographic order on \<open>string\<close> is Go's \<open><\<close>.
  Case mapping folds ASCII letters and the non-ASCII runes whose lower case (or simple fold)
  is an ASCII letter, so a comparison of a lowered string with an ASCII literal has the value it
  has in Go; other non-ASCII letters are left as they are, where Go would map them too.
\<close>

section \<open>Bytes and strings\<close>

definition bytes_of :: "string \<Rightarrow> bytes" where
  "bytes_of s = map of_char s"

definition string_of :: "bytes \<Rightarrow> string" where
  "string_of bs = map (\<lambda>b. char_of (unat b)) bs"

lemma unat_of_char [simp]: "unat (of_char c :: byte) = of_char c"
proof -
  have e: "(of_char c :: byte) = of_nat (of_char c)" by (rule of_nat_of_char [symmetric])
  have "unat (of_nat (of_char c) :: byte) = of_char c mod 256"
    by (simp add: unat_of_nat del: of_nat_of_char)
  then show ?thesis by (simp only: e of_char_mod_256)
qed

lemma string_of_bytes_of [simp]: "string_of (bytes_of s) = s"
  by (simp add: string_of_def bytes_of_def comp_def)

lemma bytes_of_simps [simp]: "bytes_of [] = []" "bytes_of (c # s) = of_char c # bytes_of s"
  by (simp_all add: bytes_of_def)

lemma length_bytes_of [simp]: "length (bytes_of s) = length s"
  by (simp add: bytes_of_def)

lemma length_string_of [simp]: "length (string_of bs) = length bs"
  by (simp add: string_of_def)

lemma bytes_of_append [simp]: "bytes_of (s @ t) = bytes_of s @ bytes_of t"
  by (simp add: bytes_of_def)

lemma bytes_of_string_of [simp]: "bytes_of (string_of bs) = bs"
proof -
  have "of_char (char_of (unat b)) = b" for b :: byte
  proof -
    have "of_char (char_of (unat b)) = (of_nat (of_char (char_of (unat b))) :: byte)"
      by (rule of_nat_of_char [symmetric])
    also have "\<dots> = of_nat (unat b)" by (simp only: of_char_of mod_less unat_byte_less)
    finally show ?thesis by simp
  qed
  then show ?thesis by (simp add: string_of_def bytes_of_def comp_def)
qed

section \<open>Case mapping and comparison\<close>

definition ascii_upper :: "char \<Rightarrow> bool" where
  "ascii_upper c = (65 \<le> (of_char c :: nat) \<and> (of_char c :: nat) \<le> 90)"

definition ascii_lower :: "char \<Rightarrow> bool" where
  "ascii_lower c = (97 \<le> (of_char c :: nat) \<and> (of_char c :: nat) \<le> 122)"

definition lower_char :: "char \<Rightarrow> char" where
  "lower_char c = (if ascii_upper c then char_of ((of_char c :: nat) + 32) else c)"

definition upper_char :: "char \<Rightarrow> char" where
  "upper_char c = (if ascii_lower c then char_of ((of_char c :: nat) - 32) else c)"

text \<open>
  \<open>strings.ToLower\<close>: the Kelvin sign (bytes E2 84 AA) and the dotted capital I (C4 B0) are the
  non-ASCII runes whose lower case is an ASCII letter.
\<close>

fun to_lower :: "string \<Rightarrow> string" where
  "to_lower [] = []"
| "to_lower (c # cs) =
     (if c = CHR 0xE2 \<and> take 2 cs = [CHR 0x84, CHR 0xAA] then CHR ''k'' # to_lower (drop 2 cs)
      else if c = CHR 0xC4 \<and> take 1 cs = [CHR 0xB0] then CHR ''i'' # to_lower (drop 1 cs)
      else lower_char c # to_lower cs)"

text \<open>\<open>strings.ToUpper\<close> on the ASCII strings the program applies it to.\<close>

definition to_upper :: "string \<Rightarrow> string" where
  "to_upper s = map upper_char s"

text \<open>
  \<open>strings.EqualFold\<close> against an ASCII literal: simple folding takes the Kelvin sign to k and the
  long s (C5 BF) to s.
\<close>

fun fold_case :: "string \<Rightarrow> string" where
  "fold_case [] = []"
| "fold_case (c # cs) =
     (if c = CHR 0xE2 \<and> take 2 cs = [CHR 0x84, CHR 0xAA] then CHR ''k'' # fold_case (drop 2 cs)
      else if c = CHR 0xC5 \<and> take 1 cs = [CHR 0xBF] then CHR ''s'' # fold_case (drop 1 cs)
      else lower_char c # fold_case cs)"

definition equal_fold :: "string \<Rightarrow> string \<Rightarrow> bool" where
  "equal_fold s t = (fold_case s = fold_case t)"

lemma equal_fold_refl [simp]: "equal_fold s s"
  by (simp add: equal_fold_def)

section \<open>Searching, trimming, joining\<close>

fun has_prefix :: "'a list \<Rightarrow> 'a list \<Rightarrow> bool" where
  "has_prefix xs [] = True"
| "has_prefix [] (y # ys) = False"
| "has_prefix (x # xs) (y # ys) = (x = y \<and> has_prefix xs ys)"

lemma has_prefix_iff: "has_prefix xs ys \<longleftrightarrow> (\<exists>zs. xs = ys @ zs)"
  by (induction xs ys rule: has_prefix.induct) auto

definition has_suffix :: "'a list \<Rightarrow> 'a list \<Rightarrow> bool" where
  "has_suffix xs ys = has_prefix (rev xs) (rev ys)"

lemma has_suffix_iff: "has_suffix xs ys \<longleftrightarrow> (\<exists>zs. xs = zs @ ys)"
proof -
  have "has_suffix xs ys \<longleftrightarrow> (\<exists>zs. rev xs = rev ys @ zs)"
    by (simp add: has_suffix_def has_prefix_iff)
  also have "\<dots> \<longleftrightarrow> (\<exists>zs. xs = zs @ ys)"
    by (metis rev_append rev_rev_ident)
  finally show ?thesis .
qed

fun contains :: "'a list \<Rightarrow> 'a list \<Rightarrow> bool" where
  "contains [] ys = (ys = [])"
| "contains (x # xs) ys = (has_prefix (x # xs) ys \<or> contains xs ys)"

lemma contains_iff: "contains xs ys \<longleftrightarrow> (\<exists>us vs. xs = us @ ys @ vs)"
proof (induction xs)
  case Nil
  then show ?case by auto
next
  case (Cons x xs)
  show ?case
  proof
    assume "contains (x # xs) ys"
    then consider "has_prefix (x # xs) ys" | "contains xs ys" by auto
    then show "\<exists>us vs. x # xs = us @ ys @ vs"
    proof cases
      case 1
      then show ?thesis by (metis append_Nil has_prefix_iff)
    next
      case 2
      with Cons.IH obtain us vs where "xs = us @ ys @ vs" by blast
      then have "x # xs = (x # us) @ ys @ vs" by simp
      then show ?thesis by blast
    qed
  next
    assume "\<exists>us vs. x # xs = us @ ys @ vs"
    then obtain us vs where e: "x # xs = us @ ys @ vs" by blast
    show "contains (x # xs) ys"
    proof (cases us)
      case Nil
      with e have "has_prefix (x # xs) ys" by (auto simp: has_prefix_iff)
      then show ?thesis by simp
    next
      case (Cons u us')
      with e have "xs = us' @ ys @ vs" by simp
      with Cons.IH show ?thesis by auto
    qed
  qed
qed

text \<open>The encodings of the runes \<open>unicode.IsSpace\<close> accepts.\<close>

definition space_runes :: "string list" where
  "space_runes = map (\<lambda>n. [char_of n]) [9::nat, 10, 11, 12, 13, 32]
     @ [[CHR 0xC2, CHR 0x85], [CHR 0xC2, CHR 0xA0], [CHR 0xE1, CHR 0x9A, CHR 0x80]]
     @ map (\<lambda>n. [CHR 0xE2, CHR 0x80, char_of n]) ([128::nat..<139] @ [168, 169, 175])
     @ [[CHR 0xE2, CHR 0x81, CHR 0x9F], [CHR 0xE3, CHR 0x80, CHR 0x80]]"

definition leading_space :: "string \<Rightarrow> nat" where
  "leading_space s = (case find (has_prefix s) space_runes of None \<Rightarrow> 0 | Some r \<Rightarrow> length r)"

definition trailing_space :: "string \<Rightarrow> nat" where
  "trailing_space s = (case find (has_suffix s) space_runes of None \<Rightarrow> 0 | Some r \<Rightarrow> length r)"

lemma find_Some_pred: "find P xs = Some x \<Longrightarrow> P x"
  by (induction xs) (auto split: if_splits)

lemma leading_space_le: "leading_space s \<le> length s"
proof (cases "find (has_prefix s) space_runes")
  case (Some r)
  then have "has_prefix s r" by (rule find_Some_pred)
  with Some show ?thesis by (auto simp: leading_space_def has_prefix_iff)
qed (simp add: leading_space_def)

function trim_left :: "string \<Rightarrow> string" where
  "trim_left s = (if leading_space s = 0 then s else trim_left (drop (leading_space s) s))"
  by pat_completeness auto
termination
proof (relation "measure length")
  fix s assume "leading_space s \<noteq> 0"
  with leading_space_le [of s] show "(drop (leading_space s) s, s) \<in> measure length" by auto
qed simp

lemma trailing_space_le: "trailing_space s \<le> length s"
proof (cases "find (has_suffix s) space_runes")
  case (Some r)
  then have "has_suffix s r" by (rule find_Some_pred)
  with Some show ?thesis by (auto simp: trailing_space_def has_suffix_iff)
qed (simp add: trailing_space_def)

function trim_right :: "string \<Rightarrow> string" where
  "trim_right s =
     (if trailing_space s = 0 then s else trim_right (take (length s - trailing_space s) s))"
  by pat_completeness auto
termination
proof (relation "measure length")
  fix s assume "trailing_space s \<noteq> 0"
  with trailing_space_le [of s]
  show "(take (length s - trailing_space s) s, s) \<in> measure length" by auto
qed simp

declare trim_left.simps [simp del] trim_right.simps [simp del]

text \<open>\<open>strings.TrimSpace\<close>\<close>

definition trim_space :: "string \<Rightarrow> string" where
  "trim_space s = trim_right (trim_left s)"

text \<open>A string that begins and ends with a visible ASCII character stays as it is.\<close>

definition visible :: "char \<Rightarrow> bool" where
  "visible c = (case c of Char b0 b1 b2 b3 b4 b5 b6 b7 \<Rightarrow> \<not> b7 \<and> (b5 \<or> b6) \<and> (b6 \<or> b0 \<or> b1 \<or> b2 \<or> b3 \<or> b4))"

lemma space_runes_invisible: "list_all (\<lambda>r. r \<noteq> [] \<and> \<not> visible (hd r) \<and> \<not> visible (last r)) space_runes"
  by code_simp

lemma visible_leading: "s \<noteq> [] \<Longrightarrow> visible (hd s) \<Longrightarrow> leading_space s = 0"
  using space_runes_invisible
  by (auto simp: leading_space_def find_Some_iff has_prefix_iff list_all_iff split: option.split)

lemma visible_trailing: "s \<noteq> [] \<Longrightarrow> visible (last s) \<Longrightarrow> trailing_space s = 0"
  using space_runes_invisible
  by (auto simp: trailing_space_def find_Some_iff has_suffix_iff list_all_iff split: option.split)

lemma trim_space_visible: "s \<noteq> [] \<Longrightarrow> visible (hd s) \<Longrightarrow> visible (last s) \<Longrightarrow> trim_space s = s"
  by (simp add: trim_space_def trim_left.simps [of s] trim_right.simps [of s] visible_leading visible_trailing)

lemma trim_space_code [code]:
  "trim_space s = (if s = [] \<or> visible (hd s) \<and> visible (last s) then s else trim_right (trim_left s))"
proof (cases "s = []")
  case True
  have "leading_space [] = 0" "trailing_space [] = 0" using leading_space_le [of "[]"] trailing_space_le [of "[]"] by simp_all
  with True show ?thesis by (simp add: trim_space_def trim_left.simps [of "[]"] trim_right.simps [of "[]"])
next
  case False
  with trim_space_visible [of s] show ?thesis by (simp add: trim_space_def)
qed

text \<open>\<open>strings.Join\<close>\<close>

fun join_with :: "'a list \<Rightarrow> 'a list list \<Rightarrow> 'a list" where
  "join_with sep [] = []"
| "join_with sep [x] = x"
| "join_with sep (x # y # ys) = x @ sep @ join_with sep (y # ys)"

text \<open>\<open>strings.FieldsFunc\<close>: the maximal runs of characters that are no separators.\<close>

fun fields_acc :: "('a \<Rightarrow> bool) \<Rightarrow> 'a list \<Rightarrow> 'a list \<Rightarrow> 'a list list" where
  "fields_acc p acc [] = (if acc = [] then [] else [rev acc])"
| "fields_acc p acc (x # xs) =
     (if p x then (if acc = [] then fields_acc p [] xs else rev acc # fields_acc p [] xs)
      else fields_acc p (x # acc) xs)"

definition fields_func :: "('a \<Rightarrow> bool) \<Rightarrow> 'a list \<Rightarrow> 'a list list" where
  "fields_func p xs = fields_acc p [] xs"

section \<open>Numbers in decimal and hexadecimal\<close>

definition digit_char :: "nat \<Rightarrow> char" where
  "digit_char d = char_of (48 + d)"

fun nat_digits :: "nat \<Rightarrow> string" where
  "nat_digits n = (if n < 10 then [digit_char n] else nat_digits (n div 10) @ [digit_char (n mod 10)])"

declare nat_digits.simps [simp del]

text \<open>\<open>strconv.Itoa\<close>, and the verb \<open>%d\<close>\<close>

definition itoa :: "int \<Rightarrow> string" where
  "itoa i = (if i < 0 then CHR ''-'' # nat_digits (nat (- i)) else nat_digits (nat i))"

definition is_digit :: "char \<Rightarrow> bool" where
  "is_digit c = (48 \<le> (of_char c :: nat) \<and> (of_char c :: nat) \<le> 57)"

definition digits_value :: "string \<Rightarrow> nat" where
  "digits_value s = foldl (\<lambda>n c. 10 * n + (of_char c - 48)) 0 s"

text \<open>
  \<open>strconv.ParseUint(s, 10, bits)\<close> and \<open>strconv.ParseInt(s, 10, bits)\<close>: \<open>None\<close> is a syntax or range
  error. \<open>strconv.Atoi\<close> is the second at 64 bits.
\<close>

definition parse_uint10 :: "nat \<Rightarrow> string \<Rightarrow> nat option" where
  "parse_uint10 bits s =
     (if s = [] \<or> \<not> list_all is_digit s then None
      else if digits_value s < 2 ^ bits then Some (digits_value s) else None)"

definition parse_int10 :: "nat \<Rightarrow> string \<Rightarrow> int option" where
  "parse_int10 bits s =
     (let neg = take 1 s = ''-''; body = (if neg \<or> take 1 s = ''+'' then drop 1 s else s) in
      if body = [] \<or> \<not> list_all is_digit body then None
      else let v = int (digits_value body) in
        if neg then (if v \<le> 2 ^ (bits - 1) then Some (- v) else None)
        else (if v < 2 ^ (bits - 1) then Some v else None))"

definition atoi :: "string \<Rightarrow> int option" where
  "atoi s = parse_int10 64 s"

lemma of_char_digit_char: "d < 10 \<Longrightarrow> of_char (digit_char d) = 48 + d"
  by (simp add: digit_char_def)

lemma digits_value_snoc: "digits_value (s @ [c]) = 10 * digits_value s + (of_char c - 48)"
  by (simp add: digits_value_def)

lemma digits_value_nat_digits [simp]: "digits_value (nat_digits n) = n"
proof (induction n rule: nat_digits.induct)
  case (1 n)
  show ?case
  proof (cases "n < 10")
    case True
    then show ?thesis by (simp add: nat_digits.simps [of n] digits_value_def of_char_digit_char)
  next
    case False
    with 1 show ?thesis by (simp add: nat_digits.simps [of n] digits_value_snoc of_char_digit_char)
  qed
qed

lemma digits_only: "list_all is_digit (nat_digits n)"
proof (induction n rule: nat_digits.induct)
  case (1 n)
  have "is_digit (digit_char d)" if "d < 10" for d using that by (simp add: is_digit_def of_char_digit_char)
  with 1 show ?case by (simp add: nat_digits.simps [of n])
qed

lemma nat_digits_inject [simp]: "nat_digits m = nat_digits n \<longleftrightarrow> m = n"
  by (metis digits_value_nat_digits)

lemma itoa_of_nat_inject [simp]: "itoa (int m) = itoa (int n) \<longleftrightarrow> m = n"
  by (simp add: itoa_def)

definition hex_char :: "nat \<Rightarrow> char" where
  "hex_char d = (if d < 10 then char_of (48 + d) else char_of (87 + d))"

definition hex_value :: "char \<Rightarrow> nat option" where
  "hex_value c = (let n = of_char c :: nat in
     if 48 \<le> n \<and> n \<le> 57 then Some (n - 48)
     else if 97 \<le> n \<and> n \<le> 102 then Some (n - 87)
     else if 65 \<le> n \<and> n \<le> 70 then Some (n - 55)
     else None)"

text \<open>\<open>fmt\<close>'s verb \<open>%02x\<close> on a byte, \<open>hex.EncodeToString\<close> and \<open>hex.DecodeString\<close>\<close>

definition hex_byte :: "byte \<Rightarrow> string" where
  "hex_byte b = [hex_char (unat b div 16), hex_char (unat b mod 16)]"

definition hex_encode :: "bytes \<Rightarrow> string" where
  "hex_encode bs = concat (map hex_byte bs)"

fun hex_decode :: "string \<Rightarrow> bytes option" where
  "hex_decode [] = Some []"
| "hex_decode [c] = None"
| "hex_decode (c # d # cs) =
     (case (hex_value c, hex_value d) of
        (Some h, Some l) \<Rightarrow> map_option ((#) (of_nat (16 * h + l))) (hex_decode cs)
      | _ \<Rightarrow> None)"

lemma of_char_hex_char: "d < 16 \<Longrightarrow> of_char (hex_char d) = (if d < 10 then 48 + d else 87 + d)"
  by (simp add: hex_char_def of_char_of)

lemma hex_value_hex_char: "d < 16 \<Longrightarrow> hex_value (hex_char d) = Some d"
  by (auto simp: hex_value_def of_char_hex_char)

lemma hex_value_upper_hex_char: "d < 16 \<Longrightarrow> hex_value (upper_char (hex_char d)) = Some d"
  by (auto simp: hex_value_def upper_char_def ascii_lower_def of_char_hex_char of_char_of)

lemma byte_nibbles: "(of_nat (16 * (unat b div 16) + unat b mod 16) :: byte) = b"
proof -
  have "16 * (unat b div 16) + unat b mod 16 = unat b" by simp
  then show ?thesis by simp
qed

lemma hex_nibbles_less: "unat (b :: byte) div 16 < 16" "unat (b :: byte) mod 16 < 16"
  by (rule less_mult_imp_div_less) simp_all

lemma hex_encode_simps [simp]:
  "hex_encode [] = []"
  "hex_encode (b # bs) = hex_char (unat b div 16) # hex_char (unat b mod 16) # hex_encode bs"
  by (simp_all add: hex_encode_def hex_byte_def)

lemma length_hex_encode [simp]: "length (hex_encode bs) = 2 * length bs"
  by (induction bs) simp_all

lemma hex_decode_encode [simp]: "hex_decode (hex_encode bs) = Some bs"
  by (induction bs) (simp_all add: hex_value_hex_char hex_nibbles_less byte_nibbles del: of_nat_add of_nat_mult)

lemma hex_decode_upper_encode [simp]: "hex_decode (to_upper (hex_encode bs)) = Some bs"
  by (induction bs) (simp_all add: to_upper_def hex_value_upper_hex_char hex_nibbles_less byte_nibbles
      del: of_nat_add of_nat_mult)

lemma length_to_upper [simp]: "length (to_upper s) = length s"
  by (simp add: to_upper_def)

lemma hex_decode_length: "hex_decode s = Some bs \<Longrightarrow> length s = 2 * length bs"
  by (induction s arbitrary: bs rule: hex_decode.induct) (auto split: option.splits)

section \<open>Index of a substring\<close>

text \<open>\<open>strings.Index\<close>, with \<open>None\<close> for -1\<close>

fun index_of :: "'a list \<Rightarrow> 'a list \<Rightarrow> nat option" where
  "index_of [] ys = (if ys = [] then Some 0 else None)"
| "index_of (x # xs) ys =
     (if has_prefix (x # xs) ys then Some 0 else map_option Suc (index_of xs ys))"

lemma index_of_Some:
  "index_of xs ys = Some i \<Longrightarrow> \<exists>zs. drop i xs = ys @ zs"
proof (induction xs arbitrary: i)
  case (Cons x xs)
  then show ?case
    by (cases "has_prefix (x # xs) ys") (auto simp: has_prefix_iff)
qed (auto split: if_splits)

lemma index_of_None_iff: "index_of xs ys = None \<longleftrightarrow> \<not> contains xs ys"
  by (induction xs) auto

end
