(* ===== verification/Interfaces.thy ===== *)
theory Interfaces
  imports Prelude
begin

text \<open>
  The contracts that several components of the program provide and that others rely on, each a
  locale whose parameters are the operations a client calls and whose assumptions are the laws the
  provider promises. Every locale is interpreted on the model's own definitions in the theory of
  the component that provides it.
\<close>

section \<open>Frame codecs\<close>

text \<open>
  A codec turns a frame into the bytes of the wire and back: Modbus RTU, Modbus ASCII and FECbus
  provide it, the session layers and the protocol nodes of a graph use it. \<open>view\<close> is what a decoder
  reports of a frame.
\<close>

locale frame_codec =
  fixes encode :: "'f \<Rightarrow> 'e + bytes"
    and decode :: "bytes \<Rightarrow> 'e + 'g"
    and view :: "'f \<Rightarrow> 'g"
  assumes decode_encode: "encode f = Inr w \<Longrightarrow> decode w = Inr (view f)"
begin

lemma encoded_accepted: "encode f = Inr w \<Longrightarrow> is_ok (decode w)"
  by (simp add: decode_encode)

lemma same_wire_same_view: "encode f = Inr w \<Longrightarrow> encode g = Inr w \<Longrightarrow> view f = view g"
  using decode_encode [of f w] decode_encode [of g w] by simp

end

text \<open>
  A guarded codec also rejects every transmission in which exactly one byte was altered, so two
  different valid wires of the same length differ in two places at least.
\<close>

locale guarded_codec = frame_codec +
  assumes detects: "encode f = Inr w \<Longrightarrow> i < length w \<Longrightarrow> b \<noteq> w ! i \<Longrightarrow> \<not> is_ok (decode (w[i := b]))"
begin

lemma two_places_apart:
  assumes "encode f = Inr w" and "encode g = Inr v" and "length v = length w" and "v \<noteq> w"
  shows "\<exists>i j. i < j \<and> j < length w \<and> w ! i \<noteq> v ! i \<and> w ! j \<noteq> v ! j"
proof (rule ccontr)
  assume none: "\<not> ?thesis"
  from assms(3,4) obtain i where i: "i < length w" "v ! i \<noteq> w ! i"
    by (metis nth_equalityI)
  have "v = w[i := v ! i]"
  proof (rule nth_equalityI)
    fix j assume "j < length v"
    with assms(3) i none show "v ! j = w[i := v ! i] ! j"
      by (metis linorder_neqE_nat nth_list_update_eq nth_list_update_neq)
  qed (simp add: assms(3))
  with detects [OF assms(1) i] encoded_accepted [OF assms(2)] show False by simp
qed

end

section \<open>Addressed tables\<close>

text \<open>
  A table of cells under sixteen-bit addresses, written in blocks that wrap around at the end of
  the address space: the coil and register tables of a Modbus slave.
\<close>

locale word_table =
  fixes get :: "'s \<Rightarrow> u16 \<Rightarrow> 'v"
    and put :: "'s \<Rightarrow> u16 \<Rightarrow> 'v list \<Rightarrow> 's"
  assumes put_hit: "i < length vs \<Longrightarrow> length vs \<le> 65536 \<Longrightarrow> get (put s a vs) (a + of_nat i) = vs ! i"
    and put_miss: "(\<And>i. i < length vs \<Longrightarrow> b \<noteq> a + of_nat i) \<Longrightarrow> get (put s a vs) b = get s b"
begin

definition block :: "'s \<Rightarrow> u16 \<Rightarrow> nat \<Rightarrow> 'v list" where
  "block s a n = map (\<lambda>i. get s (a + of_nat i)) [0..<n]"

lemma block_put: "length vs \<le> 65536 \<Longrightarrow> block (put s a vs) a (length vs) = vs"
  by (rule nth_equalityI) (simp_all add: block_def put_hit)

lemma block_put_disjoint:
  assumes "\<And>i j. i < length vs \<Longrightarrow> j < n \<Longrightarrow> b + of_nat j \<noteq> a + of_nat i"
  shows "block (put s a vs) b n = block s b n"
  unfolding block_def by (rule map_cong) (auto intro!: put_miss simp: assms)

lemma put_order_irrelevant:
  assumes "length vs \<le> 65536" and "length us \<le> 65536"
    and "\<And>i j. i < length vs \<Longrightarrow> j < length us \<Longrightarrow> b + of_nat j \<noteq> a + of_nat i"
  shows "get (put (put s a vs) b us) c = get (put (put s b us) a vs) c"
proof (cases "\<exists>i < length vs. c = a + of_nat i")
  case True
  then obtain i where i: "i < length vs" "c = a + of_nat i" by blast
  then have "get (put (put s a vs) b us) c = get (put s a vs) c"
    using assms(3) by (intro put_miss) metis
  with i assms(1) show ?thesis by (simp add: put_hit)
next
  case False
  then have miss: "get (put t a vs) c = get t c" for t by (intro put_miss) auto
  show ?thesis
  proof (cases "\<exists>j < length us. c = b + of_nat j")
    case True
    with assms(2) miss show ?thesis by (auto simp: put_hit)
  next
    case False
    then have "get (put t b us) c = get t c" for t by (intro put_miss) auto
    with miss show ?thesis by simp
  qed
qed

end

section \<open>Registries of exclusive ports\<close>

text \<open>
  A registry maps the ids of its open sessions to the port each of them holds. Its operations are
  the critical sections of a manager; whatever the order in which concurrent calls execute them,
  each one either lets a new id take a port nobody holds, or only gives ports back.
\<close>

locale port_registry =
  fixes wf :: "'s \<Rightarrow> bool"
    and holder :: "'s \<Rightarrow> 'i \<rightharpoonup> string"
    and section_step :: "'o \<Rightarrow> 's \<Rightarrow> 's"
  assumes wf_step: "wf s \<Longrightarrow> wf (section_step op s)"
    and takes_or_gives: "wf s \<Longrightarrow>
      (\<exists>i p. i \<notin> dom (holder s) \<and> p \<notin> ran (holder s)
         \<and> holder (section_step op s) = (holder s)(i \<mapsto> p))
      \<or> holder (section_step op s) \<subseteq>\<^sub>m holder s"
begin

definition exclusive :: "'s \<Rightarrow> bool" where
  "exclusive s \<longleftrightarrow> (\<forall>i j p. holder s i = Some p \<longrightarrow> holder s j = Some p \<longrightarrow> i = j)"

lemma exclusive_holder:
  "exclusive s \<Longrightarrow> holder s i = Some p \<Longrightarrow> holder s j = Some p \<Longrightarrow> i = j"
  unfolding exclusive_def by blast

lemma exclusive_step:
  assumes "wf s" and "exclusive s"
  shows "exclusive (section_step op s)"
  using takes_or_gives [OF assms(1), of op]
proof (elim disjE exE conjE)
  fix i p
  assume "i \<notin> dom (holder s)" "p \<notin> ran (holder s)"
    and "holder (section_step op s) = (holder s)(i \<mapsto> p)"
  with assms(2) show ?thesis by (auto simp: exclusive_def ran_def)
next
  assume le: "holder (section_step op s) \<subseteq>\<^sub>m holder s"
  then have "holder s j = Some q" if "holder (section_step op s) j = Some q" for j q
    using that by (metis domI map_le_def)
  with assms(2) show ?thesis unfolding exclusive_def by blast
qed

lemma exclusive_run: "wf s \<Longrightarrow> exclusive s \<Longrightarrow> exclusive (fold section_step ops s) \<and> wf (fold section_step ops s)"
  by (induction ops arbitrary: s) (simp_all add: exclusive_step wf_step)

end

section \<open>Bounded logs\<close>

text \<open>
  A log keeps the most recent entries up to a capacity: the frame history of a FECbus session, of a
  monitor and of a graph node.
\<close>

definition lastn :: "nat \<Rightarrow> 'a list \<Rightarrow> 'a list" where
  "lastn n xs = drop (length xs - n) xs"

lemma length_lastn [simp]: "length (lastn n xs) = min n (length xs)"
  by (simp add: lastn_def)

lemma lastn_short: "length xs \<le> n \<Longrightarrow> lastn n xs = xs"
  by (simp add: lastn_def)

lemma lastn_lastn_append: "lastn n (lastn n xs @ ys) = lastn n (xs @ ys)"
proof (cases "length xs \<le> n")
  case False
  then have "lastn n (lastn n xs @ ys) = drop (length ys) (drop (length xs - n) xs @ ys)"
    by (simp add: lastn_def)
  also have "\<dots> = drop (length ys) (drop (length xs - n) (xs @ ys))" using False by simp
  also have "\<dots> = lastn n (xs @ ys)" using False by (simp add: lastn_def add.commute)
  finally show ?thesis .
qed (simp add: lastn_short)

lemma map_lastn: "map f (lastn n xs) = lastn n (map f xs)"
  by (simp add: lastn_def drop_map)

lemma set_lastn: "set (lastn n xs) \<subseteq> set xs"
  by (simp add: lastn_def set_drop_subset)

locale bounded_log =
  fixes entries :: "'s \<Rightarrow> 'e list"
    and append :: "'e \<Rightarrow> 's \<Rightarrow> 's"
    and cap :: nat
  assumes append_entries: "entries (append e s) = lastn cap (entries s @ [e])"
begin

lemma append_bounded: "length (entries (append e s)) \<le> cap"
  by (simp add: append_entries)

lemma append_latest: "0 < cap \<Longrightarrow> last (entries (append e s)) = e"
  by (simp add: append_entries lastn_def)

lemma fold_append:
  assumes "length (entries s) \<le> cap"
  shows "entries (fold append es s) = lastn cap (entries s @ es)"
proof (induction es rule: rev_induct)
  case Nil
  show ?case using assms by (simp add: lastn_short)
next
  case (snoc e es)
  then show ?case by (simp add: append_entries lastn_lastn_append)
qed

end

section \<open>Paged queries\<close>

text \<open>A page of a query, by offset and length, is a slice of the items that match.\<close>

locale paged_query =
  fixes items :: "'q \<Rightarrow> 'e list"
    and page :: "'q \<Rightarrow> nat \<Rightarrow> nat \<Rightarrow> 'e list"
    and most :: nat
  assumes slice: "0 < l \<Longrightarrow> l \<le> most \<Longrightarrow> page q k l = take l (drop k (items q))"
begin

lemma pages_cover:
  assumes "0 < l" and "l \<le> most"
  shows "concat (map (\<lambda>k. page q (k * l) l) [0..<n]) = take (n * l) (items q)"
proof (induction n)
  case (Suc n)
  have "Suc n * l = n * l + l" by simp
  with Suc show ?case by (simp only: take_add) (simp add: slice [OF assms])
qed simp

lemma pages_complete:
  assumes "0 < l" and "l \<le> most" and "length (items q) \<le> n * l"
  shows "concat (map (\<lambda>k. page q (k * l) l) [0..<n]) = items q"
  using pages_cover [OF assms(1,2)] assms(3) by simp

end

section \<open>Borrowed entries\<close>

text \<open>
  A client takes new entries into a table that others use too, and gives each of them back: then the
  table is what it was.
\<close>

definition on_loan :: "('i \<rightharpoonup> 'h) \<Rightarrow> ('i \<rightharpoonup> 'h) \<Rightarrow> 'i set \<Rightarrow> bool" where
  "on_loan before now taken \<longleftrightarrow> (\<forall>i \<in> taken. before i = None) \<and> (\<forall>i. i \<notin> taken \<longrightarrow> now i = before i)"

lemma on_loan_refl [simp]: "on_loan m m {}"
  by (simp add: on_loan_def)

lemma on_loan_take: "on_loan m0 m t \<Longrightarrow> m i = None \<Longrightarrow> on_loan m0 (m(i \<mapsto> h)) (insert i t)"
  unfolding on_loan_def by (metis (no_types, lifting) fun_upd_other insert_iff)

lemma on_loan_new: "on_loan m0 m t \<Longrightarrow> m i = None \<Longrightarrow> m0 i = None"
  unfolding on_loan_def by metis

locale lending_table =
  fixes ok :: "'s \<Rightarrow> bool"
    and entry :: "'s \<Rightarrow> 'i \<rightharpoonup> 'h"
    and release :: "'i \<Rightarrow> 's \<Rightarrow> 's"
  assumes release_ok: "ok s \<Longrightarrow> ok (release i s)"
    and release_entry: "ok s \<Longrightarrow> entry (release i s) = (entry s)(i := None)"
begin

lemma release_keeps_loan: "ok s \<Longrightarrow> on_loan m (entry s) (set (i # is)) \<Longrightarrow> on_loan m (entry (release i s)) (set is)"
  by (auto simp: on_loan_def release_entry)

lemma release_all: "ok s \<Longrightarrow> on_loan m (entry s) (set is) \<Longrightarrow> entry (foldl (\<lambda>s i. release i s) s is) = m"
proof (induction "is" arbitrary: s)
  case Nil
  then show ?case by (auto simp: on_loan_def)
next
  case (Cons i "is")
  then show ?case using release_keeps_loan [of s m i "is"] by (simp add: release_ok)
qed

end

section \<open>Rival users of ports\<close>

text \<open>
  Several users hold sets of ports, and some of them are rivals. An action that lets one user take ports
  none of its rivals holds, while the others at most give ports back, keeps rivals apart.
\<close>

locale rival_users =
  fixes held :: "'s \<Rightarrow> 'k \<Rightarrow> string set"
    and rival :: "'k \<Rightarrow> 'k \<Rightarrow> bool"
  assumes rival_sym: "rival k j \<Longrightarrow> rival j k" and rival_irrefl: "\<not> rival k k"
begin

definition apart :: "'s \<Rightarrow> bool" where
  "apart s \<longleftrightarrow> (\<forall>k j. rival k j \<longrightarrow> held s k \<inter> held s j = {})"

definition takes :: "'k \<Rightarrow> string set \<Rightarrow> 's \<Rightarrow> 's \<Rightarrow> bool" where
  "takes k new s s' \<longleftrightarrow> held s' k \<subseteq> held s k \<union> new \<and> (\<forall>j. j \<noteq> k \<longrightarrow> held s' j \<subseteq> held s j)"

lemma takes_refl: "takes k new s s"
  by (auto simp: takes_def)

lemma takes_apart:
  assumes "apart s" and "takes k new s s'" and "\<And>j. rival k j \<Longrightarrow> new \<inter> held s j = {}"
  shows "apart s'"
  unfolding apart_def
proof (intro allI impI)
  fix i j
  assume r: "rival i j"
  have old: "held s i \<inter> held s j = {}" using assms(1) r unfolding apart_def by blast
  have le: "held s' l \<subseteq> held s l \<union> (if l = k then new else {})" for l using assms(2) unfolding takes_def by auto
  have "i \<noteq> k \<or> j \<noteq> k" using r rival_irrefl by blast
  then consider "i \<noteq> k" "j \<noteq> k" | "i = k" "j \<noteq> k" | "j = k" "i \<noteq> k" by blast
  then show "held s' i \<inter> held s' j = {}"
  proof cases
    case 1
    then show ?thesis using le [of i] le [of j] old by auto
  next
    case 2
    then show ?thesis using le [of i] le [of j] old assms(3) [of j] r by auto
  next
    case 3
    then show ?thesis using le [of i] le [of j] old assms(3) [of i] rival_sym [OF r] by auto
  qed
qed

lemma gives_apart: "apart s \<Longrightarrow> takes k {} s s' \<Longrightarrow> apart s'"
  by (rule takes_apart [of s k "{}" s']) simp_all

end

end
