(* ===== verification/ModbusProtocol.thy ===== *)
theory ModbusProtocol
  imports GoStrings Interfaces
begin

text \<open>
  The wire layer of package \<open>modbus\<close> (\<open>internal/modules/serial/modbus/protocol.go\<close>): the CRC and
  LRC checksums, the RTU and ASCII framings, the request builders of the master, the parser of
  responses and the conversion of PLC addresses.
\<close>

section \<open>Modes, function codes, records\<close>

type_synonym frame_mode = string
type_synonym function_code = byte

definition FrameModeRTU :: frame_mode where [wire_simps]: "FrameModeRTU = ''rtu''"
definition FrameModeASCII :: frame_mode where [wire_simps]: "FrameModeASCII = ''ascii''"
definition AddressModeZeroBased :: string where [wire_simps]: "AddressModeZeroBased = ''zero-based''"
definition AddressModePLC :: string where [wire_simps]: "AddressModePLC = ''plc''"

abbreviation "FunctionReadCoils \<equiv> (1 :: function_code)"
abbreviation "FunctionReadDiscreteInputs \<equiv> (2 :: function_code)"
abbreviation "FunctionReadHoldingRegisters \<equiv> (3 :: function_code)"
abbreviation "FunctionReadInputRegisters \<equiv> (4 :: function_code)"
abbreviation "FunctionWriteSingleCoil \<equiv> (5 :: function_code)"
abbreviation "FunctionWriteSingleRegister \<equiv> (6 :: function_code)"
abbreviation "FunctionWriteMultipleCoils \<equiv> (15 :: function_code)"
abbreviation "FunctionWriteMultipleRegisters \<equiv> (16 :: function_code)"

abbreviation "exceptionMask \<equiv> (0x80 :: byte)"
abbreviation "ExceptionIllegalFunction \<equiv> (1 :: byte)"
abbreviation "ExceptionIllegalDataAddress \<equiv> (2 :: byte)"
abbreviation "ExceptionIllegalDataValue \<equiv> (3 :: byte)"
abbreviation "ExceptionServerFailure \<equiv> (4 :: byte)"

record pdu =
  pduFunction :: function_code
  pduData :: bytes

record decodedFrame =
  dfMode :: frame_mode
  dfUnitID :: byte
  dfPDU :: pdu

record parsedResponse =
  prFunction :: function_code
  prException :: bool
  prExceptionCode :: byte
  prAddress :: u16
  prQuantity :: u16
  prValue :: u16
  prValues :: "u16 list"
  prBits :: "bool list"
  prRaw :: bytes

record slaveResponse =
  srPDU :: pdu
  srException :: bool
  srExceptionCode :: byte

text \<open>The error values of the package, one constructor per \<open>fmt.Errorf\<close>.\<close>

datatype modbus_error =
    UnitIDRange | UnsupportedFrameMode string
  | RtuTooShort | RtuCrcMismatch
  | AsciiDelimiters | AsciiHexLength | AsciiHexDecode | AsciiLrcMismatch | PayloadTooShort
  | UnsupportedReadFunction byte | QuantityNotPositive | UnsupportedSingleWrite byte
  | CoilValuesEmpty | TooManyCoils | RegisterValuesEmpty | TooManyRegisters
  | InvalidException | InvalidBitRead | BitCountMismatch | InvalidRegisterRead
  | RegisterCountMismatch | InvalidSingleWrite | InvalidMultipleWrite
  | UnsupportedResponse byte
  | UnsupportedAddressMode string | PlcBelowBase u16 u16 | PlcRange u16 byte
  | UnsupportedPlcFunction byte | UnsupportedFunction byte

definition pduBytes :: "pdu \<Rightarrow> bytes" where
  "pduBytes p = pduFunction p # pduData p"

definition parsedZero :: parsedResponse where
  "parsedZero = \<lparr>prFunction = 0, prException = False, prExceptionCode = 0, prAddress = 0,
     prQuantity = 0, prValue = 0, prValues = [], prBits = [], prRaw = []\<rparr>"

section \<open>Sixteen-bit values on the wire\<close>

definition hiByte :: "u16 \<Rightarrow> byte" where "hiByte v = ucast (drop_bit 8 v)"
definition loByte :: "u16 \<Rightarrow> byte" where "loByte v = ucast v"

definition join16 :: "byte \<Rightarrow> byte \<Rightarrow> u16" where
  "join16 hi lo = push_bit 8 (ucast hi) OR ucast lo"

definition u16_bytes :: "u16 \<Rightarrow> bytes" where
  "u16_bytes v = [hiByte v, loByte v]"

definition u16Pair :: "u16 \<Rightarrow> u16 \<Rightarrow> bytes" where
  "u16Pair first second = [hiByte first, loByte first, hiByte second, loByte second]"

text \<open>\<open>beU16\<close> indexes the first two bytes; its callers guarantee that they are there.\<close>

definition beU16 :: "bytes \<Rightarrow> u16" where
  "beU16 data = join16 (data ! 0) (data ! 1)"

fun bytesToU16s :: "bytes \<Rightarrow> u16 list" where
  "bytesToU16s (a # b # rest) = join16 a b # bytesToU16s rest"
| "bytesToU16s _ = []"

text \<open>\<open>packBits\<close> fills byte \<open>i/8\<close> at bit \<open>i%8\<close>; \<open>unpackBits\<close> reads the same places.\<close>

fun packFrom :: "nat \<Rightarrow> bool list \<Rightarrow> bytes \<Rightarrow> bytes" where
  "packFrom i [] out = out"
| "packFrom i (v # vs) out =
     packFrom (Suc i) vs (if v then out[i div 8 := out ! (i div 8) OR push_bit (i mod 8) 1] else out)"

definition packBits :: "bool list \<Rightarrow> bytes" where
  "packBits values = packFrom 0 values (replicate ((length values + 7) div 8) 0)"

definition unpackBits :: "bytes \<Rightarrow> nat \<Rightarrow> bool list" where
  "unpackBits data count = map (\<lambda>i. data ! (i div 8) AND push_bit (i mod 8) 1 \<noteq> 0) [0..<count]"

section \<open>Checksums\<close>

definition crcShift :: "u16 \<Rightarrow> u16" where
  "crcShift crc = (if crc AND 1 \<noteq> 0 then drop_bit 1 crc XOR 0xa001 else drop_bit 1 crc)"

definition crcByte :: "u16 \<Rightarrow> byte \<Rightarrow> u16" where
  "crcByte crc b = (crcShift ^^ 8) (crc XOR ucast b)"

definition CRC16 :: "bytes \<Rightarrow> u16" where
  "CRC16 data = foldl crcByte 0xffff data"

definition LRC :: "bytes \<Rightarrow> byte" where
  "LRC data = - foldl (+) 0 data"

section \<open>Framing\<close>

definition normalizeFrameMode :: "frame_mode \<Rightarrow> frame_mode" where
  "normalizeFrameMode mode = (if mode = [] then FrameModeRTU else to_lower mode)"

definition EncodeFrame :: "frame_mode \<Rightarrow> byte \<Rightarrow> pdu \<Rightarrow> modbus_error + bytes" where
  "EncodeFrame mode unitID p =
     (if unitID = 0 then Inl UnitIDRange
      else let payload = unitID # pduBytes p in
        if normalizeFrameMode mode = FrameModeRTU then
          let crc = CRC16 payload in Inr (payload @ [loByte crc, hiByte crc])
        else if normalizeFrameMode mode = FrameModeASCII then
          let body = payload @ [LRC payload] in
          Inr (bytes_of '':'' @ bytes_of (to_upper (hex_encode body)) @ [13, 10])
        else Inl (UnsupportedFrameMode mode))"

definition decodedFromPayload :: "frame_mode \<Rightarrow> bytes \<Rightarrow> modbus_error + decodedFrame" where
  "decodedFromPayload mode payload =
     (if length payload < 2 then Inl PayloadTooShort
      else Inr \<lparr>dfMode = mode, dfUnitID = payload ! 0,
                dfPDU = \<lparr>pduFunction = payload ! 1, pduData = drop 2 payload\<rparr>\<rparr>)"

definition decodeRTU :: "bytes \<Rightarrow> modbus_error + decodedFrame" where
  "decodeRTU frame =
     (if length frame < 4 then Inl RtuTooShort
      else let payload = take (length frame - 2) frame;
               got = join16 (frame ! (length frame - 1)) (frame ! (length frame - 2)) in
        if got \<noteq> CRC16 payload then Inl RtuCrcMismatch
        else decodedFromPayload FrameModeRTU payload)"

definition trimPrefix :: "'a list \<Rightarrow> 'a list \<Rightarrow> 'a list" where
  "trimPrefix xs p = (if has_prefix xs p then drop (length p) xs else xs)"

definition trimSuffix :: "'a list \<Rightarrow> 'a list \<Rightarrow> 'a list" where
  "trimSuffix xs p = (if has_suffix xs p then take (length xs - length p) xs else xs)"

definition crlf :: string where "crlf = [CHR 13, CHR 10]"

definition decodeASCII :: "bytes \<Rightarrow> modbus_error + decodedFrame" where
  "decodeASCII frame =
     (let text = string_of frame in
      if \<not> has_prefix text '':'' \<or> \<not> has_suffix text crlf then Inl AsciiDelimiters
      else let bodyText = trimSuffix (trimPrefix text '':'') crlf in
        if length bodyText < 6 \<or> length bodyText mod 2 \<noteq> 0 then Inl AsciiHexLength
        else case hex_decode bodyText of None \<Rightarrow> Inl AsciiHexDecode
        | Some body \<Rightarrow>
            let payload = take (length body - 1) body; got = body ! (length body - 1) in
            if got \<noteq> LRC payload then Inl AsciiLrcMismatch
            else decodedFromPayload FrameModeASCII payload)"

definition DecodeFrame :: "frame_mode \<Rightarrow> bytes \<Rightarrow> modbus_error + decodedFrame" where
  "DecodeFrame mode frame =
     (if normalizeFrameMode mode = FrameModeRTU then decodeRTU frame
      else if normalizeFrameMode mode = FrameModeASCII then decodeASCII frame
      else Inl (UnsupportedFrameMode mode))"

section \<open>Request builders\<close>

definition BuildReadRequest :: "function_code \<Rightarrow> u16 \<Rightarrow> u16 \<Rightarrow> modbus_error + pdu" where
  "BuildReadRequest function address quantity =
     (if function \<noteq> FunctionReadCoils \<and> function \<noteq> FunctionReadDiscreteInputs
         \<and> function \<noteq> FunctionReadHoldingRegisters \<and> function \<noteq> FunctionReadInputRegisters
      then Inl (UnsupportedReadFunction function)
      else if quantity = 0 then Inl QuantityNotPositive
      else Inr \<lparr>pduFunction = function, pduData = u16Pair address quantity\<rparr>)"

definition BuildWriteSingleRequest :: "function_code \<Rightarrow> u16 \<Rightarrow> u16 \<Rightarrow> modbus_error + pdu" where
  "BuildWriteSingleRequest function address value =
     (if function = FunctionWriteSingleCoil then
        Inr \<lparr>pduFunction = function,
             pduData = u16Pair address (if value \<noteq> 0 then 0xff00 else value)\<rparr>
      else if function = FunctionWriteSingleRegister then
        Inr \<lparr>pduFunction = function, pduData = u16Pair address value\<rparr>
      else Inl (UnsupportedSingleWrite function))"

definition BuildWriteMultipleCoilsRequest :: "u16 \<Rightarrow> bool list \<Rightarrow> modbus_error + pdu" where
  "BuildWriteMultipleCoilsRequest address values =
     (if values = [] then Inl CoilValuesEmpty
      else if length values > 1968 then Inl TooManyCoils
      else let packed = packBits values in
        Inr \<lparr>pduFunction = FunctionWriteMultipleCoils,
             pduData = u16_bytes address @ u16_bytes (of_nat (length values))
               @ [of_nat (length packed)] @ packed\<rparr>)"

definition BuildWriteMultipleRegistersRequest :: "u16 \<Rightarrow> u16 list \<Rightarrow> modbus_error + pdu" where
  "BuildWriteMultipleRegistersRequest address values =
     (if values = [] then Inl RegisterValuesEmpty
      else if length values > 123 then Inl TooManyRegisters
      else Inr \<lparr>pduFunction = FunctionWriteMultipleRegisters,
             pduData = u16_bytes address @ u16_bytes (of_nat (length values))
               @ [of_nat (length values * 2)] @ concat (map u16_bytes values)\<rparr>)"

text \<open>The \<open>Must\<close> variants panic on an error: \<open>None\<close> is the panic.\<close>

definition must :: "modbus_error + pdu \<Rightarrow> pdu option" where
  "must r = (case r of Inl _ \<Rightarrow> None | Inr p \<Rightarrow> Some p)"

definition MustBuildReadRequest :: "function_code \<Rightarrow> u16 \<Rightarrow> u16 \<Rightarrow> pdu option" where
  "MustBuildReadRequest function address quantity = must (BuildReadRequest function address quantity)"

definition MustBuildWriteSingleRequest :: "function_code \<Rightarrow> u16 \<Rightarrow> u16 \<Rightarrow> pdu option" where
  "MustBuildWriteSingleRequest function address value =
     must (BuildWriteSingleRequest function address value)"

definition MustBuildWriteMultipleCoilsRequest :: "u16 \<Rightarrow> bool list \<Rightarrow> pdu option" where
  "MustBuildWriteMultipleCoilsRequest address values =
     must (BuildWriteMultipleCoilsRequest address values)"

definition MustBuildWriteMultipleRegistersRequest :: "u16 \<Rightarrow> u16 list \<Rightarrow> pdu option" where
  "MustBuildWriteMultipleRegistersRequest address values =
     must (BuildWriteMultipleRegistersRequest address values)"

section \<open>Responses\<close>

definition ParseResponse :: "pdu \<Rightarrow> modbus_error + parsedResponse" where
  "ParseResponse p =
     (let raw = pduBytes p; f = pduFunction p; data = pduData p in
      if f AND exceptionMask \<noteq> 0 then
        (if length data \<noteq> 1 then Inl InvalidException
         else Inr (parsedZero\<lparr>prFunction := f AND NOT exceptionMask, prException := True,
                prExceptionCode := data ! 0, prRaw := raw\<rparr>))
      else
        let response = parsedZero\<lparr>prFunction := f, prRaw := raw\<rparr> in
        if f = FunctionReadCoils \<or> f = FunctionReadDiscreteInputs then
          (if length data < 1 then Inl InvalidBitRead
           else let byteCount = unat (data ! 0) in
             if length (drop 1 data) \<noteq> byteCount then Inl BitCountMismatch
             else Inr (response\<lparr>prBits := unpackBits (drop 1 data) (byteCount * 8)\<rparr>))
        else if f = FunctionReadHoldingRegisters \<or> f = FunctionReadInputRegisters then
          (if length data < 1 then Inl InvalidRegisterRead
           else let byteCount = unat (data ! 0) in
             if byteCount mod 2 \<noteq> 0 \<or> length (drop 1 data) \<noteq> byteCount
             then Inl RegisterCountMismatch
             else Inr (response\<lparr>prValues := bytesToU16s (drop 1 data)\<rparr>))
        else if f = FunctionWriteSingleCoil \<or> f = FunctionWriteSingleRegister then
          (if length data \<noteq> 4 then Inl InvalidSingleWrite
           else Inr (response\<lparr>prAddress := beU16 (take 2 data),
                  prValue := beU16 (take 2 (drop 2 data))\<rparr>))
        else if f = FunctionWriteMultipleCoils \<or> f = FunctionWriteMultipleRegisters then
          (if length data \<noteq> 4 then Inl InvalidMultipleWrite
           else Inr (response\<lparr>prAddress := beU16 (take 2 data),
                  prQuantity := beU16 (take 2 (drop 2 data))\<rparr>))
        else Inl (UnsupportedResponse f))"

section \<open>Addresses\<close>

definition plcBase :: "function_code \<Rightarrow> modbus_error + u16" where
  "plcBase f =
     (if f = FunctionReadCoils \<or> f = FunctionWriteSingleCoil \<or> f = FunctionWriteMultipleCoils
      then Inr 0
      else if f = FunctionReadDiscreteInputs then Inr 10000
      else if f = FunctionReadInputRegisters then Inr 30000
      else if f = FunctionReadHoldingRegisters \<or> f = FunctionWriteSingleRegister
        \<or> f = FunctionWriteMultipleRegisters then Inr 40000
      else Inl (UnsupportedPlcFunction f))"

definition plcRangeMatches :: "function_code \<Rightarrow> u16 \<Rightarrow> bool" where
  "plcRangeMatches f input =
     (if f = FunctionReadCoils \<or> f = FunctionWriteSingleCoil \<or> f = FunctionWriteMultipleCoils
      then 1 \<le> input \<and> input < 10000
      else if f = FunctionReadDiscreteInputs then 10001 \<le> input \<and> input < 20000
      else if f = FunctionReadInputRegisters then 30001 \<le> input \<and> input < 40000
      else if f = FunctionReadHoldingRegisters \<or> f = FunctionWriteSingleRegister
        \<or> f = FunctionWriteMultipleRegisters then 40001 \<le> input \<and> input < 50000
      else False)"

definition ProtocolAddress :: "string \<Rightarrow> function_code \<Rightarrow> u16 \<Rightarrow> modbus_error + u16" where
  "ProtocolAddress mode function input =
     (if mode = [] \<or> mode = AddressModeZeroBased then Inr input
      else if mode \<noteq> AddressModePLC then Inl (UnsupportedAddressMode mode)
      else case plcBase function of Inl e \<Rightarrow> Inl e
      | Inr base \<Rightarrow>
          if input < base + 1 then Inl (PlcBelowBase input (base + 1))
          else let offset = input - base - 1 in
            if \<not> plcRangeMatches function input then Inl (PlcRange input function)
            else Inr offset)"

section \<open>Facts on the byte-level helpers\<close>

lemma join16_hi_lo [simp]: "join16 (hiByte v) (loByte v) = v"
  by (rule bit_word_eqI) (auto simp: join16_def hiByte_def loByte_def bit_simps)

lemma hiByte_join16 [simp]: "hiByte (join16 a b) = a"
  by (rule bit_word_eqI) (auto simp: join16_def hiByte_def loByte_def bit_simps dest: bit_imp_le_length)

lemma loByte_join16 [simp]: "loByte (join16 a b) = b"
  by (rule bit_word_eqI) (auto simp: join16_def hiByte_def loByte_def bit_simps)

lemma join16_inject [simp]: "join16 a b = join16 c d \<longleftrightarrow> a = c \<and> b = d"
  by (metis hiByte_join16 loByte_join16)

lemma u16_bytes_simps [simp]: "length (u16_bytes v) = 2" "u16_bytes v ! 0 = hiByte v" "u16_bytes v ! 1 = loByte v"
  by (simp_all add: u16_bytes_def)

lemma bytesToU16s_concat [simp]: "bytesToU16s (concat (map u16_bytes vs)) = vs"
  by (induction vs) (simp_all add: u16_bytes_def)

lemma length_concat_u16_bytes [simp]: "length (concat (map u16_bytes vs)) = 2 * length vs"
  by (induction vs) simp_all

lemma length_bytesToU16s: "length (bytesToU16s bs) = length bs div 2"
  by (induction bs rule: bytesToU16s.induct) auto

section \<open>The CRC\<close>

lemma crcByte_unfold: "crcByte c b =
    (let f = crcShift; y = c XOR ucast b in f (f (f (f (f (f (f (f y))))))))"
  by (simp add: crcByte_def numeral_eq_Suc Let_def)

lemma crcShift_odd: "crcShift c = (if odd c then drop_bit 1 c XOR 0xa001 else drop_bit 1 c)"
  by (simp add: crcShift_def word_and_1_eq)

lemmas crc_eval = crcByte_unfold crcShift_odd Let_def

lemma crcShift_top: "bit (crcShift c) 15 \<longleftrightarrow> odd c"
  by (auto simp: crcShift_def word_and_1_eq bit_simps dest: bit_imp_le_length)

lemma crcShift_inj: "crcShift a = crcShift b \<Longrightarrow> a = b"
proof -
  assume e: "crcShift a = crcShift b"
  then have o: "odd a = odd b" by (metis crcShift_top)
  show ?thesis
    by (rule even_odd_drop_bit_eq [OF _ o])
       (use e o in \<open>auto simp: crcShift_def word_and_1_eq split: if_splits\<close>)
qed

lemma crcShift_pow_inj: "(crcShift ^^ n) a = (crcShift ^^ n) b \<Longrightarrow> a = b"
  by (induction n) (auto dest: crcShift_inj)

lemma crcByte_inj_crc: "crcByte c x = crcByte d x \<Longrightarrow> c = d"
  by (auto simp: crcByte_def dest!: crcShift_pow_inj)

lemma crcByte_inj_byte: "crcByte c x = crcByte c y \<Longrightarrow> x = y"
  by (auto simp: crcByte_def ucast_byte_u16_inj dest!: crcShift_pow_inj)

lemma foldl_crcByte_inj: "foldl crcByte c xs = foldl crcByte d xs \<Longrightarrow> c = d"
  by (induction xs arbitrary: c d) (auto dest: crcByte_inj_crc)

text \<open>Any change of exactly one byte changes the CRC.\<close>

lemma CRC16_one_byte:
  assumes "i < length xs" and "b \<noteq> xs ! i"
  shows "CRC16 (xs[i := b]) \<noteq> CRC16 xs"
proof
  assume e: "CRC16 (xs[i := b]) = CRC16 xs"
  have "xs = take i xs @ xs ! i # drop (Suc i) xs"
    using assms(1) by (rule id_take_nth_drop)
  moreover have "xs[i := b] = take i xs @ b # drop (Suc i) xs"
    using assms(1) by (rule upd_conv_take_nth_drop)
  ultimately have "CRC16 (take i xs @ b # drop (Suc i) xs) = CRC16 (take i xs @ xs ! i # drop (Suc i) xs)"
    using e by simp
  then have "crcByte (foldl crcByte 0xffff (take i xs)) b
      = crcByte (foldl crcByte 0xffff (take i xs)) (xs ! i)"
    by (auto simp: CRC16_def intro: foldl_crcByte_inj)
  with assms(2) show False by (auto dest: crcByte_inj_byte)
qed

lemma crcShift_pow_low_zero: "(\<And>i. i < n \<Longrightarrow> \<not> bit c i) \<Longrightarrow> (crcShift ^^ n) c = drop_bit n c"
proof (induction n arbitrary: c)
  case 0
  then show ?case by simp
next
  case (Suc n)
  have "\<not> bit c 0" using Suc.prems by blast
  then have step: "crcShift c = drop_bit 1 c"
    by (simp add: crcShift_def word_and_1_eq bit_0)
  have "(crcShift ^^ n) (drop_bit 1 c) = drop_bit n (drop_bit 1 c)"
    by (rule Suc.IH) (use Suc.prems in \<open>simp add: bit_drop_bit_eq\<close>)
  then show ?case by (simp add: funpow_Suc_right step del: funpow.simps)
qed

text \<open>Feeding a register its own two bytes, low byte first, leaves the zero residue.\<close>

lemma crcByte_residue: "crcByte (crcByte c (loByte c)) (hiByte c) = 0"
proof -
  have low: "\<not> bit (c XOR ucast (loByte c)) i" if "i < 8" for i
    using that by (auto simp: loByte_def bit_simps)
  have "crcByte c (loByte c) = drop_bit 8 (c XOR ucast (loByte c))"
    unfolding crcByte_def by (rule crcShift_pow_low_zero) (rule low)
  also have "\<dots> = ucast (hiByte c)"
    by (rule bit_word_eqI) (auto simp: hiByte_def loByte_def bit_simps dest: bit_imp_le_length)
  finally show ?thesis
    by (simp add: crcByte_def crcShift_pow_low_zero)
qed

lemma CRC16_residue: "CRC16 (xs @ [loByte (CRC16 xs), hiByte (CRC16 xs)]) = 0"
  by (simp add: CRC16_def crcByte_residue)

section \<open>Framing\<close>

lemma decodedFromPayload_pdu [simp]:
  "decodedFromPayload m (u # pduBytes p) = Inr \<lparr>dfMode = m, dfUnitID = u, dfPDU = p\<rparr>"
  by (simp add: decodedFromPayload_def pduBytes_def)

lemma trim_delimiters [simp]: "trimSuffix (trimPrefix ('':'' @ body @ crlf) '':'') crlf = body"
proof -
  have "has_prefix ('':'' @ body @ crlf) '':''" by simp
  moreover have "has_suffix (body @ crlf) crlf" by (auto simp: has_suffix_iff)
  ultimately show ?thesis by (simp add: trimPrefix_def trimSuffix_def)
qed

lemma decodeASCII_wire:
  "decodeASCII (bytes_of ('':'' @ body @ crlf)) =
     (if length body < 6 \<or> length body mod 2 \<noteq> 0 then Inl AsciiHexLength
      else case hex_decode body of None \<Rightarrow> Inl AsciiHexDecode
      | Some bs \<Rightarrow> if bs ! (length bs - 1) \<noteq> LRC (take (length bs - 1) bs) then Inl AsciiLrcMismatch
          else decodedFromPayload FrameModeASCII (take (length bs - 1) bs))"
proof -
  have "has_prefix ('':'' @ body @ crlf) '':''" "has_suffix ('':'' @ body @ crlf) crlf"
    by (auto simp: has_suffix_iff)
  then show ?thesis
    unfolding decodeASCII_def Let_def string_of_bytes_of trim_delimiters by simp
qed

lemma crlf_bytes: "[13, 10] = bytes_of crlf"
  by (simp add: crlf_def)

lemma EncodeFrame_cases:
  assumes "EncodeFrame m u p = Inr w"
  obtains (rtu) "normalizeFrameMode m = FrameModeRTU" "u \<noteq> 0"
      "w = (u # pduBytes p) @ [loByte (CRC16 (u # pduBytes p)), hiByte (CRC16 (u # pduBytes p))]"
    | (ascii) "normalizeFrameMode m = FrameModeASCII" "u \<noteq> 0"
      "w = bytes_of ('':'' @ to_upper (hex_encode ((u # pduBytes p) @ [LRC (u # pduBytes p)])) @ crlf)"
  using assms by (auto simp: EncodeFrame_def Let_def crlf_bytes split: if_splits)

lemma decodeRTU_wire:
  "decodeRTU (xs @ [loByte c, hiByte c]) =
     (if length xs < 2 then Inl RtuTooShort else if c \<noteq> CRC16 xs then Inl RtuCrcMismatch
      else decodedFromPayload FrameModeRTU xs)"
  by (simp add: decodeRTU_def nth_append Suc_diff_Suc)

lemma frame_decode_encode:
  assumes "EncodeFrame m u p = Inr w"
  shows "DecodeFrame m w = Inr \<lparr>dfMode = normalizeFrameMode m, dfUnitID = u, dfPDU = p\<rparr>"
  using assms
proof (cases rule: EncodeFrame_cases)
  case rtu
  then show ?thesis by (simp add: DecodeFrame_def decodeRTU_wire del: append.simps) (simp add: pduBytes_def)
next
  case ascii
  then show ?thesis
    by (simp add: DecodeFrame_def decodeASCII_wire wire_simps del: append.simps bytes_of_append)
       (simp add: pduBytes_def)
qed

interpretation wire: frame_codec "\<lambda>(u, p). EncodeFrame m u p" "DecodeFrame m"
    "\<lambda>(u, p). \<lparr>dfMode = normalizeFrameMode m, dfUnitID = u, dfPDU = p\<rparr>" for m
  by unfold_locales (auto dest: frame_decode_encode)

lemma decodeRTU_corrupt:
  assumes "decodeRTU w = Inr d" and "i < length w" and "b \<noteq> w ! i"
  shows "decodeRTU (w[i := b]) = Inl RtuCrcMismatch"
proof -
  from assms(1) have "2 \<le> length w" by (auto simp: decodeRTU_def split: if_splits)
  then obtain xs lo hi where w: "w = xs @ [lo, hi]" by (rule split_snoc2)
  define c where "c = join16 hi lo"
  have w': "w = xs @ [loByte c, hiByte c]" by (simp add: w c_def)
  from assms(1) have c: "c = CRC16 xs" "2 \<le> length xs"
    by (auto simp: w' decodeRTU_wire split: if_splits)
  show ?thesis
  proof (cases "i < length xs")
    case True
    then have "w[i := b] = xs[i := b] @ [loByte c, hiByte c]" by (simp add: w' list_update_append)
    moreover have "CRC16 (xs[i := b]) \<noteq> CRC16 xs"
      by (rule CRC16_one_byte) (use True assms(3) w' in \<open>simp_all add: nth_append\<close>)
    ultimately show ?thesis using c by (simp add: decodeRTU_wire)
  next
    case False
    then have "i = length xs \<or> i = Suc (length xs)" using assms(2) w by auto
    then consider "w[i := b] = xs @ [b, hi]" "b \<noteq> lo" | "w[i := b] = xs @ [lo, b]" "b \<noteq> hi"
      using assms(3) w by (fastforce simp: list_update_append nth_append)
    then show ?thesis
    proof cases
      case 1
      then have "w[i := b] = xs @ [loByte (join16 hi b), hiByte (join16 hi b)]" by simp
      then show ?thesis using 1 c by (simp only: decodeRTU_wire) (simp add: c_def flip: c(1))
    next
      case 2
      then have "w[i := b] = xs @ [loByte (join16 b lo), hiByte (join16 b lo)]" by simp
      then show ?thesis using 2 c by (simp only: decodeRTU_wire) (simp add: c_def flip: c(1))
    qed
  qed
qed

interpretation rtu: guarded_codec "\<lambda>(u, p). EncodeFrame FrameModeRTU u p" "DecodeFrame FrameModeRTU"
    "\<lambda>(u, p). \<lparr>dfMode = FrameModeRTU, dfUnitID = u, dfPDU = p\<rparr>"
proof unfold_locales
  fix f :: "byte \<times> pdu" and w
  assume "(case f of (u, p) \<Rightarrow> EncodeFrame FrameModeRTU u p) = Inr w"
  moreover have n: "normalizeFrameMode FrameModeRTU = FrameModeRTU"
    by (simp add: normalizeFrameMode_def wire_simps lower_char_def ascii_upper_def)
  ultimately show "DecodeFrame FrameModeRTU w
      = Inr (case f of (u, p) \<Rightarrow> \<lparr>dfMode = FrameModeRTU, dfUnitID = u, dfPDU = p\<rparr>)"
    by (auto dest: frame_decode_encode split: prod.splits)
  fix i b
  assume "(case f of (u, p) \<Rightarrow> EncodeFrame FrameModeRTU u p) = Inr w" "i < length w" "b \<noteq> w ! i"
  then show "\<not> is_ok (DecodeFrame FrameModeRTU (w[i := b]))"
    using frame_decode_encode [of FrameModeRTU _ _ w] n
    by (auto simp: DecodeFrame_def dest!: frame_decode_encode decodeRTU_corrupt split: prod.splits)
qed

section \<open>Packed bits\<close>

definition bitAt :: "bytes \<Rightarrow> nat \<Rightarrow> bool" where
  "bitAt bs j = bit (bs ! (j div 8)) (j mod 8)"

lemma unpackBits_bitAt: "unpackBits data count = map (bitAt data) [0..<count]"
  by (simp add: unpackBits_def bitAt_def bit_iff_and_push_bit_not_eq_0)

lemma length_packFrom [simp]: "length (packFrom i vs out) = length out"
  by (induction i vs out rule: packFrom.induct) auto

lemma bitAt_set:
  assumes "i div 8 < length out" and "j div 8 < length out"
  shows "bitAt (out[i div 8 := out ! (i div 8) OR push_bit (i mod 8) 1]) j \<longleftrightarrow> bitAt out j \<or> j = i"
proof (cases "j div 8 = i div 8")
  case True
  then have "j = i \<longleftrightarrow> j mod 8 = i mod 8" by (metis mult_div_mod_eq)
  then show ?thesis using True assms by (auto simp: bitAt_def bit_simps)
qed (auto simp: bitAt_def)

lemma bitAt_packFrom:
  assumes "i + length vs \<le> 8 * length out" and "j < 8 * length out"
  shows "bitAt (packFrom i vs out) j
    \<longleftrightarrow> bitAt out j \<or> (i \<le> j \<and> j < i + length vs \<and> vs ! (j - i))"
  using assms
proof (induction i vs out rule: packFrom.induct)
  case (2 i v vs out)
  define out' where "out' = (if v then out[i div 8 := out ! (i div 8) OR push_bit (i mod 8) 1] else out)"
  have len: "length out' = length out" by (simp add: out'_def)
  have "bitAt (packFrom (Suc i) vs out') j
    \<longleftrightarrow> bitAt out' j \<or> (Suc i \<le> j \<and> j < Suc i + length vs \<and> vs ! (j - Suc i))"
    unfolding out'_def by (rule 2) (use 2 in \<open>simp_all add: if_distrib [of length]\<close>)
  moreover have "bitAt out' j \<longleftrightarrow> bitAt out j \<or> (v \<and> j = i)"
  proof -
    have "i div 8 < length out" "j div 8 < length out" using 2 by simp_all
    from bitAt_set [OF this] show ?thesis by (auto simp: out'_def)
  qed
  ultimately have step: "bitAt (packFrom i (v # vs) out) j
    \<longleftrightarrow> (bitAt out j \<or> (v \<and> j = i)) \<or> (Suc i \<le> j \<and> j < Suc i + length vs \<and> vs ! (j - Suc i))"
    by (simp add: out'_def)
  consider "j < i" | "j = i" | k where "j = Suc (i + k)" by (metis less_imp_Suc_add not_less_iff_gr_or_eq)
  then show ?case unfolding step by cases auto
qed auto

lemma length_packBits [simp]: "length (packBits vs) = (length vs + 7) div 8"
  by (simp add: packBits_def)

lemma bitAt_packBits: "j < 8 * length (packBits vs) \<Longrightarrow> bitAt (packBits vs) j \<longleftrightarrow> j < length vs \<and> vs ! j"
  unfolding packBits_def by (subst bitAt_packFrom) (auto simp: bitAt_def)

lemma take_unpack_pack:
  assumes "length vs \<le> n" and "n \<le> 8 * length (packBits vs)"
  shows "unpackBits (packBits vs) n = vs @ replicate (n - length vs) False"
proof (rule nth_equalityI)
  show "length (unpackBits (packBits vs) n) = length (vs @ replicate (n - length vs) False)"
    using assms by (simp add: unpackBits_bitAt)
  fix i
  assume "i < length (unpackBits (packBits vs) n)"
  then have i: "i < n" by (simp add: unpackBits_bitAt)
  with assms have "bitAt (packBits vs) i \<longleftrightarrow> i < length vs \<and> vs ! i"
    by (intro bitAt_packBits) simp
  with i show "unpackBits (packBits vs) n ! i = (vs @ replicate (n - length vs) False) ! i"
    by (auto simp: unpackBits_bitAt nth_append)
qed

text \<open>packing bits into bytes and reading the same number of bits back returns the bits.\<close>

theorem unpack_pack: "unpackBits (packBits vs) (length vs) = vs"
proof -
  have "length vs \<le> 8 * length (packBits vs)" by simp
  from take_unpack_pack [OF order_refl this] show ?thesis by simp
qed

section \<open>Substitution of one character of an ASCII frame\<close>

lemma hex_decode_update:
  assumes "hex_decode s = Some bs" and "i < length s"
  shows "hex_decode (s[i := c]) = None
    \<or> (\<exists>b. hex_decode (s[i := c]) = Some (bs[i div 2 := b]))"
  using assms
proof (induction s arbitrary: bs i rule: hex_decode.induct)
  case (3 x y s)
  note IH = 3(1) and prems = 3(2,3)
  from prems(1) obtain h l cs where hl: "hex_value x = Some h" "hex_value y = Some l" "hex_decode s = Some cs"
      "bs = of_nat (16 * h + l) # cs"
    by (auto split: option.splits)
  consider "i = 0" | "i = 1" | j where "i = Suc (Suc j)" by (metis One_nat_def not0_implies_Suc)
  then show ?case
  proof cases
    case 3
    with prems(2) have "j < length s" by simp
    from IH [OF refl hl(1,2,3) this] have "hex_decode (s[j := c]) = None
      \<or> (\<exists>b. hex_decode (s[j := c]) = Some (cs[j div 2 := b]))" by (simp add: hl)
    then show ?thesis by (auto simp: 3 hl)
  qed (auto simp: hl split: option.splits)
qed auto

lemma sum_update:
  "i < length xs \<Longrightarrow> foldl (+) a (xs[i := b]) = foldl (+) a xs - xs ! i + (b :: byte)"
proof (induction xs arbitrary: a i)
  case (Cons x xs)
  have shift: "foldl (+) (a + d) ys = foldl (+) a ys + d" for a d :: byte and ys
    by (induction ys arbitrary: a) (simp_all add: ac_simps, metis (no_types) add.commute add.left_commute)
  show ?case
    using Cons shift [of "a + x" "b - x" xs] by (cases i) (simp_all add: algebra_simps)
qed simp

lemma LRC_update: "i < length xs \<Longrightarrow> LRC (xs[i := b]) = LRC xs + xs ! i - b"
  by (simp add: LRC_def sum_update)

lemma LRC_trailer_corrupt:
  assumes "k < length (xs @ [LRC xs])" and "b \<noteq> (xs @ [LRC xs]) ! k"
  shows "((xs @ [LRC xs])[k := b]) ! length xs \<noteq> LRC (take (length xs) ((xs @ [LRC xs])[k := b]))"
proof (cases "k < length xs")
  case True
  with assms(2) have "xs ! k - b \<noteq> 0" by (simp add: nth_append)
  then have "LRC xs \<noteq> LRC xs + (xs ! k - b)" by (metis add_left_cancel add.right_neutral)
  with True show ?thesis by (simp add: list_update_append LRC_update nth_append add_diff_eq)
next
  case False
  with assms show ?thesis by (simp add: list_update_append nth_append)
qed

lemma string_of_update: "i < length w \<Longrightarrow> string_of (w[i := b]) = (string_of w)[i := char_of (unat b)]"
  by (simp add: string_of_def map_update)

lemma bytes_of_update: "(bytes_of t)[i := b] = bytes_of (t[i := char_of (unat b)])"
proof -
  have "[b] = bytes_of (string_of [b])" by simp
  also have "\<dots> = [of_char (char_of (unat b))]" by (simp add: string_of_def)
  finally show ?thesis by (simp add: bytes_of_def map_update)
qed

lemma decodeASCII_bad_delimiters:
  "\<not> has_prefix t '':'' \<or> \<not> has_suffix t crlf \<Longrightarrow> decodeASCII (bytes_of t) = Inl AsciiDelimiters"
  by (auto simp: decodeASCII_def Let_def)

lemma has_suffix_crlf [simp]: "has_suffix (xs @ [a, b]) crlf \<longleftrightarrow> a = CHR 13 \<and> b = CHR 10"
  by (auto simp: has_suffix_def crlf_def)

lemma ascii_body_corrupt:
  assumes "i < length (to_upper (hex_encode (xs @ [LRC xs])))"
  shows "decodeASCII (bytes_of ('':'' @ (to_upper (hex_encode (xs @ [LRC xs])))[i := c] @ crlf))
      = decodeASCII (bytes_of ('':'' @ to_upper (hex_encode (xs @ [LRC xs])) @ crlf))
    \<or> \<not> is_ok (decodeASCII (bytes_of ('':'' @ (to_upper (hex_encode (xs @ [LRC xs])))[i := c] @ crlf)))"
proof -
  let ?bs = "xs @ [LRC xs]" and ?s = "to_upper (hex_encode (xs @ [LRC xs]))"
  have "hex_decode ?s = Some ?bs" by (rule hex_decode_upper_encode)
  from hex_decode_update [OF this assms, of c] show ?thesis
  proof (elim disjE exE)
    fix b
    assume 2: "hex_decode (?s[i := c]) = Some (?bs[i div 2 := b])"
    have k: "i div 2 < length ?bs" using assms by simp
    show ?thesis
    proof (cases "b = ?bs ! (i div 2)")
      case True
      with 2 show ?thesis unfolding decodeASCII_wire by (simp del: hex_encode_simps)
    next
      case False
      from LRC_trailer_corrupt [OF k this] 2 show ?thesis unfolding decodeASCII_wire
        by (simp del: hex_encode_simps)
    qed
  qed (simp add: decodeASCII_wire del: bytes_of_append append.simps)
qed

lemma ascii_substitution_wire:
  assumes "t = '':'' @ to_upper (hex_encode (xs @ [LRC xs])) @ crlf" and "i < length t"
  shows "decodeASCII (bytes_of (t[i := c])) = decodeASCII (bytes_of t)
    \<or> \<not> is_ok (decodeASCII (bytes_of (t[i := c])))"
proof -
  let ?s = "to_upper (hex_encode (xs @ [LRC xs]))"
  have t: "t = CHR '':'' # ?s @ [CHR 13, CHR 10]" by (simp add: assms crlf_def)
  consider "i = 0" | j where "i = Suc j" "j < length ?s" | "i = Suc (length ?s)" | "i = Suc (Suc (length ?s))"
    using assms(2) unfolding t by (cases i) (force simp del: length_to_upper)+
  then show ?thesis
  proof cases
    case 1
    show ?thesis
    proof (cases "c = CHR '':''")
      case False
      with 1 have "\<not> has_prefix (t[i := c]) '':''" by (simp add: t)
      then show ?thesis by (simp add: decodeASCII_bad_delimiters del: has_prefix.simps)
    qed (simp add: t 1)
  next
    case 2
    with ascii_body_corrupt [of j xs c] show ?thesis by (simp add: t list_update_append crlf_def)
  next
    case 3
    then have e: "t[i := c] = (CHR '':'' # ?s) @ [c, CHR 10]" by (simp add: t list_update_append)
    show ?thesis
    proof (cases "c = CHR 13")
      case False
      then have "\<not> has_suffix (t[i := c]) crlf" unfolding e has_suffix_crlf by simp
      then show ?thesis by (simp add: decodeASCII_bad_delimiters)
    next
      case True
      then have "t[i := c] = t" using e t by simp
      then show ?thesis by simp
    qed
  next
    case 4
    then have e: "t[i := c] = (CHR '':'' # ?s) @ [CHR 13, c]" by (simp add: t list_update_append)
    show ?thesis
    proof (cases "c = CHR 10")
      case False
      then have "\<not> has_suffix (t[i := c]) crlf" unfolding e has_suffix_crlf by simp
      then show ?thesis by (simp add: decodeASCII_bad_delimiters)
    next
      case True
      then have "t[i := c] = t" using e t by simp
      then show ?thesis by simp
    qed
  qed
qed

section \<open>Correctness of the wire layer\<close>

lemma normalize_RTU [simp]: "normalizeFrameMode FrameModeRTU = FrameModeRTU"
  by (simp add: normalizeFrameMode_def wire_simps lower_char_def ascii_upper_def)

lemma normalize_ASCII [simp]: "normalizeFrameMode FrameModeASCII = FrameModeASCII"
  by (simp add: normalizeFrameMode_def wire_simps lower_char_def ascii_upper_def)

text \<open>C6: whatever \<open>EncodeFrame\<close> puts on the wire, in either framing mode, \<open>DecodeFrame\<close> in the
  same mode reads back as the unit and the PDU that were sent.\<close>

theorem decode_encoded_frame:
  assumes "EncodeFrame mode unitID p = Inr w"
  shows "DecodeFrame mode w = Inr \<lparr>dfMode = normalizeFrameMode mode, dfUnitID = unitID, dfPDU = p\<rparr>"
  using wire.decode_encode [of mode "(unitID, p)" w] assms by simp

theorem decode_encoded_frame_witness:
  "\<exists>w. EncodeFrame ''ASCII'' 17 \<lparr>pduFunction = 3, pduData = [0, 107, 0, 3]\<rparr> = Inr w
    \<and> DecodeFrame ''ASCII'' w = Inr \<lparr>dfMode = ''ascii'', dfUnitID = 17,
        dfPDU = \<lparr>pduFunction = 3, pduData = [0, 107, 0, 3]\<rparr>\<rparr>"
proof -
  have n: "normalizeFrameMode ''ASCII'' = ''ascii''"
    by code_simp
  have "is_ok (EncodeFrame ''ASCII'' 17 \<lparr>pduFunction = 3, pduData = [0, 107, 0, 3]\<rparr>)"
    by (simp add: EncodeFrame_def n wire_simps Let_def)
  then show ?thesis unfolding is_ok_iff using decode_encoded_frame n by metis
qed

text \<open>C5: the RTU framing detects every corruption of a single byte: a frame that left
  \<open>EncodeFrame\<close> and in which exactly one byte was changed is rejected by \<open>DecodeFrame\<close>.\<close>

theorem rtu_detects_corruption:
  assumes "EncodeFrame FrameModeRTU unitID p = Inr w" and "i < length w" and "b \<noteq> w ! i"
  shows "\<not> is_ok (DecodeFrame FrameModeRTU (w[i := b]))"
  using rtu.detects [of "(unitID, p)" w i b] assms by simp

theorem rtu_detects_corruption_witness:
  "\<exists>w. EncodeFrame FrameModeRTU 1 \<lparr>pduFunction = 5, pduData = [0, 1, 255, 0]\<rparr> = Inr w
    \<and> \<not> is_ok (DecodeFrame FrameModeRTU (w[3 := 9]))"
proof -
  obtain w where w: "EncodeFrame FrameModeRTU 1 \<lparr>pduFunction = 5, pduData = [0, 1, 255, 0]\<rparr> = Inr w"
      and "3 < length w" "9 \<noteq> w ! 3"
    by (simp add: EncodeFrame_def Let_def pduBytes_def)
  with rtu_detects_corruption [OF w, of 3 9] show ?thesis by blast
qed

text \<open>in an ASCII frame the replacement of any one character is rejected, or it only changes
  the case of a hexadecimal digit and the frame decodes exactly as it was sent.\<close>

theorem ascii_substitution:
  assumes "EncodeFrame FrameModeASCII unitID p = Inr w" and "i < length w"
  shows "DecodeFrame FrameModeASCII (w[i := b]) = DecodeFrame FrameModeASCII w
    \<or> \<not> is_ok (DecodeFrame FrameModeASCII (w[i := b]))"
proof -
  have ne: "FrameModeASCII \<noteq> FrameModeRTU" by (simp add: wire_simps)
  from assms(1) show ?thesis
  proof (cases rule: EncodeFrame_cases)
    case ascii
    let ?t = "'':'' @ to_upper (hex_encode ((unitID # pduBytes p) @ [LRC (unitID # pduBytes p)])) @ crlf"
    have "i < length ?t" using assms(2) ascii(3) by (simp del: hex_encode_simps)
    from ascii_substitution_wire [OF refl this] ne show ?thesis
      by (simp only: ascii(3) bytes_of_update DecodeFrame_def normalize_ASCII simp_thms if_False if_True)
  qed (simp add: ne)
qed

theorem ascii_substitution_witness:
  "\<exists>w. EncodeFrame FrameModeASCII 1 \<lparr>pduFunction = 3, pduData = [10]\<rparr> = Inr w
    \<and> (DecodeFrame FrameModeASCII (w[6 := 97]) = DecodeFrame FrameModeASCII w
      \<or> \<not> is_ok (DecodeFrame FrameModeASCII (w[6 := 97])))"
proof -
  obtain w where w: "EncodeFrame FrameModeASCII 1 \<lparr>pduFunction = 3, pduData = [10]\<rparr> = Inr w"
      and "6 < length w"
    by (simp add: EncodeFrame_def Let_def pduBytes_def wire_simps normalizeFrameMode_def
        lower_char_def ascii_upper_def)
  with ascii_substitution [OF w, of 6 97] show ?thesis by blast
qed

lemma unat_sub: "b \<le> a \<Longrightarrow> unat (a - b) = unat a - unat (b :: u16)"
  by (simp add: unat_sub_if_size word_le_nat_alt)

text \<open>the conversion of a PLC address is exact: it succeeds for the 9999 addresses of the
  function's table and for no other, and yields the zero-based offset in the table.\<close>

theorem plc_address_exact:
  "ProtocolAddress AddressModePLC f a = Inr offset \<longleftrightarrow>
     (\<exists>base. plcBase f = Inr base \<and> unat base < unat a \<and> unat a < unat base + 10000
       \<and> unat offset = unat a - unat base - 1)"
proof -
  have plc: "AddressModePLC \<noteq> []" "AddressModePLC \<noteq> AddressModeZeroBased"
    by (simp_all add: wire_simps)
  have main: "(if a < base + 1 then Inl (PlcBelowBase a (base + 1))
        else let offset = a - base - 1 in
          if \<not> plcRangeMatches f a then Inl (PlcRange a f) else Inr offset) = (Inr offset :: modbus_error + u16)
      \<longleftrightarrow> unat base < unat a \<and> unat a < unat base + 10000 \<and> unat offset = unat a - unat base - 1"
    if b: "plcBase f = Inr base" for base
  proof -
    have lt: "unat base < 50000" and succ: "unat (base + 1) = unat base + 1"
      using b by (auto simp: plcBase_def split: if_splits)
    have r: "plcRangeMatches f a \<longleftrightarrow> unat base < unat a \<and> unat a < unat base + 10000"
      using b by (auto simp: plcBase_def plcRangeMatches_def word_le_nat_alt word_less_nat_alt split: if_splits)
    have d: "unat (a - base - 1) = unat a - unat base - 1" if "\<not> a < base + 1"
      using that succ unat_sub [of "base + 1" a] by (simp add: diff_diff_eq not_less)
    show ?thesis unfolding Let_def r
      using d succ by (auto simp: word_less_nat_alt word_unat_eq_iff)
  qed
  show ?thesis
    by (cases "plcBase f") (simp_all add: ProtocolAddress_def plc main)
qed

end
