(* ===== verification/FecbusProtocol.thy ===== *)
theory FecbusProtocol
  imports ModbusProtocol
begin

text \<open>
  The wire layer of package \<open>fecbus\<close> (\<open>internal/modules/serial/fecbus/protocol.go\<close> and
  \<open>function.go\<close>): the catalogue of function codes, the validation, encoding and decoding of frames,
  the status answers, and the extraction of a frame from a stream of bytes. Names in Chinese are
  given by the bytes of their encoding. The checksum is the loop of the Modbus package, of which the
  source has a second copy.
\<close>

section \<open>Function codes\<close>

record functionInfo =
  fiCode :: byte
  fiHex :: string
  fiName :: string
  fiDescription :: string
  fiDirection :: string
  fiAnswer :: bool
  fiCustom :: bool
  fiReserved :: bool

definition named :: "byte \<Rightarrow> string \<Rightarrow> string \<Rightarrow> string \<Rightarrow> string \<Rightarrow> bool \<Rightarrow> functionInfo" where
  "named code hex name description direction answer = \<lparr>fiCode = code, fiHex = hex, fiName = name,
     fiDescription = description, fiDirection = direction, fiAnswer = answer, fiCustom = False,
     fiReserved = False\<rparr>"

definition namedFunctions :: "functionInfo list" where
  "namedFunctions = [
    named 0 ''00H'' (string_of [0xE5, 0x90, 0x8C, 0xE6, 0xAD, 0xA5, 0xE7, 0xB3, 0xBB, 0xE7, 0xBB, 0x9F, 0xE8, 0x8A, 0x82, 0xE6, 0x8B, 0x8D])
      ''Controller broadcasts sync heartbeat.'' ''controller_to_device'' True,
    named 1 ''01H'' (string_of [0xE7, 0xB3, 0xBB, 0xE7, 0xBB, 0x9F, 0xE5, 0xA4, 0x8D, 0xE4, 0xBD, 0x8D])
      ''Controller resets selected system scope.'' ''controller_to_device'' True,
    named 2 ''02H'' (string_of [0xE7, 0xB3, 0xBB, 0xE7, 0xBB, 0x9F, 0xE6, 0xB6, 0x88, 0xE9, 0x9F, 0xB3])
      ''Controller silences selected system scope.'' ''controller_to_device'' True,
    named 3 ''03H'' (string_of [0xE7, 0xB3, 0xBB, 0xE7, 0xBB, 0x9F, 0xE8, 0x87, 0xAA, 0xE6, 0xA3, 0x80])
      ''Controller starts self test.'' ''controller_to_device'' True,
    named 4 ''04H'' (string_of [0xE5, 0xB9, 0xBF, 0xE6, 0x92, 0xAD, 0xE6, 0x97, 0xB6, 0xE9, 0x92, 0x9F])
      ''Controller broadcasts clock.'' ''controller_to_device'' True,
    named 5 ''05H'' (string_of [0xE9, 0x80, 0x9A, 0xE5, 0x91, 0x8A, 0xE7, 0xB4, 0xA7, 0xE6, 0x80, 0xA5, 0xE4, 0xBA, 0x8B, 0xE4, 0xBB, 0xB6])
      ''Controller notifies device urgent event.'' ''controller_to_device'' True,
    named 6 ''06H'' (string_of [0xE9, 0x80, 0x9A, 0xE5, 0x91, 0x8A, 0xE4, 0xB8, 0x80, 0xE8, 0x88, 0xAC, 0xE4, 0xBA, 0x8B, 0xE4, 0xBB, 0xB6])
      ''Controller notifies device general event.'' ''controller_to_device'' True,
    named 7 ''07H'' (string_of [0xE9, 0x80, 0x9A, 0xE5, 0x91, 0x8A, 0xE8, 0xB0, 0x83, 0xE8, 0xAF, 0x95, 0xE4, 0xBA, 0x8B, 0xE4, 0xBB, 0xB6])
      ''Controller notifies device debug event.'' ''controller_to_device'' True,
    named 15 ''0FH'' (string_of [0xE7, 0x8A, 0xB6, 0xE6, 0x80, 0x81, 0xE5, 0xBA, 0x94, 0xE7, 0xAD, 0x94])
      ''Status answer or end-frame flag.'' ''bidirectional'' False,
    named 17 ''11H'' (string_of [0xE8, 0xAE, 0xBE, 0xE5, 0xA4, 0x87, 0xE7, 0xB4, 0xA7, 0xE6, 0x80, 0xA5, 0xE4, 0xBA, 0x8B, 0xE4, 0xBB, 0xB6, 0xE9, 0x80, 0x9A, 0xE5, 0x91, 0x8A])
      ''Device notifies controller urgent event.'' ''device_to_controller'' True,
    named 18 ''12H'' (string_of [0xE8, 0xAE, 0xBE, 0xE5, 0xA4, 0x87, 0xE4, 0xB8, 0x80, 0xE8, 0x88, 0xAC, 0xE4, 0xBA, 0x8B, 0xE4, 0xBB, 0xB6, 0xE9, 0x80, 0x9A, 0xE5, 0x91, 0x8A])
      ''Device notifies controller general event.'' ''device_to_controller'' True,
    named 19 ''13H'' (string_of [0xE8, 0xAE, 0xBE, 0xE5, 0xA4, 0x87, 0xE8, 0xB0, 0x83, 0xE8, 0xAF, 0x95, 0xE4, 0xBA, 0x8B, 0xE4, 0xBB, 0xB6, 0xE9, 0x80, 0x9A, 0xE5, 0x91, 0x8A])
      ''Device notifies controller debug event.'' ''device_to_controller'' True,
    named 20 ''14H'' (string_of [0xE9, 0x80, 0x9A, 0xE5, 0x91, 0x8A, 0xE5, 0xBF, 0x83, 0xE8, 0xB7, 0xB3])
      ''Controller communication heartbeat/poll information.'' ''device_to_controller'' True,
    named 33 ''21H'' (string_of [0xE8, 0xAE, 0xBE, 0xE5, 0xA4, 0x87, 0xE5, 0xB7, 0xA1, 0xE6, 0xA3, 0x80])
      ''Poll electrical control device connection status.'' ''controller_to_device'' True,
    named 34 ''22H'' (string_of [0xE6, 0x9F, 0xA5, 0xE8, 0xAE, 0xBE, 0xE5, 0xA4, 0x87, 0xE7, 0x8A, 0xB6, 0xE6, 0x80, 0x81])
      ''Query device status.'' ''controller_to_device'' True,
    named 35 ''23H'' (string_of [0xE6, 0x9F, 0xA5, 0xE8, 0xAE, 0xBE, 0xE5, 0xA4, 0x87, 0xE9, 0x85, 0x8D, 0xE7, 0xBD, 0xAE])
      ''Query device configuration.'' ''controller_to_device'' True,
    named 36 ''24H'' (string_of [0xE6, 0x9F, 0xA5, 0xE8, 0xAE, 0xBE, 0xE5, 0xA4, 0x87, 0xE6, 0xA0, 0x87, 0xE8, 0xAF, 0x86])
      ''Query device identifier.'' ''controller_to_device'' True,
    named 37 ''25H'' (string_of [0xE6, 0x9F, 0xA5, 0xE8, 0xAE, 0xBE, 0xE5, 0xA4, 0x87, 0xE5, 0x8F, 0x82, 0xE9, 0x87, 0x8F])
      ''Query device parameter.'' ''controller_to_device'' True,
    named 38 ''26H'' (string_of [0xE6, 0x9F, 0xA5, 0xE8, 0xAE, 0xBE, 0xE5, 0xA4, 0x87, 0xE6, 0xB3, 0xA8, 0xE9, 0x87, 0x8A])
      ''Query device comment.'' ''controller_to_device'' True,
    named 39 ''27H'' (string_of [0xE6, 0x9F, 0xA5, 0xE8, 0xAE, 0xBE, 0xE5, 0xA4, 0x87, 0xE7, 0xBC, 0x96, 0xE7, 0xA8, 0x8B])
      ''Query device programming.'' ''controller_to_device'' True,
    named 40 ''28H'' (string_of [0xE6, 0x9F, 0xA5, 0xE6, 0xB3, 0xA8, 0xE5, 0x86, 0x8C, 0xE7, 0x99, 0xBB, 0xE8, 0xAE, 0xB0, 0xE4, 0xBF, 0xA1, 0xE6, 0x81, 0xAF])
      ''Query registration information.'' ''controller_to_device'' True,
    named 41 ''29H'' (string_of [0xE6, 0x9F, 0xA5, 0xE8, 0xAE, 0xBE, 0xE5, 0xA4, 0x87, 0xE5, 0xBD, 0x93, 0xE5, 0x89, 0x8D, 0xE4, 0xBA, 0x8B, 0xE4, 0xBB, 0xB6])
      ''Query current device event.'' ''controller_to_device'' True,
    named 42 ''2AH'' (string_of [0xE6, 0x9F, 0xA5, 0xE8, 0xAE, 0xBE, 0xE5, 0xA4, 0x87, 0xE5, 0x8E, 0x86, 0xE5, 0x8F, 0xB2, 0xE4, 0xBA, 0x8B, 0xE4, 0xBB, 0xB6])
      ''Query historical device event.'' ''controller_to_device'' True,
    named 43 ''2BH'' (string_of [0xE5, 0x81, 0x9C, 0xE6, 0xAD, 0xA2, 0xE6, 0x9F, 0xA5, 0xE8, 0xAF, 0xA2, 0xE8, 0xAE, 0xBE, 0xE5, 0xA4, 0x87, 0xE4, 0xBA, 0x8B, 0xE4, 0xBB, 0xB6])
      ''Stop querying device events.'' ''controller_to_device'' True,
    named 44 ''2CH'' (string_of [0xE6, 0x9F, 0xA5, 0x20, 0x46, 0x45, 0x43, 0x62, 0x75, 0x73, 0x20, 0xE5, 0x8D, 0x8F, 0xE8, 0xAE, 0xAE, 0xE7, 0x89, 0x88, 0xE6, 0x9C, 0xAC, 0xE5, 0x8F, 0xB7])
      ''Query FECbus protocol version.'' ''controller_to_device'' True,
    named 45 ''2DH'' (string_of [0xE6, 0x9F, 0xA5, 0xE8, 0xAE, 0xBE, 0xE5, 0xA4, 0x87, 0xE5, 0x88, 0x97, 0xE8, 0xA1, 0xA8])
      ''Query device list.'' ''controller_to_device'' True
  ]"

definition customName :: string where
  "customName = (string_of [0xE7, 0x94, 0xA8, 0xE6, 0x88, 0xB7, 0xE8, 0x87, 0xAA, 0xE5, 0xAE, 0x9A, 0xE4, 0xB9, 0x89])"

definition reservedName :: string where
  "reservedName = (string_of [0xE9, 0xA2, 0x84, 0xE7, 0x95, 0x99])"

definition isCustomFunction :: "byte \<Rightarrow> bool" where
  "isCustomFunction value \<longleftrightarrow> (8 \<le> value \<and> value \<le> 14) \<or> (21 \<le> value \<and> value \<le> 31)
     \<or> (46 \<le> value \<and> value \<le> 127)"

definition upper_hex_byte :: "byte \<Rightarrow> string" where
  "upper_hex_byte b = to_upper (hex_byte b)"

text \<open>The second result of the Go function is always true.\<close>

definition LookupFunction :: "byte \<Rightarrow> functionInfo" where
  "LookupFunction code =
     (case find (\<lambda>info. fiCode info = code) namedFunctions of
        Some info \<Rightarrow> info
      | None \<Rightarrow>
        if isCustomFunction code then
          \<lparr>fiCode = code, fiHex = upper_hex_byte code @ ''H'', fiName = customName,
           fiDescription = ''Custom FECbus function code range from table C.2.'',
           fiDirection = ''custom'', fiAnswer = True, fiCustom = True, fiReserved = False\<rparr>
        else
          \<lparr>fiCode = code, fiHex = upper_hex_byte code @ ''H'', fiName = reservedName,
           fiDescription = ''Reserved FECbus function code.'',
           fiDirection = [], fiAnswer = False, fiCustom = False, fiReserved = True\<rparr>)"

definition IsFunctionAllowed :: "byte \<Rightarrow> bool" where
  "IsFunctionAllowed code = (\<not> fiReserved (LookupFunction code))"

definition FunctionCatalog :: "functionInfo list" where
  "FunctionCatalog = map (\<lambda>i. LookupFunction (of_nat i)) [0..<256]"

section \<open>Frames\<close>

abbreviation "FrameTypeRequest \<equiv> (0 :: byte)"
abbreviation "FrameTypeAnswer \<equiv> (1 :: byte)"
abbreviation "FunctionStatusAnswer \<equiv> (0x0f :: byte)"
abbreviation "StatusReceivedOK \<equiv> (0x0a :: byte)"

definition FrameBoundary :: byte where "FrameBoundary = 0x7e"
definition minFrameBytes :: nat where "minFrameBytes = 11"
definition maxDataBytes :: nat where "maxDataBytes = 8"

record fecFrame =
  ffType :: byte
  ffTarget :: byte
  ffPriority :: byte
  ffSource :: byte
  ffMessage :: byte
  ffGroup :: byte
  ffData :: bytes
  ffRaw :: bytes
  ffCRCOK :: bool

definition fecFrameZero :: fecFrame where
  "fecFrameZero = \<lparr>ffType = 0, ffTarget = 0, ffPriority = 0, ffSource = 0, ffMessage = 0,
     ffGroup = 0, ffData = [], ffRaw = [], ffCRCOK = False\<rparr>"

datatype fec_error =
    FrameTypeInvalid | TargetInvalid | PriorityInvalid | SourceInvalid | MessageInvalid
  | GroupInvalid | DataLengthInvalid | FunctionReserved byte | FecFrameTooShort
  | StartDelimiter | EndDelimiter | DataLengthMismatch | FecCrcMismatch | PayloadTooLong
  | HexInvalid string

definition frameFunction :: "fecFrame \<Rightarrow> byte" where
  "frameFunction f = (if ffData f = [] then 0 else ffData f ! 0)"

definition validateFrameFields :: "fecFrame \<Rightarrow> fec_error option" where
  "validateFrameFields f =
     (if ffType f \<noteq> FrameTypeRequest \<and> ffType f \<noteq> FrameTypeAnswer then Some FrameTypeInvalid
      else if 63 < ffTarget f then Some TargetInvalid
      else if 3 < ffPriority f then Some PriorityInvalid
      else if ffSource f = 0 \<or> 63 < ffSource f then Some SourceInvalid
      else if ffMessage f = 0 \<or> 63 < ffMessage f then Some MessageInvalid
      else if 127 < ffGroup f then Some GroupInvalid
      else if length (ffData f) < 1 \<or> maxDataBytes < length (ffData f) then Some DataLengthInvalid
      else if ffGroup f \<le> 1 \<and> \<not> IsFunctionAllowed (ffData f ! 0) then Some (FunctionReserved (ffData f ! 0))
      else None)"

definition FecCRC16 :: "bytes \<Rightarrow> u16" where
  "FecCRC16 data = foldl crcByte 0xffff data"

definition frameBody :: "fecFrame \<Rightarrow> bytes" where
  "frameBody f = [FrameBoundary, ffType f, ffTarget f, ffPriority f, ffSource f, ffMessage f, ffGroup f,
     of_nat (length (ffData f))] @ ffData f"

definition FecEncodeFrame :: "fecFrame \<Rightarrow> fec_error + bytes" where
  "FecEncodeFrame f = (case validateFrameFields f of Some e \<Rightarrow> Inl e
     | None \<Rightarrow> (let body = frameBody f; crc = FecCRC16 body in
         Inr (body @ [loByte crc, hiByte crc, FrameBoundary])))"

definition FecDecodeFrame :: "bytes \<Rightarrow> fec_error + fecFrame" where
  "FecDecodeFrame raw =
     (if length raw < minFrameBytes then Inl FecFrameTooShort
      else if raw ! 0 \<noteq> FrameBoundary then Inl StartDelimiter
      else if raw ! (length raw - 1) \<noteq> FrameBoundary then Inl EndDelimiter
      else let dlc = unat (raw ! 7) in
        if dlc < 1 \<or> maxDataBytes < dlc then Inl DataLengthInvalid
        else if length raw \<noteq> 1 + 7 + dlc + 2 + 1 then Inl DataLengthMismatch
        else let payload = take (length raw - 3) raw;
                 got = join16 (raw ! (length raw - 2)) (raw ! (length raw - 3)) in
          if got \<noteq> FecCRC16 payload then Inl FecCrcMismatch
          else let f = \<lparr>ffType = raw ! 1, ffTarget = raw ! 2, ffPriority = raw ! 3, ffSource = raw ! 4,
                 ffMessage = raw ! 5, ffGroup = raw ! 6, ffData = take dlc (drop 8 raw),
                 ffRaw = raw, ffCRCOK = True\<rparr> in
            (case validateFrameFields f of Some e \<Rightarrow> Inl e | None \<Rightarrow> Inr f))"

text \<open>\<open>BuildStatusAnswer\<close> returns the frame together with the error of its validation.\<close>

definition BuildStatusAnswer :: "fecFrame \<Rightarrow> byte \<Rightarrow> fecFrame \<times> fec_error option" where
  "BuildStatusAnswer request status =
     (let answer = \<lparr>ffType = FrameTypeAnswer, ffTarget = ffSource request, ffPriority = 3,
            ffSource = (if ffTarget request = 0 then 1 else ffTarget request),
            ffMessage = ffMessage request, ffGroup = 0, ffData = [FunctionStatusAnswer, status],
            ffRaw = [], ffCRCOK = False\<rparr> in
      (answer, validateFrameFields answer))"

definition BuildData :: "byte \<Rightarrow> bytes \<Rightarrow> fec_error + bytes" where
  "BuildData function payload =
     (if \<not> IsFunctionAllowed function then Inl (FunctionReserved function)
      else if maxDataBytes - 1 < length payload then Inl PayloadTooLong
      else Inr (function # payload))"

definition ParseHex :: "string \<Rightarrow> fec_error + bytes" where
  "ParseHex value =
     (let compact = filter (\<lambda>c. c \<notin> {CHR '' '', CHR 10, CHR 9, CHR 13}) value in
      if compact = [] then Inr []
      else case hex_decode compact of None \<Rightarrow> Inl (HexInvalid compact) | Some data \<Rightarrow> Inr data)"

definition FecFormatHex :: "bytes \<Rightarrow> string" where
  "FecFormatHex data = join_with '' '' (map hex_byte data)"

text \<open>The results of \<open>ExtractFrame\<close>: no complete frame yet, a candidate too short to be one, or a
  candidate; each with the bytes that remain.\<close>

datatype extraction = Incomplete bytes | ShortCandidate bytes | Extracted bytes bytes

definition ExtractFrame :: "bytes \<Rightarrow> extraction" where
  "ExtractFrame buf =
     (case dropWhile (\<lambda>b. b \<noteq> FrameBoundary) buf of
        [] \<Rightarrow> Incomplete []
      | b # bs \<Rightarrow>
        if length (b # bs) < 2 then Incomplete (b # bs)
        else case dropWhile (\<lambda>b. b \<noteq> FrameBoundary) bs of
            [] \<Rightarrow> Incomplete (b # bs)
          | e # rest \<Rightarrow>
            let candidate = b # takeWhile (\<lambda>b. b \<noteq> FrameBoundary) bs @ [e] in
            if length candidate < minFrameBytes then ShortCandidate rest
            else Extracted candidate rest)"

section \<open>Round trip and detection of errors\<close>

definition fecWire :: "fecFrame \<Rightarrow> bytes" where
  "fecWire f = frameBody f @ [loByte (FecCRC16 (frameBody f)), hiByte (FecCRC16 (frameBody f)), FrameBoundary]"

lemma FecEncode_iff: "FecEncodeFrame f = Inr w \<longleftrightarrow> validateFrameFields f = None \<and> w = fecWire f"
  by (auto simp: FecEncodeFrame_def fecWire_def Let_def split: option.splits)

lemma validate_data: "validateFrameFields f = None \<Longrightarrow> 1 \<le> length (ffData f) \<and> length (ffData f) \<le> 8"
  by (auto simp: validateFrameFields_def maxDataBytes_def Suc_le_eq split: if_splits)

lemma validate_raw [simp]: "validateFrameFields (f\<lparr>ffRaw := r, ffCRCOK := c\<rparr>) = validateFrameFields f"
  by (simp add: validateFrameFields_def)

lemma length_frameBody [simp]: "length (frameBody f) = 8 + length (ffData f)"
  by (simp add: frameBody_def)

lemma length_fecWire [simp]: "length (fecWire f) = 11 + length (ffData f)"
  by (simp add: fecWire_def)

lemma small_of_nat_byte: "n \<le> 8 \<Longrightarrow> unat (of_nat n :: byte) = n"
  by (simp add: unat_of_nat)

definition fecView :: "fecFrame \<Rightarrow> fecFrame" where
  "fecView f = f\<lparr>ffRaw := fecWire f, ffCRCOK := True\<rparr>"

lemma fec_decode_encode:
  assumes "FecEncodeFrame f = Inr w"
  shows "FecDecodeFrame w = Inr (fecView f)"
proof -
  from assms have v: "validateFrameFields f = None" and w: "w = fecWire f" by (auto simp: FecEncode_iff)
  from validate_data [OF v] have len: "1 \<le> length (ffData f)" "length (ffData f) \<le> 8" by auto
  have head: "w ! 0 = FrameBoundary" "w ! 1 = ffType f" "w ! 2 = ffTarget f" "w ! 3 = ffPriority f"
    "w ! 4 = ffSource f" "w ! 5 = ffMessage f" "w ! 6 = ffGroup f" "w ! 7 = of_nat (length (ffData f))"
    by (simp_all add: w fecWire_def frameBody_def)
  have body: "take (length w - 3) w = frameBody f" by (simp add: w fecWire_def)
  have tail: "w ! (length w - 3) = loByte (FecCRC16 (frameBody f))"
    "w ! (length w - 2) = hiByte (FecCRC16 (frameBody f))" "w ! (length w - 1) = FrameBoundary"
    by (simp_all add: w fecWire_def nth_append)
  have data: "take (length (ffData f)) (drop 8 w) = ffData f" by (simp add: w fecWire_def frameBody_def)
  have frame: "\<lparr>ffType = ffType f, ffTarget = ffTarget f, ffPriority = ffPriority f,
      ffSource = ffSource f, ffMessage = ffMessage f, ffGroup = ffGroup f, ffData = ffData f,
      ffRaw = w, ffCRCOK = True\<rparr> = f\<lparr>ffRaw := w, ffCRCOK := True\<rparr>" by simp
  have "length w = 11 + length (ffData f)" "ffData f \<noteq> []" using len by (auto simp: w)
  then show ?thesis
    unfolding FecDecodeFrame_def head Let_def body tail data small_of_nat_byte [OF len(2)] frame
    using len v by (simp add: minFrameBytes_def maxDataBytes_def fecView_def w)
qed

lemma FecCRC16_eq: "FecCRC16 = CRC16"
  by (simp add: fun_eq_iff FecCRC16_def CRC16_def)

lemma fec_decoded_shape:
  assumes "FecDecodeFrame raw = Inr f"
  shows "raw ! 0 = FrameBoundary" "raw ! (length raw - 1) = FrameBoundary" "length raw = 11 + unat (raw ! 7)"
    "1 \<le> unat (raw ! 7)" "join16 (raw ! (length raw - 2)) (raw ! (length raw - 3)) = CRC16 (take (length raw - 3) raw)"
  using assms by (auto simp: FecDecodeFrame_def Let_def FecCRC16_eq split: if_splits)

lemma fec_corrupt:
  assumes "FecDecodeFrame w = Inr f" and "i < length w" and "b \<noteq> w ! i"
  shows "\<not> is_ok (FecDecodeFrame (w[i := b]))"
proof
  assume "is_ok (FecDecodeFrame (w[i := b]))"
  then obtain g where g: "FecDecodeFrame (w[i := b]) = Inr g" by (auto simp: is_ok_iff)
  note a = fec_decoded_shape [OF assms(1)] and c = fec_decoded_shape [OF g]
  let ?n = "length w"
  have n: "12 \<le> ?n" using a(3,4) by linarith
  then have len: "7 < ?n" "?n - 1 < ?n" "?n - 2 < ?n" "?n - 3 < ?n" by linarith+
  consider "i = 0" | "i = ?n - 1" | "i = 7" | "i = ?n - 2" | "i = ?n - 3" | "i < ?n - 3" "i \<noteq> 7"
    using assms(2) by linarith
  then show False
  proof cases
    case 1
    with c(1) a(1) assms show False by (metis nth_list_update_eq)
  next
    case 2
    with c(2) a(2) assms show False by (simp add: nth_list_update)
  next
    case 3
    with c(3) a(3) len have "unat b = unat (w ! 7)" by simp
    with 3 assms(3) show False by (simp add: word_unat_eq_iff)
  next
    case 4
    with n have "take (?n - 3) (w[i := b]) = take (?n - 3) w" by simp
    with c(5) have "join16 ((w[i := b]) ! (?n - 2)) ((w[i := b]) ! (?n - 3))
        = join16 (w ! (?n - 2)) (w ! (?n - 3))" using a(5) by simp
    with 4 assms len show False by (simp add: nth_list_update)
  next
    case 5
    with n have "take (?n - 3) (w[i := b]) = take (?n - 3) w" by simp
    with c(5) have "join16 ((w[i := b]) ! (?n - 2)) ((w[i := b]) ! (?n - 3))
        = join16 (w ! (?n - 2)) (w ! (?n - 3))" using a(5) by simp
    with 5 assms len show False by (simp add: nth_list_update)
  next
    case 6
    then have "(w[i := b]) ! (?n - 2) = w ! (?n - 2)" "(w[i := b]) ! (?n - 3) = w ! (?n - 3)"
      using n by (simp_all add: nth_list_update)
    moreover have "take (?n - 3) (w[i := b]) = (take (?n - 3) w)[i := b]" by (simp add: take_update_swap)
    ultimately have "CRC16 ((take (?n - 3) w)[i := b]) = CRC16 (take (?n - 3) w)"
      using a(5) c(5) by simp
    moreover have "CRC16 ((take (?n - 3) w)[i := b]) \<noteq> CRC16 (take (?n - 3) w)"
      by (rule CRC16_one_byte) (use 6 assms in simp_all)
    ultimately show False by contradiction
  qed
qed

interpretation fec: guarded_codec FecEncodeFrame FecDecodeFrame fecView
  by unfold_locales (auto dest: fec_decode_encode fec_corrupt)

text \<open>a FECbus frame that passes validation decodes to the same fields, with the bytes of the wire
  attached and the checksum confirmed.\<close>

theorem fec_roundtrip:
  assumes "FecEncodeFrame f = Inr w"
  shows "FecDecodeFrame w = Inr (f\<lparr>ffRaw := w, ffCRCOK := True\<rparr>)"
  using fec.decode_encode [OF assms] assms by (simp add: fecView_def FecEncode_iff)

definition sampleFec :: fecFrame where
  "sampleFec = \<lparr>ffType = 0, ffTarget = 2, ffPriority = 1, ffSource = 1, ffMessage = 5, ffGroup = 0,
     ffData = [0x21, 9], ffRaw = [], ffCRCOK = False\<rparr>"

lemma sampleFec_valid: "validateFrameFields sampleFec = None"
  by (simp add: validateFrameFields_def sampleFec_def maxDataBytes_def IsFunctionAllowed_def
      LookupFunction_def namedFunctions_def named_def)

theorem fec_roundtrip_witness:
  "FecDecodeFrame (fecWire sampleFec) = Inr (sampleFec\<lparr>ffRaw := fecWire sampleFec, ffCRCOK := True\<rparr>)"
  by (rule fec_roundtrip) (simp add: FecEncode_iff sampleFec_valid)

text \<open>every corruption of exactly one byte of a FECbus frame, the delimiters and the length byte
  included, is rejected.\<close>

theorem fec_detects_corruption:
  assumes "FecEncodeFrame f = Inr w" and "i < length w" and "b \<noteq> w ! i"
  shows "\<not> is_ok (FecDecodeFrame (w[i := b]))"
  using assms by (rule fec.detects)

theorem fec_detects_corruption_witness: "\<not> is_ok (FecDecodeFrame ((fecWire sampleFec)[7 := 1]))"
  by (rule fec_detects_corruption [of sampleFec])
     (simp_all add: FecEncode_iff sampleFec_valid, simp_all add: fecWire_def frameBody_def sampleFec_def)

section \<open>Extraction from a stream\<close>

lemma dropWhile_split: "y \<notin> set xs \<Longrightarrow> dropWhile (\<lambda>b. b \<noteq> y) (xs @ y # ys) = y # ys"
  by (induction xs) auto

lemma takeWhile_split: "y \<notin> set xs \<Longrightarrow> takeWhile (\<lambda>b. b \<noteq> y) (xs @ y # ys) = xs"
  by (induction xs) auto

definition fecInterior :: "fecFrame \<Rightarrow> bytes" where
  "fecInterior f = tl (frameBody f) @ [loByte (FecCRC16 (frameBody f)), hiByte (FecCRC16 (frameBody f))]"

lemma fecWire_interior: "fecWire f = FrameBoundary # fecInterior f @ [FrameBoundary]"
  by (simp add: fecWire_def fecInterior_def frameBody_def)

lemma drop_noise:
  assumes "FrameBoundary \<notin> set noise"
  shows "dropWhile (\<lambda>b. b \<noteq> FrameBoundary) (noise @ fecWire f @ rest)
      = FrameBoundary # fecInterior f @ FrameBoundary # rest"
  using dropWhile_split [OF assms] by (simp add: fecWire_interior)

lemma extract_wire:
  assumes "FrameBoundary \<notin> set noise" and "FrameBoundary \<notin> set (fecInterior f)"
  shows "ExtractFrame (noise @ fecWire f @ rest) = Extracted (fecWire f) rest"
proof -
  have "dropWhile (\<lambda>b. b \<noteq> FrameBoundary) (fecInterior f @ FrameBoundary # rest) = FrameBoundary # rest"
    "takeWhile (\<lambda>b. b \<noteq> FrameBoundary) (fecInterior f @ FrameBoundary # rest) = fecInterior f"
    using assms(2) by (rule dropWhile_split, rule takeWhile_split)
  moreover have "minFrameBytes \<le> length (fecWire f)" by (simp add: minFrameBytes_def)
  ultimately show ?thesis using drop_noise [OF assms(1), of f rest]
    by (simp add: ExtractFrame_def Let_def fecWire_interior)
qed

text \<open>C12: a frame is cut out of a stream, after any bytes that are no delimiter, exactly when no byte
  between its delimiters has the delimiter's value: the protocol escapes nothing, so a frame with
  the value 7E in a field, in its data or in its checksum is never delivered by \<open>ExtractFrame\<close>.\<close>

theorem extract_frame_exact:
  assumes "validateFrameFields f = None" and "FrameBoundary \<notin> set noise"
  shows "ExtractFrame (noise @ fecWire f @ rest) = Extracted (fecWire f) rest
    \<longleftrightarrow> FrameBoundary \<notin> set (fecInterior f)"
proof (cases "FrameBoundary \<in> set (fecInterior f)")
  case False
  then show ?thesis using extract_wire [OF assms(2)] by simp
next
  case True
  then obtain us vs where uv: "fecInterior f = us @ FrameBoundary # vs" "FrameBoundary \<notin> set us"
    by (meson split_list_first)
  then have "takeWhile (\<lambda>b. b \<noteq> FrameBoundary) (fecInterior f @ FrameBoundary # rest) = us"
    "dropWhile (\<lambda>b. b \<noteq> FrameBoundary) (fecInterior f @ FrameBoundary # rest)
       = FrameBoundary # vs @ FrameBoundary # rest"
    by (simp_all add: dropWhile_split takeWhile_split)
  then show ?thesis using drop_noise [OF assms(2), of f rest] True uv
    by (simp add: ExtractFrame_def Let_def fecWire_interior)
qed

theorem extract_frame_exact_witness:
  "ExtractFrame ([1, 2] @ fecWire sampleFec @ [3]) = Extracted (fecWire sampleFec) [3]
    \<longleftrightarrow> FrameBoundary \<notin> set (fecInterior sampleFec)"
  by (rule extract_frame_exact [OF sampleFec_valid]) (simp add: FrameBoundary_def)

end
