(* ===== verification/GraphConfig.thy ===== *)
theory GraphConfig
  imports GoMaps GoStrings ModbusProtocol FecbusProtocol
begin

text \<open>
  The configuration of graph nodes (\<open>internal/modules/serial/graph_runtime.go\<close>, lines 1905 to 2269
  and 2517 to 2625): values of the Go type \<open>any\<close>, the readers that turn them into strings, numbers
  and lists, and the frames and remote end points built from them. A nil map reads as an empty one
  everywhere, so a configuration is a table.
\<close>

section \<open>Values\<close>

text \<open>
  A floating-point number is what the program reads of it: its conversion to \<open>int\<close>, whether that
  conversion is exact, and its text under \<open>fmt.Sprint\<close>.
\<close>

record go_float =
  gfInt :: int
  gfExact :: bool
  gfText :: string

text \<open>
  The dynamic types the code distinguishes; \<open>CInt\<close> is \<open>int\<close> or \<open>int64\<close>, which it treats alike, as it
  does the unsigned types \<open>CUint\<close>. A value of any other type is its text.
\<close>

datatype config_value =
    CNil | CBool bool | CInt int | CUint nat | CFloat64 go_float | CFloat32 go_float | CString string
  | CList "config_value list" | CBools "bool list" | CStrings "string list" | CUint16s "u16 list" | CInts "int list"
  | COther string

type_synonym config = "(string, config_value) table"

definition bracketed :: "string list \<Rightarrow> string" where
  "bracketed xs = ''['' @ join_with '' '' xs @ '']''"

definition bool_text :: "bool \<Rightarrow> string" where
  "bool_text b = (if b then ''true'' else ''false'')"

text \<open>\<open>fmt.Sprint\<close>\<close>

fun sprint :: "config_value \<Rightarrow> string" where
  "sprint CNil = ''<nil>''"
| "sprint (CBool b) = bool_text b"
| "sprint (CInt i) = itoa i"
| "sprint (CUint n) = itoa (int n)"
| "sprint (CFloat64 f) = gfText f"
| "sprint (CFloat32 f) = gfText f"
| "sprint (CString s) = s"
| "sprint (CList vs) = bracketed (map sprint vs)"
| "sprint (CBools bs) = bracketed (map bool_text bs)"
| "sprint (CStrings ss) = bracketed ss"
| "sprint (CUint16s vs) = bracketed (map (\<lambda>v. itoa (uint v)) vs)"
| "sprint (CInts vs) = bracketed (map itoa vs)"
| "sprint (COther s) = s"

section \<open>Readers\<close>

definition graphStringConfigRaw :: "config \<Rightarrow> string \<Rightarrow> string" where
  "graphStringConfigRaw config key = (case map_of config key of
       None \<Rightarrow> [] | Some v \<Rightarrow> if v = CNil then [] else sprint v)"

definition graphStringConfig :: "config \<Rightarrow> string \<Rightarrow> string" where
  "graphStringConfig config key = (case map_of config key of
       None \<Rightarrow> [] | Some v \<Rightarrow> if v = CNil then [] else trim_space (sprint v))"

definition graphStringConfigWithDefault :: "config \<Rightarrow> string \<Rightarrow> string \<Rightarrow> string" where
  "graphStringConfigWithDefault config key fallback =
     (let value = graphStringConfig config key in if value = [] \<or> value = ''<nil>'' then fallback else value)"

text \<open>\<open>parsed\<close> and whether it is valid\<close>

definition graphStrictIntConfig :: "config \<Rightarrow> string \<Rightarrow> int \<Rightarrow> int option" where
  "graphStrictIntConfig config key fallback = (case map_of config key of
       None \<Rightarrow> Some fallback
     | Some (CInt i) \<Rightarrow> Some i
     | Some (CFloat64 f) \<Rightarrow> if gfExact f then Some (gfInt f) else None
     | Some (CFloat32 f) \<Rightarrow> if gfExact f then Some (gfInt f) else None
     | Some (CString s) \<Rightarrow> atoi (trim_space s)
     | Some _ \<Rightarrow> None)"

text \<open>
  \<open>fmt.Sscanf(s, "%d", &parsed)\<close>: white space, but no new line, then a sign and digits; what follows
  is left unread.
\<close>

fun scan_spaces :: "nat \<Rightarrow> string \<Rightarrow> string option" where
  "scan_spaces 0 s = None"
| "scan_spaces (Suc n) s =
     (if leading_space s = 0 then Some s
      else if take 1 s = [CHR 10] then None
      else scan_spaces n (drop (leading_space s) s))"

definition sscanf_int :: "string \<Rightarrow> int option" where
  "sscanf_int s = Option.bind (scan_spaces (Suc (length s)) s) (\<lambda>t.
     let sign = (if take 1 t = ''-'' \<or> take 1 t = ''+'' then take 1 t else []) in
     parse_int10 64 (sign @ takeWhile is_digit (drop (length sign) t)))"

definition graphIntConfig :: "config \<Rightarrow> string \<Rightarrow> int \<Rightarrow> int" where
  "graphIntConfig config key fallback = (case map_of config key of
       Some (CInt i) \<Rightarrow> i
     | Some (CFloat64 f) \<Rightarrow> gfInt f
     | Some (CFloat32 f) \<Rightarrow> gfInt f
     | Some (CString s) \<Rightarrow> (case sscanf_int s of Some i \<Rightarrow> i | None \<Rightarrow> fallback)
     | _ \<Rightarrow> fallback)"

text \<open>\<open>strconv.ParseBool\<close>\<close>

definition parse_bool :: "string \<Rightarrow> bool option" where
  "parse_bool s = (if s \<in> {''1'', ''t'', ''T'', ''true'', ''TRUE'', ''True''} then Some True
     else if s \<in> {''0'', ''f'', ''F'', ''false'', ''FALSE'', ''False''} then Some False else None)"

definition graphBoolConfig :: "config \<Rightarrow> string \<Rightarrow> bool \<Rightarrow> bool" where
  "graphBoolConfig config key fallback = (case map_of config key of
       Some (CBool b) \<Rightarrow> b
     | Some (CString s) \<Rightarrow> (case parse_bool s of Some b \<Rightarrow> b | None \<Rightarrow> fallback)
     | _ \<Rightarrow> fallback)"

section \<open>Lists of values\<close>

definition graphValueTokens :: "string \<Rightarrow> string list" where
  "graphValueTokens raw = fields_func (\<lambda>r. r \<in> set '',; '' \<or> r \<in> {CHR 9, CHR 10, CHR 13}) raw"

definition graphBoolToken :: "string \<Rightarrow> bool option" where
  "graphBoolToken token = (let t = to_lower (trim_space token) in
     if t \<in> {''1'', ''true'', ''t'', ''yes'', ''y'', ''on''} then Some True
     else if t \<in> {''0'', ''false'', ''f'', ''no'', ''n'', ''off''} then Some False else None)"

definition int_bool :: "int \<Rightarrow> bool option" where
  "int_bool i = (if i = 0 \<or> i = 1 then Some (i = 1) else None)"

definition graphBoolValue :: "config_value \<Rightarrow> bool option" where
  "graphBoolValue value = (case value of
       CBool b \<Rightarrow> Some b
     | CInt i \<Rightarrow> int_bool i
     | CFloat64 f \<Rightarrow> if gfExact f then int_bool (gfInt f) else None
     | CString s \<Rightarrow> graphBoolToken s
     | _ \<Rightarrow> None)"

definition graphBoolValuesString :: "string \<Rightarrow> bool list" where
  "graphBoolValuesString raw = List.map_filter graphBoolToken (graphValueTokens raw)"

definition graphBoolValuesConfig :: "config \<Rightarrow> string \<Rightarrow> bool list" where
  "graphBoolValuesConfig config key = (case map_of config key of
       Some (CBools bs) \<Rightarrow> bs
     | Some (CList vs) \<Rightarrow> List.map_filter graphBoolValue vs
     | Some (CStrings ss) \<Rightarrow> List.map_filter graphBoolToken ss
     | Some v \<Rightarrow> graphBoolValuesString (sprint v)
     | None \<Rightarrow> graphBoolValuesString ''<nil>'')"

text \<open>\<open>strconv.ParseUint(s, 0, bits)\<close>: a prefix gives the base, and underscores may separate digits.\<close>

definition lower_ascii :: "char \<Rightarrow> nat" where
  "lower_ascii c = of_char c OR 32"

definition digit_of :: "char \<Rightarrow> nat option" where
  "digit_of c = (if is_digit c then Some (of_char c - 48)
     else if 97 \<le> lower_ascii c \<and> lower_ascii c \<le> 122 then Some (lower_ascii c - 97 + 10) else None)"

fun uint_digits :: "nat \<Rightarrow> nat \<Rightarrow> nat \<Rightarrow> string \<Rightarrow> nat option" where
  "uint_digits base limit n [] = Some n"
| "uint_digits base limit n (c # cs) =
     (if c = CHR ''_'' then uint_digits base limit n cs
      else case digit_of c of None \<Rightarrow> None
        | Some d \<Rightarrow> if base \<le> d \<or> limit \<le> n * base + d then None
            else uint_digits base limit (n * base + d) cs)"

definition base_of :: "string \<Rightarrow> nat \<times> string" where
  "base_of s = (if take 1 s = ''0'' then
       (if 3 \<le> length s \<and> lower_ascii (s ! 1) = 98 then (2, drop 2 s)
        else if 3 \<le> length s \<and> lower_ascii (s ! 1) = 111 then (8, drop 2 s)
        else if 3 \<le> length s \<and> lower_ascii (s ! 1) = 120 then (16, drop 2 s)
        else (8, drop 1 s))
     else (10, s))"

text \<open>The state of \<open>underscoreOK\<close>: the last thing seen\<close>

datatype seen = SeenStart | SeenDigit | SeenUnderscore | SeenOther

fun underscores :: "bool \<Rightarrow> seen \<Rightarrow> string \<Rightarrow> bool" where
  "underscores hex i [] = (i \<noteq> SeenUnderscore)"
| "underscores hex i (c # cs) =
     (if is_digit c \<or> hex \<and> 97 \<le> lower_ascii c \<and> lower_ascii c \<le> 102 then underscores hex SeenDigit cs
      else if c = CHR ''_'' then i = SeenDigit \<and> underscores hex SeenUnderscore cs
      else i \<noteq> SeenUnderscore \<and> underscores hex SeenOther cs)"

definition underscoreOK :: "string \<Rightarrow> bool" where
  "underscoreOK s0 =
     (let s = (if take 1 s0 = ''-'' \<or> take 1 s0 = ''+'' then drop 1 s0 else s0) in
      if 2 \<le> length s \<and> s ! 0 = CHR ''0'' \<and> lower_ascii (s ! 1) \<in> {98, 111, 120}
      then underscores (lower_ascii (s ! 1) = 120) SeenDigit (drop 2 s)
      else underscores False SeenStart s)"

definition parse_uint0 :: "nat \<Rightarrow> string \<Rightarrow> nat option" where
  "parse_uint0 bits s =
     (if s = [] then None
      else let (base, body) = base_of s in
        case uint_digits base (2 ^ bits) 0 body of None \<Rightarrow> None
        | Some n \<Rightarrow> if CHR ''_'' \<in> set body \<and> \<not> underscoreOK s then None else Some n)"

definition graphUint16Token :: "string \<Rightarrow> u16 option" where
  "graphUint16Token token = map_option of_nat (parse_uint0 16 (trim_space token))"

definition int_u16 :: "int \<Rightarrow> u16 option" where
  "int_u16 i = (if 0 \<le> i \<and> i \<le> 65535 then Some (of_int i) else None)"

definition graphUint16Value :: "config_value \<Rightarrow> u16 option" where
  "graphUint16Value value = (case value of
       CUint n \<Rightarrow> int_u16 (int n)
     | CInt i \<Rightarrow> int_u16 i
     | CFloat64 f \<Rightarrow> if gfExact f then int_u16 (gfInt f) else None
     | CString s \<Rightarrow> graphUint16Token s
     | _ \<Rightarrow> None)"

definition graphUint16ValuesString :: "string \<Rightarrow> u16 list" where
  "graphUint16ValuesString raw = List.map_filter graphUint16Token (graphValueTokens raw)"

definition graphUint16ValuesConfig :: "config \<Rightarrow> string \<Rightarrow> u16 list" where
  "graphUint16ValuesConfig config key = (case map_of config key of
       Some (CUint16s vs) \<Rightarrow> vs
     | Some (CInts is) \<Rightarrow> List.map_filter int_u16 is
     | Some (CList vs) \<Rightarrow> List.map_filter graphUint16Value vs
     | Some (CStrings ss) \<Rightarrow> List.map_filter graphUint16Token ss
     | Some v \<Rightarrow> graphUint16ValuesString (sprint v)
     | None \<Rightarrow> graphUint16ValuesString ''<nil>'')"

end
