(* ===== verification/ModbusDataModel.thy ===== *)
theory ModbusDataModel
  imports ModbusProtocol
begin

text \<open>
  The slave side of package \<open>modbus\<close> (\<open>internal/modules/serial/modbus/datamodel.go\<close>): the four
  tables, their block reads and writes, and \<open>BuildSlaveResponse\<close>, which answers a request PDU and
  updates the tables. A Go map is a partial function, and reading an absent key yields the zero
  value. The tables are updated in place by the code, so the model is returned beside the reply.
\<close>

section \<open>The tables\<close>

record dataModel =
  dmCoils :: "u16 \<rightharpoonup> bool"
  dmDiscreteInputs :: "u16 \<rightharpoonup> bool"
  dmInputRegisters :: "u16 \<rightharpoonup> u16"
  dmHoldingRegisters :: "u16 \<rightharpoonup> u16"

datatype table_error = ValuesEmpty | QuantityZero

definition NewDataModel :: dataModel where
  "NewDataModel = \<lparr>dmCoils = Map.empty, dmDiscreteInputs = Map.empty,
     dmInputRegisters = Map.empty, dmHoldingRegisters = Map.empty\<rparr>"

text \<open>\<open>copyBoolMap\<close> and \<open>copyU16Map\<close> add every entry of the source to the destination.\<close>

definition copyMap :: "('k \<rightharpoonup> 'v) \<Rightarrow> ('k \<rightharpoonup> 'v) \<Rightarrow> ('k \<rightharpoonup> 'v)" where
  "copyMap dst src = dst ++ src"

definition CloneModel :: "dataModel option \<Rightarrow> dataModel" where
  "CloneModel m = (case m of None \<Rightarrow> NewDataModel
     | Some m \<Rightarrow> NewDataModel
         \<lparr>dmCoils := copyMap (dmCoils NewDataModel) (dmCoils m),
          dmDiscreteInputs := copyMap (dmDiscreteInputs NewDataModel) (dmDiscreteInputs m),
          dmInputRegisters := copyMap (dmInputRegisters NewDataModel) (dmInputRegisters m),
          dmHoldingRegisters := copyMap (dmHoldingRegisters NewDataModel) (dmHoldingRegisters m)\<rparr>)"

definition cell :: "'v \<Rightarrow> ('k \<rightharpoonup> 'v) \<Rightarrow> 'k \<Rightarrow> 'v" where
  "cell zero m k = (case m k of None \<Rightarrow> zero | Some v \<Rightarrow> v)"

definition readRange :: "'v \<Rightarrow> (u16 \<rightharpoonup> 'v) \<Rightarrow> u16 \<Rightarrow> u16 \<Rightarrow> table_error + 'v list" where
  "readRange zero values address quantity =
     (if quantity = 0 then Inl QuantityZero
      else Inr (map (\<lambda>i. cell zero values (address + of_nat i)) [0..<unat quantity]))"

definition readBoolRange :: "(u16 \<rightharpoonup> bool) \<Rightarrow> u16 \<Rightarrow> u16 \<Rightarrow> table_error + bool list" where
  "readBoolRange = readRange False"

definition readU16Range :: "(u16 \<rightharpoonup> u16) \<Rightarrow> u16 \<Rightarrow> u16 \<Rightarrow> table_error + u16 list" where
  "readU16Range = readRange 0"

definition ReadCoils :: "dataModel \<Rightarrow> u16 \<Rightarrow> u16 \<Rightarrow> table_error + bool list" where
  "ReadCoils m = readBoolRange (dmCoils m)"
definition ReadDiscreteInputs :: "dataModel \<Rightarrow> u16 \<Rightarrow> u16 \<Rightarrow> table_error + bool list" where
  "ReadDiscreteInputs m = readBoolRange (dmDiscreteInputs m)"
definition ReadInputRegisters :: "dataModel \<Rightarrow> u16 \<Rightarrow> u16 \<Rightarrow> table_error + u16 list" where
  "ReadInputRegisters m = readU16Range (dmInputRegisters m)"
definition ReadHoldingRegisters :: "dataModel \<Rightarrow> u16 \<Rightarrow> u16 \<Rightarrow> table_error + u16 list" where
  "ReadHoldingRegisters m = readU16Range (dmHoldingRegisters m)"

text \<open>The loop of the four write operations; \<open>address+uint16(i)\<close> wraps around.\<close>

fun writeFrom :: "nat \<Rightarrow> (u16 \<rightharpoonup> 'v) \<Rightarrow> u16 \<Rightarrow> 'v list \<Rightarrow> (u16 \<rightharpoonup> 'v)" where
  "writeFrom i m address [] = m"
| "writeFrom i m address (v # vs) = writeFrom (Suc i) (m(address + of_nat i \<mapsto> v)) address vs"

definition WriteCoils :: "dataModel \<Rightarrow> u16 \<Rightarrow> bool list \<Rightarrow> table_error + dataModel" where
  "WriteCoils m address values = (if values = [] then Inl ValuesEmpty
     else Inr (m\<lparr>dmCoils := writeFrom 0 (dmCoils m) address values\<rparr>))"
definition WriteHoldingRegisters :: "dataModel \<Rightarrow> u16 \<Rightarrow> u16 list \<Rightarrow> table_error + dataModel" where
  "WriteHoldingRegisters m address values = (if values = [] then Inl ValuesEmpty
     else Inr (m\<lparr>dmHoldingRegisters := writeFrom 0 (dmHoldingRegisters m) address values\<rparr>))"
definition WriteDiscreteInputs :: "dataModel \<Rightarrow> u16 \<Rightarrow> bool list \<Rightarrow> table_error + dataModel" where
  "WriteDiscreteInputs m address values = (if values = [] then Inl ValuesEmpty
     else Inr (m\<lparr>dmDiscreteInputs := writeFrom 0 (dmDiscreteInputs m) address values\<rparr>))"
definition WriteInputRegisters :: "dataModel \<Rightarrow> u16 \<Rightarrow> u16 list \<Rightarrow> table_error + dataModel" where
  "WriteInputRegisters m address values = (if values = [] then Inl ValuesEmpty
     else Inr (m\<lparr>dmInputRegisters := writeFrom 0 (dmInputRegisters m) address values\<rparr>))"

text \<open>A caller that discards the error (\<open>_ = model.WriteCoils(...)\<close>) goes on with what was written.\<close>

definition ignoreError :: "dataModel \<Rightarrow> table_error + dataModel \<Rightarrow> dataModel" where
  "ignoreError m r = (case r of Inl _ \<Rightarrow> m | Inr m' \<Rightarrow> m')"

section \<open>Requests\<close>

definition parseAddressQuantity :: "bytes \<Rightarrow> (u16 \<times> u16) option" where
  "parseAddressQuantity data =
     (if length data \<noteq> 4 then None
      else let quantity = beU16 (drop 2 data) in
        if quantity = 0 then None else Some (beU16 (take 2 data), quantity))"

definition parseMultipleCoils :: "bytes \<Rightarrow> (u16 \<times> nat \<times> nat \<times> bool list) option" where
  "parseMultipleCoils data =
     (if length data < 6 then None
      else let address = beU16 (take 2 data);
               quantity = unat (beU16 (take 2 (drop 2 data)));
               byteCount = unat (data ! 4) in
        if quantity \<le> 0 \<or> byteCount \<le> 0 \<or> length (drop 5 data) \<noteq> byteCount then None
        else let values = unpackBits (drop 5 data) (byteCount * 8) in
          if length values < quantity then None
          else Some (address, quantity, byteCount, values))"

definition parseMultipleRegisters :: "bytes \<Rightarrow> (u16 \<times> u16 list) option" where
  "parseMultipleRegisters data =
     (if length data < 6 then None
      else let address = beU16 (take 2 data);
               quantity = unat (beU16 (take 2 (drop 2 data)));
               byteCount = unat (data ! 4) in
        if quantity \<le> 0 \<or> byteCount \<noteq> quantity * 2 \<or> length (drop 5 data) \<noteq> byteCount then None
        else Some (address, bytesToU16s (drop 5 data)))"

section \<open>Replies\<close>

definition registerReadResponse :: "function_code \<Rightarrow> u16 list \<Rightarrow> pdu" where
  "registerReadResponse function values =
     \<lparr>pduFunction = function,
      pduData = [of_nat (length values * 2)] @ concat (map u16_bytes values)\<rparr>"

definition bitReadResponse :: "function_code \<Rightarrow> bool list \<Rightarrow> pdu" where
  "bitReadResponse function values = (let packed = packBits values in
     \<lparr>pduFunction = function, pduData = [of_nat (length packed)] @ packed\<rparr>)"

definition normalResponse :: "pdu \<Rightarrow> slaveResponse" where
  "normalResponse p = \<lparr>srPDU = p, srException = False, srExceptionCode = 0\<rparr>"

definition exceptionResponse :: "function_code \<Rightarrow> byte \<Rightarrow> slaveResponse" where
  "exceptionResponse function code =
     \<lparr>srPDU = \<lparr>pduFunction = function OR exceptionMask, pduData = [code]\<rparr>,
      srException = True, srExceptionCode = code\<rparr>"

text \<open>The four read cases share their shape; \<open>read\<close> is the table read, \<open>reply\<close> the PDU built.\<close>

definition answerRead :: "pdu \<Rightarrow> (u16 \<Rightarrow> u16 \<Rightarrow> table_error + 'v list) \<Rightarrow>
    (function_code \<Rightarrow> 'v list \<Rightarrow> pdu) \<Rightarrow> slaveResponse" where
  "answerRead request read reply =
     (case parseAddressQuantity (pduData request) of
        None \<Rightarrow> exceptionResponse (pduFunction request) ExceptionIllegalDataValue
      | Some (address, quantity) \<Rightarrow>
          (case read address quantity of
             Inl _ \<Rightarrow> exceptionResponse (pduFunction request) ExceptionIllegalDataAddress
           | Inr values \<Rightarrow> normalResponse (reply (pduFunction request) values)))"

definition answerWriteCoil :: "pdu \<Rightarrow> dataModel \<Rightarrow> slaveResponse \<times> dataModel" where
  "answerWriteCoil request model =
     (if length (pduData request) \<noteq> 4
      then (exceptionResponse (pduFunction request) ExceptionIllegalDataValue, model)
      else let address = beU16 (take 2 (pduData request)); value = beU16 (drop 2 (pduData request)) in
        if value \<noteq> 0 \<and> value \<noteq> 0xff00
        then (exceptionResponse (pduFunction request) ExceptionIllegalDataValue, model)
        else (normalResponse request,
              ignoreError model (WriteCoils model address [value = 0xff00])))"

definition answerWriteRegister :: "pdu \<Rightarrow> dataModel \<Rightarrow> slaveResponse \<times> dataModel" where
  "answerWriteRegister request model =
     (if length (pduData request) \<noteq> 4
      then (exceptionResponse (pduFunction request) ExceptionIllegalDataValue, model)
      else let address = beU16 (take 2 (pduData request)); value = beU16 (drop 2 (pduData request)) in
        (normalResponse request, ignoreError model (WriteHoldingRegisters model address [value])))"

definition answerWriteCoils :: "pdu \<Rightarrow> dataModel \<Rightarrow> slaveResponse \<times> dataModel" where
  "answerWriteCoils request model =
     (case parseMultipleCoils (pduData request) of
        None \<Rightarrow> (exceptionResponse (pduFunction request) ExceptionIllegalDataValue, model)
      | Some (address, quantity, byteCount, values) \<Rightarrow>
          (normalResponse \<lparr>pduFunction = pduFunction request,
             pduData = u16Pair address (of_nat quantity)\<rparr>,
           ignoreError model (WriteCoils model address (take quantity values))))"

definition answerWriteRegisters :: "pdu \<Rightarrow> dataModel \<Rightarrow> slaveResponse \<times> dataModel" where
  "answerWriteRegisters request model =
     (case parseMultipleRegisters (pduData request) of
        None \<Rightarrow> (exceptionResponse (pduFunction request) ExceptionIllegalDataValue, model)
      | Some (address, values) \<Rightarrow>
          (normalResponse \<lparr>pduFunction = pduFunction request,
             pduData = u16Pair address (of_nat (length values))\<rparr>,
           ignoreError model (WriteHoldingRegisters model address values)))"

definition answerRequest :: "pdu \<Rightarrow> dataModel \<Rightarrow> slaveResponse \<times> dataModel" where
  "answerRequest request model = (let f = pduFunction request in
     if f AND exceptionMask \<noteq> 0
     then (exceptionResponse (f AND NOT exceptionMask) ExceptionIllegalFunction, model)
     else if f = FunctionReadCoils then (answerRead request (ReadCoils model) bitReadResponse, model)
     else if f = FunctionReadDiscreteInputs
     then (answerRead request (ReadDiscreteInputs model) bitReadResponse, model)
     else if f = FunctionReadHoldingRegisters
     then (answerRead request (ReadHoldingRegisters model) registerReadResponse, model)
     else if f = FunctionReadInputRegisters
     then (answerRead request (ReadInputRegisters model) registerReadResponse, model)
     else if f = FunctionWriteSingleCoil then answerWriteCoil request model
     else if f = FunctionWriteSingleRegister then answerWriteRegister request model
     else if f = FunctionWriteMultipleCoils then answerWriteCoils request model
     else if f = FunctionWriteMultipleRegisters then answerWriteRegisters request model
     else (exceptionResponse f ExceptionIllegalFunction, model))"

text \<open>A nil model stands for a fresh one, which the caller never sees.\<close>

definition BuildSlaveResponse ::
    "byte \<Rightarrow> pdu \<Rightarrow> dataModel option \<Rightarrow> slaveResponse \<times> dataModel option" where
  "BuildSlaveResponse unitID request model =
     (case model of None \<Rightarrow> (fst (answerRequest request NewDataModel), None)
      | Some m \<Rightarrow> (let (r, m') = answerRequest request m in (r, Some m')))"

section \<open>Table laws\<close>

lemma of_nat_u16_inject: "i < 65536 \<Longrightarrow> j < 65536 \<Longrightarrow> (of_nat i :: u16) = of_nat j \<longleftrightarrow> i = j"
  by (simp add: word_of_nat_eq_iff take_bit_nat_eq_self)

lemma writeFrom_miss:
  "(\<And>j. i \<le> j \<Longrightarrow> j < i + length vs \<Longrightarrow> b \<noteq> a + of_nat j) \<Longrightarrow> writeFrom i m a vs b = m b"
  by (induction i m a vs rule: writeFrom.induct) (force, simp)

lemma writeFrom_hit:
  "j < length vs \<Longrightarrow> i + length vs \<le> 65536 \<Longrightarrow> writeFrom i m a vs (a + of_nat (i + j)) = Some (vs ! j)"
proof (induction i m a vs arbitrary: j rule: writeFrom.induct)
  case (2 i m a v vs)
  show ?case
  proof (cases j)
    case 0
    have "writeFrom (Suc i) (m(a + of_nat i \<mapsto> v)) a vs (a + of_nat i) = (m(a + of_nat i \<mapsto> v)) (a + of_nat i)"
      by (rule writeFrom_miss) (use 2(3) in \<open>auto simp: of_nat_u16_inject simp del: of_nat_Suc\<close>)
    with 0 show ?thesis by simp
  next
    case (Suc k)
    have "writeFrom (Suc i) (m(a + of_nat i \<mapsto> v)) a vs (a + of_nat (Suc i + k)) = Some (vs ! k)"
      by (rule 2(1)) (use Suc 2(2,3) in simp_all)
    with Suc show ?thesis by simp
  qed
qed simp

interpretation coil_table: word_table "\<lambda>m. cell False (dmCoils m)"
    "\<lambda>m a vs. m\<lparr>dmCoils := writeFrom 0 (dmCoils m) a vs\<rparr>"
  by unfold_locales
     (simp_all add: cell_def writeFrom_miss writeFrom_hit [where i = 0, simplified])

interpretation register_table: word_table "\<lambda>m. cell 0 (dmHoldingRegisters m)"
    "\<lambda>m a vs. m\<lparr>dmHoldingRegisters := writeFrom 0 (dmHoldingRegisters m) a vs\<rparr>"
  by unfold_locales
     (simp_all add: cell_def writeFrom_miss writeFrom_hit [where i = 0, simplified])

lemma CloneModel_id: "CloneModel (Some m) = m"
  by (simp add: CloneModel_def copyMap_def NewDataModel_def)

section \<open>What a reply says\<close>

lemma beU16_simps [simp]: "beU16 (hiByte v # loByte v # xs) = v"
  by (simp add: beU16_def)

lemma parse_u16Pair [simp]: "parseAddressQuantity (u16Pair a q) = (if q = 0 then None else Some (a, q))"
  by (simp add: parseAddressQuantity_def u16Pair_def)

lemma unat_of_nat_byte: "unat (of_nat n :: byte) = n mod 256"
  by (simp add: unat_of_nat)

lemma unat_of_nat_u16: "n < 65536 \<Longrightarrow> unat (of_nat n :: u16) = n"
  by (simp add: unat_of_nat)

lemma mask_small [simp]:
  "(1 :: byte) AND exceptionMask = 0" "(2 :: byte) AND exceptionMask = 0"
  "(3 :: byte) AND exceptionMask = 0" "(4 :: byte) AND exceptionMask = 0"
  "(5 :: byte) AND exceptionMask = 0" "(6 :: byte) AND exceptionMask = 0"
  "(15 :: byte) AND exceptionMask = 0" "(16 :: byte) AND exceptionMask = 0"
  by simp_all

lemma parse_register_reply:
  assumes "f = FunctionReadHoldingRegisters \<or> f = FunctionReadInputRegisters"
  shows "ParseResponse (registerReadResponse f vs) =
    (if length vs \<le> 127 then Inr (parsedZero\<lparr>prFunction := f, prRaw := pduBytes (registerReadResponse f vs),
       prValues := vs\<rparr>) else Inl RegisterCountMismatch)"
proof (cases "length vs \<le> 127")
  case True
  with assms show ?thesis
    by (auto simp: ParseResponse_def Let_def registerReadResponse_def unat_of_nat_byte
        simp del: of_nat_mult)
next
  case False
  have "2 * length vs mod 256 \<noteq> 2 * length vs"
    using False mod_less_divisor [of 256 "2 * length vs"] by linarith
  with False assms show ?thesis
    by (auto simp: ParseResponse_def Let_def registerReadResponse_def unat_of_nat_byte mult.commute
        simp del: of_nat_mult)
qed

lemma parse_bit_reply:
  assumes "f = FunctionReadCoils \<or> f = FunctionReadDiscreteInputs"
  shows "ParseResponse (bitReadResponse f vs) =
    (if length vs \<le> 2040 then Inr (parsedZero\<lparr>prFunction := f, prRaw := pduBytes (bitReadResponse f vs),
       prBits := vs @ replicate ((length vs + 7) div 8 * 8 - length vs) False\<rparr>) else Inl BitCountMismatch)"
proof (cases "length vs \<le> 2040")
  case True
  then have m: "(length vs + 7) div 8 mod 256 = (length vs + 7) div 8" by simp
  have t: "unpackBits (packBits vs) ((length vs + 7) div 8 * 8)
      = vs @ replicate ((length vs + 7) div 8 * 8 - length vs) False"
    by (rule take_unpack_pack) simp_all
  from True assms show ?thesis
    by (auto simp: ParseResponse_def Let_def bitReadResponse_def unat_of_nat_byte m t)
next
  case False
  then have "256 \<le> (length vs + 7) div 8" by simp
  then have "(length vs + 7) div 8 mod 256 \<noteq> (length vs + 7) div 8"
    using mod_less_divisor [of 256 "(length vs + 7) div 8"] by linarith
  with False assms show ?thesis
    by (auto simp: ParseResponse_def Let_def bitReadResponse_def unat_of_nat_byte)
qed

lemma readRange_ok: "quantity \<noteq> 0 \<Longrightarrow> readRange zero values address quantity
    = Inr (map (\<lambda>i. cell zero values (address + of_nat i)) [0..<unat quantity])"
  by (simp add: readRange_def)

lemma answer_read_registers:
  assumes "BuildReadRequest f a q = Inr req"
    and "f = FunctionReadHoldingRegisters \<or> f = FunctionReadInputRegisters"
  shows "BuildSlaveResponse u req (Some m) = (normalResponse (registerReadResponse f
    (map (\<lambda>i. cell 0 (if f = FunctionReadHoldingRegisters then dmHoldingRegisters m else dmInputRegisters m)
       (a + of_nat i)) [0..<unat q])), Some m)"
  using assms
  by (auto simp: BuildReadRequest_def BuildSlaveResponse_def answerRequest_def answerRead_def Let_def
      ReadHoldingRegisters_def ReadInputRegisters_def readU16Range_def readRange_ok split: if_splits)

lemma answer_read_bits:
  assumes "BuildReadRequest f a q = Inr req"
    and "f = FunctionReadCoils \<or> f = FunctionReadDiscreteInputs"
  shows "BuildSlaveResponse u req (Some m) = (normalResponse (bitReadResponse f
    (map (\<lambda>i. cell False (if f = FunctionReadCoils then dmCoils m else dmDiscreteInputs m)
       (a + of_nat i)) [0..<unat q])), Some m)"
  using assms
  by (auto simp: BuildReadRequest_def BuildSlaveResponse_def answerRequest_def answerRead_def Let_def
      ReadCoils_def ReadDiscreteInputs_def readBoolRange_def readRange_ok split: if_splits)

section \<open>Correctness of the slave\<close>

text \<open>a master that reads registers gets the contents of the slave's table: for at most 127
  registers the reply parses and carries exactly the values of the block read, the tables are
  untouched, and a larger read is answered by a reply the master rejects.\<close>

theorem read_registers_end_to_end:
  assumes "BuildReadRequest f a q = Inr req"
    and "f = FunctionReadHoldingRegisters \<or> f = FunctionReadInputRegisters"
    and "BuildSlaveResponse u req (Some m) = (r, m')"
  shows "m' = Some m \<and> (if unat q \<le> 127
    then \<exists>pr. ParseResponse (srPDU r) = Inr pr \<and> \<not> prException pr
      \<and> (if f = FunctionReadHoldingRegisters then ReadHoldingRegisters m a q else ReadInputRegisters m a q)
        = Inr (prValues pr)
    else ParseResponse (srPDU r) = Inl RegisterCountMismatch)"
proof -
  have "q \<noteq> 0" using assms(1) by (auto simp: BuildReadRequest_def split: if_splits)
  with answer_read_registers [OF assms(1,2), of u m] assms(2,3) show ?thesis
    by (auto simp: normalResponse_def parse_register_reply parsedZero_def ReadHoldingRegisters_def
        ReadInputRegisters_def readU16Range_def readRange_ok)
qed

theorem read_registers_end_to_end_witness:
  "\<exists>r. BuildSlaveResponse 1 \<lparr>pduFunction = 3, pduData = [0, 5, 0, 2]\<rparr>
      (Some (NewDataModel\<lparr>dmHoldingRegisters := [5 \<mapsto> 700]\<rparr>))
      = (r, Some (NewDataModel\<lparr>dmHoldingRegisters := [5 \<mapsto> 700]\<rparr>))
    \<and> is_ok (ParseResponse (srPDU r))"
proof -
  have req: "BuildReadRequest 3 5 2 = Inr \<lparr>pduFunction = 3, pduData = [0, 5, 0, 2]\<rparr>"
    by (simp add: BuildReadRequest_def u16Pair_def hiByte_def loByte_def)
  obtain r m' where r: "BuildSlaveResponse 1 \<lparr>pduFunction = 3, pduData = [0, 5, 0, 2]\<rparr>
      (Some (NewDataModel\<lparr>dmHoldingRegisters := [5 \<mapsto> 700]\<rparr>)) = (r, m')" by fastforce
  from read_registers_end_to_end [OF req _ r] r show ?thesis by (auto simp: is_ok_iff)
qed

text \<open>a master that reads coils or discrete inputs gets the block of the slave's table followed
  by the padding of the last byte, for at most 2040 bits; a larger read is answered by a reply the
  master rejects. The tables are untouched.\<close>

theorem read_bits_end_to_end:
  assumes "BuildReadRequest f a q = Inr req"
    and "f = FunctionReadCoils \<or> f = FunctionReadDiscreteInputs"
    and "BuildSlaveResponse u req (Some m) = (r, m')"
  shows "m' = Some m \<and> (if unat q \<le> 2040
    then \<exists>pr. ParseResponse (srPDU r) = Inr pr \<and> \<not> prException pr
      \<and> (if f = FunctionReadCoils then ReadCoils m a q else ReadDiscreteInputs m a q)
        = Inr (take (unat q) (prBits pr))
      \<and> length (prBits pr) < unat q + 8
    else ParseResponse (srPDU r) = Inl BitCountMismatch)"
proof -
  have "q \<noteq> 0" using assms(1) by (auto simp: BuildReadRequest_def split: if_splits)
  with answer_read_bits [OF assms(1,2), of u m] assms(2,3) show ?thesis
    by (auto simp: normalResponse_def parse_bit_reply parsedZero_def ReadCoils_def
        ReadDiscreteInputs_def readBoolRange_def readRange_ok)
qed

theorem read_bits_end_to_end_witness:
  "\<exists>r. BuildSlaveResponse 1 \<lparr>pduFunction = 1, pduData = [0, 5, 0, 9]\<rparr>
      (Some (NewDataModel\<lparr>dmCoils := [5 \<mapsto> True]\<rparr>)) = (r, Some (NewDataModel\<lparr>dmCoils := [5 \<mapsto> True]\<rparr>))
    \<and> is_ok (ParseResponse (srPDU r))"
proof -
  have req: "BuildReadRequest 1 5 9 = Inr \<lparr>pduFunction = 1, pduData = [0, 5, 0, 9]\<rparr>"
    by (simp add: BuildReadRequest_def u16Pair_def hiByte_def loByte_def)
  obtain r m' where r: "BuildSlaveResponse 1 \<lparr>pduFunction = 1, pduData = [0, 5, 0, 9]\<rparr>
      (Some (NewDataModel\<lparr>dmCoils := [5 \<mapsto> True]\<rparr>)) = (r, m')" by fastforce
  from read_bits_end_to_end [OF req _ r] r show ?thesis by (auto simp: is_ok_iff)
qed

lemma parse_written_registers:
  assumes "BuildWriteMultipleRegistersRequest a vs = Inr req"
  shows "pduFunction req = FunctionWriteMultipleRegisters \<and> vs \<noteq> [] \<and> length vs \<le> 123
    \<and> parseMultipleRegisters (pduData req) = Some (a, vs)"
proof -
  from assms have n: "vs \<noteq> []" "length vs \<le> 123"
    by (auto simp: BuildWriteMultipleRegistersRequest_def split: if_splits)
  then have "0 < length vs" by simp
  with n assms show ?thesis
    by (auto simp: BuildWriteMultipleRegistersRequest_def parseMultipleRegisters_def Let_def
        u16_bytes_def unat_of_nat_u16 unat_of_nat_byte simp del: of_nat_mult length_greater_0_conv)
qed

lemma parse_written_coils:
  assumes "BuildWriteMultipleCoilsRequest a vs = Inr req"
  shows "pduFunction req = FunctionWriteMultipleCoils \<and> vs \<noteq> [] \<and> length vs \<le> 1968
    \<and> (\<exists>n us. parseMultipleCoils (pduData req) = Some (a, length vs, n, us) \<and> take (length vs) us = vs)"
proof -
  from assms have n: "vs \<noteq> []" "length vs \<le> 1968"
    by (auto simp: BuildWriteMultipleCoilsRequest_def split: if_splits)
  define k where "k = (length vs + 7) div 8"
  have "0 < k" using n(1) by (cases vs) (simp_all add: k_def)
  moreover have "k < 256" "length vs \<le> k * 8" using n(2) unfolding k_def by linarith+
  moreover note k = calculation
  have t: "unpackBits (packBits vs) (k * 8) = vs @ replicate (k * 8 - length vs) False"
    by (rule take_unpack_pack) (simp_all add: k_def)
  from n k assms show ?thesis
    by (auto simp: BuildWriteMultipleCoilsRequest_def parseMultipleCoils_def Let_def
        u16_bytes_def unat_of_nat_u16 unat_of_nat_byte t simp flip: k_def)
qed

section \<open>Writes\<close>

text \<open>C10: a block of registers a master writes is stored: the slave confirms the address and the
  count, reading the block back returns the values written, and every register outside the block
  and every other table keep their contents.\<close>

theorem write_registers_end_to_end:
  assumes "BuildWriteMultipleRegistersRequest a vs = Inr req"
    and "BuildSlaveResponse u req (Some m) = (r, m')"
  shows "\<exists>n. m' = Some n
    \<and> ParseResponse (srPDU r) = Inr (parsedZero\<lparr>prFunction := FunctionWriteMultipleRegisters,
        prRaw := pduBytes (srPDU r), prAddress := a, prQuantity := of_nat (length vs)\<rparr>)
    \<and> ReadHoldingRegisters n a (of_nat (length vs)) = Inr vs
    \<and> (\<forall>b. b \<notin> (\<lambda>i. a + of_nat i) ` {..<length vs} \<longrightarrow>
         cell 0 (dmHoldingRegisters n) b = cell 0 (dmHoldingRegisters m) b)
    \<and> dmCoils n = dmCoils m \<and> dmDiscreteInputs n = dmDiscreteInputs m
    \<and> dmInputRegisters n = dmInputRegisters m"
proof -
  let ?n = "m\<lparr>dmHoldingRegisters := writeFrom 0 (dmHoldingRegisters m) a vs\<rparr>"
  from parse_written_registers [OF assms(1)] have req: "pduFunction req = FunctionWriteMultipleRegisters"
      "parseMultipleRegisters (pduData req) = Some (a, vs)" and n: "vs \<noteq> []" "length vs \<le> 123" by auto
  from assms(2) req n have m': "m' = Some ?n"
    and r: "srPDU r = \<lparr>pduFunction = FunctionWriteMultipleRegisters, pduData = u16Pair a (of_nat (length vs))\<rparr>"
    by (auto simp: BuildSlaveResponse_def answerRequest_def answerWriteRegisters_def Let_def
        WriteHoldingRegisters_def ignoreError_def normalResponse_def)
  have q: "unat (of_nat (length vs) :: u16) = length vs" "(of_nat (length vs) :: u16) \<noteq> 0"
    using n of_nat_u16_inject [of "length vs" 0] by (simp_all add: unat_of_nat_u16)
  have "ReadHoldingRegisters ?n a (of_nat (length vs)) = Inr vs"
    using register_table.block_put [of vs m a] n q
    by (simp add: ReadHoldingRegisters_def readU16Range_def readRange_ok register_table.block_def)
  moreover have "cell 0 (dmHoldingRegisters ?n) b = cell 0 (dmHoldingRegisters m) b"
    if "b \<notin> (\<lambda>i. a + of_nat i) ` {..<length vs}" for b
    by (rule register_table.put_miss) (use that in auto)
  ultimately show ?thesis
    by (auto simp: m' r ParseResponse_def Let_def u16Pair_def parsedZero_def)
qed

theorem write_registers_end_to_end_witness:
  "\<exists>req r n. BuildWriteMultipleRegistersRequest 65535 [7, 8] = Inr req
    \<and> BuildSlaveResponse 1 req (Some NewDataModel) = (r, Some n)
    \<and> ReadHoldingRegisters n 65535 2 = Inr [7, 8]"
proof -
  obtain req where req: "BuildWriteMultipleRegistersRequest 65535 [7, 8] = Inr req"
    by (simp add: BuildWriteMultipleRegistersRequest_def)
  obtain r m' where "BuildSlaveResponse 1 req (Some NewDataModel) = (r, m')" by fastforce
  from write_registers_end_to_end [OF req this] this req show ?thesis by auto
qed

text \<open>the same for a block of coils.\<close>

theorem write_coils_end_to_end:
  assumes "BuildWriteMultipleCoilsRequest a vs = Inr req"
    and "BuildSlaveResponse u req (Some m) = (r, m')"
  shows "\<exists>n. m' = Some n
    \<and> ParseResponse (srPDU r) = Inr (parsedZero\<lparr>prFunction := FunctionWriteMultipleCoils,
        prRaw := pduBytes (srPDU r), prAddress := a, prQuantity := of_nat (length vs)\<rparr>)
    \<and> ReadCoils n a (of_nat (length vs)) = Inr vs
    \<and> (\<forall>b. b \<notin> (\<lambda>i. a + of_nat i) ` {..<length vs} \<longrightarrow>
         cell False (dmCoils n) b = cell False (dmCoils m) b)
    \<and> dmHoldingRegisters n = dmHoldingRegisters m \<and> dmDiscreteInputs n = dmDiscreteInputs m
    \<and> dmInputRegisters n = dmInputRegisters m"
proof -
  let ?n = "m\<lparr>dmCoils := writeFrom 0 (dmCoils m) a vs\<rparr>"
  from parse_written_coils [OF assms(1)] obtain k us where req: "pduFunction req = FunctionWriteMultipleCoils"
      "parseMultipleCoils (pduData req) = Some (a, length vs, k, us)" "take (length vs) us = vs"
    and n: "vs \<noteq> []" "length vs \<le> 1968" by auto
  then have us: "us \<noteq> []" by auto
  from assms(2) req n us have m': "m' = Some ?n"
    and r: "srPDU r = \<lparr>pduFunction = FunctionWriteMultipleCoils, pduData = u16Pair a (of_nat (length vs))\<rparr>"
    by (auto simp: BuildSlaveResponse_def answerRequest_def answerWriteCoils_def Let_def
        WriteCoils_def ignoreError_def normalResponse_def)
  have q: "unat (of_nat (length vs) :: u16) = length vs" "(of_nat (length vs) :: u16) \<noteq> 0"
    using n of_nat_u16_inject [of "length vs" 0] by (simp_all add: unat_of_nat_u16)
  have "ReadCoils ?n a (of_nat (length vs)) = Inr vs"
    using coil_table.block_put [of vs m a] n q
    by (simp add: ReadCoils_def readBoolRange_def readRange_ok coil_table.block_def)
  moreover have "cell False (dmCoils ?n) b = cell False (dmCoils m) b"
    if "b \<notin> (\<lambda>i. a + of_nat i) ` {..<length vs}" for b
    by (rule coil_table.put_miss) (use that in auto)
  ultimately show ?thesis
    by (auto simp: m' r ParseResponse_def Let_def u16Pair_def parsedZero_def)
qed

theorem write_coils_end_to_end_witness:
  "\<exists>req r n. BuildWriteMultipleCoilsRequest 10 [True, False, True] = Inr req
    \<and> BuildSlaveResponse 1 req (Some NewDataModel) = (r, Some n)
    \<and> ReadCoils n 10 3 = Inr [True, False, True]"
proof -
  obtain req where req: "BuildWriteMultipleCoilsRequest 10 [True, False, True] = Inr req"
    by (simp add: BuildWriteMultipleCoilsRequest_def Let_def)
  obtain r m' where "BuildSlaveResponse 1 req (Some NewDataModel) = (r, m')" by fastforce
  from write_coils_end_to_end [OF req this] this req show ?thesis by auto
qed

text \<open>an exception never changes the tables, and carries the request's function code with the
  exception bit; a request the slave understands but refuses parses at the master as an exception
  with the code the slave gave.\<close>

theorem exception_leaves_model:
  assumes "BuildSlaveResponse u req (Some m) = (r, m')" and "srException r"
  shows "m' = Some m \<and> pduFunction (srPDU r) = pduFunction req OR exceptionMask
    \<and> (\<exists>pr. ParseResponse (srPDU r) = Inr pr \<and> prException pr \<and> prExceptionCode pr = srExceptionCode r)"
proof -
  have norm: "\<not> srException (normalResponse p)" for p by (simp add: normalResponse_def)
  have f: "f AND NOT exceptionMask OR exceptionMask = f OR exceptionMask" for f :: byte
    by (rule bit_word_eqI) (auto simp: bit_simps)
  have m': "m' = Some m"
    using assms norm
    by (auto simp: BuildSlaveResponse_def answerRequest_def answerWriteCoil_def
        answerWriteRegister_def answerWriteCoils_def answerWriteRegisters_def Let_def
        split: if_splits option.splits sum.splits prod.splits)
  have "\<exists>c g. r = exceptionResponse g c \<and> g OR exceptionMask = pduFunction req OR exceptionMask"
    using assms norm f
    by (auto simp: BuildSlaveResponse_def answerRequest_def answerRead_def answerWriteCoil_def
        answerWriteRegister_def answerWriteCoils_def answerWriteRegisters_def Let_def
        split: if_splits option.splits sum.splits prod.splits)
       ((intro exI conjI, rule refl, simp)+)
  then obtain c g where r: "r = exceptionResponse g c" "g OR exceptionMask = pduFunction req OR exceptionMask"
    by blast
  have "(g OR exceptionMask) AND exceptionMask = exceptionMask"
    by (rule bit_word_eqI) (auto simp: bit_simps)
  with m' r show ?thesis by (simp add: exceptionResponse_def ParseResponse_def Let_def parsedZero_def)
qed

theorem exception_leaves_model_witness:
  "\<exists>r. BuildSlaveResponse 1 \<lparr>pduFunction = 6, pduData = [0, 1]\<rparr> (Some NewDataModel) = (r, Some NewDataModel)
    \<and> srExceptionCode r = ExceptionIllegalDataValue \<and> is_ok (ParseResponse (srPDU r))"
proof -
  obtain r m' where r: "BuildSlaveResponse 1 \<lparr>pduFunction = 6, pduData = [0, 1]\<rparr> (Some NewDataModel) = (r, m')"
    by fastforce
  then have e: "srException r" "srExceptionCode r = ExceptionIllegalDataValue"
    by (auto simp: BuildSlaveResponse_def answerRequest_def answerWriteRegister_def Let_def exceptionResponse_def)
  from exception_leaves_model [OF r e(1)] r e show ?thesis by (auto simp: is_ok_iff)
qed

end
