(* ===== verification/GraphProtocol.thy ===== *)
theory GraphProtocol
  imports GraphConfig ModbusDataModel
begin

text \<open>
  What the protocol nodes of a graph send and answer (\<open>graph_runtime.go\<close>, lines 1889 to 2190), and
  the text that is shown for a captured Modbus frame (lines 1640 to 1797).
\<close>

section \<open>Requests and answers\<close>

datatype payload_error =
    BadAddress modbus_error | BadRequest modbus_error | BadFrame modbus_error
  | BadFecData fec_error | BadFecFrame fec_error | UnsupportedMasterFunction byte

definition unitTokens :: "config \<Rightarrow> string list" where
  "unitTokens config = fields_func (\<lambda>r. r \<in> set '',; '' \<or> r \<in> {CHR 9, CHR 10})
     (graphStringConfigWithDefault config ''unitIds'' ''1'')"

definition graphFirstUnitID :: "config \<Rightarrow> byte" where
  "graphFirstUnitID config =
     (let unitID = graphIntConfig config ''unitID'' 0 in
      if 0 < unitID then of_int unitID
      else case find (\<lambda>i. 0 < i \<and> i \<le> 247) (List.map_filter atoi (unitTokens config)) of
        Some i \<Rightarrow> of_int i | None \<Rightarrow> 1)"

definition graphUnitIDAllowed :: "config \<Rightarrow> byte \<Rightarrow> bool" where
  "graphUnitIDAllowed config unitID = list_ex (\<lambda>t. atoi t = Some (uint unitID)) (unitTokens config)"

definition graphModbusMasterFrame :: "config \<Rightarrow> payload_error + bytes" where
  "graphModbusMasterFrame config =
     (let mode = graphStringConfigWithDefault config ''mode'' FrameModeRTU;
          unitID = graphFirstUnitID config;
          function = (of_int (graphIntConfig config ''functionCode'' 3) :: byte);
          addressMode = graphStringConfigWithDefault config ''addressMode'' AddressModeZeroBased;
          addressInput = (of_int (graphIntConfig config ''address'' 0) :: u16) in
      case ProtocolAddress addressMode function addressInput of
        Inl e \<Rightarrow> Inl (BadAddress e)
      | Inr address \<Rightarrow>
          let quantity = (of_int (graphIntConfig config ''quantity'' 1) :: u16);
              value = (of_int (graphIntConfig config ''value'' 0) :: u16);
              request = (if function \<in> {FunctionReadCoils, FunctionReadDiscreteInputs,
                    FunctionReadHoldingRegisters, FunctionReadInputRegisters}
                then map_sum BadRequest id (BuildReadRequest function address quantity)
                else if function = FunctionWriteSingleCoil \<or> function = FunctionWriteSingleRegister
                then map_sum BadRequest id (BuildWriteSingleRequest function address value)
                else if function = FunctionWriteMultipleCoils
                then map_sum BadRequest id
                  (BuildWriteMultipleCoilsRequest address (graphBoolValuesConfig config ''coilValues''))
                else if function = FunctionWriteMultipleRegisters
                then map_sum BadRequest id
                  (BuildWriteMultipleRegistersRequest address (graphUint16ValuesConfig config ''registerValues''))
                else Inl (UnsupportedMasterFunction function)) in
          case request of Inl e \<Rightarrow> Inl e
          | Inr p \<Rightarrow> map_sum BadFrame id (EncodeFrame mode unitID p))"

definition graphException :: "decodedFrame \<Rightarrow> byte \<Rightarrow> pdu" where
  "graphException frame code = \<lparr>pduFunction = pduFunction (dfPDU frame) OR 0x80, pduData = [code]\<rparr>"

text \<open>The slave of a graph reads zeros and echoes writes.\<close>

definition graphModbusSlaveResponse :: "decodedFrame \<Rightarrow> pdu" where
  "graphModbusSlaveResponse frame =
     (let f = pduFunction (dfPDU frame); data = pduData (dfPDU frame);
          quantity = unat (join16 (data ! 2) (data ! 3)) in
      if f = FunctionReadCoils \<or> f = FunctionReadDiscreteInputs then
        if length data < 4 \<or> quantity = 0 then graphException frame ExceptionIllegalDataValue
        else let byteCount = (quantity + 7) div 8 in
          \<lparr>pduFunction = f, pduData = of_nat byteCount # replicate byteCount 0\<rparr>
      else if f = FunctionReadHoldingRegisters \<or> f = FunctionReadInputRegisters then
        if length data < 4 \<or> quantity = 0 \<or> 125 < quantity then graphException frame ExceptionIllegalDataValue
        else \<lparr>pduFunction = f, pduData = of_nat (quantity * 2) # replicate (quantity * 2) 0\<rparr>
      else if f \<in> {FunctionWriteSingleCoil, FunctionWriteSingleRegister,
          FunctionWriteMultipleCoils, FunctionWriteMultipleRegisters} then
        if length data < 4 then graphException frame ExceptionIllegalDataValue
        else \<lparr>pduFunction = f, pduData = take 4 data\<rparr>
      else graphException frame ExceptionIllegalFunction)"

abbreviation "FunctionQueryProtocolVersion \<equiv> (0x2c :: byte)"

definition graphFecbusFrame :: "config \<Rightarrow> payload_error + bytes" where
  "graphFecbusFrame config =
     (case ParseHex (graphStringConfig config ''dataHex'') of
        Inl e \<Rightarrow> Inl (BadFecData e)
      | Inr payload \<Rightarrow>
        (case BuildData (of_int (graphIntConfig config ''functionCode'' (uint FunctionQueryProtocolVersion))) payload of
           Inl e \<Rightarrow> Inl (BadFecData e)
         | Inr data \<Rightarrow>
             map_sum BadFecFrame id (FecEncodeFrame
               \<lparr>ffType = of_int (graphIntConfig config ''frameType'' (uint FrameTypeRequest)),
                ffTarget = of_int (graphIntConfig config ''targetAddress'' 2),
                ffPriority = of_int (graphIntConfig config ''priority'' 3),
                ffSource = of_int (graphIntConfig config ''sourceAddress'' 1),
                ffMessage = of_int (graphIntConfig config ''messageNumber'' 1),
                ffGroup = of_int (graphIntConfig config ''groupNumber'' 0),
                ffData = data, ffRaw = [], ffCRCOK = False\<rparr>)))"

section \<open>Display\<close>

definition hex_upper :: "byte \<Rightarrow> string" where
  "hex_upper b = to_upper (hex_byte b)"

fun fixed_digits :: "nat \<Rightarrow> nat \<Rightarrow> nat \<Rightarrow> string" where
  "fixed_digits base 0 n = []"
| "fixed_digits base (Suc w) n = fixed_digits base w (n div base) @ [digit_char (n mod base)]"

text \<open>The verbs \<open>%02x\<close>, \<open>%d\<close>, \<open>%03o\<close> and \<open>%08b\<close> of a byte\<close>

definition decByte :: "byte \<Rightarrow> string" where "decByte b = itoa (uint b)"
definition octByte :: "byte \<Rightarrow> string" where "octByte b = fixed_digits 8 3 (unat b)"
definition binByte :: "byte \<Rightarrow> string" where "binByte b = fixed_digits 2 8 (unat b)"

definition formatGraphFrameBytes :: "bytes \<Rightarrow> (byte \<Rightarrow> string) \<Rightarrow> string" where
  "formatGraphFrameBytes data verb = join_with '' '' (map verb data)"

definition graphNormalizeModbusFrameMode :: "frame_mode \<Rightarrow> frame_mode" where
  "graphNormalizeModbusFrameMode mode = (if equal_fold mode FrameModeASCII then FrameModeASCII else FrameModeRTU)"

definition graphModbusFunctionLabel :: "byte \<Rightarrow> string" where
  "graphModbusFunctionLabel function = (let base = function AND NOT 0x80 in
     if base = FunctionReadCoils then ''Read Coils''
     else if base = FunctionReadDiscreteInputs then ''Read Discrete Inputs''
     else if base = FunctionReadHoldingRegisters then ''Read Holding Registers''
     else if base = FunctionReadInputRegisters then ''Read Input Registers''
     else if base = FunctionWriteSingleCoil then ''Write Single Coil''
     else if base = FunctionWriteSingleRegister then ''Write Single Register''
     else if base = FunctionWriteMultipleCoils then ''Write Multiple Coils''
     else if base = FunctionWriteMultipleRegisters then ''Write Multiple Registers''
     else ''Unknown'')"

definition graphModbusExceptionLabel :: "byte \<Rightarrow> string" where
  "graphModbusExceptionLabel code =
     (if code = ExceptionIllegalFunction then ''Illegal Function''
      else if code = ExceptionIllegalDataAddress then ''Illegal Data Address''
      else if code = ExceptionIllegalDataValue then ''Illegal Data Value''
      else if code = ExceptionServerFailure then ''Server Failure''
      else ''Unknown'')"

definition u16_text :: "u16 \<Rightarrow> string" where "u16_text v = itoa (uint v)"

fun graphModbusRegisterValues :: "bytes \<Rightarrow> string list" where
  "graphModbusRegisterValues (a # b # rest) = u16_text (join16 a b) # graphModbusRegisterValues rest"
| "graphModbusRegisterValues _ = []"

definition two_words :: "string \<Rightarrow> string \<Rightarrow> bytes \<Rightarrow> string" where
  "two_words first second data = first @ '' '' @ u16_text (join16 (data ! 0) (data ! 1))
     @ '' '' @ second @ '' '' @ u16_text (join16 (data ! 2) (data ! 3))"

definition rawData :: "bytes \<Rightarrow> string" where
  "rawData data = (if data = [] then [] else ''Data '' @ formatGraphFrameBytes data hex_byte)"

definition graphModbusPDUDisplay :: "pdu \<Rightarrow> string" where
  "graphModbusPDUDisplay p = (let f = pduFunction p; data = pduData p in
     if f AND 0x80 \<noteq> 0 then
       (case data of [] \<Rightarrow> ''Exception''
        | code # _ \<Rightarrow> ''Exception '' @ hex_upper code @ '' '' @ graphModbusExceptionLabel code)
     else if f = FunctionReadCoils \<or> f = FunctionReadDiscreteInputs then
       if length data = 4 then two_words ''Address'' ''Quantity'' data
       else if data \<noteq> [] then
         ''Byte Count '' @ decByte (hd data) @ '' Data '' @ formatGraphFrameBytes (tl data) hex_byte
       else rawData data
     else if f = FunctionReadHoldingRegisters \<or> f = FunctionReadInputRegisters then
       if length data = 4 then two_words ''Address'' ''Quantity'' data
       else if data \<noteq> [] then
         (let values = graphModbusRegisterValues (tl data) in
          join_with '' '' ((''Byte Count '' @ decByte (hd data)) #
            (if values \<noteq> [] then [''Values '' @ join_with '', '' values]
             else if 1 < length data then [''Data '' @ formatGraphFrameBytes (tl data) hex_byte] else [])))
       else rawData data
     else if f = FunctionWriteSingleCoil \<or> f = FunctionWriteSingleRegister then
       if 4 \<le> length data then two_words ''Address'' ''Value'' data else rawData data
     else if f = FunctionWriteMultipleCoils \<or> f = FunctionWriteMultipleRegisters then
       if length data = 4 then two_words ''Address'' ''Quantity'' data
       else if 5 \<le> length data then
         two_words ''Address'' ''Quantity'' data @ '' Byte Count '' @ decByte (data ! 4)
           @ '' Data '' @ formatGraphFrameBytes (drop 5 data) hex_byte
       else rawData data
     else rawData data)"

definition graphModbusChecksumDisplay :: "frame_mode \<Rightarrow> bytes \<Rightarrow> string" where
  "graphModbusChecksumDisplay mode data =
     (if mode = FrameModeASCII then
        (let text = trimSuffix (trimPrefix (string_of data) '':'') crlf in
         if 2 \<le> length text then ''LRC '' @ to_upper (drop (length text - 2) text) else [])
      else if mode = FrameModeRTU then
        if 2 \<le> length data then ''CRC '' @ hex_byte (data ! (length data - 2)) @ '' '' @ hex_byte (data ! (length data - 1))
        else []
      else [])"

text \<open>
  The texts of the errors of \<open>DecodeFrame\<close>; \<open>hexText\<close> is the one of \<open>hex.DecodeString\<close>.
\<close>

definition decodeErrorText :: "string \<Rightarrow> modbus_error \<Rightarrow> string" where
  "decodeErrorText hexText e = (case e of
       UnsupportedFrameMode mode \<Rightarrow> ''unsupported frame mode: '' @ mode
     | RtuTooShort \<Rightarrow> ''rtu frame too short''
     | RtuCrcMismatch \<Rightarrow> ''rtu crc mismatch''
     | AsciiDelimiters \<Rightarrow> ''ascii frame must start with ':' and end with CRLF''
     | AsciiHexLength \<Rightarrow> ''ascii frame has invalid hex length''
     | AsciiHexDecode \<Rightarrow> ''ascii hex decode: '' @ hexText
     | AsciiLrcMismatch \<Rightarrow> ''ascii lrc mismatch''
     | PayloadTooShort \<Rightarrow> ''frame payload too short''
     | _ \<Rightarrow> [])"

definition graphModbusFrameDisplay :: "(bytes \<Rightarrow> string) \<Rightarrow> frame_mode \<Rightarrow> bytes \<Rightarrow> string \<times> string" where
  "graphModbusFrameDisplay hexText mode data =
     (let normalizedMode = graphNormalizeModbusFrameMode mode;
          raw = ''Raw '' @ formatGraphFrameBytes data hex_byte in
      case DecodeFrame normalizedMode data of
        Inl e \<Rightarrow> (let text = decodeErrorText (hexText data) e in
          (join_with '' | '' [''Modbus '' @ to_upper normalizedMode, ''Invalid frame: '' @ text, raw], text))
      | Inr frame \<Rightarrow>
          (let detail = graphModbusPDUDisplay (dfPDU frame);
               checksum = graphModbusChecksumDisplay normalizedMode data in
           (join_with '' | '' ([''Unit '' @ decByte (dfUnitID frame),
               ''FC '' @ hex_upper (pduFunction (dfPDU frame)) @ '' '' @ graphModbusFunctionLabel (pduFunction (dfPDU frame))]
             @ (if detail \<noteq> [] then [detail] else []) @ (if checksum \<noteq> [] then [checksum] else []) @ [raw]), [])))"

section \<open>Properties\<close>

text \<open>A request a master builds, register reads within the limit of the protocol\<close>

definition master_request :: "pdu \<Rightarrow> bool" where
  "master_request p \<longleftrightarrow>
     (\<exists>f a q. BuildReadRequest f a q = Inr p \<and> (f = FunctionReadCoils \<or> f = FunctionReadDiscreteInputs \<or> q \<le> 125))
     \<or> (\<exists>f a v. BuildWriteSingleRequest f a v = Inr p)
     \<or> (\<exists>a vs. BuildWriteMultipleCoilsRequest a vs = Inr p)
     \<or> (\<exists>a vs. BuildWriteMultipleRegistersRequest a vs = Inr p)"

lemma join_u16_bytes [simp]: "u16Pair a q ! 2 = hiByte q" "u16Pair a q ! 3 = loByte q" "length (u16Pair a q) = 4"
  by (simp_all add: u16Pair_def u16_bytes_def)

lemma pack_False: "packBits (replicate n False) = replicate ((n + 7) div 8) 0"
proof -
  have "packFrom i (replicate n False) out = out" for i out
    by (induction n arbitrary: i) simp_all
  then show ?thesis by (simp add: packBits_def)
qed

lemma zero_registers: "concat (map (u16_bytes \<circ> (\<lambda>i. 0)) [0..<n]) = replicate (n * 2) 0"
proof -
  have "concat (map (u16_bytes \<circ> (\<lambda>i. 0)) ns) = replicate (length ns * 2) 0" for ns :: "nat list"
    by (induction ns) (simp_all add: u16_bytes_def hiByte_def loByte_def)
  from this [of "[0..<n]"] show ?thesis by simp
qed

lemma map_const: "map (\<lambda>i. c) [0..<n] = replicate n c"
  by (simp add: map_replicate_const)

lemma empty_cells [simp]:
  "cell z (dmCoils NewDataModel) = (\<lambda>a. z)" "cell z (dmDiscreteInputs NewDataModel) = (\<lambda>a. z)"
  "cell y (dmInputRegisters NewDataModel) = (\<lambda>a. y)" "cell y (dmHoldingRegisters NewDataModel) = (\<lambda>a. y)"
  by (simp_all add: NewDataModel_def cell_def fun_eq_iff)

lemma zero_read_bits:
  assumes "BuildReadRequest f a q = Inr p" and "f = FunctionReadCoils \<or> f = FunctionReadDiscreteInputs"
  shows "graphModbusSlaveResponse \<lparr>dfMode = m, dfUnitID = u, dfPDU = p\<rparr> = srPDU (fst (BuildSlaveResponse u p (Some NewDataModel)))"
proof -
  have p: "p = \<lparr>pduFunction = f, pduData = u16Pair a q\<rparr>" and "q \<noteq> 0"
    using assms by (auto simp: BuildReadRequest_def split: if_splits)
  then have "0 < unat q" by (simp add: unat_gt_0)
  with assms(2) show ?thesis
    unfolding answer_read_bits [OF assms]
    by (auto simp: graphModbusSlaveResponse_def Let_def p normalResponse_def bitReadResponse_def map_const pack_False)
qed

lemma zero_read_registers:
  assumes "BuildReadRequest f a q = Inr p" and "f = FunctionReadHoldingRegisters \<or> f = FunctionReadInputRegisters"
    and "q \<le> 125"
  shows "graphModbusSlaveResponse \<lparr>dfMode = m, dfUnitID = u, dfPDU = p\<rparr> = srPDU (fst (BuildSlaveResponse u p (Some NewDataModel)))"
proof -
  have p: "p = \<lparr>pduFunction = f, pduData = u16Pair a q\<rparr>" and "q \<noteq> 0"
    using assms by (auto simp: BuildReadRequest_def split: if_splits)
  then have "0 < unat q" "unat q \<le> 125" using assms(3) by (simp_all add: unat_gt_0 word_le_nat_alt)
  with assms(2) show ?thesis
    unfolding answer_read_registers [OF assms(1,2)]
    by (auto simp: graphModbusSlaveResponse_def Let_def p normalResponse_def registerReadResponse_def map_const
        zero_registers mult.commute)
qed

lemma echo_single:
  assumes "BuildWriteSingleRequest f a v = Inr p"
  shows "graphModbusSlaveResponse \<lparr>dfMode = m, dfUnitID = u, dfPDU = p\<rparr> = srPDU (fst (BuildSlaveResponse u p (Some NewDataModel)))"
proof -
  obtain w where p: "p = \<lparr>pduFunction = f, pduData = u16Pair a w\<rparr>"
      and f: "f = FunctionWriteSingleCoil \<and> (w = 0 \<or> w = 0xff00) \<or> f = FunctionWriteSingleRegister"
    using assms by (auto simp: BuildWriteSingleRequest_def split: if_splits)
  have "beU16 (drop 2 (u16Pair a w)) = w" "take 4 (u16Pair a w) = u16Pair a w"
    by (simp_all add: u16Pair_def)
  with f show ?thesis
    by (auto simp: p graphModbusSlaveResponse_def Let_def BuildSlaveResponse_def answerRequest_def answerWriteCoil_def
        answerWriteRegister_def normalResponse_def split: prod.split)
qed

lemma echo_coils:
  assumes "BuildWriteMultipleCoilsRequest a vs = Inr p"
  shows "graphModbusSlaveResponse \<lparr>dfMode = m, dfUnitID = u, dfPDU = p\<rparr> = srPDU (fst (BuildSlaveResponse u p (Some NewDataModel)))"
proof -
  from parse_written_coils [OF assms] obtain n us where r: "pduFunction p = FunctionWriteMultipleCoils"
      "parseMultipleCoils (pduData p) = Some (a, length vs, n, us)" by blast
  from assms have "4 \<le> length (pduData p)" "take 4 (pduData p) = u16Pair a (of_nat (length vs))"
    by (auto simp: BuildWriteMultipleCoilsRequest_def Let_def u16Pair_def u16_bytes_def split: if_splits)
  with r show ?thesis
    by (auto simp: graphModbusSlaveResponse_def Let_def BuildSlaveResponse_def answerRequest_def answerWriteCoils_def
        normalResponse_def split: prod.split)
qed

lemma echo_registers:
  assumes "BuildWriteMultipleRegistersRequest a vs = Inr p"
  shows "graphModbusSlaveResponse \<lparr>dfMode = m, dfUnitID = u, dfPDU = p\<rparr> = srPDU (fst (BuildSlaveResponse u p (Some NewDataModel)))"
proof -
  from parse_written_registers [OF assms] have r: "pduFunction p = FunctionWriteMultipleRegisters"
      "parseMultipleRegisters (pduData p) = Some (a, vs)" by blast+
  from assms have "4 \<le> length (pduData p)" "take 4 (pduData p) = u16Pair a (of_nat (length vs))"
    by (auto simp: BuildWriteMultipleRegistersRequest_def Let_def u16Pair_def u16_bytes_def split: if_splits)
  with r show ?thesis
    by (auto simp: graphModbusSlaveResponse_def Let_def BuildSlaveResponse_def answerRequest_def answerWriteRegisters_def
        normalResponse_def split: prod.split)
qed

text \<open>The stateless Modbus slave of a graph gives every request of a master the reply a simulated
  slave with empty tables gives: zeros for reads, an echo or a confirmation for writes.\<close>

theorem graph_slave_as_empty_model:
  assumes "master_request p"
  shows "graphModbusSlaveResponse \<lparr>dfMode = m, dfUnitID = u, dfPDU = p\<rparr> = srPDU (fst (BuildSlaveResponse u p (Some NewDataModel)))"
proof -
  have "f = FunctionReadCoils \<or> f = FunctionReadDiscreteInputs \<or> f = FunctionReadHoldingRegisters
      \<or> f = FunctionReadInputRegisters" if "BuildReadRequest f a q = Inr p" for f a q
    using that by (auto simp: BuildReadRequest_def split: if_splits)
  with assms show ?thesis
    unfolding master_request_def
    by (metis zero_read_bits zero_read_registers echo_single echo_coils echo_registers)
qed

theorem graph_slave_as_empty_model_witness:
  "graphModbusSlaveResponse \<lparr>dfMode = FrameModeRTU, dfUnitID = 9, dfPDU = \<lparr>pduFunction = 3, pduData = [0, 5, 0, 2]\<rparr>\<rparr>
    = srPDU (fst (BuildSlaveResponse 9 \<lparr>pduFunction = 3, pduData = [0, 5, 0, 2]\<rparr> (Some NewDataModel)))"
proof (rule graph_slave_as_empty_model)
  have "BuildReadRequest 3 5 2 = Inr \<lparr>pduFunction = 3, pduData = [0, 5, 0, 2]\<rparr>"
    by (simp add: BuildReadRequest_def u16Pair_def u16_bytes_def hiByte_def loByte_def)
  then show "master_request \<lparr>pduFunction = 3, pduData = [0, 5, 0, 2]\<rparr>"
    unfolding master_request_def by fastforce
qed

end
