(* ===== verification/SerialPort.thy ===== *)
theory SerialPort
  imports GoStrings
begin

text \<open>
  The serial port interface of \<open>internal/modules/serial/port\<close>: the configuration of a port, its
  defaults and the mode it is opened with, and the behaviour of an open port towards a session.
  The driver (module \<open>go.bug.st/serial\<close>) is not part of the repository: opening a port is an
  outcome of the environment, and a sequence of reads is a script of the events a reading loop
  observes.
\<close>

record serialConfig =
  scPortName :: string
  scBaudRate :: int
  scDataBits :: int
  scStopBits :: string
  scParity :: string
  scFlowMode :: string
  scReadBufKB :: int

datatype parity = NoParity | EvenParity | OddParity | MarkParity | SpaceParity
datatype stop_bits = OneStopBit | OnePointFiveStopBits | TwoStopBits

record serialMode =
  smBaudRate :: int
  smDataBits :: int
  smParity :: parity
  smStopBits :: stop_bits

text \<open>\<open>Open\<close> hands this mode to the driver.\<close>

definition openMode :: "serialConfig \<Rightarrow> serialMode" where
  "openMode cfg =
     \<lparr>smBaudRate = (if scBaudRate cfg \<le> 0 then 115200 else scBaudRate cfg),
      smDataBits = (if scDataBits cfg = 0 then 8 else scDataBits cfg),
      smParity = (if scParity cfg = ''even'' then EvenParity else if scParity cfg = ''odd'' then OddParity
        else if scParity cfg = ''mark'' then MarkParity else if scParity cfg = ''space'' then SpaceParity
        else NoParity),
      smStopBits = (if scStopBits cfg = ''1.5'' then OnePointFiveStopBits
        else if scStopBits cfg = ''2'' then TwoStopBits else OneStopBit)\<rparr>"

text \<open>
  One round of a reading loop observes, in this order: a closed stop channel, a deadline that has
  passed, a port closed meanwhile, an error of the driver, or the bytes of one \<open>Read\<close> (none when
  the driver's own timeout expired).
\<close>

datatype readEvent = StopClosed | DeadlinePassed | PortGone | ReadError string | ReadChunk bytes

text \<open>The outcome of one \<open>Write\<close>: the number of bytes written and the error, if any.\<close>

datatype writeEvent = Wrote int "string option"

text \<open>The outcome of opening a port: the driver's error, if any.\<close>

type_synonym openEvent = "string option"

text \<open>
  The environment of one transaction: for each attempt the outcome of the write and, given the
  timeout in milliseconds, the events of the read.
\<close>

type_synonym attempt_env = "nat \<Rightarrow> writeEvent \<times> (int \<Rightarrow> readEvent list)"

text \<open>Whether the goroutine of a simulated slave goes on.\<close>

datatype loop_state = Looping | Exited

definition fillConfig :: "int \<Rightarrow> serialConfig \<Rightarrow> serialConfig" where
  "fillConfig baud cfg =
     \<lparr>scPortName = scPortName cfg,
      scBaudRate = (if scBaudRate cfg \<le> 0 then baud else scBaudRate cfg),
      scDataBits = (if scDataBits cfg = 0 then 8 else scDataBits cfg),
      scStopBits = (if scStopBits cfg = [] then ''1'' else scStopBits cfg),
      scParity = (if scParity cfg = [] then ''none'' else scParity cfg),
      scFlowMode = (if scFlowMode cfg = [] then ''none'' else scFlowMode cfg),
      scReadBufKB = (if scReadBufKB cfg = 0 then 32 else scReadBufKB cfg)\<rparr>"

lemma fillConfig_port [simp]: "scPortName (fillConfig baud cfg) = scPortName cfg"
  by (simp add: fillConfig_def)

text \<open>
  A script ends a reading loop when it holds an event that makes the loop return: in the running
  program the deadline passes at the latest.
\<close>

fun ends_reading :: "bool \<Rightarrow> readEvent list \<Rightarrow> bool" where
  "ends_reading stoppable [] = False"
| "ends_reading stoppable (StopClosed # es) = (stoppable \<or> ends_reading stoppable es)"
| "ends_reading stoppable (ReadChunk bs # es) = ends_reading stoppable es"
| "ends_reading stoppable (_ # es) = True"

end
