(* ===== verification/Monitor.thy ===== *)
theory Monitor
  imports GraphProtocol SerialPort Interfaces GoMaps
begin

text \<open>
  Serial monitors (\<open>internal/modules/serial/monitor\<close>): a session opens two ports, forwards the bytes
  of each to the other and keeps a bounded history of what it saw. A session is a heap cell: the
  table of the manager, a start in progress and the two forwarding goroutines all hold its address,
  and deleting it from the table does not end the others. Times of capture are left out.
\<close>

section \<open>Data\<close>

record monitorFrame =
  mfSeq :: int
  mfDirection :: string
  mfPort :: string
  mfLength :: int
  mfData :: bytes
  mfText :: string
  mfHex :: string
  mfDec :: string
  mfOct :: string
  mfBin :: string
  mfEncoding :: string
  mfError :: string

record monitorRequest =
  moID :: string
  moName :: string
  moProvider :: string
  moPortA :: string
  moPortB :: string
  moEndpointA :: string
  moEndpointB :: string
  moExternalPort :: string
  moAutoVirtualPortID :: string
  moConfig :: serialConfig
  moEncoding :: string

definition monStopped :: string where "monStopped = ''stopped''"
definition monRunning :: string where "monRunning = ''running''"
definition monError :: string where "monError = ''error''"
definition directionAToB :: string where "directionAToB = ''a_to_b''"
definition directionBToA :: string where "directionBToA = ''b_to_a''"
definition providerBridge :: string where "providerBridge = ''bridge''"

datatype monitor_error = MonIDEmpty | MonPortsEmpty | MonSelf | MonProvider | MonCancelled
  | MonDuplicate | MonPortInUse | MonNotFound | MonOpenA string | MonOpenB string

text \<open>The ports of a session are the end points it has open.\<close>

record monitorSession =
  mnReq :: monitorRequest
  mnPorts :: "(string \<times> string) option"
  mnStopClosed :: bool
  mnStatus :: string
  mnErr :: string
  mnRxBytes :: int
  mnTxBytes :: int
  mnNextSeq :: int
  mnFrames :: "monitorFrame list"

record monitorInfo =
  miReq :: monitorRequest
  miStatus :: string
  miRxBytes :: int
  miTxBytes :: int
  miFrameCount :: int
  miErr :: string

record monitorQuery =
  mqMonitorID :: string
  mqOffset :: int
  mqLimit :: int
  mqDirection :: string
  mqSearch :: string

record monitorPage =
  mpFrames :: "monitorFrame list"
  mpTotal :: int
  mpNextOffset :: int

section \<open>Display\<close>

definition asciiControlNames :: "string list" where
  "asciiControlNames =
    [''NUL'', ''SOH'', ''STX'', ''ETX'', ''EOT'', ''ENQ'', ''ACK'', ''BEL'',
     ''BS'', ''HT'', ''LF'', ''VT'', ''FF'', ''CR'', ''SO'', ''SI'',
     ''DLE'', ''DC1'', ''DC2'', ''DC3'', ''DC4'', ''NAK'', ''SYN'', ''ETB'',
     ''CAN'', ''EM'', ''SUB'', ''ESC'', ''FS'', ''GS'', ''RS'', ''US'']"

text \<open>The length of the UTF-8 encoding of one rune at the start of the bytes, as \<open>utf8.DecodeRune\<close>
  accepts it; \<open>None\<close> for an invalid one\<close>

definition in_range :: "byte \<Rightarrow> byte \<Rightarrow> byte \<Rightarrow> bool" where
  "in_range lo hi b \<longleftrightarrow> lo \<le> b \<and> b \<le> hi"

definition continuations :: "byte \<Rightarrow> byte \<Rightarrow> nat \<Rightarrow> bytes \<Rightarrow> bool" where
  "continuations lo hi n bs \<longleftrightarrow> n \<le> length bs \<and> in_range lo hi (hd bs) \<and> list_all (in_range 0x80 0xBF) (take (n - 1) (tl bs))"

fun rune_length :: "bytes \<Rightarrow> nat option" where
  "rune_length [] = None"
| "rune_length (b # bs) =
     (if b < 0x80 then Some 1
      else if in_range 0xC2 0xDF b then (if continuations 0x80 0xBF 1 bs then Some 2 else None)
      else if b = 0xE0 then (if continuations 0xA0 0xBF 2 bs then Some 3 else None)
      else if b = 0xED then (if continuations 0x80 0x9F 2 bs then Some 3 else None)
      else if in_range 0xE1 0xEF b then (if continuations 0x80 0xBF 2 bs then Some 3 else None)
      else if b = 0xF0 then (if continuations 0x90 0xBF 3 bs then Some 4 else None)
      else if b = 0xF4 then (if continuations 0x80 0x8F 3 bs then Some 4 else None)
      else if in_range 0xF1 0xF3 b then (if continuations 0x80 0xBF 3 bs then Some 4 else None)
      else None)"

text \<open>U+FFFD, the replacement character\<close>

definition replacementRune :: bytes where "replacementRune = [0xEF, 0xBF, 0xBD]"

function displayBytes :: "bytes \<Rightarrow> bytes" where
  "displayBytes [] = []"
| "displayBytes (c # rest) =
     (if c < 0x20 then bytes_of (CHR 92 # asciiControlNames ! unat c) @ displayBytes rest
      else if c = 0x7f then bytes_of (CHR 92 # ''DEL'') @ displayBytes rest
      else case rune_length (c # rest) of
          None \<Rightarrow> replacementRune @ displayBytes rest
        | Some n \<Rightarrow> take n (c # rest) @ displayBytes (drop (n - 1) rest))"
  by pat_completeness auto
termination by (relation "measure length") auto

definition displayText :: "bytes \<Rightarrow> string" where
  "displayText data = string_of (displayBytes data)"

text \<open>\<open>ToLower\<close> on text is the parameter \<open>lower\<close>, as the library's case table decides it.\<close>

definition normalizeEncoding :: "(string \<Rightarrow> string) \<Rightarrow> string \<Rightarrow> string" where
  "normalizeEncoding lower encoding =
     (let e = trim_space (lower (map (\<lambda>c. if c = CHR ''_'' then CHR ''-'' else c) encoding)) in
      if e = [] then ''utf-8'' else e)"

definition enrichFrame :: "(string \<Rightarrow> string) \<Rightarrow> monitorFrame \<Rightarrow> string \<Rightarrow> monitorFrame" where
  "enrichFrame lower f encoding = f\<lparr>mfEncoding := normalizeEncoding lower encoding, mfLength := int (length (mfData f)),
     mfText := displayText (mfData f), mfHex := formatGraphFrameBytes (mfData f) hex_byte,
     mfDec := formatGraphFrameBytes (mfData f) decByte, mfOct := formatGraphFrameBytes (mfData f) octByte,
     mfBin := formatGraphFrameBytes (mfData f) binByte\<rparr>"

text \<open>The directions shown, ``received'' and ``sent'' in Chinese, as UTF-8 bytes, and the prefix of a
  default name\<close>

definition received :: string where
  "received = [CHR 0xE6, CHR 0x8E, CHR 0xA5, CHR 0xE6, CHR 0x94, CHR 0xB6]"

definition sent :: string where
  "sent = [CHR 0xE5, CHR 0x8F, CHR 0x91, CHR 0xE9, CHR 0x80, CHR 0x81]"

definition monitorName :: string where
  "monitorName = [CHR 0xE7, CHR 0x9B, CHR 0x91, CHR 0xE6, CHR 0x8E, CHR 0xA7, CHR 0x20]"

definition displayDirection :: "string \<Rightarrow> string" where
  "displayDirection direction = (if direction = directionAToB then received
     else if direction = directionBToA then sent else direction)"

section \<open>Sessions\<close>

definition newMonitorSession :: "monitorRequest \<Rightarrow> monitorSession" where
  "newMonitorSession req =
     \<lparr>mnReq = req\<lparr>moProvider := (if moProvider req = [] then providerBridge else moProvider req),
        moEndpointA := (if moEndpointA req = [] then moPortA req else moEndpointA req),
        moEndpointB := (if moEndpointB req = [] then moPortB req else moEndpointB req),
        moName := (if moName req = [] then monitorName @ moPortA req else moName req),
        moEncoding := (if moEncoding req = [] then ''utf-8'' else moEncoding req)\<rparr>,
      mnPorts = None, mnStopClosed = False, mnStatus = monStopped, mnErr = [],
      mnRxBytes = 0, mnTxBytes = 0, mnNextSeq = 0, mnFrames = []\<rparr>"

definition monSetError :: "string \<Rightarrow> monitorSession \<Rightarrow> monitorSession" where
  "monSetError message s = s\<lparr>mnStatus := monError, mnErr := message\<rparr>"

text \<open>The two ports are opened in turn; the first is closed again when the second fails. \<open>openMode\<close> gives
  the mode each is opened with.\<close>

definition monOpenPorts :: "openEvent \<Rightarrow> openEvent \<Rightarrow> monitorSession \<Rightarrow> monitorSession \<times> monitor_error option" where
  "monOpenPorts openA openB s = (case openA of
       Some e \<Rightarrow> (monSetError (''open port A: '' @ e) s, Some (MonOpenA e))
     | None \<Rightarrow> (case openB of
           Some e \<Rightarrow> (monSetError (''open port B: '' @ e) s, Some (MonOpenB e))
         | None \<Rightarrow> (s\<lparr>mnPorts := Some (moEndpointA (mnReq s), moEndpointB (mnReq s)), mnStatus := monRunning, mnErr := []\<rparr>, None)))"

definition monFrameLimit :: nat where "monFrameLimit = 100000"

definition monAppendFrame :: "(string \<Rightarrow> string) \<Rightarrow> string \<Rightarrow> string \<Rightarrow> bytes \<Rightarrow> monitorSession \<Rightarrow> monitorSession" where
  "monAppendFrame lower direction publicPort data s =
     (let frame = enrichFrame lower \<lparr>mfSeq = mnNextSeq s + 1, mfDirection = direction, mfPort = publicPort,
            mfLength = 0, mfData = data, mfText = [], mfHex = [], mfDec = [], mfOct = [], mfBin = [],
            mfEncoding = [], mfError = []\<rparr> (moEncoding (mnReq s));
          frames = mnFrames s @ [frame] in
      s\<lparr>mnNextSeq := mnNextSeq s + 1,
        mnTxBytes := (if direction = directionAToB then mnTxBytes s + int (length data) else mnTxBytes s),
        mnRxBytes := (if direction = directionBToA then mnRxBytes s + int (length data) else mnRxBytes s),
        mnFrames := (if monFrameLimit < length frames then drop (length frames - monFrameLimit) frames else frames)\<rparr>)"

definition monStop :: "string \<Rightarrow> monitorSession \<Rightarrow> monitorSession" where
  "monStop reason s =
     (if mnStatus s = monStopped \<or> mnStatus s = monError \<and> mnPorts s = None then s
      else s\<lparr>mnStatus := (if reason \<noteq> [] then monError else monStopped),
             mnErr := (if reason \<noteq> [] then reason else mnErr s), mnStopClosed := True, mnPorts := None\<rparr>)"

definition monFail :: "string \<Rightarrow> monitorSession \<Rightarrow> monitorSession" where
  "monFail reason s = (if mnStatus s = monStopped then s
     else s\<lparr>mnStatus := monError, mnErr := reason, mnStopClosed := True, mnPorts := None\<rparr>)"

text \<open>
  One turn of a forwarding goroutine: the read fails (perhaps after the context of the request was
  cancelled), or gives bytes, which are written to the other port with an outcome of the driver. The
  bytes that reached the other port are part of the result.
\<close>

datatype forward_event = ReadFails bool string | ReadGives bytes "string option"

definition forwardTurn :: "(string \<Rightarrow> string) \<Rightarrow> string \<Rightarrow> string \<Rightarrow> forward_event \<Rightarrow> monitorSession \<Rightarrow>
    monitorSession \<times> bytes \<times> loop_state" where
  "forwardTurn lower direction publicPort ev s = (case ev of
       ReadFails cancelled e \<Rightarrow>
         if mnStopClosed s \<or> cancelled then (s, [], Exited)
         else (monFail (displayDirection direction @ '' read failed: '' @ e) s, [], Exited)
     | ReadGives data outcome \<Rightarrow>
         if data = [] then (s, [], Looping)
         else (case outcome of
             Some e \<Rightarrow> (monFail (displayDirection direction @ '' write failed: '' @ e) s, [], Exited)
           | None \<Rightarrow> (monAppendFrame lower direction publicPort data s, data, Looping)))"

fun forward :: "(string \<Rightarrow> string) \<Rightarrow> string \<Rightarrow> string \<Rightarrow> forward_event list \<Rightarrow> monitorSession \<Rightarrow> monitorSession \<times> bytes" where
  "forward lower direction publicPort [] s = (s, [])"
| "forward lower direction publicPort (ev # evs) s =
     (case forwardTurn lower direction publicPort ev s of
        (s1, written, Exited) \<Rightarrow> (s1, written)
      | (s1, written, Looping) \<Rightarrow> (let (s2, more) = forward lower direction publicPort evs s1 in (s2, written @ more)))"

definition monInfo :: "monitorSession \<Rightarrow> monitorInfo" where
  "monInfo s = \<lparr>miReq = mnReq s, miStatus = mnStatus s, miRxBytes = mnRxBytes s, miTxBytes = mnTxBytes s,
     miFrameCount = int (length (mnFrames s)), miErr = mnErr s\<rparr>"

definition monClearFrames :: "monitorSession \<Rightarrow> monitorSession" where
  "monClearFrames s = s\<lparr>mnFrames := [], mnNextSeq := 0, mnRxBytes := 0, mnTxBytes := 0\<rparr>"

definition frameMatchesSearch :: "(string \<Rightarrow> string) \<Rightarrow> monitorFrame \<Rightarrow> string \<Rightarrow> bool" where
  "frameMatchesSearch lower f search =
     (let query = lower (trim_space search) in
      query = [] \<or> contains (lower (mfText f)) query \<or> contains (lower (mfHex f)) query
      \<or> contains (lower (mfDec f)) query \<or> contains (lower (mfPort f)) query)"

definition monMatches :: "(string \<Rightarrow> string) \<Rightarrow> monitorQuery \<Rightarrow> monitorFrame \<Rightarrow> bool" where
  "monMatches lower req f \<longleftrightarrow>
     \<not> (mqDirection req \<noteq> [] \<and> mqDirection req \<noteq> ''all'' \<and> mfDirection f \<noteq> mqDirection req)
     \<and> \<not> (mqSearch req \<noteq> [] \<and> \<not> frameMatchesSearch lower f (mqSearch req))"

definition monQuery :: "(string \<Rightarrow> string) \<Rightarrow> monitorSession \<Rightarrow> monitorQuery \<Rightarrow> monitorPage" where
  "monQuery lower s req =
     (let limit = (if mqLimit req \<le> 0 \<or> 5000 < mqLimit req then 1000 else mqLimit req);
          offset = (if mqOffset req < 0 then 0 else mqOffset req);
          filtered = filter (monMatches lower req) (mnFrames s);
          hits = int (length filtered) in
      if hits \<le> offset then \<lparr>mpFrames = [], mpTotal = hits, mpNextOffset = hits\<rparr>
      else let end = (if hits < offset + limit then hits else offset + limit) in
        \<lparr>mpFrames = take (nat (end - offset)) (drop (nat offset) filtered), mpTotal = hits, mpNextOffset = end\<rparr>)"

section \<open>The manager\<close>

record monitorManager =
  mgSessions :: "(string, nat) table"
  mgHeap :: "monitorSession list"

definition NewMonitorManager :: monitorManager where
  "NewMonitorManager = \<lparr>mgSessions = [], mgHeap = []\<rparr>"

definition monUpdate :: "nat \<Rightarrow> (monitorSession \<Rightarrow> monitorSession) \<Rightarrow> monitorManager \<Rightarrow> monitorManager" where
  "monUpdate a f m = m\<lparr>mgHeap := (mgHeap m)[a := f (mgHeap m ! a)]\<rparr>"

definition validateStart :: "monitorRequest \<Rightarrow> monitor_error option" where
  "validateStart req =
     (if moID req = [] then Some MonIDEmpty
      else if moPortA req = [] \<or> moPortB req = [] then Some MonPortsEmpty
      else if moPortA req = moPortB req then Some MonSelf
      else if (if moProvider req = [] then providerBridge else moProvider req) \<noteq> providerBridge then Some MonProvider
      else None)"

definition monPortInUse :: "monitorManager \<Rightarrow> string \<Rightarrow> bool" where
  "monPortInUse m portName = list_ex (\<lambda>(_, a). mnStatus (mgHeap m ! a) = monRunning
     \<and> (moPortA (mnReq (mgHeap m ! a)) = portName \<or> moPortB (mnReq (mgHeap m ! a)) = portName)) (mgSessions m)"

text \<open>\<open>Start\<close> has three critical sections: the session enters the table, then its ports are opened
  without the lock, and a failure takes the identifier out again.\<close>

definition monInsert :: "bool \<Rightarrow> monitorRequest \<Rightarrow> monitorManager \<Rightarrow> monitorManager \<times> (monitor_error + nat)" where
  "monInsert cancelled req m = (case validateStart req of
       Some e \<Rightarrow> (m, Inl e)
     | None \<Rightarrow>
         if cancelled then (m, Inl MonCancelled)
         else if map_of (mgSessions m) (moID req) \<noteq> None then (m, Inl MonDuplicate)
         else if monPortInUse m (moPortA req) \<or> monPortInUse m (moPortB req) then (m, Inl MonPortInUse)
         else (\<lparr>mgSessions = table_put (moID req) (length (mgHeap m)) (mgSessions m),
                mgHeap = mgHeap m @ [newMonitorSession req]\<rparr>, Inr (length (mgHeap m))))"

definition monOpen :: "openEvent \<Rightarrow> openEvent \<Rightarrow> string \<Rightarrow> nat \<Rightarrow> monitorManager \<Rightarrow> monitorManager \<times> (monitor_error + monitorInfo)" where
  "monOpen openA openB i a m =
     (let (s, err) = monOpenPorts openA openB (mgHeap m ! a);
          m1 = m\<lparr>mgHeap := (mgHeap m)[a := s]\<rparr> in
      case err of None \<Rightarrow> (m1, Inr (monInfo s))
      | Some e \<Rightarrow> (m1\<lparr>mgSessions := table_del i (mgSessions m1)\<rparr>, Inl e))"

definition monStart :: "bool \<Rightarrow> openEvent \<Rightarrow> openEvent \<Rightarrow> monitorRequest \<Rightarrow> monitorManager \<Rightarrow> monitorManager \<times> (monitor_error + monitorInfo)" where
  "monStart cancelled openA openB req m = (case monInsert cancelled req m of
       (m1, Inl e) \<Rightarrow> (m1, Inl e)
     | (m1, Inr a) \<Rightarrow> monOpen openA openB (moID req) a m1)"

definition monGet :: "monitorManager \<Rightarrow> string \<Rightarrow> monitor_error + nat" where
  "monGet m i = (if i = [] then Inl MonIDEmpty
     else case map_of (mgSessions m) i of None \<Rightarrow> Inl MonNotFound | Some a \<Rightarrow> Inr a)"

definition monStopSession :: "string \<Rightarrow> monitorManager \<Rightarrow> monitorManager \<times> monitor_error option" where
  "monStopSession i m = (case monGet m i of Inl e \<Rightarrow> (m, Some e) | Inr a \<Rightarrow> (monUpdate a (monStop []) m, None))"

definition monDelete :: "string \<Rightarrow> monitorManager \<Rightarrow> monitorManager \<times> monitor_error option" where
  "monDelete i m = (case map_of (mgSessions m) i of None \<Rightarrow> (m, Some MonNotFound)
     | Some a \<Rightarrow> (monUpdate a (monStop []) (m\<lparr>mgSessions := table_del i (mgSessions m)\<rparr>), None))"

definition monList :: "monitorManager \<Rightarrow> monitorInfo list" where
  "monList m = map (\<lambda>(_, a). monInfo (mgHeap m ! a)) (mgSessions m)"

definition monStopAll :: "monitorManager \<Rightarrow> monitorManager" where
  "monStopAll m = foldl (\<lambda>m i. fst (monStopSession i m)) m (map (\<lambda>inf. moID (miReq inf)) (monList m))"

definition monCleanup :: "monitorManager \<Rightarrow> monitorManager" where
  "monCleanup m = foldl (\<lambda>m (_, a). monUpdate a (monStop []) m) (m\<lparr>mgSessions := []\<rparr>) (mgSessions m)"

definition monQuerySession :: "(string \<Rightarrow> string) \<Rightarrow> monitorManager \<Rightarrow> monitorQuery \<Rightarrow> monitor_error + monitorPage" where
  "monQuerySession lower m req = (case monGet m (mqMonitorID req) of Inl e \<Rightarrow> Inl e
     | Inr a \<Rightarrow> Inr (monQuery lower (mgHeap m ! a) req))"

definition monClear :: "string \<Rightarrow> monitorManager \<Rightarrow> monitorManager \<times> monitor_error option" where
  "monClear i m = (case monGet m i of Inl e \<Rightarrow> (m, Some e) | Inr a \<Rightarrow> (monUpdate a monClearFrames m, None))"

end
