(* ===== verification/GraphValidate.thy ===== *)
theory GraphValidate
  imports GraphConfig
begin

text \<open>
  The validation of a topology before it starts (\<open>graph_runtime.go\<close>, lines 2191 to 2269 and 2280 to
  2515): node and edge identifiers, the ports of each kind of node, exclusive resources, single
  connections and the search for directed cycles. Errors are values of a data type where the code
  has their texts. \<open>lower\<close> is \<open>strings.ToLower\<close>.
\<close>

section \<open>The request\<close>

record nodeSpec =
  nsID :: string
  nsType :: string
  nsConfig :: config

record edgeSpec =
  esID :: string
  esSource :: string
  esSourceHandle :: string
  esTarget :: string
  esTargetHandle :: string

record graphStartRequest =
  gqID :: string
  gqNodes :: "nodeSpec list"
  gqEdges :: "edgeSpec list"

record portSpec =
  psID :: string
  psKind :: string
  psMultiple :: bool
  psDirection :: string

record providerSpec =
  pvType :: string
  pvInputs :: "portSpec list"
  pvOutputs :: "portSpec list"
  pvResourceOwner :: bool
  pvResourceKeys :: "string list"

datatype graph_error =
    NodeIDEmpty | DuplicateNode string | ProviderNotFound string
  | RemoteProtocol string string | RemoteRole string string | RemoteHostRequired string | RemoteHostScheme string
  | RemoteNotInteger string string | RemoteNotPositive string string | RemoteOutOfRange string string
  | EndpointDuplicated string string string | ResourceDuplicated string string string
  | EdgeIDEmpty | DuplicateEdge string | SourceNotFound string string | TargetNotFound string string
  | SelfConnection string | OutputNotFound string string string | InputNotFound string string string
  | IncompatibleKinds string string string | InputConnected string string string | CycleNotAllowed string

section \<open>Providers\<close>

definition inputPort :: "string \<Rightarrow> portSpec" where
  "inputPort p = \<lparr>psID = p, psKind = ''bytes'', psMultiple = False, psDirection = ''input''\<rparr>"

definition outputPort :: "string \<Rightarrow> portSpec" where
  "outputPort p = \<lparr>psID = p, psKind = ''bytes'', psMultiple = False, psDirection = ''output''\<rparr>"

definition provider :: "string \<Rightarrow> string list \<Rightarrow> string list \<Rightarrow> bool \<Rightarrow> string list \<Rightarrow> providerSpec" where
  "provider t ins outs owner resourceKeys = \<lparr>pvType = t, pvInputs = map inputPort ins,
     pvOutputs = map outputPort outs, pvResourceOwner = owner, pvResourceKeys = resourceKeys\<rparr>"

definition serialGraphRuntimeProviders :: "providerSpec list" where
  "serialGraphRuntimeProviders =
    [provider ''serial.physical'' [''tx''] [''rx''] True [''portName''],
     provider ''serial.virtual'' [''tx''] [''rx''] True [''portName''],
     provider ''serial.remote'' [''tx''] [''rx''] True [],
     provider ''serial.bridge'' [''a-in'', ''b-in''] [''a-out'', ''b-out''] False [],
     provider ''serial.monitor'' [''in''] [] False [],
     provider ''serial.filter'' [''in''] [''out''] False [],
     provider ''serial.script.transform'' [''in''] [''out''] False [],
     provider ''serial.script.generator'' [] [''out''] False [],
     provider ''serial.script.analyzer'' [''in''] [] False [],
     provider ''serial.modbus.master'' [''rx''] [''tx''] False [],
     provider ''serial.modbus.slave'' [''rx''] [''tx''] False [],
     provider ''serial.fecbus.master'' [''rx''] [''tx''] False [],
     provider ''serial.fecbus.slave'' [''rx''] [''tx''] False []]"

definition providerOf :: "string \<Rightarrow> providerSpec option" where
  "providerOf t = map_of (map (\<lambda>p. (pvType p, p)) serialGraphRuntimeProviders) t"

definition graphRuntimePort :: "portSpec list \<Rightarrow> string \<Rightarrow> portSpec option" where
  "graphRuntimePort ports p = find (\<lambda>q. psID q = p) ports"

section \<open>Remote end points\<close>

definition rangedInt :: "string \<Rightarrow> string \<Rightarrow> int option \<Rightarrow> int \<Rightarrow> int \<Rightarrow> graph_error list" where
  "rangedInt nodeID name value lo hi = (case value of
       None \<Rightarrow> [RemoteNotInteger nodeID name]
     | Some v \<Rightarrow> if v \<le> 0 then [RemoteNotPositive nodeID name]
         else if v < lo \<or> hi < v then [RemoteOutOfRange nodeID name] else [])"

definition validateGraphRemoteConfig :: "string \<Rightarrow> config \<Rightarrow> graph_error list" where
  "validateGraphRemoteConfig nodeID config =
     (let protocol = graphStringConfigWithDefault config ''protocol'' ''raw-tcp'';
          role = graphStringConfigWithDefault config ''role'' ''client'';
          host = graphStringConfig config ''host'' in
      (if protocol \<noteq> ''raw-tcp'' then [RemoteProtocol nodeID protocol] else [])
      @ (if role \<noteq> ''client'' \<and> role \<noteq> ''server'' then [RemoteRole nodeID role] else [])
      @ (if host = [] then [RemoteHostRequired nodeID] else [])
      @ (if contains host ''://'' then [RemoteHostScheme nodeID] else [])
      @ (case graphStrictIntConfig config ''port'' 3001 of
           None \<Rightarrow> [RemoteNotInteger nodeID ''port'']
         | Some p \<Rightarrow> if p < 1 \<or> 65535 < p then [RemoteOutOfRange nodeID ''port''] else [])
      @ rangedInt nodeID ''connectTimeoutMs'' (graphStrictIntConfig config ''connectTimeoutMs'' 3000) 100 60000
      @ rangedInt nodeID ''writeTimeoutMs'' (graphStrictIntConfig config ''writeTimeoutMs'' 3000) 100 60000
      @ rangedInt nodeID ''reconnectIntervalMs'' (graphStrictIntConfig config ''reconnectIntervalMs'' 1000) 100 60000
      @ rangedInt nodeID ''readBufKB'' (graphStrictIntConfig config ''readBufKB'' 32) 1 1024)"

text \<open>\<open>net.JoinHostPort\<close>\<close>

definition join_host_port :: "string \<Rightarrow> string \<Rightarrow> string" where
  "join_host_port host p = (if CHR '':'' \<in> set host then ''['' @ host @ '']:'' @ p else host @ '':'' @ p)"

definition graphRemoteEndpoint :: "(string \<Rightarrow> string) \<Rightarrow> config \<Rightarrow> graph_error list + string" where
  "graphRemoteEndpoint lower config = (case validateGraphRemoteConfig ''remote'' config of
       e # es \<Rightarrow> Inl (e # es)
     | [] \<Rightarrow> Inr (join_host_port (lower (graphStringConfig config ''host''))
         (itoa (case graphStrictIntConfig config ''port'' 3001 of Some p \<Rightarrow> p | None \<Rightarrow> 0))))"

section \<open>Resources\<close>

text \<open>The keys a node claims, each with the text its error names; \<open>used\<close> maps them to their owners.\<close>

definition resourceClaims :: "(string \<Rightarrow> string) \<Rightarrow> nodeSpec \<Rightarrow> (string \<times> (string \<Rightarrow> graph_error)) list" where
  "resourceClaims lower node = (case providerOf (nsType node) of
       None \<Rightarrow> []
     | Some p \<Rightarrow>
         if \<not> pvResourceOwner p then []
         else if nsType node = ''serial.remote'' then
           (case graphRemoteEndpoint lower (nsConfig node) of
              Inl e \<Rightarrow> []
            | Inr endpoint \<Rightarrow>
                [(''remote:'' @ endpoint @ '':'' @ graphStringConfigWithDefault (nsConfig node) ''role'' ''client'',
                  \<lambda>previous. EndpointDuplicated endpoint previous (nsID node))])
         else List.map_filter (\<lambda>key.
             let value = trim_space (case map_of (nsConfig node) key of None \<Rightarrow> ''<nil>'' | Some v \<Rightarrow> sprint v) in
             if value = [] \<or> value = ''<nil>'' then None
             else Some (key @ '':'' @ value, \<lambda>previous. ResourceDuplicated value previous (nsID node)))
           (pvResourceKeys p))"

fun claimKeys :: "string \<Rightarrow> (string, string) table \<Rightarrow> (string \<times> (string \<Rightarrow> graph_error)) list \<Rightarrow>
    graph_error list \<times> (string, string) table" where
  "claimKeys owner used [] = ([], used)"
| "claimKeys owner used ((key, err) # cs) = (case map_of used key of
       Some previous \<Rightarrow> (let (es, used') = claimKeys owner used cs in (err previous # es, used'))
     | None \<Rightarrow> claimKeys owner (table_put key owner used) cs)"

fun claimResources :: "(string \<Rightarrow> string) \<Rightarrow> (string, string) table \<Rightarrow> nodeSpec list \<Rightarrow> graph_error list" where
  "claimResources lower used [] = []"
| "claimResources lower used (node # ns) =
     (let (es, used') = claimKeys (nsID node) used (resourceClaims lower node) in
      es @ claimResources lower used' ns)"

definition validateGraphRuntimeResources :: "(string \<Rightarrow> string) \<Rightarrow> nodeSpec list \<Rightarrow> graph_error list" where
  "validateGraphRuntimeResources lower ns = claimResources lower [] ns"

section \<open>Cycles\<close>

type_synonym node_table = "(string, nodeSpec) table"

definition graphRuntimeEdgeTargetsTerminalProtocolInput :: "node_table \<Rightarrow> edgeSpec \<Rightarrow> bool" where
  "graphRuntimeEdgeTargetsTerminalProtocolInput nodes edge \<longleftrightarrow> esTargetHandle edge = ''rx'' \<and>
     (case map_of nodes (esTarget edge) of None \<Rightarrow> False
      | Some target \<Rightarrow> nsType target = ''serial.modbus.master'' \<or> nsType target = ''serial.fecbus.master'')"

definition graphRuntimeOtherEdges :: "edgeSpec list \<Rightarrow> string \<Rightarrow> edgeSpec list" where
  "graphRuntimeOtherEdges edges i = filter (\<lambda>e. esID e \<noteq> i) edges"

text \<open>The inner loop: the targets pushed for a node, the last one on top\<close>

definition pushTargets :: "node_table \<Rightarrow> edgeSpec list \<Rightarrow> string \<Rightarrow> string list" where
  "pushTargets nodes edges nodeID = rev (map esTarget (filter (\<lambda>e.
     \<not> graphRuntimeEdgeTargetsTerminalProtocolInput nodes e \<and> esSource e = nodeID) edges))"

lemma unvisited_less:
  "x \<in> set (map f es) \<Longrightarrow> x \<notin> set v \<Longrightarrow>
    length (filter (\<lambda>e. f e \<notin> set (x # v)) es) < length (filter (\<lambda>e. f e \<notin> set v) es)"
proof (induction es)
  case (Cons e es)
  have le: "length (filter (\<lambda>e. f e \<noteq> x \<and> f e \<notin> set v) es) \<le> length (filter (\<lambda>e. f e \<notin> set v) es)"
    by (induction es) auto
  from Cons le show ?case by (cases "f e = x") (auto simp: less_Suc_eq_le)
qed simp

text \<open>The search loop over the stack, its top first; \<open>visited\<close> as the code keeps it\<close>

function searchSource :: "node_table \<Rightarrow> edgeSpec list \<Rightarrow> string \<Rightarrow> string list \<Rightarrow> string list \<Rightarrow> bool" where
  "searchSource nodes edges source visited [] = False"
| "searchSource nodes edges source visited (nodeID # stack) =
     (if nodeID \<in> set visited then searchSource nodes edges source visited stack
      else if nodeID = source then True
      else searchSource nodes edges source (nodeID # visited) (pushTargets nodes edges nodeID @ stack))"
  by pat_completeness auto
termination
proof (relation "measures [\<lambda>(nodes, edges, source, visited, stack). length (filter (\<lambda>e. esSource e \<notin> set visited) edges),
    \<lambda>(nodes, edges, source, visited, stack). length stack]", goal_cases)
  case (3 nodes edges source visited nodeID stack)
  show ?case
  proof (cases "nodeID \<in> set (map esSource edges)")
    case True
    with unvisited_less [OF True 3(1)] show ?thesis by simp
  next
    case False
    then have "pushTargets nodes edges nodeID = []"
      by (auto simp: pushTargets_def filter_empty_conv)
    moreover have "filter (\<lambda>e. esSource e \<notin> set (nodeID # visited)) edges = filter (\<lambda>e. esSource e \<notin> set visited) edges"
      using False by (intro filter_cong) auto
    ultimately show ?thesis by simp
  qed
qed auto

definition graphRuntimeCreatesCycle :: "edgeSpec \<Rightarrow> edgeSpec list \<Rightarrow> node_table \<Rightarrow> bool" where
  "graphRuntimeCreatesCycle draft edges nodes = searchSource nodes edges (esSource draft) [] [esTarget draft]"

section \<open>The whole request\<close>

definition validateGraphRuntimeEdge :: "graphStartRequest \<Rightarrow> edgeSpec \<Rightarrow> node_table \<Rightarrow> graph_error list" where
  "validateGraphRuntimeEdge req edge nodes =
     (case (map_of nodes (esSource edge), map_of nodes (esTarget edge)) of
        (Some sourceNode, Some targetNode) \<Rightarrow>
          (if nsID sourceNode = nsID targetNode then [SelfConnection (esID edge)] else [])
          @ (case (providerOf (nsType sourceNode), providerOf (nsType targetNode)) of
               (Some sourceProvider, Some targetProvider) \<Rightarrow>
                 (case (graphRuntimePort (pvOutputs sourceProvider) (esSourceHandle edge),
                        graphRuntimePort (pvInputs targetProvider) (esTargetHandle edge)) of
                    (Some sourcePort, Some targetPort) \<Rightarrow>
                      (let otherEdges = graphRuntimeOtherEdges (gqEdges req) (esID edge) in
                       (if psKind sourcePort \<noteq> psKind targetPort
                        then [IncompatibleKinds (esID edge) (psKind sourcePort) (psKind targetPort)] else [])
                       @ (if \<not> psMultiple targetPort \<and> list_ex (\<lambda>other. esTarget other = esTarget edge
                             \<and> esTargetHandle other = esTargetHandle edge) otherEdges
                          then [InputConnected (esID edge) (nsID targetNode) (psID targetPort)] else [])
                       @ (if \<not> graphRuntimeEdgeTargetsTerminalProtocolInput nodes edge
                             \<and> graphRuntimeCreatesCycle edge otherEdges nodes
                          then [CycleNotAllowed (esID edge)] else []))
                  | (so, ti) \<Rightarrow>
                      (if so = None then [OutputNotFound (esID edge) (nsType sourceNode) (esSourceHandle edge)] else [])
                      @ (if ti = None then [InputNotFound (esID edge) (nsType targetNode) (esTargetHandle edge)] else []))
             | _ \<Rightarrow> [])
      | (s, t) \<Rightarrow>
          (if s = None then [SourceNotFound (esID edge) (esSource edge)] else [])
          @ (if t = None then [TargetNotFound (esID edge) (esTarget edge)] else []))"

fun validateNodes :: "nodeSpec list \<Rightarrow> node_table \<Rightarrow> graph_error list \<times> node_table" where
  "validateNodes [] nodes = ([], nodes)"
| "validateNodes (node # ns) nodes =
     (if nsID node = [] then (let (es, t) = validateNodes ns nodes in (NodeIDEmpty # es, t))
      else if map_of nodes (nsID node) \<noteq> None
      then (let (es, t) = validateNodes ns nodes in (DuplicateNode (nsID node) # es, t))
      else let (es, t) = validateNodes ns (table_put (nsID node) node nodes) in
        ((if providerOf (nsType node) = None then [ProviderNotFound (nsType node)] else [])
         @ (if nsType node = ''serial.remote'' then validateGraphRemoteConfig (nsID node) (nsConfig node) else [])
         @ es, t))"

fun validateEdges :: "graphStartRequest \<Rightarrow> node_table \<Rightarrow> string list \<Rightarrow> edgeSpec list \<Rightarrow> graph_error list" where
  "validateEdges req nodes seen [] = []"
| "validateEdges req nodes seen (edge # es) =
     (if esID edge = [] then EdgeIDEmpty # validateEdges req nodes seen es
      else if esID edge \<in> set seen then DuplicateEdge (esID edge) # validateEdges req nodes seen es
      else validateGraphRuntimeEdge req edge nodes @ validateEdges req nodes (esID edge # seen) es)"

definition validateSerialGraphRuntimeRequest :: "(string \<Rightarrow> string) \<Rightarrow> graphStartRequest \<Rightarrow> graph_error list" where
  "validateSerialGraphRuntimeRequest lower req =
     (let (errs, nodes) = validateNodes (gqNodes req) [] in
      errs @ validateGraphRuntimeResources lower (gqNodes req) @ validateEdges req nodes [] (gqEdges req))"

end
