(* ===== verification/RingBuffer.thy ===== *)
theory RingBuffer
  imports Interfaces
begin

text \<open>
  The receive buffers (\<open>internal/modules/serial/buffer/ring.go\<close>, \<open>chunk.go\<close>): blocks with their
  offset in the stream, evicted from the front beyond the capacity. Offsets and counters are Go
  \<open>int64\<close>; sums of stored sizes stay far below \<open>2 ^ 63\<close> and are plain integers here, while the sum
  of a caller's offset and length wraps as it does in the code. A query is \<open>None\<close> where the code panics.
\<close>

section \<open>State\<close>

record chunk =
  ckSeq :: int
  ckBaseOffset :: int
  ckTimestamp :: string
  ckData :: bytes

record snapshotChunk =
  skOffset :: int
  skTimestamp :: string
  skData :: bytes

record snapshot =
  snOffset :: int
  snData :: bytes
  snChunks :: "snapshotChunk list"
  snTotal :: int
  snEOF :: bool

record ringBuffer =
  rbChunks :: "chunk list"
  rbTotal :: int
  rbRetained :: int
  rbCapacity :: int

definition NewRing :: "int \<Rightarrow> ringBuffer" where
  "NewRing capacity = \<lparr>rbChunks = [], rbTotal = 0, rbRetained = 0, rbCapacity = capacity\<rparr>"

definition ckLen :: "chunk \<Rightarrow> int" where
  "ckLen c = int (length (ckData c))"

section \<open>Append\<close>

text \<open>The eviction loop, with the bytes retained\<close>

fun evict :: "int \<Rightarrow> chunk list \<Rightarrow> int \<Rightarrow> chunk list \<times> int" where
  "evict capacity [] retained = ([], retained)"
| "evict capacity (oldest # cs) retained =
     (if retained \<le> capacity then (oldest # cs, retained)
      else let excess = retained - capacity in
        if ckLen oldest \<le> excess then evict capacity cs (retained - ckLen oldest)
        else (oldest\<lparr>ckBaseOffset := ckBaseOffset oldest + excess,
                     ckData := drop (nat excess) (ckData oldest)\<rparr> # cs, retained - excess))"

text \<open>A block larger than the buffer keeps its end.\<close>

definition trimChunk :: "int \<Rightarrow> chunk \<Rightarrow> chunk" where
  "trimChunk capacity c = (if capacity < ckLen c
     then c\<lparr>ckBaseOffset := ckBaseOffset c + (ckLen c - capacity),
            ckData := drop (nat (ckLen c - capacity)) (ckData c)\<rparr> else c)"

definition ringAppend :: "ringBuffer \<Rightarrow> chunk \<Rightarrow> ringBuffer" where
  "ringAppend r c =
     (let end = ckBaseOffset c + ckLen c;
          r1 = (if rbTotal r < end then r\<lparr>rbTotal := end\<rparr> else r) in
      if ckLen c = 0 \<or> rbCapacity r \<le> 0 then r1
      else let c1 = trimChunk (rbCapacity r) c;
               (cs, n) = evict (rbCapacity r) (rbChunks r1 @ [c1]) (rbRetained r1 + ckLen c1) in
        r1\<lparr>rbChunks := cs, rbRetained := n\<rparr>)"

section \<open>Query\<close>

definition wrap64 :: "int \<Rightarrow> int" where
  "wrap64 i = (i + 2 ^ 63) mod 2 ^ 64 - 2 ^ 63"

text \<open>\<open>make([]byte, 0, n)\<close> panics beyond the address space.\<close>

definition maxAlloc :: int where "maxAlloc = 2 ^ 48"

definition emptySnapshot :: "ringBuffer \<Rightarrow> int \<Rightarrow> bool \<Rightarrow> snapshot" where
  "emptySnapshot r offset eof = \<lparr>snOffset = offset, snData = [], snChunks = [], snTotal = rbTotal r, snEOF = eof\<rparr>"

text \<open>The copying loop over the chunks from the first one that reaches past the offset\<close>

fun copyChunks :: "nat \<Rightarrow> nat \<Rightarrow> chunk list \<Rightarrow> snapshotChunk list" where
  "copyChunks remaining off [] = []"
| "copyChunks remaining off (c # cs) =
     (if remaining = 0 then []
      else let chunkData = take remaining (drop off (ckData c)) in
        \<lparr>skOffset = ckBaseOffset c + int off, skTimestamp = ckTimestamp c, skData = chunkData\<rparr>
        # copyChunks (remaining - length chunkData) 0 cs)"

definition ringQuery :: "ringBuffer \<Rightarrow> int \<Rightarrow> int \<Rightarrow> snapshot option" where
  "ringQuery r offset0 length0 =
     (let offset = (if offset0 < 0 then 0 else offset0) in
      if length0 \<le> 0 then Some (emptySnapshot r offset (rbTotal r \<le> offset))
      else if rbTotal r \<le> offset then Some (emptySnapshot r offset True)
      else if rbChunks r = [] \<or> offset < ckBaseOffset (hd (rbChunks r)) then Some (emptySnapshot r offset False)
      else let len = (if rbTotal r < wrap64 (offset + length0) then rbTotal r - offset else length0) in
        case dropWhile (\<lambda>c. ckBaseOffset c + ckLen c \<le> offset) (rbChunks r) of
          [] \<Rightarrow> Some (emptySnapshot r offset False)
        | c # cs \<Rightarrow>
            if offset - ckBaseOffset c < 0 then Some (emptySnapshot r offset False)
            else if maxAlloc < len then None
            else let parts = copyChunks (nat len) (nat (offset - ckBaseOffset c)) (c # cs) in
              Some \<lparr>snOffset = offset, snData = concat (map skData parts), snChunks = parts,
                    snTotal = rbTotal r, snEOF = False\<rparr>)"

definition ringReset :: "ringBuffer \<Rightarrow> ringBuffer" where
  "ringReset r = r\<lparr>rbChunks := [], rbTotal := 0, rbRetained := 0\<rparr>"

text \<open>How every caller appends received bytes: at the end of the stream\<close>

definition appendBytes :: "string \<Rightarrow> bytes \<Rightarrow> ringBuffer \<Rightarrow> ringBuffer" where
  "appendBytes ts data r =
     ringAppend r \<lparr>ckSeq = 0, ckBaseOffset = rbTotal r, ckTimestamp = ts, ckData = data\<rparr>"

section \<open>Refinement of the stream\<close>

definition ring_bytes :: "ringBuffer \<Rightarrow> bytes" where
  "ring_bytes r = concat (map ckData (rbChunks r))"

fun contiguous :: "int \<Rightarrow> chunk list \<Rightarrow> bool" where
  "contiguous b [] = True"
| "contiguous b (c # cs) = (ckBaseOffset c = b \<and> ckData c \<noteq> [] \<and> contiguous (b + ckLen c) cs)"

text \<open>The ring holds the end of the stream \<open>bs\<close>.\<close>

definition ring_holds :: "ringBuffer \<Rightarrow> bytes \<Rightarrow> bool" where
  "ring_holds r bs \<longleftrightarrow> rbTotal r = int (length bs) \<and> 0 < rbCapacity r
     \<and> rbRetained r = int (length (ring_bytes r))
     \<and> ring_bytes r = lastn (nat (rbCapacity r)) bs
     \<and> contiguous (rbTotal r - rbRetained r) (rbChunks r)"

lemma ckLen_nonneg [simp]: "0 \<le> ckLen c" by (simp add: ckLen_def)

lemma contiguous_append:
  "contiguous b (xs @ ys) \<longleftrightarrow> contiguous b xs \<and> contiguous (b + int (length (concat (map ckData xs)))) ys"
  by (induction xs arbitrary: b) (auto simp: ckLen_def algebra_simps)

lemma evict_spec:
  assumes "contiguous b cs" and "retained = int (length (concat (map ckData cs)))" and "0 < capacity"
    and "evict capacity cs retained = (cs', n)"
  shows "n = int (length (concat (map ckData cs')))
    \<and> concat (map ckData cs') = lastn (nat capacity) (concat (map ckData cs))
    \<and> contiguous (b + (retained - n)) cs'"
  using assms
proof (induction cs arbitrary: b retained)
  case Nil
  then show ?case by (simp add: lastn_def)
next
  case (Cons c cs)
  let ?rest = "concat (map ckData cs)"
  show ?case
  proof (cases "retained \<le> capacity")
    case True
    with Cons.prems show ?thesis by (auto simp: lastn_def)
  next
    case False
    show ?thesis
    proof (cases "ckLen c \<le> retained - capacity")
      case True
      have ih: "n = int (length (concat (map ckData cs')))
          \<and> concat (map ckData cs') = lastn (nat capacity) ?rest
          \<and> contiguous (b + ckLen c + (retained - ckLen c - n)) cs'"
        using Cons.prems False True by (intro Cons.IH) (auto simp: ckLen_def)
      moreover have "b + ckLen c + (retained - ckLen c - n) = b + (retained - n)" by simp
      ultimately have "contiguous (b + (retained - n)) cs'" by metis
      moreover have "length (ckData c) + length ?rest - nat capacity
          = length (ckData c) + (length ?rest - nat capacity)"
        using True Cons.prems(2,3) by (simp add: ckLen_def nat_le_iff)
      then have "lastn (nat capacity) (concat (map ckData (c # cs))) = lastn (nat capacity) ?rest"
        by (simp add: lastn_def)
      ultimately show ?thesis using ih by metis
    next
      case short: False
      let ?k = "nat (retained - capacity)"
      from Cons.prems False short have cs': "cs' = c\<lparr>ckBaseOffset := ckBaseOffset c + (retained - capacity),
          ckData := drop ?k (ckData c)\<rparr> # cs" and n: "n = capacity"
        by (auto simp: Let_def)
      have k: "?k = length (ckData c) + length ?rest - nat capacity" "?k < length (ckData c)"
        using Cons.prems(2,3) False short by (auto simp: ckLen_def)
      then show ?thesis
        using Cons.prems False short by (auto simp: cs' n lastn_def ckLen_def nat_diff_distrib algebra_simps)
    qed
  qed
qed

lemma ring_holdsD:
  assumes "ring_holds r bs"
  shows "rbTotal r = int (length bs)" and "0 < rbCapacity r" and "rbRetained r = int (length (ring_bytes r))"
    and "ring_bytes r = lastn (nat (rbCapacity r)) bs" and "contiguous (rbTotal r - rbRetained r) (rbChunks r)"
  using assms unfolding ring_holds_def by blast+

lemma contiguous_nonempty: "contiguous b cs \<Longrightarrow> list_all (\<lambda>c. ckData c \<noteq> []) cs"
  by (induction cs arbitrary: b) auto

lemma evict_all:
  "list_all (\<lambda>c. ckData c \<noteq> []) cs \<Longrightarrow> ckLen c = capacity
    \<Longrightarrow> retained = int (length (concat (map ckData cs))) + capacity
    \<Longrightarrow> evict capacity (cs @ [c]) retained = ([c], capacity)"
proof (induction cs arbitrary: retained)
  case (Cons a cs)
  then have "0 < length (ckData a)" by simp
  then have pos: "\<not> int (length (ckData a)) + int m \<le> 0" for m by linarith
  show ?case using Cons by (simp add: ckLen_def pos)
qed simp

text \<open>The ring after the eviction\<close>

lemma appendBytes_small:
  assumes "ring_holds r bs" and "d \<noteq> []" and "int (length d) \<le> rbCapacity r"
  shows "ring_holds (appendBytes ts d r) (bs @ d)"
proof -
  note r = ring_holdsD [OF assms(1)]
  define c where "c = \<lparr>ckSeq = 0, ckBaseOffset = rbTotal r, ckTimestamp = ts, ckData = d\<rparr>"
  obtain cs n where e: "evict (rbCapacity r) (rbChunks r @ [c]) (rbRetained r + int (length d)) = (cs, n)" by fastforce
  have r': "appendBytes ts d r = r\<lparr>rbTotal := rbTotal r + int (length d), rbChunks := cs, rbRetained := n\<rparr>"
    using e assms(2,3) r(2) by (simp add: appendBytes_def ringAppend_def trimChunk_def ckLen_def c_def Let_def)
  have k: "rbRetained r = int (length (concat (map ckData (rbChunks r))))" using r(3) by (simp add: ring_bytes_def)
  have "contiguous (rbTotal r - rbRetained r) (rbChunks r @ [c])"
    using r(5) assms(2) k by (simp add: contiguous_append c_def)
  moreover have "rbRetained r + int (length d) = int (length (concat (map ckData (rbChunks r @ [c]))))"
    using k by (simp add: c_def)
  ultimately have E: "n = int (length (concat (map ckData cs)))
      \<and> concat (map ckData cs) = lastn (nat (rbCapacity r)) (concat (map ckData (rbChunks r @ [c])))
      \<and> contiguous (rbTotal r - rbRetained r + (rbRetained r + int (length d) - n)) cs"
    using evict_spec [OF _ _ r(2) e] by blast
  note cont = E [THEN conjunct2, THEN conjunct2]
  have cs: "concat (map ckData cs) = lastn (nat (rbCapacity r)) (ring_bytes r @ d)"
    using E [THEN conjunct2, THEN conjunct1] by (simp add: c_def ring_bytes_def)
  note E [THEN conjunct1]
  moreover have "rbTotal r - rbRetained r + (rbRetained r + int (length d) - n) = rbTotal r + int (length d) - n" by simp
  then have "contiguous (rbTotal r + int (length d) - n) cs" using cont by metis
  moreover have "concat (map ckData cs) = lastn (nat (rbCapacity r)) (bs @ d)"
    by (simp only: cs r(4) lastn_lastn_append)
  ultimately show ?thesis
    unfolding r' ring_holds_def ring_bytes_def using r(1,2) by simp
qed

lemma appendBytes_large:
  assumes "ring_holds r bs" and "rbCapacity r < int (length d)"
  shows "ring_holds (appendBytes ts d r) (bs @ d)"
proof -
  note r = ring_holdsD [OF assms(1)]
  let ?cap = "rbCapacity r"
  let ?k = "int (length d) - ?cap"
  define c where "c = \<lparr>ckSeq = 0, ckBaseOffset = rbTotal r + ?k, ckTimestamp = ts, ckData = drop (nat ?k) d\<rparr>"
  have len: "ckLen c = ?cap" using assms(2) r(2) by (simp add: c_def ckLen_def nat_diff_distrib)
  have "evict ?cap (rbChunks r @ [c]) (rbRetained r + ?cap) = ([c], ?cap)"
    using contiguous_nonempty [OF r(5)] len r(3) by (intro evict_all) (simp_all add: ring_bytes_def)
  then have r': "appendBytes ts d r = r\<lparr>rbTotal := rbTotal r + int (length d), rbChunks := [c], rbRetained := ?cap\<rparr>"
    using assms(2) r(2) len by (auto
        simp: appendBytes_def ringAppend_def trimChunk_def ckLen_def [of "\<lparr>ckSeq = _, ckBaseOffset = _, ckTimestamp = _, ckData = _\<rparr>"]
        c_def Let_def)
  have "drop (nat ?k) d = lastn (nat ?cap) (bs @ d)"
    using assms(2) r(2) by (simp add: lastn_def nat_diff_distrib)
  moreover have "nat ?k < length d" using assms(2) r(2) by arith
  then have "drop (nat ?k) d \<noteq> []" by simp
  ultimately show ?thesis using len r(1,2)
    unfolding r' ring_holds_def ring_bytes_def by (auto simp: c_def ckLen_def)
qed

lemma appendBytes_holds:
  assumes "ring_holds r bs"
  shows "ring_holds (appendBytes ts d r) (bs @ d)"
proof (cases "d = []")
  case True
  then have "appendBytes ts d r = r" by (simp add: appendBytes_def ringAppend_def ckLen_def)
  with True assms show ?thesis by simp
next
  case False
  with assms show ?thesis
    by (cases "int (length d) \<le> rbCapacity r") (simp_all add: appendBytes_small appendBytes_large)
qed

section \<open>Queries\<close>

lemma dropWhile_contiguous:
  assumes "contiguous b cs" and "b \<le> x" and "x < b + int (length (concat (map ckData cs)))"
  obtains c ds us where "dropWhile (\<lambda>c. ckBaseOffset c + ckLen c \<le> x) cs = c # ds" and "cs = us @ c # ds"
    and "ckBaseOffset c = b + int (length (concat (map ckData us)))" and "contiguous (ckBaseOffset c) (c # ds)"
    and "ckBaseOffset c \<le> x" and "x < ckBaseOffset c + ckLen c"
  using assms
proof (induction cs arbitrary: b thesis)
  case (Cons a cs)
  show thesis
  proof (cases "ckBaseOffset a + ckLen a \<le> x")
    case True
    obtain c ds us where *: "dropWhile (\<lambda>c. ckBaseOffset c + ckLen c \<le> x) cs = c # ds" "cs = us @ c # ds"
      "ckBaseOffset c = b + ckLen a + int (length (concat (map ckData us)))" "contiguous (ckBaseOffset c) (c # ds)"
      "ckBaseOffset c \<le> x" "x < ckBaseOffset c + ckLen c"
      by (rule Cons.IH [of "b + ckLen a"]) (use Cons.prems True in \<open>auto simp: ckLen_def\<close>)
    show thesis
      by (rule Cons.prems(1) [of c ds "a # us"]) (use * True in \<open>auto simp: ckLen_def\<close>)
  next
    case False
    show thesis
      by (rule Cons.prems(1) [of a cs "[]"]) (use Cons.prems False in auto)
  qed
qed simp

lemma copy_from_start: "concat (map skData (copyChunks n 0 cs)) = take n (concat (map ckData cs))"
  by (induction cs arbitrary: n) (auto simp: Let_def min_def)

lemma copy_data:
  "off \<le> length (ckData c) \<Longrightarrow>
    concat (map skData (copyChunks n off (c # cs))) = take n (drop off (concat (map ckData (c # cs))))"
  by (auto simp: Let_def copy_from_start min_def)

text \<open>Every block of a snapshot is where it says in the stream.\<close>

definition placed :: "bytes \<Rightarrow> snapshotChunk \<Rightarrow> bool" where
  "placed bs k \<longleftrightarrow> 0 \<le> skOffset k \<and> skData k = take (length (skData k)) (drop (nat (skOffset k)) bs)"

lemma copy_placed:
  assumes "contiguous (int b) cs" and "concat (map ckData cs) = drop b bs"
    and "\<And>c ds. cs = c # ds \<Longrightarrow> off \<le> length (ckData c)"
  shows "list_all (placed bs) (copyChunks n off cs)"
  using assms
proof (induction cs arbitrary: b n off)
  case (Cons c cs)
  have off: "off \<le> length (ckData c)" using Cons.prems(3) by simp
  have bs: "drop b bs = ckData c @ concat (map ckData cs)" using Cons.prems(2) by simp
  have "drop (b + off) bs = drop off (ckData c) @ concat (map ckData cs)"
    using arg_cong [OF bs, of "drop off"] off by (simp add: add.commute)
  then have "placed bs \<lparr>skOffset = ckBaseOffset c + int off, skTimestamp = ckTimestamp c,
      skData = take n (drop off (ckData c))\<rparr>"
    using Cons.prems(1) by (simp add: placed_def nat_add_distrib min_def)
  moreover have "list_all (placed bs) (copyChunks m 0 cs)" for m
  proof (rule Cons.IH [of "b + length (ckData c)"])
    show "concat (map ckData cs) = drop (b + length (ckData c)) bs"
      using arg_cong [OF bs, of "drop (length (ckData c))"] by (simp add: add.commute)
  qed (use Cons.prems in \<open>auto simp: ckLen_def\<close>)
  ultimately show ?case by (simp add: Let_def)
qed simp

lemma ring_holds_stream:
  assumes "ring_holds r bs"
  shows "ring_bytes r = drop (length bs - length (ring_bytes r)) bs" and "length (ring_bytes r) \<le> length bs"
    and "int (length (ring_bytes r)) \<le> rbCapacity r"
  using ring_holdsD(2,4) [OF assms] by (simp_all add: lastn_def)

lemma ring_query_held:
  assumes "ring_holds r bs" and "rbTotal r - rbRetained r \<le> offset" and "0 \<le> offset" and "offset < rbTotal r" and "0 < len"
  obtains c ds us where "rbChunks r = us @ c # ds"
    and "ringQuery r offset len = (let n = (if rbTotal r < wrap64 (offset + len) then rbTotal r - offset else len) in
      if maxAlloc < n then None
      else let parts = copyChunks (nat n) (nat (offset - ckBaseOffset c)) (c # ds) in
        Some \<lparr>snOffset = offset, snData = concat (map skData parts), snChunks = parts, snTotal = rbTotal r, snEOF = False\<rparr>)"
    and "ckBaseOffset c \<le> offset" and "offset < ckBaseOffset c + ckLen c" and "contiguous (ckBaseOffset c) (c # ds)"
    and "0 \<le> ckBaseOffset c" and "concat (map ckData (c # ds)) = drop (nat (ckBaseOffset c)) bs"
proof -
  note r = ring_holdsD [OF assms(1)] ring_holds_stream [OF assms(1)]
  obtain c ds us where c: "dropWhile (\<lambda>c. ckBaseOffset c + ckLen c \<le> offset) (rbChunks r) = c # ds"
      "rbChunks r = us @ c # ds" "ckBaseOffset c = rbTotal r - rbRetained r + int (length (concat (map ckData us)))"
      "contiguous (ckBaseOffset c) (c # ds)" "ckBaseOffset c \<le> offset" "offset < ckBaseOffset c + ckLen c"
    by (rule dropWhile_contiguous [OF r(5) assms(2)]) (use assms(4) r(3) in \<open>auto simp: ring_bytes_def\<close>)
  have "\<not> offset < ckBaseOffset (hd (rbChunks r))" using r(5) c(2) assms(2) by (cases us) auto
  with c assms have q: "ringQuery r offset len = (let n = (if rbTotal r < wrap64 (offset + len) then rbTotal r - offset else len) in
      if maxAlloc < n then None
      else let parts = copyChunks (nat n) (nat (offset - ckBaseOffset c)) (c # ds) in
        Some \<lparr>snOffset = offset, snData = concat (map skData parts), snChunks = parts, snTotal = rbTotal r, snEOF = False\<rparr>)"
    by (simp add: ringQuery_def Let_def del: copyChunks.simps)
  have base: "nat (ckBaseOffset c) = length bs - length (ring_bytes r) + length (concat (map ckData us))"
    using c(3) r(1,3,7) by simp
  have "concat (map ckData us) @ concat (map ckData (c # ds)) = ring_bytes r" by (simp add: ring_bytes_def c(2))
  then have "concat (map ckData (c # ds)) = drop (length (concat (map ckData us))) (ring_bytes r)"
    by (metis append_eq_conv_conj)
  also have "\<dots> = drop (nat (ckBaseOffset c)) bs"
    using r(6) by (metis base drop_drop add.commute)
  finally show thesis
    using that [OF c(2) q c(5,6,4)] c(3) r(1,3,7) by simp
qed

lemma wrap64_id: "- (2 ^ 63) \<le> i \<Longrightarrow> i < 2 ^ 63 \<Longrightarrow> wrap64 i = i"
  by (simp add: wrap64_def)

lemma wrap64_over:
  assumes "2 ^ 63 \<le> i" and "i < 2 ^ 64"
  shows "wrap64 i < 0"
proof -
  have "(i + 2 ^ 63) mod 2 ^ 64 = ((i - 2 ^ 63) + 2 ^ 64) mod (2 ^ 64 :: int)"
    by (rule arg_cong [of _ _ "\<lambda>x. x mod 2 ^ 64"]) simp
  also have "\<dots> = (i - 2 ^ 63) mod 2 ^ 64" by (rule mod_add_self2)
  also have "\<dots> = i - 2 ^ 63" using assms by (intro mod_pos_pos_trivial) simp_all
  finally show ?thesis using assms by (simp add: wrap64_def)
qed

definition fillRing :: "int \<Rightarrow> (string \<times> bytes) list \<Rightarrow> ringBuffer" where
  "fillRing capacity blocks = foldl (\<lambda>r (ts, d). appendBytes ts d r) (NewRing capacity) blocks"

lemma fill_holds: "0 < capacity \<Longrightarrow> ring_holds (fillRing capacity blocks) (concat (map snd blocks))"
proof (induction blocks rule: rev_induct)
  case Nil
  show ?case using Nil by (simp add: fillRing_def NewRing_def ring_holds_def ring_bytes_def lastn_def)
next
  case (snoc b blocks)
  then show ?case using appendBytes_holds [of "fillRing capacity blocks"]
    by (cases b) (simp add: fillRing_def)
qed

lemma fill_capacity: "rbCapacity (fillRing capacity blocks) = capacity"
proof (induction blocks rule: rev_induct)
  case (snoc b blocks)
  then show ?case
    by (cases b) (auto simp: fillRing_def appendBytes_def ringAppend_def Let_def split: prod.split)
qed (simp add: fillRing_def NewRing_def)

lemma query_in_range:
  assumes "ring_holds r bs" and "rbCapacity r \<le> maxAlloc" and "0 \<le> offset" and "0 < len" and "offset + len < 2 ^ 63"
  shows "\<exists>sn. ringQuery r offset len = Some sn \<and> snTotal sn = int (length bs)
    \<and> snEOF sn = (int (length bs) \<le> offset)
    \<and> snData sn = (if offset < int (length bs) - rbCapacity r then [] else take (nat len) (drop (nat offset) bs))
    \<and> concat (map skData (snChunks sn)) = snData sn \<and> list_all (placed bs) (snChunks sn)"
proof (cases "offset < rbTotal r")
  case False
  with assms show ?thesis
    by (simp add: ringQuery_def emptySnapshot_def ring_holdsD(1))
next
  case before: True
  note r = ring_holdsD [OF assms(1)] ring_holds_stream [OF assms(1)]
  have held: "rbRetained r = min (int (length bs)) (rbCapacity r)" using r(2,3,4) by simp
  show ?thesis
  proof (cases "rbTotal r - rbRetained r \<le> offset")
    case False
    then have "rbChunks r = [] \<or> offset < ckBaseOffset (hd (rbChunks r))"
      using r(5) by (cases "rbChunks r") auto
    with before False assms(3,4) r(1) held show ?thesis
      by (auto simp: ringQuery_def emptySnapshot_def min_def split: if_splits)
  next
    case True
    define n where "n = (if rbTotal r < wrap64 (offset + len) then rbTotal r - offset else len)"
    have n: "n = min len (rbTotal r - offset)" and "n \<le> maxAlloc"
      using assms wrap64_id [of "offset + len"] True held by (auto simp: n_def min_def split: if_splits)
    obtain c ds us where c: "rbChunks r = us @ c # ds" and q: "ringQuery r offset len =
        (let n = (if rbTotal r < wrap64 (offset + len) then rbTotal r - offset else len) in
          if maxAlloc < n then None
          else let parts = copyChunks (nat n) (nat (offset - ckBaseOffset c)) (c # ds) in
            Some \<lparr>snOffset = offset, snData = concat (map skData parts), snChunks = parts,
              snTotal = rbTotal r, snEOF = False\<rparr>)"
      and base: "ckBaseOffset c \<le> offset" "offset < ckBaseOffset c + ckLen c" "0 \<le> ckBaseOffset c"
      and cont: "contiguous (ckBaseOffset c) (c # ds)"
      and data: "concat (map ckData (c # ds)) = drop (nat (ckBaseOffset c)) bs"
      by (rule ring_query_held [OF assms(1) True assms(3) before assms(4)]) blast
    let ?off = "nat (offset - ckBaseOffset c)"
    let ?parts = "copyChunks (nat n) ?off (c # ds)"
    have off: "?off \<le> length (ckData c)" "nat (ckBaseOffset c) + ?off = nat offset" using base by (auto simp: ckLen_def)
    have "concat (map skData ?parts) = take (nat n) (drop ?off (concat (map ckData (c # ds))))"
      by (rule copy_data [OF off(1)])
    also have "\<dots> = take (nat n) (drop (nat offset) bs)" by (simp only: data drop_drop off(2) add.commute)
    also have "\<dots> = take (nat len) (drop (nat offset) bs)"
      using n r(1) by (simp add: min_def nat_diff_distrib)
    finally have parts: "concat (map skData ?parts) = take (nat len) (drop (nat offset) bs)" .
    have "list_all (placed bs) ?parts"
      by (rule copy_placed [OF _ data]) (use cont base(3) off(1) in auto)
    with parts q \<open>n \<le> maxAlloc\<close> before True held r(1) show ?thesis
      unfolding Let_def n_def [symmetric] by (auto simp del: copyChunks.simps)
  qed
qed

section \<open>Properties\<close>

text \<open>C4: A receive buffer of any capacity, filled by any sequence of received blocks, answers a query
  with exactly the requested part of the stream, cut at its end; a part that begins before the
  retained bytes yields nothing. The end of file flag says that the offset is past the stream, and
  every block of the answer lies in the stream at the offset it is labelled with.\<close>

theorem ring_query_exact:
  assumes "0 < capacity" and "capacity \<le> maxAlloc" and "0 \<le> offset" and "0 < len" and "offset + len < 2 ^ 63"
    and "bs = concat (map snd blocks)"
  shows "\<exists>sn. ringQuery (fillRing capacity blocks) offset len = Some sn \<and> snTotal sn = int (length bs)
    \<and> snEOF sn = (int (length bs) \<le> offset)
    \<and> snData sn = (if offset < int (length bs) - capacity then [] else take (nat len) (drop (nat offset) bs))
    \<and> concat (map skData (snChunks sn)) = snData sn \<and> list_all (placed bs) (snChunks sn)"
  unfolding assms(6)
  using query_in_range [OF fill_holds [OF assms(1)], of blocks offset len, unfolded fill_capacity] assms(2-5)
  by blast

theorem ring_query_exact_witness:
  "\<exists>sn. ringQuery (fillRing 4 [(''t1'', [1, 2, 3]), (''t2'', [4, 5])]) 2 2 = Some sn \<and> snData sn = [3, 4]"
  using ring_query_exact [of 4 2 2 "[1, 2, 3, 4, 5]" "[(''t1'', [1, 2, 3]), (''t2'', [4, 5])]"]
  by (auto simp: maxAlloc_def)

text \<open>Whatever blocks arrive, the buffer retains exactly the last bytes of the stream up to its
  capacity, and its counters are right.\<close>

theorem ring_retains_end:
  assumes "0 < capacity"
  shows "ring_bytes (fillRing capacity blocks) = lastn (nat capacity) (concat (map snd blocks))
    \<and> rbTotal (fillRing capacity blocks) = int (length (concat (map snd blocks)))
    \<and> rbRetained (fillRing capacity blocks) = min capacity (rbTotal (fillRing capacity blocks))"
  using ring_holdsD [OF fill_holds [OF assms, of blocks]] assms by (simp add: fill_capacity min.commute)

theorem ring_retains_end_witness: "ring_bytes (fillRing 3 [(''t'', [1, 2]), (''u'', [3, 4, 5, 6])]) = [4, 5, 6]"
  using ring_retains_end [of 3 "[(''t'', [1, 2]), (''u'', [3, 4, 5, 6])]"] by (simp add: lastn_def)

text \<open>A query whose length reaches past \<open>2 ^ 63\<close> is not cut at the end of the stream: the sum of
  offset and length wraps, and the allocation of the result panics.\<close>

theorem ring_query_overflow:
  assumes "0 < capacity" and "bs = concat (map snd blocks)" and "int (length bs) < 2 ^ 62"
    and "int (length bs) - capacity \<le> offset" and "0 \<le> offset" and "offset < int (length bs)"
    and "len < 2 ^ 63" and "2 ^ 63 \<le> offset + len"
  shows "ringQuery (fillRing capacity blocks) offset len = None"
proof -
  let ?r = "fillRing capacity blocks"
  have holds: "ring_holds ?r bs" using fill_holds [OF assms(1)] assms(2) by simp
  note r = ring_holdsD [OF holds]
  have held: "rbRetained ?r = min (int (length bs)) capacity" using r(2,3,4) by (simp add: fill_capacity)
  have before: "rbTotal ?r - rbRetained ?r \<le> offset" "offset < rbTotal ?r" "0 < len"
    using r(1) held assms by auto
  have "maxAlloc < (if rbTotal ?r < wrap64 (offset + len) then rbTotal ?r - offset else len)"
    using wrap64_over [of "offset + len"] assms r(1) by (auto simp: maxAlloc_def)
  then show ?thesis
    using ring_query_held [OF holds before(1) assms(5) before(2,3)] unfolding Let_def by metis
qed

theorem ring_query_overflow_witness:
  "ringQuery (fillRing 8 [(''t'', [1, 2, 3])]) 1 (2 ^ 63 - 1) = None"
  by (rule ring_query_overflow [where bs = "[1, 2, 3]"]) simp_all

end
