(* ===== verification/TextEncoding.thy ===== *)
theory TextEncoding
  imports GoStrings
begin

text \<open>
  The encodings of serial text (\<open>internal/modules/serial/textencoding.go\<close>) and the hexadecimal
  content of the service (\<open>service.go\<close>, \<open>decodeHexContent\<close>, \<open>formatHexBytes\<close>). The code tables are those
  of the module \<open>golang.org/x/text\<close>, which is not in the repository: \<open>codecs\<close> gives its encoder and
  decoder for the name of an encoding.
\<close>

record text_codecs =
  tcEncode :: "string \<Rightarrow> string \<Rightarrow> bytes option"
  tcDecode :: "string \<Rightarrow> bytes \<Rightarrow> string option"

datatype text_error = UnsupportedRune | UnsupportedEncoding string | CodecFailed

definition normalizeSerialTextEncoding :: "string \<Rightarrow> string" where
  "normalizeSerialTextEncoding label = map (\<lambda>c. if c = CHR ''_'' then CHR ''-'' else c) (to_lower (trim_space label))"

text \<open>How a label is served: bytes as they are, the ASCII loops, or a table of the module\<close>

datatype encoding_kind = PlainBytes | AsciiBytes | Codec string | NoEncoding

definition encodingKind :: "string \<Rightarrow> encoding_kind" where
  "encodingKind n =
     (if n \<in> {[], ''utf-8'', ''utf8''} then PlainBytes
      else if n = ''ascii'' then AsciiBytes
      else if n = ''utf-16le'' then Codec ''UTF16LE''
      else if n = ''utf-16be'' then Codec ''UTF16BE''
      else if n = ''gb2312'' \<or> n = ''gbk'' then Codec ''GBK''
      else if n = ''gb18030'' then Codec ''GB18030''
      else if n = ''big5'' then Codec ''Big5''
      else if n = ''shift-jis'' \<or> n = ''shiftjis'' then Codec ''ShiftJIS''
      else if n \<in> {''windows-1251'', ''windows1251'', ''cp1251''} then Codec ''Windows1251''
      else if n \<in> {''windows-1252'', ''windows1252'', ''cp1252''} then Codec ''Windows1252''
      else NoEncoding)"

definition ascii_char :: "char \<Rightarrow> bool" where
  "ascii_char c = ((of_char c :: nat) < 128)"

text \<open>A byte above 127 is part of a rune above 127, or decodes to the replacement rune.\<close>

definition encodeASCII :: "string \<Rightarrow> text_error + bytes" where
  "encodeASCII content = (if list_all ascii_char content then Inr (bytes_of content) else Inl UnsupportedRune)"

definition replacement :: string where
  "replacement = [CHR 0xEF, CHR 0xBF, CHR 0xBD]"

definition textDecodeASCII :: "bytes \<Rightarrow> string" where
  "textDecodeASCII data = concat (map (\<lambda>b. if 127 < b then replacement else string_of [b]) data)"

definition encodeSerialText :: "text_codecs \<Rightarrow> string \<Rightarrow> string \<Rightarrow> text_error + bytes" where
  "encodeSerialText codecs content label = (case encodingKind (normalizeSerialTextEncoding label) of
       PlainBytes \<Rightarrow> Inr (bytes_of content)
     | AsciiBytes \<Rightarrow> encodeASCII content
     | Codec name \<Rightarrow> (case tcEncode codecs name content of None \<Rightarrow> Inl CodecFailed | Some bs \<Rightarrow> Inr bs)
     | NoEncoding \<Rightarrow> Inl (UnsupportedEncoding label))"

definition decodeSerialText :: "text_codecs \<Rightarrow> bytes \<Rightarrow> string \<Rightarrow> text_error + string" where
  "decodeSerialText codecs data label = (case encodingKind (normalizeSerialTextEncoding label) of
       PlainBytes \<Rightarrow> Inr (string_of data)
     | AsciiBytes \<Rightarrow> Inr (textDecodeASCII data)
     | Codec name \<Rightarrow> (case tcDecode codecs name data of None \<Rightarrow> Inl CodecFailed | Some s \<Rightarrow> Inr s)
     | NoEncoding \<Rightarrow> Inl (UnsupportedEncoding label))"

definition decodeHexContent :: "string \<Rightarrow> bytes option" where
  "decodeHexContent content = hex_decode (filter (\<lambda>c. c \<notin> {CHR '' '', CHR 10, CHR 9, CHR 13}) content)"

definition formatHexBytes :: "bytes \<Rightarrow> string" where
  "formatHexBytes data = join_with '' '' (map hex_byte data)"

section \<open>Properties\<close>

lemma decode_ascii_bytes: "list_all ascii_char s \<Longrightarrow> textDecodeASCII (bytes_of s) = s"
proof (induction s)
  case (Cons c s)
  then have "\<not> 127 < (of_char c :: byte)"
    by (simp add: ascii_char_def word_less_nat_alt)
  with Cons show ?case by (simp add: textDecodeASCII_def string_of_def)
qed (simp add: textDecodeASCII_def)

text \<open>Text that can be encoded is decoded to the same text under every label, provided the
  tables of the text module round-trip, as its documentation of encoders and decoders says.\<close>

theorem text_roundtrip:
  assumes "\<And>name s bs. tcEncode codecs name s = Some bs \<Longrightarrow> tcDecode codecs name bs = Some s"
    and "encodeSerialText codecs content label = Inr bs"
  shows "decodeSerialText codecs bs label = Inr content"
  using assms by (auto simp: encodeSerialText_def decodeSerialText_def encodeASCII_def decode_ascii_bytes
      split: encoding_kind.splits if_splits option.splits)

definition reversing_codecs :: text_codecs where
  "reversing_codecs = \<lparr>tcEncode = (\<lambda>name s. Some (rev (bytes_of s))), tcDecode = (\<lambda>name bs. Some (string_of (rev bs)))\<rparr>"

theorem text_roundtrip_witness: "decodeSerialText reversing_codecs [0x42, 0x41] ''GBK'' = Inr ''AB''"
proof -
  have gbk: "encodingKind (normalizeSerialTextEncoding ''GBK'') = Codec ''GBK''" by code_simp
  have "encodeSerialText reversing_codecs ''AB'' ''GBK'' = Inr [0x42, 0x41]"
    by (simp add: encodeSerialText_def gbk reversing_codecs_def)
  from text_roundtrip [OF _ this] show ?thesis
    by (auto simp: reversing_codecs_def)
qed

lemma hex_char_visible: "d < 16 \<Longrightarrow> hex_char d \<notin> {CHR '' '', CHR 10, CHR 9, CHR 13}"
proof
  assume d: "d < 16" and "hex_char d \<in> {CHR '' '', CHR 10, CHR 9, CHR 13}"
  then have "of_char (hex_char d) \<in> {32, 10, 9, 13 :: nat}" by auto
  with d show False by (auto simp: of_char_hex_char split: if_splits)
qed

lemma filter_join: "filter P sep = [] \<Longrightarrow> filter P (join_with sep xs) = concat (map (filter P) xs)"
  by (induction sep xs rule: join_with.induct) auto

text \<open>Bytes shown in hexadecimal read back as the same bytes.\<close>

theorem hex_content_roundtrip: "decodeHexContent (formatHexBytes data) = Some data"
proof -
  have "filter (\<lambda>c. c \<notin> {CHR '' '', CHR 10, CHR 9, CHR 13}) (hex_byte b) = hex_byte b" for b
    using hex_char_visible [OF hex_nibbles_less(1) [of b]] hex_char_visible [OF hex_nibbles_less(2) [of b]]
    by (simp add: hex_byte_def)
  then have "filter (\<lambda>c. c \<notin> {CHR '' '', CHR 10, CHR 9, CHR 13}) (formatHexBytes data) = hex_encode data"
    by (simp add: formatHexBytes_def filter_join hex_encode_def comp_def)
  then show ?thesis by (simp add: decodeHexContent_def)
qed

end
