(* ===== verification/PortManager.thy ===== *)
theory PortManager
  imports GoMaps SerialPort Interfaces
begin

text \<open>
  The manager of open serial ports (\<open>internal/modules/serial/manager\<close>): handles with their byte
  counters, exclusive opening, and the loop that reads a port and publishes what it receives. The
  driver's outcomes are arguments; every method is one critical section of the manager's mutex.
\<close>

section \<open>State\<close>

record handle =
  hdID :: string
  hdConfig :: serialConfig
  hdStopped :: bool
  hdRxBytes :: int
  hdTxBytes :: int

record handleStatus =
  hsID :: string
  hsConfig :: serialConfig
  hsIsOpen :: bool
  hsRxBytes :: int
  hsTxBytes :: int

record portManager =
  pmHandles :: "(string, handle) table"
  pmNextID :: nat

record dataEvent =
  dePortID :: string
  deData :: bytes

datatype manager_error =
    MPortNameEmpty | MBaudRate | MPortOpen string | MOpenFailed string string | MHandleNotFound string
  | MHandleIDEmpty | MDataEmpty | MNegativeCounters | MWriteFailed string

definition NewPortManager :: portManager where
  "NewPortManager = \<lparr>pmHandles = [], pmNextID = 0\<rparr>"

definition newHandle :: "string \<Rightarrow> serialConfig \<Rightarrow> handle" where
  "newHandle i config = \<lparr>hdID = i, hdConfig = config, hdStopped = False, hdRxBytes = 0, hdTxBytes = 0\<rparr>"

definition handleStatusOf :: "handle \<Rightarrow> handleStatus" where
  "handleStatusOf h = \<lparr>hsID = hdID h, hsConfig = hdConfig h, hsIsOpen = (\<not> hdStopped h),
     hsRxBytes = hdRxBytes h, hsTxBytes = hdTxBytes h\<rparr>"

section \<open>Operations\<close>

definition portID :: "nat \<Rightarrow> string" where
  "portID n = ''port-'' @ itoa (int n)"

definition managerOpen :: "openEvent \<Rightarrow> portManager \<Rightarrow> serialConfig \<Rightarrow> portManager \<times> (manager_error + handleStatus)" where
  "managerOpen opened m config =
     (if scPortName config = [] then (m, Inl MPortNameEmpty)
      else if scBaudRate config \<le> 0 then (m, Inl MBaudRate)
      else if list_ex (\<lambda>(_, h). scPortName (hdConfig h) = scPortName config) (pmHandles m)
      then (m, Inl (MPortOpen (scPortName config)))
      else case opened of
        Some e \<Rightarrow> (m, Inl (MOpenFailed (scPortName config) e))
      | None \<Rightarrow>
          let n = pmNextID m + 1; h = newHandle (portID n) config in
          (m\<lparr>pmNextID := n, pmHandles := table_put (portID n) h (pmHandles m)\<rparr>, Inr (handleStatusOf h)))"

definition managerClose :: "portManager \<Rightarrow> string \<Rightarrow> portManager \<times> manager_error option" where
  "managerClose m i = (case map_of (pmHandles m) i of
       None \<Rightarrow> (m, Some (MHandleNotFound i))
     | Some h \<Rightarrow> (m\<lparr>pmHandles := table_del i (pmHandles m)\<rparr>, None))"

definition managerCloseAll :: "portManager \<Rightarrow> portManager" where
  "managerCloseAll m = m\<lparr>pmHandles := []\<rparr>"

definition withHandle :: "portManager \<Rightarrow> string \<Rightarrow> (handle \<Rightarrow> handle) \<Rightarrow> portManager \<times> manager_error option" where
  "withHandle m i f = (case map_of (pmHandles m) i of
       None \<Rightarrow> (m, Some (MHandleNotFound i))
     | Some h \<Rightarrow> (m\<lparr>pmHandles := table_put i (f h) (pmHandles m)\<rparr>, None))"

text \<open>The outcome of the driver counts only when the handle exists.\<close>

definition managerWrite :: "writeEvent \<Rightarrow> portManager \<Rightarrow> string \<Rightarrow> bytes \<Rightarrow> portManager \<times> int \<times> manager_error option" where
  "managerWrite ev m i data =
     (if i = [] then (m, 0, Some MHandleIDEmpty)
      else if data = [] then (m, 0, Some MDataEmpty)
      else case ev of Wrote n err \<Rightarrow>
        (case withHandle m i (\<lambda>h. if 0 < n then h\<lparr>hdTxBytes := hdTxBytes h + n\<rparr> else h) of
           (m1, Some e) \<Rightarrow> (m1, 0, Some e)
         | (m1, None) \<Rightarrow> (m1, n, map_option MWriteFailed err)))"

definition managerResetCounters :: "portManager \<Rightarrow> string \<Rightarrow> portManager \<times> manager_error option" where
  "managerResetCounters m i = (if i = [] then (m, Some MHandleIDEmpty)
     else withHandle m i (\<lambda>h. h\<lparr>hdRxBytes := 0, hdTxBytes := 0\<rparr>))"

definition managerRestoreCounters :: "portManager \<Rightarrow> string \<Rightarrow> int \<Rightarrow> int \<Rightarrow> portManager \<times> manager_error option" where
  "managerRestoreCounters m i rx tx = (if i = [] then (m, Some MHandleIDEmpty)
     else if rx < 0 \<or> tx < 0 then (m, Some MNegativeCounters)
     else withHandle m i (\<lambda>h. h\<lparr>hdRxBytes := rx, hdTxBytes := tx\<rparr>))"

definition managerList :: "portManager \<Rightarrow> handleStatus list" where
  "managerList m = map (\<lambda>(_, h). handleStatusOf h) (pmHandles m)"

text \<open>
  One turn of the reading loop of a handle: an error or a stopped handle ends it, received bytes are
  counted and published, an empty read changes nothing.
\<close>

definition readTurn :: "portManager \<Rightarrow> string \<Rightarrow> readEvent \<Rightarrow> portManager \<times> dataEvent option \<times> loop_state" where
  "readTurn m i ev = (case ev of
       ReadChunk data \<Rightarrow>
         if data = [] then (m, None, Looping)
         else (fst (withHandle m i (\<lambda>h. h\<lparr>hdRxBytes := hdRxBytes h + int (length data)\<rparr>)),
               Some \<lparr>dePortID = i, deData = data\<rparr>, Looping)
     | _ \<Rightarrow> (m, None, Exited))"

fun readLoop :: "portManager \<Rightarrow> string \<Rightarrow> readEvent list \<Rightarrow> portManager \<times> dataEvent list" where
  "readLoop m i [] = (m, [])"
| "readLoop m i (ev # evs) = (case readTurn m i ev of
       (m1, published, Exited) \<Rightarrow> (m1, [])
     | (m1, published, Looping) \<Rightarrow>
         (let (m2, es) = readLoop m1 i evs in
          (m2, (case published of None \<Rightarrow> es | Some e \<Rightarrow> e # es))))"

section \<open>Ports are held exclusively\<close>

text \<open>The critical sections of the manager\<close>

datatype managerSection =
    SOpen openEvent serialConfig | SClose string | SCloseAll | SWrite writeEvent string bytes
  | SReset string | SRestore string int int | SRead string readEvent

definition runManager :: "managerSection \<Rightarrow> portManager \<Rightarrow> portManager" where
  "runManager op m = (case op of
       SOpen opened config \<Rightarrow> fst (managerOpen opened m config)
     | SClose i \<Rightarrow> fst (managerClose m i)
     | SCloseAll \<Rightarrow> managerCloseAll m
     | SWrite ev i data \<Rightarrow> fst (managerWrite ev m i data)
     | SReset i \<Rightarrow> fst (managerResetCounters m i)
     | SRestore i rx tx \<Rightarrow> fst (managerRestoreCounters m i rx tx)
     | SRead i ev \<Rightarrow> fst (readTurn m i ev))"

definition handlePort :: "portManager \<Rightarrow> string \<rightharpoonup> string" where
  "handlePort m i = map_option (\<lambda>h. scPortName (hdConfig h)) (map_of (pmHandles m) i)"

text \<open>The identifiers given out so far are numbered up to the counter.\<close>

definition portManager_wf :: "portManager \<Rightarrow> bool" where
  "portManager_wf m \<longleftrightarrow> table_ok (pmHandles m)
     \<and> (\<forall>i h. map_of (pmHandles m) i = Some h \<longrightarrow> hdID h = i \<and> (\<exists>n \<le> pmNextID m. i = portID n))"

lemma portID_inject [simp]: "portID m = portID n \<longleftrightarrow> m = n"
  by (simp add: portID_def)

lemma fresh_portID: "portManager_wf m \<Longrightarrow> map_of (pmHandles m) (portID (Suc (pmNextID m))) = None"
  unfolding portManager_wf_def by (metis not_Some_eq portID_inject not_less_eq_eq order_refl)

lemma withHandle_wf:
  assumes "portManager_wf m" and "\<And>h. hdConfig (f h) = hdConfig h \<and> hdID (f h) = hdID h"
  shows "portManager_wf (fst (withHandle m i f)) \<and> handlePort (fst (withHandle m i f)) = handlePort m"
  using assms by (auto simp: withHandle_def portManager_wf_def handlePort_def fun_eq_iff split: option.splits)

lemma managerOpen_cases:
  assumes "portManager_wf m"
  shows "scPortName config \<notin> ran (handlePort m) \<and> handlePort m (portID (pmNextID m + 1)) = None
      \<and> portManager_wf (fst (managerOpen opened m config))
      \<and> handlePort (fst (managerOpen opened m config)) = (handlePort m)(portID (pmNextID m + 1) \<mapsto> scPortName config)
    \<or> fst (managerOpen opened m config) = m"
proof (cases "fst (managerOpen opened m config) = m")
  case False
  then have open': "opened = None" "\<not> list_ex (\<lambda>(_, h). scPortName (hdConfig h) = scPortName config) (pmHandles m)"
    and r: "fst (managerOpen opened m config) = m\<lparr>pmNextID := pmNextID m + 1,
      pmHandles := table_put (portID (pmNextID m + 1)) (newHandle (portID (pmNextID m + 1)) config) (pmHandles m)\<rparr>"
    by (auto simp: managerOpen_def Let_def split: if_splits option.splits)
  have "scPortName config \<notin> ran (handlePort m)"
    using open'(2) by (auto simp: ran_def handlePort_def list_ex_iff dest!: map_of_SomeD)
  moreover have "handlePort m (portID (pmNextID m + 1)) = None"
    using fresh_portID [OF assms] by (simp add: handlePort_def)
  ultimately show ?thesis
    using assms by (fastforce simp: r portManager_wf_def handlePort_def fun_eq_iff newHandle_def intro: le_SucI)
qed simp

lemma manager_section:
  assumes "portManager_wf m"
  shows "portManager_wf (runManager op m)
    \<and> ((\<exists>i p. i \<notin> dom (handlePort m) \<and> p \<notin> ran (handlePort m) \<and> handlePort (runManager op m) = (handlePort m)(i \<mapsto> p))
      \<or> handlePort (runManager op m) \<subseteq>\<^sub>m handlePort m)"
proof (cases op)
  case (SOpen opened config)
  from managerOpen_cases [OF assms, of config opened] show ?thesis
  proof (elim disjE conjE)
    assume "fst (managerOpen opened m config) = m"
    with SOpen assms show ?thesis by (simp add: runManager_def)
  next
    assume "scPortName config \<notin> ran (handlePort m)" "handlePort m (portID (pmNextID m + 1)) = None"
      "portManager_wf (fst (managerOpen opened m config))"
      "handlePort (fst (managerOpen opened m config)) = (handlePort m)(portID (pmNextID m + 1) \<mapsto> scPortName config)"
    moreover from this(2) have "portID (pmNextID m + 1) \<notin> dom (handlePort m)" by blast
    ultimately show ?thesis unfolding SOpen runManager_def managerSection.case by blast
  qed
next
  case (SClose i)
  with assms show ?thesis
    by (auto simp: runManager_def managerClose_def portManager_wf_def handlePort_def map_le_def split: option.splits)
next
  case SCloseAll
  moreover have "handlePort (managerCloseAll m) = Map.empty"
    by (simp add: managerCloseAll_def handlePort_def fun_eq_iff)
  ultimately show ?thesis
    by (simp add: runManager_def managerCloseAll_def portManager_wf_def)
next
  case (SWrite ev i data)
  have "portManager_wf (fst (managerWrite ev m i data)) \<and> handlePort (fst (managerWrite ev m i data)) = handlePort m"
  proof (cases ev)
    case (Wrote n err)
    have "portManager_wf (fst (withHandle m i (\<lambda>h. if 0 < n then h\<lparr>hdTxBytes := hdTxBytes h + n\<rparr> else h)))
        \<and> handlePort (fst (withHandle m i (\<lambda>h. if 0 < n then h\<lparr>hdTxBytes := hdTxBytes h + n\<rparr> else h))) = handlePort m"
      by (rule withHandle_wf [OF assms]) simp
    with Wrote assms show ?thesis
      by (auto simp: managerWrite_def split: prod.splits option.splits)
  qed
  with SWrite show ?thesis by (simp add: runManager_def)
next
  case (SReset i)
  with withHandle_wf [OF assms] assms show ?thesis by (simp add: runManager_def managerResetCounters_def)
next
  case (SRestore i rx tx)
  with withHandle_wf [OF assms] assms show ?thesis by (simp add: runManager_def managerRestoreCounters_def)
next
  case (SRead i ev)
  with withHandle_wf [OF assms] assms show ?thesis
    by (auto simp: runManager_def readTurn_def split: readEvent.splits)
qed

interpretation open_ports: port_registry portManager_wf handlePort runManager
  by unfold_locales (blast dest: manager_section)+

lemma new_portManager: "portManager_wf NewPortManager" "open_ports.exclusive NewPortManager"
  by (simp_all add: NewPortManager_def portManager_wf_def open_ports.exclusive_def handlePort_def)

section \<open>Properties\<close>

text \<open>Whatever sequence of its operations runs, two handles of the port manager never share a
  port, and every handle has an identifier of its own.\<close>

theorem open_ports_exclusive:
  assumes "m = fold runManager ops NewPortManager"
    and "map_of (pmHandles m) i = Some g" and "map_of (pmHandles m) j = Some h"
    and "scPortName (hdConfig g) = scPortName (hdConfig h)"
  shows "i = j \<and> hdID g = i"
proof -
  from open_ports.exclusive_run [OF new_portManager, of ops]
  have m: "open_ports.exclusive m" "portManager_wf m" by (simp_all add: assms(1))
  with assms(2-4) have "i = j"
    by (intro open_ports.exclusive_holder [OF m(1), of i "scPortName (hdConfig g)"]) (simp_all add: handlePort_def)
  with m(2) assms(2) show ?thesis by (simp add: portManager_wf_def)
qed

definition sampleManagerOps :: "managerSection list" where
  "sampleManagerOps = (let c = \<lparr>scPortName = ''COM1'', scBaudRate = 9600, scDataBits = 8, scStopBits = ''1'',
       scParity = ''none'', scFlowMode = ''none'', scReadBufKB = 32\<rparr> in
     [SOpen None c, SOpen None c, SWrite (Wrote 3 None) ''port-1'' [1, 2, 3], SRead ''port-1'' (ReadChunk [9])])"

theorem open_ports_exclusive_witness:
  "\<exists>h. map_of (pmHandles (fold runManager sampleManagerOps NewPortManager)) ''port-1'' = Some h
    \<and> hdTxBytes h = 3 \<and> hdRxBytes h = 1 \<and> hdID h = ''port-1''"
proof -
  let ?m = "fold runManager sampleManagerOps NewPortManager"
  have "map_of (pmHandles ?m) ''port-1'' \<noteq> None \<and> hdTxBytes (the (map_of (pmHandles ?m) ''port-1'')) = 3
      \<and> hdRxBytes (the (map_of (pmHandles ?m) ''port-1'')) = 1"
    by code_simp
  then obtain h where h: "map_of (pmHandles ?m) ''port-1'' = Some h" "hdTxBytes h = 3" "hdRxBytes h = 1" by auto
  with open_ports_exclusive [OF refl h(1) h(1)] show ?thesis by blast
qed

end
