(* ===== verification/VirtualSerial.thy ===== *)
theory VirtualSerial
  imports SerialPort GoMaps
begin

text \<open>
  Virtual serial ports and bridges (\<open>internal/modules/serial/virtualserial\<close>, without the backends that
  talk to the operating system): pairs of ports, of which a single public port hides the second, and
  bridges that forward the bytes between two ports. What a backend and the driver do is an outcome.
\<close>

section \<open>Pairs\<close>

record virtualPair =
  vpID :: string
  vpPort1 :: string
  vpPort2 :: string
  vpPort2Hidden :: bool
  vpStopped :: bool

definition newVirtualPair :: "string \<Rightarrow> string \<Rightarrow> string \<Rightarrow> virtualPair" where
  "newVirtualPair i p1 p2 = \<lparr>vpID = i, vpPort1 = p1, vpPort2 = p2, vpPort2Hidden = False, vpStopped = False\<rparr>"

text \<open>\<open>Stop\<close> of a pair, given what the handle of the backend answers\<close>

definition pairStop :: "string option \<Rightarrow> virtualPair \<Rightarrow> virtualPair \<times> string option" where
  "pairStop outcome p = (if vpStopped p then (p, None)
     else case outcome of Some e \<Rightarrow> (p, Some e) | None \<Rightarrow> (p\<lparr>vpStopped := True\<rparr>, None))"

section \<open>Bridges\<close>

record bridge =
  brID :: string
  brPort1 :: string
  brPort2 :: string
  brBaudRate :: int
  brEndpoint1 :: string
  brEndpoint2 :: string
  brOpen :: bool
  brStopped :: bool

definition NewBridgeWithEndpoints :: "string \<Rightarrow> string \<Rightarrow> string \<Rightarrow> string \<Rightarrow> string \<Rightarrow> int \<Rightarrow> bridge" where
  "NewBridgeWithEndpoints i port1 port2 endpoint1 endpoint2 baud =
     \<lparr>brID = i, brPort1 = port1, brPort2 = port2, brBaudRate = baud, brEndpoint1 = endpoint1, brEndpoint2 = endpoint2,
      brOpen = False, brStopped = False\<rparr>"

datatype virtual_error = VPairExists | VBackend string | VNilPair | VPairNotFound | VStop string | VPortNameEmpty
  | VBridgeExists | VBridgeNotFound | VOpenPort1 string | VOpenPort2 string

definition bridgeMode :: "bridge \<Rightarrow> serialMode" where
  "bridgeMode b = \<lparr>smBaudRate = brBaudRate b, smDataBits = 8, smParity = NoParity, smStopBits = OneStopBit\<rparr>"

definition bridgeStart :: "openEvent \<Rightarrow> openEvent \<Rightarrow> bridge \<Rightarrow> virtual_error + bridge" where
  "bridgeStart open1 open2 b = (case open1 of Some e \<Rightarrow> Inl (VOpenPort1 e)
     | None \<Rightarrow> (case open2 of Some e \<Rightarrow> Inl (VOpenPort2 e) | None \<Rightarrow> Inr (b\<lparr>brOpen := True\<rparr>)))"

definition bridgeStop :: "bridge \<Rightarrow> bridge" where
  "bridgeStop b = (if brStopped b then b else b\<lparr>brStopped := True, brOpen := False\<rparr>)"

text \<open>
  One turn of a forwarding goroutine: what the read gives, whether the bridge is stopped by then, and
  the driver's outcome of the write. The bytes written are part of the result.
\<close>

datatype bridge_event = BridgeReadFails | BridgeRead bytes bool "string option"

fun bridgeForward :: "bridge_event list \<Rightarrow> bytes" where
  "bridgeForward [] = []"
| "bridgeForward (BridgeReadFails # evs) = []"
| "bridgeForward (BridgeRead data stopped outcome # evs) =
     (if data = [] then bridgeForward evs
      else if stopped then []
      else case outcome of Some e \<Rightarrow> [] | None \<Rightarrow> data @ bridgeForward evs)"

section \<open>The manager\<close>

record virtualManager =
  vmPairs :: "(string, virtualPair) table"
  vmBridges :: "(string, bridge) table"

definition NewVirtualManager :: virtualManager where
  "NewVirtualManager = \<lparr>vmPairs = [], vmBridges = []\<rparr>"

text \<open>A backend fails, returns no pair, or the pair it made.\<close>

type_synonym backend_event = "string + virtualPair option"

definition virtualCreatePair :: "backend_event \<Rightarrow> string \<Rightarrow> virtualManager \<Rightarrow> virtualManager \<times> (virtual_error + virtualPair)" where
  "virtualCreatePair made pairID m =
     (if map_of (vmPairs m) pairID \<noteq> None then (m, Inl VPairExists)
      else case made of
        Inl e \<Rightarrow> (m, Inl (VBackend e))
      | Inr None \<Rightarrow> (m, Inl VNilPair)
      | Inr (Some pair) \<Rightarrow> (m\<lparr>vmPairs := table_put pairID pair (vmPairs m)\<rparr>, Inr pair))"

definition virtualCreatePort :: "backend_event \<Rightarrow> string \<Rightarrow> string \<Rightarrow> virtualManager \<Rightarrow> virtualManager \<times> (virtual_error + virtualPair)" where
  "virtualCreatePort made portID portName m =
     (if portName = [] then (m, Inl VPortNameEmpty)
      else virtualCreatePair (case made of Inr (Some pair) \<Rightarrow> Inr (Some (pair\<lparr>vpPort2Hidden := True\<rparr>)) | _ \<Rightarrow> made) portID m)"

definition virtualDeletePair :: "string option \<Rightarrow> string \<Rightarrow> virtualManager \<Rightarrow> virtualManager \<times> virtual_error option" where
  "virtualDeletePair outcome pairID m = (case map_of (vmPairs m) pairID of
       None \<Rightarrow> (m, Some VPairNotFound)
     | Some pair \<Rightarrow> (case pairStop outcome pair of
           (pair1, Some e) \<Rightarrow> (m\<lparr>vmPairs := table_put pairID pair1 (vmPairs m)\<rparr>, Some (VStop e))
         | (pair1, None) \<Rightarrow> (m\<lparr>vmPairs := table_del pairID (vmPairs m)\<rparr>, None)))"

definition bridgeEndpoint :: "virtualManager \<Rightarrow> string \<Rightarrow> string" where
  "bridgeEndpoint m portName = (case find (\<lambda>(_, p). vpPort2Hidden p \<and> vpPort1 p = portName) (vmPairs m) of
       None \<Rightarrow> portName | Some (_, p) \<Rightarrow> vpPort2 p)"

definition EndpointFor :: "virtualManager \<Rightarrow> string \<Rightarrow> string" where
  "EndpointFor m portName = bridgeEndpoint m portName"

definition virtualCreateBridge :: "openEvent \<Rightarrow> openEvent \<Rightarrow> string \<Rightarrow> string \<Rightarrow> string \<Rightarrow> int \<Rightarrow> virtualManager \<Rightarrow>
    virtualManager \<times> (virtual_error + bridge)" where
  "virtualCreateBridge open1 open2 bridgeID port1 port2 baud m =
     (if map_of (vmBridges m) bridgeID \<noteq> None then (m, Inl VBridgeExists)
      else case bridgeStart open1 open2
          (NewBridgeWithEndpoints bridgeID port1 port2 (bridgeEndpoint m port1) (bridgeEndpoint m port2) baud) of
        Inl e \<Rightarrow> (m, Inl e)
      | Inr b \<Rightarrow> (m\<lparr>vmBridges := table_put bridgeID b (vmBridges m)\<rparr>, Inr b))"

definition virtualDeleteBridge :: "string \<Rightarrow> virtualManager \<Rightarrow> virtualManager \<times> virtual_error option" where
  "virtualDeleteBridge bridgeID m = (case map_of (vmBridges m) bridgeID of
       None \<Rightarrow> (m, Some VBridgeNotFound)
     | Some b \<Rightarrow> (m\<lparr>vmBridges := table_del bridgeID (vmBridges m)\<rparr>, None))"

definition ListPairs :: "virtualManager \<Rightarrow> virtualPair list" where
  "ListPairs m = map snd (vmPairs m)"

definition ListBridges :: "virtualManager \<Rightarrow> bridge list" where
  "ListBridges m = map snd (vmBridges m)"

definition virtualCleanup :: "virtualManager \<Rightarrow> virtualManager" where
  "virtualCleanup m = NewVirtualManager"

section \<open>Facts\<close>

text \<open>Every pair and bridge is stored under a distinct identifier.\<close>

definition virtual_ok :: "virtualManager \<Rightarrow> bool" where
  "virtual_ok m \<longleftrightarrow> table_ok (vmPairs m) \<and> table_ok (vmBridges m)"

lemma virtual_ok_ops:
  assumes "virtual_ok m"
  shows "virtual_ok (fst (virtualCreatePair made i m))" and "virtual_ok (fst (virtualCreatePort made i n m))"
    and "virtual_ok (fst (virtualDeletePair out i m))" and "virtual_ok (fst (virtualCreateBridge o1 o2 i p1 p2 baud m))"
    and "virtual_ok (fst (virtualDeleteBridge i m))" and "virtual_ok (virtualCleanup m)"
  using assms
  by (auto simp: virtual_ok_def virtualCreatePair_def virtualCreatePort_def virtualDeletePair_def virtualCreateBridge_def
      virtualDeleteBridge_def virtualCleanup_def NewVirtualManager_def split: sum.split option.split prod.split)

lemma endpoint_cases:
  "EndpointFor m p = p \<or> (\<exists>i pair. (i, pair) \<in> set (vmPairs m) \<and> vpPort2Hidden pair \<and> vpPort1 pair = p
     \<and> EndpointFor m p = vpPort2 pair)"
proof (cases "find (\<lambda>(_, p'). vpPort2Hidden p' \<and> vpPort1 p' = p) (vmPairs m)")
  case (Some e)
  then have "e \<in> set (vmPairs m)" "vpPort2Hidden (snd e)" "vpPort1 (snd e) = p"
    by (auto simp: find_Some_iff) (metis nth_mem)
  with Some show ?thesis by (cases e) (auto simp: EndpointFor_def bridgeEndpoint_def)
qed (simp add: EndpointFor_def bridgeEndpoint_def)

text \<open>Blocks of a bridge that no failure or stop holds up\<close>

lemma bridge_transparent:
  "list_all (\<lambda>ev. \<exists>d. ev = BridgeRead d False None) evs \<Longrightarrow>
    bridgeForward evs = concat (map (\<lambda>ev. case ev of BridgeRead d _ _ \<Rightarrow> d | _ \<Rightarrow> []) evs)"
  by (induction evs rule: bridgeForward.induct) auto

end
