(* ===== verification/GraphNode.thy ===== *)
theory GraphNode
  imports Monitor GraphValidate RingBuffer TextEncoding FilterExpr PortManager VirtualSerial
begin

text \<open>
  The state of one node of a running graph (\<open>graph_runtime.go\<close>, lines 155 to 173, 1359 to 1650 and
  1799 to 1903): status, byte counters, receive buffer and captured frames. Every method is one
  critical section of the node's mutex. Capture times are left out; the ring has them.
\<close>

section \<open>State\<close>

text \<open>What a failed operation leaves in the status of a node, or returns\<close>

datatype runtime_error =
    RWire modbus_error | RFec fec_error | RFilter filter_error | RScript string | RScriptErrors "string list"
  | RPortWrite manager_error | RRemoteWrite string | RNotConnected string | RNotFound string | RNotBound string
  | RNoDirectSend string | RPayload payload_error | RText text_error | RHexContent | RContentEmpty
  | RScriptMissing string | RAutoDataEmpty | RNoAutoSend string
  | RInvalid string | RConflict string string | ROpen manager_error | RVirtual virtual_error
  | REndpoint "graph_error list" | RNetwork string | RWrap string string runtime_error

definition statusIdle :: string where "statusIdle = ''idle''"
definition statusRunning :: string where "statusRunning = ''running''"
definition statusReconnecting :: string where "statusReconnecting = ''reconnecting''"
definition statusStopped :: string where "statusStopped = ''stopped''"
definition statusError :: string where "statusError = ''error''"

record graphNode =
  gnSpec :: nodeSpec
  gnStatus :: string
  gnErr :: "runtime_error option"
  gnRxBytes :: int
  gnTxBytes :: int
  gnFrameSeq :: int
  gnBuffer :: ringBuffer
  gnFrames :: "monitorFrame list"
  gnFrameBytes :: int
  gnResourceID :: string
  gnHandleID :: string
  gnConn :: "nat option"
  gnListener :: bool
  gnReconnectActive :: bool
  gnExternalWrite :: bool

definition newGraphNode :: "nodeSpec \<Rightarrow> graphNode" where
  "newGraphNode spec = \<lparr>gnSpec = spec, gnStatus = statusIdle, gnErr = None, gnRxBytes = 0, gnTxBytes = 0,
     gnFrameSeq = 0, gnBuffer = NewRing (64 * 1024 * 1024), gnFrames = [], gnFrameBytes = 0,
     gnResourceID = [], gnHandleID = [], gnConn = None, gnListener = False, gnReconnectActive = False, gnExternalWrite = False\<rparr>"

section \<open>Small operations\<close>

definition nodeSetStatus :: "string \<Rightarrow> runtime_error option \<Rightarrow> graphNode \<Rightarrow> graphNode" where
  "nodeSetStatus status err n = n\<lparr>gnStatus := status, gnErr := err\<rparr>"

definition addRx :: "nat \<Rightarrow> graphNode \<Rightarrow> graphNode" where
  "addRx len n = n\<lparr>gnRxBytes := gnRxBytes n + int len\<rparr>"

definition addTx :: "int \<Rightarrow> graphNode \<Rightarrow> graphNode" where
  "addTx len n = n\<lparr>gnTxBytes := gnTxBytes n + len\<rparr>"

definition nodeAppendBuffer :: "string \<Rightarrow> bytes \<Rightarrow> graphNode \<Rightarrow> graphNode" where
  "nodeAppendBuffer now data n = n\<lparr>gnBuffer := appendBytes now data (gnBuffer n)\<rparr>"

definition nodeQueryBuffer :: "graphNode \<Rightarrow> int \<Rightarrow> int \<Rightarrow> snapshot option" where
  "nodeQueryBuffer n offset len = ringQuery (gnBuffer n) offset len"

definition nodeClearBuffer :: "graphNode \<Rightarrow> graphNode" where
  "nodeClearBuffer n = n\<lparr>gnBuffer := ringReset (gnBuffer n), gnFrames := [], gnFrameBytes := 0, gnFrameSeq := 0\<rparr>"

definition nodeResetCounters :: "graphNode \<Rightarrow> graphNode" where
  "nodeResetCounters n = n\<lparr>gnRxBytes := 0, gnTxBytes := 0, gnFrameSeq := 0\<rparr>"

text \<open>Connections of a remote node, by the number of the connection\<close>

definition closeRemoteConnIfCurrent :: "nat \<Rightarrow> graphNode \<Rightarrow> graphNode \<times> bool" where
  "closeRemoteConnIfCurrent conn n = (if gnConn n = Some conn then (n\<lparr>gnConn := None\<rparr>, True) else (n, False))"

definition setRemoteConn :: "nat \<Rightarrow> graphNode \<Rightarrow> graphNode" where
  "setRemoteConn conn n = n\<lparr>gnConn := Some conn\<rparr>"

definition closeRemoteConn :: "graphNode \<Rightarrow> graphNode" where
  "closeRemoteConn n = n\<lparr>gnConn := None\<rparr>"

definition setRemoteListener :: "graphNode \<Rightarrow> graphNode" where
  "setRemoteListener n = n\<lparr>gnListener := True\<rparr>"

definition closeRemoteListener :: "graphNode \<Rightarrow> graphNode" where
  "closeRemoteListener n = n\<lparr>gnListener := False\<rparr>"

definition setResourceID :: "string \<Rightarrow> graphNode \<Rightarrow> graphNode" where
  "setResourceID i n = n\<lparr>gnResourceID := i\<rparr>"

definition setHandleID :: "string \<Rightarrow> graphNode \<Rightarrow> graphNode" where
  "setHandleID i n = n\<lparr>gnHandleID := i\<rparr>"

definition tryBeginExternalWrite :: "graphNode \<Rightarrow> graphNode \<times> bool" where
  "tryBeginExternalWrite n = (if gnExternalWrite n then (n, False) else (n\<lparr>gnExternalWrite := True\<rparr>, True))"

definition endExternalWrite :: "graphNode \<Rightarrow> graphNode" where
  "endExternalWrite n = n\<lparr>gnExternalWrite := False\<rparr>"

definition tryBeginRemoteReconnect :: "graphNode \<Rightarrow> graphNode \<times> bool" where
  "tryBeginRemoteReconnect n = (if gnReconnectActive n then (n, False) else (n\<lparr>gnReconnectActive := True\<rparr>, True))"

definition endRemoteReconnect :: "graphNode \<Rightarrow> graphNode" where
  "endRemoteReconnect n = n\<lparr>gnReconnectActive := False\<rparr>"

section \<open>Captured frames\<close>

definition frameLimit :: nat where "frameLimit = 100000"
definition frameBytesLimit :: int where "frameBytesLimit = 16 * 1024 * 1024"
definition frameQueryLimit :: int where "frameQueryLimit = 1000"

text \<open>The eviction loop: the number of frames, and their bytes unless one frame alone has more\<close>

fun trimFrames :: "monitorFrame list \<Rightarrow> int \<Rightarrow> monitorFrame list \<times> int" where
  "trimFrames [] held = ([], held)"
| "trimFrames (f # fs) held =
     (if frameLimit < length (f # fs) \<or> frameBytesLimit < held \<and> 1 < length (f # fs)
      then trimFrames fs (held - int (length (mfData f))) else (f # fs, held))"

definition makeFrame :: "graphNode \<Rightarrow> string \<Rightarrow> bytes \<Rightarrow> string \<Rightarrow> string \<Rightarrow> monitorFrame" where
  "makeFrame n direction data text err =
     \<lparr>mfSeq = gnFrameSeq n + 1, mfDirection = direction, mfPort = nsID (gnSpec n), mfLength = int (length data),
      mfData = data, mfText = text, mfHex = formatGraphFrameBytes data hex_byte,
      mfDec = formatGraphFrameBytes data decByte, mfOct = formatGraphFrameBytes data octByte,
      mfBin = formatGraphFrameBytes data binByte,
      mfEncoding = graphStringConfig (nsConfig (gnSpec n)) ''encoding'', mfError = err\<rparr>"

definition captureFrame :: "string \<Rightarrow> bytes \<Rightarrow> string \<Rightarrow> string \<Rightarrow> graphNode \<Rightarrow> graphNode" where
  "captureFrame direction data text err n =
     (let (fs, held) = trimFrames (gnFrames n @ [makeFrame n direction data text err])
            (gnFrameBytes n + int (length data)) in
      n\<lparr>gnFrameSeq := gnFrameSeq n + 1, gnFrames := fs, gnFrameBytes := held\<rparr>)"

definition appendFrame :: "bytes \<Rightarrow> graphNode \<Rightarrow> graphNode" where
  "appendFrame data n = captureFrame received data (string_of data) [] n"

definition appendModbusFrame :: "(bytes \<Rightarrow> string) \<Rightarrow> bytes \<Rightarrow> string \<Rightarrow> graphNode \<Rightarrow> graphNode" where
  "appendModbusFrame hexText data direction n =
     (let (text, err) = graphModbusFrameDisplay hexText
            (graphStringConfigWithDefault (nsConfig (gnSpec n)) ''mode'' FrameModeRTU) data in
      captureFrame direction data text err n)"

text \<open>The result of a script: a field has a name, its value as text and what it displays.\<close>

record scriptResult =
  scrOutput :: bytes
  scrDrop :: bool
  scrFields :: "(string \<times> string \<times> string) list"
  scrErrors :: "string list"

definition graphScriptFrameText :: "text_codecs \<Rightarrow> bytes \<Rightarrow> scriptResult \<Rightarrow> string \<Rightarrow> string" where
  "graphScriptFrameText codecs data result encoding =
     (let parts = map (\<lambda>(name, value, display). name @ ''='' @ (if display = [] then value else display)) (scrFields result)
            @ map (\<lambda>e. ''error='' @ e) (scrErrors result) in
      if parts \<noteq> [] then join_with '' '' parts
      else case decodeSerialText codecs data encoding of Inl _ \<Rightarrow> string_of data | Inr text \<Rightarrow> text)"

definition appendScriptFrame :: "text_codecs \<Rightarrow> bytes \<Rightarrow> scriptResult \<Rightarrow> graphNode \<Rightarrow> graphNode" where
  "appendScriptFrame codecs data result n =
     captureFrame received data
       (graphScriptFrameText codecs data result (graphStringConfig (nsConfig (gnSpec n)) ''encoding'')) [] n"

section \<open>Queries\<close>

record frameQuery =
  fyOffset :: int
  fyLimit :: int
  fyDirection :: string
  fySearch :: string

record graphFramePage =
  fgFrames :: "monitorFrame list"
  fgTotal :: int
  fgNextOffset :: int

definition graphFrameMatches :: "(string \<Rightarrow> string) \<Rightarrow> frameQuery \<Rightarrow> monitorFrame \<Rightarrow> bool" where
  "graphFrameMatches lower req f =
     (let search = trim_space (lower (fySearch req)) in
      (fyDirection req = [] \<or> mfDirection f = fyDirection req)
      \<and> (search = [] \<or> contains (lower (join_with '' ''
           [mfText f, mfHex f, mfDec f, mfOct f, mfBin f, mfError f])) search))"

text \<open>The end of the page is computed at 64 bits; a slice that ends before it begins panics.\<close>

definition graphQueryFrames :: "(string \<Rightarrow> string) \<Rightarrow> graphNode \<Rightarrow> frameQuery \<Rightarrow> graphFramePage option" where
  "graphQueryFrames lower n req =
     (let filtered = filter (graphFrameMatches lower req) (gnFrames n);
          hits = int (length filtered);
          offset1 = (if fyOffset req < 0 then max 0 (hits + fyOffset req) else fyOffset req);
          offset = (if hits < offset1 then hits else offset1);
          limit = (if fyLimit req \<le> 0 then frameQueryLimit else fyLimit req);
          end1 = wrap64 (offset + limit);
          end = (if hits < end1 then hits else end1) in
      if end < offset then None
      else Some \<lparr>fgFrames = take (nat (end - offset)) (drop (nat offset) filtered),
                 fgTotal = hits, fgNextOffset = end\<rparr>)"

record nodeStatus =
  nuID :: string
  nuType :: string
  nuStatus :: string
  nuRxBytes :: int
  nuTxBytes :: int
  nuFrameCount :: int
  nuResourceID :: string
  nuError :: "runtime_error option"

definition statusSnapshot :: "graphNode \<Rightarrow> nodeStatus" where
  "statusSnapshot n = \<lparr>nuID = nsID (gnSpec n), nuType = nsType (gnSpec n), nuStatus = gnStatus n,
     nuRxBytes = gnRxBytes n, nuTxBytes = gnTxBytes n, nuFrameCount = int (length (gnFrames n)),
     nuResourceID = gnResourceID n, nuError = gnErr n\<rparr>"

section \<open>Payloads\<close>

definition encodeGraphPayload :: "text_codecs \<Rightarrow> string \<Rightarrow> string \<Rightarrow> string \<Rightarrow> runtime_error + bytes" where
  "encodeGraphPayload codecs content mode encoding =
     (if mode = ''hex'' then (case decodeHexContent content of None \<Rightarrow> Inl RHexContent | Some bs \<Rightarrow> Inr bs)
      else map_sum RText id (encodeSerialText codecs content encoding))"

definition graphNodeSendData :: "text_codecs \<Rightarrow> nodeSpec \<Rightarrow> string \<Rightarrow> string \<Rightarrow> string \<Rightarrow> runtime_error + bytes" where
  "graphNodeSendData codecs spec content mode encoding =
     (if content \<noteq> [] then encodeGraphPayload codecs content mode encoding
      else if nsType spec = ''serial.modbus.master'' then map_sum RPayload id (graphModbusMasterFrame (nsConfig spec))
      else if nsType spec = ''serial.fecbus.master'' \<or> nsType spec = ''serial.fecbus.slave''
      then map_sum RPayload id (graphFecbusFrame (nsConfig spec))
      else Inl RContentEmpty)"

definition graphAutoNodeData :: "text_codecs \<Rightarrow> nodeSpec \<Rightarrow> runtime_error + bytes" where
  "graphAutoNodeData codecs spec =
     (if nsType spec = ''serial.modbus.master'' \<or> nsType spec = ''serial.fecbus.master''
      then case graphNodeSendData codecs spec [] [] [] of
             Inl e \<Rightarrow> Inl e
           | Inr data \<Rightarrow> if data = [] then Inl RAutoDataEmpty else Inr data
      else Inl (RNoAutoSend (nsType spec)))"

section \<open>Facts\<close>

lemma spec_kept [simp]:
  "gnSpec (nodeSetStatus s e n) = gnSpec n" "gnSpec (addRx k n) = gnSpec n" "gnSpec (addTx i n) = gnSpec n"
  "gnSpec (nodeAppendBuffer now d n) = gnSpec n" "gnSpec (captureFrame dir d t er n) = gnSpec n"
  "gnSpec (appendFrame d n) = gnSpec n" "gnSpec (appendModbusFrame h d dir n) = gnSpec n"
  "gnSpec (appendScriptFrame c d r n) = gnSpec n" "gnSpec (fst (tryBeginExternalWrite n)) = gnSpec n"
  "gnSpec (endExternalWrite n) = gnSpec n" "gnSpec (fst (closeRemoteConnIfCurrent k n)) = gnSpec n"
  "gnSpec (nodeClearBuffer n) = gnSpec n" "gnSpec (nodeResetCounters n) = gnSpec n"
  "gnSpec (setRemoteConn k n) = gnSpec n" "gnSpec (endRemoteReconnect n) = gnSpec n"
  "gnSpec (fst (tryBeginRemoteReconnect n)) = gnSpec n" "gnSpec (closeRemoteConn n) = gnSpec n"
  "gnSpec (setRemoteListener n) = gnSpec n" "gnSpec (closeRemoteListener n) = gnSpec n"
  "gnSpec (setResourceID k' n) = gnSpec n" "gnSpec (setHandleID k' n) = gnSpec n"
  by (simp_all add: nodeSetStatus_def addRx_def addTx_def nodeAppendBuffer_def captureFrame_def appendFrame_def
      appendModbusFrame_def appendScriptFrame_def tryBeginExternalWrite_def endExternalWrite_def
      closeRemoteConnIfCurrent_def nodeClearBuffer_def nodeResetCounters_def
      closeRemoteConn_def setRemoteListener_def closeRemoteListener_def setResourceID_def setHandleID_def
      setRemoteConn_def endRemoteReconnect_def tryBeginRemoteReconnect_def Let_def split: prod.split)

end
