(* ===== verification/GraphRuntime.thy ===== *)
theory GraphRuntime
  imports GraphNode
begin

text \<open>
  A running graph (\<open>graph_runtime.go\<close>, lines 136 to 153, 372 to 400, 676 to 707, 718 to 730, 869 to
  893, 944 to 1357): how a message enters it, is handled by the nodes it reaches and travels along the
  connections. \<open>emit\<close> and \<open>receive\<close> call each other in the code; here \<open>receiveStep\<close> is the body of
  \<open>receive\<close> up to the one message it may emit, and \<open>deliver\<close> the recursion, whose value is \<open>None\<close> if
  it does not end.
  The goroutine that writes to the external side of a virtual port is a pending write of the state,
  carried out by \<open>finishExternalWrite\<close>; the goroutines of a remote node act in turns
  (\<open>remoteReadTurn\<close>, \<open>reconnectTurn\<close>) on a connection known by its number.
\<close>

section \<open>State\<close>

record portRef =
  prNode :: string
  prHandle :: string

record graphRuntime =
  grID :: string
  grStatus :: string
  grErr :: "runtime_error option"
  grNodes :: "(string, graphNode) table"
  grEdges :: "edgeSpec list"
  grOwnedPorts :: "string list"
  grOwnedVPorts :: "string list"
  grSubscribed :: bool
  grSenders :: "(string \<times> bytes \<times> int) list"
  grGenerators :: "(string \<times> int) list"

text \<open>The program around the graph: the port manager, the writes in flight, and a count of the calls
  made to the environment\<close>

record graphWorld =
  gwManager :: portManager
  gwRuntime :: graphRuntime
  gwPending :: "(string \<times> string \<times> bytes) list"
  gwTick :: nat

text \<open>
  The environment: the case table and regular expressions of the library, the text codecs, the text
  of a hexadecimal decoding error, and, for each call by its number, the clock, the driver of a serial
  port, a network connection and the script engine.
\<close>

record graphEnv =
  geLower :: "string \<Rightarrow> string"
  geRegexp :: regexp
  geCodecs :: text_codecs
  geHexText :: "bytes \<Rightarrow> string"
  geNow :: "nat \<Rightarrow> string"
  gePortWrite :: "nat \<Rightarrow> string \<Rightarrow> bytes \<Rightarrow> writeEvent"
  geRemoteWrite :: "nat \<Rightarrow> string \<Rightarrow> bytes \<Rightarrow> writeEvent"
  geScript :: "nat \<Rightarrow> string \<Rightarrow> bytes \<Rightarrow> string + scriptResult"

definition newSerialGraphRuntime :: "graphStartRequest \<Rightarrow> graphRuntime" where
  "newSerialGraphRuntime req = \<lparr>grID = gqID req, grStatus = statusIdle, grErr = None,
     grNodes = foldl (\<lambda>t spec. table_put (nsID spec) (newGraphNode spec) t) [] (gqNodes req),
     grEdges = gqEdges req, grOwnedPorts = [], grOwnedVPorts = [],
     grSubscribed = False, grSenders = [], grGenerators = []\<rparr>"

text \<open>The routes are the targets of the edges that leave a port, in their order.\<close>

definition targets :: "graphRuntime \<Rightarrow> portRef \<Rightarrow> portRef list" where
  "targets r source = map (\<lambda>e. \<lparr>prNode = esTarget e, prHandle = esTargetHandle e\<rparr>)
     (filter (\<lambda>e. esSource e = prNode source \<and> esSourceHandle e = prHandle source) (grEdges r))"

definition nodeOf :: "graphWorld \<Rightarrow> string \<Rightarrow> graphNode option" where
  "nodeOf w i = map_of (grNodes (gwRuntime w)) i"

definition nodeByHandle :: "graphWorld \<Rightarrow> string \<Rightarrow> graphNode option" where
  "nodeByHandle w handleID = map_option snd (find (\<lambda>(_, n). gnHandleID n = handleID) (grNodes (gwRuntime w)))"

definition onNode :: "string \<Rightarrow> (graphNode \<Rightarrow> graphNode) \<Rightarrow> graphWorld \<Rightarrow> graphWorld" where
  "onNode i f w = (case nodeOf w i of None \<Rightarrow> w
     | Some n \<Rightarrow> w\<lparr>gwRuntime := (gwRuntime w)\<lparr>grNodes := table_put i (f n) (grNodes (gwRuntime w))\<rparr>\<rparr>)"

definition tick :: "graphWorld \<Rightarrow> graphWorld" where
  "tick w = w\<lparr>gwTick := gwTick w + 1\<rparr>"

definition isStopped :: "graphWorld \<Rightarrow> bool" where
  "isStopped w = (grStatus (gwRuntime w) = statusStopped)"

section \<open>Writing outside\<close>

definition portWrite :: "graphEnv \<Rightarrow> graphWorld \<Rightarrow> string \<Rightarrow> bytes \<Rightarrow> graphWorld \<times> int \<times> runtime_error option" where
  "portWrite env w handleID data =
     (let (m, n, err) = managerWrite (gePortWrite env (gwTick w) handleID data) (gwManager w) handleID data in
      (tick (w\<lparr>gwManager := m\<rparr>), n, map_option RPortWrite err))"

definition lostStatus :: "graphNode \<Rightarrow> string" where
  "lostStatus n = (if graphBoolConfig (nsConfig (gnSpec n)) ''reconnect'' True then statusReconnecting else statusError)"

definition writeRemoteNode :: "graphEnv \<Rightarrow> graphWorld \<Rightarrow> graphNode \<Rightarrow> bytes \<Rightarrow> graphWorld \<times> int \<times> runtime_error option" where
  "writeRemoteNode env w node data =
     (let i = nsID (gnSpec node) in
      case gnConn node of
        None \<Rightarrow> (onNode i (nodeSetStatus (lostStatus node) (Some (RNotConnected i))) w, 0, Some (RNotConnected i))
      | Some conn \<Rightarrow>
          (case geRemoteWrite env (gwTick w) i data of Wrote n err \<Rightarrow>
            (let w1 = tick (if 0 < n then onNode i (addTx n) w else w) in
             case err of None \<Rightarrow> (w1, n, None)
             | Some e \<Rightarrow>
                 (onNode i (\<lambda>nd. let (nd1, cleared) = closeRemoteConnIfCurrent conn nd in
                    if cleared then nodeSetStatus (lostStatus nd1) (Some (RRemoteWrite e)) nd1 else nd1) w1,
                  n, Some (RRemoteWrite e)))))"

definition writeVirtualExternal :: "graphNode \<Rightarrow> bytes \<Rightarrow> graphWorld \<Rightarrow> graphWorld" where
  "writeVirtualExternal node data w =
     (let i = nsID (gnSpec node) in
      if gnHandleID node = [] \<or> data = [] then w
      else case nodeOf w i of None \<Rightarrow> w
        | Some n \<Rightarrow> if \<not> snd (tryBeginExternalWrite n) then w
            else (onNode i (fst \<circ> tryBeginExternalWrite) w)\<lparr>gwPending := gwPending w @ [(i, gnHandleID node, data)]\<rparr>)"

definition finishExternalWrite :: "graphEnv \<Rightarrow> graphWorld \<Rightarrow> graphWorld" where
  "finishExternalWrite env w = (case gwPending w of [] \<Rightarrow> w
     | (i, handleID, data) # rest \<Rightarrow>
         (let (w1, n, err) = portWrite env (w\<lparr>gwPending := rest\<rparr>) handleID data;
              w2 = (if err \<noteq> None \<and> \<not> isStopped w1 then onNode i (nodeSetStatus statusError err) w1 else w1) in
          onNode i endExternalWrite w2))"

section \<open>Receiving\<close>

text \<open>
  What is left to do after the body of \<open>receive\<close>: nothing, or to emit a message and then return its
  error, drop it, or drop it and write to the external side of a virtual port. \<open>Diverges\<close> stands for a
  filter evaluation that does not end.
\<close>

datatype after_emit = ReturnError | DropError | ThenExternal graphNode bytes

datatype received_step = Finished "runtime_error option" | Emitting portRef bytes after_emit | Diverges

text \<open>The script engine runs scripts that are not blank; the output of one that drops is discarded.\<close>

definition runScript :: "graphEnv \<Rightarrow> graphWorld \<Rightarrow> graphNode \<Rightarrow> bytes \<Rightarrow> graphWorld \<times> (runtime_error + scriptResult)" where
  "runScript env w node data =
     (if trim_space (graphStringConfigRaw (nsConfig (gnSpec node)) ''script'') = [] then (w, Inl (RScript ''script must not be empty''))
      else (tick w, (case geScript env (gwTick w) (nsID (gnSpec node)) data of
          Inl e \<Rightarrow> Inl (RScript e)
        | Inr r \<Rightarrow> Inr (if scrDrop r then r\<lparr>scrOutput := []\<rparr> else r))))"

definition graphScriptOnErrorPassesInput :: "config \<Rightarrow> bool" where
  "graphScriptOnErrorPassesInput config =
     (to_lower (graphStringConfig config ''onError'') \<in> {''pass'', ''passthrough'', ''pass-through'', ''emit-input''})"

definition filterCandidateOf :: "graphEnv \<Rightarrow> string \<Rightarrow> graphNode \<Rightarrow> bytes \<Rightarrow> filterCandidate" where
  "filterCandidateOf env graphID node data =
     (let text = (case decodeSerialText (geCodecs env) data
              (graphStringConfigWithDefault (nsConfig (gnSpec node)) ''encoding'' ''utf-8'') of
            Inl _ \<Rightarrow> string_of data | Inr t \<Rightarrow> t);
          hex = formatHexBytes data; n = int (length data) in
      \<lparr>fcLen = n, fcByteLength = n, fcByteCount = n, fcText = text, fcHex = hex, fcMessage = [], fcLevel = [],
       fcSource = ''serial.filter'', fcGraphID = graphID, fcNodeID = nsID (gnSpec node), fcNodeType = nsType (gnSpec node),
       fcDirection = ''rx'', fcPayloadText = text, fcPayloadHex = hex, fcDetails = [], fcAction = ''filter'',
       fcCategory = ''serial.graph''\<rparr>)"

definition filterOptionsOf :: "graphNode \<Rightarrow> filterOptions" where
  "filterOptionsOf node = (let c = nsConfig (gnSpec node) in
     \<lparr>flMode = graphStringConfigWithDefault c ''mode'' ''plain'', flExpression = graphStringConfigRaw c ''expression'',
      flCaseSensitive = graphBoolConfig c ''caseSensitive'' False, flWholeWord = graphBoolConfig c ''wholeWord'' False\<rparr>)"

definition portOut :: "graphNode \<Rightarrow> string \<Rightarrow> portRef" where
  "portOut node handle = \<lparr>prNode = nsID (gnSpec node), prHandle = handle\<rparr>"

definition nodeFails :: "graphNode \<Rightarrow> runtime_error \<Rightarrow> graphWorld \<Rightarrow> graphWorld" where
  "nodeFails node e w = onNode (nsID (gnSpec node)) (nodeSetStatus statusError (Some e)) w"

definition counted :: "graphNode \<Rightarrow> bytes \<Rightarrow> graphWorld \<Rightarrow> graphWorld" where
  "counted node data w = onNode (nsID (gnSpec node)) (addTx (int (length data))) w"

definition handleFilter :: "graphEnv \<Rightarrow> graphWorld \<Rightarrow> graphNode \<Rightarrow> bytes \<Rightarrow> graphWorld \<times> received_step" where
  "handleFilter env w node data =
     (case matchSerialGraphFilter (geLower env) (geRegexp env)
          (filterCandidateOf env (grID (gwRuntime w)) node data) (filterOptionsOf node) of
        None \<Rightarrow> (w, Diverges)
      | Some (Inl e) \<Rightarrow> (nodeFails node (RFilter e) w, Finished None)
      | Some (Inr False) \<Rightarrow> (w, Finished None)
      | Some (Inr True) \<Rightarrow> (counted node data w, Emitting (portOut node ''out'') data DropError))"

definition handleScriptTransform :: "graphEnv \<Rightarrow> graphWorld \<Rightarrow> graphNode \<Rightarrow> bytes \<Rightarrow> graphWorld \<times> received_step" where
  "handleScriptTransform env w node data =
     (case runScript env w node data of
        (w1, Inl e) \<Rightarrow>
          (let w2 = nodeFails node e w1 in
           if graphScriptOnErrorPassesInput (nsConfig (gnSpec node))
           then (counted node data w2, Emitting (portOut node ''out'') data DropError)
           else (w2, Finished None))
      | (w1, Inr r) \<Rightarrow>
          if scrErrors r \<noteq> [] then (nodeFails node (RScriptErrors (scrErrors r)) w1, Finished None)
          else if scrDrop r \<or> scrOutput r = [] then (w1, Finished None)
          else (counted node (scrOutput r) w1, Emitting (portOut node ''out'') (scrOutput r) DropError))"

definition emptyResult :: scriptResult where
  "emptyResult = \<lparr>scrOutput = [], scrDrop = False, scrFields = [], scrErrors = []\<rparr>"

definition scriptErrorText :: "runtime_error \<Rightarrow> string" where
  "scriptErrorText e = (case e of RScript s \<Rightarrow> s | _ \<Rightarrow> [])"

definition handleScriptAnalyzer :: "graphEnv \<Rightarrow> graphWorld \<Rightarrow> graphNode \<Rightarrow> bytes \<Rightarrow> graphWorld" where
  "handleScriptAnalyzer env w node data =
     (let (w1, outcome) = runScript env w node data;
          r = (case outcome of Inl e \<Rightarrow> emptyResult\<lparr>scrErrors := [scriptErrorText e]\<rparr> | Inr r \<Rightarrow> r);
          w2 = (if scrErrors r \<noteq> [] then nodeFails node (RScriptErrors (scrErrors r)) w1 else w1) in
      onNode (nsID (gnSpec node)) (appendScriptFrame (geCodecs env) data r) w2)"

definition handleModbusSlave :: "graphEnv \<Rightarrow> graphWorld \<Rightarrow> graphNode \<Rightarrow> bytes \<Rightarrow> graphWorld \<times> received_step" where
  "handleModbusSlave env w node data =
     (let c = nsConfig (gnSpec node); mode = graphStringConfigWithDefault c ''mode'' FrameModeRTU in
      case DecodeFrame mode data of
        Inl e \<Rightarrow> (nodeFails node (RWire e) w, Finished None)
      | Inr frame \<Rightarrow>
          if \<not> graphUnitIDAllowed c (dfUnitID frame) then (w, Finished None)
          else (case EncodeFrame mode (dfUnitID frame) (graphModbusSlaveResponse frame) of
              Inl e \<Rightarrow> (nodeFails node (RWire e) w, Finished None)
            | Inr encoded \<Rightarrow>
                (onNode (nsID (gnSpec node)) (appendModbusFrame (geHexText env) encoded sent) (counted node encoded w),
                 Emitting (portOut node ''tx'') encoded DropError)))"

definition handleFecbusSlave :: "graphWorld \<Rightarrow> graphNode \<Rightarrow> bytes \<Rightarrow> graphWorld \<times> received_step" where
  "handleFecbusSlave w node data =
     (let c = nsConfig (gnSpec node) in
      case FecDecodeFrame data of
        Inl e \<Rightarrow> (nodeFails node (RFec e) w, Finished None)
      | Inr frame \<Rightarrow>
          let address = (of_int (graphIntConfig c ''address'' 2) :: byte) in
          if ffTarget frame \<noteq> address \<and> ffTarget frame \<noteq> 0 then (w, Finished None)
          else if \<not> graphBoolConfig c ''autoStatusAnswer'' True then (w, Finished None)
          else (case BuildStatusAnswer frame (of_int (graphIntConfig c ''defaultStatus'' (uint StatusReceivedOK))) of
              (answer, Some e) \<Rightarrow> (nodeFails node (RFec e) w, Finished None)
            | (answer, None) \<Rightarrow>
                (case FecEncodeFrame answer of
                   Inl e \<Rightarrow> (nodeFails node (RFec e) w, Finished None)
                 | Inr encoded \<Rightarrow> (counted node encoded w, Emitting (portOut node ''tx'') encoded DropError))))"

definition buffered :: "graphEnv \<Rightarrow> graphNode \<Rightarrow> bytes \<Rightarrow> graphWorld \<Rightarrow> graphWorld" where
  "buffered env node data w = onNode (nsID (gnSpec node)) (nodeAppendBuffer (geNow env (gwTick w)) data) w"

definition framed :: "graphEnv \<Rightarrow> graphNode \<Rightarrow> bytes \<Rightarrow> string \<Rightarrow> graphWorld \<Rightarrow> graphWorld" where
  "framed env node data direction w = onNode (nsID (gnSpec node)) (appendModbusFrame (geHexText env) data direction) w"

definition receiveBy :: "graphEnv \<Rightarrow> portRef \<Rightarrow> graphNode \<Rightarrow> bytes \<Rightarrow> graphWorld \<Rightarrow> graphWorld \<times> received_step" where
  "receiveBy env ref node data w =
     (let t = nsType (gnSpec node) in
      if t = ''serial.monitor'' then (onNode (nsID (gnSpec node)) (appendFrame data) w, Finished None)
      else if t = ''serial.filter'' then handleFilter env w node data
      else if t = ''serial.script.transform'' then handleScriptTransform env w node data
      else if t = ''serial.script.analyzer'' then (handleScriptAnalyzer env w node data, Finished None)
      else if t = ''serial.bridge'' then
        (if prHandle ref = ''a-in'' then (counted node data w, Emitting (portOut node ''b-out'') data ReturnError)
         else if prHandle ref = ''b-in'' then (counted node data w, Emitting (portOut node ''a-out'') data ReturnError)
         else (w, Finished None))
      else if t = ''serial.physical'' then
        (if gnHandleID node = [] then (w, Finished None)
         else let (w1, n, err) = portWrite env w (gnHandleID node) data in
           (case err of None \<Rightarrow> (onNode (nsID (gnSpec node)) (addTx n) w1, Finished None)
            | Some e \<Rightarrow> (nodeFails node e w1, Finished (Some e))))
      else if t = ''serial.virtual'' then
        (buffered env node data (counted node data w), Emitting (portOut node ''rx'') data (ThenExternal node data))
      else if t = ''serial.remote'' then
        (let (w1, n, err) = writeRemoteNode env w node data in (w1, Finished err))
      else if t = ''serial.modbus.slave'' then
        handleModbusSlave env (framed env node data received (buffered env node data w)) node data
      else if t = ''serial.fecbus.slave'' then handleFecbusSlave (buffered env node data w) node data
      else if t = ''serial.modbus.master'' then
        (framed env node data received (buffered env node data w), Finished None)
      else if t = ''serial.fecbus.master'' then (buffered env node data w, Finished None)
      else (w, Finished None))"

definition receiveStep :: "graphEnv \<Rightarrow> portRef \<Rightarrow> bytes \<Rightarrow> graphWorld \<Rightarrow> graphWorld \<times> received_step" where
  "receiveStep env ref data w = (case nodeOf w (prNode ref) of
       None \<Rightarrow> (w, Finished None)
     | Some node \<Rightarrow>
         if data = [] then (w, Finished None)
         else receiveBy env ref node data
           (if nsType (gnSpec node) \<noteq> ''serial.remote'' then onNode (prNode ref) (addRx (length data)) w else w))"

definition afterEmit :: "after_emit \<Rightarrow> runtime_error option \<Rightarrow> graphWorld \<Rightarrow> graphWorld \<times> runtime_error option" where
  "afterEmit a e w = (case a of ReturnError \<Rightarrow> (w, e) | DropError \<Rightarrow> (w, None)
     | ThenExternal node data \<Rightarrow> (writeVirtualExternal node data w, None))"

type_synonym delivery = "(graphWorld \<times> runtime_error option) option"

definition andThen :: "delivery \<Rightarrow> (graphWorld \<Rightarrow> runtime_error option \<Rightarrow> delivery) \<Rightarrow> delivery" where
  "andThen r k = (case r of None \<Rightarrow> None | Some (w, e) \<Rightarrow> k w e)"

lemma andThen_simps [simp]: "andThen None k = None" "andThen (Some (w, e)) k = k w e"
  by (simp_all add: andThen_def)

lemma andThen_mono [partial_function_mono]:
  assumes "mono_option f" and "\<And>w e. mono_option (\<lambda>p. g w e p)"
  shows "mono_option (\<lambda>p. andThen (f p) (\<lambda>w e. g w e p))"
proof -
  have "andThen r k = Option.bind r (\<lambda>(w, e). k w e)" for r k by (cases r) auto
  then show ?thesis using assms by (simp add: split_def bind_mono)
qed

text \<open>The loop of \<open>emit\<close> over the targets, which returns the first error\<close>

partial_function (option) deliver :: "graphEnv \<Rightarrow> portRef list \<Rightarrow> bytes \<Rightarrow> graphWorld \<Rightarrow> delivery" where
  "deliver env refs data w =
     (case refs of [] \<Rightarrow> Some (w, None)
      | ref # rest \<Rightarrow>
          andThen (case receiveStep env ref data w of
              (w1, Finished e) \<Rightarrow> Some (w1, e)
            | (w1, Diverges) \<Rightarrow> None
            | (w1, Emitting source payload a) \<Rightarrow>
                andThen (deliver env (targets (gwRuntime w1) source) payload w1)
                  (\<lambda>w2 e. Some (afterEmit a e w2)))
            (\<lambda>w3 e. andThen (deliver env rest data w3)
              (\<lambda>w4 e'. Some (w4, if e = None then e' else e))))"

declare deliver.simps [code]

definition emit :: "graphEnv \<Rightarrow> portRef \<Rightarrow> bytes \<Rightarrow> graphWorld \<Rightarrow> delivery" where
  "emit env source data w = deliver env (targets (gwRuntime w) source) data w"

section \<open>How messages enter\<close>

text \<open>The subscription to received data: \<open>None\<close> if the propagation does not end\<close>

definition dataReceived :: "graphEnv \<Rightarrow> dataEvent \<Rightarrow> graphWorld \<Rightarrow> graphWorld option" where
  "dataReceived env evt w = (case nodeByHandle w (dePortID evt) of None \<Rightarrow> Some w
     | Some node \<Rightarrow>
         map_option fst (emit env (portOut node ''rx'') (deData evt)
           (buffered env node (deData evt) (onNode (nsID (gnSpec node)) (addRx (length (deData evt))) w))))"

definition defaultGraphOutputHandle :: "string \<Rightarrow> string" where
  "defaultGraphOutputHandle t = (if t \<in> {''serial.modbus.master'', ''serial.modbus.slave'',
     ''serial.fecbus.master'', ''serial.fecbus.slave''} then ''tx'' else ''out'')"

definition graphSend :: "graphEnv \<Rightarrow> string \<Rightarrow> bytes \<Rightarrow> graphWorld \<Rightarrow> delivery" where
  "graphSend env i data w = (case nodeOf w i of
       None \<Rightarrow> Some (w, Some (RNotFound i))
     | Some node \<Rightarrow>
         (let t = nsType (gnSpec node); source = \<lparr>prNode = i, prHandle = defaultGraphOutputHandle t\<rparr> in
          if t = ''serial.modbus.master'' \<or> t = ''serial.modbus.slave''
          then emit env source data (framed env node data sent (counted node data w))
          else if t = ''serial.fecbus.master'' \<or> t = ''serial.fecbus.slave''
          then emit env source data (counted node data w)
          else if t = ''serial.physical'' then
            (if gnHandleID node = [] then Some (w, Some (RNotBound i))
             else let (w1, n, err) = portWrite env w (gnHandleID node) data in
               (case err of None \<Rightarrow> Some (onNode i (addTx n) w1, None)
                | Some e \<Rightarrow> Some (nodeFails node e w1, Some e)))
          else if t = ''serial.virtual'' then deliver env [\<lparr>prNode = i, prHandle = ''tx''\<rparr>] data w
          else if t = ''serial.remote'' then
            (let (w1, n, err) = writeRemoteNode env w node data in Some (w1, err))
          else Some (w, Some (RNoDirectSend i))))"

record graphSendRequest =
  gsNodeID :: string
  gsContent :: string
  gsMode :: string
  gsEncoding :: string

definition sendRequest :: "graphEnv \<Rightarrow> graphSendRequest \<Rightarrow> graphWorld \<Rightarrow> (graphWorld \<times> (runtime_error + int)) option" where
  "sendRequest env req w = (case nodeOf w (gsNodeID req) of
       None \<Rightarrow> Some (w, Inl (RNotFound (gsNodeID req)))
     | Some node \<Rightarrow>
         (case graphNodeSendData (geCodecs env) (gnSpec node) (gsContent req) (gsMode req) (gsEncoding req) of
            Inl e \<Rightarrow> Some (w, Inl e)
          | Inr data \<Rightarrow>
              if data = [] then Some (w, Inl RContentEmpty)
              else map_option (\<lambda>(w1, err). (w1, case err of None \<Rightarrow> Inr (int (length data)) | Some e \<Rightarrow> Inl e))
                (graphSend env (gsNodeID req) data w)))"

text \<open>One turn of an automatic sender, and of a script generator; the flag says whether to go on.\<close>

definition autoSendTurn :: "graphEnv \<Rightarrow> string \<Rightarrow> bytes \<Rightarrow> graphWorld \<Rightarrow> (graphWorld \<times> bool) option" where
  "autoSendTurn env i data w = map_option (\<lambda>(w1, err). case err of None \<Rightarrow> (w1, True)
     | Some e \<Rightarrow> (onNode i (nodeSetStatus statusError (Some e)) w1, False)) (graphSend env i data w)"

definition scriptGeneratorOnce :: "graphEnv \<Rightarrow> string \<Rightarrow> graphWorld \<Rightarrow> delivery" where
  "scriptGeneratorOnce env i w = (case nodeOf w i of
       None \<Rightarrow> Some (w, Some (RNotFound i))
     | Some node \<Rightarrow>
         if nsType (gnSpec node) \<notin> {''serial.script.transform'', ''serial.script.generator'', ''serial.script.analyzer''}
         then Some (w, Some (RScriptMissing i))
         else (case runScript env w node [] of
            (w1, Inl e) \<Rightarrow> Some (w1, Some e)
          | (w1, Inr r) \<Rightarrow>
              if scrErrors r \<noteq> [] then Some (w1, Some (RScriptErrors (scrErrors r)))
              else if scrDrop r \<or> scrOutput r = [] \<or> isStopped w1 then Some (w1, None)
              else map_option (\<lambda>(w2, _). (w2, None))
                (emit env \<lparr>prNode = i, prHandle = ''out''\<rparr> (scrOutput r) (counted node (scrOutput r) w1))))"

definition generatorTurn :: "graphEnv \<Rightarrow> string \<Rightarrow> graphWorld \<Rightarrow> (graphWorld \<times> bool) option" where
  "generatorTurn env i w = map_option (\<lambda>(w1, err). case err of None \<Rightarrow> (w1, True)
     | Some e \<Rightarrow> if isStopped w1 then (w1, False)
         else (onNode i (nodeSetStatus statusError (Some e)) w1, False)) (scriptGeneratorOnce env i w)"

section \<open>Remote connections\<close>

text \<open>A read of the connection delivers bytes and perhaps an error; \<open>Reconnects\<close> hands the goroutine
  over to \<open>runRemoteReconnect\<close>. The context of the graph is done when the graph is stopped.\<close>

datatype reader_state = ReaderOn | ReaderEnded | Reconnects

definition remoteReceive :: "graphEnv \<Rightarrow> graphNode \<Rightarrow> bytes \<Rightarrow> graphWorld \<Rightarrow> graphWorld option" where
  "remoteReceive env node data w = (if data = [] then Some w
     else map_option fst (emit env (portOut node ''rx'') data
       (buffered env node data (onNode (nsID (gnSpec node)) (addRx (length data)) w))))"

definition remoteReadFailed :: "graphNode \<Rightarrow> nat \<Rightarrow> string \<Rightarrow> graphWorld \<Rightarrow> graphWorld \<times> reader_state" where
  "remoteReadFailed node conn err w =
     (let i = nsID (gnSpec node); c = nsConfig (gnSpec node);
          detached = (map_option gnConn (nodeOf w i) = Some (Some conn));
          w1 = onNode i (\<lambda>n. fst (closeRemoteConnIfCurrent conn n)) w;
          status = (\<lambda>s e. if detached then onNode i (nodeSetStatus s e) w1 else w1) in
      if isStopped w then (w1, ReaderEnded)
      else if graphStringConfigWithDefault c ''role'' ''client'' = ''server''
      then (status statusRunning None, ReaderEnded)
      else if graphBoolConfig c ''reconnect'' True
      then (status statusReconnecting (Some (RRemoteWrite err)), if detached then Reconnects else ReaderEnded)
      else (status statusError (Some (RRemoteWrite err)), ReaderEnded))"

definition remoteReadTurn ::
    "graphEnv \<Rightarrow> graphNode \<Rightarrow> nat \<Rightarrow> bytes \<Rightarrow> string option \<Rightarrow> graphWorld \<Rightarrow> (graphWorld \<times> reader_state) option" where
  "remoteReadTurn env node conn data err w =
     map_option (\<lambda>w1. case err of None \<Rightarrow> (w1, ReaderOn) | Some e \<Rightarrow> remoteReadFailed node conn e w1)
       (remoteReceive env node data w)"

text \<open>The reconnecting goroutine: it begins if no other is active, and each dial ends it or not.\<close>

definition beginReconnect :: "graphNode \<Rightarrow> graphWorld \<Rightarrow> graphWorld \<times> bool" where
  "beginReconnect node w = (let i = nsID (gnSpec node) in
     if \<not> graphBoolConfig (nsConfig (gnSpec node)) ''reconnect'' True then (w, False)
     else (case nodeOf w i of None \<Rightarrow> (w, False)
       | Some n \<Rightarrow> (onNode i (fst \<circ> tryBeginRemoteReconnect) w, snd (tryBeginRemoteReconnect n))))"

definition completeRemoteReconnect :: "graphNode \<Rightarrow> nat \<Rightarrow> graphWorld \<Rightarrow> graphWorld" where
  "completeRemoteReconnect node conn w =
     onNode (nsID (gnSpec node)) (nodeSetStatus statusRunning None \<circ> setRemoteConn conn \<circ> endRemoteReconnect) w"

datatype dial_event = DialCancelled | DialFailed string | Dialled nat

definition reconnectTurn :: "graphNode \<Rightarrow> dial_event \<Rightarrow> graphWorld \<Rightarrow> graphWorld \<times> bool" where
  "reconnectTurn node ev w = (let i = nsID (gnSpec node) in
     case ev of
       DialCancelled \<Rightarrow> (onNode i endRemoteReconnect w, False)
     | DialFailed e \<Rightarrow> (onNode i (nodeSetStatus statusReconnecting (Some (RRemoteWrite e))) w, True)
     | Dialled conn \<Rightarrow> (completeRemoteReconnect node conn w, False))"

text \<open>A connection accepted or dialled at the start\<close>

definition remoteConnected :: "graphNode \<Rightarrow> nat \<Rightarrow> graphWorld \<Rightarrow> graphWorld" where
  "remoteConnected node conn w = onNode (nsID (gnSpec node)) (nodeSetStatus statusRunning None \<circ> setRemoteConn conn) w"

section \<open>Queries and resets\<close>

definition onGraphNode :: "string \<Rightarrow> (graphNode \<Rightarrow> graphNode) \<Rightarrow> graphWorld \<Rightarrow> graphWorld \<times> runtime_error option" where
  "onGraphNode i f w = (case nodeOf w i of None \<Rightarrow> (w, Some (RNotFound i)) | Some n \<Rightarrow> (onNode i f w, None))"

definition clearBuffer :: "string \<Rightarrow> graphWorld \<Rightarrow> graphWorld \<times> runtime_error option" where
  "clearBuffer i w = onGraphNode i nodeClearBuffer w"

definition resetCounters :: "string \<Rightarrow> graphWorld \<Rightarrow> graphWorld \<times> runtime_error option" where
  "resetCounters i w = onGraphNode i nodeResetCounters w"

text \<open>\<open>Inr None\<close> is a panic of the query.\<close>

definition queryBuffer :: "graphWorld \<Rightarrow> string \<Rightarrow> int \<Rightarrow> int \<Rightarrow> runtime_error + snapshot option" where
  "queryBuffer w i offset len = (case nodeOf w i of None \<Rightarrow> Inl (RNotFound i)
     | Some n \<Rightarrow> Inr (nodeQueryBuffer n offset len))"

definition graphQuery :: "(string \<Rightarrow> string) \<Rightarrow> graphWorld \<Rightarrow> string \<Rightarrow> frameQuery \<Rightarrow> runtime_error + graphFramePage option" where
  "graphQuery lower w i req = (case nodeOf w i of None \<Rightarrow> Inl (RNotFound i)
     | Some n \<Rightarrow> Inr (graphQueryFrames lower n req))"

definition sortedNodes :: "graphWorld \<Rightarrow> graphNode list" where
  "sortedNodes w = map (\<lambda>i. the (nodeOf w i)) (sorted_keys (grNodes (gwRuntime w)))"

definition graphInfo :: "graphWorld \<Rightarrow> string \<times> string \<times> runtime_error option \<times> nodeStatus list" where
  "graphInfo w = (grID (gwRuntime w), grStatus (gwRuntime w), grErr (gwRuntime w), map statusSnapshot (sortedNodes w))"

definition graphSetError :: "runtime_error \<Rightarrow> graphWorld \<Rightarrow> graphWorld" where
  "graphSetError e w = w\<lparr>gwRuntime := (gwRuntime w)\<lparr>grStatus := statusError, grErr := Some e\<rparr>\<rparr>"

end
