(* ===== verification/ModbusSession.thy ===== *)
theory ModbusSession
  imports ModbusDataModel GoMaps SerialPort
begin

text \<open>
  The sessions of package \<open>modbus\<close> (\<open>internal/modules/serial/modbus/session.go\<close>): the manager's
  table of sessions, the master's transactions with their retries, the slave's loop and the scans.
  Timestamps are left out. The port is an environment: every call that reads or writes takes the
  script of what the port does (theory \<open>SerialPort\<close>), and a call whose script ends before it
  returns has the value \<open>None\<close>. \<open>msPort\<close> says that the session has a port, \<open>msSent\<close> is that
  port's view of the session: the buffers handed to \<open>Write\<close>, in order. A critical section of the code (between \<open>Lock\<close> and \<open>Unlock\<close>) is
  one definition, so that their interleavings can be stated.
\<close>

section \<open>State\<close>

definition StatusOpen :: string where [state_simps]: "StatusOpen = ''open''"
definition StatusClosed :: string where [state_simps]: "StatusClosed = ''closed''"
definition StatusError :: string where [state_simps]: "StatusError = ''error''"
definition StatusRunning :: string where [state_simps]: "StatusRunning = ''running''"
definition RoleMaster :: string where [state_simps]: "RoleMaster = ''master''"
definition RoleSlave :: string where [state_simps]: "RoleSlave = ''slave''"

datatype session_error =
    CtxDone string | PortNameEmpty | SessionExists | PortInUse | OpenFailed string string
  | SessionNotFound | SessionIDEmpty | SessionIsClosed | SlaveIsRunning | SlaveAlreadyRunning
  | StopTimeout | ReadStopped | ResponseTimeout | FrameTooLong | ReadFailed string
  | WriteFailed string | CloseFailed string | UnexpectedUnit byte | UnitIDInvalid | NoUnits
  | ScanNeedsRegisters | ScanRangeReversed | TransactionFailed | Wire modbus_error

record openRequest =
  orID :: string
  orName :: string
  orMode :: frame_mode
  orRole :: string
  orConfig :: serialConfig
  orEndpoint :: string
  orTimeoutMs :: int
  orRetries :: int

record modbusSession =
  msReq :: openRequest
  msPort :: bool
  msSent :: "bytes list"
  msStatus :: string
  msLastError :: "session_error option"
  msRxBytes :: int
  msTxBytes :: int
  msSlaveRunning :: bool
  msSlaveUnitID :: byte
  msSlaveUnits :: "(byte, dataModel) table"
  msModel :: dataModel
  msNextTx :: int

record modbusManager =
  mmSessions :: "(string, modbusSession) table"
  mmNextID :: int

definition NewModbusManager :: modbusManager where
  "NewModbusManager = \<lparr>mmSessions = [], mmNextID = 0\<rparr>"

definition newSession :: "openRequest \<Rightarrow> modbusSession" where
  "newSession req = \<lparr>msReq = req, msPort = True, msSent = [], msStatus = StatusOpen, msLastError = None,
     msRxBytes = 0, msTxBytes = 0, msSlaveRunning = False, msSlaveUnitID = 0,
     msSlaveUnits = [], msModel = NewDataModel, msNextTx = 0\<rparr>"

record sessionInfo =
  siID :: string
  siName :: string
  siMode :: frame_mode
  siRole :: string
  siConfig :: serialConfig
  siStatus :: string
  siRxBytes :: int
  siTxBytes :: int
  siSlaveRunning :: bool
  siUnitID :: byte
  siUnitIDs :: "int list"
  siLastError :: "session_error option"

definition normalizeSessionRole :: "string \<Rightarrow> string" where
  "normalizeSessionRole role = (if role = RoleSlave then RoleSlave else RoleMaster)"

definition sortedUnitIDs :: "(byte, dataModel) table \<Rightarrow> byte list" where
  "sortedUnitIDs units = sorted_keys units"

definition sortedUnitIDsAsInts :: "(byte, dataModel) table \<Rightarrow> int list" where
  "sortedUnitIDsAsInts units = map uint (sortedUnitIDs units)"

definition firstUnitID :: "(byte, dataModel) table \<Rightarrow> byte" where
  "firstUnitID units = (case sortedUnitIDs units of [] \<Rightarrow> 0 | i # _ \<Rightarrow> i)"

definition modbusInfo :: "modbusSession \<Rightarrow> sessionInfo" where
  "modbusInfo s = \<lparr>siID = orID (msReq s), siName = orName (msReq s),
     siMode = normalizeFrameMode (orMode (msReq s)), siRole = normalizeSessionRole (orRole (msReq s)),
     siConfig = orConfig (msReq s), siStatus = msStatus s, siRxBytes = msRxBytes s,
     siTxBytes = msTxBytes s, siSlaveRunning = msSlaveRunning s, siUnitID = msSlaveUnitID s,
     siUnitIDs = sortedUnitIDsAsInts (msSlaveUnits s), siLastError = msLastError s\<rparr>"

section \<open>Opening and closing sessions\<close>

definition portInUseLocked :: "modbusManager \<Rightarrow> string \<Rightarrow> bool" where
  "portInUseLocked m portName = list_ex (\<lambda>(_, s). let info = modbusInfo s in
     siStatus info \<noteq> StatusClosed \<and> scPortName (siConfig info) = portName) (mmSessions m)"

text \<open>The defaults, and the id drawn from the counter when the request names none.\<close>

definition fillOpenRequest :: "modbusManager \<Rightarrow> openRequest \<Rightarrow> modbusManager \<times> openRequest" where
  "fillOpenRequest m req =
     (let fresh = orID req = []; n = mmNextID m + 1 in
      (if fresh then m\<lparr>mmNextID := n\<rparr> else m,
       req\<lparr>orID := (if fresh then ''modbus-'' @ itoa n else orID req),
           orName := (if orName req = [] then ''Modbus '' @ scPortName (orConfig req) else orName req),
           orMode := (if orMode req = [] then FrameModeRTU else orMode req),
           orRole := normalizeSessionRole (orRole req),
           orConfig := fillConfig 115200 (orConfig req)\<rparr>))"

definition openCheck :: "modbusManager \<Rightarrow> openRequest \<Rightarrow> session_error option" where
  "openCheck m req =
     (if map_of (mmSessions m) (orID req) \<noteq> None then Some SessionExists
      else if portInUseLocked m (scPortName (orConfig req)) then Some PortInUse
      else None)"

text \<open>The second critical section of \<open>OpenSession\<close>: it repeats the check and inserts.\<close>

definition openCommit :: "modbusManager \<Rightarrow> openRequest \<Rightarrow> modbusManager \<times> (session_error + sessionInfo)" where
  "openCommit m req =
     (case openCheck m req of Some e \<Rightarrow> (m, Inl e)
      | None \<Rightarrow> (m\<lparr>mmSessions := table_put (orID req) (newSession req) (mmSessions m)\<rparr>,
                 Inr (modbusInfo (newSession req))))"

definition OpenSession :: "string option \<Rightarrow> openEvent \<Rightarrow> modbusManager \<Rightarrow> openRequest \<Rightarrow>
    modbusManager \<times> (session_error + sessionInfo)" where
  "OpenSession ctxErr opened m req =
     (case ctxErr of Some e \<Rightarrow> (m, Inl (CtxDone e))
      | None \<Rightarrow>
        if scPortName (orConfig req) = [] then (m, Inl PortNameEmpty)
        else let (m1, req1) = fillOpenRequest m req in
          case openCheck m1 req1 of Some e \<Rightarrow> (m1, Inl e)
          | None \<Rightarrow> (case opened of
              Some e \<Rightarrow> (m1, Inl (OpenFailed (scPortName (orConfig req1)) e))
            | None \<Rightarrow> openCommit m1 req1))"

text \<open>\<open>timely\<close> says whether the loop ended within the second \<open>stopSlave\<close> waits.\<close>

definition stopSlave :: "bool \<Rightarrow> modbusSession \<Rightarrow> modbusSession \<times> session_error option" where
  "stopSlave timely s =
     (if \<not> msSlaveRunning s then (s, None)
      else (s\<lparr>msSlaveRunning := False, msStatus := StatusOpen\<rparr>,
            if timely then None else Some StopTimeout))"

definition closeSession :: "bool \<Rightarrow> string option \<Rightarrow> session_error option \<Rightarrow> modbusSession \<Rightarrow>
    modbusSession \<times> session_error option" where
  "closeSession timely closed reason s =
     (let s1 = fst (stopSlave timely s);
          s2 = (case reason of Some r \<Rightarrow> s1\<lparr>msStatus := StatusError, msLastError := Some r\<rparr>
                | None \<Rightarrow> s1\<lparr>msStatus := StatusClosed\<rparr>) in
      (s2\<lparr>msPort := False\<rparr>,
       if msPort s2 then map_option CloseFailed closed else None))"

definition CloseSession :: "bool \<Rightarrow> string option \<Rightarrow> modbusManager \<Rightarrow> string \<Rightarrow>
    modbusManager \<times> session_error option" where
  "CloseSession timely closed m sid =
     (case map_of (mmSessions m) sid of None \<Rightarrow> (m, Some SessionNotFound)
      | Some s \<Rightarrow> (m\<lparr>mmSessions := table_del sid (mmSessions m)\<rparr>,
                   snd (closeSession timely closed None s)))"

definition CloseAll :: "modbusManager \<Rightarrow> modbusManager" where
  "CloseAll m = m\<lparr>mmSessions := []\<rparr>"

definition ListSessions :: "modbusManager \<Rightarrow> sessionInfo list" where
  "ListSessions m = map (\<lambda>(_, s). modbusInfo s) (mmSessions m)"

definition PortInUseBy :: "modbusManager \<Rightarrow> string \<Rightarrow> bool" where
  "PortInUseBy = portInUseLocked"

definition getSession :: "modbusManager \<Rightarrow> string \<Rightarrow> session_error + modbusSession" where
  "getSession m sid =
     (if sid = [] then Inl SessionIDEmpty
      else case map_of (mmSessions m) sid of None \<Rightarrow> Inl SessionNotFound | Some s \<Rightarrow> Inr s)"

section \<open>Reading and writing frames\<close>

fun hexPairs :: "string \<Rightarrow> string list" where
  "hexPairs (a # b # rest) = [a, b] # hexPairs rest"
| "hexPairs [a] = [[a]]"
| "hexPairs [] = []"

definition FormatHex :: "bytes \<Rightarrow> string" where
  "FormatHex data = (let encoded = hex_encode data in
     if encoded = [] then [] else join_with '' '' (hexPairs encoded))"

definition sessionWrite :: "modbusSession \<Rightarrow> bytes \<Rightarrow> writeEvent \<Rightarrow>
    modbusSession \<times> int \<times> session_error option" where
  "sessionWrite s data ev =
     (if \<not> msPort s then (s, 0, Some SessionIsClosed)
      else case ev of Wrote n err \<Rightarrow>
        (let s1 = s\<lparr>msSent := msSent s @ [data]\<rparr> in
         if 0 < n then s1\<lparr>msTxBytes := msTxBytes s1 + n\<rparr> else s1, n, map_option WriteFailed err))"

definition maxFrameBytes :: nat where "maxFrameBytes = 513"

text \<open>What one chunk makes of the buffer: \<open>None\<close> when the loop goes on reading.\<close>

definition takeChunk :: "frame_mode \<Rightarrow> bytes \<Rightarrow> (session_error + bytes \<times> decodedFrame) option" where
  "takeChunk mode buf =
     (if maxFrameBytes < length buf then Some (Inl FrameTooLong)
      else if mode = FrameModeASCII then
        (case index_of (string_of buf) crlf of
           Some idx \<Rightarrow> (let frame = take (idx + 2) buf in
             case DecodeFrame mode frame of Inl e \<Rightarrow> Some (Inl (Wire e)) | Inr d \<Rightarrow> Some (Inr (frame, d)))
         | None \<Rightarrow> None)
      else (case DecodeFrame mode buf of Inl _ \<Rightarrow> None | Inr d \<Rightarrow> Some (Inr (buf, d))))"

fun readFrame :: "frame_mode \<Rightarrow> bool \<Rightarrow> modbusSession \<Rightarrow> bytes \<Rightarrow> readEvent list \<Rightarrow>
    (modbusSession \<times> (session_error + bytes \<times> decodedFrame)) option" where
  "readFrame mode stoppable s buf [] = None"
| "readFrame mode stoppable s buf (StopClosed # es) =
     (if stoppable then Some (s, Inl ReadStopped) else readFrame mode stoppable s buf es)"
| "readFrame mode stoppable s buf (DeadlinePassed # es) = Some (s, Inl ResponseTimeout)"
| "readFrame mode stoppable s buf (PortGone # es) = Some (s, Inl SessionIsClosed)"
| "readFrame mode stoppable s buf (ReadError msg # es) =
     (if \<not> msPort s then Some (s, Inl SessionIsClosed) else Some (s, Inl (ReadFailed msg)))"
| "readFrame mode stoppable s buf (ReadChunk bs # es) =
     (if \<not> msPort s then Some (s, Inl SessionIsClosed)
      else if bs = [] then readFrame mode stoppable s buf es
      else let s' = s\<lparr>msRxBytes := msRxBytes s + int (length bs)\<rparr> in
        case takeChunk mode (buf @ bs) of
          Some r \<Rightarrow> Some (s', r)
        | None \<Rightarrow> readFrame mode stoppable s' (buf @ bs) es)"

section \<open>Master transactions\<close>

record masterRequest =
  mqSessionID :: string
  mqUnitID :: byte
  mqFunction :: function_code
  mqAddressMode :: string
  mqAddress :: u16
  mqQuantity :: u16
  mqValue :: u16
  mqCoilValues :: "bool list"
  mqRegisterValues :: "u16 list"
  mqTimeoutMs :: int
  mqRetries :: int

record modbusTransaction =
  txID :: string
  txSessionID :: string
  txUnitID :: byte
  txMode :: frame_mode
  txRequestPDU :: pdu
  txResponsePDU :: pdu
  txRequestFrameHex :: string
  txResponseFrameHex :: string
  txBytesWritten :: int
  txResponse :: parsedResponse
  txError :: "session_error option"

definition pduZero :: pdu where "pduZero = \<lparr>pduFunction = 0, pduData = []\<rparr>"

definition BuildMasterPDU :: "masterRequest \<Rightarrow> modbus_error + pdu" where
  "BuildMasterPDU req =
     (case ProtocolAddress (mqAddressMode req) (mqFunction req) (mqAddress req) of
        Inl e \<Rightarrow> Inl e
      | Inr address \<Rightarrow> (let f = mqFunction req in
          if f = FunctionReadCoils \<or> f = FunctionReadDiscreteInputs \<or> f = FunctionReadHoldingRegisters
             \<or> f = FunctionReadInputRegisters
          then BuildReadRequest f address (mqQuantity req)
          else if f = FunctionWriteSingleCoil \<or> f = FunctionWriteSingleRegister
          then BuildWriteSingleRequest f address (mqValue req)
          else if f = FunctionWriteMultipleCoils
          then BuildWriteMultipleCoilsRequest address (mqCoilValues req)
          else if f = FunctionWriteMultipleRegisters
          then BuildWriteMultipleRegistersRequest address (mqRegisterValues req)
          else Inl (UnsupportedFunction f)))"

definition requestTimeout :: "int \<Rightarrow> int \<Rightarrow> int" where
  "requestTimeout requestMs sessionMs =
     (if 0 < requestMs then requestMs else if 0 < sessionMs then sessionMs else 800)"

definition requestRetries :: "int \<Rightarrow> int \<Rightarrow> int" where
  "requestRetries req sess = (if 0 < req then req else if 0 < sess then sess else 0)"

fun runAttempts :: "frame_mode \<Rightarrow> byte \<Rightarrow> bytes \<Rightarrow> int \<Rightarrow> attempt_env \<Rightarrow> nat \<Rightarrow> nat \<Rightarrow>
    modbusSession \<Rightarrow> modbusTransaction \<Rightarrow> session_error option \<Rightarrow>
    (modbusSession \<times> modbusTransaction \<times> session_error option) option" where
  "runAttempts mode unitID frame timeout env i 0 s tx lastErr =
     (let e = (case lastErr of None \<Rightarrow> TransactionFailed | Some e \<Rightarrow> e) in
      Some (s, tx\<lparr>txError := Some e\<rparr>, Some e))"
| "runAttempts mode unitID frame timeout env i (Suc n) s tx lastErr =
     (let (s1, written, werr) = sessionWrite s frame (fst (env i));
          tx1 = tx\<lparr>txBytesWritten := txBytesWritten tx + written\<rparr> in
      case werr of
        Some e \<Rightarrow> runAttempts mode unitID frame timeout env (Suc i) n s1 tx1 (Some e)
      | None \<Rightarrow>
        (case readFrame mode False s1 [] (snd (env i) timeout) of
           None \<Rightarrow> None
         | Some (s2, Inl e) \<Rightarrow> runAttempts mode unitID frame timeout env (Suc i) n s2 tx1 (Some e)
         | Some (s2, Inr (responseFrame, decoded)) \<Rightarrow>
             if dfUnitID decoded \<noteq> unitID
             then runAttempts mode unitID frame timeout env (Suc i) n s2 tx1
                    (Some (UnexpectedUnit (dfUnitID decoded)))
             else (case ParseResponse (dfPDU decoded) of
                Inl e \<Rightarrow> runAttempts mode unitID frame timeout env (Suc i) n s2 tx1 (Some (Wire e))
              | Inr parsed \<Rightarrow>
                  Some (s2, tx1\<lparr>txResponsePDU := dfPDU decoded, txResponse := parsed,
                    txResponseFrameHex := FormatHex responseFrame\<rparr>, None))))"

text \<open>\<open>masterRequest\<close> returns the pointer to the transaction (nil is \<open>None\<close>) and the error.\<close>

definition runMasterRequest :: "attempt_env \<Rightarrow> modbusSession \<Rightarrow> masterRequest \<Rightarrow>
    (modbusSession \<times> modbusTransaction option \<times> session_error option) option" where
  "runMasterRequest env s req =
     (if mqUnitID req = 0 then Some (s, None, Some UnitIDInvalid)
      else if \<not> msPort s \<or> msStatus s = StatusClosed then Some (s, None, Some SessionIsClosed)
      else if msSlaveRunning s then Some (s, None, Some SlaveIsRunning)
      else
        let mode = normalizeFrameMode (orMode (msReq s));
            timeout = requestTimeout (mqTimeoutMs req) (orTimeoutMs (msReq s));
            retries = requestRetries (mqRetries req) (orRetries (msReq s));
            n = msNextTx s + 1;
            s1 = s\<lparr>msNextTx := n\<rparr>;
            tx = \<lparr>txID = mqSessionID req @ ''-tx-'' @ itoa n, txSessionID = mqSessionID req,
              txUnitID = mqUnitID req, txMode = mode, txRequestPDU = pduZero, txResponsePDU = pduZero,
              txRequestFrameHex = [], txResponseFrameHex = [], txBytesWritten = 0,
              txResponse = parsedZero, txError = None\<rparr> in
        case BuildMasterPDU req of
          Inl e \<Rightarrow> Some (s1, Some (tx\<lparr>txError := Some (Wire e)\<rparr>), Some (Wire e))
        | Inr p \<Rightarrow>
          (case EncodeFrame mode (mqUnitID req) p of
             Inl e \<Rightarrow> Some (s1, Some (tx\<lparr>txRequestPDU := p, txError := Some (Wire e)\<rparr>), Some (Wire e))
           | Inr frame \<Rightarrow>
             map_option (\<lambda>(s2, tx2, err). (s2, Some tx2, err))
               (runAttempts mode (mqUnitID req) frame timeout env 0 (Suc (nat retries)) s1
                 (tx\<lparr>txRequestPDU := p, txRequestFrameHex := FormatHex frame\<rparr>) None)))"

section \<open>The slave\<close>

record boolPoint =
  bpAddress :: u16
  bpValue :: bool

record registerPoint =
  rpAddress :: u16
  rpValue :: u16

record modelSnapshot =
  snCoils :: "boolPoint list"
  snDiscreteInputs :: "boolPoint list"
  snInputRegisters :: "registerPoint list"
  snHoldingRegisters :: "registerPoint list"

record slaveUnit =
  suUnitID :: byte
  suDataModel :: modelSnapshot

record startSlaveRequest =
  srqSessionID :: string
  srqUnitID :: byte
  srqDataModel :: modelSnapshot
  srqUnits :: "slaveUnit list"

definition putBools :: "boolPoint list \<Rightarrow> (u16 \<rightharpoonup> bool)" where
  "putBools ps = foldl (\<lambda>m p. m(bpAddress p \<mapsto> bpValue p)) Map.empty ps"

definition putRegisters :: "registerPoint list \<Rightarrow> (u16 \<rightharpoonup> u16)" where
  "putRegisters ps = foldl (\<lambda>m p. m(rpAddress p \<mapsto> rpValue p)) Map.empty ps"

definition DataModelFromSnapshot :: "modelSnapshot \<Rightarrow> dataModel" where
  "DataModelFromSnapshot sn = \<lparr>dmCoils = putBools (snCoils sn),
     dmDiscreteInputs = putBools (snDiscreteInputs sn),
     dmInputRegisters = putRegisters (snInputRegisters sn),
     dmHoldingRegisters = putRegisters (snHoldingRegisters sn)\<rparr>"

text \<open>
  The iteration order of a Go map is left open: the four lists are the orders in which the tables
  are visited, each key of a table once.
\<close>

definition SnapshotFromDataModel ::
    "u16 list \<Rightarrow> u16 list \<Rightarrow> u16 list \<Rightarrow> u16 list \<Rightarrow> dataModel \<Rightarrow> modelSnapshot" where
  "SnapshotFromDataModel cs ds is hs m =
     \<lparr>snCoils = map (\<lambda>a. \<lparr>bpAddress = a, bpValue = cell False (dmCoils m) a\<rparr>) cs,
      snDiscreteInputs = map (\<lambda>a. \<lparr>bpAddress = a, bpValue = cell False (dmDiscreteInputs m) a\<rparr>) ds,
      snInputRegisters = map (\<lambda>a. \<lparr>rpAddress = a, rpValue = cell 0 (dmInputRegisters m) a\<rparr>) is,
      snHoldingRegisters = map (\<lambda>a. \<lparr>rpAddress = a, rpValue = cell 0 (dmHoldingRegisters m) a\<rparr>) hs\<rparr>"

definition validateUnitID :: "byte \<Rightarrow> session_error option" where
  "validateUnitID u = (if u = 0 \<or> 247 < u then Some UnitIDInvalid else None)"

definition normalizeSlaveUnits :: "startSlaveRequest \<Rightarrow> session_error + (byte, dataModel) table" where
  "normalizeSlaveUnits req =
     (let source = (if srqUnits req = [] then [\<lparr>suUnitID = srqUnitID req, suDataModel = srqDataModel req\<rparr>]
                    else srqUnits req) in
      if list_ex (\<lambda>u. validateUnitID (suUnitID u) \<noteq> None) source then Inl UnitIDInvalid
      else let units = table_put_all suUnitID (\<lambda>u. DataModelFromSnapshot (suDataModel u)) source [] in
        if units = [] then Inl NoUnits else Inr units)"

definition startSlave :: "modbusSession \<Rightarrow> startSlaveRequest \<Rightarrow> modbusSession \<times> session_error option" where
  "startSlave s req =
     (case normalizeSlaveUnits req of Inl e \<Rightarrow> (s, Some e)
      | Inr units \<Rightarrow>
        if \<not> msPort s \<or> msStatus s = StatusClosed then (s, Some SessionIsClosed)
        else if msSlaveRunning s then (s, Some SlaveAlreadyRunning)
        else let first = firstUnitID units in
          (s\<lparr>msSlaveUnits := units, msSlaveUnitID := first,
             msModel := (case map_of units first of Some m \<Rightarrow> CloneModel (Some m) | None \<Rightarrow> msModel s),
             msSlaveRunning := True, msStatus := StatusRunning\<rparr>, None))"

definition setError :: "modbusSession \<Rightarrow> session_error \<Rightarrow> modbusSession" where
  "setError s e = s\<lparr>msStatus := StatusError, msLastError := Some e, msSlaveRunning := False\<rparr>"

definition setDataModel :: "modbusSession \<Rightarrow> dataModel \<Rightarrow> modbusSession" where
  "setDataModel s model =
     (let u = (if msSlaveUnitID s = 0 then 1 else msSlaveUnitID s); cloned = CloneModel (Some model) in
      s\<lparr>msSlaveUnitID := u, msSlaveUnits := table_put u cloned (msSlaveUnits s),
        msModel := CloneModel (Some cloned)\<rparr>)"

definition setUnitDataModel :: "modbusSession \<Rightarrow> byte \<Rightarrow> dataModel \<Rightarrow> modbusSession" where
  "setUnitDataModel s unitID model =
     (let cloned = CloneModel (Some model) in
      s\<lparr>msSlaveUnits := table_put unitID cloned (msSlaveUnits s),
        msModel := (if msSlaveUnitID s = unitID then CloneModel (Some cloned) else msModel s)\<rparr>)"

definition addSlaveUnit :: "modbusSession \<Rightarrow> slaveUnit \<Rightarrow> modbusSession \<times> session_error option" where
  "addSlaveUnit s u =
     (case validateUnitID (suUnitID u) of Some e \<Rightarrow> (s, Some e)
      | None \<Rightarrow>
        let model = DataModelFromSnapshot (suDataModel u);
            s1 = s\<lparr>msSlaveUnits := table_put (suUnitID u) model (msSlaveUnits s)\<rparr> in
        (if msSlaveUnitID s1 = 0 then s1\<lparr>msSlaveUnitID := suUnitID u, msModel := CloneModel (Some model)\<rparr>
         else s1, None))"

definition removeSlaveUnit :: "modbusSession \<Rightarrow> byte \<Rightarrow> modbusSession \<times> session_error option" where
  "removeSlaveUnit s unitID =
     (case validateUnitID unitID of Some e \<Rightarrow> (s, Some e)
      | None \<Rightarrow>
        let units = table_del unitID (msSlaveUnits s); s1 = s\<lparr>msSlaveUnits := units\<rparr> in
        (if msSlaveUnitID s1 = unitID then
           let first = firstUnitID units in
           s1\<lparr>msSlaveUnitID := first,
              msModel := (case map_of units first of Some m \<Rightarrow> CloneModel (Some m) | None \<Rightarrow> NewDataModel)\<rparr>
         else s1, None))"

definition updateSlaveUnitData :: "modbusSession \<Rightarrow> byte \<Rightarrow> modelSnapshot \<Rightarrow>
    modbusSession \<times> session_error option" where
  "updateSlaveUnitData s unitID sn =
     (case validateUnitID unitID of Some e \<Rightarrow> (s, Some e)
      | None \<Rightarrow>
        let model = DataModelFromSnapshot sn in
        (s\<lparr>msSlaveUnits := table_put unitID model (msSlaveUnits s),
           msModel := (if msSlaveUnitID s = unitID then CloneModel (Some model) else msModel s)\<rparr>, None))"

text \<open>
  One round of \<open>slaveLoop\<close>: the events of the read, whether the stop channel is closed when an
  error is looked at, and the outcome of the write.
\<close>

record slaveRoundEnv =
  rdScript :: "readEvent list"
  rdStopped :: bool
  rdWrite :: writeEvent

text \<open>\<open>strings.Contains(err.Error(), "timeout")\<close> over the errors a read can return.\<close>

definition mentionsTimeout :: "session_error \<Rightarrow> bool" where
  "mentionsTimeout e = (case e of ResponseTimeout \<Rightarrow> True
     | ReadFailed msg \<Rightarrow> contains msg ''timeout'' | _ \<Rightarrow> False)"

definition slaveReply :: "modbusSession \<Rightarrow> decodedFrame \<Rightarrow> slaveResponse \<times> modbusSession" where
  "slaveReply s decoded =
     (case map_of (msSlaveUnits s) (dfUnitID decoded) of
        Some m \<Rightarrow> (case BuildSlaveResponse (dfUnitID decoded) (dfPDU decoded) (Some (CloneModel (Some m))) of
           (r, Some m') \<Rightarrow> (r, setUnitDataModel s (dfUnitID decoded) m')
         | (r, None) \<Rightarrow> (r, s))
      | None \<Rightarrow> (exceptionResponse (pduFunction (dfPDU decoded)) ExceptionServerFailure, s))"

definition slaveRound :: "frame_mode \<Rightarrow> modbusSession \<Rightarrow> slaveRoundEnv \<Rightarrow>
    (modbusSession \<times> loop_state) option" where
  "slaveRound mode s rd =
     (case readFrame mode True s [] (rdScript rd) of
        None \<Rightarrow> None
      | Some (s1, Inl e) \<Rightarrow>
          if rdStopped rd \<or> e = ReadStopped then Some (s1, Exited)
          else if mentionsTimeout e then Some (s1, Looping)
          else Some (setError s1 e, Exited)
      | Some (s1, Inr (_, decoded)) \<Rightarrow>
          (let (response, s2) = slaveReply s1 decoded in
           case EncodeFrame mode (dfUnitID decoded) (srPDU response) of
             Inl e \<Rightarrow> Some (setError s2 (Wire e), Exited)
           | Inr responseFrame \<Rightarrow>
               (case sessionWrite s2 responseFrame (rdWrite rd) of
                  (s3, _, Some e) \<Rightarrow> Some (setError s3 e, Exited)
                | (s3, _, None) \<Rightarrow> Some (s3, Looping))))"

fun slaveLoop :: "frame_mode \<Rightarrow> modbusSession \<Rightarrow> slaveRoundEnv list \<Rightarrow>
    (modbusSession \<times> loop_state) option" where
  "slaveLoop mode s [] = Some (s, Looping)"
| "slaveLoop mode s (rd # rds) =
     (case slaveRound mode s rd of
        Some (s', Looping) \<Rightarrow> slaveLoop mode s' rds
      | r \<Rightarrow> r)"

section \<open>Scans\<close>

record unitScanRequest =
  usSessionID :: string
  usUnitIDs :: "int list"
  usFunction :: function_code
  usAddressMode :: string
  usAddress :: u16
  usQuantity :: u16
  usTimeoutMs :: int
  usRetries :: int

record unitScanEntry =
  ueUnitID :: byte
  ueActive :: bool
  ueError :: "session_error option"

record unitScanResult =
  urSessionID :: string
  urActiveUnitIDs :: "int list"
  urResults :: "unitScanEntry list"

definition unitIDByte :: "int \<Rightarrow> session_error + byte" where
  "unitIDByte u = (if u < 1 \<or> 247 < u then Inl UnitIDInvalid else Inr (word_of_int u))"

definition probeRequest :: "unitScanRequest \<Rightarrow> byte \<Rightarrow> masterRequest" where
  "probeRequest req u = \<lparr>mqSessionID = usSessionID req, mqUnitID = u, mqFunction = usFunction req,
     mqAddressMode = usAddressMode req, mqAddress = usAddress req, mqQuantity = usQuantity req,
     mqValue = 0, mqCoilValues = [], mqRegisterValues = [],
     mqTimeoutMs = usTimeoutMs req, mqRetries = usRetries req\<rparr>"

fun scanUnits :: "(nat \<Rightarrow> attempt_env) \<Rightarrow> nat \<Rightarrow> unitScanRequest \<Rightarrow> modbusSession \<Rightarrow> unitScanResult \<Rightarrow>
    int list \<Rightarrow> (modbusSession \<times> unitScanResult) option" where
  "scanUnits envs i req s res [] = Some (s, res)"
| "scanUnits envs i req s res (raw # raws) =
     (case unitIDByte raw of
        Inl e \<Rightarrow> scanUnits envs (Suc i) req s
          (res\<lparr>urResults := urResults res @ [\<lparr>ueUnitID = word_of_int raw, ueActive = False, ueError = Some e\<rparr>]\<rparr>) raws
      | Inr u \<Rightarrow>
        (case runMasterRequest (envs i) s (probeRequest req u) of
           None \<Rightarrow> None
         | Some (s1, _, Some e) \<Rightarrow> scanUnits envs (Suc i) req s1
             (res\<lparr>urResults := urResults res @ [\<lparr>ueUnitID = u, ueActive = False, ueError = Some e\<rparr>]\<rparr>) raws
         | Some (s1, tx, None) \<Rightarrow>
             (let active = (case tx of None \<Rightarrow> False | Some t \<Rightarrow> prFunction (txResponse t) \<noteq> 0) in
              scanUnits envs (Suc i) req s1
                (res\<lparr>urActiveUnitIDs := (if active then urActiveUnitIDs res @ [uint u] else urActiveUnitIDs res),
                     urResults := urResults res @ [\<lparr>ueUnitID = u, ueActive = active, ueError = None\<rparr>]\<rparr>) raws)))"

definition scanUnitIDs :: "(nat \<Rightarrow> attempt_env) \<Rightarrow> modbusSession \<Rightarrow> unitScanRequest \<Rightarrow>
    (modbusSession \<times> unitScanResult) option" where
  "scanUnitIDs envs s req =
     (let req1 = req\<lparr>usUnitIDs := (if usUnitIDs req = [] then [1..247] else usUnitIDs req),
            usFunction := (if usFunction req = 0 then FunctionReadHoldingRegisters else usFunction req),
            usQuantity := (if usQuantity req = 0 then 1 else usQuantity req)\<rparr> in
      scanUnits envs 0 req1 s \<lparr>urSessionID = usSessionID req, urActiveUnitIDs = [], urResults = []\<rparr>
        (usUnitIDs req1))"

record registerReadRequest =
  rqSessionID :: string
  rqUnitID :: byte
  rqFunction :: function_code
  rqAddressMode :: string
  rqAddress :: u16
  rqQuantity :: u16
  rqTimeoutMs :: int
  rqRetries :: int

record registerReadResult =
  rrTransaction :: "modbusTransaction option"
  rrRawRegisters :: "u16 list"
  rrBits :: "bool list"

text \<open>\<open>readRegisters\<close> up to the decoding of the configured mappings, which \<open>ModbusMapping\<close> adds.\<close>

definition readRegisters :: "attempt_env \<Rightarrow> modbusSession \<Rightarrow> registerReadRequest \<Rightarrow>
    (modbusSession \<times> (session_error + registerReadResult)) option" where
  "readRegisters env s req =
     (let f = (if rqFunction req = 0 then FunctionReadHoldingRegisters else rqFunction req);
          q = (if rqQuantity req = 0 then 1 else rqQuantity req) in
      case runMasterRequest env s \<lparr>mqSessionID = rqSessionID req, mqUnitID = rqUnitID req, mqFunction = f,
             mqAddressMode = rqAddressMode req, mqAddress = rqAddress req, mqQuantity = q,
             mqValue = 0, mqCoilValues = [], mqRegisterValues = [],
             mqTimeoutMs = rqTimeoutMs req, mqRetries = rqRetries req\<rparr> of
        None \<Rightarrow> None
      | Some (s1, _, Some e) \<Rightarrow> Some (s1, Inl e)
      | Some (s1, None, None) \<Rightarrow> None
      | Some (s1, Some tx, None) \<Rightarrow>
          Some (s1, Inr (if prException (txResponse tx)
            then \<lparr>rrTransaction = Some tx, rrRawRegisters = [], rrBits = []\<rparr>
            else \<lparr>rrTransaction = Some tx, rrRawRegisters = prValues (txResponse tx),
                  rrBits = prBits (txResponse tx)\<rparr>)))"

record registerScanRequest =
  rsSessionID :: string
  rsUnitID :: byte
  rsFunction :: function_code
  rsAddressMode :: string
  rsStart :: u16
  rsEnd :: u16
  rsChunkSize :: u16
  rsTimeoutMs :: int
  rsRetries :: int

record registerScanRange =
  rgAddress :: u16
  rgQuantity :: u16
  rgError :: "session_error option"

record registerScanResult =
  rtSessionID :: string
  rtUnitID :: byte
  rtValues :: "(u16 \<times> u16) list"
  rtRanges :: "registerScanRange list"

definition nonZeroValues :: "u16 \<Rightarrow> u16 list \<Rightarrow> (u16 \<times> u16) list" where
  "nonZeroValues address vs = filter (\<lambda>(_, v). v \<noteq> 0) (map (\<lambda>(i, v). (address + of_nat i, v)) (enumerate 0 vs))"

text \<open>The remaining addresses are counted in 32 bits, everything else in 16.\<close>

definition chunkQuantity :: "u16 \<Rightarrow> u16 \<Rightarrow> u16 \<Rightarrow> u16" where
  "chunkQuantity chunk end address =
     (let remaining = (ucast end :: u32) - ucast address + 1 in
      if remaining < ucast chunk then ucast remaining else chunk)"

definition chunkRead :: "registerScanRequest \<Rightarrow> u16 \<Rightarrow> u16 \<Rightarrow> registerReadRequest" where
  "chunkRead req address quantity = \<lparr>rqSessionID = rsSessionID req, rqUnitID = rsUnitID req,
     rqFunction = rsFunction req, rqAddressMode = rsAddressMode req, rqAddress = address,
     rqQuantity = quantity, rqTimeoutMs = rsTimeoutMs req, rqRetries = rsRetries req\<rparr>"

definition addRange :: "u16 \<Rightarrow> u16 \<Rightarrow> session_error + registerReadResult \<Rightarrow> registerScanResult \<Rightarrow>
    registerScanResult" where
  "addRange address quantity read res =
     (case read of
        Inl e \<Rightarrow> res\<lparr>rtRanges := rtRanges res @ [\<lparr>rgAddress = address, rgQuantity = quantity, rgError = Some e\<rparr>]\<rparr>
      | Inr r \<Rightarrow> res\<lparr>rtRanges := rtRanges res @ [\<lparr>rgAddress = address, rgQuantity = quantity, rgError = None\<rparr>],
                   rtValues := rtValues res @ nonZeroValues address (rrRawRegisters r)\<rparr>)"

text \<open>The loop may not end in general: \<open>None\<close> also stands for that.\<close>

partial_function (option) scanChunks :: "(nat \<Rightarrow> attempt_env) \<Rightarrow> nat \<Rightarrow> registerScanRequest \<Rightarrow> u16 \<Rightarrow> u16 \<Rightarrow>
    modbusSession \<Rightarrow> registerScanResult \<Rightarrow> (modbusSession \<times> registerScanResult) option" where
  "scanChunks envs i req chunk address s res =
     (let quantity = chunkQuantity chunk (rsEnd req) address in
      case readRegisters (envs i) s (chunkRead req address quantity) of
        None \<Rightarrow> None
      | Some (s1, read) \<Rightarrow>
          let res1 = addRange address quantity read res in
          if address + quantity = 0 \<or> rsEnd req < address + quantity then Some (s1, res1)
          else scanChunks envs (Suc i) req chunk (address + quantity) s1 res1)"

declare scanChunks.simps [code]

definition scanRegisters :: "(nat \<Rightarrow> attempt_env) \<Rightarrow> modbusSession \<Rightarrow> registerScanRequest \<Rightarrow>
    (modbusSession \<times> (session_error + registerScanResult)) option" where
  "scanRegisters envs s req =
     (let req1 = req\<lparr>rsFunction := (if rsFunction req = 0 then FunctionReadHoldingRegisters else rsFunction req)\<rparr> in
      if rsFunction req1 \<noteq> FunctionReadHoldingRegisters \<and> rsFunction req1 \<noteq> FunctionReadInputRegisters
      then Some (s, Inl ScanNeedsRegisters)
      else if rsEnd req1 < rsStart req1 then Some (s, Inl ScanRangeReversed)
      else let chunk = (if rsChunkSize req1 = 0 then 16 else if 125 < rsChunkSize req1 then 125 else rsChunkSize req1) in
        map_option (\<lambda>(s1, res). (s1, Inr res))
          (scanChunks envs 0 req1 chunk (rsStart req1) s
             \<lparr>rtSessionID = rsSessionID req, rtUnitID = rsUnitID req, rtValues = [], rtRanges = []\<rparr>))"

section \<open>The manager's entry points\<close>

definition putSession :: "modbusManager \<Rightarrow> string \<Rightarrow> modbusSession \<Rightarrow> modbusManager" where
  "putSession m sid s = m\<lparr>mmSessions := table_put sid s (mmSessions m)\<rparr>"

definition MasterRequestOn :: "attempt_env \<Rightarrow> modbusManager \<Rightarrow> masterRequest \<Rightarrow>
    (modbusManager \<times> modbusTransaction option \<times> session_error option) option" where
  "MasterRequestOn env m req =
     (case getSession m (mqSessionID req) of Inl e \<Rightarrow> Some (m, None, Some e)
      | Inr s \<Rightarrow> map_option (\<lambda>(s1, r). (putSession m (mqSessionID req) s1, r)) (runMasterRequest env s req))"

definition StartSlaveOn :: "modbusManager \<Rightarrow> startSlaveRequest \<Rightarrow> modbusManager \<times> (session_error + sessionInfo)" where
  "StartSlaveOn m req =
     (case getSession m (srqSessionID req) of Inl e \<Rightarrow> (m, Inl e)
      | Inr s \<Rightarrow> (case startSlave s req of
          (s1, Some e) \<Rightarrow> (putSession m (srqSessionID req) s1, Inl e)
        | (s1, None) \<Rightarrow> (putSession m (srqSessionID req) s1, Inr (modbusInfo s1))))"

definition onSession :: "modbusManager \<Rightarrow> string \<Rightarrow> (modbusSession \<Rightarrow> modbusSession \<times> session_error option) \<Rightarrow>
    modbusManager \<times> session_error option" where
  "onSession m sid f =
     (case getSession m sid of Inl e \<Rightarrow> (m, Some e)
      | Inr s \<Rightarrow> (let (s1, err) = f s in (putSession m sid s1, err)))"

definition StopSlaveOn :: "bool \<Rightarrow> modbusManager \<Rightarrow> string \<Rightarrow> modbusManager \<times> session_error option" where
  "StopSlaveOn timely m sid = onSession m sid (stopSlave timely)"

definition UpdateSlaveData :: "modbusManager \<Rightarrow> string \<Rightarrow> modelSnapshot \<Rightarrow> modbusManager \<times> session_error option" where
  "UpdateSlaveData m sid sn = onSession m sid (\<lambda>s. (setDataModel s (DataModelFromSnapshot sn), None))"

definition AddSlaveUnit :: "modbusManager \<Rightarrow> string \<Rightarrow> slaveUnit \<Rightarrow> modbusManager \<times> session_error option" where
  "AddSlaveUnit m sid u = onSession m sid (\<lambda>s. addSlaveUnit s u)"

definition RemoveSlaveUnit :: "modbusManager \<Rightarrow> string \<Rightarrow> byte \<Rightarrow> modbusManager \<times> session_error option" where
  "RemoveSlaveUnit m sid u = onSession m sid (\<lambda>s. removeSlaveUnit s u)"

definition UpdateSlaveUnitData :: "modbusManager \<Rightarrow> string \<Rightarrow> byte \<Rightarrow> modelSnapshot \<Rightarrow>
    modbusManager \<times> session_error option" where
  "UpdateSlaveUnitData m sid u sn = onSession m sid (\<lambda>s. updateSlaveUnitData s u sn)"

text \<open>
  The critical sections of the manager and of its sessions that touch the status of a session.
  Concurrent calls interleave them in any order.
\<close>

datatype modbusSection =
    CommitOpen openRequest | DropSession string | DropAll | BeginSlave startSlaveRequest
  | EndSlave string | FailSlave string session_error

definition runSection :: "modbusSection \<Rightarrow> modbusManager \<Rightarrow> modbusManager" where
  "runSection op m = (case op of
     CommitOpen req \<Rightarrow> fst (openCommit m req)
   | DropSession sid \<Rightarrow> fst (CloseSession True None m sid)
   | DropAll \<Rightarrow> CloseAll m
   | BeginSlave req \<Rightarrow> fst (StartSlaveOn m req)
   | EndSlave sid \<Rightarrow> fst (StopSlaveOn True m sid)
   | FailSlave sid e \<Rightarrow> fst (onSession m sid (\<lambda>s. (setError s e, None))))"

definition portOf :: "modbusManager \<Rightarrow> string \<Rightarrow> string option" where
  "portOf m sid = (case map_of (mmSessions m) sid of None \<Rightarrow> None
     | Some s \<Rightarrow> if msStatus s = StatusClosed then None else Some (scPortName (orConfig (msReq s))))"

end
