(* ===== verification/FecbusSession.thy ===== *)
theory FecbusSession
  imports FecbusProtocol GoMaps SerialPort
begin

text \<open>
  The sessions of package \<open>fecbus\<close> (\<open>internal/modules/serial/fecbus/session.go\<close>): the manager, the
  master's transactions, the simulated devices and the history of frames. The conventions are those
  of theory \<open>ModbusSession\<close>: no timestamps, the port as a script of outcomes, \<open>None\<close> for a call that
  has not returned. The annotation of records (\<open>annotation.go\<close>) is not part of the model.
\<close>

section \<open>State\<close>

datatype fec_session_error =
    FCtxDone string | FPortNameEmpty | FSessionExists | FPortInUse | FOpenFailed string string
  | FSessionNotFound | FSessionIDEmpty | FSessionClosed | FSlaveRunning | FSlaveAlreadyRunning
  | FStopTimeout | FReadStopped | FResponseTimeout | FFrameTooLong | FReadFailed string
  | FWriteFailed string | FCloseFailed string | FUnexpectedAnswer | FTransactionFailed
  | FAddressRange | FUnitNotFound | FFrame fec_error | FDataHex fec_error

definition fecOpen :: string where [state_simps]: "fecOpen = ''open''"
definition fecClosed :: string where [state_simps]: "fecClosed = ''closed''"
definition fecErrorStatus :: string where [state_simps]: "fecErrorStatus = ''error''"
definition fecRunning :: string where [state_simps]: "fecRunning = ''running''"
definition fecRoleMaster :: string where [state_simps]: "fecRoleMaster = ''master''"
definition fecRoleSlave :: string where [state_simps]: "fecRoleSlave = ''slave''"

record fecOpenRequest =
  foID :: string
  foName :: string
  foRole :: string
  foConfig :: serialConfig
  foEndpoint :: string
  foTimeoutMs :: int
  foRetries :: int

text \<open>A nil map of payloads and an empty one behave alike and are both \<open>[]\<close>.\<close>

record fecUnit =
  fuAddress :: byte
  fuDefaultStatus :: byte
  fuAutoStatusAnswer :: bool
  fuAcceptBroadcast :: bool
  fuPayloads :: "(byte, bytes) table"

record fecUnitInfo =
  fiuAddress :: byte
  fiuDefaultStatus :: byte
  fiuAutoStatusAnswer :: bool
  fiuAcceptBroadcast :: bool

record frameRecord =
  frSeq :: int
  frSessionID :: string
  frDirection :: string
  frFrame :: fecFrame
  frHex :: string
  frError :: string

record fecSession =
  fsReq :: fecOpenRequest
  fsPort :: bool
  fsSent :: "bytes list"
  fsStatus :: string
  fsLastError :: "fec_session_error option"
  fsRxBytes :: int
  fsTxBytes :: int
  fsSlaveRunning :: bool
  fsSlaveUnits :: "(byte, fecUnit) table"
  fsHistory :: "frameRecord list"
  fsNextSeq :: int
  fsNextTx :: int

record fecManager =
  fmSessions :: "(string, fecSession) table"
  fmNextID :: int

record fecSessionInfo =
  fiID :: string
  fiSessionName :: string
  fiRole :: string
  fiConfig :: serialConfig
  fiStatus :: string
  fiRxBytes :: int
  fiTxBytes :: int
  fiSlaveRunning :: bool
  fiSourceAddress :: byte
  fiTargetAddress :: byte
  fiSlaveUnits :: "fecUnitInfo list"
  fiLastError :: "fec_session_error option"

definition NewFecManager :: fecManager where
  "NewFecManager = \<lparr>fmSessions = [], fmNextID = 0\<rparr>"

definition newFecSession :: "fecOpenRequest \<Rightarrow> fecSession" where
  "newFecSession req = \<lparr>fsReq = req, fsPort = True, fsSent = [], fsStatus = fecOpen, fsLastError = None,
     fsRxBytes = 0, fsTxBytes = 0, fsSlaveRunning = False,
     fsSlaveUnits = [(2, \<lparr>fuAddress = 2, fuDefaultStatus = StatusReceivedOK, fuAutoStatusAnswer = True,
       fuAcceptBroadcast = True, fuPayloads = []\<rparr>)],
     fsHistory = [], fsNextSeq = 0, fsNextTx = 0\<rparr>"

definition normalizeFecRole :: "string \<Rightarrow> string" where
  "normalizeFecRole role = (if role = fecRoleSlave then fecRoleSlave else fecRoleMaster)"

definition defaultSourceAddress :: "string \<Rightarrow> byte" where
  "defaultSourceAddress role = (if normalizeFecRole role = fecRoleSlave then 2 else 1)"

definition sortedSlaveAddresses :: "(byte, fecUnit) table \<Rightarrow> int list" where
  "sortedSlaveAddresses units = sort (map (\<lambda>(a, _). uint a) units)"

definition defaultTargetAddress :: "(byte, fecUnit) table \<Rightarrow> byte" where
  "defaultTargetAddress units = (case sortedSlaveAddresses units of [] \<Rightarrow> 2 | a # _ \<Rightarrow> word_of_int a)"

text \<open>A lookup of an absent key would yield the zero unit.\<close>

definition unitZero :: fecUnit where
  "unitZero = \<lparr>fuAddress = 0, fuDefaultStatus = 0, fuAutoStatusAnswer = False, fuAcceptBroadcast = False,
     fuPayloads = []\<rparr>"

definition unitAt :: "(byte, fecUnit) table \<Rightarrow> int \<Rightarrow> fecUnit" where
  "unitAt units a = (case map_of units (word_of_int a) of None \<Rightarrow> unitZero | Some u \<Rightarrow> u)"

definition slaveUnitInfos :: "(byte, fecUnit) table \<Rightarrow> fecUnitInfo list" where
  "slaveUnitInfos units = map (\<lambda>a. let u = unitAt units a in
     \<lparr>fiuAddress = fuAddress u, fiuDefaultStatus = fuDefaultStatus u,
      fiuAutoStatusAnswer = fuAutoStatusAnswer u, fiuAcceptBroadcast = fuAcceptBroadcast u\<rparr>)
     (sortedSlaveAddresses units)"

definition fecInfo :: "fecSession \<Rightarrow> fecSessionInfo" where
  "fecInfo s = \<lparr>fiID = foID (fsReq s), fiSessionName = foName (fsReq s), fiRole = normalizeFecRole (foRole (fsReq s)),
     fiConfig = foConfig (fsReq s), fiStatus = fsStatus s, fiRxBytes = fsRxBytes s, fiTxBytes = fsTxBytes s,
     fiSlaveRunning = fsSlaveRunning s, fiSourceAddress = defaultSourceAddress (foRole (fsReq s)),
     fiTargetAddress = defaultTargetAddress (fsSlaveUnits s), fiSlaveUnits = slaveUnitInfos (fsSlaveUnits s),
     fiLastError = fsLastError s\<rparr>"

section \<open>Opening and closing sessions\<close>

definition fecPortInUse :: "fecManager \<Rightarrow> string \<Rightarrow> bool" where
  "fecPortInUse m portName = list_ex (\<lambda>(_, s). let info = fecInfo s in
     fiStatus info \<noteq> fecClosed \<and> scPortName (fiConfig info) = portName) (fmSessions m)"

definition fillFecRequest :: "fecManager \<Rightarrow> fecOpenRequest \<Rightarrow> fecManager \<times> fecOpenRequest" where
  "fillFecRequest m req =
     (let fresh = foID req = []; n = fmNextID m + 1 in
      (if fresh then m\<lparr>fmNextID := n\<rparr> else m,
       req\<lparr>foID := (if fresh then ''fecbus-'' @ itoa n else foID req),
           foName := (if foName req = [] then ''FECbus '' @ scPortName (foConfig req) else foName req),
           foRole := normalizeFecRole (foRole req),
           foConfig := fillConfig 9600 (foConfig req)\<rparr>))"

definition fecOpenCheck :: "fecManager \<Rightarrow> fecOpenRequest \<Rightarrow> fec_session_error option" where
  "fecOpenCheck m req =
     (if map_of (fmSessions m) (foID req) \<noteq> None then Some FSessionExists
      else if fecPortInUse m (scPortName (foConfig req)) then Some FPortInUse
      else None)"

definition fecOpenCommit :: "fecManager \<Rightarrow> fecOpenRequest \<Rightarrow> fecManager \<times> (fec_session_error + fecSessionInfo)" where
  "fecOpenCommit m req =
     (case fecOpenCheck m req of Some e \<Rightarrow> (m, Inl e)
      | None \<Rightarrow> (m\<lparr>fmSessions := table_put (foID req) (newFecSession req) (fmSessions m)\<rparr>,
                 Inr (fecInfo (newFecSession req))))"

definition FecOpenSession :: "string option \<Rightarrow> openEvent \<Rightarrow> fecManager \<Rightarrow> fecOpenRequest \<Rightarrow>
    fecManager \<times> (fec_session_error + fecSessionInfo)" where
  "FecOpenSession ctxErr opened m req =
     (case ctxErr of Some e \<Rightarrow> (m, Inl (FCtxDone e))
      | None \<Rightarrow>
        if scPortName (foConfig req) = [] then (m, Inl FPortNameEmpty)
        else let (m1, req1) = fillFecRequest m req in
          case fecOpenCheck m1 req1 of Some e \<Rightarrow> (m1, Inl e)
          | None \<Rightarrow> (case opened of
              Some e \<Rightarrow> (m1, Inl (FOpenFailed (scPortName (foConfig req1)) e))
            | None \<Rightarrow> fecOpenCommit m1 req1))"

definition fecStopSlave :: "bool \<Rightarrow> fecSession \<Rightarrow> fecSession \<times> fec_session_error option" where
  "fecStopSlave timely s =
     (if \<not> fsSlaveRunning s then (s, None)
      else (s\<lparr>fsSlaveRunning := False, fsStatus := fecOpen\<rparr>, if timely then None else Some FStopTimeout))"

definition fecCloseSession :: "bool \<Rightarrow> string option \<Rightarrow> fec_session_error option \<Rightarrow> fecSession \<Rightarrow>
    fecSession \<times> fec_session_error option" where
  "fecCloseSession timely closed reason s =
     (let s1 = fst (fecStopSlave timely s);
          s2 = (case reason of Some r \<Rightarrow> s1\<lparr>fsStatus := fecErrorStatus, fsLastError := Some r\<rparr>
                | None \<Rightarrow> s1\<lparr>fsStatus := fecClosed\<rparr>) in
      (s2\<lparr>fsPort := False\<rparr>, if fsPort s2 then map_option FCloseFailed closed else None))"

definition FecCloseSession :: "bool \<Rightarrow> string option \<Rightarrow> fecManager \<Rightarrow> string \<Rightarrow>
    fecManager \<times> fec_session_error option" where
  "FecCloseSession timely closed m sid =
     (case map_of (fmSessions m) sid of None \<Rightarrow> (m, Some FSessionNotFound)
      | Some s \<Rightarrow> (m\<lparr>fmSessions := table_del sid (fmSessions m)\<rparr>,
                   snd (fecCloseSession timely closed None s)))"

definition FecCloseAll :: "fecManager \<Rightarrow> fecManager" where
  "FecCloseAll m = m\<lparr>fmSessions := []\<rparr>"

definition FecList :: "fecManager \<Rightarrow> fecSessionInfo list" where
  "FecList m = sort_key fiID (map (\<lambda>(_, s). fecInfo s) (fmSessions m))"

definition fecGet :: "fecManager \<Rightarrow> string \<Rightarrow> fec_session_error + fecSession" where
  "fecGet m sid =
     (if sid = [] then Inl FSessionIDEmpty
      else case map_of (fmSessions m) sid of None \<Rightarrow> Inl FSessionNotFound | Some s \<Rightarrow> Inr s)"

section \<open>The history of frames\<close>

definition maxHistory :: nat where "maxHistory = 4096"

text \<open>The message of an error, as a record keeps it.\<close>

definition fecErrorText :: "fec_error \<Rightarrow> string" where
  "fecErrorText e = (case e of
     FrameTypeInvalid \<Rightarrow> ''fecbus frame type must be 0 or 1''
   | TargetInvalid \<Rightarrow> ''fecbus target address must be 0-63''
   | PriorityInvalid \<Rightarrow> ''fecbus priority must be 0-3''
   | SourceInvalid \<Rightarrow> ''fecbus source address must be 1-63''
   | MessageInvalid \<Rightarrow> ''fecbus message number must be 1-63''
   | GroupInvalid \<Rightarrow> ''fecbus group number must be 0-127''
   | DataLengthInvalid \<Rightarrow> ''fecbus data length must be 1-8''
   | FunctionReserved c \<Rightarrow> ''fecbus function code '' @ itoa (uint c) @ '' is reserved''
   | FecFrameTooShort \<Rightarrow> ''fecbus frame too short''
   | StartDelimiter \<Rightarrow> ''fecbus frame must start with 0x7e''
   | EndDelimiter \<Rightarrow> ''fecbus frame must end with 0x7e''
   | DataLengthMismatch \<Rightarrow> ''fecbus data length mismatch''
   | FecCrcMismatch \<Rightarrow> ''fecbus crc mismatch''
   | PayloadTooLong \<Rightarrow> ''fecbus function payload must be 0-7 bytes''
   | HexInvalid s \<Rightarrow> ''encoding/hex: '' @ s)"

definition truncateHistory :: "'a list \<Rightarrow> 'a list" where
  "truncateHistory h = (if maxHistory < length h then drop (length h - maxHistory) h else h)"

definition appendRecord :: "frameRecord \<Rightarrow> fecSession \<Rightarrow> fecSession" where
  "appendRecord r s = s\<lparr>fsHistory := truncateHistory (fsHistory s @ [r])\<rparr>"

definition recordFrame :: "fecSession \<Rightarrow> string \<Rightarrow> fecFrame \<Rightarrow> bytes \<Rightarrow> string \<Rightarrow> fecSession" where
  "recordFrame s direction frame raw message =
     (let frame1 = (if raw \<noteq> [] \<and> ffRaw frame = [] then frame\<lparr>ffRaw := raw\<rparr> else frame);
          n = fsNextSeq s + 1 in
      appendRecord \<lparr>frSeq = n, frSessionID = foID (fsReq s), frDirection = direction, frFrame = frame1,
        frHex = FecFormatHex raw, frError = message\<rparr> (s\<lparr>fsNextSeq := n\<rparr>))"

definition clearFrames :: "fecSession \<Rightarrow> fecSession" where
  "clearFrames s = s\<lparr>fsHistory := [], fsRxBytes := 0, fsTxBytes := 0\<rparr>"

record fecQuery =
  fqSessionID :: string
  fqOffset :: int
  fqLimit :: int
  fqDirection :: string
  fqSearch :: string

record framePage =
  fpFrames :: "frameRecord list"
  fpOffset :: int
  fpLimit :: int
  fpTotal :: int
  fpEOF :: bool

definition recordHaystack :: "frameRecord \<Rightarrow> string" where
  "recordHaystack r = (let f = frameFunction (frFrame r) in
     to_lower (frHex r @ '' '' @ frError r @ '' '' @ itoa (uint f) @ '' '' @ fiName (LookupFunction f)))"

definition recordMatches :: "fecQuery \<Rightarrow> frameRecord \<Rightarrow> bool" where
  "recordMatches req r =
     (let search = to_lower (trim_space (fqSearch req)) in
      \<not> (fqDirection req \<noteq> [] \<and> frDirection r \<noteq> fqDirection req)
      \<and> \<not> (search \<noteq> [] \<and> \<not> contains (recordHaystack r) search))"

definition queryFrames :: "fecSession \<Rightarrow> fecQuery \<Rightarrow> framePage" where
  "queryFrames s req =
     (let filtered = filter (recordMatches req) (fsHistory s);
          total = int (length filtered);
          offset = (if fqOffset req < 0 then 0 else fqOffset req);
          limit = (if fqLimit req \<le> 0 \<or> 500 < fqLimit req then 200 else fqLimit req) in
      if total \<le> offset then
        \<lparr>fpFrames = [], fpOffset = offset, fpLimit = limit, fpTotal = total, fpEOF = True\<rparr>
      else
        let end = (if total < offset + limit then total else offset + limit) in
        \<lparr>fpFrames = take (nat (end - offset)) (drop (nat offset) filtered),
         fpOffset = offset, fpLimit = limit, fpTotal = total, fpEOF = (total \<le> end)\<rparr>)"

section \<open>Reading and writing frames\<close>

definition fecWrite :: "fecSession \<Rightarrow> bytes \<Rightarrow> writeEvent \<Rightarrow> fecSession \<times> int \<times> fec_session_error option" where
  "fecWrite s data ev =
     (if \<not> fsPort s then (s, 0, Some FSessionClosed)
      else case ev of Wrote n err \<Rightarrow>
        (let s1 = s\<lparr>fsSent := fsSent s @ [data]\<rparr> in
         if 0 < n then s1\<lparr>fsTxBytes := fsTxBytes s1 + n\<rparr> else s1, n, map_option FWriteFailed err))"

definition fecMaxFrameBytes :: nat where "fecMaxFrameBytes = 256"

text \<open>What a chunk makes of the buffer: the result of the loop, or the buffer to go on with.\<close>

definition fecTakeChunk :: "bytes \<Rightarrow> (fec_session_error + bytes \<times> fecFrame) + bytes" where
  "fecTakeChunk buf =
     (if fecMaxFrameBytes < length buf then Inl (Inl FFrameTooLong)
      else case ExtractFrame buf of
        ShortCandidate rest \<Rightarrow> Inr rest
      | Incomplete _ \<Rightarrow> Inr buf
      | Extracted raw rest \<Rightarrow>
          (case FecDecodeFrame raw of Inl _ \<Rightarrow> Inr rest | Inr f \<Rightarrow> Inl (Inr (raw, f))))"

fun fecReadFrame :: "bool \<Rightarrow> fecSession \<Rightarrow> bytes \<Rightarrow> readEvent list \<Rightarrow>
    (fecSession \<times> (fec_session_error + bytes \<times> fecFrame)) option" where
  "fecReadFrame stoppable s buf [] = None"
| "fecReadFrame stoppable s buf (StopClosed # es) =
     (if stoppable then Some (s, Inl FReadStopped) else fecReadFrame stoppable s buf es)"
| "fecReadFrame stoppable s buf (DeadlinePassed # es) = Some (s, Inl FResponseTimeout)"
| "fecReadFrame stoppable s buf (PortGone # es) = Some (s, Inl FSessionClosed)"
| "fecReadFrame stoppable s buf (ReadError msg # es) =
     (if \<not> fsPort s then Some (s, Inl FSessionClosed) else Some (s, Inl (FReadFailed msg)))"
| "fecReadFrame stoppable s buf (ReadChunk bs # es) =
     (if \<not> fsPort s then Some (s, Inl FSessionClosed)
      else if bs = [] then fecReadFrame stoppable s buf es
      else let s1 = s\<lparr>fsRxBytes := fsRxBytes s + int (length bs)\<rparr> in
        case fecTakeChunk (buf @ bs) of
          Inl r \<Rightarrow> Some (s1, r)
        | Inr buf1 \<Rightarrow> fecReadFrame stoppable s1 buf1 es)"

section \<open>Transactions\<close>

record fecSendRequest =
  fqrSessionID :: string
  fqrFrameType :: byte
  fqrTarget :: byte
  fqrPriority :: byte
  fqrSource :: byte
  fqrMessage :: byte
  fqrGroup :: byte
  fqrFunction :: byte
  fqrDataHex :: string
  fqrData :: bytes
  fqrExpectAnswer :: bool
  fqrTimeoutMs :: int
  fqrRetries :: int

record fecTransaction =
  ftID :: string
  ftSessionID :: string
  ftRequest :: fecFrame
  ftResponse :: "fecFrame option"
  ftRequestFrameHex :: string
  ftResponseFrameHex :: string
  ftBytesWritten :: int
  ftError :: "fec_session_error option"

definition requestData :: "fecSendRequest \<Rightarrow> fec_session_error + bytes" where
  "requestData req =
     (case (if fqrDataHex req \<noteq> [] then ParseHex (fqrDataHex req) else Inr (fqrData req)) of
        Inl e \<Rightarrow> Inl (FDataHex e)
      | Inr data \<Rightarrow>
          if data = [] then
            (case BuildData (fqrFunction req) [] of Inl e \<Rightarrow> Inl (FFrame e) | Inr d \<Rightarrow> Inr d)
          else Inr data)"

definition requestFrame :: "fecSendRequest \<Rightarrow> fec_session_error + fecFrame" where
  "requestFrame req = (case requestData req of Inl e \<Rightarrow> Inl e
     | Inr data \<Rightarrow>
        let t = (if fqrFrameType req \<noteq> FrameTypeRequest \<and> fqrFrameType req \<noteq> FrameTypeAnswer
                 then FrameTypeRequest else fqrFrameType req) in
        Inr \<lparr>ffType = t,
          ffTarget = (if fqrTarget req = 0 \<and> t = FrameTypeAnswer then 1 else fqrTarget req),
          ffPriority = fqrPriority req,
          ffSource = (if fqrSource req = 0 then 1 else fqrSource req),
          ffMessage = (if fqrMessage req = 0 then 1 else fqrMessage req),
          ffGroup = fqrGroup req, ffData = data, ffRaw = [], ffCRCOK = False\<rparr>)"

definition matchesAnswer :: "fecFrame \<Rightarrow> fecFrame \<Rightarrow> bool" where
  "matchesAnswer request response \<longleftrightarrow> ffType response = FrameTypeAnswer
     \<and> ffTarget response = ffSource request \<and> ffSource response = ffTarget request
     \<and> ffMessage response = ffMessage request"

definition fecRequestTimeout :: "int \<Rightarrow> int \<Rightarrow> int" where
  "fecRequestTimeout loc sess = (if 0 < loc then loc else if 0 < sess then sess else 1000)"

definition fecRequestRetries :: "int \<Rightarrow> int \<Rightarrow> int" where
  "fecRequestRetries loc sess = (if 0 < loc then loc else if 0 < sess then sess else 0)"

fun fecAttempts :: "fecSendRequest \<Rightarrow> fecFrame \<Rightarrow> bytes \<Rightarrow> int \<Rightarrow> attempt_env \<Rightarrow> nat \<Rightarrow> nat \<Rightarrow>
    fecSession \<Rightarrow> fecTransaction \<Rightarrow> fec_session_error option \<Rightarrow>
    (fecSession \<times> fecTransaction \<times> fec_session_error option) option" where
  "fecAttempts req frame raw timeout env i 0 s tx lastErr =
     (let e = (case lastErr of None \<Rightarrow> FTransactionFailed | Some e \<Rightarrow> e) in
      Some (s, tx\<lparr>ftError := Some e\<rparr>, Some e))"
| "fecAttempts req frame raw timeout env i (Suc n) s tx lastErr =
     (let (s0, written, werr) = fecWrite s raw (fst (env i));
          tx1 = tx\<lparr>ftBytesWritten := ftBytesWritten tx + written\<rparr>;
          s1 = recordFrame s0 ''tx'' frame raw [] in
      case werr of
        Some e \<Rightarrow> fecAttempts req frame raw timeout env (Suc i) n s1 tx1 (Some e)
      | None \<Rightarrow>
        if \<not> fqrExpectAnswer req then Some (s1, tx1, None)
        else
        (case fecReadFrame False s1 [] (snd (env i) timeout) of
           None \<Rightarrow> None
         | Some (s2, Inl e) \<Rightarrow> fecAttempts req frame raw timeout env (Suc i) n s2 tx1 (Some e)
         | Some (s2, Inr (responseRaw, response)) \<Rightarrow>
             let s3 = recordFrame s2 ''rx'' response responseRaw [] in
             if \<not> matchesAnswer frame response
             then fecAttempts req frame raw timeout env (Suc i) n s3 tx1 (Some FUnexpectedAnswer)
             else Some (s3, tx1\<lparr>ftResponse := Some response,
                    ftResponseFrameHex := FecFormatHex responseRaw\<rparr>, None)))"

definition fecSend :: "attempt_env \<Rightarrow> fecSession \<Rightarrow> fecSendRequest \<Rightarrow>
    (fecSession \<times> fecTransaction option \<times> fec_session_error option) option" where
  "fecSend env s req =
     (if \<not> fsPort s \<or> fsStatus s = fecClosed then Some (s, None, Some FSessionClosed)
      else if fsSlaveRunning s then Some (s, None, Some FSlaveRunning)
      else
        let timeout = fecRequestTimeout (fqrTimeoutMs req) (foTimeoutMs (fsReq s));
            retries = fecRequestRetries (fqrRetries req) (foRetries (fsReq s));
            n = fsNextTx s + 1;
            s1 = s\<lparr>fsNextTx := n\<rparr>;
            tx = \<lparr>ftID = fqrSessionID req @ ''-tx-'' @ itoa n, ftSessionID = fqrSessionID req,
              ftRequest = fecFrameZero, ftResponse = None, ftRequestFrameHex = [], ftResponseFrameHex = [],
              ftBytesWritten = 0, ftError = None\<rparr> in
        case requestFrame req of
          Inl e \<Rightarrow> Some (s1, Some (tx\<lparr>ftError := Some e\<rparr>), Some e)
        | Inr frame \<Rightarrow>
          (case FecEncodeFrame frame of
             Inl e \<Rightarrow> Some (s1, Some (tx\<lparr>ftRequest := frame, ftError := Some (FFrame e)\<rparr>), Some (FFrame e))
           | Inr raw \<Rightarrow>
             map_option (\<lambda>(s2, tx2, err). (s2, Some tx2, err))
               (fecAttempts req frame raw timeout env 0 (Suc (nat retries)) s1
                 (tx\<lparr>ftRequest := frame, ftRequestFrameHex := FecFormatHex raw\<rparr>) None)))"

section \<open>Simulated devices\<close>

record fecStartRequest =
  fsrSessionID :: string
  fsrState :: fecUnit
  fsrUnits :: "fecUnit list"

definition normalizeSlaveUnit :: "fecUnit \<Rightarrow> fecUnit" where
  "normalizeSlaveUnit u = \<lparr>fuAddress = (if fuAddress u = 0 then 2 else fuAddress u),
     fuDefaultStatus = (if fuDefaultStatus u = 0 then StatusReceivedOK else fuDefaultStatus u),
     fuAutoStatusAnswer = (\<not> fuAutoStatusAnswer u \<and> fuPayloads u = [] \<or> fuAutoStatusAnswer u),
     fuAcceptBroadcast = fuAcceptBroadcast u, fuPayloads = fuPayloads u\<rparr>"

definition fecNormalizeUnits :: "fecStartRequest \<Rightarrow> (byte, fecUnit) table" where
  "fecNormalizeUnits req =
     (if fsrUnits req = [] then
        (let u = normalizeSlaveUnit (fsrState req) in [(fuAddress u, u)])
      else table_put_all (\<lambda>u. fuAddress (normalizeSlaveUnit u)) normalizeSlaveUnit (fsrUnits req) [])"

definition fecStartSlave :: "fecSession \<Rightarrow> fecStartRequest \<Rightarrow> fecSession \<times> fec_session_error option" where
  "fecStartSlave s req =
     (let units = fecNormalizeUnits req in
      if \<not> fsPort s \<or> fsStatus s = fecClosed then (s, Some FSessionClosed)
      else if fsSlaveRunning s then (s, Some FSlaveAlreadyRunning)
      else (s\<lparr>fsSlaveUnits := units, fsSlaveRunning := True, fsStatus := fecRunning\<rparr>, None))"

definition fecSetError :: "fecSession \<Rightarrow> fec_session_error \<Rightarrow> fecSession" where
  "fecSetError s e = s\<lparr>fsStatus := fecErrorStatus, fsLastError := Some e, fsSlaveRunning := False\<rparr>"

definition setSlaveUnit :: "fecSession \<Rightarrow> fecUnit \<Rightarrow> fecSession" where
  "setSlaveUnit s u = (let next = normalizeSlaveUnit u in
     s\<lparr>fsSlaveUnits := table_put (fuAddress next) next (fsSlaveUnits s)\<rparr>)"

definition fecRemoveUnit :: "fecSession \<Rightarrow> byte \<Rightarrow> fecSession \<times> fec_session_error option" where
  "fecRemoveUnit s address =
     (if address = 0 \<or> 63 < address then (s, Some FAddressRange)
      else if map_of (fsSlaveUnits s) address = None then (s, Some FUnitNotFound)
      else (s\<lparr>fsSlaveUnits := table_del address (fsSlaveUnits s)\<rparr>, None))"

definition cloneUnit :: "fecUnit \<Rightarrow> fecUnit" where
  "cloneUnit u = u\<lparr>fuPayloads := map (\<lambda>(c, p). (c, p)) (fuPayloads u)\<rparr>"

definition cloneSlaveUnits :: "(byte, fecUnit) table \<Rightarrow> (byte, fecUnit) table" where
  "cloneSlaveUnits units = map (\<lambda>(a, u). (a, cloneUnit u)) units"

definition matchingSlaveUnits :: "fecFrame \<Rightarrow> (byte, fecUnit) table \<Rightarrow> fecUnit list" where
  "matchingSlaveUnits frame units =
     (if ffTarget frame = 0 then
        filter fuAcceptBroadcast (map (unitAt units) (sortedSlaveAddresses units))
      else (case map_of units (ffTarget frame) of Some u \<Rightarrow> [u] | None \<Rightarrow> []))"

datatype slave_answer = NoAnswer | AnswerFailed fec_error | AnswerWith fecFrame

definition buildSlaveAnswer :: "fecFrame \<Rightarrow> fecUnit \<Rightarrow> slave_answer" where
  "buildSlaveAnswer request u =
     (case map_of (fuPayloads u) (frameFunction request) of
        Some payload \<Rightarrow>
          (case BuildData (frameFunction request) payload of
             Inl e \<Rightarrow> AnswerFailed e
           | Inr data \<Rightarrow> AnswerWith \<lparr>ffType = FrameTypeAnswer, ffTarget = ffSource request, ffPriority = 3,
               ffSource = fuAddress u, ffMessage = ffMessage request, ffGroup = ffGroup request,
               ffData = data, ffRaw = [], ffCRCOK = False\<rparr>)
      | None \<Rightarrow>
          if \<not> fuAutoStatusAnswer u then NoAnswer
          else (case BuildStatusAnswer request (fuDefaultStatus u) of
             (answer, None) \<Rightarrow> AnswerWith (answer\<lparr>ffSource := fuAddress u\<rparr>)
           | (answer, Some e) \<Rightarrow> AnswerFailed e))"

fun answerUnits :: "fecSession \<Rightarrow> fecFrame \<Rightarrow> (nat \<Rightarrow> writeEvent) \<Rightarrow> nat \<Rightarrow> fecUnit list \<Rightarrow> fecSession \<times> loop_state" where
  "answerUnits s frame writes i [] = (s, Looping)"
| "answerUnits s frame writes i (u # us) =
     (case buildSlaveAnswer frame u of
        AnswerFailed e \<Rightarrow> answerUnits (recordFrame s ''tx'' fecFrameZero [] (fecErrorText e)) frame writes (Suc i) us
      | NoAnswer \<Rightarrow> answerUnits s frame writes (Suc i) us
      | AnswerWith answer \<Rightarrow>
          (case FecEncodeFrame answer of
             Inl e \<Rightarrow> (fecSetError s (FFrame e), Exited)
           | Inr raw \<Rightarrow>
               (case fecWrite s raw (writes i) of
                  (s1, _, Some e) \<Rightarrow> (fecSetError s1 e, Exited)
                | (s1, _, None) \<Rightarrow> answerUnits (recordFrame s1 ''tx'' answer raw []) frame writes (Suc i) us)))"

record fecRoundEnv =
  frdScript :: "readEvent list"
  frdStopped :: bool
  frdWrites :: "nat \<Rightarrow> writeEvent"

definition fecMentionsTimeout :: "fec_session_error \<Rightarrow> bool" where
  "fecMentionsTimeout e = (case e of FResponseTimeout \<Rightarrow> True
     | FReadFailed msg \<Rightarrow> contains msg ''timeout'' | _ \<Rightarrow> False)"

definition fecSlaveRound :: "fecSession \<Rightarrow> fecRoundEnv \<Rightarrow> (fecSession \<times> loop_state) option" where
  "fecSlaveRound s rd =
     (case fecReadFrame True s [] (frdScript rd) of
        None \<Rightarrow> None
      | Some (s1, Inl e) \<Rightarrow>
          if frdStopped rd \<or> e = FReadStopped then Some (s1, Exited)
          else if fecMentionsTimeout e then Some (s1, Looping)
          else Some (fecSetError s1 e, Exited)
      | Some (s1, Inr (raw, frame)) \<Rightarrow>
          (let s2 = recordFrame s1 ''rx'' frame raw [];
               units = cloneSlaveUnits (fsSlaveUnits s2) in
           Some (answerUnits s2 frame (frdWrites rd) 0 (matchingSlaveUnits frame units))))"

fun fecSlaveLoop :: "fecSession \<Rightarrow> fecRoundEnv list \<Rightarrow> (fecSession \<times> loop_state) option" where
  "fecSlaveLoop s [] = Some (s, Looping)"
| "fecSlaveLoop s (rd # rds) =
     (case fecSlaveRound s rd of Some (s1, Looping) \<Rightarrow> fecSlaveLoop s1 rds | r \<Rightarrow> r)"

section \<open>The manager's entry points\<close>

definition fecPutSession :: "fecManager \<Rightarrow> string \<Rightarrow> fecSession \<Rightarrow> fecManager" where
  "fecPutSession m sid s = m\<lparr>fmSessions := table_put sid s (fmSessions m)\<rparr>"

definition fecOnSession :: "fecManager \<Rightarrow> string \<Rightarrow> (fecSession \<Rightarrow> fecSession \<times> fec_session_error option) \<Rightarrow>
    fecManager \<times> fec_session_error option" where
  "fecOnSession m sid f =
     (case fecGet m sid of Inl e \<Rightarrow> (m, Some e)
      | Inr s \<Rightarrow> (let (s1, err) = f s in (fecPutSession m sid s1, err)))"

definition FecSendRequest :: "attempt_env \<Rightarrow> fecManager \<Rightarrow> fecSendRequest \<Rightarrow>
    (fecManager \<times> fecTransaction option \<times> fec_session_error option) option" where
  "FecSendRequest env m req =
     (case fecGet m (fqrSessionID req) of Inl e \<Rightarrow> Some (m, None, Some e)
      | Inr s \<Rightarrow> map_option (\<lambda>(s1, r). (fecPutSession m (fqrSessionID req) s1, r)) (fecSend env s req))"

definition FecStartSlave :: "fecManager \<Rightarrow> fecStartRequest \<Rightarrow> fecManager \<times> fec_session_error option" where
  "FecStartSlave m req = fecOnSession m (fsrSessionID req) (\<lambda>s. fecStartSlave s req)"

definition FecStopSlave :: "bool \<Rightarrow> fecManager \<Rightarrow> string \<Rightarrow> fecManager \<times> fec_session_error option" where
  "FecStopSlave timely m sid = fecOnSession m sid (fecStopSlave timely)"

definition FecAddSlaveUnit :: "fecManager \<Rightarrow> string \<Rightarrow> fecUnit \<Rightarrow> fecManager \<times> fec_session_error option" where
  "FecAddSlaveUnit m sid u = fecOnSession m sid (\<lambda>s. (setSlaveUnit s u, None))"

definition FecRemoveSlaveUnit :: "fecManager \<Rightarrow> string \<Rightarrow> byte \<Rightarrow> fecManager \<times> fec_session_error option" where
  "FecRemoveSlaveUnit m sid a = fecOnSession m sid (\<lambda>s. fecRemoveUnit s a)"

definition FecListSlaveUnits :: "fecManager \<Rightarrow> string \<Rightarrow> fec_session_error + fecUnitInfo list" where
  "FecListSlaveUnits m sid = (case fecGet m sid of Inl e \<Rightarrow> Inl e | Inr s \<Rightarrow> Inr (slaveUnitInfos (fsSlaveUnits s)))"

definition FecQueryFrames :: "fecManager \<Rightarrow> fecQuery \<Rightarrow> fec_session_error + framePage" where
  "FecQueryFrames m req = (case fecGet m (fqSessionID req) of Inl e \<Rightarrow> Inl e | Inr s \<Rightarrow> Inr (queryFrames s req))"

definition FecClearFrames :: "fecManager \<Rightarrow> string \<Rightarrow> fecManager \<times> fec_session_error option" where
  "FecClearFrames m sid = fecOnSession m sid (\<lambda>s. (clearFrames s, None))"

text \<open>The critical sections that touch the status of a session.\<close>

datatype fecSection =
    FCommitOpen fecOpenRequest | FDropSession string | FDropAll | FBeginSlave fecStartRequest
  | FEndSlave string | FFailSlave string fec_session_error

definition fecRunSection :: "fecSection \<Rightarrow> fecManager \<Rightarrow> fecManager" where
  "fecRunSection op m = (case op of
     FCommitOpen req \<Rightarrow> fst (fecOpenCommit m req)
   | FDropSession sid \<Rightarrow> fst (FecCloseSession True None m sid)
   | FDropAll \<Rightarrow> FecCloseAll m
   | FBeginSlave req \<Rightarrow> fst (FecStartSlave m req)
   | FEndSlave sid \<Rightarrow> fst (FecStopSlave True m sid)
   | FFailSlave sid e \<Rightarrow> fst (fecOnSession m sid (\<lambda>s. (fecSetError s e, None))))"

definition fecPortOf :: "fecManager \<Rightarrow> string \<Rightarrow> string option" where
  "fecPortOf m sid = (case map_of (fmSessions m) sid of None \<Rightarrow> None
     | Some s \<Rightarrow> if fsStatus s = fecClosed then None else Some (scPortName (foConfig (fsReq s))))"

end
