(* ===== verification/SerialService.thy ===== *)
theory SerialService
  imports GraphRuntime VirtualSerial ModbusSession FecbusSession
begin

text \<open>
  The facade of the serial module (\<open>internal/modules/serial/service.go\<close>): one value holds the managers
  of ports, monitors, sessions, virtual ports and graphs, and an operation first checks the other
  managers for the ports it is about to take. Calls that only hand their arguments to one manager
  are those of the manager's theory. Each operation is one step here; the service takes no lock over
  the checks and the opening. What drivers and back ends answer is an argument.
\<close>

section \<open>State\<close>

text \<open>The running graphs are heap cells, as a start in progress holds the graph while the table may
  lose it. The port manager inside a cell is a copy that every entry replaces.\<close>

record serialService =
  svManager :: portManager
  svMonitors :: monitorManager
  svModbus :: modbusManager
  svFecbus :: fecManager
  svVirtual :: virtualManager
  svBuffers :: "(string, ringBuffer) table"
  svAuto :: "(string, string) table"
  svGraphs :: "(string, nat) table"
  svHeap :: "graphWorld list"

datatype service_error =
    SvInvalid string | SvConflict string | SvNotFound string | SvManager manager_error | SvMonitor monitor_error
  | SvModbus session_error | SvFecbus fec_session_error | SvVirtual virtual_error | SvText text_error | SvHex
  | SvGraph runtime_error | SvTopology "graph_error list" | SvCancelled string

definition NewService :: serialService where
  "NewService = \<lparr>svManager = NewPortManager, svMonitors = NewMonitorManager, svModbus = NewModbusManager,
     svFecbus = NewFecManager, svVirtual = NewVirtualManager, svBuffers = [], svAuto = [], svGraphs = [], svHeap = []\<rparr>"

section \<open>Who uses a port\<close>

definition findOpenHandle :: "serialService \<Rightarrow> string \<Rightarrow> handleStatus option" where
  "findOpenHandle s portName = (if portName = [] then None
     else find (\<lambda>h. hsIsOpen h \<and> scPortName (hsConfig h) = portName) (managerList (svManager s)))"

definition monitorPortInUse :: "serialService \<Rightarrow> string \<Rightarrow> bool" where
  "monitorPortInUse s portName = (portName \<noteq> [] \<and> list_ex (\<lambda>i. miStatus i = monRunning
     \<and> (moPortA (miReq i) = portName \<or> moPortB (miReq i) = portName \<or> moExternalPort (miReq i) = portName))
     (monList (svMonitors s)))"

definition bridgePortInUse :: "serialService \<Rightarrow> string \<Rightarrow> bool" where
  "bridgePortInUse s portName = (portName \<noteq> []
     \<and> list_ex (\<lambda>b. brPort1 b = portName \<or> brPort2 b = portName) (ListBridges (svVirtual s)))"

definition ownsVirtualPortName :: "graphRuntime \<Rightarrow> string \<Rightarrow> bool" where
  "ownsVirtualPortName r portName = (portName \<noteq> [] \<and> list_ex (\<lambda>(_, n). nsType (gnSpec n) = ''serial.virtual''
     \<and> graphStringConfig (nsConfig (gnSpec n)) ''portName'' = portName \<and> gnResourceID n \<noteq> []) (grNodes r))"

definition graphVirtualPortInUse :: "serialService \<Rightarrow> string \<Rightarrow> bool" where
  "graphVirtualPortInUse s portName = (portName \<noteq> []
     \<and> list_ex (\<lambda>(_, a). ownsVirtualPortName (gwRuntime (svHeap s ! a)) portName) (svGraphs s))"

definition monitorEndpoint :: "serialService \<Rightarrow> string \<Rightarrow> string" where
  "monitorEndpoint s portName = EndpointFor (svVirtual s) portName"

section \<open>Terminals\<close>

definition bufferSize :: int where "bufferSize = 256 * 1024 * 1024"

definition OpenPort :: "openEvent \<Rightarrow> serialConfig \<Rightarrow> serialService \<Rightarrow> serialService \<times> (service_error + handleStatus)" where
  "OpenPort opened config s =
     (case findOpenHandle s (scPortName config) of
        Some existing \<Rightarrow> (s, Inr existing)
      | None \<Rightarrow>
          if PortInUseBy (svModbus s) (scPortName config)
          then (s, Inl (SvConflict ''port already open in modbus session''))
          else if fecPortInUse (svFecbus s) (scPortName config)
          then (s, Inl (SvConflict ''port already open in fecbus session''))
          else case managerOpen opened (svManager s) config of
              (m, Inl e) \<Rightarrow> (s\<lparr>svManager := m\<rparr>,
                 (case (e, findOpenHandle (s\<lparr>svManager := m\<rparr>) (scPortName config)) of
                    (MPortOpen _, Some existing) \<Rightarrow> Inr existing
                  | _ \<Rightarrow> Inl (SvManager e)))
            | (m, Inr status) \<Rightarrow>
                (s\<lparr>svManager := m, svBuffers := table_put (hsID status) (NewRing bufferSize) (svBuffers s)\<rparr>, Inr status))"

definition ClosePort :: "string \<Rightarrow> serialService \<Rightarrow> serialService \<times> service_error option" where
  "ClosePort i s = (case managerClose (svManager s) i of
       (m, Some e) \<Rightarrow> (s\<lparr>svManager := m\<rparr>, Some (SvManager e))
     | (m, None) \<Rightarrow> (s\<lparr>svManager := m, svBuffers := table_del i (svBuffers s)\<rparr>, None))"

text \<open>The subscription to received data: the clock stays unset.\<close>

definition serviceData :: "dataEvent \<Rightarrow> serialService \<Rightarrow> serialService" where
  "serviceData evt s = (case map_of (svBuffers s) (dePortID evt) of None \<Rightarrow> s
     | Some r \<Rightarrow> s\<lparr>svBuffers := table_put (dePortID evt) (appendBytes [] (deData evt) r) (svBuffers s)\<rparr>)"

text \<open>\<open>Inr None\<close> is the panic of a query.\<close>

definition QueryPage :: "serialService \<Rightarrow> string \<Rightarrow> int \<Rightarrow> int \<Rightarrow> service_error + snapshot option" where
  "QueryPage s i offset len = (case map_of (svBuffers s) i of None \<Rightarrow> Inl (SvNotFound i)
     | Some r \<Rightarrow> Inr (ringQuery r offset len))"

definition EncodeTextToHex :: "text_codecs \<Rightarrow> string \<Rightarrow> string \<Rightarrow> service_error + string" where
  "EncodeTextToHex codecs content encoding = (case encodeSerialText codecs content encoding of
       Inl e \<Rightarrow> Inl (SvText e) | Inr data \<Rightarrow> Inr (formatHexBytes data))"

definition DecodeHexToText :: "text_codecs \<Rightarrow> string \<Rightarrow> string \<Rightarrow> service_error + string" where
  "DecodeHexToText codecs content encoding = (case decodeHexContent content of
       None \<Rightarrow> Inl SvHex
     | Some data \<Rightarrow> map_sum SvText id (decodeSerialText codecs data encoding))"

definition Send :: "text_codecs \<Rightarrow> writeEvent \<Rightarrow> string \<Rightarrow> string \<Rightarrow> string \<Rightarrow> string \<Rightarrow> serialService \<Rightarrow>
    serialService \<times> (service_error + int)" where
  "Send codecs ev handleID content mode encoding s =
     (if handleID = [] then (s, Inl (SvInvalid ''port ID must not be empty''))
      else if content = [] then (s, Inl (SvInvalid ''content must not be empty''))
      else case (if mode = ''hex'' then (case decodeHexContent content of None \<Rightarrow> Inl SvHex | Some d \<Rightarrow> Inr d)
                 else map_sum SvText id (encodeSerialText codecs content encoding)) of
          Inl e \<Rightarrow> (s, Inl e)
        | Inr data \<Rightarrow> (case managerWrite ev (svManager s) handleID data of
              (m, n, Some e) \<Rightarrow> (s\<lparr>svManager := m\<rparr>, Inl (SvManager e))
            | (m, n, None) \<Rightarrow> (s\<lparr>svManager := m\<rparr>, Inr n)))"

section \<open>Virtual ports and bridges\<close>

definition CreateVirtualPort :: "backend_event \<Rightarrow> string \<Rightarrow> string \<Rightarrow> serialService \<Rightarrow> serialService \<times> (service_error + virtualPair)" where
  "CreateVirtualPort made i portName s =
     (if i = [] then (s, Inl (SvInvalid ''id must not be empty''))
      else if portName = [] then (s, Inl (SvInvalid ''port name must not be empty''))
      else case virtualCreatePort made i portName (svVirtual s) of (v, r) \<Rightarrow> (s\<lparr>svVirtual := v\<rparr>, map_sum SvVirtual id r))"

definition CreateVirtualPair :: "backend_event \<Rightarrow> string \<Rightarrow> string \<Rightarrow> string \<Rightarrow> serialService \<Rightarrow>
    serialService \<times> (service_error + virtualPair)" where
  "CreateVirtualPair made i port1 port2 s =
     (if i = [] then (s, Inl (SvInvalid ''id must not be empty''))
      else if port1 = [] \<or> port2 = [] then (s, Inl (SvInvalid ''port names must not be empty''))
      else case virtualCreatePair made i (svVirtual s) of (v, r) \<Rightarrow> (s\<lparr>svVirtual := v\<rparr>, map_sum SvVirtual id r))"

definition DeleteVirtualPair :: "string option \<Rightarrow> string \<Rightarrow> serialService \<Rightarrow> serialService \<times> service_error option" where
  "DeleteVirtualPair outcome i s =
     (if i = [] then (s, Some (SvInvalid ''id must not be empty''))
      else case virtualDeletePair outcome i (svVirtual s) of (v, e) \<Rightarrow> (s\<lparr>svVirtual := v\<rparr>, map_option SvVirtual e))"

definition ListVirtualPorts :: "serialService \<Rightarrow> (string \<times> string) list" where
  "ListVirtualPorts s = map (\<lambda>p. (vpID p, vpPort1 p)) (filter vpPort2Hidden (ListPairs (svVirtual s)))"

definition CreateBridge :: "openEvent \<Rightarrow> openEvent \<Rightarrow> string \<Rightarrow> string \<Rightarrow> string \<Rightarrow> int \<Rightarrow> serialService \<Rightarrow>
    serialService \<times> (service_error + bridge)" where
  "CreateBridge open1 open2 i port1 port2 baud0 s =
     (if i = [] then (s, Inl (SvInvalid ''id must not be empty''))
      else if port1 = [] \<or> port2 = [] then (s, Inl (SvInvalid ''port names must not be empty''))
      else if port1 = port2 then (s, Inl (SvInvalid ''cannot bridge a port to itself''))
      else let baud = (if baud0 \<le> 0 then 115200 else baud0) in
        if PortInUseBy (svModbus s) port1 \<or> PortInUseBy (svModbus s) port2
        then (s, Inl (SvConflict ''bridge port already open in modbus session''))
        else if fecPortInUse (svFecbus s) port1 \<or> fecPortInUse (svFecbus s) port2
        then (s, Inl (SvConflict ''bridge port already open in fecbus session''))
        else case virtualCreateBridge open1 open2 i port1 port2 baud (svVirtual s) of
            (v, r) \<Rightarrow> (s\<lparr>svVirtual := v\<rparr>, map_sum SvVirtual id r))"

definition DeleteBridge :: "string \<Rightarrow> serialService \<Rightarrow> serialService \<times> service_error option" where
  "DeleteBridge i s = (if i = [] then (s, Some (SvInvalid ''id must not be empty''))
     else case virtualDeleteBridge i (svVirtual s) of (v, e) \<Rightarrow> (s\<lparr>svVirtual := v\<rparr>, map_option SvVirtual e))"

text \<open>The ports of the system and, after them, the public virtual ports that are not among them\<close>

definition EnumeratePorts :: "string list \<Rightarrow> serialService \<Rightarrow> string list" where
  "EnumeratePorts ports s = foldl (\<lambda>ps (_, p). if p \<in> set ps then ps else ps @ [p]) ports (ListVirtualPorts s)"

section \<open>Monitors\<close>

definition StartMonitor :: "bool \<Rightarrow> openEvent \<Rightarrow> openEvent \<Rightarrow> monitorRequest \<Rightarrow> serialService \<Rightarrow>
    serialService \<times> (service_error + monitorInfo)" where
  "StartMonitor cancelled openA openB req s =
     (if findOpenHandle s (moPortA req) \<noteq> None \<or> findOpenHandle s (moPortB req) \<noteq> None
      then (s, Inl (SvConflict ''monitor port already open in serial terminal''))
      else if PortInUseBy (svModbus s) (moPortA req) \<or> PortInUseBy (svModbus s) (moPortB req)
      then (s, Inl (SvConflict ''monitor port already open in modbus session''))
      else if fecPortInUse (svFecbus s) (moPortA req) \<or> fecPortInUse (svFecbus s) (moPortB req)
      then (s, Inl (SvConflict ''monitor port already open in fecbus session''))
      else case monStart cancelled openA openB
          (req\<lparr>moEndpointA := monitorEndpoint s (moPortA req), moEndpointB := monitorEndpoint s (moPortB req)\<rparr>)
          (svMonitors s) of
        (m, r) \<Rightarrow> (s\<lparr>svMonitors := m\<rparr>, map_sum SvMonitor id r))"

text \<open>\<open>strings.Trim(_, "-.")\<close>, and the letters of a token\<close>

definition trim_dashes :: "string \<Rightarrow> string" where
  "trim_dashes s = (let f = dropWhile (\<lambda>c. c \<in> {CHR ''-'', CHR ''.''}) in rev (f (rev (f s))))"

definition token_char :: "char \<Rightarrow> bool" where
  "token_char c = (ascii_lower c \<or> ascii_upper c \<or> is_digit c \<or> c = CHR ''_'' \<or> c = CHR ''.'')"

text \<open>The loop over the runes: the builder and whether a dash came last. The bytes of a rune beyond
  ASCII are no token characters, and further ones add no dash.\<close>

fun tokenRunes :: "string \<Rightarrow> bool \<Rightarrow> string \<Rightarrow> string" where
  "tokenRunes acc lastDash [] = acc"
| "tokenRunes acc lastDash (c # cs) =
     (if token_char c then tokenRunes (acc @ [c]) False cs
      else if \<not> lastDash \<and> acc \<noteq> [] then tokenRunes (acc @ ''-'') True cs
      else tokenRunes acc lastDash cs)"

definition sanitizeSerialToken :: "string \<Rightarrow> string" where
  "sanitizeSerialToken input = take 48 (trim_dashes (tokenRunes [] False (trim_space input)))"

text \<open>\<open>filepath.Base\<close> with \<open>/\<close> as the separator\<close>

definition filepath_base :: "string \<Rightarrow> string" where
  "filepath_base path = (if path = [] then ''.''
     else let p = rev (dropWhile (\<lambda>c. c = CHR ''/'') (rev path)) in
       if p = [] then ''/'' else rev (takeWhile (\<lambda>c. c \<noteq> CHR ''/'') (rev p)))"

definition autoVirtualPortID :: "string \<Rightarrow> string \<Rightarrow> string" where
  "autoVirtualPortID stamp monitorID =
     (let token = sanitizeSerialToken monitorID in
      ''auto-monitor-'' @ (if token = [] then ''monitor'' else token) @ ''-'' @ stamp)"

definition autoVirtualPortName :: "string \<Rightarrow> string \<Rightarrow> string \<Rightarrow> string" where
  "autoVirtualPortName stamp portName monitorID =
     (let token = sanitizeSerialToken (filepath_base portName);
          portToken = (if token = [] \<or> token = ''.'' \<or> token = ''/'' then ''port'' else token);
          idToken = sanitizeSerialToken monitorID in
      ''portweave-'' @ portToken @ ''-'' @ (if idToken = [] then ''monitor'' else idToken) @ ''-'' @ stamp)"

definition providerRequest :: "monitorRequest \<Rightarrow> virtualPair \<Rightarrow> monitorRequest" where
  "providerRequest req pair = req\<lparr>
     moName := (if moName req = [] then moPortA req @ '' monitor'' else moName req),
     moProvider := providerBridge, moPortB := vpPort1 pair, moExternalPort := vpPort1 pair,
     moAutoVirtualPortID := vpID pair\<rparr>"

text \<open>The port of the request is its \<open>moPortA\<close>; the stamps are the times of the two names.\<close>

definition StartAutoVirtualMonitor :: "backend_event \<Rightarrow> string option \<Rightarrow> bool \<Rightarrow> openEvent \<Rightarrow> openEvent \<Rightarrow> string \<Rightarrow> string \<Rightarrow>
    monitorRequest \<Rightarrow> serialService \<Rightarrow> serialService \<times> (service_error + monitorInfo)" where
  "StartAutoVirtualMonitor made unpaired cancelled openA openB stamp1 stamp2 req s =
     (if moID req = [] then (s, Inl (SvInvalid ''monitor ID must not be empty''))
      else if moPortA req = [] then (s, Inl (SvInvalid ''monitor port must not be empty''))
      else if findOpenHandle s (moPortA req) \<noteq> None
      then (s, Inl (SvConflict ''monitor port already open in serial terminal''))
      else if PortInUseBy (svModbus s) (moPortA req)
      then (s, Inl (SvConflict ''monitor port already open in modbus session''))
      else if fecPortInUse (svFecbus s) (moPortA req)
      then (s, Inl (SvConflict ''monitor port already open in fecbus session''))
      else case CreateVirtualPort made (autoVirtualPortID stamp1 (moID req))
          (autoVirtualPortName stamp2 (moPortA req) (moID req)) s of
        (s1, Inl e) \<Rightarrow> (s1, Inl e)
      | (s1, Inr pair) \<Rightarrow>
          (case StartMonitor cancelled openA openB (providerRequest req pair) s1 of
             (s2, Inl e) \<Rightarrow> (fst (DeleteVirtualPair unpaired (vpID pair) s2), Inl e)
           | (s2, Inr session) \<Rightarrow> (s2\<lparr>svAuto := table_put (moID req) (vpID pair) (svAuto s2)\<rparr>, Inr session)))"

definition cleanupAutoMonitorVirtual :: "string option \<Rightarrow> string \<Rightarrow> serialService \<Rightarrow> serialService \<times> service_error option" where
  "cleanupAutoMonitorVirtual unpaired i s =
     (case map_of (svAuto s) i of
        None \<Rightarrow> (s, None)
      | Some virtualID \<Rightarrow>
          if virtualID = [] then (s, None)
          else (case DeleteVirtualPair unpaired virtualID s of
              (s1, e) \<Rightarrow> if e \<noteq> None \<and> e \<noteq> Some (SvVirtual VPairNotFound) then (s1, e)
                else (s1\<lparr>svAuto := (if map_of (svAuto s1) i = Some virtualID then table_del i (svAuto s1) else svAuto s1)\<rparr>,
                      None)))"

definition StopMonitor :: "string option \<Rightarrow> string \<Rightarrow> serialService \<Rightarrow> serialService \<times> service_error option" where
  "StopMonitor unpaired i s = (case monStopSession i (svMonitors s) of
       (m, Some e) \<Rightarrow> (s\<lparr>svMonitors := m\<rparr>, Some (SvMonitor e))
     | (m, None) \<Rightarrow> cleanupAutoMonitorVirtual unpaired i (s\<lparr>svMonitors := m\<rparr>))"

definition DeleteMonitor :: "string option \<Rightarrow> string \<Rightarrow> serialService \<Rightarrow> serialService \<times> service_error option" where
  "DeleteMonitor unpaired i s = (case monDelete i (svMonitors s) of
       (m, Some e) \<Rightarrow> (s\<lparr>svMonitors := m\<rparr>, Some (SvMonitor e))
     | (m, None) \<Rightarrow> cleanupAutoMonitorVirtual unpaired i (s\<lparr>svMonitors := m\<rparr>))"

section \<open>Protocol sessions\<close>

definition OpenModbusSession :: "string option \<Rightarrow> openEvent \<Rightarrow> openRequest \<Rightarrow> serialService \<Rightarrow>
    serialService \<times> (service_error + sessionInfo)" where
  "OpenModbusSession ctxErr opened req s =
     (let p = scPortName (orConfig req) in
      if p = [] then (s, Inl (SvInvalid ''modbus port must not be empty''))
      else if findOpenHandle s p \<noteq> None then (s, Inl (SvConflict ''modbus port already open in serial terminal''))
      else if monitorPortInUse s p then (s, Inl (SvConflict ''modbus port already used by serial monitor''))
      else if fecPortInUse (svFecbus s) p then (s, Inl (SvConflict ''modbus port already open in fecbus session''))
      else if bridgePortInUse s p then (s, Inl (SvConflict ''modbus port already used by serial bridge''))
      else case OpenSession ctxErr opened (svModbus s) (req\<lparr>orEndpoint := monitorEndpoint s p\<rparr>) of
          (m, r) \<Rightarrow> (s\<lparr>svModbus := m\<rparr>, map_sum SvModbus id r))"

definition CloseModbusSession :: "bool \<Rightarrow> string option \<Rightarrow> string \<Rightarrow> serialService \<Rightarrow> serialService \<times> service_error option" where
  "CloseModbusSession timely closed i s = (case CloseSession timely closed (svModbus s) i of
       (m, e) \<Rightarrow> (s\<lparr>svModbus := m\<rparr>, map_option SvModbus e))"

definition OpenFecbusSession :: "string option \<Rightarrow> openEvent \<Rightarrow> fecOpenRequest \<Rightarrow> serialService \<Rightarrow>
    serialService \<times> (service_error + fecSessionInfo)" where
  "OpenFecbusSession ctxErr opened req s =
     (let p = scPortName (foConfig req) in
      if p = [] then (s, Inl (SvInvalid ''fecbus port must not be empty''))
      else if findOpenHandle s p \<noteq> None then (s, Inl (SvConflict ''fecbus port already open in serial terminal''))
      else if monitorPortInUse s p then (s, Inl (SvConflict ''fecbus port already used by serial monitor''))
      else if PortInUseBy (svModbus s) p then (s, Inl (SvConflict ''fecbus port already open in modbus session''))
      else if bridgePortInUse s p then (s, Inl (SvConflict ''fecbus port already used by serial bridge''))
      else case FecOpenSession ctxErr opened (svFecbus s) (req\<lparr>foEndpoint := monitorEndpoint s p\<rparr>) of
          (m, r) \<Rightarrow> (s\<lparr>svFecbus := m\<rparr>, map_sum SvFecbus id r))"

definition CloseFecbusSession :: "bool \<Rightarrow> string option \<Rightarrow> string \<Rightarrow> serialService \<Rightarrow> serialService \<times> service_error option" where
  "CloseFecbusSession timely closed i s = (case FecCloseSession timely closed (svFecbus s) i of
       (m, e) \<Rightarrow> (s\<lparr>svFecbus := m\<rparr>, map_option SvFecbus e))"

end
