(* ===== verification/GraphControl.thy ===== *)
theory GraphControl
  imports SerialService
begin

text \<open>
  Starting and stopping a graph (\<open>graph_runtime.go\<close>, lines 175 to 355, 402 to 556 and 732 to 783,
  895 to 942): a graph enters the table of the service, then its ports, virtual ports and remote
  connections are opened node by node without a lock over the whole, and a failure stops it again. What
  drivers, back ends and the network answer is an environment.
\<close>

section \<open>Environment and access\<close>

text \<open>Answers by the identifier of the node; the end of a virtual port by the identifier of its pair\<close>

record startEnv =
  stLower :: "string \<Rightarrow> string"
  stCodecs :: text_codecs
  stOpen :: "string \<Rightarrow> openEvent"
  stMake :: "string \<Rightarrow> string \<Rightarrow> backend_event"
  stDial :: "string \<Rightarrow> string + nat"
  stListen :: "string \<Rightarrow> string option"
  stUnpair :: "string \<Rightarrow> string option"

definition onGraph :: "nat \<Rightarrow> (graphRuntime \<Rightarrow> graphRuntime) \<Rightarrow> serialService \<Rightarrow> serialService" where
  "onGraph a f s = s\<lparr>svHeap := (svHeap s)[a := (svHeap s ! a)\<lparr>gwRuntime := f (gwRuntime (svHeap s ! a))\<rparr>]\<rparr>"

definition graphAt :: "serialService \<Rightarrow> nat \<Rightarrow> graphRuntime" where
  "graphAt s a = gwRuntime (svHeap s ! a)"

definition runtimeOnNode :: "string \<Rightarrow> (graphNode \<Rightarrow> graphNode) \<Rightarrow> graphRuntime \<Rightarrow> graphRuntime" where
  "runtimeOnNode i f r = (case map_of (grNodes r) i of None \<Rightarrow> r
     | Some n \<Rightarrow> r\<lparr>grNodes := table_put i (f n) (grNodes r)\<rparr>)"

definition setNodeError :: "nat \<Rightarrow> graphNode \<Rightarrow> runtime_error \<Rightarrow> serialService \<Rightarrow> serialService" where
  "setNodeError a node e s = onGraph a (runtimeOnNode (nsID (gnSpec node)) (nodeSetStatus statusError (Some e))) s"

definition addOwnedPort :: "string \<Rightarrow> graphRuntime \<Rightarrow> graphRuntime" where
  "addOwnedPort i r = (if i = [] then r else r\<lparr>grOwnedPorts := grOwnedPorts r @ [i]\<rparr>)"

definition addOwnedVirtualPort :: "string \<Rightarrow> graphRuntime \<Rightarrow> graphRuntime" where
  "addOwnedVirtualPort i r = (if i = [] then r else r\<lparr>grOwnedVPorts := grOwnedVPorts r @ [i]\<rparr>)"

section \<open>Starting the nodes\<close>

definition ensureGraphPortAvailable :: "serialService \<Rightarrow> string \<Rightarrow> runtime_error option" where
  "ensureGraphPortAvailable s p =
     (if p = [] then Some (RInvalid ''port name must not be empty'')
      else if findOpenHandle s p \<noteq> None then Some (RConflict ''graph port already open in serial terminal: '' p)
      else if monitorPortInUse s p then Some (RConflict ''graph port already used by serial monitor: '' p)
      else if bridgePortInUse s p then Some (RConflict ''graph port already used by serial bridge: '' p)
      else if graphVirtualPortInUse s p then Some (RConflict ''graph port already used by another serial graph: '' p)
      else if PortInUseBy (svModbus s) p then Some (RConflict ''graph port already open in modbus session: '' p)
      else if fecPortInUse (svFecbus s) p then Some (RConflict ''graph port already open in fecbus session: '' p)
      else None)"

definition graphSerialConfig :: "config \<Rightarrow> serialConfig" where
  "graphSerialConfig config =
     \<lparr>scPortName = graphStringConfig config ''portName'', scBaudRate = graphIntConfig config ''baudRate'' 115200,
      scDataBits = graphIntConfig config ''dataBits'' 8, scStopBits = graphStringConfigWithDefault config ''stopBits'' ''1'',
      scParity = graphStringConfigWithDefault config ''parity'' ''none'',
      scFlowMode = graphStringConfigWithDefault config ''flowMode'' ''none'',
      scReadBufKB = graphIntConfig config ''readBufKB'' 32\<rparr>"

definition startPhysicalNode :: "startEnv \<Rightarrow> nat \<Rightarrow> graphNode \<Rightarrow> serialService \<Rightarrow> serialService \<times> runtime_error option" where
  "startPhysicalNode env a node s =
     (let i = nsID (gnSpec node); c = nsConfig (gnSpec node); portName = graphStringConfig c ''portName'' in
      if portName = [] then (s, None)
      else case ensureGraphPortAvailable s portName of
          Some e \<Rightarrow> (setNodeError a node e s, Some e)
        | None \<Rightarrow>
            (case managerOpen (stOpen env i) (svManager s) (graphSerialConfig c) of
               (m, Inl e) \<Rightarrow> (setNodeError a node (ROpen e) (s\<lparr>svManager := m\<rparr>),
                             Some (RWrap ''start graph physical node '' i (ROpen e)))
             | (m, Inr status) \<Rightarrow>
                 (onGraph a (addOwnedPort (hsID status)
                      \<circ> runtimeOnNode i (setHandleID (hsID status) \<circ> setResourceID portName)) (s\<lparr>svManager := m\<rparr>),
                  None)))"

definition virtualError :: "service_error \<Rightarrow> runtime_error" where
  "virtualError e = (case e of SvVirtual v \<Rightarrow> RVirtual v | SvInvalid m \<Rightarrow> RInvalid m | _ \<Rightarrow> RInvalid [])"

definition graphVirtualID :: "graphRuntime \<Rightarrow> nodeSpec \<Rightarrow> string" where
  "graphVirtualID r spec = (let configured = graphStringConfig (nsConfig spec) ''id'' in
     if configured = [] then grID r @ ''-'' @ nsID spec else configured)"

definition startVirtualNode :: "startEnv \<Rightarrow> nat \<Rightarrow> graphNode \<Rightarrow> serialService \<Rightarrow> serialService \<times> runtime_error option" where
  "startVirtualNode env a node s =
     (let i = nsID (gnSpec node); c = nsConfig (gnSpec node); portName = graphStringConfig c ''portName'' in
      if portName = [] then (s, None)
      else case ensureGraphPortAvailable s portName of
          Some e \<Rightarrow> (setNodeError a node e s, Some e)
        | None \<Rightarrow>
            (let pairID = graphVirtualID (graphAt s a) (gnSpec node) in
             case CreateVirtualPort (stMake env pairID portName) pairID portName s of
               (s1, Inl e) \<Rightarrow> (setNodeError a node (virtualError e) s1,
                              Some (RWrap ''start graph virtual node '' i (virtualError e)))
             | (s1, Inr pair) \<Rightarrow>
                 (case managerOpen (stOpen env i) (svManager s1)
                     ((graphSerialConfig c)\<lparr>scPortName := monitorEndpoint s1 (vpPort1 pair)\<rparr>) of
                    (m, Inl e) \<Rightarrow>
                      (setNodeError a node (ROpen e)
                         (fst (DeleteVirtualPair (stUnpair env (vpID pair)) (vpID pair) (s1\<lparr>svManager := m\<rparr>))),
                       Some (RWrap ''start graph virtual node peer '' i (ROpen e)))
                  | (m, Inr status) \<Rightarrow>
                      (onGraph a (addOwnedVirtualPort (vpID pair) \<circ> addOwnedPort (hsID status)
                           \<circ> runtimeOnNode i (setHandleID (hsID status) \<circ> setResourceID (vpPort1 pair)))
                         (s1\<lparr>svManager := m\<rparr>), None))))"

definition startRemoteNode :: "startEnv \<Rightarrow> nat \<Rightarrow> graphNode \<Rightarrow> serialService \<Rightarrow> serialService \<times> runtime_error option" where
  "startRemoteNode env a node s =
     (let i = nsID (gnSpec node); c = nsConfig (gnSpec node); at = (\<lambda>f. onGraph a (runtimeOnNode i f)) in
      case graphRemoteEndpoint (stLower env) c of
        Inl es \<Rightarrow> (setNodeError a node (REndpoint es) s, Some (REndpoint es))
      | Inr endpoint \<Rightarrow>
          (let s1 = at (setResourceID (''raw-tcp://'' @ endpoint)) s in
           if graphStringConfigWithDefault c ''role'' ''client'' = ''server''
           then (case stListen env i of
               Some e \<Rightarrow> (setNodeError a node (RNetwork e) s1,
                         Some (RWrap ''start graph remote server node '' i (RNetwork e)))
             | None \<Rightarrow> (at (nodeSetStatus statusRunning None \<circ> setRemoteListener) s1, None))
           else (case stDial env i of
               Inl e \<Rightarrow>
                 if graphBoolConfig c ''allowStartDisconnected'' False
                 then (at (nodeSetStatus statusReconnecting (Some (RNetwork e))) s1, None)
                 else (setNodeError a node (RNetwork e) s1, Some (RWrap ''start graph remote node '' i (RNetwork e)))
             | Inr conn \<Rightarrow> (at (nodeSetStatus statusRunning None \<circ> setRemoteConn conn) s1, None))))"

definition startNode :: "startEnv \<Rightarrow> nat \<Rightarrow> string \<Rightarrow> serialService \<Rightarrow> serialService \<times> runtime_error option" where
  "startNode env a i s = (case map_of (grNodes (graphAt s a)) i of
       None \<Rightarrow> (s, None)
     | Some node \<Rightarrow>
         if nsType (gnSpec node) = ''serial.physical'' then startPhysicalNode env a node s
         else if nsType (gnSpec node) = ''serial.virtual'' then startVirtualNode env a node s
         else if nsType (gnSpec node) = ''serial.remote'' then startRemoteNode env a node s
         else (s, None))"

text \<open>The loop over the sorted nodes, which the first error ends\<close>

fun startNodes :: "startEnv \<Rightarrow> nat \<Rightarrow> string list \<Rightarrow> serialService \<Rightarrow> serialService \<times> runtime_error option" where
  "startNodes env a [] s = (s, None)"
| "startNodes env a (i # is) s = (case startNode env a i s of
       (s1, Some e) \<Rightarrow> (s1, Some e)
     | (s1, None) \<Rightarrow> startNodes env a is s1)"

definition startResourceNodes :: "startEnv \<Rightarrow> nat \<Rightarrow> serialService \<Rightarrow> serialService \<times> runtime_error option" where
  "startResourceNodes env a s = startNodes env a (sorted_keys (grNodes (graphAt s a))) s"

section \<open>Automatic senders\<close>

definition senderInterval :: "config \<Rightarrow> int" where
  "senderInterval c = max 10 (graphIntConfig c ''intervalMs'' 1000)"

text \<open>The senders and generators found before an error, and the node that has it\<close>

type_synonym auto_plan = "(string \<times> bytes \<times> int) list \<times> (string \<times> int) list"

definition autoSender :: "text_codecs \<Rightarrow> graphNode \<Rightarrow> runtime_error + auto_plan" where
  "autoSender codecs node =
     (let spec = gnSpec node; c = nsConfig spec; i = nsID spec in
      if nsType spec = ''serial.script.generator''
      then Inr ([], if graphBoolConfig c ''autoRun'' False then [(i, senderInterval c)] else [])
      else if nsType spec \<noteq> ''serial.modbus.master'' \<and> nsType spec \<noteq> ''serial.fecbus.master'' then Inr ([], [])
      else if \<not> graphBoolConfig c ''autoSend'' False then Inr ([], [])
      else map_sum id (\<lambda>data. ([(i, data, senderInterval c)], [])) (graphAutoNodeData codecs spec))"

fun autoSenders :: "text_codecs \<Rightarrow> graphNode list \<Rightarrow> (graphNode \<times> runtime_error) + auto_plan" where
  "autoSenders codecs [] = Inr ([], [])"
| "autoSenders codecs (node # ns) = (case autoSender codecs node of
       Inl e \<Rightarrow> Inl (node, e)
     | Inr (xs, ys) \<Rightarrow> map_sum id (\<lambda>(xs', ys'). (xs @ xs', ys @ ys')) (autoSenders codecs ns))"

definition startAutoSenders :: "startEnv \<Rightarrow> nat \<Rightarrow> serialService \<Rightarrow> serialService \<times> runtime_error option" where
  "startAutoSenders env a s =
     (let r = graphAt s a; nodes = map (\<lambda>i. the (map_of (grNodes r) i)) (sorted_keys (grNodes r)) in
      case autoSenders (stCodecs env) nodes of
        Inl (node, e) \<Rightarrow> (setNodeError a node e s, Some (RWrap ''auto sender '' (nsID (gnSpec node)) e))
      | Inr (xs, ys) \<Rightarrow> (onGraph a (\<lambda>r. r\<lparr>grSenders := xs, grGenerators := ys\<rparr>) s, None))"

section \<open>Starting and stopping a graph\<close>

definition allNodes :: "(graphNode \<Rightarrow> graphNode) \<Rightarrow> graphRuntime \<Rightarrow> graphRuntime" where
  "allNodes f r = r\<lparr>grNodes := map (\<lambda>(i, n). (i, f n)) (grNodes r)\<rparr>"

definition graphBegin :: "graphRuntime \<Rightarrow> graphRuntime" where
  "graphBegin r = allNodes (nodeSetStatus statusRunning None) (r\<lparr>grStatus := statusRunning\<rparr>)"

definition subscribeSerialData :: "graphRuntime \<Rightarrow> graphRuntime" where
  "subscribeSerialData r = r\<lparr>grSubscribed := True\<rparr>"

definition graphFailed :: "runtime_error \<Rightarrow> graphRuntime \<Rightarrow> graphRuntime" where
  "graphFailed e r = r\<lparr>grStatus := statusError, grErr := Some e\<rparr>"

definition graphStart :: "startEnv \<Rightarrow> nat \<Rightarrow> serialService \<Rightarrow> serialService \<times> runtime_error option" where
  "graphStart env a s =
     (if grStatus (graphAt s a) = statusRunning then (s, None)
      else case startResourceNodes env a (onGraph a graphBegin s) of
          (s1, Some e) \<Rightarrow> (onGraph a (graphFailed e) s1, Some e)
        | (s1, None) \<Rightarrow>
            (case startAutoSenders env a (onGraph a subscribeSerialData s1) of
               (s2, Some e) \<Rightarrow> (onGraph a (graphFailed e) s2, Some e)
             | (s2, None) \<Rightarrow> (s2, None)))"

text \<open>The critical section of \<open>stop\<close>, with the remote end points it closes right after\<close>

definition stopNode :: "graphNode \<Rightarrow> graphNode" where
  "stopNode n = (let n1 = nodeSetStatus statusStopped None n in
     if nsType (gnSpec n) = ''serial.remote'' then closeRemoteConn (closeRemoteListener n1) else n1)"

definition graphStopped :: "graphRuntime \<Rightarrow> graphRuntime" where
  "graphStopped r = allNodes stopNode (r\<lparr>grStatus := statusStopped, grSubscribed := False, grSenders := [],
     grGenerators := [], grOwnedPorts := [], grOwnedVPorts := []\<rparr>)"

definition graphStop :: "startEnv \<Rightarrow> nat \<Rightarrow> serialService \<Rightarrow> serialService" where
  "graphStop env a s =
     (let r = graphAt s a in
      if grStatus r = statusStopped then s
      else foldl (\<lambda>s i. fst (ClosePort i s))
        (foldl (\<lambda>s i. fst (DeleteVirtualPair (stUnpair env i) i s)) (onGraph a graphStopped s) (grOwnedVPorts r))
        (grOwnedPorts r))"

section \<open>The service\<close>

text \<open>A graph without a name is named by the clock, which the request then holds.\<close>

definition graphInsert :: "(string \<Rightarrow> string) \<Rightarrow> string option \<Rightarrow> graphStartRequest \<Rightarrow> serialService \<Rightarrow>
    serialService \<times> (service_error + nat)" where
  "graphInsert lower ctxErr req s =
     (case ctxErr of Some e \<Rightarrow> (s, Inl (SvCancelled e))
      | None \<Rightarrow>
        let errs = validateSerialGraphRuntimeRequest lower req in
        if errs \<noteq> [] then (s, Inl (SvTopology errs))
        else if map_of (svGraphs s) (gqID req) \<noteq> None then (s, Inl (SvConflict ''serial graph already running''))
        else (s\<lparr>svGraphs := table_put (gqID req) (length (svHeap s)) (svGraphs s),
                svHeap := svHeap s @ [\<lparr>gwManager = NewPortManager, gwRuntime = newSerialGraphRuntime req,
                  gwPending = [], gwTick = 0\<rparr>]\<rparr>, Inr (length (svHeap s))))"

definition graphRemove :: "string \<Rightarrow> nat \<Rightarrow> serialService \<Rightarrow> serialService" where
  "graphRemove i a s = (if map_of (svGraphs s) i = Some a then s\<lparr>svGraphs := table_del i (svGraphs s)\<rparr> else s)"

definition graphView :: "serialService \<Rightarrow> nat \<Rightarrow> graphWorld" where
  "graphView s a = (svHeap s ! a)\<lparr>gwManager := svManager s\<rparr>"

definition StartSerialGraph :: "startEnv \<Rightarrow> string option \<Rightarrow> string \<Rightarrow> graphStartRequest \<Rightarrow> serialService \<Rightarrow>
    serialService \<times> (service_error + string \<times> string \<times> runtime_error option \<times> nodeStatus list)" where
  "StartSerialGraph env ctxErr now req0 s =
     (let req = (if gqID req0 = [] then req0\<lparr>gqID := ''serial-graph-'' @ now\<rparr> else req0) in
      case graphInsert (stLower env) ctxErr req s of
        (s1, Inl e) \<Rightarrow> (s1, Inl e)
      | (s1, Inr a) \<Rightarrow>
          (case graphStart env a s1 of
             (s2, Some e) \<Rightarrow> (graphStop env a (graphRemove (gqID req) a s2), Inl (SvGraph e))
           | (s2, None) \<Rightarrow> (s2, Inr (graphInfo (graphView s2 a)))))"

definition StopSerialGraph :: "startEnv \<Rightarrow> string \<Rightarrow> serialService \<Rightarrow> serialService \<times> service_error option" where
  "StopSerialGraph env i s =
     (if i = [] then (s, Some (SvInvalid ''graph ID must not be empty''))
      else case map_of (svGraphs s) i of
          None \<Rightarrow> (s, Some (SvNotFound i))
        | Some a \<Rightarrow> (graphStop env a (s\<lparr>svGraphs := table_del i (svGraphs s)\<rparr>), None))"

definition serialGraphRuntime :: "serialService \<Rightarrow> string \<Rightarrow> service_error + nat" where
  "serialGraphRuntime s i = (if i = [] then Inl (SvInvalid ''graph ID must not be empty'')
     else case map_of (svGraphs s) i of None \<Rightarrow> Inl (SvNotFound i) | Some a \<Rightarrow> Inr a)"

definition putGraph :: "nat \<Rightarrow> graphWorld \<Rightarrow> serialService \<Rightarrow> serialService" where
  "putGraph a w s = s\<lparr>svManager := gwManager w, svHeap := (svHeap s)[a := w]\<rparr>"

text \<open>\<open>None\<close> if the message does not stop travelling.\<close>

definition SendSerialGraphNode :: "graphEnv \<Rightarrow> string \<Rightarrow> graphSendRequest \<Rightarrow> serialService \<Rightarrow>
    (serialService \<times> (service_error + int)) option" where
  "SendSerialGraphNode env graphID req s =
     (if gsNodeID req = [] then Some (s, Inl (SvInvalid ''node ID must not be empty''))
      else case serialGraphRuntime s graphID of
          Inl e \<Rightarrow> Some (s, Inl e)
        | Inr a \<Rightarrow> map_option (\<lambda>(w, r). (putGraph a w s, map_sum SvGraph id r)) (sendRequest env req (graphView s a)))"

definition QuerySerialGraphNodeBuffer :: "serialService \<Rightarrow> string \<Rightarrow> string \<Rightarrow> int \<Rightarrow> int \<Rightarrow> service_error + snapshot option" where
  "QuerySerialGraphNodeBuffer s graphID nodeID offset len =
     (case serialGraphRuntime s graphID of Inl e \<Rightarrow> Inl e
      | Inr a \<Rightarrow> map_sum SvGraph id (queryBuffer (graphView s a) nodeID offset (if len \<le> 0 then 4096 else len)))"

definition QuerySerialGraphNodeFrames :: "(string \<Rightarrow> string) \<Rightarrow> serialService \<Rightarrow> string \<Rightarrow> string \<Rightarrow> frameQuery \<Rightarrow>
    service_error + graphFramePage option" where
  "QuerySerialGraphNodeFrames lower s graphID nodeID req =
     (case serialGraphRuntime s graphID of Inl e \<Rightarrow> Inl e
      | Inr a \<Rightarrow> map_sum SvGraph id (graphQuery lower (graphView s a) nodeID
          (if fyLimit req \<le> 0 then req\<lparr>fyLimit := frameQueryLimit\<rparr> else req)))"

definition onGraphWorld :: "(graphWorld \<Rightarrow> graphWorld \<times> runtime_error option) \<Rightarrow> string \<Rightarrow> serialService \<Rightarrow>
    serialService \<times> service_error option" where
  "onGraphWorld f graphID s = (case serialGraphRuntime s graphID of Inl e \<Rightarrow> (s, Some e)
     | Inr a \<Rightarrow> (case f (graphView s a) of (w, e) \<Rightarrow> (putGraph a w s, map_option SvGraph e)))"

definition ClearSerialGraphNodeBuffer :: "string \<Rightarrow> string \<Rightarrow> serialService \<Rightarrow> serialService \<times> service_error option" where
  "ClearSerialGraphNodeBuffer graphID nodeID s = onGraphWorld (clearBuffer nodeID) graphID s"

definition ResetSerialGraphNodeCounters :: "string \<Rightarrow> string \<Rightarrow> serialService \<Rightarrow> serialService \<times> service_error option" where
  "ResetSerialGraphNodeCounters graphID nodeID s = onGraphWorld (resetCounters nodeID) graphID s"

definition ListSerialGraphs :: "serialService \<Rightarrow> (string \<times> string \<times> runtime_error option \<times> nodeStatus list) list" where
  "ListSerialGraphs s = sort_key fst (map (\<lambda>(_, a). graphInfo (graphView s a)) (svGraphs s))"

definition GetSerialGraphStatus :: "serialService \<Rightarrow> string \<Rightarrow>
    service_error + (string \<times> string \<times> runtime_error option \<times> nodeStatus list)" where
  "GetSerialGraphStatus s i = map_sum id (\<lambda>a. graphInfo (graphView s a)) (serialGraphRuntime s i)"

definition stopAllSerialGraphs :: "startEnv \<Rightarrow> serialService \<Rightarrow> serialService" where
  "stopAllSerialGraphs env s = foldl (\<lambda>s (_, a). graphStop env a s) (s\<lparr>svGraphs := []\<rparr>) (svGraphs s)"

definition cleanup :: "startEnv \<Rightarrow> serialService \<Rightarrow> serialService" where
  "cleanup env s =
     (let s1 = stopAllSerialGraphs env s in
      s1\<lparr>svManager := managerCloseAll (svManager s1), svMonitors := monCleanup (svMonitors s1),
         svModbus := CloseAll (svModbus s1), svFecbus := FecCloseAll (svFecbus s1),
         svVirtual := virtualCleanup (svVirtual s1), svBuffers := [], svAuto := [], svGraphs := []\<rparr>)"

end
