(* ===== verification/GraphControlFacts.thy ===== *)
theory GraphControlFacts
  imports GraphControl
begin

text \<open>
  Resources of graphs: a graph takes ports and virtual ports of the service, which a failed start and a
  stop give back, unless a stop runs while the graph is still starting.
\<close>

section \<open>What a graph borrows\<close>

definition openHandles :: "serialService \<Rightarrow> string \<rightharpoonup> handle" where
  "openHandles s = map_of (pmHandles (svManager s))"

definition openPairs :: "serialService \<Rightarrow> string \<rightharpoonup> virtualPair" where
  "openPairs s = map_of (vmPairs (svVirtual s))"

definition receiveBuffers :: "serialService \<Rightarrow> string \<rightharpoonup> ringBuffer" where
  "receiveBuffers s = map_of (svBuffers s)"

text \<open>What no graph ever touches\<close>

definition otherParts :: "serialService \<Rightarrow> (string, bridge) table \<times> monitorManager \<times> modbusManager \<times> fecManager \<times> (string, string) table" where
  "otherParts s = (vmBridges (svVirtual s), svMonitors s, svModbus s, svFecbus s, svAuto s)"

definition same_resources :: "serialService \<Rightarrow> serialService \<Rightarrow> bool" where
  "same_resources s t \<longleftrightarrow> openHandles t = openHandles s \<and> openPairs t = openPairs s
     \<and> receiveBuffers t = receiveBuffers s \<and> otherParts t = otherParts s \<and> map_of (svGraphs t) = map_of (svGraphs s)"

text \<open>Handles have numbers up to the counter, a buffer belongs to a number given out, a pair has a name.\<close>

definition service_ok :: "serialService \<Rightarrow> bool" where
  "service_ok s \<longleftrightarrow> portManager_wf (svManager s) \<and> openPairs s [] = None
     \<and> (\<forall>i \<in> dom (receiveBuffers s). \<exists>n \<le> pmNextID (svManager s). i = portID n)"

text \<open>The back end names the pair as it was asked to, and pairs can be stopped.\<close>

definition backend_ok :: "startEnv \<Rightarrow> bool" where
  "backend_ok env \<longleftrightarrow> (\<forall>i n p. stMake env i n = Inr (Some p) \<longrightarrow> vpID p = i) \<and> (\<forall>i. stUnpair env i = None)"

lemmas service_views = openHandles_def openPairs_def receiveBuffers_def otherParts_def

lemma close_views:
  "openHandles (fst (ClosePort i s)) = (openHandles s)(i := None)"
  "openPairs (fst (ClosePort i s)) = openPairs s" "otherParts (fst (ClosePort i s)) = otherParts s"
  "svGraphs (fst (ClosePort i s)) = svGraphs s"
  by (auto simp: ClosePort_def managerClose_def service_views fun_eq_iff split: option.split)

lemma close_buffers:
  "receiveBuffers s i = None \<Longrightarrow> receiveBuffers (fst (ClosePort i s)) = receiveBuffers s"
  by (auto simp: ClosePort_def managerClose_def service_views fun_eq_iff split: option.split)

lemma unpair_views:
  "openPairs s [] = None \<Longrightarrow> openPairs (fst (DeleteVirtualPair None i s)) = (openPairs s)(i := None)"
  "openHandles (fst (DeleteVirtualPair None i s)) = openHandles s"
  "receiveBuffers (fst (DeleteVirtualPair None i s)) = receiveBuffers s"
  "otherParts (fst (DeleteVirtualPair None i s)) = otherParts s"
  "svGraphs (fst (DeleteVirtualPair None i s)) = svGraphs s"
  "svManager (fst (DeleteVirtualPair None i s)) = svManager s" "svHeap (fst (DeleteVirtualPair None i s)) = svHeap s"
  by (auto simp: DeleteVirtualPair_def virtualDeletePair_def pairStop_def service_views fun_eq_iff split: option.split prod.split)

interpretation handles: lending_table "\<lambda>s. True" openHandles "\<lambda>i s. fst (ClosePort i s)"
  by unfold_locales (simp_all add: close_views)

interpretation pairs: lending_table "\<lambda>s. openPairs s [] = None" openPairs "\<lambda>i s. fst (DeleteVirtualPair None i s)"
  by unfold_locales (simp_all add: unpair_views)

lemma unpairs_views:
  "openHandles (foldl (\<lambda>s i. fst (DeleteVirtualPair None i s)) s is) = openHandles s"
  "receiveBuffers (foldl (\<lambda>s i. fst (DeleteVirtualPair None i s)) s is) = receiveBuffers s"
  "otherParts (foldl (\<lambda>s i. fst (DeleteVirtualPair None i s)) s is) = otherParts s"
  "svGraphs (foldl (\<lambda>s i. fst (DeleteVirtualPair None i s)) s is) = svGraphs s"
  by (induction "is" arbitrary: s) (simp_all add: unpair_views)

lemma closes_views:
  "openPairs (foldl (\<lambda>s i. fst (ClosePort i s)) s is) = openPairs s"
  "otherParts (foldl (\<lambda>s i. fst (ClosePort i s)) s is) = otherParts s"
  "svGraphs (foldl (\<lambda>s i. fst (ClosePort i s)) s is) = svGraphs s"
  by (induction "is" arbitrary: s) (simp_all add: close_views)

lemma closes_buffers:
  "\<forall>i \<in> set is. receiveBuffers s i = None \<Longrightarrow> receiveBuffers (foldl (\<lambda>s i. fst (ClosePort i s)) s is) = receiveBuffers s"
  by (induction "is" arbitrary: s) (simp_all add: close_buffers)

text \<open>The service is what it was plus ports and pairs that are on loan.\<close>

definition holding :: "serialService \<Rightarrow> serialService \<Rightarrow> string set \<Rightarrow> string set \<Rightarrow> bool" where
  "holding s0 s P V \<longleftrightarrow> service_ok s \<and> service_ok s0
     \<and> on_loan (openHandles s0) (openHandles s) P \<and> on_loan (openPairs s0) (openPairs s) V
     \<and> receiveBuffers s = receiveBuffers s0 \<and> (\<forall>i \<in> P. receiveBuffers s0 i = None)
     \<and> otherParts s = otherParts s0"

definition borrowing :: "serialService \<Rightarrow> nat \<Rightarrow> serialService \<Rightarrow> bool" where
  "borrowing s0 a s \<longleftrightarrow> a < length (svHeap s)
     \<and> holding s0 s (set (grOwnedPorts (graphAt s a))) (set (grOwnedVPorts (graphAt s a)))"

lemma onGraph_views [simp]:
  "svManager (onGraph a f s) = svManager s" "svVirtual (onGraph a f s) = svVirtual s"
  "svBuffers (onGraph a f s) = svBuffers s" "svGraphs (onGraph a f s) = svGraphs s"
  "length (svHeap (onGraph a f s)) = length (svHeap s)"
  "openHandles (onGraph a f s) = openHandles s" "openPairs (onGraph a f s) = openPairs s"
  "receiveBuffers (onGraph a f s) = receiveBuffers s" "otherParts (onGraph a f s) = otherParts s"
  "a < length (svHeap s) \<Longrightarrow> graphAt (onGraph a f s) a = f (graphAt s a)"
  by (simp_all add: onGraph_def service_views graphAt_def)

lemma service_ok_onGraph [simp]: "service_ok (onGraph a f s) = service_ok s"
  by (simp add: service_ok_def)

lemma owned_simps [simp]:
  "grOwnedPorts (runtimeOnNode i f r) = grOwnedPorts r" "grOwnedVPorts (runtimeOnNode i f r) = grOwnedVPorts r"
  "grOwnedPorts (allNodes g r) = grOwnedPorts r" "grOwnedVPorts (allNodes g r) = grOwnedVPorts r"
  "grOwnedPorts (graphBegin r) = grOwnedPorts r" "grOwnedVPorts (graphBegin r) = grOwnedVPorts r"
  "grOwnedPorts (graphFailed e r) = grOwnedPorts r" "grOwnedVPorts (graphFailed e r) = grOwnedVPorts r"
  "grOwnedPorts (subscribeSerialData r) = grOwnedPorts r" "grOwnedVPorts (subscribeSerialData r) = grOwnedVPorts r"
  by (simp_all add: runtimeOnNode_def allNodes_def graphBegin_def graphFailed_def subscribeSerialData_def split: option.split)

lemma holding_onGraph [simp]: "holding s0 (onGraph a f s) P V = holding s0 s P V"
  by (simp add: holding_def)

lemma borrowing_onGraph:
  assumes "borrowing s0 a s"
    and "grOwnedPorts (f (graphAt s a)) = grOwnedPorts (graphAt s a)"
    and "grOwnedVPorts (f (graphAt s a)) = grOwnedVPorts (graphAt s a)"
  shows "borrowing s0 a (onGraph a f s)"
  using assms by (simp add: borrowing_def)

lemma borrowing_error: "borrowing s0 a s \<Longrightarrow> borrowing s0 a (setNodeError a node e s)"
  by (simp add: setNodeError_def borrowing_onGraph)

section \<open>Starting borrows, stopping returns\<close>

text \<open>Opening a port for the graph\<close>

lemma open_result:
  assumes "portManager_wf m"
  shows "managerOpen ev m config = (m', Inl e) \<Longrightarrow> m' = m"
    and "managerOpen ev m config = (m', Inr status) \<Longrightarrow> hsID status = portID (Suc (pmNextID m)) \<and> portManager_wf m'
      \<and> pmNextID m' = Suc (pmNextID m) \<and> hsID status \<noteq> []
      \<and> map_of (pmHandles m') = (map_of (pmHandles m))(hsID status \<mapsto> newHandle (hsID status) config)"
proof -
  have wf: "portManager_wf (fst (managerOpen ev m config))" using managerOpen_cases [OF assms, of config ev] assms by auto
  show "managerOpen ev m config = (m', Inl e) \<Longrightarrow> m' = m"
    by (auto simp: managerOpen_def Let_def split: if_splits option.splits)
  assume r: "managerOpen ev m config = (m', Inr status)"
  then have "m' = m\<lparr>pmNextID := Suc (pmNextID m), pmHandles := table_put (portID (Suc (pmNextID m)))
        (newHandle (portID (Suc (pmNextID m))) config) (pmHandles m)\<rparr>" "hsID status = portID (Suc (pmNextID m))"
    by (auto simp: managerOpen_def Let_def handleStatusOf_def newHandle_def split: if_splits option.splits)
  with wf r show "hsID status = portID (Suc (pmNextID m)) \<and> portManager_wf m'
      \<and> pmNextID m' = Suc (pmNextID m) \<and> hsID status \<noteq> []
      \<and> map_of (pmHandles m') = (map_of (pmHandles m))(hsID status \<mapsto> newHandle (hsID status) config)"
    by (simp add: portID_def)
qed

lemma service_ok_open:
  assumes "service_ok s" and "managerOpen ev (svManager s) config = (m, Inr status)"
  shows "service_ok (s\<lparr>svManager := m\<rparr>)"
proof -
  note o = open_result(2) [OF _ assms(2)]
  have "\<exists>n \<le> pmNextID m. i = portID n" if "i \<in> dom (receiveBuffers s)" for i
    using that assms(1) o unfolding service_ok_def by (metis le_SucI)
  with assms o show ?thesis by (simp add: service_ok_def receiveBuffers_def openPairs_def)
qed

lemma holding_port:
  assumes h: "holding s0 s P V" and r: "managerOpen ev (svManager s) config = (m, Inr status)"
  shows "holding s0 (s\<lparr>svManager := m\<rparr>) (insert (hsID status) P) V"
proof -
  have ok: "service_ok s" and wf: "portManager_wf (svManager s)" using h by (simp_all add: holding_def service_ok_def)
  note o = open_result(2) [OF wf r]
  have new: "openHandles s (hsID status) = None" using fresh_portID [OF wf] o by (simp add: openHandles_def)
  have nb: "receiveBuffers s0 (hsID status) = None"
  proof (rule ccontr)
    assume "receiveBuffers s0 (hsID status) \<noteq> None"
    then obtain n where "n \<le> pmNextID (svManager s)" "hsID status = portID n"
      using h ok unfolding holding_def service_ok_def by fastforce
    with o show False by simp
  qed
  have "openHandles (s\<lparr>svManager := m\<rparr>) = (openHandles s)(hsID status \<mapsto> newHandle (hsID status) config)"
    using o by (simp add: openHandles_def)
  then have "on_loan (openHandles s0) (openHandles (s\<lparr>svManager := m\<rparr>)) (insert (hsID status) P)"
    using on_loan_take [of "openHandles s0" "openHandles s" P "hsID status"] h new by (simp add: holding_def)
  moreover have "openPairs (s\<lparr>svManager := m\<rparr>) = openPairs s"
    "receiveBuffers (s\<lparr>svManager := m\<rparr>) = receiveBuffers s" "otherParts (s\<lparr>svManager := m\<rparr>) = otherParts s"
    by (simp_all add: service_views)
  ultimately show ?thesis using h nb service_ok_open [OF ok r] by (simp add: holding_def)
qed

lemma portID_nonempty [simp]: "portID n \<noteq> []"
  by (simp add: portID_def)

lemma open_fails: "service_ok s \<Longrightarrow> managerOpen ev (svManager s) config = (m, Inl e) \<Longrightarrow> s\<lparr>svManager := m\<rparr> = s"
  using open_result(1) [of "svManager s" ev config m e] by (simp add: service_ok_def)

lemma open_status: "service_ok s \<Longrightarrow> managerOpen ev (svManager s) config = (m, Inr status) \<Longrightarrow> hsID status \<noteq> []"
  using open_result(2) [of "svManager s" ev config m status] by (simp add: service_ok_def)

lemma holding_ok: "holding s0 s P V \<Longrightarrow> service_ok s"
  by (simp add: holding_def)

text \<open>Making a virtual port, and removing it again\<close>

lemma virtual_create_result:
  "CreateVirtualPort made i n s = (s', Inl e) \<Longrightarrow> s' = s"
  "CreateVirtualPort made i n s = (s', Inr pair) \<Longrightarrow> openPairs s i = None \<and> i \<noteq> []
     \<and> (\<exists>p. made = Inr (Some p) \<and> vpID pair = vpID p) \<and> openPairs s' = (openPairs s)(i \<mapsto> pair)"
  "CreateVirtualPort made i n s = (s', r) \<Longrightarrow> svManager s' = svManager s \<and> svHeap s' = svHeap s
     \<and> openHandles s' = openHandles s \<and> receiveBuffers s' = receiveBuffers s \<and> otherParts s' = otherParts s"
  by (auto simp: CreateVirtualPort_def virtualCreatePort_def virtualCreatePair_def service_views
      split: if_splits sum.splits option.splits)

lemma holding_pair:
  assumes "holding s0 s P V" and c: "CreateVirtualPort made i n s = (s1, Inr pair)"
  shows "holding s0 s1 P (insert i V)"
  using on_loan_take [of "openPairs s0" "openPairs s" V i pair] assms(1)
    virtual_create_result(2) [OF c] virtual_create_result(3) [OF c]
  by (auto simp: holding_def service_ok_def)

lemma holding_unpair:
  assumes "holding s0 s P (insert i V)"
  shows "holding s0 (fst (DeleteVirtualPair None i s)) P V"
  using assms by (simp add: holding_def service_ok_def unpair_views on_loan_def)

section \<open>Every node\<close>

lemma startPhysical_borrows:
  assumes b: "borrowing s0 a s"
  shows "borrowing s0 a (fst (startPhysicalNode env a node s))"
proof -
  let ?c = "graphSerialConfig (nsConfig (gnSpec node))"
  have h: "holding s0 s (set (grOwnedPorts (graphAt s a))) (set (grOwnedVPorts (graphAt s a)))" "a < length (svHeap s)"
    using b by (simp_all add: borrowing_def)
  obtain m r where m: "managerOpen (stOpen env (nsID (gnSpec node))) (svManager s) ?c = (m, r)" by fastforce
  show ?thesis
  proof (cases r)
    case (Inl e)
    with m open_fails [OF holding_ok [OF h(1)]] b show ?thesis
      by (simp add: startPhysicalNode_def Let_def borrowing_error split: option.split)
  next
    case (Inr status)
    note m1 = m [unfolded Inr]
    have "graphAt (s\<lparr>svManager := m\<rparr>) a = graphAt s a" by (simp add: graphAt_def)
    with b h(2) m1 open_status [OF holding_ok [OF h(1)] m1] holding_port [OF h(1) m1] show ?thesis
      by (simp add: startPhysicalNode_def Let_def borrowing_def setNodeError_def addOwnedPort_def split: option.split)
  qed
qed

lemma startVirtual_borrows:
  assumes env: "backend_ok env" and b: "borrowing s0 a s"
  shows "borrowing s0 a (fst (startVirtualNode env a node s))"
proof -
  let ?n = "graphStringConfig (nsConfig (gnSpec node)) ''portName''" and ?i = "graphVirtualID (graphAt s a) (gnSpec node)"
  let ?P = "set (grOwnedPorts (graphAt s a))" and ?V = "set (grOwnedVPorts (graphAt s a))"
  have h: "holding s0 s ?P ?V" "a < length (svHeap s)" using b by (simp_all add: borrowing_def)
  show ?thesis
  proof (cases "?n = [] \<or> ensureGraphPortAvailable s ?n \<noteq> None")
    case True
    with b show ?thesis by (auto simp: startVirtualNode_def Let_def borrowing_error split: option.split)
  next
    case False
    obtain s1 r where c: "CreateVirtualPort (stMake env ?i ?n) ?i ?n s = (s1, r)" by fastforce
    note same = virtual_create_result(3) [OF c]
    then have at1: "graphAt s1 a = graphAt s a" by (simp add: graphAt_def)
    show ?thesis
    proof (cases r)
      case (Inl e)
      with c have "s1 = s" using virtual_create_result(1) by blast
      with False Inl c b show ?thesis by (simp add: startVirtualNode_def Let_def borrowing_error)
    next
      case (Inr pair)
      note c1 = c [unfolded Inr]
      have pid: "vpID pair = ?i" "?i \<noteq> []" "stUnpair env j = None" for j
        using virtual_create_result(2) [OF c1] env by (auto simp: backend_ok_def)
      have h1: "holding s0 s1 ?P (insert ?i ?V)" by (rule holding_pair [OF h(1) c1])
      obtain m r1 where m: "managerOpen (stOpen env (nsID (gnSpec node))) (svManager s1)
          ((graphSerialConfig (nsConfig (gnSpec node)))\<lparr>scPortName := monitorEndpoint s1 (vpPort1 pair)\<rparr>) = (m, r1)" by fastforce
      show ?thesis
      proof (cases r1)
        case (Inl e)
        have "borrowing s0 a (fst (DeleteVirtualPair None ?i s1))"
          using holding_unpair [OF h1] h(2) same by (simp add: borrowing_def graphAt_def unpair_views)
        with False Inl c1 m open_fails [OF holding_ok [OF h1]] pid show ?thesis
          by (simp add: startVirtualNode_def Let_def borrowing_error)
      next
        case (Inr status)
        note m1 = m [unfolded Inr]
        have "graphAt (s1\<lparr>svManager := m\<rparr>) a = graphAt s a" using at1 by (simp add: graphAt_def)
        with False c1 m1 pid h(2) same holding_port [OF h1 m1] open_status [OF holding_ok [OF h1] m1] show ?thesis
          by (simp add: startVirtualNode_def Let_def borrowing_def addOwnedPort_def addOwnedVirtualPort_def)
      qed
    qed
  qed
qed

lemma startRemote_borrows: "borrowing s0 a s \<Longrightarrow> borrowing s0 a (fst (startRemoteNode env a node s))"
  by (simp add: startRemoteNode_def Let_def borrowing_error borrowing_onGraph split: sum.split option.split)

lemma startNode_borrows:
  "backend_ok env \<Longrightarrow> borrowing s0 a s \<Longrightarrow> borrowing s0 a (fst (startNode env a i s))"
  by (simp add: startNode_def startPhysical_borrows startVirtual_borrows startRemote_borrows split: option.split)

lemma startNodes_borrows:
  "backend_ok env \<Longrightarrow> borrowing s0 a s \<Longrightarrow> borrowing s0 a (fst (startNodes env a is s))"
proof (induction "is" arbitrary: s)
  case (Cons i "is")
  from startNode_borrows [OF Cons.prems, of i] Cons.IH [OF Cons.prems(1)] show ?case
    by (cases "startNode env a i s") (auto split: option.split)
qed simp

lemma startAuto_borrows: "borrowing s0 a s \<Longrightarrow> borrowing s0 a (fst (startAutoSenders env a s))"
  by (auto simp: startAutoSenders_def Let_def borrowing_error borrowing_onGraph split: sum.split)

lemma graphStart_borrows:
  assumes "backend_ok env" and "borrowing s0 a s"
  shows "borrowing s0 a (fst (graphStart env a s))"
proof -
  have b1: "borrowing s0 a (onGraph a graphBegin s)" using assms(2) by (simp add: borrowing_onGraph)
  obtain s1 r1 where s1: "startResourceNodes env a (onGraph a graphBegin s) = (s1, r1)" by fastforce
  with startNodes_borrows [OF assms(1) b1] have b2: "borrowing s0 a s1" by (metis fst_conv startResourceNodes_def)
  obtain s2 r2 where s2: "startAutoSenders env a (onGraph a subscribeSerialData s1) = (s2, r2)" by fastforce
  have "borrowing s0 a s2" using startAuto_borrows [of s0 a "onGraph a subscribeSerialData s1" env] b2 s2
    by (simp add: borrowing_onGraph)
  then show ?thesis using assms(2) b2 s1 s2
    by (simp add: graphStart_def borrowing_onGraph split: option.split)
qed

text \<open>Neither the table of graphs nor the heap's size changes while a graph starts.\<close>

lemma error_graphs [simp]: "svGraphs (setNodeError a node e s) = svGraphs s"
  by (simp add: setNodeError_def)

lemma virtual_graphs: "CreateVirtualPort made i n s = (s', r) \<Longrightarrow> svGraphs s' = svGraphs s"
  by (auto simp: CreateVirtualPort_def split: if_splits prod.splits)

lemma startNode_graphs: "svGraphs (fst (startNode env a i s)) = svGraphs s"
proof -
  have d: "svGraphs (fst (DeleteVirtualPair out i s)) = svGraphs s" for out i s
    by (simp add: DeleteVirtualPair_def split: prod.split)
  show ?thesis
    by (auto simp: startNode_def startPhysicalNode_def startVirtualNode_def startRemoteNode_def Let_def d
        dest: virtual_graphs split: option.split sum.split prod.split)
qed

lemma startNodes_graphs: "svGraphs (fst (startNodes env a is s)) = svGraphs s"
proof (induction "is" arbitrary: s)
  case (Cons i "is")
  from startNode_graphs [of env a i s] Cons.IH show ?case by (cases "startNode env a i s") (auto split: option.split)
qed simp

lemma startAuto_graphs: "svGraphs (fst (startAutoSenders env a s)) = svGraphs s"
  by (auto simp: startAutoSenders_def Let_def split: sum.split)

lemma graphStart_graphs: "svGraphs (fst (graphStart env a s)) = svGraphs s"
  using startNodes_graphs [of env a _ "onGraph a graphBegin s"] startAuto_graphs [of env a "onGraph a subscribeSerialData _"]
  by (auto simp: graphStart_def startResourceNodes_def split: option.split prod.split)
    (metis fst_conv onGraph_views(4))+

text \<open>Stopping returns what is on loan.\<close>

lemma graphStop_returns:
  assumes env: "backend_ok env" and b: "borrowing s0 a s" and live: "grStatus (graphAt s a) \<noteq> statusStopped"
  shows "openHandles (graphStop env a s) = openHandles s0" and "openPairs (graphStop env a s) = openPairs s0"
    and "receiveBuffers (graphStop env a s) = receiveBuffers s0" and "otherParts (graphStop env a s) = otherParts s0"
    and "svGraphs (graphStop env a s) = svGraphs s"
proof -
  let ?P = "grOwnedPorts (graphAt s a)" and ?V = "grOwnedVPorts (graphAt s a)"
  let ?s1 = "foldl (\<lambda>s i. fst (DeleteVirtualPair None i s)) (onGraph a graphStopped s) ?V"
  let ?s2 = "foldl (\<lambda>s i. fst (ClosePort i s)) ?s1 ?P"
  have h: "holding s0 s (set ?P) (set ?V)" using b by (simp add: borrowing_def)
  have r: "graphStop env a s = ?s2" using live env by (simp add: graphStop_def Let_def backend_ok_def)
  have "openPairs ?s1 = openPairs s0"
    using h by (intro pairs.release_all) (simp_all add: holding_def service_ok_def)
  then show "openPairs (graphStop env a s) = openPairs s0" by (simp add: r closes_views)
  have "openHandles ?s2 = openHandles s0"
    using h by (intro handles.release_all) (simp_all add: holding_def unpairs_views)
  then show "openHandles (graphStop env a s) = openHandles s0" by (simp add: r)
  show "receiveBuffers (graphStop env a s) = receiveBuffers s0"
    using h by (simp add: r closes_buffers unpairs_views holding_def)
  show "otherParts (graphStop env a s) = otherParts s0" "svGraphs (graphStop env a s) = svGraphs s"
    using h by (simp_all add: r closes_views unpairs_views holding_def)
qed

text \<open>A start that ends in an error has failed; one that succeeds is running.\<close>

lemma onGraph_status:
  assumes "grStatus (f (graphAt s a)) = grStatus (graphAt s a)"
  shows "grStatus (graphAt (onGraph a f s) b) = grStatus (graphAt s b)"
proof (cases "a < length (svHeap s)")
  case True
  with assms show ?thesis by (cases "b = a") (simp_all add: onGraph_def graphAt_def)
qed (simp add: onGraph_def graphAt_def list_update_beyond)

lemma status_helpers [simp]:
  "grStatus (runtimeOnNode i f r) = grStatus r" "grStatus (addOwnedPort i r) = grStatus r"
  "grStatus (addOwnedVirtualPort i r) = grStatus r" "grStatus (subscribeSerialData r) = grStatus r"
  by (simp_all add: runtimeOnNode_def addOwnedPort_def addOwnedVirtualPort_def subscribeSerialData_def split: option.split)

lemma error_status [simp]: "grStatus (graphAt (setNodeError a node e s) b) = grStatus (graphAt s b)"
  by (simp add: setNodeError_def onGraph_status)

lemma startNode_status: "grStatus (graphAt (fst (startNode env a i s)) b) = grStatus (graphAt s b)"
proof -
  have d: "svHeap (fst (DeleteVirtualPair out i s)) = svHeap s" for out i s
    by (simp add: DeleteVirtualPair_def split: prod.split)
  have v: "CreateVirtualPort made i n s = (s', r) \<Longrightarrow> svHeap s' = svHeap s" for made i n s s' r
    by (simp add: virtual_create_result(3))
  have g: "graphAt (t\<lparr>svManager := m\<rparr>) b = graphAt t b" "svHeap t = svHeap u \<Longrightarrow> graphAt t b = graphAt u b" for t u m
    by (simp_all add: graphAt_def)
  have o: "grStatus (graphAt (onGraph a f t) b) = grStatus (graphAt t b)" if "\<And>r. grStatus (f r) = grStatus r" for f t
    using that by (intro onGraph_status)
  show ?thesis
    by (auto simp: startNode_def startPhysicalNode_def startVirtualNode_def startRemoteNode_def Let_def o g(1) g(2) [OF d]
        dest!: v g(2) split: option.split sum.split prod.split)
qed

lemma startNodes_status: "grStatus (graphAt (fst (startNodes env a is s)) b) = grStatus (graphAt s b)"
proof (induction "is" arbitrary: s)
  case (Cons i "is")
  from startNode_status [of env a i s b] Cons.IH show ?case by (cases "startNode env a i s") (auto split: option.split)
qed simp

lemma startAuto_status: "grStatus (graphAt (fst (startAutoSenders env a s)) b) = grStatus (graphAt s b)"
  by (auto simp: startAutoSenders_def Let_def onGraph_status split: sum.split)

lemma graphStart_status:
  assumes "a < length (svHeap s)" and "backend_ok env" and "borrowing s0 a s"
    and "graphStart env a s = (s', r)"
  shows "grStatus (graphAt s' a) = (if r = None then statusRunning else statusError)"
proof (cases "grStatus (graphAt s a) = statusRunning")
  case False
  have b1: "borrowing s0 a (onGraph a graphBegin s)" using assms(3) by (simp add: borrowing_onGraph)
  obtain s1 r1 where s1: "startResourceNodes env a (onGraph a graphBegin s) = (s1, r1)" by fastforce
  then have st1: "grStatus (graphAt s1 a) = statusRunning"
    using startNodes_status [of env a _ "onGraph a graphBegin s" a] assms(1)
    by (simp add: startResourceNodes_def graphBegin_def allNodes_def) (metis fst_conv)
  have b2: "borrowing s0 a s1" using startNodes_borrows [OF assms(2) b1] s1 by (metis fst_conv startResourceNodes_def)
  obtain s2 r2 where s2: "startAutoSenders env a (onGraph a subscribeSerialData s1) = (s2, r2)" by fastforce
  have b3: "borrowing s0 a s2" using startAuto_borrows [of s0 a "onGraph a subscribeSerialData s1" env] b2 s2
    by (simp add: borrowing_onGraph)
  have "grStatus (graphAt s2 a) = statusRunning"
    using startAuto_status [of env a "onGraph a subscribeSerialData s1" a] s2 st1 by (simp add: onGraph_status)
  with False assms(4) s1 s2 st1 b2 b3 show ?thesis
    by (auto simp: graphStart_def graphFailed_def borrowing_def split: option.splits)
qed (use assms(4) in \<open>auto simp: graphStart_def\<close>)

lemma insert_borrows:
  assumes "service_ok s" and "graphInsert lower ctx req s = (s1, Inr a)"
  shows "borrowing s a s1 \<and> a < length (svHeap s1) \<and> svGraphs s1 = table_put (gqID req) a (svGraphs s)
    \<and> map_of (svGraphs s) (gqID req) = None"
proof -
  have s1: "a = length (svHeap s)" "map_of (svGraphs s) (gqID req) = None"
    "s1 = s\<lparr>svGraphs := table_put (gqID req) a (svGraphs s), svHeap := svHeap s @ [\<lparr>gwManager = NewPortManager,
      gwRuntime = newSerialGraphRuntime req, gwPending = [], gwTick = 0\<rparr>]\<rparr>"
    using assms(2) by (auto simp: graphInsert_def Let_def split: option.splits if_splits)
  then have "graphAt s1 a = newSerialGraphRuntime req" by (simp add: graphAt_def)
  with assms(1) s1(2) show ?thesis
    unfolding s1(3) by (simp add: s1(1) borrowing_def holding_def service_ok_def service_views newSerialGraphRuntime_def)
qed

section \<open>Properties\<close>



section \<open>Instances\<close>

text \<open>A graph of two ports, of which the driver opens the first, and the second only with \<open>e = None\<close>\<close>

definition portNode :: "string \<Rightarrow> string \<Rightarrow> nodeSpec" where
  "portNode i p = \<lparr>nsID = i, nsType = ''serial.physical'', nsConfig = [(''portName'', CString p)]\<rparr>"

definition twoPorts :: graphStartRequest where
  "twoPorts = \<lparr>gqID = ''g'', gqNodes = [portNode ''a'' ''COM1'', portNode ''b'' ''COM2''], gqEdges = []\<rparr>"

definition portEnv :: "openEvent \<Rightarrow> startEnv" where
  "portEnv e = \<lparr>stLower = to_lower, stCodecs = \<lparr>tcEncode = \<lambda>_ _. None, tcDecode = \<lambda>_ _. None\<rparr>,
     stOpen = (\<lambda>i. if i = ''b'' then e else None),
     stMake = (\<lambda>_ _. Inl ''none''), stDial = (\<lambda>_. Inl ''none''), stListen = (\<lambda>_. None), stUnpair = (\<lambda>_. None)\<rparr>"

lemma portEnv_ok: "backend_ok (portEnv e)"
  by (simp add: backend_ok_def portEnv_def)

lemma new_service_ok: "service_ok NewService"
  by (simp add: service_ok_def NewService_def new_portManager service_views NewVirtualManager_def)

lemma twoPorts_valid: "validateSerialGraphRuntimeRequest to_lower twoPorts = []"
  by code_simp

lemma twoPorts_fails:
  "snd (StartSerialGraph (portEnv (Some ''busy'')) None [] twoPorts NewService)
    = Inl (SvGraph (RWrap ''start graph physical node '' ''b'' (ROpen (MOpenFailed ''COM2'' ''busy''))))
    \<and> pmNextID (svManager (fst (StartSerialGraph (portEnv (Some ''busy'')) None [] twoPorts NewService))) = 1"
  by code_simp


lemma twoPorts_runs:
  "is_ok (snd (StartSerialGraph (portEnv None) None [] twoPorts NewService))
    \<and> length (pmHandles (svManager (fst (StartSerialGraph (portEnv None) None [] twoPorts NewService)))) = 2"
  by code_simp


text \<open>The start has opened the first port; another call stops the graph; the start goes on.\<close>

definition halfStarted :: serialService where
  "halfStarted = fst (startNode (portEnv None) 0 ''a''
     (onGraph 0 graphBegin (fst (graphInsert to_lower None twoPorts NewService))))"

definition stoppedEarly :: serialService where
  "stoppedEarly = fst (StopSerialGraph (portEnv None) ''g'' halfStarted)"

definition startedLate :: serialService where
  "startedLate = fst (startAutoSenders (portEnv None) 0
     (onGraph 0 subscribeSerialData (fst (startNode (portEnv None) 0 ''b'' stoppedEarly))))"

text \<open>A stop that runs while the graph starts leaves a port open: the start goes on, opens the port
  of the next node and meets no error, but the graph is no longer in the table, so nothing stops it.\<close>

theorem stop_during_start_leaks:
  "snd (StopSerialGraph (portEnv None) ''g'' halfStarted) = None
    \<and> snd (startNode (portEnv None) 0 ''b'' stoppedEarly) = None
    \<and> snd (startAutoSenders (portEnv None) 0
          (onGraph 0 subscribeSerialData (fst (startNode (portEnv None) 0 ''b'' stoppedEarly)))) = None
    \<and> map (\<lambda>(i, h). scPortName (hdConfig h)) (pmHandles (svManager startedLate)) = [''COM2'']
    \<and> svGraphs startedLate = [] \<and> snd (StopSerialGraph (portEnv None) ''g'' startedLate) = Some (SvNotFound ''g'')"
  by (intro conjI; code_simp)

end
