(* ===== verification/GraphValidateFacts.thy ===== *)
theory GraphValidateFacts
  imports GraphValidate
begin

text \<open>
  What a topology that passes the validation guarantees: the search for cycles is exact, the
  connections form no cycle, every input has one connection, and no resource has two owners.
\<close>

section \<open>The search\<close>

definition steps :: "node_table \<Rightarrow> edgeSpec list \<Rightarrow> (string \<times> string) set" where
  "steps nodes edges = (\<lambda>e. (esSource e, esTarget e)) `
     {e \<in> set edges. \<not> graphRuntimeEdgeTargetsTerminalProtocolInput nodes e}"

lemma set_pushTargets: "set (pushTargets nodes edges x) = steps nodes edges `` {x}"
  by (auto simp: pushTargets_def steps_def)

lemma search_sound:
  "searchSource nodes edges s visited stack \<Longrightarrow> \<exists>x \<in> set stack. (x, s) \<in> (steps nodes edges)\<^sup>*"
proof (induction nodes edges s visited stack rule: searchSource.induct)
  case (2 nodes edges source visited nodeID stack)
  show ?case
  proof (cases "nodeID \<in> set visited \<or> nodeID = source")
    case False
    with 2 obtain x where "x \<in> set (pushTargets nodes edges nodeID @ stack)" "(x, source) \<in> (steps nodes edges)\<^sup>*"
      by auto
    then show ?thesis
      by (auto simp: set_pushTargets intro: converse_rtrancl_into_rtrancl)
  qed (use 2 in auto)
qed simp

lemma search_complete:
  "\<not> searchSource nodes edges s visited stack \<Longrightarrow> s \<notin> set visited
    \<Longrightarrow> steps nodes edges `` set visited \<subseteq> set visited \<union> set stack
    \<Longrightarrow> \<exists>V. set visited \<union> set stack \<subseteq> V \<and> s \<notin> V \<and> steps nodes edges `` V \<subseteq> V"
proof (induction nodes edges s visited stack rule: searchSource.induct)
  case (1 nodes edges source visited)
  then show ?case by (intro exI [of _ "set visited"]) simp
next
  case (2 nodes edges source visited nodeID stack)
  show ?case
  proof (cases "nodeID \<in> set visited")
    case True
    with 2 show ?thesis by (auto simp: insert_absorb)
  next
    case False
    with 2 have s: "nodeID \<noteq> source" by auto
    have "\<exists>V. set (nodeID # visited) \<union> set (pushTargets nodes edges nodeID @ stack) \<subseteq> V \<and> source \<notin> V
        \<and> steps nodes edges `` V \<subseteq> V"
      using 2 False s by (intro 2(2)) (auto simp: set_pushTargets)
    then show ?thesis by auto
  qed
qed

lemma closed_reach: "steps nodes edges `` V \<subseteq> V \<Longrightarrow> (x, y) \<in> (steps nodes edges)\<^sup>* \<Longrightarrow> x \<in> V \<Longrightarrow> y \<in> V"
  by (metis Image_closed_trancl ImageI)

lemma creates_cycle_iff:
  "graphRuntimeCreatesCycle draft edges nodes \<longleftrightarrow> (esTarget draft, esSource draft) \<in> (steps nodes edges)\<^sup>*"
proof
  assume "graphRuntimeCreatesCycle draft edges nodes"
  then show "(esTarget draft, esSource draft) \<in> (steps nodes edges)\<^sup>*"
    using search_sound [of nodes edges "esSource draft" "[]" "[esTarget draft]"]
    by (simp add: graphRuntimeCreatesCycle_def)
next
  assume r: "(esTarget draft, esSource draft) \<in> (steps nodes edges)\<^sup>*"
  show "graphRuntimeCreatesCycle draft edges nodes"
  proof (rule ccontr)
    assume "\<not> ?thesis"
    then obtain V where "esTarget draft \<in> V" "esSource draft \<notin> V" "steps nodes edges `` V \<subseteq> V"
      using search_complete [of nodes edges "esSource draft" "[]" "[esTarget draft]"]
      by (auto simp: graphRuntimeCreatesCycle_def)
    with closed_reach [OF _ r] show False by blast
  qed
qed

section \<open>The nodes of a valid request\<close>

definition nodeTable :: "graphStartRequest \<Rightarrow> node_table" where
  "nodeTable req = snd (validateNodes (gqNodes req) [])"

definition valid :: "(string \<Rightarrow> string) \<Rightarrow> graphStartRequest \<Rightarrow> bool" where
  "valid lower req \<longleftrightarrow> validateSerialGraphRuntimeRequest lower req = []"

lemma valid_parts:
  assumes "valid lower req"
  shows "fst (validateNodes (gqNodes req) []) = []" and "validateGraphRuntimeResources lower (gqNodes req) = []"
    and "validateEdges req (nodeTable req) [] (gqEdges req) = []"
  using assms by (simp_all add: valid_def validateSerialGraphRuntimeRequest_def nodeTable_def split: prod.splits)

lemma validateNodes_ok:
  "fst (validateNodes ns t) = [] \<Longrightarrow>
    distinct (map nsID ns) \<and> set (map nsID ns) \<inter> dom (map_of t) = {} \<and> [] \<notin> set (map nsID ns)
    \<and> list_all (\<lambda>n. providerOf (nsType n) \<noteq> None) ns
    \<and> map_of (snd (validateNodes ns t)) = map_of t ++ map_of (map (\<lambda>n. (nsID n, n)) ns)"
proof (induction ns t rule: validateNodes.induct)
  case (2 node ns nodes)
  then have ok: "nsID node \<noteq> []" "map_of nodes (nsID node) = None" "providerOf (nsType node) \<noteq> None"
    and fst: "fst (validateNodes ns (table_put (nsID node) node nodes)) = []"
    by (auto split: if_splits prod.splits simp del: not_None_eq)
  have ih: "distinct (map nsID ns) \<and> set (map nsID ns) \<inter> dom (map_of (table_put (nsID node) node nodes)) = {}
      \<and> [] \<notin> set (map nsID ns) \<and> list_all (\<lambda>n. providerOf (nsType n) \<noteq> None) ns
      \<and> map_of (snd (validateNodes ns (table_put (nsID node) node nodes)))
        = map_of (table_put (nsID node) node nodes) ++ map_of (map (\<lambda>n. (nsID n, n)) ns)"
    by (rule 2(3)) (use ok fst in simp_all)
  let ?M = "map_of (map (\<lambda>n. (nsID n, n)) ns)"
  from ih have fresh: "nsID node \<notin> set (map nsID ns)" by auto
  then have "nsID node \<notin> dom ?M" by (auto simp: dom_map_of_conv_image_fst)
  then have "(map_of nodes)(nsID node \<mapsto> node) ++ ?M = map_of nodes ++ map_of (map (\<lambda>n. (nsID n, n)) (node # ns))"
    by (simp add: map_add_upd_left)
  moreover have "snd (validateNodes (node # ns) nodes) = snd (validateNodes ns (table_put (nsID node) node nodes))"
    using ok by (auto split: prod.split)
  ultimately have table: "map_of (snd (validateNodes (node # ns) nodes)) = map_of nodes ++ map_of (map (\<lambda>n. (nsID n, n)) (node # ns))"
    using ih by simp
  have "set (map nsID (node # ns)) \<inter> dom (map_of nodes) = {}" using ih ok(2) by auto
  moreover have "distinct (map nsID (node # ns))" "[] \<notin> set (map nsID (node # ns))"
    "list_all (\<lambda>n. providerOf (nsType n) \<noteq> None) (node # ns)"
    using ih ok fresh by simp_all
  ultimately show ?case using table by blast
qed simp

lemma valid_nodes:
  assumes "valid lower req"
  shows "distinct (map nsID (gqNodes req))" and "[] \<notin> set (map nsID (gqNodes req))"
    and "map_of (nodeTable req) i = Some n \<longleftrightarrow> n \<in> set (gqNodes req) \<and> nsID n = i"
proof -
  note ok = validateNodes_ok [OF valid_parts(1) [OF assms]]
  then show d: "distinct (map nsID (gqNodes req))" and "[] \<notin> set (map nsID (gqNodes req))" by blast+
  have "map_of (nodeTable req) = map_of (map (\<lambda>n. (nsID n, n)) (gqNodes req))"
    using ok by (simp add: nodeTable_def)
  moreover have "distinct (map fst (map (\<lambda>n. (nsID n, n)) (gqNodes req)))" using d by (simp add: comp_def)
  ultimately show "map_of (nodeTable req) i = Some n \<longleftrightarrow> n \<in> set (gqNodes req) \<and> nsID n = i"
    by (auto simp: map_of_eq_Some_iff)
qed

section \<open>The edges of a valid request\<close>

lemma validateEdges_ok:
  "validateEdges req nodes seen es = [] \<Longrightarrow>
    distinct (map esID es) \<and> set (map esID es) \<inter> set seen = {}
    \<and> (\<forall>e \<in> set es. validateGraphRuntimeEdge req e nodes = [])"
  by (induction req nodes seen es rule: validateEdges.induct) (auto split: if_splits)

lemma valid_edges:
  assumes "valid lower req"
  shows "distinct (map esID (gqEdges req))"
    and "e \<in> set (gqEdges req) \<Longrightarrow> validateGraphRuntimeEdge req e (nodeTable req) = []"
  using validateEdges_ok [OF valid_parts(3) [OF assms]] by blast+

text \<open>What the check of one edge establishes\<close>

lemma edge_ok:
  assumes "validateGraphRuntimeEdge req e nodes = []"
    and "\<And>i n. map_of nodes i = Some n \<Longrightarrow> providerOf (nsType n) \<noteq> None"
  obtains n1 n2 p1 p2 o1 i2 where "map_of nodes (esSource e) = Some n1" and "map_of nodes (esTarget e) = Some n2"
    and "nsID n1 \<noteq> nsID n2" and "providerOf (nsType n1) = Some p1" and "providerOf (nsType n2) = Some p2"
    and "graphRuntimePort (pvOutputs p1) (esSourceHandle e) = Some o1"
    and "graphRuntimePort (pvInputs p2) (esTargetHandle e) = Some i2" and "psKind o1 = psKind i2"
    and "psMultiple i2 \<or> \<not> list_ex (\<lambda>other. esTarget other = esTarget e \<and> esTargetHandle other = esTargetHandle e)
          (graphRuntimeOtherEdges (gqEdges req) (esID e))"
    and "graphRuntimeEdgeTargetsTerminalProtocolInput nodes e
      \<or> \<not> graphRuntimeCreatesCycle e (graphRuntimeOtherEdges (gqEdges req) (esID e)) nodes"
proof -
  obtain n1 where n1: "map_of nodes (esSource e) = Some n1"
    using assms(1) by (cases "map_of nodes (esSource e)") (simp_all add: validateGraphRuntimeEdge_def)
  obtain n2 where n2: "map_of nodes (esTarget e) = Some n2"
    using assms(1) by (cases "map_of nodes (esTarget e)") (simp_all add: validateGraphRuntimeEdge_def n1)
  obtain p1 p2 where p: "providerOf (nsType n1) = Some p1" "providerOf (nsType n2) = Some p2"
    using assms(2) [OF n1] assms(2) [OF n2] by blast
  obtain o1 where o1: "graphRuntimePort (pvOutputs p1) (esSourceHandle e) = Some o1"
    using assms(1) by (cases "graphRuntimePort (pvOutputs p1) (esSourceHandle e)")
      (simp_all add: validateGraphRuntimeEdge_def n1 n2 p)
  obtain i2 where i2: "graphRuntimePort (pvInputs p2) (esTargetHandle e) = Some i2"
    using assms(1) by (cases "graphRuntimePort (pvInputs p2) (esTargetHandle e)")
      (simp_all add: validateGraphRuntimeEdge_def n1 n2 p o1)
  show thesis
    by (rule that [OF n1 n2 _ p o1 i2])
      (use assms(1) in \<open>simp_all add: validateGraphRuntimeEdge_def n1 n2 p o1 i2 Let_def split: if_splits\<close>)
qed

lemma valid_edge:
  assumes "valid lower req" and "e \<in> set (gqEdges req)"
  obtains n1 n2 p1 p2 o1 i2 where "map_of (nodeTable req) (esSource e) = Some n1" and "map_of (nodeTable req) (esTarget e) = Some n2"
    and "nsID n1 \<noteq> nsID n2" and "providerOf (nsType n1) = Some p1" and "providerOf (nsType n2) = Some p2"
    and "graphRuntimePort (pvOutputs p1) (esSourceHandle e) = Some o1"
    and "graphRuntimePort (pvInputs p2) (esTargetHandle e) = Some i2" and "psKind o1 = psKind i2"
    and "psMultiple i2 \<or> \<not> list_ex (\<lambda>other. esTarget other = esTarget e \<and> esTargetHandle other = esTargetHandle e)
          (graphRuntimeOtherEdges (gqEdges req) (esID e))"
    and "graphRuntimeEdgeTargetsTerminalProtocolInput (nodeTable req) e
      \<or> \<not> graphRuntimeCreatesCycle e (graphRuntimeOtherEdges (gqEdges req) (esID e)) (nodeTable req)"
proof (rule edge_ok [OF valid_edges(2) [OF assms]])
  show "providerOf (nsType n) \<noteq> None" if "map_of (nodeTable req) i = Some n" for i n
    using that validateNodes_ok [OF valid_parts(1) [OF assms(1)]] valid_nodes(3) [OF assms(1)]
    by (auto simp: list_all_iff)
qed (rule that)

section \<open>Cycles\<close>

lemma rtrancl_avoid:
  "(x, s) \<in> R\<^sup>* \<Longrightarrow> (x, s) \<in> {(a, b) \<in> R. a \<noteq> s}\<^sup>*"
proof (induction rule: converse_rtrancl_induct)
  case (step a b)
  then show ?case by (cases "a = s") (auto intro: converse_rtrancl_into_rtrancl)
qed simp

lemma valid_acyclic:
  assumes "valid lower req"
  shows "acyclic (steps (nodeTable req) (gqEdges req))"
proof (rule acyclicI, rule allI, rule notI)
  let ?R = "steps (nodeTable req) (gqEdges req)"
  fix x
  assume "(x, x) \<in> ?R\<^sup>+"
  then obtain y where "(x, y) \<in> ?R" and there: "(y, x) \<in> ?R\<^sup>*" by (meson tranclD)
  then obtain e where e: "e \<in> set (gqEdges req)" "esSource e = x" "esTarget e = y"
      "\<not> graphRuntimeEdgeTargetsTerminalProtocolInput (nodeTable req) e"
    by (auto simp: steps_def)
  let ?rest = "graphRuntimeOtherEdges (gqEdges req) (esID e)"
  have "{(a, b) \<in> ?R. a \<noteq> x} \<subseteq> steps (nodeTable req) ?rest"
  proof
    fix ab
    assume "ab \<in> {(a, b) \<in> ?R. a \<noteq> x}"
    then obtain d where d: "d \<in> set (gqEdges req)" "ab = (esSource d, esTarget d)" "esSource d \<noteq> x"
        "\<not> graphRuntimeEdgeTargetsTerminalProtocolInput (nodeTable req) d"
      by (auto simp: steps_def)
    then have "esID d \<noteq> esID e"
      using valid_edges(1) [OF assms] e(1,2) by (metis distinct_map inj_onD)
    with d show "ab \<in> steps (nodeTable req) ?rest" by (auto simp: steps_def graphRuntimeOtherEdges_def)
  qed
  then have "(y, x) \<in> (steps (nodeTable req) ?rest)\<^sup>*"
    using rtrancl_avoid [OF there] rtrancl_mono by blast
  then have "graphRuntimeCreatesCycle e ?rest (nodeTable req)" by (simp add: creates_cycle_iff e)
  with e(4) show False by (metis valid_edge [OF assms e(1)])
qed

section \<open>Resources\<close>

lemma claimKeys_ok:
  "fst (claimKeys owner used cs) = [] \<Longrightarrow> distinct (map fst cs) \<and> set (map fst cs) \<inter> dom (map_of used) = {}
    \<and> dom (map_of (snd (claimKeys owner used cs))) = dom (map_of used) \<union> set (map fst cs)"
  by (induction owner used cs rule: claimKeys.induct) (auto split: option.splits prod.splits)

lemma claimResources_ok:
  "claimResources lower used ns = [] \<Longrightarrow>
    distinct (concat (map (\<lambda>n. map fst (resourceClaims lower n)) ns))
    \<and> set (concat (map (\<lambda>n. map fst (resourceClaims lower n)) ns)) \<inter> dom (map_of used) = {}"
proof (induction lower used ns rule: claimResources.induct)
  case (2 lower used node ns)
  obtain es used' where c: "claimKeys (nsID node) used (resourceClaims lower node) = (es, used')" by fastforce
  with 2(2) have e: "es = []" "claimResources lower used' ns = []" by auto
  from 2(1) [OF c [symmetric] refl e(2)] claimKeys_ok [of "nsID node" used "resourceClaims lower node"] show ?case
    by (auto simp: c e(1) simp del: map_map)
qed simp

lemma distinct_concat_owner:
  "distinct (concat (map f xs)) \<Longrightarrow> x \<in> set xs \<Longrightarrow> y \<in> set xs \<Longrightarrow> k \<in> set (f x) \<Longrightarrow> k \<in> set (f y) \<Longrightarrow> x = y"
  by (induction xs) auto

lemma port_claim:
  assumes "nsType n \<in> {''serial.physical'', ''serial.virtual''}"
    and "graphStringConfig (nsConfig n) ''portName'' \<notin> {[], ''<nil>''}"
  shows "''portName:'' @ graphStringConfig (nsConfig n) ''portName'' \<in> set (map fst (resourceClaims lower n))"
proof -
  obtain v where v: "map_of (nsConfig n) ''portName'' = Some v" "graphStringConfig (nsConfig n) ''portName'' = trim_space (sprint v)"
    using assms(2) by (auto simp: graphStringConfig_def split: option.splits if_splits)
  with assms show ?thesis
    by (auto simp: resourceClaims_def providerOf_def serialGraphRuntimeProviders_def provider_def map_filter_def Let_def)
qed

lemma input_single:
  assumes "providerOf t = Some p" and "graphRuntimePort (pvInputs p) h = Some q"
  shows "\<not> psMultiple q"
proof -
  have "\<forall>p \<in> set serialGraphRuntimeProviders. \<forall>q \<in> set (pvInputs p). \<not> psMultiple q"
    by (simp add: serialGraphRuntimeProviders_def provider_def inputPort_def)
  moreover have "p \<in> set serialGraphRuntimeProviders"
    using assms(1) by (auto simp: providerOf_def dest!: map_of_SomeD)
  moreover have "q \<in> set (pvInputs p)" using assms(2) by (metis find_Some_iff graphRuntimePort_def nth_mem)
  ultimately show ?thesis by blast
qed

section \<open>Properties\<close>

text \<open>The depth-first search reports a cycle for a new connection exactly when its source can be
  reached from its target over the other connections, those into a protocol master left out, and it
  always ends.\<close>

theorem graph_cycle_search_exact:
  "graphRuntimeCreatesCycle draft edges nodes \<longleftrightarrow> (esTarget draft, esSource draft) \<in> (steps nodes edges)\<^sup>*"
  by (rule creates_cycle_iff)

text \<open>C9: In a topology that passes the validation, no path of connections leads from a node back to
  itself, except through the input of a protocol master, which forwards nothing.\<close>

theorem validated_graph_acyclic:
  assumes "validateSerialGraphRuntimeRequest lower req = []"
  shows "acyclic (steps (nodeTable req) (gqEdges req))"
  using assms valid_acyclic by (simp add: valid_def)

text \<open>C15: In a valid topology every connection runs from an output of one node to an input of another
  node, both of which exist, and no input has two connections.\<close>

theorem validated_edges_wellformed:
  assumes "validateSerialGraphRuntimeRequest lower req = []" and "e \<in> set (gqEdges req)"
  shows "(\<exists>n1 \<in> set (gqNodes req). \<exists>n2 \<in> set (gqNodes req). nsID n1 = esSource e \<and> nsID n2 = esTarget e
      \<and> esSource e \<noteq> esTarget e
      \<and> (\<exists>p1 p2. providerOf (nsType n1) = Some p1 \<and> providerOf (nsType n2) = Some p2
          \<and> graphRuntimePort (pvOutputs p1) (esSourceHandle e) \<noteq> None
          \<and> graphRuntimePort (pvInputs p2) (esTargetHandle e) \<noteq> None))
    \<and> (\<forall>d \<in> set (gqEdges req). esTarget d = esTarget e \<and> esTargetHandle d = esTargetHandle e \<longrightarrow> d = e)"
proof -
  have v: "valid lower req" using assms(1) by (simp add: valid_def)
  obtain n1 n2 p1 p2 o1 i2 where n: "map_of (nodeTable req) (esSource e) = Some n1"
      "map_of (nodeTable req) (esTarget e) = Some n2" "nsID n1 \<noteq> nsID n2"
    and p: "providerOf (nsType n1) = Some p1" "providerOf (nsType n2) = Some p2"
    and io: "graphRuntimePort (pvOutputs p1) (esSourceHandle e) = Some o1"
      "graphRuntimePort (pvInputs p2) (esTargetHandle e) = Some i2"
    and single: "psMultiple i2 \<or> \<not> list_ex (\<lambda>other. esTarget other = esTarget e \<and> esTargetHandle other = esTargetHandle e)
          (graphRuntimeOtherEdges (gqEdges req) (esID e))"
    by (rule valid_edge [OF v assms(2)])
  have "d = e" if d: "d \<in> set (gqEdges req)" "esTarget d = esTarget e" "esTargetHandle d = esTargetHandle e" for d
  proof (rule ccontr)
    assume "d \<noteq> e"
    then have "esID d \<noteq> esID e" using valid_edges(1) [OF v] d(1) assms(2) by (metis distinct_map inj_onD)
    with d single input_single [OF p(2) io(2)] show False
      by (auto simp: list_ex_iff graphRuntimeOtherEdges_def)
  qed
  moreover have "n1 \<in> set (gqNodes req)" "nsID n1 = esSource e" "n2 \<in> set (gqNodes req)" "nsID n2 = esTarget e"
    using n valid_nodes(3) [OF v] by blast+
  ultimately show ?thesis using n(3) p io by (metis option.distinct(1))
qed

text \<open>In a valid topology no two nodes that own a physical or virtual port name the same port.\<close>

theorem validated_ports_exclusive:
  assumes "validateSerialGraphRuntimeRequest lower req = []"
    and "n \<in> set (gqNodes req)" and "m \<in> set (gqNodes req)"
    and "nsType n \<in> {''serial.physical'', ''serial.virtual''}" and "nsType m \<in> {''serial.physical'', ''serial.virtual''}"
    and "graphStringConfig (nsConfig n) ''portName'' = graphStringConfig (nsConfig m) ''portName''"
    and "graphStringConfig (nsConfig n) ''portName'' \<notin> {[], ''<nil>''}"
  shows "n = m"
proof -
  have "claimResources lower [] (gqNodes req) = []"
    using valid_parts(2) assms(1) by (simp add: valid_def validateGraphRuntimeResources_def)
  then have d: "distinct (concat (map (\<lambda>n. map fst (resourceClaims lower n)) (gqNodes req)))"
    using claimResources_ok by blast
  show ?thesis
    by (rule distinct_concat_owner [OF d assms(2,3) port_claim [OF assms(4,7)]])
      (use port_claim [OF assms(5)] assms(6,7) in simp)
qed

section \<open>A topology\<close>

definition sampleNode :: "string \<Rightarrow> string \<Rightarrow> config \<Rightarrow> nodeSpec" where
  "sampleNode i t c = \<lparr>nsID = i, nsType = t, nsConfig = c\<rparr>"

definition sampleEdge :: "string \<Rightarrow> string \<Rightarrow> string \<Rightarrow> string \<Rightarrow> string \<Rightarrow> edgeSpec" where
  "sampleEdge i s sh t th = \<lparr>esID = i, esSource = s, esSourceHandle = sh, esTarget = t, esTargetHandle = th\<rparr>"

text \<open>A master and a slave connected both ways, with a monitor at the port\<close>

definition sampleGraph :: graphStartRequest where
  "sampleGraph = \<lparr>gqID = ''g'',
     gqNodes = [sampleNode ''m'' ''serial.modbus.master'' [], sampleNode ''s'' ''serial.modbus.slave'' [],
       sampleNode ''p'' ''serial.physical'' [(''portName'', CString ''COM1'')], sampleNode ''w'' ''serial.monitor'' []],
     gqEdges = [sampleEdge ''e1'' ''m'' ''tx'' ''s'' ''rx'', sampleEdge ''e2'' ''s'' ''tx'' ''m'' ''rx'',
       sampleEdge ''e3'' ''p'' ''rx'' ''w'' ''in'']\<rparr>"

lemma sampleGraph_valid: "validateSerialGraphRuntimeRequest to_lower sampleGraph = []"
  by code_simp

theorem validated_graph_acyclic_witness:
  "acyclic (steps (nodeTable sampleGraph) (gqEdges sampleGraph))"
  by (rule validated_graph_acyclic [OF sampleGraph_valid])

theorem validated_edges_wellformed_witness:
  "\<exists>n1 \<in> set (gqNodes sampleGraph). nsID n1 = ''m''"
  using validated_edges_wellformed [OF sampleGraph_valid, of "sampleEdge ''e1'' ''m'' ''tx'' ''s'' ''rx''"]
  by (auto simp: sampleGraph_def sampleEdge_def)

theorem validated_ports_exclusive_witness:
  "{n \<in> set (gqNodes sampleGraph). nsType n = ''serial.physical'' \<and> graphStringConfig (nsConfig n) ''portName'' = ''COM1''}
    = {sampleNode ''p'' ''serial.physical'' [(''portName'', CString ''COM1'')]}"
proof (intro equalityI subsetI)
  let ?p = "sampleNode ''p'' ''serial.physical'' [(''portName'', CString ''COM1'')]"
  have port: "graphStringConfig [(''portName'', CString ''COM1'')] ''portName'' = ''COM1''" by code_simp
  show "n \<in> {?p}" if "n \<in> {n \<in> set (gqNodes sampleGraph). nsType n = ''serial.physical''
      \<and> graphStringConfig (nsConfig n) ''portName'' = ''COM1''}" for n
  proof -
    have "n = ?p" using that port
      by (intro validated_ports_exclusive [OF sampleGraph_valid]) (simp_all add: sampleGraph_def sampleNode_def)
    then show ?thesis by simp
  qed
  show "n \<in> {n \<in> set (gqNodes sampleGraph). nsType n = ''serial.physical''
      \<and> graphStringConfig (nsConfig n) ''portName'' = ''COM1''}" if "n \<in> {?p}" for n
    using that port by (simp add: sampleGraph_def sampleNode_def)
qed

end
