(* ===== verification/FilterFacts.thy ===== *)
theory FilterFacts
  imports FilterExpr
begin

text \<open>
  What the filter expressions mean: a grammar with the value of every phrase, against which the
  evaluator is exact; the evaluator returns on every list of tokens; and the tokenizer reads back
  what is written with the usual quoting.
\<close>

section \<open>Grammar\<close>

text \<open>A comparison is three tokens: field, operator, literal.\<close>

definition comparison :: "filterParser \<Rightarrow> filter_token list \<Rightarrow> bool option" where
  "comparison p ts = (case ts of
       [TIdent field, operator, literal] \<Rightarrow>
         (case numericField (fpCandidate p) field of
            Some value \<Rightarrow>
              (case (operator, literal) of
                 (TOperator op, TNumber digits) \<Rightarrow>
                   if isNumericOperator op then map_option (compareNumber value op) (atoi digits) else None
               | _ \<Rightarrow> None)
          | None \<Rightarrow>
              (case (stringField (fpCandidate p) field, literal) of
                 (Some value, TString l) \<Rightarrow>
                   (case operator of
                      TIdent op \<Rightarrow> if equal_fold op ''contains''
                        then Some (compareString (fpLower p) field value ''contains'' l (fpOptions p)) else None
                    | TOperator op \<Rightarrow> if op = ''=='' \<or> op = ''!=''
                        then Some (compareString (fpLower p) field value op l (fpOptions p)) else None
                    | _ \<Rightarrow> None)
               | _ \<Rightarrow> None))
     | _ \<Rightarrow> None)"

inductive gOr :: "filterParser \<Rightarrow> filter_token list \<Rightarrow> bool \<Rightarrow> bool"
  and gAnd :: "filterParser \<Rightarrow> filter_token list \<Rightarrow> bool \<Rightarrow> bool"
  and gUnary :: "filterParser \<Rightarrow> filter_token list \<Rightarrow> bool \<Rightarrow> bool"
  for p where
  or_one: "gAnd p ts v \<Longrightarrow> gOr p ts v"
| or_more: "gOr p ts v \<Longrightarrow> equal_fold k ''or'' \<Longrightarrow> gAnd p us w \<Longrightarrow> gOr p (ts @ TIdent k # us) (v \<or> w)"
| and_one: "gUnary p ts v \<Longrightarrow> gAnd p ts v"
| and_more: "gAnd p ts v \<Longrightarrow> equal_fold k ''and'' \<Longrightarrow> gUnary p us w \<Longrightarrow> gAnd p (ts @ TIdent k # us) (v \<and> w)"
| negated: "equal_fold k ''not'' \<Longrightarrow> gUnary p ts v \<Longrightarrow> gUnary p (TIdent k # ts) (\<not> v)"
| parens: "gOr p ts v \<Longrightarrow> gUnary p (TLParen # ts @ [TRParen]) v"
| compared: "comparison p ts = Some v \<Longrightarrow> gUnary p ts v"

section \<open>Tokens at the head\<close>

lemma peek_simps [simp]: "peek [] = TEOF" "peek (t # ts) = t"
  by (simp_all add: peek_def)

lemma matchKeyword_simps [simp]:
  "\<not> matchKeyword k []" "matchKeyword k (t # ts) \<longleftrightarrow> (\<exists>s. t = TIdent s \<and> equal_fold s k)"
  by (auto simp: matchKeyword_def split: filter_token.splits)

lemma matchKeyword_nonempty: "matchKeyword k ts \<Longrightarrow> \<exists>s us. ts = TIdent s # us \<and> equal_fold s k"
  by (cases ts) auto

lemma keywords_disjoint [simp]:
  "equal_fold s ''or'' \<Longrightarrow> \<not> equal_fold s ''and''" "equal_fold s ''and'' \<Longrightarrow> \<not> equal_fold s ''or''"
  by (auto simp: equal_fold_def)

lemma parseComparison_short: "length ts < 3 \<Longrightarrow> parseComparison p ts \<noteq> Inr r"
  by (auto simp: parseComparison_def parseNumeric_def parseStringComparison_def expectString_def
      length_Suc_conv less_Suc_eq numeral_3_eq_3 split: filter_token.splits option.splits)

lemma parseComparison_three:
  "parseComparison p (t # u # w # rest) = Inr (v, rest') \<longleftrightarrow> comparison p [t, u, w] = Some v \<and> rest' = rest"
  by (cases t; cases u; cases w)
    (auto simp: parseComparison_def parseNumeric_def parseStringComparison_def expectString_def comparison_def
      matchKeyword_def split: option.splits)

lemma parseComparison_iff:
  "parseComparison p ts = Inr (v, rest) \<longleftrightarrow> (\<exists>pre. length pre = 3 \<and> ts = pre @ rest \<and> comparison p pre = Some v)"
proof (cases "length ts < 3")
  case True
  then show ?thesis using parseComparison_short [of ts p "(v, rest)"] by auto
next
  case False
  then obtain t u w us where "ts = t # u # w # us"
    by (auto simp: not_less numeral_3_eq_3 Suc_le_length_iff)
  then show ?thesis by (auto simp: parseComparison_three length_Suc_conv numeral_3_eq_3)
qed

lemma fold_plain: "set (fold_case s) \<subseteq> set ''not'' \<Longrightarrow> to_lower s = fold_case s"
proof (induction s rule: fold_case.induct)
  case (2 c cs)
  have "lower_char (CHR 0xC4) \<notin> set ''not''" by (simp add: lower_char_def ascii_upper_def)
  with 2 show ?case by (auto split: if_splits)
qed simp

lemma comparison_not_keyword: "comparison p ts = Some v \<Longrightarrow> \<not> matchKeyword ''not'' ts"
proof
  assume c: "comparison p ts = Some v" and "matchKeyword ''not'' ts"
  then obtain s us where ts: "ts = TIdent s # us" and "fold_case s = ''not''"
    by (auto dest!: matchKeyword_nonempty simp: equal_fold_def lower_char_def ascii_upper_def)
  then have "to_lower s = ''not''" using fold_plain [of s] by simp
  with c ts show False
    by (auto simp: comparison_def numericField_def stringField_def split: list.splits)
qed

section \<open>The evaluator returns\<close>

definition rank :: "parse_mode \<Rightarrow> nat" where
  "rank m = (case m of ParseOr \<Rightarrow> 3 | ParseAnd \<Rightarrow> 2 | ParseUnary \<Rightarrow> 1 | _ \<Rightarrow> 0)"

text \<open>What a mode yields of the tokens it consumes, given the value so far in a loop\<close>

definition phrase :: "filterParser \<Rightarrow> parse_mode \<Rightarrow> filter_token list \<Rightarrow> bool \<Rightarrow> bool" where
  "phrase p m ts v = (case m of
       ParseOr \<Rightarrow> gOr p ts v
     | OrLoop left \<Rightarrow> (\<forall>us. gOr p us left \<longrightarrow> gOr p (us @ ts) v)
     | ParseAnd \<Rightarrow> gAnd p ts v
     | AndLoop left \<Rightarrow> (\<forall>us. gAnd p us left \<longrightarrow> gAnd p (us @ ts) v)
     | ParseUnary \<Rightarrow> gUnary p ts v
     | ParsePrimary \<Rightarrow> gUnary p ts v)"

definition good_result :: "filterParser \<Rightarrow> parse_mode \<Rightarrow> filter_token list \<Rightarrow> filter_result option \<Rightarrow> bool" where
  "good_result p m ts r = (r \<noteq> None \<and>
     (\<forall>v rest. r = Some (Inr (v, rest)) \<longrightarrow> (\<exists>pre. ts = pre @ rest \<and> phrase p m pre v)))"

lemma good_simps [simp]:
  "good_result p m ts (Some (Inl e))" "\<not> good_result p m ts None"
  "good_result p m ts (Some (Inr (v, rest))) \<longleftrightarrow> (\<exists>pre. ts = pre @ rest \<and> phrase p m pre v)"
  by (simp_all add: good_result_def)

lemma good_onward:
  assumes "good_result p n us r"
    and "\<And>v rest pre. us = pre @ rest \<Longrightarrow> phrase p n pre v \<Longrightarrow> good_result p m ts (k v rest)"
  shows "good_result p m ts (onward r k)"
proof (cases r)
  case (Some s)
  show ?thesis
  proof (cases s)
    case (Inr b)
    obtain v rest where "b = (v, rest)" by fastforce
    with Some Inr assms show ?thesis by auto
  qed (simp add: Some)
qed (use assms in simp)

lemma good_prefix:
  assumes "good_result p n us r" and "\<And>pre v. phrase p n pre v \<Longrightarrow> phrase p m (ps @ pre) v"
  shows "good_result p m (ps @ us) r"
  using assms unfolding good_result_def by (metis append.assoc)

text \<open>The next operand of a loop\<close>

lemma or_operand:
  assumes "equal_fold k ''or''" and "gAnd p pre v" and "phrase p (OrLoop (left \<or> v)) q w"
  shows "phrase p (OrLoop left) ((TIdent k # pre) @ q) w"
  unfolding phrase_def parse_mode.case
proof (intro allI impI)
  fix us
  assume "gOr p us left"
  with assms(1,2) have "gOr p (us @ TIdent k # pre) (left \<or> v)" by (intro or_more)
  with assms(3) have "gOr p ((us @ TIdent k # pre) @ q) w" unfolding phrase_def parse_mode.case by blast
  then show "gOr p (us @ (TIdent k # pre) @ q) w" by simp
qed

lemma and_operand:
  assumes "equal_fold k ''and''" and "gUnary p pre v" and "phrase p (AndLoop (left \<and> v)) q w"
  shows "phrase p (AndLoop left) ((TIdent k # pre) @ q) w"
  unfolding phrase_def parse_mode.case
proof (intro allI impI)
  fix us
  assume "gAnd p us left"
  with assms(1,2) have "gAnd p (us @ TIdent k # pre) (left \<and> v)" by (intro and_more)
  with assms(3) have "gAnd p ((us @ TIdent k # pre) @ q) w" unfolding phrase_def parse_mode.case by blast
  then show "gAnd p (us @ (TIdent k # pre) @ q) w" by simp
qed

abbreviation good :: "filterParser \<Rightarrow> parse_mode \<Rightarrow> filter_token list \<Rightarrow> bool" where
  "good p m ts \<equiv> good_result p m ts (parseMode p m ts)"

text \<open>One lemma per mode: it is good if the modes it calls are.\<close>

lemma good_ParseOr:
  assumes "good p ParseAnd ts" and "\<And>v rest. length rest \<le> length ts \<Longrightarrow> good p (OrLoop v) rest"
  shows "good p ParseOr ts"
proof -
  have "good_result p ParseOr ts (parseMode p (OrLoop v) rest)" if "ts = pre @ rest" "phrase p ParseAnd pre v" for v rest pre
    using that assms(2) [of rest v]
    by (auto intro!: good_prefix [where n = "OrLoop v"] simp: phrase_def or_one)
  with assms(1) show ?thesis by (subst parseMode.simps) (auto intro: good_onward)
qed

lemma good_ParseAnd:
  assumes "good p ParseUnary ts" and "\<And>v rest. length rest \<le> length ts \<Longrightarrow> good p (AndLoop v) rest"
  shows "good p ParseAnd ts"
proof -
  have "good_result p ParseAnd ts (parseMode p (AndLoop v) rest)" if "ts = pre @ rest" "phrase p ParseUnary pre v" for v rest pre
    using that assms(2) [of rest v]
    by (auto intro!: good_prefix [where n = "AndLoop v"] simp: phrase_def and_one)
  with assms(1) show ?thesis by (subst parseMode.simps) (auto intro: good_onward)
qed

lemma good_OrLoop:
  assumes "\<And>m us. length us < length ts \<Longrightarrow> good p m us"
  shows "good p (OrLoop left) ts"
proof (cases "matchKeyword ''or'' ts")
  case True
  then obtain k us where ts: "ts = TIdent k # us" "equal_fold k ''or''" by (blast dest: matchKeyword_nonempty)
  have "good_result p (OrLoop left) ts (parseMode p (OrLoop (left \<or> v)) rest)"
    if "us = pre @ rest" "phrase p ParseAnd pre v" for v rest pre
    using that ts assms [of rest "OrLoop (left \<or> v)"] or_operand [OF ts(2), of p pre v left]
      good_prefix [of p "OrLoop (left \<or> v)" rest _ "OrLoop left" "TIdent k # pre"]
    by (simp add: phrase_def)
  with ts assms [of us ParseAnd] show ?thesis by (subst parseMode.simps) (auto intro: good_onward)
qed (subst parseMode.simps, simp add: phrase_def)

lemma good_AndLoop:
  assumes "\<And>m us. length us < length ts \<Longrightarrow> good p m us"
  shows "good p (AndLoop left) ts"
proof (cases "matchKeyword ''and'' ts")
  case True
  then obtain k us where ts: "ts = TIdent k # us" "equal_fold k ''and''" by (blast dest: matchKeyword_nonempty)
  have "good_result p (AndLoop left) ts (parseMode p (AndLoop (left \<and> v)) rest)"
    if "us = pre @ rest" "phrase p ParseUnary pre v" for v rest pre
    using that ts assms [of rest "AndLoop (left \<and> v)"] and_operand [OF ts(2), of p pre v left]
      good_prefix [of p "AndLoop (left \<and> v)" rest _ "AndLoop left" "TIdent k # pre"]
    by (simp add: phrase_def)
  with ts assms [of us ParseUnary] show ?thesis by (subst parseMode.simps) (auto intro: good_onward)
qed (subst parseMode.simps, simp add: phrase_def)

lemma good_ParseUnary:
  assumes "\<And>m us. length us < length ts \<Longrightarrow> good p m us" and "good p ParsePrimary ts"
  shows "good p ParseUnary ts"
proof (cases "matchKeyword ''not'' ts")
  case True
  then obtain k us where ts: "ts = TIdent k # us" "equal_fold k ''not''" by (blast dest: matchKeyword_nonempty)
  with assms(1) [of us ParseUnary] show ?thesis
    by (subst parseMode.simps) (auto intro!: good_onward negated simp: phrase_def)
next
  case False
  with assms(2) show ?thesis by (subst parseMode.simps) (simp add: good_result_def phrase_def)
qed

lemma good_ParsePrimary:
  assumes "\<And>m us. length us < length ts \<Longrightarrow> good p m us"
  shows "good p ParsePrimary ts"
proof (cases "peek ts = TLParen")
  case True
  then obtain us where ts: "ts = TLParen # us" by (cases ts) auto
  have "\<exists>ps. TLParen # pre @ rest = ps @ tl rest \<and> phrase p ParsePrimary ps v"
    if "phrase p ParseOr pre v" "peek rest = TRParen" for pre rest v
    using that parens [of p pre v]
    by (cases rest) (auto simp: phrase_def intro!: exI [of _ "TLParen # pre @ [TRParen]"])
  with ts assms [of us ParseOr] show ?thesis by (subst parseMode.simps) (auto intro!: good_onward)
qed (subst parseMode.simps, auto simp: good_result_def phrase_def parseComparison_iff intro: compared)

lemma parse_good: "good p m ts"
proof (induction "4 * length ts + rank m" arbitrary: m ts rule: less_induct)
  case less
  then have IH: "good p n us" if "4 * length us + rank n < 4 * length ts + rank m" for n us
    using that by blast
  have shorter: "good p n us" if "length us < length ts" for n us
    using that by (intro IH) (simp add: rank_def split: parse_mode.split)
  show ?case
  proof (cases m)
    case ParseOr
    with IH show ?thesis by (auto intro!: good_ParseOr simp: rank_def)
  next
    case ParseAnd
    with IH show ?thesis by (auto intro!: good_ParseAnd simp: rank_def)
  next
    case ParseUnary
    with IH shorter show ?thesis by (auto intro!: good_ParseUnary simp: rank_def)
  qed (use shorter in \<open>auto intro!: good_OrLoop good_AndLoop good_ParsePrimary\<close>)
qed

section \<open>The evaluator on phrases\<close>

lemma phrase_parsed:
  "gOr p ts v \<Longrightarrow> \<not> matchKeyword ''and'' rest \<Longrightarrow> parseMode p ParseOr (ts @ rest) = parseMode p (OrLoop v) rest"
  "gAnd p us w \<Longrightarrow> parseMode p ParseAnd (us @ rest) = parseMode p (AndLoop w) rest"
  "gUnary p xs x \<Longrightarrow> parseMode p ParseUnary (xs @ rest) = Some (Inr (x, rest))"
proof (induction arbitrary: rest and rest and rest rule: gOr_gAnd_gUnary.inducts)
  case (or_one ts v)
  then have "parseMode p ParseAnd (ts @ rest) = Some (Inr (v, rest))" by (simp add: parseMode.simps [of p "AndLoop v"])
  then show ?case by (subst parseMode.simps) simp
next
  case (or_more ts v k us w)
  let ?rest = "TIdent k # us @ rest"
  have "parseMode p ParseOr ((ts @ TIdent k # us) @ rest) = parseMode p (OrLoop v) ?rest"
    using or_more by simp
  also have "\<dots> = onward (parseMode p ParseAnd (us @ rest)) (\<lambda>right rest. parseMode p (OrLoop (v \<or> right)) rest)"
    using or_more by (subst parseMode.simps) simp
  also have "parseMode p ParseAnd (us @ rest) = Some (Inr (w, rest))"
    using or_more by (simp add: parseMode.simps [of p "AndLoop w"])
  finally show ?case by simp
next
  case (and_one ts v)
  then show ?case by (subst parseMode.simps) simp
next
  case (and_more ts v k us w)
  have "parseMode p ParseAnd ((ts @ TIdent k # us) @ rest) = parseMode p (AndLoop v) (TIdent k # us @ rest)"
    using and_more by simp
  also have "\<dots> = onward (parseMode p ParseUnary (us @ rest)) (\<lambda>right rest. parseMode p (AndLoop (v \<and> right)) rest)"
    using and_more by (subst parseMode.simps) simp
  finally show ?case using and_more by simp
next
  case (negated k ts v)
  then show ?case by (subst parseMode.simps) simp
next
  case (parens ts v)
  have "parseMode p ParseOr (ts @ TRParen # rest) = Some (Inr (v, TRParen # rest))"
    using parens by (simp add: parseMode.simps [of p "OrLoop v"])
  then have "parseMode p ParsePrimary (TLParen # ts @ TRParen # rest) = Some (Inr (v, rest))"
    by (subst parseMode.simps) simp
  then show ?case by (subst parseMode.simps) simp
next
  case (compared ts v)
  then have three: "length ts = 3"
    by (auto simp: comparison_def split: list.splits filter_token.splits)
  have not: "\<not> matchKeyword ''not'' (ts @ rest)"
    using comparison_not_keyword [OF compared] three by (cases ts) auto
  have "parseComparison p (ts @ rest) = Inr (v, rest)"
    using compared three by (auto simp: parseComparison_iff)
  moreover have "peek (ts @ rest) \<noteq> TLParen"
    using compared by (cases ts) (auto simp: comparison_def split: filter_token.splits)
  ultimately have "parseMode p ParsePrimary (ts @ rest) = Some (Inr (v, rest))"
    by (subst parseMode.simps) simp
  with not show ?case by (subst parseMode.simps) simp
qed

lemma phrase_no_end:
  "gOr p ts v \<Longrightarrow> TEOF \<notin> set ts" "gAnd p us w \<Longrightarrow> TEOF \<notin> set us" "gUnary p xs x \<Longrightarrow> TEOF \<notin> set xs"
  by (induction rule: gOr_gAnd_gUnary.inducts)
    (auto simp: comparison_def split: list.splits filter_token.splits option.splits prod.splits)

lemma parseFilter_iff:
  "parseFilter p ts = Some (Inr v) \<longleftrightarrow> (\<exists>us rest. ts = us @ rest \<and> gOr p us v \<and> peek rest = TEOF)"
proof
  assume "parseFilter p ts = Some (Inr v)"
  then obtain rest where "parseMode p ParseOr ts = Some (Inr (v, rest))" "peek rest = TEOF"
    by (auto simp: parseFilter_def split: option.splits sum.splits if_splits)
  with parse_good [of p ParseOr ts] show "\<exists>us rest. ts = us @ rest \<and> gOr p us v \<and> peek rest = TEOF"
    by (auto simp: phrase_def)
next
  assume "\<exists>us rest. ts = us @ rest \<and> gOr p us v \<and> peek rest = TEOF"
  then obtain us rest where ts: "ts = us @ rest" "gOr p us v" and rest: "peek rest = TEOF" by blast
  from rest have k: "\<not> matchKeyword k rest" for k by (cases rest) auto
  with phrase_parsed(1) [OF ts(2)] have "parseMode p ParseOr ts = Some (Inr (v, rest))"
    by (simp add: ts(1) parseMode.simps [of p "OrLoop v"])
  with rest show "parseFilter p ts = Some (Inr v)" by (simp add: parseFilter_def)
qed

lemma parseFilter_returns: "\<exists>r. parseFilter p ts = Some r"
  using parse_good [of p ParseOr ts]
  by (auto simp: parseFilter_def good_result_def split: sum.splits)

section \<open>Tokens\<close>

definition ended :: "filter_error + filter_token list \<Rightarrow> bool" where
  "ended r = (\<forall>ts. r = Inr ts \<longrightarrow> (\<exists>us. ts = us @ [TEOF] \<and> TEOF \<notin> set us))"

lemma ended_simps [simp]: "ended (Inl e)" "ended (Inr [TEOF])"
  by (simp_all add: ended_def)

lemma ended_cons [simp]:
  assumes "ended r" and "t \<noteq> TEOF"
  shows "ended (token_cons t r)"
proof (cases r)
  case (Inr us)
  with assms(1) obtain vs where "us = vs @ [TEOF]" "TEOF \<notin> set vs" by (auto simp: ended_def)
  with assms(2) Inr show ?thesis by (simp add: ended_def token_cons_def)
qed (simp add: token_cons_def)

lemma tokenize_ended: "ended (tokenize s)"
  by (induction s rule: tokenize.induct) (simp_all split: option.split)

text \<open>Tokens as they are written\<close>

definition escape :: "char \<Rightarrow> string" where
  "escape c = (if c = CHR 34 \<or> c = CHR 92 then [CHR 92, c] else [c])"

definition show_token :: "filter_token \<Rightarrow> string" where
  "show_token t = (case t of TString v \<Rightarrow> CHR 34 # concat (map escape v) @ [CHR 34] | _ \<Rightarrow> token_value t)"

definition show_tokens :: "filter_token list \<Rightarrow> string" where
  "show_tokens ts = concat (map (\<lambda>t. show_token t @ '' '') ts)"

definition written :: "filter_token \<Rightarrow> bool" where
  "written t = (case t of TEOF \<Rightarrow> False
     | TIdent v \<Rightarrow> v \<noteq> [] \<and> isIdentifierStart (hd v) \<and> list_all isIdentifierPart v
     | TNumber v \<Rightarrow> v \<noteq> [] \<and> list_all is_digit v
     | TString v \<Rightarrow> True
     | TOperator v \<Rightarrow> v \<in> {''=='', ''!='', ''>='', ''<='', ''>'', ''<''}
     | _ \<Rightarrow> True)"

lemma scanString_escape: "scanString (concat (map escape v) @ CHR 34 # s) = Some (v, s)"
  by (induction v) (auto simp: escape_def unescape_def)

lemma byte_classes:
  "isIdentifierStart c \<Longrightarrow> \<not> byte_space c \<and> c \<noteq> CHR ''('' \<and> c \<noteq> CHR '')'' \<and> c \<noteq> CHR 34 \<and> \<not> is_digit c"
  "is_digit c \<Longrightarrow> \<not> byte_space c \<and> c \<noteq> CHR ''('' \<and> c \<noteq> CHR '')'' \<and> c \<noteq> CHR 34"
  by (auto simp: isIdentifierStart_def ascii_upper_def ascii_lower_def byte_space_def is_digit_def)

lemma space_classes [simp]: "byte_space (CHR '' '')" "\<not> isIdentifierPart (CHR '' '')" "\<not> is_digit (CHR '' '')"
  by (simp_all add: byte_space_def isIdentifierPart_def isIdentifierStart_def ascii_upper_def ascii_lower_def is_digit_def)

lemma run_space:
  assumes "list_all P v" and "\<not> P (CHR '' '')"
  shows "takeWhile P (v @ CHR '' '' # s) = v" and "dropWhile P (v @ CHR '' '' # s) = CHR '' '' # s"
  using assms by (simp_all add: list_all_iff takeWhile_append2 dropWhile_append2)

lemma tokenize_token:
  assumes "written t"
  shows "tokenize (show_token t @ CHR '' '' # s) = token_cons t (tokenize s)"
proof (cases t)
  case (TIdent v)
  with assms obtain c cs where v: "v = c # cs" "isIdentifierStart c" "list_all isIdentifierPart cs"
    by (cases v) (auto simp: written_def)
  with TIdent byte_classes(1) [OF v(2)] show ?thesis
    by (simp add: show_token_def token_value_def run_space)
next
  case (TNumber v)
  with assms obtain c cs where v: "v = c # cs" "is_digit c" "list_all is_digit cs"
    by (cases v) (auto simp: written_def)
  with TNumber byte_classes(2) [OF v(2)] show ?thesis
    by (simp add: show_token_def token_value_def run_space)
next
  case (TString v)
  then show ?thesis
    using scanString_escape [of v "CHR '' '' # s"] by (simp add: show_token_def byte_space_def)
next
  case (TOperator v)
  with assms show ?thesis
    by (auto simp: written_def show_token_def token_value_def byte_space_def is_digit_def two_char_ops_def
        isIdentifierStart_def ascii_upper_def ascii_lower_def)
qed (use assms in \<open>auto simp: written_def show_token_def token_value_def byte_space_def\<close>)

lemma tokenize_tokens: "list_all written ts \<Longrightarrow> tokenize (show_tokens ts) = Inr (ts @ [TEOF])"
  by (induction ts) (simp_all add: show_tokens_def tokenize_token token_cons_def)

section \<open>Expression trees\<close>

datatype filter_tree =
    Compare string filter_token filter_token
  | Negate filter_tree
  | Both filter_tree filter_tree
  | Either filter_tree filter_tree

fun tree_tokens :: "filter_tree \<Rightarrow> filter_token list" where
  "tree_tokens (Compare field operator literal) = [TIdent field, operator, literal]"
| "tree_tokens (Negate e) = [TIdent ''not'', TLParen] @ tree_tokens e @ [TRParen]"
| "tree_tokens (Both e f) =
     [TLParen] @ tree_tokens e @ [TRParen, TIdent ''and'', TLParen] @ tree_tokens f @ [TRParen]"
| "tree_tokens (Either e f) =
     [TLParen] @ tree_tokens e @ [TRParen, TIdent ''or'', TLParen] @ tree_tokens f @ [TRParen]"

fun tree_value :: "filterParser \<Rightarrow> filter_tree \<Rightarrow> bool option" where
  "tree_value p (Compare field operator literal) = comparison p [TIdent field, operator, literal]"
| "tree_value p (Negate e) = map_option Not (tree_value p e)"
| "tree_value p (Both e f) = Option.bind (tree_value p e) (\<lambda>v. map_option ((\<and>) v) (tree_value p f))"
| "tree_value p (Either e f) = Option.bind (tree_value p e) (\<lambda>v. map_option ((\<or>) v) (tree_value p f))"

lemma tree_phrase: "tree_value p e = Some v \<Longrightarrow> gOr p (tree_tokens e) v"
proof (induction e arbitrary: v)
  case (Compare field operator literal)
  then show ?case by (auto intro: or_one and_one compared)
next
  case (Negate e)
  then obtain w where "gOr p (tree_tokens e) w" "v = (\<not> w)" by auto
  then show ?case using or_one [OF and_one [OF negated [OF equal_fold_refl parens]]] by simp
next
  case (Both e f)
  then obtain x y where "gOr p (tree_tokens e) x" "gOr p (tree_tokens f) y" "v = (x \<and> y)"
    by (auto simp: bind_eq_Some_conv)
  then show ?case
    using or_one [OF and_more [OF and_one [OF parens] equal_fold_refl parens]] by simp
next
  case (Either e f)
  then obtain x y where "gOr p (tree_tokens e) x" "gOr p (tree_tokens f) y" "v = (x \<or> y)"
    by (auto simp: bind_eq_Some_conv)
  then show ?case
    using or_more [OF or_one [OF and_one [OF parens]] equal_fold_refl and_one [OF parens]] by simp
qed

lemma expression_value_iff:
  "matchExpressionFilter lower c expression options = Some (Inr v) \<longleftrightarrow>
     (\<exists>ts. tokenize expression = Inr (ts @ [TEOF]) \<and>
       gOr \<lparr>fpLower = lower, fpCandidate = c, fpOptions = options\<rparr> ts v)"
proof (cases "tokenize expression")
  case (Inr tokens)
  with tokenize_ended [of expression] obtain us where us: "tokens = us @ [TEOF]" "TEOF \<notin> set us"
    by (auto simp: ended_def)
  have "us = ts" if "us @ [TEOF] = ts @ rest" "peek rest = TEOF" "TEOF \<notin> set ts" for ts rest
    using that us(2) by (cases rest) (auto simp: append_eq_append_conv2 Cons_eq_append_conv append_eq_Cons_conv)
  then have "(\<exists>ts rest. us @ [TEOF] = ts @ rest \<and> gOr p ts v \<and> peek rest = TEOF) \<longleftrightarrow> gOr p us v" for p
    by (metis phrase_no_end(1) peek_simps(2))
  with Inr us show ?thesis
    by (auto simp: matchExpressionFilter_def parseFilter_iff)
qed (simp add: matchExpressionFilter_def)

lemma filter_ends: "\<exists>r. matchSerialGraphFilter lower rx c options = Some r"
  using parseFilter_returns
  by (auto simp: matchSerialGraphFilter_def matchExpressionFilter_def Let_def split: sum.splits)

section \<open>Properties\<close>

text \<open>C7: A filter expression matches with a value exactly when its tokens form a phrase of the grammar
  with that value: \<open>or\<close> binds weaker than \<open>and\<close>, \<open>and\<close> weaker than \<open>not\<close>, parentheses group, and
  everything else is rejected with an error.\<close>

theorem filter_expression_exact:
  "matchExpressionFilter lower c expression options = Some (Inr v) \<longleftrightarrow>
     (\<exists>ts. tokenize expression = Inr (ts @ [TEOF]) \<and>
       gOr \<lparr>fpLower = lower, fpCandidate = c, fpOptions = options\<rparr> ts v)"
  by (rule expression_value_iff)

text \<open>The recursive-descent evaluator ends on every list of tokens, well-formed or not, and so
  does a filter in every mode.\<close>

theorem filter_returns:
  "(\<exists>r. parseFilter p ts = Some r) \<and> (\<exists>r. matchSerialGraphFilter lower rx c options = Some r)"
  using parseFilter_returns filter_ends by blast

text \<open>An expression tree written as text, its string literals quoted, evaluates to the value of
  the tree: quoting protects every byte of a literal, and the connectives have their meaning.\<close>

theorem filter_tree_evaluated:
  assumes "list_all written (tree_tokens e)"
    and "tree_value \<lparr>fpLower = lower, fpCandidate = c, fpOptions = options\<rparr> e = Some v"
  shows "matchExpressionFilter lower c (show_tokens (tree_tokens e)) options = Some (Inr v)"
  using tokenize_tokens [OF assms(1)] tree_phrase [OF assms(2)] by (auto simp: expression_value_iff)

definition sample_candidate :: filterCandidate where
  "sample_candidate = \<lparr>fcLen = 12, fcByteLength = 0, fcByteCount = 0, fcText = ''say '' @ [CHR 34] @ ''Hi'' @ [CHR 34],
     fcHex = ''01 A2'', fcMessage = [], fcLevel = ''warn'', fcSource = [], fcGraphID = [], fcNodeID = [],
     fcNodeType = [], fcDirection = [], fcPayloadText = [], fcPayloadHex = [], fcDetails = [], fcAction = [],
     fcCategory = []\<rparr>"

definition sample_options :: filterOptions where
  "sample_options = \<lparr>flMode = ''expression'', flExpression = [], flCaseSensitive = False, flWholeWord = False\<rparr>"

definition sample_tree :: filter_tree where
  "sample_tree = Both (Compare ''len'' (TOperator ''>='') (TNumber ''10''))
     (Negate (Compare ''text'' (TIdent ''contains'') (TString (CHR 34 # ''bye''))))"

theorem filter_tree_evaluated_witness:
  "matchExpressionFilter to_lower sample_candidate (show_tokens (tree_tokens sample_tree)) sample_options = Some (Inr True)"
proof (rule filter_tree_evaluated)
  show "list_all written (tree_tokens sample_tree)"
    by (simp add: sample_tree_def written_def isIdentifierPart_def isIdentifierStart_def ascii_upper_def
        ascii_lower_def is_digit_def)
  show "tree_value \<lparr>fpLower = to_lower, fpCandidate = sample_candidate, fpOptions = sample_options\<rparr> sample_tree = Some True"
    by (simp add: sample_tree_def comparison_def sample_candidate_def sample_options_def numericField_def
        stringField_def candidateLength_def compareString_def compareNumber_def isNumericOperator_def
        equal_fold_def lower_char_def ascii_upper_def atoi_def parse_int10_def is_digit_def digits_value_def)
qed

end
