(* ===== verification/GraphInvariants.thy ===== *)
theory GraphInvariants
  imports GraphFacts
begin

text \<open>
  A running graph as a transition system: \<open>graphStep\<close> has one case for each way the program acts on it
  (received data, sends, automatic senders, script generators, finished external writes, connections,
  queries that clear or reset, the port manager, errors and the stop flag). An invariant of one node
  that its operations keep holds in every reachable state.
\<close>

section \<open>Invariants of a node\<close>

definition wAll :: "(graphNode \<Rightarrow> bool) \<Rightarrow> graphWorld \<Rightarrow> bool" where
  "wAll P w \<longleftrightarrow> (\<forall>i n. nodeOf w i = Some n \<longrightarrow> P n)"

lemma all_onNode: "wAll P w \<Longrightarrow> (\<And>n. P n \<Longrightarrow> P (f n)) \<Longrightarrow> wAll P (onNode i f w)"
  by (auto simp: wAll_def split: if_splits)

lemma all_fields [simp]:
  "wAll P (tick w) = wAll P w" "wAll P (w\<lparr>gwManager := m\<rparr>) = wAll P w" "wAll P (w\<lparr>gwPending := ps\<rparr>) = wAll P w"
  by (simp_all add: wAll_def)

text \<open>What the operations that messages perform promise of an invariant; a client of a node relies on
  nothing else.\<close>

locale node_invariant =
  fixes P :: "graphNode \<Rightarrow> bool"
  assumes status: "P n \<Longrightarrow> P (nodeSetStatus s e n)"
    and rx: "P n \<Longrightarrow> P (addRx k n)" and tx: "P n \<Longrightarrow> P (addTx i n)"
    and buffer: "P n \<Longrightarrow> P (nodeAppendBuffer now d n)"
    and capture: "P n \<Longrightarrow> P (captureFrame dir d t err n)"
    and external: "P n \<Longrightarrow> P (fst (tryBeginExternalWrite n))" "P n \<Longrightarrow> P (endExternalWrite n)"
    and connection: "P n \<Longrightarrow> P (fst (closeRemoteConnIfCurrent c n))" "P n \<Longrightarrow> P (setRemoteConn c n)"
    and reconnect: "P n \<Longrightarrow> P (fst (tryBeginRemoteReconnect n))" "P n \<Longrightarrow> P (endRemoteReconnect n)"
    and cleared: "P n \<Longrightarrow> P (nodeClearBuffer n)"
begin

lemma frames: "P n \<Longrightarrow> P (appendFrame d n)" "P n \<Longrightarrow> P (appendModbusFrame h d dir n)" "P n \<Longrightarrow> P (appendScriptFrame c d r n)"
  by (simp_all add: appendFrame_def appendModbusFrame_def appendScriptFrame_def capture split: prod.split)

lemma helpers [simp]:
  "wAll P w \<Longrightarrow> wAll P (nodeFails node e w)" "wAll P w \<Longrightarrow> wAll P (counted node d w)"
  "wAll P w \<Longrightarrow> wAll P (buffered env node d w)" "wAll P w \<Longrightarrow> wAll P (framed env node d dir w)"
  by (simp_all add: nodeFails_def counted_def buffered_def framed_def all_onNode status tx buffer frames)

lemma on_simps [simp]:
  "wAll P w \<Longrightarrow> wAll P (onNode i (addRx k) w)" "wAll P w \<Longrightarrow> wAll P (onNode i (addTx j) w)"
  "wAll P w \<Longrightarrow> wAll P (onNode i (nodeSetStatus s e) w)" "wAll P w \<Longrightarrow> wAll P (onNode i (appendFrame d) w)"
  "wAll P w \<Longrightarrow> wAll P (onNode i (appendModbusFrame h d dir) w)" "wAll P w \<Longrightarrow> wAll P (onNode i (appendScriptFrame c d r) w)"
  "wAll P w \<Longrightarrow> wAll P (onNode i (\<lambda>a. fst (tryBeginExternalWrite a)) w)" "wAll P w \<Longrightarrow> wAll P (onNode i endExternalWrite w)"
  "wAll P w \<Longrightarrow> wAll P (onNode i (\<lambda>a. fst (closeRemoteConnIfCurrent k2 a)) w)" "wAll P w \<Longrightarrow> wAll P (onNode i nodeClearBuffer w)"
  by (simp_all add: all_onNode status rx tx frames external connection cleared)

lemma all_remote_goroutines [simp]:
  "wAll P w \<Longrightarrow> wAll P (fst (remoteReadFailed node c err w))" "wAll P w \<Longrightarrow> wAll P (fst (beginReconnect node w))"
  "wAll P w \<Longrightarrow> wAll P (fst (reconnectTurn node ev w))" "wAll P w \<Longrightarrow> wAll P (remoteConnected node c w)"
  by (simp_all add: remoteReadFailed_def beginReconnect_def reconnectTurn_def remoteConnected_def completeRemoteReconnect_def
      all_onNode status connection reconnect Let_def comp_def split: option.split dial_event.split)

lemma all_portWrite [simp]: "wAll P w \<Longrightarrow> wAll P (fst (portWrite env w h d))"
  by (simp add: portWrite_def split_def Let_def)

lemma all_runScript [simp]: "wAll P w \<Longrightarrow> wAll P (fst (runScript env w node d))"
  by (simp add: runScript_def)

lemma all_remote [simp]: "wAll P w \<Longrightarrow> wAll P (fst (writeRemoteNode env w node d))"
  by (simp add: writeRemoteNode_def Let_def split_def all_onNode status connection split: option.split writeEvent.split)

lemma all_virtual [simp]: "wAll P w \<Longrightarrow> wAll P (writeVirtualExternal node d w)"
  by (simp add: writeVirtualExternal_def Let_def comp_def split: option.split)

lemma all_finish [simp]: "wAll P w \<Longrightarrow> wAll P (finishExternalWrite env w)"
  by (simp add: finishExternalWrite_def Let_def split_def split: list.split)

lemma all_filter [simp]: "wAll P w \<Longrightarrow> wAll P (fst (handleFilter env w node d))"
  by (simp add: handleFilter_def split: option.split sum.split bool.split)

lemma all_transform [simp]: "wAll P w \<Longrightarrow> wAll P (fst (handleScriptTransform env w node d))"
  using all_runScript [of w env node d]
  by (cases "runScript env w node d") (simp add: handleScriptTransform_def Let_def split: sum.split)

lemma all_analyzer [simp]: "wAll P w \<Longrightarrow> wAll P (handleScriptAnalyzer env w node d)"
  by (simp add: handleScriptAnalyzer_def Let_def split_def)

lemma all_modbus_slave [simp]: "wAll P w \<Longrightarrow> wAll P (fst (handleModbusSlave env w node d))"
  by (simp add: handleModbusSlave_def Let_def split: sum.split)

lemma all_fecbus_slave [simp]: "wAll P w \<Longrightarrow> wAll P (fst (handleFecbusSlave w node d))"
  by (simp add: handleFecbusSlave_def Let_def split: sum.split prod.split option.split)

lemma all_receiveBy [simp]: "wAll P w \<Longrightarrow> wAll P (fst (receiveBy env ref node d w))"
  by (simp add: receiveBy_def Let_def split_def split: option.split)

lemma all_receiveStep [simp]: "wAll P w \<Longrightarrow> wAll P (fst (receiveStep env ref d w))"
  by (simp add: receiveStep_def split: option.split)

lemma all_afterEmit [simp]: "wAll P w \<Longrightarrow> wAll P (fst (afterEmit a e w))"
  by (cases a) (simp_all add: afterEmit_def)

end

section \<open>Transitions\<close>

definition setGraphStatus :: "string \<Rightarrow> graphWorld \<Rightarrow> graphWorld" where
  "setGraphStatus s w = w\<lparr>gwRuntime := (gwRuntime w)\<lparr>grStatus := s\<rparr>\<rparr>"

text \<open>One action of the program on a running graph; other users of the ports change the manager.\<close>

inductive graphStep :: "graphEnv \<Rightarrow> graphWorld \<Rightarrow> graphWorld \<Rightarrow> bool" for env where
  Received: "dataReceived env evt w = Some w' \<Longrightarrow> graphStep env w w'"
| Requested: "sendRequest env req w = Some (w', r) \<Longrightarrow> graphStep env w w'"
| AutoSent: "autoSendTurn env i d w = Some (w', b) \<Longrightarrow> graphStep env w w'"
| Generated: "generatorTurn env i w = Some (w', b) \<Longrightarrow> graphStep env w w'"
| FinishedWrite: "graphStep env w (finishExternalWrite env w)"
| RemoteRead: "remoteReadTurn env n c d err w = Some (w', b) \<Longrightarrow> graphStep env w w'"
| Connected: "graphStep env w (remoteConnected n c w)"
| Reconnecting: "beginReconnect n w = (w', b) \<Longrightarrow> graphStep env w w'"
| Reconnected: "reconnectTurn n ev w = (w', b) \<Longrightarrow> graphStep env w w'"
| Cleared: "clearBuffer i w = (w', e) \<Longrightarrow> graphStep env w w'"
| Ports: "graphStep env w (w\<lparr>gwManager := m\<rparr>)"
| Failed: "graphStep env w (graphSetError er w)"
| Changed: "graphStep env w (setGraphStatus s w)"

inductive_cases graphStepE: "graphStep env w w'"

text \<open>The states reached from one state; the flag says whether counters may be reset.\<close>

inductive graphReach :: "bool \<Rightarrow> graphEnv \<Rightarrow> graphWorld \<Rightarrow> graphWorld \<Rightarrow> bool" for resets env w0 where
  reach_start: "graphReach resets env w0 w0"
| reach_step: "graphReach resets env w0 w \<Longrightarrow> graphStep env w w' \<Longrightarrow> graphReach resets env w0 w'"
| reach_reset: "graphReach resets env w0 w \<Longrightarrow> resets \<Longrightarrow> resetCounters i w = (w', e) \<Longrightarrow> graphReach resets env w0 w'"

lemma andThen_eq_Some: "andThen r k = Some y \<longleftrightarrow> (\<exists>w e. r = Some (w, e) \<and> k w e = Some y)"
  by (auto simp: andThen_def split: option.split)

text \<open>What an invariant of the whole state has to promise while messages travel\<close>

locale message_invariant =
  fixes Q :: "graphWorld \<Rightarrow> bool"
  assumes receive: "Q w \<Longrightarrow> Q (fst (receiveStep env ref d w))"
    and after: "Q w \<Longrightarrow> Q (fst (afterEmit a e w))"
    and small: "Q w \<Longrightarrow> Q (nodeFails node er w)" "Q w \<Longrightarrow> Q (counted node d w)"
      "Q w \<Longrightarrow> Q (buffered env node d w)" "Q w \<Longrightarrow> Q (framed env node d dir w)"
    and local: "Q w \<Longrightarrow> Q (onNode i (addRx k) w)" "Q w \<Longrightarrow> Q (onNode i (addTx j) w)"
      "Q w \<Longrightarrow> Q (onNode i (nodeSetStatus s se) w)" "Q w \<Longrightarrow> Q (onNode i nodeClearBuffer w)"
    and outside: "Q w \<Longrightarrow> Q (fst (portWrite env w h d))" "Q w \<Longrightarrow> Q (fst (runScript env w node d))"
      "Q w \<Longrightarrow> Q (fst (writeRemoteNode env w node d))" "Q w \<Longrightarrow> Q (finishExternalWrite env w)"
    and remote: "Q w \<Longrightarrow> Q (fst (remoteReadFailed node c rerr w))" "Q w \<Longrightarrow> Q (fst (beginReconnect node w))"
      "Q w \<Longrightarrow> Q (fst (reconnectTurn node ev w))" "Q w \<Longrightarrow> Q (remoteConnected node c w)"
    and around: "Q w \<Longrightarrow> Q (graphSetError er w)" "Q w \<Longrightarrow> Q (setGraphStatus s w)"
begin

lemma deliver_result: "deliver env refs d w = Some r \<Longrightarrow> Q w \<longrightarrow> Q (fst r)"
proof (erule deliver.raw_induct [where P = "\<lambda>env refs d w r. Q w \<longrightarrow> Q (fst r)", rotated])
  fix go env refs d w r
  assume ih: "\<And>env refs d w r. go env refs d w = Some r \<Longrightarrow> Q w \<longrightarrow> Q (fst r)"
    and step: "(case refs of [] \<Rightarrow> Some (w, None)
      | ref # rest \<Rightarrow>
          andThen (case receiveStep env ref d w of
              (w1, Finished e) \<Rightarrow> Some (w1, e)
            | (w1, Emitting source payload a) \<Rightarrow>
                andThen (go env (targets (gwRuntime w1) source) payload w1)
                  (\<lambda>w2 e. Some (afterEmit a e w2))
            | (w1, Diverges) \<Rightarrow> None)
            (\<lambda>w3 e. andThen (go env rest d w3)
              (\<lambda>w4 e'. Some (w4, if e = None then e' else e)))) = Some r"
  show "Q w \<longrightarrow> Q (fst r)"
  proof (cases refs)
    case Nil
    with step show ?thesis by auto
  next
    case (Cons ref rest)
    obtain w1 x where x: "receiveStep env ref d w = (w1, x)" by fastforce
    show ?thesis
    proof
      assume "Q w"
      with receive [of w env ref d] x have w1: "Q w1" by simp
      have one: "Q w3" if "(case x of Finished e \<Rightarrow> Some (w1, e) | Diverges \<Rightarrow> None | Emitting source payload a \<Rightarrow>
          andThen (go env (targets (gwRuntime w1) source) payload w1) (\<lambda>w2 e. Some (afterEmit a e w2))) = Some (w3, e3)" for w3 e3
      proof (cases x)
        case (Emitting source payload a)
        with that obtain w2 e2 where go: "go env (targets (gwRuntime w1) source) payload w1 = Some (w2, e2)"
            "afterEmit a e2 w2 = (w3, e3)"
          by (auto simp: andThen_def split: option.splits)
        with ih [OF go(1)] w1 after [of w2 a e2] show ?thesis by simp
      qed (use that w1 in auto)
      from step obtain w3 e3 w4 e4 where "(case x of Finished e \<Rightarrow> Some (w1, e) | Diverges \<Rightarrow> None | Emitting source payload a \<Rightarrow>
          andThen (go env (targets (gwRuntime w1) source) payload w1) (\<lambda>w2 e. Some (afterEmit a e w2))) = Some (w3, e3)"
          and rest: "go env rest d w3 = Some (w4, e4)" and r: "fst r = w4"
        unfolding Cons by (auto simp: andThen_eq_Some x)
      with one ih [OF rest] show "Q (fst r)" by simp
    qed
  qed
qed

lemma deliver_keeps: "deliver env refs d w = Some (w', e) \<Longrightarrow> Q w \<Longrightarrow> Q w'"
  by (drule deliver_result) simp

lemma emit_keeps: "emit env source d w = Some (w', e) \<Longrightarrow> Q w \<Longrightarrow> Q w'"
  by (simp add: emit_def deliver_keeps)

lemma send_keeps: "graphSend env i d w = Some (w', e) \<Longrightarrow> Q w \<Longrightarrow> Q w'"
  using outside(1) [of w env "gnHandleID (the (nodeOf w i))" d] outside(3) [of w env "the (nodeOf w i)" d]
  by (auto simp: graphSend_def Let_def small local intro: emit_keeps deliver_keeps
      split: option.splits if_splits prod.splits)

lemma received_keeps: "dataReceived env evt w = Some w' \<Longrightarrow> Q w \<Longrightarrow> Q w'"
  by (auto simp: dataReceived_def small local intro: emit_keeps split: option.splits)

lemma request_keeps: "sendRequest env req w = Some (w', r) \<Longrightarrow> Q w \<Longrightarrow> Q w'"
  by (auto simp: sendRequest_def intro: send_keeps split: option.splits sum.splits if_splits)

lemma auto_keeps: "autoSendTurn env i d w = Some (w', b) \<Longrightarrow> Q w \<Longrightarrow> Q w'"
  by (auto simp: autoSendTurn_def split: option.splits intro: local(3) send_keeps)

lemma generator_keeps: "scriptGeneratorOnce env i w = Some (w', e) \<Longrightarrow> Q w \<Longrightarrow> Q w'"
  using outside(2) [of w env "the (nodeOf w i)" "[]"]
  by (auto simp: scriptGeneratorOnce_def small intro: emit_keeps split: option.splits sum.splits prod.splits if_splits)

lemma turn_keeps:
  assumes "generatorTurn env i w = Some (w', b)" and "Q w"
  shows "Q w'"
proof -
  obtain w1 e where once: "scriptGeneratorOnce env i w = Some (w1, e)"
      and w': "w' = w1 \<or> (\<exists>x. w' = onNode i (nodeSetStatus statusError x) w1)"
    using assms(1) by (fastforce simp: generatorTurn_def split: option.splits if_splits)
  from generator_keeps [OF once assms(2)] w' local(3) show ?thesis by auto
qed

lemma read_keeps:
  assumes "remoteReadTurn env n c d err w = Some (w', b)" and "Q w"
  shows "Q w'"
proof -
  obtain w1 where w1: "remoteReceive env n d w = Some w1" and w': "w' = w1 \<or> (\<exists>e. w' = fst (remoteReadFailed n c e w1))"
    using assms(1) by (auto simp: remoteReadTurn_def split: option.splits) (metis fst_conv)+
  have "Q w1" using w1 assms(2)
    by (auto simp: remoteReceive_def small local intro: emit_keeps split: if_splits)
  with w' remote(1) show ?thesis by auto
qed

end

text \<open>An invariant that does not depend on the port manager\<close>

locale world_invariant = message_invariant +
  assumes manager: "Q w \<Longrightarrow> Q (w\<lparr>gwManager := m\<rparr>)"
begin

lemma step_keeps: "graphStep env w w' \<Longrightarrow> Q w \<Longrightarrow> Q w'"
proof (induction rule: graphStep.induct)
  case (Reconnecting n w w' b)
  then show ?case using remote(2) [of w n] by simp
next
  case (Reconnected n ev w w' b)
  then show ?case using remote(3) [of w n ev] by simp
next
  case (Cleared i w w' e)
  then show ?case by (auto simp: clearBuffer_def onGraphNode_def local split: option.splits)
qed (auto intro: received_keeps request_keeps auto_keeps turn_keeps read_keeps outside remote around manager)

lemma reach_keeps: "graphReach False env w0 w \<Longrightarrow> Q w0 \<Longrightarrow> Q w"
  by (induction rule: graphReach.induct) (auto intro: step_keeps)

end

text \<open>An invariant that also survives resets of the counters\<close>

locale resettable = world_invariant +
  assumes reset: "Q w \<Longrightarrow> Q (onNode i nodeResetCounters w)"
begin

lemma reach_all: "graphReach resets env w0 w \<Longrightarrow> Q w0 \<Longrightarrow> Q w"
  by (induction rule: graphReach.induct)
    (auto simp: resetCounters_def onGraphNode_def intro: step_keeps reset split: option.splits)

end

lemma nodeOf_around [simp]: "nodeOf (graphSetError e w) i = nodeOf w i" "nodeOf (setGraphStatus s w) i = nodeOf w i"
  by (simp_all add: graphSetError_def setGraphStatus_def nodeOf_def)

lemma all_around [simp]: "wAll P (graphSetError e w) = wAll P w" "wAll P (setGraphStatus s w) = wAll P w"
  by (simp_all add: wAll_def)

sublocale node_invariant \<subseteq> wide: world_invariant "wAll P"
  by unfold_locales (simp_all add: all_onNode cleared)

section \<open>Graphs and the port manager\<close>

text \<open>All that messages do to the port manager is to write: what writing keeps, a graph keeps.\<close>

locale manager_invariant =
  fixes P :: "portManager \<Rightarrow> bool"
  assumes writing: "P m \<Longrightarrow> P (fst (managerWrite ev m h d))"
begin

lemma write_world [simp]: "P (gwManager w) \<Longrightarrow> P (gwManager (fst (portWrite env w h d)))"
  using writing [of "gwManager w"] by (auto simp: portWrite_def Let_def tick_def split: prod.split) (metis fst_conv)

end

lemma manager_fields [simp]:
  "gwManager (onNode i f w) = gwManager w" "gwManager (tick w) = gwManager w"
  "gwManager (nodeFails node e w) = gwManager w" "gwManager (counted node d w) = gwManager w"
  "gwManager (buffered genv node d w) = gwManager w" "gwManager (framed genv node d dir w) = gwManager w"
  "gwManager (fst (runScript genv w node d)) = gwManager w" "gwManager (writeVirtualExternal node d w) = gwManager w"
  "gwManager (graphSetError e' w) = gwManager w" "gwManager (setGraphStatus s w) = gwManager w"
  by (simp_all add: onNode_def tick_def nodeFails_def counted_def buffered_def framed_def runScript_def
      writeVirtualExternal_def graphSetError_def setGraphStatus_def Let_def split: option.split)

lemma manager_nodes [simp]:
  "gwManager (fst (writeRemoteNode env w node d)) = gwManager w" "gwManager (fst (handleFilter env w node d)) = gwManager w"
  "gwManager (handleScriptAnalyzer env w node d) = gwManager w" "gwManager (fst (handleModbusSlave env w node d)) = gwManager w"
  "gwManager (fst (handleFecbusSlave w node d)) = gwManager w" "gwManager (fst (afterEmit a e w)) = gwManager w"
  "gwManager (fst (remoteReadFailed node c err w)) = gwManager w" "gwManager (fst (beginReconnect node w)) = gwManager w"
  "gwManager (fst (reconnectTurn node ev w)) = gwManager w" "gwManager (remoteConnected node c w) = gwManager w"
  by (auto simp: writeRemoteNode_def handleFilter_def handleScriptAnalyzer_def handleModbusSlave_def handleFecbusSlave_def
      afterEmit_def remoteReadFailed_def beginReconnect_def reconnectTurn_def remoteConnected_def completeRemoteReconnect_def
      Let_def split_def split: option.split sum.split bool.split writeEvent.split after_emit.split dial_event.split)

lemma manager_transform [simp]: "gwManager (fst (handleScriptTransform env w node d)) = gwManager w"
proof -
  obtain w1 r where "runScript env w node d = (w1, r)" by fastforce
  moreover from this manager_fields(7) [of env w node d] have "gwManager w1 = gwManager w" by simp
  ultimately show ?thesis by (simp add: handleScriptTransform_def Let_def split: sum.split)
qed

sublocale manager_invariant \<subseteq> traffic: message_invariant "\<lambda>w :: graphWorld. P (gwManager w)"
proof
  fix w :: graphWorld and env ref d
  assume "P (gwManager w)"
  then show "P (gwManager (fst (receiveStep env ref d w)))"
    by (auto simp: receiveStep_def receiveBy_def Let_def split_def split: option.split)
next
  fix w :: graphWorld and env
  assume "P (gwManager w)"
  then show "P (gwManager (finishExternalWrite env w))"
    by (auto simp: finishExternalWrite_def Let_def split_def split: list.split)
qed simp_all

context manager_invariant
begin

lemma request_writes: "sendRequest env req w = Some (w', r) \<Longrightarrow> P (gwManager w) \<Longrightarrow> P (gwManager w')"
  by (rule traffic.request_keeps)

lemma received_writes: "dataReceived env evt w = Some w' \<Longrightarrow> P (gwManager w) \<Longrightarrow> P (gwManager w')"
  by (rule traffic.received_keeps)

end

section \<open>The invariants of a graph\<close>

text \<open>The connections and what each node is never change.\<close>

lemma shape_around [simp]: "shapeOf (graphSetError e w) = shapeOf w" "shapeOf (setGraphStatus s w) = shapeOf w"
  by (simp_all add: shapeOf_def) (simp_all add: graphSetError_def setGraphStatus_def)

lemma shape_goroutines [simp]:
  "shapeOf (fst (remoteReadFailed node c err w)) = shapeOf w" "shapeOf (fst (beginReconnect node w)) = shapeOf w"
  "shapeOf (fst (reconnectTurn node ev w)) = shapeOf w" "shapeOf (remoteConnected node c w) = shapeOf w"
  by (simp_all add: remoteReadFailed_def beginReconnect_def reconnectTurn_def remoteConnected_def
      completeRemoteReconnect_def Let_def comp_def split: option.split dial_event.split)

interpretation graph_shape: resettable "\<lambda>w. shapeOf w = s" for s
  by unfold_locales simp_all

text \<open>What is captured stays within its limits, and its size is counted right.\<close>

definition framesSize :: "monitorFrame list \<Rightarrow> int" where
  "framesSize fs = int (sum_list (map (\<lambda>f. length (mfData f)) fs))"

lemma framesSize_simps [simp]:
  "framesSize [] = 0" "framesSize (f # fs) = int (length (mfData f)) + framesSize fs"
  "framesSize (fs @ gs) = framesSize fs + framesSize gs"
  by (simp_all add: framesSize_def)

definition frames_held :: "graphNode \<Rightarrow> bool" where
  "frames_held n \<longleftrightarrow> length (gnFrames n) \<le> frameLimit \<and> gnFrameBytes n = framesSize (gnFrames n)
     \<and> (gnFrameBytes n \<le> frameBytesLimit \<or> length (gnFrames n) = 1)"

lemma trim_spec:
  "trimFrames fs held = (fs', held') \<Longrightarrow> held = framesSize fs \<Longrightarrow>
    (\<exists>k. fs' = drop k fs) \<and> length fs' \<le> frameLimit
    \<and> held' = framesSize fs' \<and> (held' \<le> frameBytesLimit \<or> length fs' = 1)"
proof (induction fs held rule: trimFrames.induct)
  case (1 held)
  then show ?case by (simp add: frameBytesLimit_def)
next
  case (2 f fs held)
  show ?case
  proof (cases "frameLimit < length (f # fs) \<or> frameBytesLimit < held \<and> 1 < length (f # fs)")
    case True
    then have "trimFrames fs (held - int (length (mfData f))) = (fs', held')"
      using 2(2) by (simp split: if_splits)
    from 2(1) [OF True this] obtain k where "fs' = drop k fs" and rest: "length fs' \<le> frameLimit"
      "held' = framesSize fs'" "held' \<le> frameBytesLimit \<or> length fs' = 1" using 2(3) by auto
    then have "fs' = drop (Suc k) (f # fs)" by simp
    with rest show ?thesis by blast
  next
    case False
    then have "fs' = f # fs" "held' = held" using 2(2) by (auto split: if_splits)
    moreover have "f # fs = drop 0 (f # fs)" by simp
    ultimately have "\<exists>k. fs' = drop k (f # fs)" by metis
    with \<open>fs' = f # fs\<close> \<open>held' = held\<close> show ?thesis using False 2(3) by (auto simp: not_less)
  qed
qed

lemma capture_frames:
  assumes "frames_held n"
  obtains k where "gnFrames (captureFrame dir d t err n) = drop k (gnFrames n @ [makeFrame n dir d t err])"
    and "frames_held (captureFrame dir d t err n)"
proof -
  obtain fs held where tr: "trimFrames (gnFrames n @ [makeFrame n dir d t err]) (gnFrameBytes n + int (length d)) = (fs, held)"
    by fastforce
  then have c: "gnFrames (captureFrame dir d t err n) = fs" "gnFrameBytes (captureFrame dir d t err n) = held"
    by (simp_all add: captureFrame_def)
  have "gnFrameBytes n + int (length d) = framesSize (gnFrames n @ [makeFrame n dir d t err])"
    using assms by (simp add: frames_held_def makeFrame_def)
  from trim_spec [OF tr this] obtain k where "fs = drop k (gnFrames n @ [makeFrame n dir d t err])"
      "frames_held (captureFrame dir d t err n)"
    unfolding frames_held_def c by blast
  with c(1) that show thesis by simp
qed

lemmas node_ops = nodeSetStatus_def addRx_def addTx_def nodeAppendBuffer_def tryBeginExternalWrite_def
  endExternalWrite_def closeRemoteConnIfCurrent_def setRemoteConn_def tryBeginRemoteReconnect_def
  endRemoteReconnect_def nodeClearBuffer_def nodeResetCounters_def

interpretation frame_limits: node_invariant frames_held
proof
  show "frames_held n \<Longrightarrow> frames_held (captureFrame dir d t err n)" for n dir d t err
    by (rule capture_frames)
qed (auto simp: frames_held_def node_ops frameBytesLimit_def)

lemma frames_held_reset: "frames_held n \<Longrightarrow> frames_held (nodeResetCounters n)"
  by (auto simp: frames_held_def nodeResetCounters_def)

interpretation frame_limits_all: resettable "wAll frames_held"
  by unfold_locales (simp add: all_onNode frames_held_reset)

text \<open>Without resets, frames are numbered without repetition.\<close>

definition frames_numbered :: "graphNode \<Rightarrow> bool" where
  "frames_numbered n \<longleftrightarrow> frames_held n \<and> sorted_wrt (<) (map mfSeq (gnFrames n))
     \<and> list_all (\<lambda>f. mfSeq f \<le> gnFrameSeq n) (gnFrames n)"

interpretation frame_numbers: node_invariant frames_numbered
proof
  fix n dir d t err
  assume n: "frames_numbered n"
  then obtain k where k: "gnFrames (captureFrame dir d t err n) = drop k (gnFrames n @ [makeFrame n dir d t err])"
      "frames_held (captureFrame dir d t err n)"
    by (meson capture_frames frames_numbered_def)
  have seq: "gnFrameSeq (captureFrame dir d t err n) = gnFrameSeq n + 1"
    by (simp add: captureFrame_def split: prod.split)
  have "sorted_wrt (<) (map mfSeq (gnFrames n @ [makeFrame n dir d t err]))"
    using n by (auto simp: frames_numbered_def sorted_wrt_append makeFrame_def list_all_iff)
  then have "sorted_wrt (<) (map mfSeq (gnFrames (captureFrame dir d t err n)))"
    unfolding k(1) by (metis append_take_drop_id map_append sorted_wrt_append)
  moreover have "list_all (\<lambda>f. mfSeq f \<le> gnFrameSeq n + 1) (gnFrames (captureFrame dir d t err n))"
    using n unfolding k(1) list_all_iff frames_numbered_def
    by (fastforce simp: makeFrame_def dest: in_set_dropD)
  ultimately show "frames_numbered (captureFrame dir d t err n)" using k(2) seq by (simp add: frames_numbered_def)
qed (auto simp: frames_numbered_def frames_held_def node_ops frameBytesLimit_def)

text \<open>The receive buffer of a node holds the end of the bytes appended since it was cleared.\<close>

definition buffer_held :: "graphNode \<Rightarrow> bool" where
  "buffer_held n \<longleftrightarrow> rbCapacity (gnBuffer n) = 64 * 1024 * 1024 \<and> (\<exists>bs. ring_holds (gnBuffer n) bs)"

lemma append_capacity [simp]: "rbCapacity (appendBytes now d r) = rbCapacity r"
  by (auto simp: appendBytes_def ringAppend_def Let_def split: prod.split)

interpretation buffers: node_invariant buffer_held
proof
  show "buffer_held n \<Longrightarrow> buffer_held (nodeAppendBuffer now d n)" for now d n
    by (auto simp: buffer_held_def nodeAppendBuffer_def dest: appendBytes_holds)
  show "buffer_held n \<Longrightarrow> buffer_held (nodeClearBuffer n)" for n
    by (auto simp: buffer_held_def nodeClearBuffer_def ringReset_def ring_holds_def ring_bytes_def lastn_def intro!: exI [of _ "[]"])
qed (simp_all add: buffer_held_def node_ops captureFrame_def split: prod.split)

lemma buffer_held_reset: "buffer_held n \<Longrightarrow> buffer_held (nodeResetCounters n)"
  by (simp add: buffer_held_def nodeResetCounters_def)

interpretation buffers_all: resettable "wAll buffer_held"
  by unfold_locales (simp add: all_onNode buffer_held_reset)

text \<open>The graph as it is created\<close>

definition created :: "graphStartRequest \<Rightarrow> graphWorld \<Rightarrow> graphWorld" where
  "created req w = w\<lparr>gwRuntime := newSerialGraphRuntime req\<rparr>"

lemma new_all:
  assumes "\<And>spec. P (newGraphNode spec)"
  shows "wAll P (created req w)"
proof -
  have "map_of (foldl (\<lambda>t spec. table_put (nsID spec) (newGraphNode spec) t) t0 ns) i = Some n \<Longrightarrow>
      (\<forall>j m. map_of t0 j = Some m \<longrightarrow> P m) \<Longrightarrow> P n" for t0 ns i n
    by (induction ns arbitrary: t0) (auto simp: assms split: if_splits)
  from this [where ?t0.0 = "[]"] show ?thesis
    by (simp add: wAll_def created_def nodeOf_def newSerialGraphRuntime_def)
qed

lemma created_runs:
  assumes "valid lower req" and "graphReach resets env (created req w) v"
  shows "runs req v"
  using new_runs [OF assms(1), of w] graph_shape.reach_all [OF assms(2)]
  by (simp add: runs_def created_def)

lemma reached_frames:
  assumes "graphReach resets env (created req w) v" and "nodeOf v i = Some n"
  shows "frames_held n"
proof -
  have "wAll frames_held (created req w)"
    by (rule new_all) (simp add: frames_held_def newGraphNode_def frameBytesLimit_def)
  with assms frame_limits_all.reach_all show ?thesis by (auto simp: wAll_def)
qed

lemma reached_numbers:
  assumes "graphReach False env (created req w) v" and "nodeOf v i = Some n"
  shows "frames_numbered n"
proof -
  have "wAll frames_numbered (created req w)"
    by (rule new_all) (simp add: frames_numbered_def frames_held_def newGraphNode_def frameBytesLimit_def)
  with assms frame_numbers.wide.reach_keeps show ?thesis by (auto simp: wAll_def)
qed

lemma reached_buffers:
  assumes "graphReach resets env (created req w) v" and "nodeOf v i = Some n"
  shows "buffer_held n"
proof -
  have "wAll buffer_held (created req w)"
    by (rule new_all) (auto simp: buffer_held_def newGraphNode_def NewRing_def ring_holds_def ring_bytes_def lastn_def
        intro!: exI [of _ "[]"])
  with assms buffers_all.reach_all show ?thesis by (auto simp: wAll_def)
qed

section \<open>Every entry returns\<close>

lemma deliver_stops: "valid lower req \<Longrightarrow> runs req v \<Longrightarrow> \<exists>v' e. deliver env refs d v = Some (v', e)"
  using message_stops by blast

lemma emit_stops: "valid lower req \<Longrightarrow> runs req v \<Longrightarrow> \<exists>v' e. emit env source d v = Some (v', e)"
  unfolding emit_def using message_stops by blast

lemma runs_ops [simp]:
  "runs req (framed env node d dir v) = runs req v" "runs req (counted node d v) = runs req v"
  "runs req (buffered env node d v) = runs req v" "runs req (onNode i (addRx k) v) = runs req v"
  by (simp_all add: runs_def)

lemma runs_script: "runScript env v node d = (v', r) \<Longrightarrow> runs req v \<Longrightarrow> runs req v'"
  using shape_runScript [of env v node d] by (simp add: runs_def)

lemma send_stops: "valid lower req \<Longrightarrow> runs req v \<Longrightarrow> graphSend env i d v \<noteq> None"
  using emit_stops [of lower req "framed env (the (nodeOf v i)) d sent (counted (the (nodeOf v i)) d v)" env _ d]
    emit_stops [of lower req "counted (the (nodeOf v i)) d v" env _ d] deliver_stops [of lower req v env _ d]
  by (auto simp: graphSend_def Let_def split: option.split prod.split)

lemma received_stops: "valid lower req \<Longrightarrow> runs req v \<Longrightarrow> dataReceived env evt v \<noteq> None"
  using emit_stops [of lower req _ env _ "deData evt"]
  by (fastforce simp: dataReceived_def split: option.split)

lemma generator_stops: "valid lower req \<Longrightarrow> runs req v \<Longrightarrow> scriptGeneratorOnce env i v \<noteq> None"
  using emit_stops [of lower req]
  by (auto simp: scriptGeneratorOnce_def dest: runs_script split: option.split prod.split sum.split)

lemma remote_stops: "valid lower req \<Longrightarrow> runs req v \<Longrightarrow> remoteReceive env n d v \<noteq> None"
  using emit_stops [of lower req _ env _ d] by (fastforce simp: remoteReceive_def)

section \<open>Properties\<close>

text \<open>C2: In every state a validated graph can reach, a message that enters it (data received on a
  port or a remote connection, a send, an automatic sender, a script generator) stops travelling: the
  mutual recursion of \<open>emit\<close> and \<open>receive\<close> returns, whatever the scripts and drivers answer.\<close>

theorem graph_message_stops:
  assumes "validateSerialGraphRuntimeRequest lower req = []"
    and "graphReach resets env (created req w) v"
  shows "emit env source d v \<noteq> None \<and> dataReceived env evt v \<noteq> None \<and> graphSend env i d v \<noteq> None
    \<and> scriptGeneratorOnce env i v \<noteq> None \<and> remoteReceive env n d v \<noteq> None"
proof -
  have v: "valid lower req" using assms(1) by (simp add: valid_def)
  note runs = created_runs [OF v assms(2)]
  show ?thesis
    using emit_stops [OF v runs, of env source d] received_stops [OF v runs] send_stops [OF v runs]
      generator_stops [OF v runs] remote_stops [OF v runs] by simp
qed

text \<open>C13: In every reachable state of a graph a node keeps at most 100,000 frames, counts their bytes
  exactly, and holds more than 16 MiB of them only as one single frame.\<close>

theorem captured_frames_bounded:
  assumes "graphReach resets env (created req w) v" and "nodeOf v i = Some n"
  shows "length (gnFrames n) \<le> 100000 \<and> gnFrameBytes n = framesSize (gnFrames n)
    \<and> (gnFrameBytes n \<le> 16 * 1024 * 1024 \<or> length (gnFrames n) = 1)"
  using reached_frames [OF assms] by (auto simp: frames_held_def frameLimit_def frameBytesLimit_def)

text \<open>As long as nobody resets the counters, the frames a node has captured carry increasing
  sequence numbers, and no number twice.\<close>

theorem captured_frames_numbered:
  assumes "graphReach False env (created req w) v" and "nodeOf v i = Some n"
  shows "sorted_wrt (<) (map mfSeq (gnFrames n)) \<and> distinct (map mfSeq (gnFrames n))"
  using reached_numbers [OF assms] by (simp add: frames_numbered_def strict_sorted_iff)

text \<open>Resetting the counters of a node keeps its frames but numbers the next one from 1 again, so
  two of the frames shown carry one number.\<close>

theorem reset_repeats_numbers:
  "map mfSeq (gnFrames (appendFrame d2 (nodeResetCounters (appendFrame d1 (newGraphNode spec)))))
    = (if 16777216 < int (length d1) + int (length d2) then [1] else [1, 1])"
  by (simp add: appendFrame_def captureFrame_def newGraphNode_def nodeResetCounters_def makeFrame_def
      frameLimit_def frameBytesLimit_def)

section \<open>A running graph\<close>

text \<open>Ports and connections that take every byte, and scripts that return their input\<close>

definition sampleEnv :: graphEnv where
  "sampleEnv = \<lparr>geLower = to_lower, geRegexp = (\<lambda>_ _. None), geCodecs = reversing_codecs, geHexText = (\<lambda>_. []),
     geNow = (\<lambda>_. []), gePortWrite = (\<lambda>_ _ d. Wrote (int (length d)) None),
     geRemoteWrite = (\<lambda>_ _ d. Wrote (int (length d)) None),
     geScript = (\<lambda>_ _ d. Inr \<lparr>scrOutput = d, scrDrop = False, scrFields = [], scrErrors = []\<rparr>)\<rparr>"

definition sampleWorld :: graphWorld where
  "sampleWorld = \<lparr>gwManager = NewPortManager, gwRuntime = newSerialGraphRuntime sampleGraph, gwPending = [], gwTick = 0\<rparr>"

theorem graph_message_stops_witness:
  "emit sampleEnv \<lparr>prNode = ''m'', prHandle = ''tx''\<rparr> [1, 3, 0, 0, 0, 1] (created sampleGraph sampleWorld) \<noteq> None"
  using graph_message_stops [OF sampleGraph_valid reach_start] by blast

text \<open>An empty message goes nowhere: a master that sends it twice captures two frames.\<close>

lemma deliver_empty: "deliver env refs [] v = Some (v, None)"
  by (induction refs) (simp_all add: deliver_simps deliverOne_def receiveStep_def split: option.split)

lemma auto_empty:
  assumes "nodeOf v i = Some n" and "nsType (gnSpec n) = ''serial.modbus.master''"
  shows "autoSendTurn env i [] v = Some (framed env n [] sent (counted n [] v), True)"
  using assms by (simp add: autoSendTurn_def graphSend_def emit_def deliver_empty)

definition masterNode :: graphNode where
  "masterNode = newGraphNode (sampleNode ''m'' ''serial.modbus.master'' [])"

definition sampleOnce :: graphWorld where
  "sampleOnce = framed sampleEnv masterNode [] sent (counted masterNode [] (created sampleGraph sampleWorld))"

definition sampleTwice :: graphWorld where
  "sampleTwice = framed sampleEnv (the (nodeOf sampleOnce ''m'')) [] sent (counted (the (nodeOf sampleOnce ''m'')) [] sampleOnce)"

lemma sample_start: "nodeOf (created sampleGraph sampleWorld) ''m'' = Some masterNode"
  by (simp add: created_def nodeOf_def newSerialGraphRuntime_def sampleGraph_def sampleNode_def masterNode_def)

lemma masterNode_simps [simp]: "gnSpec masterNode = sampleNode ''m'' ''serial.modbus.master'' []"
  by (simp add: masterNode_def newGraphNode_def)

lemma sample_once: "nodeOf sampleOnce ''m'' =
    Some (appendModbusFrame (geHexText sampleEnv) [] sent (addTx 0 masterNode))"
  by (simp add: sampleOnce_def framed_def counted_def sample_start sampleNode_def)

lemma sample_twice: "nodeOf sampleTwice ''m'' = Some (appendModbusFrame (geHexText sampleEnv) [] sent
    (addTx 0 (appendModbusFrame (geHexText sampleEnv) [] sent (addTx 0 masterNode))))"
  by (simp add: sampleTwice_def framed_def counted_def sample_once sampleNode_def)

lemma sample_reached: "graphReach r sampleEnv (created sampleGraph sampleWorld) sampleTwice"
proof (rule reach_step [OF reach_step [OF reach_start]])
  show "graphStep sampleEnv (created sampleGraph sampleWorld) sampleOnce"
    by (rule AutoSent, unfold sampleOnce_def, rule auto_empty [OF sample_start]) (simp add: sampleNode_def)
  show "graphStep sampleEnv sampleOnce sampleTwice"
    using auto_empty [of sampleOnce "''m''" "the (nodeOf sampleOnce ''m'')" sampleEnv]
    by (intro AutoSent [where i = "''m''" and d = "[]" and b = True]) (simp add: sample_once sampleTwice_def sampleNode_def)
qed

lemma sample_count: "\<exists>n. nodeOf sampleTwice ''m'' = Some n \<and> length (gnFrames n) = 2"
  by (simp add: sample_twice appendModbusFrame_def captureFrame_def masterNode_def newGraphNode_def makeFrame_def addTx_def
      frameLimit_def frameBytesLimit_def split: prod.split)

theorem captured_frames_bounded_witness:
  "\<exists>n. nodeOf sampleTwice ''m'' = Some n \<and> length (gnFrames n) = 2 \<and> gnFrameBytes n = framesSize (gnFrames n)"
  using sample_count captured_frames_bounded [OF sample_reached] by blast

theorem captured_frames_numbered_witness:
  "\<exists>n. nodeOf sampleTwice ''m'' = Some n \<and> length (gnFrames n) = 2 \<and> distinct (map mfSeq (gnFrames n))"
  using sample_count captured_frames_numbered [OF sample_reached] by blast

end
