(* ===== verification/MonitorFacts.thy ===== *)
theory MonitorFacts
  imports Monitor
begin

text \<open>
  Correctness of monitors: what is displayed is printable, forwarding hands on exactly the bytes it
  reads and records them, pages cover the history, and sessions started one at a time never share a
  port. The critical sections of two calls interleaved break the last.
\<close>

section \<open>Display\<close>

definition printable :: "byte \<Rightarrow> bool" where
  "printable b \<longleftrightarrow> 0x20 \<le> b \<and> b \<noteq> 0x7F"

lemma control_names_printable: "\<forall>s \<in> set asciiControlNames. list_all printable (bytes_of (CHR 92 # s))"
  by code_simp

lemma printable_fixed: "list_all printable (bytes_of (CHR 92 # ''DEL''))" "list_all printable replacementRune"
  by code_simp+

lemma high_printable: "0x80 \<le> b \<Longrightarrow> printable b"
  unfolding printable_def by (auto simp: word_le_nat_alt)

lemma high_range: "in_range lo hi b \<Longrightarrow> 0x80 \<le> lo \<Longrightarrow> 0x80 \<le> b"
  by (auto simp: in_range_def intro: order_trans)

lemma continuations_high:
  "continuations lo hi n bs \<Longrightarrow> 0x80 \<le> lo \<Longrightarrow> 0 < n \<Longrightarrow> list_all printable (take n bs)"
  by (cases bs; cases n) (auto simp: continuations_def list_all_iff intro!: high_printable intro: high_range)

lemma rune_printable:
  assumes "rune_length (c # rest) = Some n" and "0x20 \<le> c" and "c \<noteq> 0x7F"
  shows "list_all printable (take n (c # rest))"
proof (cases "c < 0x80")
  case True
  with assms show ?thesis by (auto simp: printable_def)
next
  case False
  then have "printable c" by (intro high_printable) simp
  moreover obtain lo hi k where "n = Suc k" and "0 < k" and "continuations lo hi k rest" and "0x80 \<le> lo"
    using assms(1) False by (fastforce split: if_splits)
  ultimately show ?thesis using continuations_high by simp
qed

lemma displayBytes_printable: "list_all printable (displayBytes bs)"
proof (induction bs rule: displayBytes.induct)
  case (2 c rest)
  have names: "list_all printable (bytes_of (CHR 92 # asciiControlNames ! unat c))" if "c < 0x20"
  proof -
    have "unat c < length asciiControlNames"
      using that by (simp add: asciiControlNames_def word_less_nat_alt)
    with control_names_printable show ?thesis by (meson nth_mem)
  qed
  show ?case
    using 2 names printable_fixed rune_printable [of c rest]
    by (auto simp del: bytes_of_simps rune_length.simps split: option.split)
qed simp

section \<open>Forwarding\<close>

text \<open>What a goroutine hands on: the blocks it reads until a read or a write fails\<close>

fun delivered :: "forward_event list \<Rightarrow> bytes list" where
  "delivered (ReadGives data None # evs) = (if data = [] then delivered evs else data # delivered evs)"
| "delivered (ReadGives data (Some e) # evs) = (if data = [] then delivered evs else [])"
| "delivered _ = []"

definition monRecord :: "monitorFrame \<Rightarrow> monitorSession \<Rightarrow> monitorSession" where
  "monRecord f s = s\<lparr>mnFrames := (let fs = mnFrames s @ [f] in
     if monFrameLimit < length fs then drop (length fs - monFrameLimit) fs else fs)\<rparr>"

interpretation monitor_log: bounded_log mnFrames monRecord monFrameLimit
  by unfold_locales (simp add: monRecord_def lastn_def Let_def)

definition monFrame :: "(string \<Rightarrow> string) \<Rightarrow> string \<Rightarrow> string \<Rightarrow> bytes \<Rightarrow> monitorSession \<Rightarrow> monitorFrame" where
  "monFrame lower direction publicPort data s = enrichFrame lower \<lparr>mfSeq = mnNextSeq s + 1, mfDirection = direction,
     mfPort = publicPort, mfLength = 0, mfData = data, mfText = [], mfHex = [], mfDec = [], mfOct = [], mfBin = [],
     mfEncoding = [], mfError = []\<rparr> (moEncoding (mnReq s))"

lemma append_fields:
  "mnFrames (monAppendFrame lower dir p d s) = lastn monFrameLimit (mnFrames s @ [monFrame lower dir p d s])"
  "mnNextSeq (monAppendFrame lower dir p d s) = mnNextSeq s + 1"
  "mnReq (monAppendFrame lower dir p d s) = mnReq s" "mnStatus (monAppendFrame lower dir p d s) = mnStatus s"
  "mnPorts (monAppendFrame lower dir p d s) = mnPorts s"
  using monitor_log.append_entries [of "monFrame lower dir p d s" s]
  by (simp_all add: monAppendFrame_def monFrame_def monRecord_def Let_def)

lemma monFrame_fields [simp]:
  "mfData (monFrame lower dir p d s) = d" "mfSeq (monFrame lower dir p d s) = mnNextSeq s + 1"
  "mfDirection (monFrame lower dir p d s) = dir" "mfText (monFrame lower dir p d s) = displayText d"
  by (simp_all add: monFrame_def enrichFrame_def)

lemma fail_fields [simp]: "mnFrames (monFail r s) = mnFrames s" "mnNextSeq (monFail r s) = mnNextSeq s"
  by (simp_all add: monFail_def)

lemma forward_record:
  assumes "forward lower dir p evs s = (s', written)" and "length (mnFrames s) \<le> monFrameLimit"
  shows "written = concat (delivered evs)
    \<and> map (\<lambda>f. (mfSeq f, mfDirection f, mfData f)) (mnFrames s') =
        lastn monFrameLimit (map (\<lambda>f. (mfSeq f, mfDirection f, mfData f)) (mnFrames s)
          @ zip (map (\<lambda>i. mnNextSeq s + 1 + int i) [0..<length (delivered evs)]) (map (Pair dir) (delivered evs)))
    \<and> mnNextSeq s' = mnNextSeq s + int (length (delivered evs))"
  using assms
proof (induction evs arbitrary: s s' written)
  case Nil
  then show ?case by (auto simp: lastn_short)
next
  case (Cons ev evs)
  show ?case
  proof (cases "\<exists>data. ev = ReadGives data None \<and> data \<noteq> []")
    case True
    then obtain data where ev: "ev = ReadGives data None" "data \<noteq> []" by blast
    let ?s1 = "monAppendFrame lower dir p data s"
    let ?v = "map (\<lambda>f. (mfSeq f, mfDirection f, mfData f))"
    obtain more where more: "forward lower dir p evs ?s1 = (s', more)" "written = data @ more"
      using Cons.prems(1) ev by (auto simp: forwardTurn_def split: prod.splits)
    have "length (mnFrames ?s1) \<le> monFrameLimit" by (simp add: append_fields)
    note ih = Cons.IH [OF more(1) this]
    have frames: "?v (mnFrames ?s1) = lastn monFrameLimit (?v (mnFrames s) @ [(mnNextSeq s + 1, dir, data)])"
      by (simp add: append_fields map_lastn)
    have nums: "map (\<lambda>i. mnNextSeq s + 1 + int i) [0..<Suc n]
        = (mnNextSeq s + 1) # map (\<lambda>i. mnNextSeq ?s1 + 1 + int i) [0..<n]" for n
      by (simp add: append_fields upt_conv_Cons map_Suc_upt [symmetric] comp_def del: upt_Suc)
    show ?thesis using ih more(2) ev
      by (simp add: frames nums lastn_lastn_append append_fields(2) del: upt_Suc)
  next
    case False
    then consider "ev = ReadGives [] None" | e where "ev = ReadGives [] (Some e)"
      | data e where "ev = ReadGives data (Some e)" "data \<noteq> []" | c e where "ev = ReadFails c e"
      by (metis forward_event.exhaust option.exhaust)
    then show ?thesis
      using Cons by cases (auto simp: forwardTurn_def lastn_short split: prod.splits if_splits)
  qed
qed

section \<open>Paging\<close>

interpretation monitor_pages: paged_query
  "\<lambda>(lower, s, req). filter (monMatches lower req) (mnFrames s)"
  "\<lambda>(lower, s, req) k l. mpFrames (monQuery lower s (req\<lparr>mqOffset := int k, mqLimit := int l\<rparr>))" 5000
proof
  fix l k :: nat and q :: "(string \<Rightarrow> string) \<times> monitorSession \<times> monitorQuery"
  assume l: "0 < l" "l \<le> 5000"
  obtain lower s req where q: "q = (lower, s, req)" by (cases q) auto
  have m: "monMatches lower (req\<lparr>mqOffset := a, mqLimit := b\<rparr>) = monMatches lower req" for a b
    by (simp add: fun_eq_iff monMatches_def)
  show "(case q of (lower, s, req) \<Rightarrow> \<lambda>k l. mpFrames (monQuery lower s (req\<lparr>mqOffset := int k, mqLimit := int l\<rparr>))) k l
      = take l (drop k (case q of (lower, s, req) \<Rightarrow> filter (monMatches lower req) (mnFrames s)))"
    using l by (auto simp: q monQuery_def m Let_def nat_diff_distrib simp flip: of_nat_add)
qed

section \<open>Ports\<close>

definition monRunningAt :: "monitorManager \<Rightarrow> nat \<Rightarrow> bool" where
  "monRunningAt m a \<longleftrightarrow> a < length (mgHeap m) \<and> mnStatus (mgHeap m ! a) = monRunning"

definition monPortsAt :: "monitorManager \<Rightarrow> nat \<Rightarrow> string set" where
  "monPortsAt m a = {moPortA (mnReq (mgHeap m ! a)), moPortB (mnReq (mgHeap m ! a))}"

text \<open>Every running session is in the table, and no two of them share a port.\<close>

definition mon_ok :: "monitorManager \<Rightarrow> bool" where
  "mon_ok m \<longleftrightarrow> table_ok (mgSessions m)
     \<and> (\<forall>i a. map_of (mgSessions m) i = Some a \<longrightarrow> a < length (mgHeap m))
     \<and> (\<forall>a. monRunningAt m a \<longrightarrow> (\<exists>i. map_of (mgSessions m) i = Some a))
     \<and> (\<forall>a b. monRunningAt m a \<longrightarrow> monRunningAt m b \<longrightarrow> a \<noteq> b \<longrightarrow> monPortsAt m a \<inter> monPortsAt m b = {})"

lemma mon_ok_table: "mon_ok m \<Longrightarrow> table_ok (mgSessions m)"
  "mon_ok m \<Longrightarrow> map_of (mgSessions m) i = Some a \<Longrightarrow> a < length (mgHeap m)"
  unfolding mon_ok_def by blast+

lemma mon_ok_owned: "mon_ok m \<Longrightarrow> monRunningAt m a \<Longrightarrow> \<exists>i. map_of (mgSessions m) i = Some a"
  unfolding mon_ok_def by blast

lemma mon_ok_apart: "mon_ok m \<Longrightarrow> monRunningAt m a \<Longrightarrow> monRunningAt m b \<Longrightarrow> a \<noteq> b \<Longrightarrow> monPortsAt m a \<inter> monPortsAt m b = {}"
  unfolding mon_ok_def by blast

text \<open>Actions that only end sessions keep this.\<close>

definition mon_less :: "monitorManager \<Rightarrow> monitorManager \<Rightarrow> bool" where
  "mon_less m' m \<longleftrightarrow> length (mgHeap m') = length (mgHeap m)
     \<and> (\<forall>a < length (mgHeap m). mnReq (mgHeap m' ! a) = mnReq (mgHeap m ! a))
     \<and> (\<forall>a. monRunningAt m' a \<longrightarrow> monRunningAt m a)
     \<and> table_ok (mgSessions m')
     \<and> (\<forall>i a. map_of (mgSessions m') i = Some a \<longrightarrow> map_of (mgSessions m) i = Some a)
     \<and> (\<forall>i a. monRunningAt m' a \<longrightarrow> map_of (mgSessions m) i = Some a \<longrightarrow> map_of (mgSessions m') i = Some a)"

lemma mon_lessD:
  assumes "mon_less m' m"
  shows "length (mgHeap m') = length (mgHeap m)" and "a < length (mgHeap m) \<Longrightarrow> mnReq (mgHeap m' ! a) = mnReq (mgHeap m ! a)"
    and "monRunningAt m' a \<Longrightarrow> monRunningAt m a" and "table_ok (mgSessions m')"
    and "map_of (mgSessions m') i = Some a \<Longrightarrow> map_of (mgSessions m) i = Some a"
    and "monRunningAt m' a \<Longrightarrow> map_of (mgSessions m) i = Some a \<Longrightarrow> map_of (mgSessions m') i = Some a"
  using assms unfolding mon_less_def by blast+

lemma mon_less_ok: "mon_less m' m \<Longrightarrow> mon_ok m \<Longrightarrow> mon_ok m'"
proof -
  assume less: "mon_less m' m" and ok: "mon_ok m"
  note less = mon_lessD [OF less]
  have ports: "monRunningAt m' a \<Longrightarrow> monPortsAt m' a = monPortsAt m a" for a
    using less(2) [of a] less(3) [of a] by (simp add: monPortsAt_def monRunningAt_def)
  have "\<exists>i. map_of (mgSessions m') i = Some a" if "monRunningAt m' a" for a
    using mon_ok_owned [OF ok less(3) [OF that]] less(6) [OF that] by blast
  moreover have "monPortsAt m' a \<inter> monPortsAt m' b = {}" if "monRunningAt m' a" "monRunningAt m' b" "a \<noteq> b" for a b
    using mon_ok_apart [OF ok less(3) less(3)] that by (simp add: ports)
  moreover have "a < length (mgHeap m')" if "map_of (mgSessions m') i = Some a" for i a
    using mon_ok_table(2) [OF ok less(5) [OF that]] less(1) by simp
  ultimately show "mon_ok m'" using less(4) unfolding mon_ok_def by blast
qed

lemma mon_less_trans: "mon_less m2 m1 \<Longrightarrow> mon_less m1 m \<Longrightarrow> mon_less m2 m"
  unfolding mon_less_def by metis

lemma mon_less_refl: "table_ok (mgSessions m) \<Longrightarrow> mon_less m m"
  by (simp add: mon_less_def)

text \<open>Operations on one cell that end a session or leave it as it is\<close>

definition mon_quiet :: "(monitorSession \<Rightarrow> monitorSession) \<Rightarrow> bool" where
  "mon_quiet f \<longleftrightarrow> (\<forall>s. mnReq (f s) = mnReq s \<and> (mnStatus (f s) = monRunning \<longrightarrow> mnStatus s = monRunning))"

lemma mon_status_distinct [simp]: "monStopped \<noteq> monRunning" "monError \<noteq> monRunning" "monStopped \<noteq> monError"
  "monRunning \<noteq> monStopped" "monRunning \<noteq> monError" "monError \<noteq> monStopped"
  by (simp_all add: monStopped_def monRunning_def monError_def)

lemma quiet_ops: "mon_quiet (monStop r)" "mon_quiet (monFail r)" "mon_quiet monClearFrames"
  "mon_quiet (\<lambda>s. fst (forwardTurn lower dir p ev s))"
  by (auto simp: mon_quiet_def monStop_def monFail_def monClearFrames_def forwardTurn_def append_fields
      split: forward_event.split option.split)

lemma stopped: "mnStatus (monStop [] s) \<noteq> monRunning"
  by (simp add: monStop_def)

lemma update_nth: "mgHeap (monUpdate a f m) ! b = (if b = a \<and> b < length (mgHeap m) then f (mgHeap m ! b) else mgHeap m ! b)"
  by (cases "a < length (mgHeap m)") (auto simp: monUpdate_def nth_list_update list_update_beyond not_less)

lemma update_fields [simp]: "mgSessions (monUpdate a f m) = mgSessions m" "length (mgHeap (monUpdate a f m)) = length (mgHeap m)"
  by (simp_all add: monUpdate_def)

lemma update_running: "monRunningAt (monUpdate a f m) b \<longleftrightarrow>
    b < length (mgHeap m) \<and> mnStatus (if b = a then f (mgHeap m ! b) else mgHeap m ! b) = monRunning"
  by (auto simp: monRunningAt_def update_nth)

lemma update_less: "mon_quiet f \<Longrightarrow> table_ok (mgSessions m) \<Longrightarrow> mon_less (monUpdate a f m) m"
  by (auto simp: mon_less_def update_running mon_quiet_def update_nth monRunningAt_def split: if_splits)

lemma stop_less: "table_ok (mgSessions m) \<Longrightarrow> mon_less (fst (monStopSession i m)) m"
  by (simp add: monStopSession_def update_less quiet_ops mon_less_refl split: sum.split)

lemma clear_less: "table_ok (mgSessions m) \<Longrightarrow> mon_less (fst (monClear i m)) m"
  by (simp add: monClear_def update_less quiet_ops mon_less_refl split: sum.split)

lemma delete_less:
  assumes "mon_ok m"
  shows "mon_less (fst (monDelete i m)) m"
proof (cases "map_of (mgSessions m) i")
  case (Some a)
  have "mon_less (monUpdate a (monStop []) (m\<lparr>mgSessions := table_del i (mgSessions m)\<rparr>)) m"
    using assms Some stopped quiet_ops(1)
    by (auto simp: mon_less_def mon_ok_def update_running mon_quiet_def update_nth monRunningAt_def split: if_splits)
  with Some show ?thesis by (simp add: monDelete_def)
qed (use assms in \<open>simp add: monDelete_def mon_less_refl mon_ok_def\<close>)

lemma delete_ok: "mon_ok m \<Longrightarrow> mon_ok (fst (monDelete i m))"
  by (rule mon_less_ok [OF delete_less])

lemma stop_running: "monRunningAt (monUpdate a (monStop []) m) b \<longleftrightarrow> monRunningAt m b \<and> b \<noteq> a"
  using stopped quiet_ops(1) [of "[]"] by (auto simp: update_running monRunningAt_def [of m] mon_quiet_def split: if_splits)

lemma sessions_running [simp]: "monRunningAt (m\<lparr>mgSessions := t\<rparr>) b = monRunningAt m b"
  by (simp add: monRunningAt_def)

lemma fold_stops:
  "monRunningAt (foldl (\<lambda>m (_, a). monUpdate a (monStop []) m) m es) b \<longleftrightarrow> monRunningAt m b \<and> b \<notin> snd ` set es"
  "mgSessions (foldl (\<lambda>m (_, a). monUpdate a (monStop []) m) m es) = mgSessions m"
  by (induction es arbitrary: m) (auto simp: stop_running)

lemma cleanup_ok:
  assumes "mon_ok m"
  shows "mon_ok (monCleanup m)"
proof -
  have "\<not> monRunningAt (monCleanup m) b" for b
  proof
    assume r: "monRunningAt (monCleanup m) b"
    then have "monRunningAt m b" "b \<notin> snd ` set (mgSessions m)"
      by (simp_all add: monCleanup_def fold_stops)
    with assms show False unfolding mon_ok_def by (metis image_eqI map_of_SomeD snd_conv)
  qed
  moreover have "mgSessions (monCleanup m) = []" by (simp add: monCleanup_def fold_stops)
  ultimately show ?thesis by (simp add: mon_ok_def)
qed

lemma stopAll_ok:
  assumes "mon_ok m"
  shows "mon_ok (monStopAll m)"
proof -
  have "mon_ok (foldl (\<lambda>m i. fst (monStopSession i m)) m is)" if "mon_ok m" for "is" m
    using that
  proof (induction "is" arbitrary: m)
    case (Cons i "is")
    have "mon_ok (fst (monStopSession i m))"
      using Cons.prems by (intro mon_less_ok [OF stop_less]) (simp_all add: mon_ok_def)
    with Cons.IH show ?case by simp
  qed simp
  then show ?thesis using assms by (simp add: monStopAll_def)
qed

lemma monPortInUse_iff:
  assumes "mon_ok m"
  shows "monPortInUse m p \<longleftrightarrow> (\<exists>b. monRunningAt m b \<and> p \<in> monPortsAt m b)"
proof
  assume "monPortInUse m p"
  then obtain i a where "(i, a) \<in> set (mgSessions m)" and a: "mnStatus (mgHeap m ! a) = monRunning" "p \<in> monPortsAt m a"
    by (auto simp: monPortInUse_def list_ex_iff monPortsAt_def)
  then have "map_of (mgSessions m) i = Some a" using mon_ok_table(1) [OF assms] by (simp add: table_entry)
  then have "monRunningAt m a" using mon_ok_table(2) [OF assms] a(1) by (simp add: monRunningAt_def)
  with a(2) show "\<exists>b. monRunningAt m b \<and> p \<in> monPortsAt m b" by blast
next
  assume "\<exists>b. monRunningAt m b \<and> p \<in> monPortsAt m b"
  then obtain b where b: "monRunningAt m b" "p \<in> monPortsAt m b" by blast
  obtain i where "map_of (mgSessions m) i = Some b" using mon_ok_owned [OF assms b(1)] by blast
  then have "(i, b) \<in> set (mgSessions m)" by (rule map_of_SomeD)
  with b show "monPortInUse m p" by (auto simp: monPortInUse_def list_ex_iff monRunningAt_def monPortsAt_def)
qed

text \<open>A new cell at the end of the heap\<close>

lemma running_snoc:
  "monRunningAt (m\<lparr>mgHeap := mgHeap m @ [s]\<rparr>) a \<longleftrightarrow> monRunningAt m a \<or> a = length (mgHeap m) \<and> mnStatus s = monRunning"
  by (auto simp: monRunningAt_def nth_append less_Suc_eq)

lemma ports_snoc:
  "a < length (mgHeap m) \<Longrightarrow> monPortsAt (m\<lparr>mgHeap := mgHeap m @ [s]\<rparr>) a = monPortsAt m a"
  "monPortsAt (m\<lparr>mgHeap := mgHeap m @ [s]\<rparr>) (length (mgHeap m)) = {moPortA (mnReq s), moPortB (mnReq s)}"
  by (simp_all add: monPortsAt_def nth_append)

lemma running_range: "monRunningAt m a \<Longrightarrow> a < length (mgHeap m)"
  by (simp add: monRunningAt_def)

lemma ports_sessions [simp]: "monPortsAt (m\<lparr>mgSessions := t\<rparr>) a = monPortsAt m a"
  by (simp add: monPortsAt_def)

lemma dead_cell_ok:
  assumes "mon_ok m" and "mnStatus s \<noteq> monRunning" and "table_ok t" and "map_of t = map_of (mgSessions m)"
  shows "mon_ok (m\<lparr>mgHeap := mgHeap m @ [s], mgSessions := t\<rparr>)"
  unfolding mon_ok_def
proof (intro conjI allI impI)
  fix i a
  assume "map_of (mgSessions (m\<lparr>mgHeap := mgHeap m @ [s], mgSessions := t\<rparr>)) i = Some a"
  then show "a < length (mgHeap (m\<lparr>mgHeap := mgHeap m @ [s], mgSessions := t\<rparr>))"
    using mon_ok_table(2) [OF assms(1)] assms(4) by fastforce
next
  fix a
  assume "monRunningAt (m\<lparr>mgHeap := mgHeap m @ [s], mgSessions := t\<rparr>) a"
  then have "monRunningAt m a" using assms(2) by (simp add: running_snoc)
  then show "\<exists>i. map_of (mgSessions (m\<lparr>mgHeap := mgHeap m @ [s], mgSessions := t\<rparr>)) i = Some a"
    using mon_ok_owned [OF assms(1)] assms(4) by simp
next
  fix a b
  let ?m = "m\<lparr>mgHeap := mgHeap m @ [s], mgSessions := t\<rparr>"
  assume "monRunningAt ?m a" "monRunningAt ?m b" "a \<noteq> b"
  then have "monRunningAt m a" "monRunningAt m b" using assms(2) by (simp_all add: running_snoc)
  then show "monPortsAt ?m a \<inter> monPortsAt ?m b = {}"
    using mon_ok_apart [OF assms(1)] \<open>a \<noteq> b\<close> by (simp add: ports_snoc running_range)
qed (simp add: assms(3))

lemma live_cell_ok:
  assumes ok: "mon_ok m" and i: "map_of (mgSessions m) i = None"
    and free: "\<And>p. p \<in> {moPortA (mnReq s), moPortB (mnReq s)} \<Longrightarrow> \<not> monPortInUse m p"
  shows "mon_ok (m\<lparr>mgHeap := mgHeap m @ [s], mgSessions := table_put i (length (mgHeap m)) (mgSessions m)\<rparr>)"
    (is "mon_ok ?m")
  unfolding mon_ok_def
proof (intro conjI allI impI)
  show "table_ok (mgSessions ?m)" using mon_ok_table(1) [OF ok] by simp
next
  fix j a
  assume "map_of (mgSessions ?m) j = Some a"
  then show "a < length (mgHeap ?m)" using mon_ok_table(2) [OF ok, of j a] by (auto split: if_splits)
next
  fix a
  assume "monRunningAt ?m a"
  then consider "monRunningAt m a" | "a = length (mgHeap m)" by (auto simp: running_snoc)
  then show "\<exists>j. map_of (mgSessions ?m) j = Some a"
  proof cases
    case 1
    obtain j where "map_of (mgSessions m) j = Some a" using mon_ok_owned [OF ok 1] by blast
    with i show ?thesis by (intro exI [of _ j]) auto
  qed (auto intro: exI [of _ i])
next
  fix a b
  assume run: "monRunningAt ?m a" "monRunningAt ?m b" "a \<noteq> b"
  have new: "monPortsAt m c \<inter> {moPortA (mnReq s), moPortB (mnReq s)} = {}" if "monRunningAt m c" for c
    using that free monPortInUse_iff [OF ok] by blast
  from run consider "monRunningAt m a" "monRunningAt m b" | "monRunningAt m a" "b = length (mgHeap m)"
    | "monRunningAt m b" "a = length (mgHeap m)" by (auto simp: running_snoc)
  then show "monPortsAt ?m a \<inter> monPortsAt ?m b = {}"
  proof cases
    case 1
    with mon_ok_apart [OF ok 1 run(3)] show ?thesis by (simp add: ports_snoc running_range)
  next
    case 2
    with new [OF 2(1)] show ?thesis by (simp add: ports_snoc running_range)
  next
    case 3
    with new [OF 3(1)] show ?thesis by (auto simp: ports_snoc running_range)
  qed
qed

lemma open_fields:
  "mnReq (fst (monOpenPorts oa ob s)) = mnReq s"
  "snd (monOpenPorts oa ob s) = Some e \<Longrightarrow> mnStatus (fst (monOpenPorts oa ob s)) \<noteq> monRunning"
  by (auto simp: monOpenPorts_def monSetError_def split: option.splits)

lemma new_request [simp]: "moPortA (mnReq (newMonitorSession req)) = moPortA req" "moPortB (mnReq (newMonitorSession req)) = moPortB req"
  by (simp_all add: newMonitorSession_def)

lemma start_ok:
  assumes ok: "mon_ok m"
  shows "mon_ok (fst (monStart c oa ob req m))"
proof (cases "monInsert c req m")
  case (Pair m1 r)
  show ?thesis
  proof (cases r)
    case (Inl e)
    then have "m1 = m" using Pair by (auto simp: monInsert_def split: option.splits if_splits)
    with Pair Inl ok show ?thesis by (simp add: monStart_def)
  next
    case (Inr a)
    with Pair have free: "map_of (mgSessions m) (moID req) = None" "\<not> monPortInUse m (moPortA req)" "\<not> monPortInUse m (moPortB req)"
      and m1: "m1 = \<lparr>mgSessions = table_put (moID req) (length (mgHeap m)) (mgSessions m), mgHeap = mgHeap m @ [newMonitorSession req]\<rparr>"
      and a: "a = length (mgHeap m)"
      by (auto simp: monInsert_def split: option.splits if_splits)
    obtain s err where s: "monOpenPorts oa ob (newMonitorSession req) = (s, err)" by fastforce
    have req: "mnReq s = mnReq (newMonitorSession req)" using open_fields(1) [of oa ob "newMonitorSession req"] s by simp
    show ?thesis
    proof (cases err)
      case None
      then have "fst (monStart c oa ob req m)
          = m\<lparr>mgHeap := mgHeap m @ [s], mgSessions := table_put (moID req) (length (mgHeap m)) (mgSessions m)\<rparr>"
        using Pair Inr m1 a s by (simp add: monStart_def monOpen_def nth_append)
      with live_cell_ok [OF ok free(1), of s] free(2,3) req show ?thesis by auto
    next
      case (Some e)
      then have "fst (monStart c oa ob req m) = m\<lparr>mgHeap := mgHeap m @ [s],
          mgSessions := table_del (moID req) (table_put (moID req) (length (mgHeap m)) (mgSessions m))\<rparr>"
        using Pair Inr m1 a s by (simp add: monStart_def monOpen_def nth_append)
      moreover have "mnStatus s \<noteq> monRunning" using open_fields(2) [of oa ob "newMonitorSession req" e] s Some by simp
      ultimately show ?thesis using dead_cell_ok [OF ok] mon_ok_table(1) [OF ok] free(1) by (simp add: fun_upd_idem)
    qed
  qed
qed

text \<open>The calls of the manager, each run to its end, and the turns of forwarding goroutines\<close>

datatype monAction =
    MStart bool openEvent openEvent monitorRequest | MStop string | MDelete string
  | MForward nat string string forward_event | MClear string | MStopAll | MCleanup

definition monAct :: "(string \<Rightarrow> string) \<Rightarrow> monAction \<Rightarrow> monitorManager \<Rightarrow> monitorManager" where
  "monAct lower op m = (case op of
       MStart cancelled openA openB req \<Rightarrow> fst (monStart cancelled openA openB req m)
     | MStop i \<Rightarrow> fst (monStopSession i m)
     | MDelete i \<Rightarrow> fst (monDelete i m)
     | MForward a dir p ev \<Rightarrow> monUpdate a (\<lambda>s. fst (forwardTurn lower dir p ev s)) m
     | MClear i \<Rightarrow> fst (monClear i m)
     | MStopAll \<Rightarrow> monStopAll m
     | MCleanup \<Rightarrow> monCleanup m)"

lemma quiet_ok:
  assumes "mon_ok m"
  shows "mon_ok (fst (monStopSession i m))" and "mon_ok (fst (monClear i m))" and "mon_quiet f \<Longrightarrow> mon_ok (monUpdate a f m)"
  using mon_less_ok [OF stop_less assms] mon_less_ok [OF clear_less assms] mon_less_ok [OF update_less assms]
    mon_ok_table(1) [OF assms] by blast+

lemma act_ok: "mon_ok m \<Longrightarrow> mon_ok (monAct lower op m)"
  by (cases op) (simp_all add: monAct_def start_ok delete_ok stopAll_ok cleanup_ok quiet_ok quiet_ops)

lemma acts_ok: "mon_ok (fold (monAct lower) ops NewMonitorManager)"
proof (induction ops rule: rev_induct)
  case Nil
  show ?case by (simp add: mon_ok_def NewMonitorManager_def monRunningAt_def)
qed (simp add: act_ok)

section \<open>Properties\<close>

text \<open>The text shown for captured bytes holds no control character: every byte below 0x20 and 0x7F is
  replaced by its name, and invalid UTF-8 by U+FFFD.\<close>

theorem display_printable: "list_all printable (bytes_of (displayText bs))"
  by (simp add: displayText_def displayBytes_printable)

text \<open>A forwarding goroutine writes to the other port exactly the blocks it has read, in order, until a
  read or a write fails, and the history records each of them once, with consecutive numbers, as far
  back as its 100,000 frames reach.\<close>

theorem forward_transparent:
  assumes "forward lower dir p evs s = (s', written)" and "length (mnFrames s) \<le> monFrameLimit"
  shows "written = concat (delivered evs)
    \<and> map (\<lambda>f. (mfSeq f, mfDirection f, mfData f)) (mnFrames s') =
        lastn monFrameLimit (map (\<lambda>f. (mfSeq f, mfDirection f, mfData f)) (mnFrames s)
          @ zip (map (\<lambda>i. mnNextSeq s + 1 + int i) [0..<length (delivered evs)]) (map (Pair dir) (delivered evs)))"
  using forward_record [OF assms] by blast

text \<open>The pages of a monitor query, fetched with the same limit of 1 to 5000 frames and put one after
  the other, are the frames that match, in order.\<close>

theorem monitor_pages_cover:
  assumes "0 < l" and "l \<le> 5000"
  shows "concat (map (\<lambda>k. mpFrames (monQuery lower s (req\<lparr>mqOffset := int (k * l), mqLimit := int l\<rparr>))) [0..<n])
    = take (n * l) (filter (monMatches lower req) (mnFrames s))"
  using monitor_pages.pages_cover [OF assms, of "(lower, s, req)" n] by simp

text \<open>As long as the calls of the manager run one after the other, two running sessions never share a
  port, and every running session can be stopped through the table.\<close>

theorem monitor_ports_exclusive:
  assumes "m = fold (monAct lower) ops NewMonitorManager" and "monRunningAt m a" and "monRunningAt m b" and "a \<noteq> b"
  shows "monPortsAt m a \<inter> monPortsAt m b = {} \<and> (\<exists>i. map_of (mgSessions m) i = Some a)"
proof -
  have "mon_ok m" by (simp add: assms(1) acts_ok)
  with mon_ok_apart [OF this assms(2-4)] mon_ok_owned [OF this assms(2)] show ?thesis by blast
qed

text \<open>Two starts that interleave both pass the check for used ports, since a session that has not
  opened its ports yet does not count as running; if the driver admits it, both run, whatever ports
  they name.\<close>

theorem monitor_start_race:
  assumes "validateStart r1 = None" and "validateStart r2 = None" and "moID r1 \<noteq> moID r2"
    and "monInsert False r1 NewMonitorManager = (m1, x)" and "monInsert False r2 m1 = (m2, y)"
  shows "x = Inr 0 \<and> y = Inr 1
    \<and> (let m = fst (monOpen None None (moID r2) 1 (fst (monOpen None None (moID r1) 0 m2))) in
       monRunningAt m 0 \<and> monRunningAt m 1 \<and> monPortsAt m 0 = {moPortA r1, moPortB r1}
       \<and> monPortsAt m 1 = {moPortA r2, moPortB r2})"
proof -
  have m1: "m1 = \<lparr>mgSessions = table_put (moID r1) 0 [], mgHeap = [newMonitorSession r1]\<rparr>" and x: "x = Inr 0"
    using assms(1,4) by (simp_all add: monInsert_def NewMonitorManager_def monPortInUse_def)
  have idle: "mnStatus (newMonitorSession r) \<noteq> monRunning" for r by (simp add: newMonitorSession_def)
  have m2: "m2 = \<lparr>mgSessions = table_put (moID r2) 1 (mgSessions m1), mgHeap = [newMonitorSession r1, newMonitorSession r2]\<rparr>"
      and y: "y = Inr 1"
    using assms(2,3,5) idle by (simp_all add: m1 monInsert_def monPortInUse_def table_put_def table_del_def)
  show ?thesis
    by (simp add: x y m2 monOpen_def monOpenPorts_def monRunningAt_def monPortsAt_def)
qed

text \<open>Deleting a session while it starts succeeds without stopping it: it ends up running outside the
  table, where no call can reach it, and keeps its ports.\<close>

theorem monitor_delete_race:
  assumes "validateStart r = None" and "monInsert False r NewMonitorManager = (m1, x)"
  shows "snd (monDelete (moID r) m1) = None
    \<and> (let m = fst (monOpen None None (moID r) 0 (fst (monDelete (moID r) m1))) in
       monRunningAt m 0 \<and> mgSessions m = [] \<and> snd (monDelete (moID r) m) = Some MonNotFound)"
proof -
  have "m1 = \<lparr>mgSessions = table_put (moID r) 0 [], mgHeap = [newMonitorSession r]\<rparr>"
    using assms by (simp add: monInsert_def NewMonitorManager_def monPortInUse_def)
  then show ?thesis
    by (simp add: monDelete_def table_put_def table_del_def monUpdate_def monOpen_def monOpenPorts_def monRunningAt_def)
qed

section \<open>Sample sessions\<close>

definition sampleMonitor :: "string \<Rightarrow> string \<Rightarrow> string \<Rightarrow> monitorRequest" where
  "sampleMonitor i a b = \<lparr>moID = i, moName = [], moProvider = [], moPortA = a, moPortB = b, moEndpointA = [],
     moEndpointB = [], moExternalPort = [], moAutoVirtualPortID = [],
     moConfig = \<lparr>scPortName = [], scBaudRate = 9600, scDataBits = 8, scStopBits = ''1'', scParity = ''none'',
       scFlowMode = ''none'', scReadBufKB = 32\<rparr>, moEncoding = []\<rparr>"

lemma sample_valid: "validateStart (sampleMonitor ''m'' ''A'' ''B'') = None" "validateStart (sampleMonitor ''n'' ''A'' ''B'') = None"
  by (simp_all add: validateStart_def sampleMonitor_def)

theorem forward_transparent_witness:
  "snd (forward to_lower directionAToB ''A'' [ReadGives [1, 2] None, ReadGives [] None, ReadGives [3] None, ReadFails False ''gone'']
     (newMonitorSession (sampleMonitor ''m'' ''A'' ''B''))) = [1, 2, 3]"
  using forward_transparent [of to_lower directionAToB "''A''" "[ReadGives [1, 2] None, ReadGives [] None, ReadGives [3] None, ReadFails False ''gone'']"
      "newMonitorSession (sampleMonitor ''m'' ''A'' ''B'')"]
  by (cases "forward to_lower directionAToB ''A'' [ReadGives [1, 2] None, ReadGives [] None, ReadGives [3] None, ReadFails False ''gone'']
     (newMonitorSession (sampleMonitor ''m'' ''A'' ''B''))") (simp add: newMonitorSession_def)

theorem monitor_pages_cover_witness:
  "concat (map (\<lambda>k. mpFrames (monQuery to_lower (monAppendFrame to_lower directionAToB ''A'' [7] (newMonitorSession (sampleMonitor ''m'' ''A'' ''B'')))
     (\<lparr>mqMonitorID = ''m'', mqOffset = 0, mqLimit = 0, mqDirection = [], mqSearch = []\<rparr>\<lparr>mqOffset := int (k * 10), mqLimit := int 10\<rparr>))) [0..<2])
   = mnFrames (monAppendFrame to_lower directionAToB ''A'' [7] (newMonitorSession (sampleMonitor ''m'' ''A'' ''B'')))"
  using monitor_pages_cover [of 10 to_lower "monAppendFrame to_lower directionAToB ''A'' [7] (newMonitorSession (sampleMonitor ''m'' ''A'' ''B''))"
      "\<lparr>mqMonitorID = ''m'', mqOffset = 0, mqLimit = 0, mqDirection = [], mqSearch = []\<rparr>" 2]
  by (simp add: monMatches_def append_fields lastn_def monFrameLimit_def newMonitorSession_def)

definition sampleMonitors :: monitorManager where
  "sampleMonitors = fold (monAct to_lower)
     [MStart False None None (sampleMonitor ''m'' ''A'' ''B''), MStart False None None (sampleMonitor ''n'' ''C'' ''D'')] NewMonitorManager"

lemma sample_monitors: "monRunningAt sampleMonitors 0 \<and> monRunningAt sampleMonitors 1
    \<and> monPortsAt sampleMonitors 0 = {''A'', ''B''} \<and> monPortsAt sampleMonitors 1 = {''C'', ''D''}"
  by (simp add: sampleMonitors_def monAct_def monStart_def monInsert_def validateStart_def sampleMonitor_def NewMonitorManager_def
      monPortInUse_def monOpen_def monOpenPorts_def monRunningAt_def monPortsAt_def newMonitorSession_def table_put_def table_del_def)

theorem monitor_ports_exclusive_witness:
  "monRunningAt sampleMonitors 0 \<and> monRunningAt sampleMonitors 1 \<and> monPortsAt sampleMonitors 0 \<inter> monPortsAt sampleMonitors 1 = {}"
  using monitor_ports_exclusive [OF sampleMonitors_def, of 0 1] sample_monitors by simp

theorem monitor_start_race_witness:
  "\<exists>m. monRunningAt m 0 \<and> monRunningAt m 1 \<and> monPortsAt m 0 = {''A'', ''B''} \<and> monPortsAt m 1 = {''A'', ''B''}"
proof -
  obtain m1 x where 1: "monInsert False (sampleMonitor ''m'' ''A'' ''B'') NewMonitorManager = (m1, x)" by fastforce
  obtain m2 y where 2: "monInsert False (sampleMonitor ''n'' ''A'' ''B'') m1 = (m2, y)" by fastforce
  have ne: "moID (sampleMonitor ''m'' ''A'' ''B'') \<noteq> moID (sampleMonitor ''n'' ''A'' ''B'')" by (simp add: sampleMonitor_def)
  show ?thesis using monitor_start_race [OF sample_valid ne 1 2] by (auto simp: Let_def sampleMonitor_def)
qed

theorem monitor_delete_race_witness:
  "\<exists>m. monRunningAt m 0 \<and> mgSessions m = []"
proof -
  obtain m1 x where 1: "monInsert False (sampleMonitor ''m'' ''A'' ''B'') NewMonitorManager = (m1, x)" by fastforce
  show ?thesis using monitor_delete_race [OF sample_valid(1) 1] by (auto simp: Let_def)
qed

end
