(* ===== verification/ModbusSessionFacts.thy ===== *)
theory ModbusSessionFacts
  imports ModbusSession
begin

text \<open>
  Correctness of the Modbus sessions: exclusive use of a port under every interleaving of the
  manager's critical sections, transactions that return and accept only the answer they asked for,
  the slave's loop, and scans that cover their range.
\<close>

section \<open>Ports are held exclusively\<close>

definition manager_wf :: "modbusManager \<Rightarrow> bool" where
  "manager_wf m \<longleftrightarrow> table_ok (mmSessions m)
     \<and> (\<forall>sid s. map_of (mmSessions m) sid = Some s \<longrightarrow> msStatus s \<noteq> StatusClosed)"

lemma status_distinct [simp]:
  "StatusOpen \<noteq> StatusClosed" "StatusError \<noteq> StatusClosed" "StatusRunning \<noteq> StatusClosed"
  by (simp_all add: state_simps)

lemma portInUse_iff:
  assumes "manager_wf m"
  shows "portInUseLocked m p \<longleftrightarrow> p \<in> ran (portOf m)"
proof -
  have entry: "(k, s) \<in> set (mmSessions m) \<longleftrightarrow> map_of (mmSessions m) k = Some s" for k s
    using assms by (simp add: manager_wf_def table_entry)
  have "portInUseLocked m p \<longleftrightarrow> (\<exists>k s. (k, s) \<in> set (mmSessions m) \<and> msStatus s \<noteq> StatusClosed
      \<and> scPortName (orConfig (msReq s)) = p)"
    by (auto simp: portInUseLocked_def list_ex_iff modbusInfo_def)
  also have "\<dots> \<longleftrightarrow> (\<exists>k. portOf m k = Some p)"
    unfolding entry by (auto simp: portOf_def split: option.splits if_splits)
  also have "\<dots> \<longleftrightarrow> p \<in> ran (portOf m)"
    by (simp add: ran_def)
  finally show ?thesis .
qed

lemma onSession_wf:
  assumes "manager_wf m"
    and "\<And>s. msStatus s \<noteq> StatusClosed \<Longrightarrow> msStatus (fst (f s)) \<noteq> StatusClosed \<and> msReq (fst (f s)) = msReq s"
  shows "manager_wf (fst (onSession m sid f)) \<and> portOf (fst (onSession m sid f)) = portOf m"
proof (cases "getSession m sid")
  case (Inl e)
  then show ?thesis using assms(1) by (simp add: onSession_def)
next
  case (Inr s)
  then have "map_of (mmSessions m) sid = Some s" by (auto simp: getSession_def split: if_splits option.splits)
  moreover from this assms(1) have "msStatus s \<noteq> StatusClosed" by (simp add: manager_wf_def)
  ultimately show ?thesis
    using assms(1) assms(2) [of s] Inr
    by (auto simp: onSession_def putSession_def manager_wf_def portOf_def fun_eq_iff split: prod.splits)
qed

lemma StartSlaveOn_onSession: "fst (StartSlaveOn m req) = fst (onSession m (srqSessionID req) (\<lambda>s. startSlave s req))"
  by (auto simp: StartSlaveOn_def onSession_def split: sum.splits prod.splits option.splits)

lemma section_gives:
  assumes "manager_wf m" and "\<forall>req. op \<noteq> CommitOpen req"
  shows "manager_wf (runSection op m) \<and> portOf (runSection op m) \<subseteq>\<^sub>m portOf m"
proof (cases op)
  case (DropSession sid)
  then show ?thesis using assms
    by (auto simp: runSection_def CloseSession_def manager_wf_def portOf_def map_le_def split: option.splits)
next
  case DropAll
  have "portOf (runSection op m) = Map.empty"
    by (simp add: DropAll runSection_def CloseAll_def portOf_def fun_eq_iff)
  then show ?thesis by (simp add: DropAll runSection_def CloseAll_def manager_wf_def)
next
  case (BeginSlave req)
  have "manager_wf (runSection op m) \<and> portOf (runSection op m) = portOf m"
    unfolding BeginSlave runSection_def modbusSection.case StartSlaveOn_onSession
    by (rule onSession_wf [OF assms(1)]) (auto simp: startSlave_def Let_def split: sum.splits)
  then show ?thesis by simp
next
  case (EndSlave sid)
  have "manager_wf (runSection op m) \<and> portOf (runSection op m) = portOf m"
    unfolding EndSlave runSection_def modbusSection.case StopSlaveOn_def
    by (rule onSession_wf [OF assms(1)]) (auto simp: stopSlave_def)
  then show ?thesis by simp
next
  case (FailSlave sid e)
  have "manager_wf (runSection op m) \<and> portOf (runSection op m) = portOf m"
    unfolding FailSlave runSection_def modbusSection.case
    by (rule onSession_wf [OF assms(1)]) (auto simp: setError_def)
  then show ?thesis by simp
qed (use assms in simp)

lemma section_cases:
  assumes "manager_wf m"
  shows "manager_wf (runSection op m)
    \<and> ((\<exists>i p. i \<notin> dom (portOf m) \<and> p \<notin> ran (portOf m) \<and> portOf (runSection op m) = (portOf m)(i \<mapsto> p))
      \<or> portOf (runSection op m) \<subseteq>\<^sub>m portOf m)"
proof (cases "\<exists>req. op = CommitOpen req")
  case True
  then obtain req where CommitOpen: "op = CommitOpen req" by blast
  show ?thesis
  proof (cases "openCheck m req")
    case None
    then have n: "map_of (mmSessions m) (orID req) = None" "scPortName (orConfig req) \<notin> ran (portOf m)"
      using portInUse_iff [OF assms] by (auto simp: openCheck_def split: if_splits)
    have "portOf (runSection op m) = (portOf m)(orID req \<mapsto> scPortName (orConfig req))"
      using None CommitOpen by (auto simp: runSection_def openCommit_def portOf_def newSession_def)
    moreover have "manager_wf (runSection op m)"
      using None CommitOpen assms by (auto simp: runSection_def openCommit_def manager_wf_def newSession_def)
    moreover have "orID req \<notin> dom (portOf m)" using n by (auto simp: portOf_def split: option.splits)
    ultimately show ?thesis using n by blast
  qed (simp add: CommitOpen runSection_def openCommit_def assms)
next
  case False
  then show ?thesis using section_gives [OF assms, of op] by simp
qed

interpretation modbus_ports: port_registry manager_wf portOf runSection
  by unfold_locales (use section_cases in blast)+

text \<open>C3: no two Modbus sessions hold the same port: in whatever order concurrent calls open, close,
  start, stop and fail sessions, each port name belongs to at most one session that is not closed.\<close>

theorem modbus_ports_exclusive:
  assumes "m = fold runSection ops NewModbusManager"
    and "portOf m i = Some p" and "portOf m j = Some p"
  shows "i = j"
proof -
  have "manager_wf NewModbusManager" "modbus_ports.exclusive NewModbusManager"
    by (simp_all add: NewModbusManager_def manager_wf_def modbus_ports.exclusive_def portOf_def)
  from modbus_ports.exclusive_run [OF this, of ops] assms show ?thesis
    by (blast dest: modbus_ports.exclusive_holder)
qed

definition sampleConfig :: serialConfig where
  "sampleConfig = \<lparr>scPortName = ''COM3'', scBaudRate = 9600, scDataBits = 8, scStopBits = ''1'',
     scParity = ''none'', scFlowMode = ''none'', scReadBufKB = 32\<rparr>"

definition sampleOpen :: "string \<Rightarrow> openRequest" where
  "sampleOpen sid = \<lparr>orID = sid, orName = ''bus'', orMode = FrameModeRTU, orRole = RoleMaster,
     orConfig = sampleConfig, orEndpoint = [], orTimeoutMs = 0, orRetries = 1\<rparr>"

theorem modbus_ports_exclusive_witness:
  "portOf (fold runSection [CommitOpen (sampleOpen ''a''), CommitOpen (sampleOpen ''b''), EndSlave ''a'']
      NewModbusManager) ''a'' = Some ''COM3''
   \<and> portOf (fold runSection [CommitOpen (sampleOpen ''a''), CommitOpen (sampleOpen ''b''), EndSlave ''a'']
      NewModbusManager) ''b'' \<noteq> Some ''COM3''"
proof -
  have a: "portOf (fold runSection [CommitOpen (sampleOpen ''a''), CommitOpen (sampleOpen ''b''), EndSlave ''a'']
      NewModbusManager) ''a'' = Some ''COM3''"
    by (simp add: runSection_def openCommit_def openCheck_def portInUseLocked_def modbusInfo_def
        NewModbusManager_def newSession_def sampleOpen_def sampleConfig_def portOf_def StopSlaveOn_def
        onSession_def getSession_def putSession_def stopSlave_def table_put_def table_del_def Let_def)
  from modbus_ports_exclusive [OF refl a, of "''b''"] a show ?thesis by blast
qed

section \<open>Transactions\<close>

lemma readFrame_returns: "ends_reading stoppable es \<Longrightarrow> readFrame mode stoppable s buf es \<noteq> None"
  by (induction mode stoppable s buf es rule: readFrame.induct) (auto simp: Let_def split: option.splits)

lemma takeChunk_frame:
  "takeChunk mode buf = Some (Inr (frame, d)) \<Longrightarrow> DecodeFrame mode frame = Inr d"
  by (auto simp: takeChunk_def Let_def split: if_splits option.splits sum.splits)

lemma readFrame_decoded:
  "readFrame mode stoppable s buf es = Some (s', Inr (frame, d)) \<Longrightarrow> DecodeFrame mode frame = Inr d"
  by (induction mode stoppable s buf es rule: readFrame.induct)
     (auto simp: Let_def takeChunk_frame split: option.splits if_splits)

lemma rx_refl: "\<exists>n. s = s\<lparr>msRxBytes := n\<rparr>"
  by (rule exI [of _ "msRxBytes s"]) simp

lemma readFrame_session:
  "readFrame mode stoppable s buf es = Some (s', r) \<Longrightarrow> \<exists>n. s' = s\<lparr>msRxBytes := n\<rparr>"
proof (induction mode stoppable s buf es rule: readFrame.induct)
  case (6 mode stoppable s buf bs es)
  consider "\<not> msPort s" | "msPort s" "bs = []"
    | x where "msPort s" "bs \<noteq> []" "takeChunk mode (buf @ bs) = Some x"
    | "msPort s" "bs \<noteq> []" "takeChunk mode (buf @ bs) = None" by fastforce
  then show ?case
  proof cases
    case 1
    with 6(3) show ?thesis by (simp add: rx_refl)
  next
    case 4
    with 6(2) [OF _ 4(2) refl 4(3)] 6(3) show ?thesis by (auto simp: Let_def)
  qed (use 6 in \<open>auto simp: Let_def\<close>)
qed (auto simp: rx_refl split: if_splits)

declare runAttempts.simps [simp del]
lemmas run_attempts = runAttempts.simps

lemma runAttempts_returns:
  "(\<And>i. ends_reading False (snd (env i) timeout)) \<Longrightarrow> runAttempts mode u frame timeout env i n s tx e \<noteq> None"
proof (induction n arbitrary: i s tx e)
  case (Suc n)
  obtain s1 w werr where w: "sessionWrite s frame (fst (env i)) = (s1, w, werr)" by (metis prod_cases3)
  have "readFrame mode False s1 [] (snd (env i) timeout) \<noteq> None"
    using Suc.prems by (rule readFrame_returns)
  with Suc w show ?case
    by (auto simp: run_attempts Let_def split: option.splits sum.splits prod.splits)
qed (simp add: run_attempts Let_def)

lemma runAttempts_success:
  "runAttempts mode u frame timeout env i n s tx e = Some (s', tx', None) \<Longrightarrow>
     \<exists>answer decoded. DecodeFrame mode answer = Inr decoded \<and> dfUnitID decoded = u
       \<and> txResponsePDU tx' = dfPDU decoded \<and> ParseResponse (dfPDU decoded) = Inr (txResponse tx')
       \<and> txResponseFrameHex tx' = FormatHex answer \<and> txRequestPDU tx' = txRequestPDU tx"
proof (induction n arbitrary: i s tx e)
  case (Suc n)
  obtain s1 w werr where w: "sessionWrite s frame (fst (env i)) = (s1, w, werr)" by (metis prod_cases3)
  show ?case
  proof (cases werr)
    case None
    with Suc.prems w obtain s2 r where r: "readFrame mode False s1 [] (snd (env i) timeout) = Some (s2, r)"
      by (auto simp: run_attempts Let_def split: option.splits)
    with Suc.prems Suc.IH w None show ?thesis
      by (fastforce simp: run_attempts Let_def dest: readFrame_decoded split: sum.splits if_splits)
  qed (use Suc w in \<open>fastforce simp: run_attempts Let_def\<close>)
qed (simp add: run_attempts Let_def)

lemma runAttempts_env:
  "(\<And>k. k < i + n \<Longrightarrow> env k = env' k) \<Longrightarrow>
     runAttempts mode u frame timeout env i n s tx e = runAttempts mode u frame timeout env' i n s tx e"
proof (induction n arbitrary: i s tx e)
  case (Suc n)
  have "env i = env' i" using Suc.prems by simp
  moreover have "runAttempts mode u frame timeout env (Suc i) n s tx e
      = runAttempts mode u frame timeout env' (Suc i) n s tx e" for s tx e
    by (rule Suc.IH) (use Suc.prems in simp)
  ultimately show ?case by (simp add: run_attempts Let_def split: option.splits sum.splits prod.splits)
qed (simp add: run_attempts)

lemma runMasterRequest_transaction:
  "runMasterRequest env s req = Some (s', tx, None) \<Longrightarrow> \<exists>t. tx = Some t"
  by (auto simp: runMasterRequest_def Let_def split: if_splits sum.splits)

text \<open>a transaction the master reports as successful holds the PDU the request stands for and an
  answer that was received in a valid frame, comes from the unit addressed and parses to the
  response reported.\<close>

theorem master_success:
  assumes "runMasterRequest env s req = Some (s', Some tx, None)"
  shows "BuildMasterPDU req = Inr (txRequestPDU tx)
    \<and> (\<exists>answer decoded. DecodeFrame (normalizeFrameMode (orMode (msReq s))) answer = Inr decoded
        \<and> dfUnitID decoded = mqUnitID req \<and> txResponsePDU tx = dfPDU decoded
        \<and> ParseResponse (txResponsePDU tx) = Inr (txResponse tx)
        \<and> txResponseFrameHex tx = FormatHex answer)"
proof -
  from assms obtain p where p: "BuildMasterPDU req = Inr p"
    by (auto simp: runMasterRequest_def Let_def split: if_splits sum.splits)
  from assms p obtain frame s1 tx1 where
    r: "runAttempts (normalizeFrameMode (orMode (msReq s))) (mqUnitID req) frame
      (requestTimeout (mqTimeoutMs req) (orTimeoutMs (msReq s))) env 0
      (Suc (nat (requestRetries (mqRetries req) (orRetries (msReq s))))) s1 tx1 None = Some (s', tx, None)"
    and tx1: "txRequestPDU tx1 = p"
    by (auto simp: runMasterRequest_def Let_def split: if_splits sum.splits)
  from runAttempts_success [OF r] tx1 p show ?thesis by metis
qed

text \<open>C14: a transaction returns as soon as every read it performs ends (the deadline passes at the
  latest), and it makes at most one attempt more than the retries granted: what the environment
  would do afterwards has no influence.\<close>

theorem master_returns:
  assumes "\<And>i t. ends_reading False (snd (env i) t)"
    and "\<And>i. i \<le> nat (requestRetries (mqRetries req) (orRetries (msReq s))) \<Longrightarrow> env' i = env i"
  shows "runMasterRequest env s req \<noteq> None \<and> runMasterRequest env' s req = runMasterRequest env s req"
proof -
  let ?n = "Suc (nat (requestRetries (mqRetries req) (orRetries (msReq s))))"
  have "runAttempts mode u frame t env 0 ?n s1 tx e \<noteq> None" for mode u frame t s1 tx e
    by (rule runAttempts_returns) (rule assms(1))
  then have "runMasterRequest env s req \<noteq> None"
    by (simp add: runMasterRequest_def Let_def del: not_None_eq split: sum.split)
  moreover have "runAttempts mode u frame t env' 0 ?n s1 tx e = runAttempts mode u frame t env 0 ?n s1 tx e"
    for mode u frame t s1 tx e
    by (rule runAttempts_env) (use assms(2) in simp)
  then have "runMasterRequest env' s req = runMasterRequest env s req"
    by (simp add: runMasterRequest_def Let_def split: sum.split)
  ultimately show ?thesis by blast
qed

section \<open>Frames that arrive in pieces\<close>

lemma hex_char_range: "d < 16 \<Longrightarrow> 48 \<le> (of_char (upper_char (hex_char d)) :: nat)"
  by (auto simp: upper_char_def ascii_lower_def of_char_hex_char of_char_of)

lemma hex_no_newline: "CHR 10 \<notin> set (to_upper (hex_encode bs))"
proof (induction bs)
  case (Cons b bs)
  have ne: "CHR 10 \<noteq> upper_char (hex_char d)" if "d < 16" for d
  proof
    assume "CHR 10 = upper_char (hex_char d)"
    then have "48 \<le> (of_char (CHR 10) :: nat)" using hex_char_range [OF that] by metis
    then show False by simp
  qed
  from Cons ne [OF hex_nibbles_less(1)] ne [OF hex_nibbles_less(2)] show ?case by (simp add: to_upper_def)
qed (simp add: to_upper_def)

lemma index_of_crlf_nth:
  assumes "index_of xs crlf = Some i"
  shows "Suc i < length xs \<and> xs ! Suc i = CHR 10"
proof -
  from index_of_Some [OF assms] obtain zs where d: "drop i xs = crlf @ zs" by blast
  have "length (drop i xs) = length zs + 2" by (simp only: d) (simp add: crlf_def)
  then have "Suc i < length xs" by simp
  moreover have "xs ! Suc i = drop i xs ! 1" using calculation by simp
  ultimately show ?thesis by (simp add: d crlf_def)
qed

lemma index_of_wire:
  assumes "CHR 10 \<notin> set h"
  shows "index_of (h @ crlf) crlf = Some (length h)"
proof -
  have "contains (h @ crlf) crlf" unfolding contains_iff by (metis append_Nil2)
  then obtain i where i: "index_of (h @ crlf) crlf = Some i" using index_of_None_iff by fastforce
  from index_of_crlf_nth [OF this] assms have "\<not> Suc i < length h" by (auto simp: nth_append set_conv_nth)
  moreover have "Suc i < length h + 2" "(h @ crlf) ! Suc i = CHR 10"
    using index_of_crlf_nth [OF i] by (auto simp: crlf_def)
  moreover have "Suc i \<noteq> length h"
    using index_of_crlf_nth [OF i] by (auto simp: crlf_def nth_append)
  ultimately show ?thesis using i by auto
qed

lemma index_of_prefix:
  assumes "CHR 10 \<notin> set h" and "xs @ ys = h @ crlf" and "ys \<noteq> []"
  shows "index_of xs crlf = None"
proof (rule ccontr)
  assume "index_of xs crlf \<noteq> None"
  then obtain i where i: "index_of xs crlf = Some i" by auto
  from index_of_crlf_nth [OF this] have lt: "Suc i < length xs" "xs ! Suc i = CHR 10" by auto
  have len: "length xs + length ys = length h + 2" using arg_cong [OF assms(2), of length] by (simp add: crlf_def)
  have "(h @ crlf) ! Suc i = CHR 10" using lt by (simp flip: assms(2) add: nth_append)
  moreover have "Suc i < Suc (length h)" using lt len assms(3) by (cases ys) auto
  ultimately show False using assms(1)
    by (cases "Suc i < length h") (auto simp: nth_append set_conv_nth crlf_def less_Suc_eq)
qed

lemma ascii_not_rtu [simp]: "FrameModeASCII \<noteq> FrameModeRTU" "FrameModeRTU \<noteq> FrameModeASCII"
  by (simp_all add: wire_simps)

lemma ascii_wire_text:
  assumes "EncodeFrame FrameModeASCII u p = Inr w"
  shows "\<exists>h. CHR 10 \<notin> set h \<and> w = bytes_of (h @ crlf)"
  using assms
proof (cases rule: EncodeFrame_cases)
  case ascii
  have "CHR 10 \<notin> set ('':'' @ to_upper (hex_encode ((u # pduBytes p) @ [LRC (u # pduBytes p)])))"
    using hex_no_newline [of "(u # pduBytes p) @ [LRC (u # pduBytes p)]"] by simp
  with ascii show ?thesis by (metis append.assoc)
qed simp

lemma string_of_append: "string_of (a @ b) = string_of a @ string_of b"
  by (simp add: string_of_def)

lemma takeChunk_ascii:
  assumes "EncodeFrame FrameModeASCII u p = Inr w" and "length w \<le> maxFrameBytes"
  shows "takeChunk FrameModeASCII w = Some (Inr (w, \<lparr>dfMode = FrameModeASCII, dfUnitID = u, dfPDU = p\<rparr>))"
    and "buf @ rest = w \<Longrightarrow> rest \<noteq> [] \<Longrightarrow> takeChunk FrameModeASCII buf = None"
proof -
  from ascii_wire_text [OF assms(1)] obtain h where h: "CHR 10 \<notin> set h" "w = bytes_of (h @ crlf)" by blast
  have "index_of (string_of w) crlf = Some (length h)" using index_of_wire [OF h(1)]
    by (simp only: h(2) string_of_bytes_of)
  moreover have "take (length h + 2) w = w" using h(2) by (simp add: crlf_def)
  moreover have "DecodeFrame FrameModeASCII w = Inr \<lparr>dfMode = FrameModeASCII, dfUnitID = u, dfPDU = p\<rparr>"
    using frame_decode_encode [OF assms(1)] by simp
  ultimately show "takeChunk FrameModeASCII w = Some (Inr (w, \<lparr>dfMode = FrameModeASCII, dfUnitID = u, dfPDU = p\<rparr>))"
    using assms(2) by (simp add: takeChunk_def Let_def)
  assume b: "buf @ rest = w" "rest \<noteq> []"
  then have "string_of buf @ string_of rest = h @ crlf" "string_of rest \<noteq> []"
    by (simp_all only: b h(2) string_of_bytes_of flip: string_of_append) (use b in \<open>simp add: string_of_def\<close>)
  from index_of_prefix [OF h(1) this] b assms(2) show "takeChunk FrameModeASCII buf = None"
    by (auto simp: takeChunk_def)
qed

text \<open>an ASCII frame is received whatever the pieces in which its bytes arrive, and its bytes are
  counted once.\<close>

theorem ascii_any_chunking:
  assumes "EncodeFrame FrameModeASCII u p = Inr w" and "length w \<le> maxFrameBytes" and "msPort s"
    and "concat chunks = w"
  shows "readFrame FrameModeASCII stoppable s [] (map ReadChunk chunks @ es)
    = Some (s\<lparr>msRxBytes := msRxBytes s + int (length w)\<rparr>,
        Inr (w, \<lparr>dfMode = FrameModeASCII, dfUnitID = u, dfPDU = p\<rparr>))"
proof -
  have "readFrame FrameModeASCII stoppable s buf (map ReadChunk chunks @ es)
    = Some (s\<lparr>msRxBytes := msRxBytes s + int (length (concat chunks))\<rparr>,
        Inr (w, \<lparr>dfMode = FrameModeASCII, dfUnitID = u, dfPDU = p\<rparr>))"
    if "buf @ concat chunks = w" "concat chunks \<noteq> []" "msPort s" for buf
    using that
  proof (induction chunks arbitrary: buf s)
    case (Cons c cs)
    note chunk = takeChunk_ascii [OF assms(1,2)]
    show ?case
    proof (cases "concat cs = []")
      case True
      with Cons.prems have "buf @ c = w" "c \<noteq> []" by auto
      with Cons.prems True chunk(1) show ?thesis by (simp add: Let_def)
    next
      case False
      with Cons.prems chunk(2) [of "buf @ c" "concat cs"] Cons.IH
      show ?thesis by (cases "c = []") (simp_all add: Let_def add.assoc)
    qed
  qed simp
  moreover have "w \<noteq> []" using ascii_wire_text [OF assms(1)] by (auto simp: crlf_def)
  ultimately show ?thesis using assms(3,4) by simp
qed

lemma normalize_mode [simp]: "normalizeFrameMode (normalizeFrameMode FrameModeRTU) = FrameModeRTU"
  by simp

definition sampleRead :: masterRequest where
  "sampleRead = \<lparr>mqSessionID = ''a'', mqUnitID = 1, mqFunction = FunctionReadHoldingRegisters,
     mqAddressMode = [], mqAddress = 7, mqQuantity = 1, mqValue = 0, mqCoilValues = [],
     mqRegisterValues = [], mqTimeoutMs = 0, mqRetries = 0\<rparr>"

definition samplePDU :: pdu where
  "samplePDU = \<lparr>pduFunction = FunctionReadHoldingRegisters, pduData = u16Pair 7 1\<rparr>"

definition sampleModel :: dataModel where
  "sampleModel = NewDataModel\<lparr>dmHoldingRegisters := [7 \<mapsto> 42]\<rparr>"

definition sampleReply :: pdu where
  "sampleReply = registerReadResponse FunctionReadHoldingRegisters [42]"

definition sampleSlave :: modbusSession where
  "sampleSlave = (newSession (sampleOpen ''b''))\<lparr>msSlaveUnits := [(1, sampleModel)], msSlaveRunning := True\<rparr>"

definition sampleFrame :: "pdu \<Rightarrow> bytes" where
  "sampleFrame p = (let payload = 1 # pduBytes p; crc = CRC16 payload in payload @ [loByte crc, hiByte crc])"

lemma sample_encode: "EncodeFrame FrameModeRTU 1 p = Inr (sampleFrame p)"
  by (simp add: EncodeFrame_def sampleFrame_def Let_def)

lemma sample_facts:
  "BuildMasterPDU sampleRead = Inr samplePDU"
  "BuildSlaveResponse 1 samplePDU (Some sampleModel) = (normalResponse sampleReply, Some sampleModel)"
  "ParseResponse sampleReply = Inr (parsedZero\<lparr>prFunction := FunctionReadHoldingRegisters,
     prRaw := pduBytes sampleReply, prValues := [42]\<rparr>)"
  "length (sampleFrame samplePDU) \<le> maxFrameBytes" "length (sampleFrame sampleReply) \<le> maxFrameBytes"
  "msPort (newSession (sampleOpen i))" "msStatus (newSession (sampleOpen i)) \<noteq> StatusClosed"
  "\<not> msSlaveRunning (newSession (sampleOpen i))" "orMode (msReq (newSession (sampleOpen i))) = FrameModeRTU"
  "orRetries (msReq (newSession (sampleOpen i))) = 1" "msSent (newSession (sampleOpen i)) = []"
  "msPort sampleSlave" "map_of (msSlaveUnits sampleSlave) 1 = Some sampleModel" "msSent sampleSlave = []"
  using parse_register_reply [of FunctionReadHoldingRegisters "[42]"]
  by (simp_all add: BuildMasterPDU_def sampleRead_def samplePDU_def ProtocolAddress_def BuildReadRequest_def
      BuildSlaveResponse_def answerRequest_def answerRead_def ReadHoldingRegisters_def readU16Range_def
      readRange_def sampleModel_def sampleReply_def cell_def sampleFrame_def Let_def pduBytes_def u16Pair_def
      registerReadResponse_def u16_bytes_def maxFrameBytes_def newSession_def sampleOpen_def sampleSlave_def
      normalResponse_def parseAddressQuantity_def)

section \<open>A transaction with a simulated slave\<close>

lemma takeChunk_whole:
  assumes "EncodeFrame mode u p = Inr w" and "normalizeFrameMode mode = mode" and "length w \<le> maxFrameBytes"
  shows "takeChunk mode w = Some (Inr (w, \<lparr>dfMode = mode, dfUnitID = u, dfPDU = p\<rparr>))"
  using assms(1)
proof (cases rule: EncodeFrame_cases)
  case rtu
  with assms frame_decode_encode [OF assms(1)] show ?thesis by (simp add: takeChunk_def)
next
  case ascii
  with assms takeChunk_ascii(1) [of u p w] show ?thesis by simp
qed

lemma readFrame_whole:
  assumes "EncodeFrame mode u p = Inr w" and "normalizeFrameMode mode = mode" and "length w \<le> maxFrameBytes"
    and "msPort s"
  shows "readFrame mode stoppable s [] (ReadChunk w # es) = Some (s\<lparr>msRxBytes := msRxBytes s + int (length w)\<rparr>,
    Inr (w, \<lparr>dfMode = mode, dfUnitID = u, dfPDU = p\<rparr>))"
proof -
  have "w \<noteq> []" using assms(1) by (cases rule: EncodeFrame_cases) auto
  with assms(4) takeChunk_whole [OF assms(1-3)] show ?thesis by (simp add: Let_def)
qed

lemma EncodeFrame_total:
  "EncodeFrame mode u p = Inr w \<Longrightarrow> \<exists>f. EncodeFrame mode u q = Inr f"
  by (auto simp: EncodeFrame_def Let_def split: if_splits)

lemma CloneModel_Some [simp]: "CloneModel (Some m) = m"
  by (rule CloneModel_id)

lemma BuildSlaveResponse_Some: "\<exists>r m'. BuildSlaveResponse u p (Some m) = (r, Some m')"
  by (simp add: BuildSlaveResponse_def split: prod.splits)

lemma slave_round_answer:
  assumes "EncodeFrame mode u p = Inr w" and "normalizeFrameMode mode = mode" and "length w \<le> maxFrameBytes"
    and "msPort s" and "map_of (msSlaveUnits s) u = Some m"
    and "BuildSlaveResponse u p (Some m) = (r, Some m')"
  shows "\<exists>s' f. slaveRound mode s \<lparr>rdScript = ReadChunk w # es, rdStopped = b, rdWrite = Wrote n None\<rparr>
      = Some (s', Looping)
    \<and> EncodeFrame mode u (srPDU r) = Inr f \<and> msSent s' = msSent s @ [f]
    \<and> map_of (msSlaveUnits s') = (map_of (msSlaveUnits s))(u \<mapsto> m')
    \<and> msRxBytes s' = msRxBytes s + int (length w)"
proof -
  obtain f where f: "EncodeFrame mode u (srPDU r) = Inr f" using EncodeFrame_total [OF assms(1)] by blast
  show ?thesis
    using assms(4-6) f readFrame_whole [OF assms(1-4), of True es]
    by (auto simp: slaveRound_def slaveReply_def setUnitDataModel_def sessionWrite_def Let_def)
qed

text \<open>the simulated slave answers a request that reaches it intact: the reply of the unit's data
  model is sent in a frame of the same mode and unit, the unit's tables are the updated ones, every
  other unit is untouched, and the loop goes on.\<close>

theorem slave_answers:
  assumes "EncodeFrame mode u p = Inr w" and "normalizeFrameMode mode = mode" and "length w \<le> maxFrameBytes"
    and "msPort s" and "map_of (msSlaveUnits s) u = Some m"
    and "BuildSlaveResponse u p (Some m) = (r, Some m')"
  shows "\<exists>s' f. slaveRound mode s \<lparr>rdScript = ReadChunk w # es, rdStopped = b, rdWrite = Wrote n None\<rparr>
      = Some (s', Looping)
    \<and> EncodeFrame mode u (srPDU r) = Inr f \<and> msSent s' = msSent s @ [f]
    \<and> map_of (msSlaveUnits s') = (map_of (msSlaveUnits s))(u \<mapsto> m')
    \<and> msRxBytes s' = msRxBytes s + int (length w)"
  using assms by (rule slave_round_answer)

lemma transaction_run:
  assumes "BuildMasterPDU req = Inr p" and "mode = normalizeFrameMode (orMode (msReq master))"
    and "normalizeFrameMode mode = mode"
    and "EncodeFrame mode (mqUnitID req) p = Inr w" and "length w \<le> maxFrameBytes"
    and "msPort master" and "msStatus master \<noteq> StatusClosed" and "\<not> msSlaveRunning master"
    and "msPort slave" and "map_of (msSlaveUnits slave) (mqUnitID req) = Some m"
    and "slaveRound mode slave \<lparr>rdScript = [ReadChunk w], rdStopped = b, rdWrite = Wrote k None\<rparr> = Some (slave', st)"
    and "msSent slave' = msSent slave @ [f]" and "length f \<le> maxFrameBytes"
    and "fst (env 0) = Wrote n None" and "\<And>t. snd (env 0) t = [ReadChunk f]"
    and "ParseResponse (srPDU (fst (BuildSlaveResponse (mqUnitID req) p (Some m)))) = Inr answer"
  shows "\<exists>master' tx. runMasterRequest env master req = Some (master', Some tx, None)
    \<and> txResponse tx = answer \<and> txBytesWritten tx = n \<and> txError tx = None
    \<and> msSent master' = msSent master @ [w]"
proof -
  obtain r m' where r: "BuildSlaveResponse (mqUnitID req) p (Some m) = (r, Some m')"
    using BuildSlaveResponse_Some by blast
  from slave_round_answer [OF assms(4,3,5,9,10) r, of "[]" b k] assms(11,12)
  have f: "EncodeFrame mode (mqUnitID req) (srPDU r) = Inr f" by auto
  have "mqUnitID req \<noteq> 0" using assms(4) by (auto simp: EncodeFrame_def)
  then show ?thesis
    using assms(1,4,6-8,14-16) r f readFrame_whole [OF f assms(3,13), of _ False "[]"]
    by (auto simp: runMasterRequest_def run_attempts sessionWrite_def Let_def simp flip: assms(2))
qed



section \<open>Scans\<close>

lemma unat_ucast_u16_u32 [simp]: "unat (ucast (x :: u16) :: u32) = unat x"
proof -
  have "unat x < 2 ^ 32" by (rule less_trans [OF unat_u16_less]) simp
  then show ?thesis by (simp add: unsigned_ucast_eq take_bit_nat_eq_self)
qed

lemma chunkQuantity_unat:
  assumes "address \<le> end" and "0 < unat chunk"
  shows "unat (chunkQuantity chunk end address) = min (unat chunk) (unat end - unat address + 1)"
proof -
  let ?r = "(ucast end :: u32) - ucast address + 1"
  have le: "unat address \<le> unat end" using assms(1) by (simp add: word_le_nat_alt)
  then have "unat ((ucast end :: u32) - ucast address) = unat end - unat address"
    by (simp add: unat_sub_if_size)
  moreover have "unat end - unat address + 1 \<le> 65536" using unat_u16_less [of "end"] by linarith
  ultimately have r: "unat ?r = unat end - unat address + 1" by (simp add: unat_word_ariths(1))
  show ?thesis
  proof (cases "?r < ucast chunk")
    case True
    then have "unat ?r < unat chunk" by (simp add: word_less_nat_alt)
    moreover from this have "unat ?r < 65536" using unat_u16_less [of chunk] by (rule less_trans)
    then have "unat (ucast ?r :: u16) = unat ?r"
      by (simp add: unsigned_ucast_eq take_bit_nat_eq_self)
    ultimately show ?thesis using True r by (simp add: chunkQuantity_def Let_def)
  next
    case False
    then show ?thesis using r by (simp add: chunkQuantity_def Let_def word_less_nat_alt)
  qed
qed

lemma readRegisters_returns:
  assumes "\<And>i t. ends_reading False (snd (env i) t)"
  shows "\<exists>s' r. readRegisters env s req = Some (s', r)"
proof -
  define f where "f = (if rqFunction req = 0 then FunctionReadHoldingRegisters else rqFunction req)"
  define q where "q = (if rqQuantity req = 0 then 1 else rqQuantity req)"
  define mreq where "mreq = \<lparr>mqSessionID = rqSessionID req, mqUnitID = rqUnitID req, mqFunction = f,
             mqAddressMode = rqAddressMode req, mqAddress = rqAddress req, mqQuantity = q,
             mqValue = 0, mqCoilValues = [], mqRegisterValues = [],
             mqTimeoutMs = rqTimeoutMs req, mqRetries = rqRetries req\<rparr>"
  have "runMasterRequest env s mreq \<noteq> None"
    using runAttempts_returns [of env]
    by (simp add: assms runMasterRequest_def Let_def del: not_None_eq split: sum.split)
  then obtain s1 tx err where r: "runMasterRequest env s mreq = Some (s1, tx, err)" by auto
  show ?thesis
  proof (cases err)
    case None
    with runMasterRequest_transaction r obtain t where "tx = Some t" by blast
    with r None show ?thesis
      unfolding readRegisters_def Let_def by (simp flip: f_def q_def) (simp flip: mreq_def)
  next
    case (Some e)
    with r show ?thesis
      unfolding readRegisters_def Let_def by (cases tx; simp flip: f_def q_def; simp flip: mreq_def)
  qed
qed

definition rangeAddresses :: "registerScanRange \<Rightarrow> nat list" where
  "rangeAddresses r = [unat (rgAddress r)..<unat (rgAddress r) + unat (rgQuantity r)]"

lemma addRange_ranges:
  "map rangeAddresses (rtRanges (addRange a q read res))
     = map rangeAddresses (rtRanges res) @ [[unat a..<unat a + unat q]]"
  "map rgQuantity (rtRanges (addRange a q read res)) = map rgQuantity (rtRanges res) @ [q]"
  by (auto simp: addRange_def rangeAddresses_def split: sum.splits)

lemma scanChunks_covers:
  assumes "\<And>i j t. ends_reading False (snd (envs i j) t)" and "0 < unat chunk"
  shows "address \<le> rsEnd req \<Longrightarrow> \<exists>s' res'. scanChunks envs i req chunk address s res = Some (s', res')
    \<and> concat (map rangeAddresses (rtRanges res'))
        = concat (map rangeAddresses (rtRanges res)) @ [unat address..<Suc (unat (rsEnd req))]
    \<and> (\<exists>qs. map rgQuantity (rtRanges res') = map rgQuantity (rtRanges res) @ qs
         \<and> list_all (\<lambda>q. 1 \<le> unat q \<and> unat q \<le> unat chunk) qs)"
proof (induction "unat (rsEnd req) - unat address" arbitrary: i address s res rule: less_induct)
  case less
  define q where "q = chunkQuantity chunk (rsEnd req) address"
  have le: "unat address \<le> unat (rsEnd req)" using less.prems by (simp add: word_le_nat_alt)
  have q: "unat q = min (unat chunk) (unat (rsEnd req) - unat address + 1)"
    unfolding q_def using less.prems assms(2) by (rule chunkQuantity_unat)
  obtain s1 read where r: "readRegisters (envs i) s (chunkRead req address q) = Some (s1, read)"
    using readRegisters_returns [of "envs i"] assms(1) by blast
  define res1 where "res1 = addRange address q read res"
  have unfold: "scanChunks envs i req chunk address s res
    = (if address + q = 0 \<or> rsEnd req < address + q then Some (s1, res1)
       else scanChunks envs (Suc i) req chunk (address + q) s1 res1)"
    by (subst scanChunks.simps) (simp add: r res1_def Let_def flip: q_def)
  have sum: "unat (address + q) = (unat address + unat q) mod 65536" by (simp add: unat_word_ariths(1))
  show ?case
  proof (cases "unat address + unat q = Suc (unat (rsEnd req))")
    case True
    have "address + q = 0 \<or> rsEnd req < address + q"
    proof (cases "unat (rsEnd req) = 65535")
      case True
      then have "unat (address + q) = 0" using sum \<open>unat address + unat q = _\<close> by simp
      then show ?thesis by (simp add: unat_eq_0)
    next
      case False
      then have "unat (address + q) = Suc (unat (rsEnd req))"
        using sum \<open>unat address + unat q = _\<close> unat_u16_less [of "rsEnd req"] by simp
      then show ?thesis by (simp add: word_less_nat_alt)
    qed
    then show ?thesis using unfold addRange_ranges [of address q read res] q le assms(2) True
      by (auto simp: res1_def)
  next
    case False
    then have lt: "unat address + unat q \<le> unat (rsEnd req)" and full: "unat q = unat chunk" using q le by auto
    then have s: "unat (address + q) = unat address + unat q"
      using sum unat_u16_less [of "rsEnd req"] by simp
    then have go: "\<not> (address + q = 0 \<or> rsEnd req < address + q)" "address + q \<le> rsEnd req"
      using lt full assms(2) by (auto simp: word_less_nat_alt word_le_nat_alt simp flip: unat_eq_0)
    have "unat (rsEnd req) - unat (address + q) < unat (rsEnd req) - unat address"
      using s lt full assms(2) by linarith
    from less.hyps [OF this go(2), of "Suc i" s1 res1] obtain s' res' qs where
      ih: "scanChunks envs (Suc i) req chunk (address + q) s1 res1 = Some (s', res')"
        "concat (map rangeAddresses (rtRanges res'))
           = concat (map rangeAddresses (rtRanges res1)) @ [unat (address + q)..<Suc (unat (rsEnd req))]"
        "map rgQuantity (rtRanges res') = map rgQuantity (rtRanges res1) @ qs"
        "list_all (\<lambda>q. 1 \<le> unat q \<and> unat q \<le> unat chunk) qs" by blast
    have "[unat address..<unat address + unat q] @ [unat (address + q)..<Suc (unat (rsEnd req))]
        = [unat address..<Suc (unat (rsEnd req))]"
      using s lt by (simp add: upt_split)
    then show ?thesis
      using ih unfold go(1) full assms(2) addRange_ranges [of address q read res]
      by (auto simp: res1_def)
  qed
qed

text \<open>C11: a register scan returns and covers its range: the chunks it reads are the addresses from the
  first to the last in order, each exactly once, also when the range ends at address 65535, and
  every chunk holds between 1 and 125 registers.\<close>

theorem scan_covers_range:
  assumes "\<And>i j t. ends_reading False (snd (envs i j) t)"
    and "rsStart req \<le> rsEnd req"
    and "rsFunction req \<in> {0, FunctionReadHoldingRegisters, FunctionReadInputRegisters}"
  shows "\<exists>s' res. scanRegisters envs s req = Some (s', Inr res)
    \<and> concat (map rangeAddresses (rtRanges res)) = [unat (rsStart req)..<Suc (unat (rsEnd req))]
    \<and> list_all (\<lambda>r. 1 \<le> unat (rgQuantity r) \<and> unat (rgQuantity r) \<le> 125) (rtRanges res)"
proof -
  define req1 where "req1 = req\<lparr>rsFunction :=
    (if rsFunction req = 0 then FunctionReadHoldingRegisters else rsFunction req)\<rparr>"
  define chunk where "chunk = (if rsChunkSize req1 = 0 then 16 else if 125 < rsChunkSize req1 then 125 else rsChunkSize req1)"
  have chunk: "0 < unat chunk" "unat chunk \<le> 125"
    by (auto simp: chunk_def not_less word_le_nat_alt unat_gt_0)
  have req1: "rsStart req1 = rsStart req" "rsEnd req1 = rsEnd req"
    "rsFunction req1 = FunctionReadHoldingRegisters \<or> rsFunction req1 = FunctionReadInputRegisters"
    using assms(3) by (auto simp: req1_def)
  obtain s' res qs where "scanChunks envs 0 req1 chunk (rsStart req1) s
      \<lparr>rtSessionID = rsSessionID req, rtUnitID = rsUnitID req, rtValues = [], rtRanges = []\<rparr> = Some (s', res)"
    and cover: "concat (map rangeAddresses (rtRanges res)) = [unat (rsStart req)..<Suc (unat (rsEnd req))]"
    and qs: "map rgQuantity (rtRanges res) = qs" "list_all (\<lambda>q. 1 \<le> unat q \<and> unat q \<le> unat chunk) qs"
    using scanChunks_covers [where envs = envs and chunk = chunk and address = "rsStart req1" and req = req1 and i = 0 and s = s
      and res = "\<lparr>rtSessionID = rsSessionID req, rtUnitID = rsUnitID req, rtValues = [], rtRanges = []\<rparr>",
        OF assms(1) chunk(1)]
      assms(2) req1(1,2) by auto
  then have "scanRegisters envs s req = Some (s', Inr res)"
    unfolding scanRegisters_def Let_def req1_def [symmetric] chunk_def [symmetric]
    using req1 assms(2) by auto
  moreover have "list_all (\<lambda>r. 1 \<le> unat (rgQuantity r) \<and> unat (rgQuantity r) \<le> 125) (rtRanges res)"
    using qs chunk(2) by (auto simp: list_all_iff) (metis image_eqI le_trans list.set_map)+
  ultimately show ?thesis using cover by blast
qed


section \<open>Witnesses\<close>

lemma sample_run:
  "\<exists>master' tx. runMasterRequest (\<lambda>_. (Wrote 8 None, \<lambda>_. [ReadChunk (sampleFrame sampleReply)]))
      (newSession (sampleOpen ''a'')) sampleRead = Some (master', Some tx, None)
    \<and> prValues (txResponse tx) = [42]"
proof -
  have unit: "mqUnitID sampleRead = 1" by (simp add: sampleRead_def)
  obtain s' where s': "slaveRound FrameModeRTU sampleSlave
      \<lparr>rdScript = [ReadChunk (sampleFrame samplePDU)], rdStopped = False, rdWrite = Wrote 7 None\<rparr> = Some (s', Looping)"
      "msSent s' = msSent sampleSlave @ [sampleFrame sampleReply]"
    using slave_round_answer [OF sample_encode [of samplePDU] normalize_RTU sample_facts(4,12,13,2), of "[]" False 7]
    by (auto simp: normalResponse_def sample_encode)
  have "\<exists>master' tx. runMasterRequest (\<lambda>_. (Wrote 8 None, \<lambda>_. [ReadChunk (sampleFrame sampleReply)]))
      (newSession (sampleOpen ''a'')) sampleRead = Some (master', Some tx, None)
    \<and> txResponse tx = parsedZero\<lparr>prFunction := FunctionReadHoldingRegisters,
        prRaw := pduBytes sampleReply, prValues := [42]\<rparr>
    \<and> txBytesWritten tx = 8 \<and> txError tx = None
    \<and> msSent master' = msSent (newSession (sampleOpen ''a'')) @ [sampleFrame samplePDU]"
    by (rule transaction_run [where slave = sampleSlave and m = sampleModel and w = "sampleFrame samplePDU"
          and f = "sampleFrame sampleReply" and p = samplePDU and slave' = s' and st = Looping and b = False and k = 7
          and mode = FrameModeRTU])
       (use s' sample_facts in \<open>simp_all add: unit sample_encode normalResponse_def\<close>)
  then show ?thesis by (auto simp: parsedZero_def)
qed

theorem master_success_witness:
  "\<exists>env s' tx. runMasterRequest env (newSession (sampleOpen ''a'')) sampleRead = Some (s', Some tx, None)
    \<and> BuildMasterPDU sampleRead = Inr (txRequestPDU tx)"
proof -
  from sample_run obtain env s' tx where
    r: "runMasterRequest env (newSession (sampleOpen ''a'')) sampleRead = Some (s', Some tx, None)" by blast
  from master_success [OF r] r show ?thesis by blast
qed

theorem master_returns_witness:
  "runMasterRequest (\<lambda>_. (Wrote 8 None, \<lambda>_. [ReadChunk [1, 2], DeadlinePassed]))
     (newSession (sampleOpen ''a'')) sampleRead \<noteq> None"
  using master_returns [of "\<lambda>_. (Wrote 8 None, \<lambda>_. [ReadChunk [1, 2], DeadlinePassed])" sampleRead
    "newSession (sampleOpen ''a'')" "\<lambda>_. (Wrote 8 None, \<lambda>_. [ReadChunk [1, 2], DeadlinePassed])"] by simp

theorem ascii_any_chunking_witness:
  "\<exists>w. EncodeFrame FrameModeASCII 1 samplePDU = Inr w
    \<and> is_ok (snd (the (readFrame FrameModeASCII False (newSession (sampleOpen ''a'')) []
        (map ReadChunk [take 5 w, drop 5 w]))))"
proof -
  obtain w where w: "EncodeFrame FrameModeASCII 1 samplePDU = Inr w" "length w \<le> maxFrameBytes"
    by (simp add: EncodeFrame_def Let_def samplePDU_def pduBytes_def u16Pair_def maxFrameBytes_def)
  from ascii_any_chunking [OF w sample_facts(6), of "[take 5 w, drop 5 w]" False "''a''" "[]"] w(1)
  show ?thesis by simp
qed

theorem slave_answers_witness:
  "\<exists>s' f. slaveRound FrameModeRTU sampleSlave
      \<lparr>rdScript = [ReadChunk (sampleFrame samplePDU)], rdStopped = False, rdWrite = Wrote 7 None\<rparr> = Some (s', Looping)
    \<and> EncodeFrame FrameModeRTU 1 sampleReply = Inr f \<and> msSent s' = [f]"
  using slave_answers [OF sample_encode [of samplePDU] normalize_RTU sample_facts(4,12,13,2), of "[]" False 7]
  by (auto simp: normalResponse_def sample_facts)



definition sampleScan :: registerScanRequest where
  "sampleScan = \<lparr>rsSessionID = ''a'', rsUnitID = 1, rsFunction = 0, rsAddressMode = [],
     rsStart = 65000, rsEnd = 65535, rsChunkSize = 0, rsTimeoutMs = 0, rsRetries = 0\<rparr>"

theorem scan_covers_range_witness:
  "\<exists>s' res. scanRegisters (\<lambda>_ _. (Wrote 8 None, \<lambda>_. [DeadlinePassed])) (newSession (sampleOpen ''a'')) sampleScan
      = Some (s', Inr res)
    \<and> concat (map rangeAddresses (rtRanges res)) = [65000..<65536]"
  using scan_covers_range [of "\<lambda>_ _. (Wrote 8 None, \<lambda>_. [DeadlinePassed])" sampleScan "newSession (sampleOpen ''a'')"]
  by (simp add: sampleScan_def del: upt_Suc) blast

end
