(* ===== verification/FecbusFacts.thy ===== *)
theory FecbusFacts
  imports FecbusSession Interfaces
begin

text \<open>
  Correctness of the FECbus sessions: exclusive ports, the bounded history and its pages, a
  transaction with a simulated device, and the devices that keep answering.
\<close>

section \<open>Ports are held exclusively\<close>

definition fec_manager_wf :: "fecManager \<Rightarrow> bool" where
  "fec_manager_wf m \<longleftrightarrow> table_ok (fmSessions m)
     \<and> (\<forall>sid s. map_of (fmSessions m) sid = Some s \<longrightarrow> fsStatus s \<noteq> fecClosed)"

lemma fec_status_distinct [simp]:
  "fecOpen \<noteq> fecClosed" "fecErrorStatus \<noteq> fecClosed" "fecRunning \<noteq> fecClosed"
  by (simp_all add: state_simps)

lemma fecPortInUse_iff:
  assumes "fec_manager_wf m"
  shows "fecPortInUse m p \<longleftrightarrow> p \<in> ran (fecPortOf m)"
proof -
  have entry: "(k, s) \<in> set (fmSessions m) \<longleftrightarrow> map_of (fmSessions m) k = Some s" for k s
    using assms by (simp add: fec_manager_wf_def table_entry)
  have "fecPortInUse m p \<longleftrightarrow> (\<exists>k s. (k, s) \<in> set (fmSessions m) \<and> fsStatus s \<noteq> fecClosed
      \<and> scPortName (foConfig (fsReq s)) = p)"
    by (auto simp: fecPortInUse_def list_ex_iff fecInfo_def)
  also have "\<dots> \<longleftrightarrow> (\<exists>k. fecPortOf m k = Some p)"
    unfolding entry by (auto simp: fecPortOf_def split: option.splits if_splits)
  finally show ?thesis by (simp add: ran_def)
qed

lemma fecOnSession_wf:
  assumes "fec_manager_wf m"
    and "\<And>s. fsStatus s \<noteq> fecClosed \<Longrightarrow> fsStatus (fst (f s)) \<noteq> fecClosed \<and> fsReq (fst (f s)) = fsReq s"
  shows "fec_manager_wf (fst (fecOnSession m sid f)) \<and> fecPortOf (fst (fecOnSession m sid f)) = fecPortOf m"
proof (cases "fecGet m sid")
  case (Inl e)
  then show ?thesis using assms(1) by (simp add: fecOnSession_def)
next
  case (Inr s)
  then have "map_of (fmSessions m) sid = Some s" by (auto simp: fecGet_def split: if_splits option.splits)
  moreover from this assms(1) have "fsStatus s \<noteq> fecClosed" by (simp add: fec_manager_wf_def)
  ultimately show ?thesis
    using assms(1) assms(2) [of s] Inr
    by (auto simp: fecOnSession_def fecPutSession_def fec_manager_wf_def fecPortOf_def fun_eq_iff split: prod.splits)
qed

lemma fec_section_gives:
  assumes "fec_manager_wf m" and "\<forall>req. op \<noteq> FCommitOpen req"
  shows "fec_manager_wf (fecRunSection op m) \<and> fecPortOf (fecRunSection op m) \<subseteq>\<^sub>m fecPortOf m"
proof (cases op)
  case (FDropSession sid)
  then show ?thesis using assms
    by (auto simp: fecRunSection_def FecCloseSession_def fec_manager_wf_def fecPortOf_def map_le_def split: option.splits)
next
  case FDropAll
  have "fecPortOf (fecRunSection op m) = Map.empty"
    by (simp add: FDropAll fecRunSection_def FecCloseAll_def fecPortOf_def fun_eq_iff)
  then show ?thesis by (simp add: FDropAll fecRunSection_def FecCloseAll_def fec_manager_wf_def)
next
  case (FBeginSlave req)
  have "fec_manager_wf (fecRunSection op m) \<and> fecPortOf (fecRunSection op m) = fecPortOf m"
    unfolding FBeginSlave fecRunSection_def fecSection.case FecStartSlave_def
    by (rule fecOnSession_wf [OF assms(1)]) (auto simp: fecStartSlave_def Let_def)
  then show ?thesis by simp
next
  case (FEndSlave sid)
  have "fec_manager_wf (fecRunSection op m) \<and> fecPortOf (fecRunSection op m) = fecPortOf m"
    unfolding FEndSlave fecRunSection_def fecSection.case FecStopSlave_def
    by (rule fecOnSession_wf [OF assms(1)]) (auto simp: fecStopSlave_def)
  then show ?thesis by simp
next
  case (FFailSlave sid e)
  have "fec_manager_wf (fecRunSection op m) \<and> fecPortOf (fecRunSection op m) = fecPortOf m"
    unfolding FFailSlave fecRunSection_def fecSection.case
    by (rule fecOnSession_wf [OF assms(1)]) (auto simp: fecSetError_def)
  then show ?thesis by simp
qed (use assms in simp)

lemma fec_section_cases:
  assumes "fec_manager_wf m"
  shows "fec_manager_wf (fecRunSection op m)
    \<and> ((\<exists>i p. i \<notin> dom (fecPortOf m) \<and> p \<notin> ran (fecPortOf m) \<and> fecPortOf (fecRunSection op m) = (fecPortOf m)(i \<mapsto> p))
      \<or> fecPortOf (fecRunSection op m) \<subseteq>\<^sub>m fecPortOf m)"
proof (cases "\<exists>req. op = FCommitOpen req")
  case True
  then obtain req where FCommitOpen: "op = FCommitOpen req" by blast
  show ?thesis
  proof (cases "fecOpenCheck m req")
    case None
    then have n: "map_of (fmSessions m) (foID req) = None" "scPortName (foConfig req) \<notin> ran (fecPortOf m)"
      using fecPortInUse_iff [OF assms] by (auto simp: fecOpenCheck_def split: if_splits)
    have "fecPortOf (fecRunSection op m) = (fecPortOf m)(foID req \<mapsto> scPortName (foConfig req))"
      using None FCommitOpen by (auto simp: fecRunSection_def fecOpenCommit_def fecPortOf_def newFecSession_def)
    moreover have "fec_manager_wf (fecRunSection op m)"
      using None FCommitOpen assms by (auto simp: fecRunSection_def fecOpenCommit_def fec_manager_wf_def newFecSession_def)
    moreover have "foID req \<notin> dom (fecPortOf m)" using n by (auto simp: fecPortOf_def split: option.splits)
    ultimately show ?thesis using n by blast
  qed (simp add: FCommitOpen fecRunSection_def fecOpenCommit_def assms)
next
  case False
  then show ?thesis using fec_section_gives [OF assms, of op] by simp
qed

interpretation fec_ports: port_registry fec_manager_wf fecPortOf fecRunSection
  by unfold_locales (use fec_section_cases in blast)+

text \<open>no two FECbus sessions hold the same port, in whatever order concurrent calls open, close,
  start, stop and fail sessions.\<close>

theorem fec_ports_exclusive:
  assumes "m = fold fecRunSection ops NewFecManager"
    and "fecPortOf m i = Some p" and "fecPortOf m j = Some p"
  shows "i = j"
proof -
  have "fec_manager_wf NewFecManager" "fec_ports.exclusive NewFecManager"
    by (simp_all add: NewFecManager_def fec_manager_wf_def fec_ports.exclusive_def fecPortOf_def)
  from fec_ports.exclusive_run [OF this, of ops] assms show ?thesis
    by (blast dest: fec_ports.exclusive_holder)
qed

definition sampleFecOpen :: "string \<Rightarrow> fecOpenRequest" where
  "sampleFecOpen sid = \<lparr>foID = sid, foName = ''bus'', foRole = fecRoleMaster,
     foConfig = \<lparr>scPortName = ''COM4'', scBaudRate = 9600, scDataBits = 8, scStopBits = ''1'',
       scParity = ''none'', scFlowMode = ''none'', scReadBufKB = 32\<rparr>,
     foEndpoint = [], foTimeoutMs = 0, foRetries = 0\<rparr>"

theorem fec_ports_exclusive_witness:
  "fecPortOf (fold fecRunSection [FCommitOpen (sampleFecOpen ''a''), FCommitOpen (sampleFecOpen ''b'')]
      NewFecManager) ''a'' = Some ''COM4''
   \<and> fecPortOf (fold fecRunSection [FCommitOpen (sampleFecOpen ''a''), FCommitOpen (sampleFecOpen ''b'')]
      NewFecManager) ''b'' \<noteq> Some ''COM4''"
proof -
  have a: "fecPortOf (fold fecRunSection [FCommitOpen (sampleFecOpen ''a''), FCommitOpen (sampleFecOpen ''b'')]
      NewFecManager) ''a'' = Some ''COM4''"
    by (simp add: fecRunSection_def fecOpenCommit_def fecOpenCheck_def fecPortInUse_def fecInfo_def
        NewFecManager_def newFecSession_def sampleFecOpen_def fecPortOf_def table_put_def table_del_def Let_def)
  from fec_ports_exclusive [OF refl a, of "''b''"] a show ?thesis by blast
qed

section \<open>The history\<close>

interpretation fec_history: bounded_log fsHistory appendRecord maxHistory
  by unfold_locales (simp add: appendRecord_def truncateHistory_def lastn_def)

text \<open>A capture: the frames a session records one after the other.\<close>

definition recordAll :: "fecSession \<Rightarrow> (string \<times> fecFrame \<times> bytes \<times> string) list \<Rightarrow> fecSession" where
  "recordAll s cs = foldl (\<lambda>s (d, f, raw, msg). recordFrame s d f raw msg) s cs"

lemma record_seq:
  "map frSeq (fsHistory (recordFrame s d f raw msg))
     = lastn maxHistory (map frSeq (fsHistory s) @ [fsNextSeq s + 1])"
  "fsNextSeq (recordFrame s d f raw msg) = fsNextSeq s + 1"
  "length (fsHistory (recordFrame s d f raw msg)) \<le> maxHistory"
  unfolding recordFrame_def Let_def
  by (simp_all add: fec_history.append_entries map_lastn) (simp add: appendRecord_def)

text \<open>the history holds the last 4096 frames captured, numbered consecutively: after any capture the
  sequence numbers of the history are the last 4096 of the numbers given out.\<close>

theorem fec_history_numbers:
  assumes "length (fsHistory s) \<le> maxHistory"
  shows "map frSeq (fsHistory (recordAll s cs))
    = lastn maxHistory (map frSeq (fsHistory s) @ [fsNextSeq s + 1..fsNextSeq s + int (length cs)])
    \<and> length (fsHistory (recordAll s cs)) \<le> maxHistory"
proof -
  have "map frSeq (fsHistory (recordAll s cs))
      = lastn maxHistory (map frSeq (fsHistory s) @ [fsNextSeq s + 1..fsNextSeq s + int (length cs)])
    \<and> fsNextSeq (recordAll s cs) = fsNextSeq s + int (length cs)
    \<and> length (fsHistory (recordAll s cs)) \<le> maxHistory"
  proof (induction cs rule: rev_induct)
    case Nil
    show ?case using assms by (simp add: recordAll_def lastn_short)
  next
    case (snoc c cs)
    obtain d f raw msg where c: "c = (d, f, raw, msg)" by (cases c)
    have "[fsNextSeq s + 1..fsNextSeq s + int (length (cs @ [c]))]
        = [fsNextSeq s + 1..fsNextSeq s + int (length cs)] @ [fsNextSeq s + int (length cs) + 1]"
      by (simp add: upto_rec2 add.assoc)
    with snoc c record_seq [of "recordAll s cs" d f raw msg] show ?case
      by (simp add: recordAll_def lastn_lastn_append add.assoc)
  qed
  then show ?thesis by blast
qed

theorem fec_history_numbers_witness:
  "map frSeq (fsHistory (recordAll (newFecSession (sampleFecOpen ''a''))
     [(''tx'', sampleFec, [1], []), (''rx'', sampleFec, [2], [])])) = [1, 2]"
  using fec_history_numbers [of "newFecSession (sampleFecOpen ''a'')"
      "[(''tx'', sampleFec, [1], []), (''rx'', sampleFec, [2], [])]"]
  by (simp add: newFecSession_def lastn_def maxHistory_def upto.simps)

text \<open>paging is exact: the pages of a query, fetched with the same limit of 1 to 500 frames, put one
  after the other are the records that match, in order, and the end is announced with the page that
  reaches it and not before.\<close>

theorem fec_pages_cover:
  assumes "0 < l" and "l \<le> 500"
  shows "concat (map (\<lambda>k. fpFrames (queryFrames s (req\<lparr>fqOffset := int (k * l), fqLimit := int l\<rparr>))) [0..<n])
      = take (n * l) (filter (recordMatches req) (fsHistory s))
    \<and> (fpEOF (queryFrames s (req\<lparr>fqOffset := int (n * l), fqLimit := int l\<rparr>))
        \<longleftrightarrow> length (filter (recordMatches req) (fsHistory s)) \<le> Suc n * l)"
proof -
  define fl where "fl = filter (recordMatches req) (fsHistory s)"
  have m: "recordMatches (req\<lparr>fqOffset := a, fqLimit := b\<rparr>) = recordMatches req" for a b
    by (simp add: fun_eq_iff recordMatches_def)
  have page: "fpFrames (queryFrames s (req\<lparr>fqOffset := int (k * l), fqLimit := int l\<rparr>)) = take l (drop (k * l) fl)
      \<and> (fpEOF (queryFrames s (req\<lparr>fqOffset := int (k * l), fqLimit := int l\<rparr>)) \<longleftrightarrow> length fl \<le> Suc k * l)" for k
    unfolding queryFrames_def m Let_def fl_def [symmetric] using assms by (auto simp: nat_diff_distrib simp flip: of_nat_mult of_nat_add)
  have "concat (map (\<lambda>k. take l (drop (k * l) fl)) [0..<n]) = take (n * l) fl"
  proof (induction n)
    case (Suc n)
    have "Suc n * l = n * l + l" by simp
    with Suc show ?case by (simp only: take_add) simp
  qed simp
  then show ?thesis using page by (simp add: fl_def)
qed

definition samplePageRequest :: fecQuery where
  "samplePageRequest = \<lparr>fqSessionID = ''a'', fqOffset = 0, fqLimit = 0, fqDirection = ''tx'', fqSearch = []\<rparr>"

theorem fec_pages_cover_witness:
  "concat (map (\<lambda>k. fpFrames (queryFrames (newFecSession (sampleFecOpen ''a''))
     (samplePageRequest\<lparr>fqOffset := int (k * 100), fqLimit := int 100\<rparr>))) [0..<3]) = []"
  using fec_pages_cover [of 100 "newFecSession (sampleFecOpen ''a'')" samplePageRequest 3]
  by (simp add: newFecSession_def)

section \<open>Simulated devices\<close>

lemma decoded_valid: "FecDecodeFrame raw = Inr f \<Longrightarrow> validateFrameFields f = None"
  by (auto simp: FecDecodeFrame_def Let_def split: if_splits option.splits)

lemma fecReadFrame_decoded:
  "fecReadFrame stoppable s buf es = Some (s', Inr (raw, f)) \<Longrightarrow> FecDecodeFrame raw = Inr f"
  by (induction stoppable s buf es rule: fecReadFrame.induct)
     (auto simp: Let_def fecTakeChunk_def split: if_splits sum.splits extraction.splits)

lemma fec_rx_refl: "\<exists>n. s = s\<lparr>fsRxBytes := n\<rparr>"
  by (rule exI [of _ "fsRxBytes s"]) simp

lemma fecReadFrame_session:
  "fecReadFrame stoppable s buf es = Some (s', r) \<Longrightarrow> \<exists>n. s' = s\<lparr>fsRxBytes := n\<rparr>"
proof (induction stoppable s buf es rule: fecReadFrame.induct)
  case (6 stoppable s buf bs es)
  consider "\<not> fsPort s" | "fsPort s" "bs = []"
    | x where "fsPort s" "bs \<noteq> []" "fecTakeChunk (buf @ bs) = Inl x"
    | b where "fsPort s" "bs \<noteq> []" "fecTakeChunk (buf @ bs) = Inr b" by (cases "fecTakeChunk (buf @ bs)") auto
  then show ?case
  proof cases
    case 1
    with 6(3) show ?thesis by (simp add: fec_rx_refl)
  next
    case 4
    with 6(2) [OF _ 4(2) refl 4(3)] 6(3) show ?thesis by (auto simp: Let_def)
  qed (use 6 in \<open>auto simp: Let_def\<close>)
qed (auto simp: fec_rx_refl split: if_splits)

lemma status_answer_allowed: "IsFunctionAllowed FunctionStatusAnswer"
  by (simp add: IsFunctionAllowed_def LookupFunction_def namedFunctions_def named_def)

lemma validate_iff:
  "validateFrameFields f = None \<longleftrightarrow>
     (ffType f = FrameTypeRequest \<or> ffType f = FrameTypeAnswer) \<and> ffTarget f \<le> 63 \<and> ffPriority f \<le> 3
     \<and> ffSource f \<noteq> 0 \<and> ffSource f \<le> 63 \<and> ffMessage f \<noteq> 0 \<and> ffMessage f \<le> 63 \<and> ffGroup f \<le> 127
     \<and> ffData f \<noteq> [] \<and> length (ffData f) \<le> 8 \<and> (1 < ffGroup f \<or> IsFunctionAllowed (ffData f ! 0))"
  by (simp add: validateFrameFields_def maxDataBytes_def not_less not_le Suc_le_eq)

lemma slave_answer_valid:
  assumes "validateFrameFields f = None" and "fuAddress u \<noteq> 0" and "fuAddress u \<le> 63"
    and "buildSlaveAnswer f u = AnswerWith a"
  shows "validateFrameFields a = None"
proof (cases "map_of (fuPayloads u) (frameFunction f)")
  case (Some payload)
  with assms(4) obtain data where d: "BuildData (frameFunction f) payload = Inr data"
    and a: "a = \<lparr>ffType = FrameTypeAnswer, ffTarget = ffSource f, ffPriority = 3, ffSource = fuAddress u,
      ffMessage = ffMessage f, ffGroup = ffGroup f, ffData = data, ffRaw = [], ffCRCOK = False\<rparr>"
    by (auto simp: buildSlaveAnswer_def split: sum.splits)
  from d have "data = frameFunction f # payload" "IsFunctionAllowed (frameFunction f)" "length payload \<le> 7"
    by (auto simp: BuildData_def maxDataBytes_def split: if_splits)
  with a assms(1-3) show ?thesis by (simp add: validate_iff)
next
  case None
  with assms(4) have a: "a = \<lparr>ffType = FrameTypeAnswer, ffTarget = ffSource f, ffPriority = 3, ffSource = fuAddress u,
      ffMessage = ffMessage f, ffGroup = 0, ffData = [FunctionStatusAnswer, fuDefaultStatus u], ffRaw = [], ffCRCOK = False\<rparr>"
    by (auto simp: buildSlaveAnswer_def BuildStatusAnswer_def Let_def split: option.splits if_splits)
  with assms(1-3) show ?thesis by (simp add: validate_iff status_answer_allowed)
qed

lemma cloneSlaveUnits_id [simp]: "cloneSlaveUnits units = units"
  by (induction units) (auto simp: cloneSlaveUnits_def cloneUnit_def)

lemma unitAt_key:
  assumes "a \<in> set (sortedSlaveAddresses units)"
  shows "\<exists>k. map_of units k = Some (unitAt units a)"
proof -
  from assms obtain k u where "(k, u) \<in> set units" "a = uint k" by (auto simp: sortedSlaveAddresses_def)
  moreover from this obtain v where "map_of units k = Some v" using weak_map_of_SomeI by fast
  ultimately show ?thesis by (auto simp: unitAt_def)
qed

lemma matching_units: "u \<in> set (matchingSlaveUnits f units) \<Longrightarrow> \<exists>k. map_of units k = Some u"
  using unitAt_key [of _ units] by (auto simp: matchingSlaveUnits_def split: if_splits option.splits)

lemma recordFrame_keeps [simp]:
  "fsPort (recordFrame s d f raw msg) = fsPort s" "fsStatus (recordFrame s d f raw msg) = fsStatus s"
  "fsSlaveUnits (recordFrame s d f raw msg) = fsSlaveUnits s" "fsSent (recordFrame s d f raw msg) = fsSent s"
  "fsReq (recordFrame s d f raw msg) = fsReq s" "fsLastError (recordFrame s d f raw msg) = fsLastError s"
  by (simp_all add: recordFrame_def appendRecord_def Let_def)

lemma answerUnits_survives:
  assumes "validateFrameFields f = None" and "\<And>i. \<exists>n. writes i = Wrote n None" and "fsPort s"
    and "\<And>u. u \<in> set us \<Longrightarrow> fuAddress u \<noteq> 0 \<and> fuAddress u \<le> 63"
  shows "\<exists>s'. answerUnits s f writes i us = (s', Looping) \<and> fsStatus s' = fsStatus s"
  using assms(3,4)
proof (induction us arbitrary: s i)
  case (Cons u us)
  note IH = Cons.IH [OF _ Cons.prems(2)]
  show ?case
  proof (cases "buildSlaveAnswer f u")
    case NoAnswer
    with IH [of s "Suc i"] Cons.prems show ?thesis by simp
  next
    case (AnswerFailed e)
    with IH [of "recordFrame s ''tx'' fecFrameZero [] (fecErrorText e)" "Suc i"] Cons.prems show ?thesis by simp
  next
    case (AnswerWith a)
    have "validateFrameFields a = None"
      by (rule slave_answer_valid [OF assms(1) _ _ AnswerWith]) (use Cons.prems in simp_all)
    then obtain raw where raw: "FecEncodeFrame a = Inr raw" by (simp add: FecEncode_iff)
    obtain n where n: "writes i = Wrote n None" using assms(2) by blast
    obtain s1 where w: "fecWrite s raw (writes i) = (s1, n, None)" "fsPort s1" "fsStatus s1 = fsStatus s"
      using Cons.prems(1) n by (auto simp: fecWrite_def Let_def)
    with IH [of "recordFrame s1 ''tx'' a raw []" "Suc i"] Cons.prems AnswerWith raw show ?thesis by simp
  qed
qed simp

text \<open>a simulated bus whose devices have legal addresses never stops on its own: whatever valid
  frame it receives, requests with reserved functions and broadcasts included, every device that
  answers produces a frame that can be encoded, and as long as the port accepts the writes the loop
  goes on.\<close>

theorem fec_slave_survives:
  assumes "\<And>a u. map_of (fsSlaveUnits s) a = Some u \<Longrightarrow> fuAddress u \<noteq> 0 \<and> fuAddress u \<le> 63"
    and "fsPort s" and "\<And>i. \<exists>n. frdWrites rd i = Wrote n None"
    and "fecReadFrame True s [] (frdScript rd) = Some (s1, Inr (raw, f))"
  shows "\<exists>s'. fecSlaveRound s rd = Some (s', Looping) \<and> fsStatus s' = fsStatus s"
proof -
  obtain n where s1: "s1 = s\<lparr>fsRxBytes := n\<rparr>" using fecReadFrame_session [OF assms(4)] by blast
  have v: "validateFrameFields f = None" by (rule decoded_valid [OF fecReadFrame_decoded [OF assms(4)]])
  let ?s2 = "recordFrame s1 ''rx'' f raw []"
  have "\<exists>s'. answerUnits ?s2 f (frdWrites rd) 0 (matchingSlaveUnits f (fsSlaveUnits s)) = (s', Looping)
      \<and> fsStatus s' = fsStatus ?s2"
    by (rule answerUnits_survives [OF v assms(3)])
       (use assms(1,2) s1 in \<open>auto dest!: matching_units\<close>)
  then show ?thesis using assms(4) by (auto simp: fecSlaveRound_def Let_def s1)
qed

text \<open>an address above 63 is accepted when a device is added and refused when it is removed, and the
  first broadcast the device answers ends the simulation with an error.\<close>

theorem fec_illegal_device:
  assumes "63 < fuAddress u" and "fuAcceptBroadcast u" and "fuAutoStatusAnswer u" and "fuPayloads u = []"
    and "fsSlaveUnits s = []" and "s1 = setSlaveUnit s u"
    and "fecReadFrame True s1 [] (frdScript rd) = Some (s2, Inr (raw, f))" and "ffTarget f = 0"
  shows "fecRemoveUnit s1 (fuAddress u) = (s1, Some FAddressRange)
    \<and> (\<exists>s'. fecSlaveRound s1 rd = Some (s', Exited) \<and> fsStatus s' = fecErrorStatus
        \<and> fsLastError s' = Some (FFrame SourceInvalid))"
proof -
  have v: "validateFrameFields f = None" by (rule decoded_valid [OF fecReadFrame_decoded [OF assms(7)]])
  obtain n where s2: "s2 = s1\<lparr>fsRxBytes := n\<rparr>" using fecReadFrame_session [OF assms(7)] by blast
  define nu where "nu = normalizeSlaveUnit u"
  have nz: "fuAddress u \<noteq> 0" using assms(1) by auto
  then have nu: "fuAddress nu = fuAddress u" "fuAcceptBroadcast nu" "fuAutoStatusAnswer nu" "fuPayloads nu = []"
    using assms(2-4) by (simp_all add: nu_def normalizeSlaveUnit_def)
  have units: "fsSlaveUnits s1 = [(fuAddress u, nu)]"
    using assms(5,6) nu by (simp add: setSlaveUnit_def table_put_def table_del_def Let_def flip: nu_def)
  have matched: "matchingSlaveUnits f (fsSlaveUnits s1) = [nu]"
    using assms(8) nu(2) by (simp add: matchingSlaveUnits_def units sortedSlaveAddresses_def unitAt_def)
  obtain a where a: "buildSlaveAnswer f nu = AnswerWith a" "ffSource a = fuAddress u" "ffType a = FrameTypeAnswer"
      "ffTarget a \<le> 63" "ffPriority a = 3"
    using v nu assms(8) status_answer_allowed
    by (auto simp: buildSlaveAnswer_def BuildStatusAnswer_def Let_def validate_iff split: option.splits)
  then have "FecEncodeFrame a = Inl SourceInvalid"
    using assms(1) by (simp add: FecEncodeFrame_def validateFrameFields_def not_less flip: not_le)
  with a matched show ?thesis
    using assms(1,7) by (auto simp: fecRemoveUnit_def fecSlaveRound_def Let_def s2 fecSetError_def)
qed

section \<open>A transaction with a simulated device\<close>

lemma fecTakeChunk_wire:
  assumes "validateFrameFields f = None" and "FrameBoundary \<notin> set (fecInterior f)"
  shows "fecTakeChunk (fecWire f) = Inl (Inr (fecWire f, fecView f))"
proof -
  have "ExtractFrame (fecWire f) = Extracted (fecWire f) []"
    using extract_wire [of "[]" f "[]"] assms(2) by simp
  moreover have "FecDecodeFrame (fecWire f) = Inr (fecView f)"
    by (rule fec_decode_encode) (simp add: FecEncode_iff assms(1))
  moreover have "length (fecWire f) \<le> fecMaxFrameBytes"
    using validate_data [OF assms(1)] by (simp add: fecMaxFrameBytes_def)
  ultimately show ?thesis by (simp add: fecTakeChunk_def)
qed

lemma fecReadFrame_wire:
  assumes "validateFrameFields f = None" and "FrameBoundary \<notin> set (fecInterior f)" and "fsPort s"
  shows "fecReadFrame stoppable s [] (ReadChunk (fecWire f) # es)
    = Some (s\<lparr>fsRxBytes := fsRxBytes s + int (length (fecWire f))\<rparr>, Inr (fecWire f, fecView f))"
proof -
  have "fecWire f \<noteq> []" by (simp add: fecWire_interior)
  then show ?thesis using assms fecTakeChunk_wire [OF assms(1,2)] by (simp add: Let_def)
qed

lemma view_fields [simp]:
  "ffType (fecView f) = ffType f" "ffTarget (fecView f) = ffTarget f" "ffSource (fecView f) = ffSource f"
  "ffMessage (fecView f) = ffMessage f" "ffGroup (fecView f) = ffGroup f" "ffData (fecView f) = ffData f"
  by (simp_all add: fecView_def)

lemma view_function [simp]: "frameFunction (fecView f) = frameFunction f"
  by (simp add: frameFunction_def)

lemma view_answer [simp]: "buildSlaveAnswer (fecView f) u = buildSlaveAnswer f u"
  by (cases "map_of (fuPayloads u) (frameFunction f)")
     (simp_all add: buildSlaveAnswer_def BuildStatusAnswer_def Let_def split: sum.split)

declare fecAttempts.simps [simp del]
lemmas fec_attempts = fecAttempts.simps

lemma answer_matches:
  assumes "buildSlaveAnswer f u = AnswerWith a" and "fuAddress u = ffTarget f"
  shows "matchesAnswer f (fecView a)"
  using assms
  by (auto simp: buildSlaveAnswer_def BuildStatusAnswer_def Let_def matchesAnswer_def
      split: option.splits sum.splits if_splits prod.splits)


text \<open>a broadcast (target address 0) that expects an answer never succeeds: an answer would have to
  come from address 0, and no frame with that source is valid.\<close>

theorem fec_broadcast_unanswered:
  assumes "fqrExpectAnswer req" and "fqrTarget req = 0" and "fqrFrameType req \<noteq> FrameTypeAnswer"
    and "fecSend env s req = Some (s', tx, err)"
  shows "err \<noteq> None"
proof -
  have never: "fecAttempts req frame raw timeout env i n s tx e = Some (s', tx', err) \<Longrightarrow> err \<noteq> None"
    if "ffTarget frame = 0" for frame raw timeout i n s tx e s' tx' err
  proof (induction n arbitrary: i s tx e)
    case (Suc n)
    obtain s1 w werr where w: "fecWrite s raw (fst (env i)) = (s1, w, werr)" by (metis prod_cases3)
    have "\<not> matchesAnswer frame r" if "fecReadFrame False s2 [] es = Some (s3, Inr (rr, r))" for s2 es s3 rr r
      using decoded_valid [OF fecReadFrame_decoded [OF that]] \<open>ffTarget frame = 0\<close>
      by (auto simp: validate_iff matchesAnswer_def)
    then show ?case using Suc w assms(1)
      by (auto simp: fec_attempts Let_def split: option.splits sum.splits prod.splits)
  qed (auto simp: fec_attempts Let_def)
  have "ffTarget frame = 0" if "requestFrame req = Inr frame" for frame
    using that assms(2,3) by (auto simp: requestFrame_def Let_def split: sum.splits)
  then show ?thesis using assms(4) never
    by (auto simp: fecSend_def Let_def split: if_splits sum.splits)
qed

section \<open>Witnesses\<close>

definition sampleUnit :: fecUnit where
  "sampleUnit = \<lparr>fuAddress = 2, fuDefaultStatus = StatusReceivedOK, fuAutoStatusAnswer = True,
     fuAcceptBroadcast = True, fuPayloads = []\<rparr>"

lemma new_units: "fsSlaveUnits (newFecSession req) = [(2, sampleUnit)]" "fsPort (newFecSession req)"
  "fsStatus (newFecSession req) = fecOpen" "\<not> fsSlaveRunning (newFecSession req)" "fsSent (newFecSession req) = []"
  by (simp_all add: newFecSession_def sampleUnit_def)

definition sampleSend :: fecSendRequest where
  "sampleSend = \<lparr>fqrSessionID = ''a'', fqrFrameType = 0, fqrTarget = 2, fqrPriority = 1, fqrSource = 1,
     fqrMessage = 5, fqrGroup = 0, fqrFunction = 0x21, fqrDataHex = [], fqrData = [0x21, 9],
     fqrExpectAnswer = True, fqrTimeoutMs = 0, fqrRetries = 0\<rparr>"

definition sampleAnswer :: fecFrame where
  "sampleAnswer = \<lparr>ffType = 1, ffTarget = 1, ffPriority = 3, ffSource = 2, ffMessage = 5, ffGroup = 0,
     ffData = [0x0f, 0x0a], ffRaw = [], ffCRCOK = False\<rparr>"

lemma sampleSend_frame: "requestFrame sampleSend = Inr sampleFec"
  by (simp add: requestFrame_def requestData_def sampleSend_def sampleFec_def)

lemma sampleAnswer_valid: "validateFrameFields sampleAnswer = None"
  by (simp add: validate_iff sampleAnswer_def status_answer_allowed)

lemma sampleAnswer_built: "buildSlaveAnswer sampleFec sampleUnit = AnswerWith sampleAnswer"
  by (simp add: buildSlaveAnswer_def sampleUnit_def BuildStatusAnswer_def Let_def sampleFec_def
      sampleAnswer_valid [unfolded sampleAnswer_def] sampleAnswer_def)

lemma sample_crc: "FecCRC16 (frameBody sampleFec) = 34614" "FecCRC16 (frameBody sampleAnswer) = 20485"
  by (simp_all add: FecCRC16_def crc_eval frameBody_def sampleFec_def sampleAnswer_def FrameBoundary_def)

lemma sample_clean: "FrameBoundary \<notin> set (fecInterior sampleFec)" "FrameBoundary \<notin> set (fecInterior sampleAnswer)"
  by (simp_all add: fecInterior_def sample_crc loByte_def hiByte_def)
     (simp_all add: frameBody_def sampleFec_def sampleAnswer_def FrameBoundary_def)

definition sampleRound :: fecRoundEnv where
  "sampleRound = \<lparr>frdScript = [ReadChunk (fecWire sampleFec)], frdStopped = False, frdWrites = \<lambda>_. Wrote 13 None\<rparr>"

lemma sample_read: "fecReadFrame True (newFecSession req) [] (frdScript sampleRound)
    = Some ((newFecSession req)\<lparr>fsRxBytes := fsRxBytes (newFecSession req) + int (length (fecWire sampleFec))\<rparr>,
        Inr (fecWire sampleFec, fecView sampleFec))"
  unfolding sampleRound_def fecRoundEnv.select_convs
  by (rule fecReadFrame_wire [OF sampleFec_valid sample_clean(1) new_units(2)])

theorem fec_slave_survives_witness:
  "\<exists>s'. fecSlaveRound (newFecSession (sampleFecOpen ''a'')) sampleRound = Some (s', Looping)"
proof -
  have "\<exists>s'. fecSlaveRound (newFecSession (sampleFecOpen ''a'')) sampleRound = Some (s', Looping)
      \<and> fsStatus s' = fsStatus (newFecSession (sampleFecOpen ''a''))"
    by (rule fec_slave_survives [OF _ _ _ sample_read])
       (auto simp: new_units sampleUnit_def sampleRound_def split: if_splits)
  then show ?thesis by blast
qed

lemma sample_slave_run:
  "\<exists>s'. fecSlaveRound (newFecSession (sampleFecOpen ''b'')) \<lparr>frdScript = [ReadChunk (fecWire sampleFec)],
      frdStopped = False, frdWrites = \<lambda>_. Wrote 13 None\<rparr> = Some (s', Looping)
    \<and> fsSent s' = fsSent (newFecSession (sampleFecOpen ''b'')) @ [fecWire sampleAnswer]"
proof -
  have "FecEncodeFrame sampleAnswer = Inr (fecWire sampleAnswer)" by (simp add: FecEncode_iff sampleAnswer_valid)
  moreover have "matchingSlaveUnits (fecView sampleFec) [(2, sampleUnit)] = [sampleUnit]"
    by (simp add: matchingSlaveUnits_def) (simp add: sampleFec_def)
  ultimately show ?thesis
    using sample_read [of "sampleFecOpen ''b''"] new_units(1,2) sampleAnswer_built
    by (auto simp: fecSlaveRound_def sampleRound_def fecWrite_def Let_def simp del: fecReadFrame.simps)
qed


theorem fec_broadcast_unanswered_witness:
  "\<exists>s' tx err. fecSend (\<lambda>_. (Wrote 13 None, \<lambda>_. [ReadChunk [9], DeadlinePassed]))
      (newFecSession (sampleFecOpen ''a'')) (sampleSend\<lparr>fqrTarget := 0\<rparr>) = Some (s', tx, err) \<and> err \<noteq> None"
proof -
  have v: "validateFrameFields (sampleFec\<lparr>ffTarget := 0\<rparr>) = None"
    using sampleFec_valid by (simp add: validate_iff)
  have r: "requestFrame (sampleSend\<lparr>fqrTarget := 0\<rparr>) = Inr (sampleFec\<lparr>ffTarget := 0\<rparr>)"
    by (simp add: requestFrame_def requestData_def sampleSend_def sampleFec_def)
  have e: "\<exists>raw. FecEncodeFrame (sampleFec\<lparr>ffTarget := 0\<rparr>) = Inr raw" using v by (simp add: FecEncode_iff)
  have "\<exists>s' tx err. fecSend (\<lambda>_. (Wrote 13 None, \<lambda>_. [ReadChunk [9], DeadlinePassed]))
      (newFecSession (sampleFecOpen ''a'')) (sampleSend\<lparr>fqrTarget := 0\<rparr>) = Some (s', tx, err)"
    using r e by (auto simp: fecSend_def fec_attempts fecWrite_def Let_def new_units fecRequestRetries_def
        newFecSession_def sampleFecOpen_def fecTakeChunk_def ExtractFrame_def FrameBoundary_def fecMaxFrameBytes_def)
      (simp_all add: sampleSend_def fec_attempts)
  then obtain s' tx err where res: "fecSend (\<lambda>_. (Wrote 13 None, \<lambda>_. [ReadChunk [9], DeadlinePassed]))
      (newFecSession (sampleFecOpen ''a'')) (sampleSend\<lparr>fqrTarget := 0\<rparr>) = Some (s', tx, err)" by blast
  from fec_broadcast_unanswered [OF _ _ _ res] res show ?thesis by (simp add: sampleSend_def)
qed

definition sampleBroadcast :: fecFrame where
  "sampleBroadcast = sampleFec\<lparr>ffTarget := 0\<rparr>"

lemma sampleBroadcast_facts:
  "validateFrameFields sampleBroadcast = None" "FrameBoundary \<notin> set (fecInterior sampleBroadcast)"
  "ffTarget (fecView sampleBroadcast) = 0"
proof -
  show "validateFrameFields sampleBroadcast = None" using sampleFec_valid by (simp add: validate_iff sampleBroadcast_def)
  have crc: "FecCRC16 (frameBody sampleBroadcast) = 24247"
    by (simp add: FecCRC16_def crc_eval frameBody_def sampleFec_def sampleBroadcast_def FrameBoundary_def)
  show "FrameBoundary \<notin> set (fecInterior sampleBroadcast)"
    by (simp add: fecInterior_def crc loByte_def hiByte_def)
       (simp add: frameBody_def sampleFec_def sampleBroadcast_def FrameBoundary_def)
  show "ffTarget (fecView sampleBroadcast) = 0" by (simp add: sampleBroadcast_def)
qed

theorem fec_illegal_device_witness:
  "\<exists>s' s1. s1 = setSlaveUnit ((newFecSession (sampleFecOpen ''a''))\<lparr>fsSlaveUnits := []\<rparr>) (sampleUnit\<lparr>fuAddress := 100\<rparr>)
    \<and> fecSlaveRound s1 \<lparr>frdScript = [ReadChunk (fecWire sampleBroadcast)], frdStopped = False,
        frdWrites = \<lambda>_. Wrote 13 None\<rparr> = Some (s', Exited)
    \<and> fsLastError s' = Some (FFrame SourceInvalid)"
proof -
  let ?s1 = "setSlaveUnit ((newFecSession (sampleFecOpen ''a''))\<lparr>fsSlaveUnits := []\<rparr>) (sampleUnit\<lparr>fuAddress := 100\<rparr>)"
  let ?rd = "\<lparr>frdScript = [ReadChunk (fecWire sampleBroadcast)], frdStopped = False, frdWrites = \<lambda>_. Wrote 13 None\<rparr>"
  have "fsPort ?s1" by (simp add: setSlaveUnit_def Let_def new_units)
  from fecReadFrame_wire [OF sampleBroadcast_facts(1,2) this, of True "[]"]
  have r: "fecReadFrame True ?s1 [] (frdScript ?rd) = Some (?s1\<lparr>fsRxBytes := fsRxBytes ?s1 + int (length (fecWire sampleBroadcast))\<rparr>,
      Inr (fecWire sampleBroadcast, fecView sampleBroadcast))" by (simp only: fecRoundEnv.select_convs)
  show ?thesis
    using fec_illegal_device [OF _ _ _ _ _ refl r sampleBroadcast_facts(3)] by (simp add: sampleUnit_def) blast
qed

end
