(* ===== verification/ServiceFacts.thy ===== *)
theory ServiceFacts
  imports GraphControlFacts GraphInvariants MonitorFacts ModbusSessionFacts FecbusFacts
begin

text \<open>
  The service as a transition system: protocol sessions never share a port with each other or with a
  terminal, a monitor or a bridge. Terminals, monitors and bridges are not checked against each other.
\<close>

section \<open>Who holds which port\<close>

datatype port_user = Terminals | ModbusSessions | FecbusSessions | Monitors | Bridges

definition portRival :: "port_user \<Rightarrow> port_user \<Rightarrow> bool" where
  "portRival k j \<longleftrightarrow> k \<noteq> j \<and> (k \<in> {ModbusSessions, FecbusSessions} \<or> j \<in> {ModbusSessions, FecbusSessions})"

definition heldPorts :: "serialService \<Rightarrow> port_user \<Rightarrow> string set" where
  "heldPorts s k = (case k of
       Terminals \<Rightarrow> ran (handlePort (svManager s))
     | ModbusSessions \<Rightarrow> ran (portOf (svModbus s))
     | FecbusSessions \<Rightarrow> ran (fecPortOf (svFecbus s))
     | Monitors \<Rightarrow> {p. \<exists>a. monRunningAt (svMonitors s) a \<and> p \<in> monPortsAt (svMonitors s) a}
     | Bridges \<Rightarrow> {p. \<exists>b \<in> set (ListBridges (svVirtual s)). p = brPort1 b \<or> p = brPort2 b})"

interpretation ports: rival_users heldPorts portRival
  by unfold_locales (auto simp: portRival_def)

definition handles_open :: "portManager \<Rightarrow> bool" where
  "handles_open m \<longleftrightarrow> (\<forall>(i, h) \<in> set (pmHandles m). \<not> hdStopped h)"

definition service_wf :: "serialService \<Rightarrow> bool" where
  "service_wf s \<longleftrightarrow> portManager_wf (svManager s) \<and> handles_open (svManager s) \<and> manager_wf (svModbus s)
     \<and> fec_manager_wf (svFecbus s) \<and> mon_ok (svMonitors s)"

section \<open>Checks\<close>

lemma findOpenHandle_None:
  assumes "service_wf s" and "findOpenHandle s p = None" and "p \<noteq> []"
  shows "p \<notin> heldPorts s Terminals"
proof
  assume "p \<in> heldPorts s Terminals"
  then obtain i h where "(i, h) \<in> set (pmHandles (svManager s))" and h: "scPortName (hdConfig h) = p"
    by (auto simp: heldPorts_def ran_def handlePort_def dest: map_of_SomeD)
  moreover from this(1) assms(1) have "\<not> hdStopped h" by (auto simp: service_wf_def handles_open_def)
  ultimately have "\<exists>x \<in> set (managerList (svManager s)). hsIsOpen x \<and> scPortName (hsConfig x) = p"
    by (force simp: managerList_def handleStatusOf_def)
  with assms(2,3) show False by (auto simp: findOpenHandle_def find_None_iff)
qed

lemma modbus_free: "service_wf s \<Longrightarrow> PortInUseBy (svModbus s) p \<longleftrightarrow> p \<in> heldPorts s ModbusSessions"
  by (simp add: heldPorts_def service_wf_def PortInUseBy_def portInUse_iff)

lemma fecbus_free: "service_wf s \<Longrightarrow> fecPortInUse (svFecbus s) p \<longleftrightarrow> p \<in> heldPorts s FecbusSessions"
  by (simp add: heldPorts_def service_wf_def fecPortInUse_iff)

lemma monitor_free:
  assumes "service_wf s" and "p \<noteq> []" and "\<not> monitorPortInUse s p"
  shows "p \<notin> heldPorts s Monitors"
proof
  assume "p \<in> heldPorts s Monitors"
  then have "monPortInUse (svMonitors s) p" using assms(1) by (simp add: heldPorts_def service_wf_def monPortInUse_iff)
  then obtain i a where e: "(i, a) \<in> set (mgSessions (svMonitors s))"
    and a: "mnStatus (mgHeap (svMonitors s) ! a) = monRunning"
      "moPortA (mnReq (mgHeap (svMonitors s) ! a)) = p \<or> moPortB (mnReq (mgHeap (svMonitors s) ! a)) = p"
    by (auto simp: monPortInUse_def list_ex_iff)
  from e have "monInfo (mgHeap (svMonitors s) ! a) \<in> set (monList (svMonitors s))" by (force simp: monList_def)
  with a assms(2) have "monitorPortInUse s p" by (auto simp: monitorPortInUse_def list_ex_iff monInfo_def intro!: bexI)
  with assms(3) show False by simp
qed

lemma bridge_free: "p \<noteq> [] \<Longrightarrow> \<not> bridgePortInUse s p \<Longrightarrow> p \<notin> heldPorts s Bridges"
  by (auto simp: heldPorts_def bridgePortInUse_def list_ex_iff)

lemmas port_checks = findOpenHandle_None modbus_free fecbus_free monitor_free bridge_free

section \<open>What each part takes\<close>

text \<open>Parts that stay as they are\<close>

lemma held_update [simp]:
  "heldPorts (s\<lparr>svBuffers := b\<rparr>) = heldPorts s" "heldPorts (s\<lparr>svAuto := t\<rparr>) = heldPorts s"
  "heldPorts (s\<lparr>svGraphs := g\<rparr>) = heldPorts s" "heldPorts (s\<lparr>svHeap := hs\<rparr>) = heldPorts s"
  by (simp_all add: heldPorts_def fun_eq_iff split: port_user.split)

lemma wf_update [simp]:
  "service_wf (s\<lparr>svBuffers := b\<rparr>) = service_wf s" "service_wf (s\<lparr>svAuto := t\<rparr>) = service_wf s"
  "service_wf (s\<lparr>svGraphs := g\<rparr>) = service_wf s" "service_wf (s\<lparr>svHeap := hs\<rparr>) = service_wf s"
  "service_wf (s\<lparr>svVirtual := v\<rparr>) = service_wf s"
  by (simp_all add: service_wf_def)

lemma held_onGraph [simp]: "heldPorts (onGraph a f s) = heldPorts s" "service_wf (onGraph a f s) = service_wf s"
  by (simp_all add: onGraph_def)

lemma held_error [simp]: "heldPorts (setNodeError a n e s) = heldPorts s" "service_wf (setNodeError a n e s) = service_wf s"
  by (simp_all add: setNodeError_def)

text \<open>An action on one part\<close>

lemma takes_manager:
  "ran (handlePort m) \<subseteq> ran (handlePort (svManager s)) \<union> N \<Longrightarrow> ports.takes Terminals N s (s\<lparr>svManager := m\<rparr>)"
  by (auto simp: ports.takes_def heldPorts_def split: port_user.split)

lemma takes_modbus:
  "ran (portOf m) \<subseteq> ran (portOf (svModbus s)) \<union> N \<Longrightarrow> ports.takes ModbusSessions N s (s\<lparr>svModbus := m\<rparr>)"
  by (auto simp: ports.takes_def heldPorts_def split: port_user.split)

lemma takes_fecbus:
  "ran (fecPortOf m) \<subseteq> ran (fecPortOf (svFecbus s)) \<union> N \<Longrightarrow> ports.takes FecbusSessions N s (s\<lparr>svFecbus := m\<rparr>)"
  by (auto simp: ports.takes_def heldPorts_def split: port_user.split)

lemma takes_monitors:
  "(\<And>p a. monRunningAt m a \<Longrightarrow> p \<in> monPortsAt m a \<Longrightarrow> p \<in> heldPorts s Monitors \<union> N) \<Longrightarrow> ports.takes Monitors N s (s\<lparr>svMonitors := m\<rparr>)"
  by (auto simp: ports.takes_def heldPorts_def split: port_user.split)

lemma bridge_entries: "b \<in> set (ListBridges v) \<longleftrightarrow> (\<exists>i. (i, b) \<in> set (vmBridges v))"
  by (force simp: ListBridges_def)

lemma takes_bridges:
  assumes "\<And>i b. (i, b) \<in> set (vmBridges v) \<Longrightarrow> (i, b) \<in> set (vmBridges (svVirtual s)) \<or> {brPort1 b, brPort2 b} \<subseteq> N"
  shows "ports.takes Bridges N s (s\<lparr>svVirtual := v\<rparr>)"
proof -
  have "heldPorts (s\<lparr>svVirtual := v\<rparr>) Bridges \<subseteq> heldPorts s Bridges \<union> N"
  proof
    fix p
    assume "p \<in> heldPorts (s\<lparr>svVirtual := v\<rparr>) Bridges"
    then obtain b i where b: "(i, b) \<in> set (vmBridges v)" "p = brPort1 b \<or> p = brPort2 b"
      by (auto simp: heldPorts_def bridge_entries)
    have "b \<in> set (ListBridges (svVirtual s))" if "(i, b) \<in> set (vmBridges (svVirtual s))"
      using that by (auto simp: bridge_entries)
    with assms [OF b(1)] b(2) show "p \<in> heldPorts s Bridges \<union> N" by (auto simp: heldPorts_def intro!: bexI [of _ b])
  qed
  then show ?thesis by (auto simp: ports.takes_def heldPorts_def split: port_user.split)
qed

lemma takes_open: "portManager_wf (svManager s) \<Longrightarrow> ports.takes Terminals {scPortName c} s (s\<lparr>svManager := fst (managerOpen ev (svManager s) c)\<rparr>)"
  using managerOpen_cases [of "svManager s" c ev] by (intro takes_manager) (auto simp: ran_def split: if_splits)

lemma handles_open_ops:
  assumes "handles_open m"
  shows "handles_open (fst (managerOpen ev m c))" and "handles_open (fst (managerClose m i))"
    and "handles_open (fst (managerWrite wev m i d))"
  using assms
  by (auto simp: handles_open_def managerOpen_def managerClose_def managerWrite_def withHandle_def newHandle_def table_put_def
      table_del_def Let_def dest!: map_of_SomeD split: option.splits writeEvent.splits)

lemma wf_open: "service_wf s \<Longrightarrow> service_wf (s\<lparr>svManager := fst (managerOpen ev (svManager s) c)\<rparr>)"
  using managerOpen_cases [of "svManager s" c ev] by (auto simp: service_wf_def handles_open_ops)

text \<open>Operations of a manager that open nothing\<close>

lemma ran_map_le: "f \<subseteq>\<^sub>m g \<Longrightarrow> ran f \<subseteq> ran g"
  by (auto simp: map_le_def ran_def) (metis domI)

lemma close_part:
  assumes "service_wf s"
  shows "service_wf (s\<lparr>svManager := fst (managerClose (svManager s) i)\<rparr>)"
    and "ports.takes Terminals {} s (s\<lparr>svManager := fst (managerClose (svManager s) i)\<rparr>)"
proof -
  let ?m = "fst (managerClose (svManager s) i)"
  have m: "?m = runManager (SClose i) (svManager s)" by (simp add: runManager_def)
  have "handlePort ?m \<subseteq>\<^sub>m handlePort (svManager s)"
    by (auto simp: managerClose_def handlePort_def map_le_def split: option.split)
  then show "ports.takes Terminals {} s (s\<lparr>svManager := ?m\<rparr>)" using ran_map_le by (intro takes_manager) blast
  show "service_wf (s\<lparr>svManager := ?m\<rparr>)" using assms manager_section [of "svManager s" "SClose i"]
    by (simp add: service_wf_def handles_open_ops m [symmetric])
qed

lemma write_ports:
  assumes "portManager_wf m"
  shows "portManager_wf (fst (managerWrite ev m i d)) \<and> handlePort (fst (managerWrite ev m i d)) = handlePort m"
proof (cases ev)
  case (Wrote n err)
  have "portManager_wf (fst (withHandle m i (\<lambda>h. if 0 < n then h\<lparr>hdTxBytes := hdTxBytes h + n\<rparr> else h)))
      \<and> handlePort (fst (withHandle m i (\<lambda>h. if 0 < n then h\<lparr>hdTxBytes := hdTxBytes h + n\<rparr> else h))) = handlePort m"
    by (rule withHandle_wf [OF assms]) simp
  with Wrote assms show ?thesis by (auto simp: managerWrite_def split: prod.splits option.splits)
qed

text \<open>Facade calls\<close>

definition part_ok :: "port_user \<Rightarrow> string set \<Rightarrow> serialService \<Rightarrow> serialService \<Rightarrow> bool" where
  "part_ok k N s s' \<longleftrightarrow> service_wf s' \<and> ports.takes k N s s' \<and> (\<forall>j. portRival k j \<longrightarrow> N \<inter> heldPorts s j = {})"

definition good_step :: "serialService \<Rightarrow> serialService \<Rightarrow> bool" where
  "good_step s s' \<longleftrightarrow> (service_wf s \<and> ports.apart s \<longrightarrow> service_wf s' \<and> ports.apart s')"

lemma part_good: "(service_wf s \<Longrightarrow> \<exists>k N. part_ok k N s s') \<Longrightarrow> good_step s s'"
  unfolding good_step_def part_ok_def by (metis ports.takes_apart)

lemma good_same: "heldPorts s' = heldPorts s \<Longrightarrow> (service_wf s \<Longrightarrow> service_wf s') \<Longrightarrow> good_step s s'"
  by (simp add: good_step_def ports.apart_def)

lemma good_refl: "good_step s s"
  by (simp add: good_step_def)

lemma good_trans: "good_step s t \<Longrightarrow> good_step t u \<Longrightarrow> good_step s u"
  by (simp add: good_step_def)

lemma rival_cases: "portRival k j \<longleftrightarrow> (case k of
     ModbusSessions \<Rightarrow> j \<noteq> ModbusSessions | FecbusSessions \<Rightarrow> j \<noteq> FecbusSessions
   | _ \<Rightarrow> j = ModbusSessions \<or> j = FecbusSessions)"
  by (cases k; cases j) (simp_all add: portRival_def)

lemma open_good:
  assumes "service_wf s \<Longrightarrow> scPortName c \<notin> heldPorts s ModbusSessions \<and> scPortName c \<notin> heldPorts s FecbusSessions"
  shows "good_step s (s\<lparr>svManager := fst (managerOpen ev (svManager s) c)\<rparr>)"
proof (rule part_good)
  assume wf: "service_wf s"
  then have "part_ok Terminals {scPortName c} s (s\<lparr>svManager := fst (managerOpen ev (svManager s) c)\<rparr>)"
    using assms wf_open takes_open by (auto simp: part_ok_def rival_cases service_wf_def)
  then show "\<exists>k N. part_ok k N s (s\<lparr>svManager := fst (managerOpen ev (svManager s) c)\<rparr>)" by blast
qed

lemma good_buffers: "good_step s (t\<lparr>svBuffers := b\<rparr>) = good_step s t" "good_step s (t\<lparr>svAuto := au\<rparr>) = good_step s t"
  "good_step s (t\<lparr>svGraphs := g\<rparr>) = good_step s t" "good_step s (t\<lparr>svHeap := h\<rparr>) = good_step s t"
  "good_step s (onGraph a f t) = good_step s t" "good_step s (setNodeError a n e t) = good_step s t"
  by (simp_all add: good_step_def ports.apart_def)

lemma OpenPort_good: "good_step s (fst (OpenPort ev c s))"
proof (cases "findOpenHandle s (scPortName c) = None \<and> \<not> PortInUseBy (svModbus s) (scPortName c)
    \<and> \<not> fecPortInUse (svFecbus s) (scPortName c)")
  case True
  obtain m r where m: "managerOpen ev (svManager s) c = (m, r)" by fastforce
  have "good_step s (s\<lparr>svManager := fst (managerOpen ev (svManager s) c)\<rparr>)"
    using True modbus_free fecbus_free by (intro open_good) blast
  then have "good_step s (s\<lparr>svManager := m\<rparr>)" by (simp add: m)
  with True m show ?thesis by (cases r) (simp_all add: OpenPort_def good_buffers)
qed (auto simp: OpenPort_def good_refl split: option.split)

lemma ClosePort_good: "good_step s (fst (ClosePort i s))"
proof -
  have "good_step s (s\<lparr>svManager := fst (managerClose (svManager s) i)\<rparr>)"
    using close_part [of s i] by (intro part_good exI [of _ Terminals] exI [of _ "{}"]) (simp add: part_ok_def)
  then show ?thesis by (auto simp: ClosePort_def good_buffers split: prod.split option.split)
qed

lemma writing_good:
  assumes "\<And>P. P (svManager s) \<Longrightarrow> (\<And>m ev h d. P m \<Longrightarrow> P (fst (managerWrite ev m h d))) \<Longrightarrow> P m'"
  shows "good_step s (s\<lparr>svManager := m'\<rparr>)"
proof -
  let ?P = "\<lambda>m. portManager_wf (svManager s) \<and> handles_open (svManager s) \<longrightarrow>
    portManager_wf m \<and> handles_open m \<and> handlePort m = handlePort (svManager s)"
  have "?P m'" by (rule assms) (auto simp: write_ports handles_open_ops)
  then show ?thesis
    by (intro part_good exI [of _ Terminals] exI [of _ "{}"]) (auto simp: part_ok_def service_wf_def intro!: takes_manager)
qed

lemma Send_good: "good_step s (fst (Send codecs ev i content mode enc s))"
proof -
  define x where "x = (if mode = ''hex'' then (case decodeHexContent content of None \<Rightarrow> Inl SvHex | Some d \<Rightarrow> Inr d)
    else map_sum SvText id (encodeSerialText codecs content enc))"
  have w: "good_step s (s\<lparr>svManager := fst (managerWrite ev (svManager s) i d)\<rparr>)" for d by (rule writing_good) blast
  show ?thesis
  proof (cases x)
    case (Inl e)
    then show ?thesis by (simp add: Send_def x_def [symmetric] good_refl)
  next
    case (Inr d)
    with w [of d] show ?thesis
      by (cases "managerWrite ev (svManager s) i d") (simp add: Send_def x_def [symmetric] good_refl split: option.split)
  qed
qed

section \<open>Monitors\<close>

lemma monitors_less:
  assumes "service_wf s" and "mon_less m (svMonitors s)"
  shows "part_ok Monitors {} s (s\<lparr>svMonitors := m\<rparr>)"
proof -
  note less = mon_lessD [OF assms(2)]
  have "monRunningAt m a \<Longrightarrow> monPortsAt m a = monPortsAt (svMonitors s) a" for a
    using less(2) [of a] less(3) [of a] by (simp add: monPortsAt_def monRunningAt_def)
  with less(3) have "ports.takes Monitors {} s (s\<lparr>svMonitors := m\<rparr>)"
    by (intro takes_monitors) (auto simp: heldPorts_def)
  moreover have "mon_ok m" using mon_less_ok [OF assms(2)] assms(1) by (simp add: service_wf_def)
  ultimately show ?thesis using assms(1) by (simp add: part_ok_def service_wf_def)
qed

lemma monitors_good: "(mon_ok (svMonitors s) \<Longrightarrow> mon_less m (svMonitors s)) \<Longrightarrow> good_step s (s\<lparr>svMonitors := m\<rparr>)"
  using monitors_less [of s m] by (intro part_good) (auto simp: service_wf_def)

text \<open>A session that starts holds its two ports.\<close>

lemma start_ports:
  assumes ok: "mon_ok m" and r: "monRunningAt (fst (monStart c oa ob req m)) a"
    and p: "p \<in> monPortsAt (fst (monStart c oa ob req m)) a"
  shows "(monRunningAt m a \<and> p \<in> monPortsAt m a) \<or> p \<in> {moPortA req, moPortB req}"
proof (cases "monInsert c req m")
  case (Pair m1 x)
  show ?thesis
  proof (cases x)
    case (Inl e)
    then have "m1 = m" using Pair by (auto simp: monInsert_def split: option.splits if_splits)
    with Pair Inl r p show ?thesis by (simp add: monStart_def)
  next
    case (Inr b)
    with Pair have heap: "mgHeap m1 = mgHeap m @ [newMonitorSession req]" and b: "b = length (mgHeap m)"
      by (auto simp: monInsert_def split: option.splits if_splits)
    obtain s err where s: "monOpenPorts oa ob (newMonitorSession req) = (s, err)" by fastforce
    have req: "mnReq s = mnReq (newMonitorSession req)" using open_fields(1) [of oa ob "newMonitorSession req"] s by simp
    have "mgHeap (fst (monStart c oa ob req m)) = mgHeap m @ [s]"
      using Pair Inr heap b s by (simp add: monStart_def monOpen_def nth_append Let_def split: option.split)
    with r p req show ?thesis
      by (auto simp: monRunningAt_def monPortsAt_def nth_append less_Suc_eq split: if_splits)
  qed
qed

lemma StartMonitor_good: "good_step s (fst (StartMonitor c oa ob req s))"
proof -
  let ?req = "req\<lparr>moEndpointA := monitorEndpoint s (moPortA req), moEndpointB := monitorEndpoint s (moPortB req)\<rparr>"
  obtain m r where m: "monStart c oa ob ?req (svMonitors s) = (m, r)" by fastforce
  show ?thesis
  proof (cases "PortInUseBy (svModbus s) (moPortA req) \<or> PortInUseBy (svModbus s) (moPortB req)
      \<or> fecPortInUse (svFecbus s) (moPortA req) \<or> fecPortInUse (svFecbus s) (moPortB req)")
    case False
    have "good_step s (s\<lparr>svMonitors := m\<rparr>)"
    proof (rule part_good)
      assume wf: "service_wf s"
      then have ok: "mon_ok (svMonitors s)" by (simp add: service_wf_def)
      have "mon_ok m" using start_ok [OF ok, of c oa ob ?req] m by simp
      moreover have "ports.takes Monitors {moPortA req, moPortB req} s (s\<lparr>svMonitors := m\<rparr>)"
        using start_ports [OF ok, of c oa ob ?req] m by (intro takes_monitors) (fastforce simp: heldPorts_def)
      moreover have "{moPortA req, moPortB req} \<inter> heldPorts s j = {}" if "portRival Monitors j" for j
        using that False modbus_free [OF wf] fecbus_free [OF wf] by (auto simp: rival_cases)
      ultimately have "part_ok Monitors {moPortA req, moPortB req} s (s\<lparr>svMonitors := m\<rparr>)"
        using wf by (simp add: part_ok_def service_wf_def)
      then show "\<exists>k N. part_ok k N s (s\<lparr>svMonitors := m\<rparr>)" by blast
    qed
    with False m show ?thesis by (simp add: StartMonitor_def good_refl)
  qed (auto simp: StartMonitor_def good_refl)
qed

section \<open>Virtual ports and bridges\<close>

lemma virtual_good:
  assumes "vmBridges v = vmBridges (svVirtual s)"
  shows "good_step s (s\<lparr>svVirtual := v\<rparr>)"
  using assms by (intro good_same) (auto simp: heldPorts_def ListBridges_def fun_eq_iff split: port_user.split)

lemma virtual_bridges:
  "vmBridges (fst (virtualCreatePort made i n v)) = vmBridges v" "vmBridges (fst (virtualCreatePair made i v)) = vmBridges v"
  "vmBridges (fst (virtualDeletePair out i v)) = vmBridges v"
  by (auto simp: virtualCreatePort_def virtualCreatePair_def virtualDeletePair_def
      split: sum.split option.split prod.split)

lemma virtual_ports_good:
  "good_step s (fst (CreateVirtualPort made i n s))" "good_step s (fst (CreateVirtualPair made i p1 p2 s))"
  "good_step s (fst (DeleteVirtualPair out i s))"
  using virtual_good [of _ s] virtual_bridges(1) [of made i n "svVirtual s"] virtual_bridges(2) [of made i "svVirtual s"]
    virtual_bridges(3) [of out i "svVirtual s"]
  by (auto simp: CreateVirtualPort_def CreateVirtualPair_def DeleteVirtualPair_def good_refl split: prod.split)

lemma CreateBridge_good: "good_step s (fst (CreateBridge o1 o2 i p1 p2 baud s))"
proof -
  let ?b = "if baud \<le> 0 then 115200 else baud"
  obtain v r where v: "virtualCreateBridge o1 o2 i p1 p2 ?b (svVirtual s) = (v, r)" by fastforce
  show ?thesis
  proof (cases "PortInUseBy (svModbus s) p1 \<or> PortInUseBy (svModbus s) p2 \<or> fecPortInUse (svFecbus s) p1
      \<or> fecPortInUse (svFecbus s) p2")
    case False
    have "good_step s (s\<lparr>svVirtual := v\<rparr>)"
    proof (rule part_good)
      assume wf: "service_wf s"
      have "ports.takes Bridges {p1, p2} s (s\<lparr>svVirtual := v\<rparr>)"
        using v by (intro takes_bridges) (auto simp: virtualCreateBridge_def bridgeStart_def NewBridgeWithEndpoints_def
            table_put_def table_del_def split: if_splits sum.splits option.splits)
      moreover have "{p1, p2} \<inter> heldPorts s j = {}" if "portRival Bridges j" for j
        using that False modbus_free [OF wf] fecbus_free [OF wf] by (auto simp: rival_cases)
      ultimately have "part_ok Bridges {p1, p2} s (s\<lparr>svVirtual := v\<rparr>)" using wf by (simp add: part_ok_def)
      then show "\<exists>k N. part_ok k N s (s\<lparr>svVirtual := v\<rparr>)" by blast
    qed
    with False v show ?thesis by (simp add: CreateBridge_def Let_def good_refl)
  qed (auto simp: CreateBridge_def Let_def good_refl)
qed

lemma DeleteBridge_good: "good_step s (fst (DeleteBridge i s))"
proof -
  let ?v = "fst (virtualDeleteBridge i (svVirtual s))"
  have "ports.takes Bridges {} s (s\<lparr>svVirtual := ?v\<rparr>)"
    by (intro takes_bridges) (auto simp: virtualDeleteBridge_def table_del_def split: option.splits)
  then have "good_step s (s\<lparr>svVirtual := ?v\<rparr>)"
    by (intro part_good exI [of _ Bridges] exI [of _ "{}"]) (simp add: part_ok_def)
  then show ?thesis by (simp add: DeleteBridge_def good_refl split: prod.split) (metis fst_conv)
qed

section \<open>Automatic monitors\<close>

lemma StartAuto_good: "good_step s (fst (StartAutoVirtualMonitor made out c oa ob st1 st2 req s))"
proof -
  obtain s1 r1 where v: "CreateVirtualPort made (autoVirtualPortID st1 (moID req))
      (autoVirtualPortName st2 (moPortA req) (moID req)) s = (s1, r1)" by fastforce
  with virtual_ports_good(1) have g1: "good_step s s1" by (metis fst_conv)
  have g2: "good_step s (fst (StartMonitor c oa ob r s1))" for r by (rule good_trans [OF g1 StartMonitor_good])
  then have g3: "good_step s (fst (DeleteVirtualPair out i (fst (StartMonitor c oa ob r s1))))" for r i
    by (rule good_trans) (rule virtual_ports_good)
  show ?thesis
  proof (cases r1)
    case (Inr pair)
    obtain s2 r2 where m: "StartMonitor c oa ob (providerRequest req pair) s1 = (s2, r2)" by fastforce
    with g2 [of "providerRequest req pair"] g3 [of _ "providerRequest req pair"] v Inr show ?thesis
      by (simp add: StartAutoVirtualMonitor_def good_refl good_buffers split: sum.split)
  qed (use v g1 in \<open>simp add: StartAutoVirtualMonitor_def good_refl\<close>)
qed

lemma cleanupAuto_good: "good_step s (fst (cleanupAutoMonitorVirtual out i s))"
proof -
  obtain v where v: "map_of (svAuto s) i = v" by blast
  show ?thesis
  proof (cases v)
    case (Some a)
    with v virtual_ports_good(3) [of s out a] show ?thesis
      by (cases "DeleteVirtualPair out a s") (simp add: cleanupAutoMonitorVirtual_def good_refl good_buffers)
  qed (use v in \<open>simp add: cleanupAutoMonitorVirtual_def good_refl\<close>)
qed

lemma end_monitor_good: "good_step s (fst (StopMonitor out i s))" "good_step s (fst (DeleteMonitor out i s))"
proof -
  have "good_step s (s\<lparr>svMonitors := fst (monStopSession i (svMonitors s))\<rparr>)"
    by (intro monitors_good stop_less) (simp add: mon_ok_def)
  then show "good_step s (fst (StopMonitor out i s))"
    by (cases "monStopSession i (svMonitors s)")
      (auto simp: StopMonitor_def split: option.split intro: good_trans cleanupAuto_good)
  have "good_step s (s\<lparr>svMonitors := fst (monDelete i (svMonitors s))\<rparr>)" by (intro monitors_good delete_less)
  then show "good_step s (fst (DeleteMonitor out i s))"
    by (cases "monDelete i (svMonitors s)")
      (auto simp: DeleteMonitor_def split: option.split intro: good_trans cleanupAuto_good)
qed

section \<open>Protocol sessions\<close>

text \<open>The sections of a manager, and an opening as the last of them\<close>

lemma modbus_section_good:
  assumes "\<forall>req. op \<noteq> CommitOpen req"
  shows "good_step s (s\<lparr>svModbus := runSection op (svModbus s)\<rparr>)"
proof (rule part_good)
  assume wf: "service_wf s"
  then have "manager_wf (runSection op (svModbus s))" "portOf (runSection op (svModbus s)) \<subseteq>\<^sub>m portOf (svModbus s)"
    using section_gives [OF _ assms] by (simp_all add: service_wf_def)
  with wf have "part_ok ModbusSessions {} s (s\<lparr>svModbus := runSection op (svModbus s)\<rparr>)"
    using takes_modbus [of "runSection op (svModbus s)" s "{}"] ran_map_le by (fastforce simp: part_ok_def service_wf_def)
  then show "\<exists>k N. part_ok k N s (s\<lparr>svModbus := runSection op (svModbus s)\<rparr>)" by blast
qed

lemma modbus_open_effect:
  assumes wf: "manager_wf m" and r: "OpenSession ctx opened m req = (m', x)"
  shows "manager_wf m' \<and> ran (portOf m') \<subseteq> ran (portOf m) \<union> {scPortName (orConfig req)}"
proof -
  obtain m1 q where f: "fillOpenRequest m req = (m1, q)" by fastforce
  have m1: "manager_wf m1 \<and> portOf m1 = portOf m" and q: "scPortName (orConfig q) = scPortName (orConfig req)"
    using f wf by (auto simp: fillOpenRequest_def Let_def manager_wf_def portOf_def fun_eq_iff split: if_splits)
  consider "m' = m" | "m' = m1" | "m' = fst (openCommit m1 q)"
    using r f by (auto simp: OpenSession_def Let_def split: option.splits if_splits)
  then show ?thesis
  proof cases
    case 3
    then have "m' = runSection (CommitOpen q) m1" by (simp add: runSection_def)
    then have "manager_wf m'" using section_cases [of m1 "CommitOpen q"] m1 by simp
    moreover have "ran (portOf m') \<subseteq> ran (portOf m1) \<union> {scPortName (orConfig q)}"
      by (auto simp: 3 openCommit_def portOf_def newSession_def ran_def split: option.splits if_splits)
    ultimately show ?thesis using m1 q by simp
  qed (use wf m1 in auto)
qed

lemma OpenModbus_good: "good_step s (fst (OpenModbusSession ctx opened req s))"
proof -
  let ?p = "scPortName (orConfig req)"
  let ?req = "req\<lparr>orEndpoint := monitorEndpoint s ?p\<rparr>"
  obtain m x where m: "OpenSession ctx opened (svModbus s) ?req = (m, x)" by fastforce
  show ?thesis
  proof (cases "?p = [] \<or> findOpenHandle s ?p \<noteq> None \<or> monitorPortInUse s ?p \<or> fecPortInUse (svFecbus s) ?p \<or> bridgePortInUse s ?p")
    case False
    have "good_step s (s\<lparr>svModbus := m\<rparr>)"
    proof (rule part_good)
      assume wf: "service_wf s"
      then have e: "manager_wf m" "ran (portOf m) \<subseteq> ran (portOf (svModbus s)) \<union> {?p}"
        using modbus_open_effect [OF _ m] by (simp_all add: service_wf_def)
      have "?p \<notin> heldPorts s j" if "portRival ModbusSessions j" for j
        using that False findOpenHandle_None [OF wf] fecbus_free [OF wf] monitor_free [OF wf] bridge_free
        by (cases j) (simp_all add: rival_cases)
      then have "part_ok ModbusSessions {?p} s (s\<lparr>svModbus := m\<rparr>)"
        using wf e takes_modbus [OF e(2)] by (simp add: part_ok_def service_wf_def)
      then show "\<exists>k N. part_ok k N s (s\<lparr>svModbus := m\<rparr>)" by blast
    qed
    with False m show ?thesis by (simp add: OpenModbusSession_def Let_def)
  qed (auto simp: OpenModbusSession_def Let_def good_refl)
qed

lemma fecbus_section_good:
  assumes "\<forall>req. op \<noteq> FCommitOpen req"
  shows "good_step s (s\<lparr>svFecbus := fecRunSection op (svFecbus s)\<rparr>)"
proof (rule part_good)
  assume wf: "service_wf s"
  then have "fec_manager_wf (fecRunSection op (svFecbus s))" "fecPortOf (fecRunSection op (svFecbus s)) \<subseteq>\<^sub>m fecPortOf (svFecbus s)"
    using fec_section_gives [OF _ assms] by (simp_all add: service_wf_def)
  with wf have "part_ok FecbusSessions {} s (s\<lparr>svFecbus := fecRunSection op (svFecbus s)\<rparr>)"
    using takes_fecbus [of "fecRunSection op (svFecbus s)" s "{}"] ran_map_le by (fastforce simp: part_ok_def service_wf_def)
  then show "\<exists>k N. part_ok k N s (s\<lparr>svFecbus := fecRunSection op (svFecbus s)\<rparr>)" by blast
qed

lemma fecbus_open_effect:
  assumes wf: "fec_manager_wf m" and r: "FecOpenSession ctx opened m req = (m', x)"
  shows "fec_manager_wf m' \<and> ran (fecPortOf m') \<subseteq> ran (fecPortOf m) \<union> {scPortName (foConfig req)}"
proof -
  obtain m1 q where f: "fillFecRequest m req = (m1, q)" by fastforce
  have m1: "fec_manager_wf m1 \<and> fecPortOf m1 = fecPortOf m" and q: "scPortName (foConfig q) = scPortName (foConfig req)"
    using f wf by (auto simp: fillFecRequest_def Let_def fec_manager_wf_def fecPortOf_def fun_eq_iff split: if_splits)
  consider "m' = m" | "m' = m1" | "m' = fst (fecOpenCommit m1 q)"
    using r f by (auto simp: FecOpenSession_def Let_def split: option.splits if_splits)
  then show ?thesis
  proof cases
    case 3
    then have "m' = fecRunSection (FCommitOpen q) m1" by (simp add: fecRunSection_def)
    then have "fec_manager_wf m'" using fec_section_cases [of m1 "FCommitOpen q"] m1 by simp
    moreover have "ran (fecPortOf m') \<subseteq> ran (fecPortOf m1) \<union> {scPortName (foConfig q)}"
      by (auto simp: 3 fecOpenCommit_def fecPortOf_def newFecSession_def ran_def split: option.splits if_splits)
    ultimately show ?thesis using m1 q by simp
  qed (use wf m1 in auto)
qed

lemma OpenFecbus_good: "good_step s (fst (OpenFecbusSession ctx opened req s))"
proof -
  let ?p = "scPortName (foConfig req)"
  let ?req = "req\<lparr>foEndpoint := monitorEndpoint s ?p\<rparr>"
  obtain m x where m: "FecOpenSession ctx opened (svFecbus s) ?req = (m, x)" by fastforce
  show ?thesis
  proof (cases "?p = [] \<or> findOpenHandle s ?p \<noteq> None \<or> monitorPortInUse s ?p \<or> PortInUseBy (svModbus s) ?p \<or> bridgePortInUse s ?p")
    case False
    have "good_step s (s\<lparr>svFecbus := m\<rparr>)"
    proof (rule part_good)
      assume wf: "service_wf s"
      then have e: "fec_manager_wf m" "ran (fecPortOf m) \<subseteq> ran (fecPortOf (svFecbus s)) \<union> {?p}"
        using fecbus_open_effect [OF _ m] by (simp_all add: service_wf_def)
      have "?p \<notin> heldPorts s j" if "portRival FecbusSessions j" for j
        using that False findOpenHandle_None [OF wf] modbus_free [OF wf] monitor_free [OF wf] bridge_free
        by (cases j) (simp_all add: rival_cases)
      then have "part_ok FecbusSessions {?p} s (s\<lparr>svFecbus := m\<rparr>)"
        using wf e takes_fecbus [OF e(2)] by (simp add: part_ok_def service_wf_def)
      then show "\<exists>k N. part_ok k N s (s\<lparr>svFecbus := m\<rparr>)" by blast
    qed
    with False m show ?thesis by (simp add: OpenFecbusSession_def Let_def)
  qed (auto simp: OpenFecbusSession_def Let_def good_refl)
qed


lemma close_session_good:
  "good_step s (fst (CloseModbusSession timely closed i s))" "good_step s (fst (CloseFecbusSession timely closed i s))"
proof -
  have "fst (CloseSession timely closed (svModbus s) i) = runSection (DropSession i) (svModbus s)"
    by (simp add: CloseSession_def runSection_def split: option.split)
  with modbus_section_good [of "DropSession i" s] show "good_step s (fst (CloseModbusSession timely closed i s))"
    by (cases "CloseSession timely closed (svModbus s) i") (simp add: CloseModbusSession_def)
  have "fst (FecCloseSession timely closed (svFecbus s) i) = fecRunSection (FDropSession i) (svFecbus s)"
    by (simp add: FecCloseSession_def fecRunSection_def split: option.split)
  with fecbus_section_good [of "FDropSession i" s] show "good_step s (fst (CloseFecbusSession timely closed i s))"
    by (cases "FecCloseSession timely closed (svFecbus s) i") (simp add: CloseFecbusSession_def)
qed

section \<open>Graphs\<close>

lemma available_free:
  assumes "service_wf s" and "ensureGraphPortAvailable s p = None"
  shows "p \<notin> heldPorts s ModbusSessions \<and> p \<notin> heldPorts s FecbusSessions"
  using assms modbus_free [OF assms(1)] fecbus_free [OF assms(1)]
  by (auto simp: ensureGraphPortAvailable_def split: if_splits)

lemma startPhysical_good: "good_step s (fst (startPhysicalNode env a node s))"
proof -
  let ?c = "graphSerialConfig (nsConfig (gnSpec node))"
  obtain m r where m: "managerOpen (stOpen env (nsID (gnSpec node))) (svManager s) ?c = (m, r)" by fastforce
  have p: "scPortName ?c = graphStringConfig (nsConfig (gnSpec node)) ''portName''" by (simp add: graphSerialConfig_def)
  have "good_step s (s\<lparr>svManager := m\<rparr>)" if "ensureGraphPortAvailable s (scPortName ?c) = None"
    using open_good [of s ?c "stOpen env (nsID (gnSpec node))"] available_free [of s "scPortName ?c"] that by (simp add: m)
  with m p show ?thesis
    by (simp add: startPhysicalNode_def Let_def good_refl good_buffers split: option.split sum.split)
qed

text \<open>A virtual node opens an end point that the back end names, which no check covers.\<close>

definition starts_virtual :: "serialService \<Rightarrow> nat \<Rightarrow> string \<Rightarrow> bool" where
  "starts_virtual s a i \<longleftrightarrow> (\<exists>n. map_of (grNodes (graphAt s a)) i = Some n \<and> nsType (gnSpec n) = ''serial.virtual'')"

lemma startNode_good: "\<not> starts_virtual s a i \<Longrightarrow> good_step s (fst (startNode env a i s))"
  by (auto simp: startNode_def starts_virtual_def startPhysical_good startRemoteNode_def Let_def good_refl good_buffers
      split: option.split sum.split)

lemma startAuto_good: "good_step s (fst (startAutoSenders env a s))"
  by (auto simp: startAutoSenders_def Let_def good_refl good_buffers split: sum.split)

lemma good_foldl: "(\<And>t i. good_step t (f t i)) \<Longrightarrow> good_step s t \<Longrightarrow> good_step s (foldl f t is)"
proof (induction "is" arbitrary: t)
  case (Cons i "is")
  have "good_step s (f t i)" by (rule good_trans [OF Cons.prems(2) Cons.prems(1)])
  with Cons show ?case by simp
qed simp

lemma graphStop_good: "good_step s (graphStop env a s)"
proof -
  have "good_step s (onGraph a graphStopped s)" by (simp add: good_buffers good_refl)
  then show ?thesis
    by (simp add: graphStop_def Let_def good_refl) (intro impI good_foldl ClosePort_good virtual_ports_good)
qed

lemma stopGraph_good: "good_step s (fst (StopSerialGraph env i s))"
proof -
  have "good_step s (graphStop env a (s\<lparr>svGraphs := t\<rparr>))" for a t
    by (rule good_trans [OF _ graphStop_good]) (simp add: good_buffers good_refl)
  then show ?thesis by (auto simp: StopSerialGraph_def good_refl split: option.split)
qed

lemma graph_table_good: "good_step s (fst (graphInsert lower ctx req s))" "good_step s (graphRemove i a s)"
  by (auto simp: graphInsert_def graphRemove_def Let_def good_refl good_buffers split: option.split)

text \<open>What a running graph does to the port manager is to write.\<close>

lemma writes_only:
  assumes "\<And>P. (\<And>m ev h d. P m \<Longrightarrow> P (fst (managerWrite ev m h d))) \<Longrightarrow> P (svManager s) \<Longrightarrow> P (gwManager w)"
  shows "good_step s (putGraph a w s)"
proof -
  have "good_step s (s\<lparr>svManager := gwManager w\<rparr>)"
  proof (rule writing_good)
    fix P
    assume "P (svManager s)" and "\<And>m ev h d. P m \<Longrightarrow> P (fst (managerWrite ev m h d))"
    then show "P (gwManager w)" using assms [of P] by blast
  qed
  then show ?thesis by (simp add: putGraph_def good_buffers)
qed

lemma view_manager [simp]: "gwManager (graphView s a) = svManager s"
  by (simp add: graphView_def)

lemma send_graph_good:
  assumes r: "SendSerialGraphNode env g req s = Some (s', x)"
  shows "good_step s s'"
proof (cases "gsNodeID req = []")
  case False
  show ?thesis
  proof (cases "serialGraphRuntime s g")
    case (Inr a)
    with False r obtain w y where w: "sendRequest env req (graphView s a) = Some (w, y)" and s': "s' = putGraph a w s"
      by (auto simp: SendSerialGraphNode_def)
    show ?thesis unfolding s'
    proof (rule writes_only)
      fix P
      assume P: "\<And>m ev h d. P m \<Longrightarrow> P (fst (managerWrite ev m h d))" "P (svManager s)"
      have mi: "manager_invariant P" by (rule manager_invariant.intro) (rule P(1))
      have "P (gwManager (graphView s a))" by (subst view_manager) (rule P(2))
      with manager_invariant.request_writes [OF mi w] show "P (gwManager w)" .
    qed
  qed (use r False in \<open>simp add: SendSerialGraphNode_def good_refl\<close>)
qed (use r in \<open>simp add: SendSerialGraphNode_def good_refl\<close>)

lemma data_graph_good: "dataReceived env evt (graphView s a) = Some w \<Longrightarrow> good_step s (putGraph a w s)"
proof (rule writes_only)
  fix P
  assume w: "dataReceived env evt (graphView s a) = Some w"
    and P: "\<And>m ev h d. P m \<Longrightarrow> P (fst (managerWrite ev m h d))" "P (svManager s)"
  have mi: "manager_invariant P" by (rule manager_invariant.intro) (rule P(1))
  have "P (gwManager (graphView s a))" by (subst view_manager) (rule P(2))
  with manager_invariant.received_writes [OF mi w] show "P (gwManager w)" .
qed

section \<open>The service as a transition system\<close>

text \<open>
  The calls that open or close something, each run to its end, the steps of a starting graph, between
  which other calls may run, and what runs on its own: received data, graph messages, forwarding
  monitors, and the sections in which the sessions of a manager start, stop and fail.
\<close>

inductive serviceStep :: "serialService \<Rightarrow> serialService \<Rightarrow> bool" where
  SvOpen: "serviceStep s (fst (OpenPort ev c s))"
| SvClose: "serviceStep s (fst (ClosePort i s))"
| SvSend: "serviceStep s (fst (Send codecs wev i content mode enc s))"
| SvData: "serviceStep s (serviceData evt s)"
| SvMonitor: "serviceStep s (fst (StartMonitor cancelled openA openB mreq s))"
| SvAuto: "serviceStep s (fst (StartAutoVirtualMonitor made out cancelled openA openB st1 st2 mreq s))"
| SvStopMonitor: "serviceStep s (fst (StopMonitor out i s))"
| SvDeleteMonitor: "serviceStep s (fst (DeleteMonitor out i s))"
| SvForward: "serviceStep s (s\<lparr>svMonitors := monUpdate a (\<lambda>x. fst (forwardTurn lower dir p fev x)) (svMonitors s)\<rparr>)"
| SvModbus: "serviceStep s (fst (OpenModbusSession ctx ev req s))"
| SvModbusEnd: "serviceStep s (fst (CloseModbusSession timely closed i s))"
| SvModbusSection: "\<forall>r. op \<noteq> CommitOpen r \<Longrightarrow> serviceStep s (s\<lparr>svModbus := runSection op (svModbus s)\<rparr>)"
| SvFecbus: "serviceStep s (fst (OpenFecbusSession ctx ev freq s))"
| SvFecbusEnd: "serviceStep s (fst (CloseFecbusSession timely closed i s))"
| SvFecbusSection: "\<forall>r. fop \<noteq> FCommitOpen r \<Longrightarrow> serviceStep s (s\<lparr>svFecbus := fecRunSection fop (svFecbus s)\<rparr>)"
| SvVirtualPort: "serviceStep s (fst (CreateVirtualPort made i p s))"
| SvPair: "serviceStep s (fst (CreateVirtualPair made i p q s))"
| SvUnpair: "serviceStep s (fst (DeleteVirtualPair out i s))"
| SvBridge: "serviceStep s (fst (CreateBridge openA openB i p q baud s))"
| SvUnbridge: "serviceStep s (fst (DeleteBridge i s))"
| SvInsertGraph: "serviceStep s (fst (graphInsert lower ctx greq s))"
| SvInGraph: "serviceStep s (onGraph a f s)"
| SvStartNode: "\<not> starts_virtual s a i \<Longrightarrow> serviceStep s (fst (startNode env a i s))"
| SvAutoSenders: "serviceStep s (fst (startAutoSenders env a s))"
| SvRemoveGraph: "serviceStep s (graphRemove i a s)"
| SvStopGraph: "serviceStep s (graphStop env a s)"
| SvStopSerialGraph: "serviceStep s (fst (StopSerialGraph env i s))"
| SvGraphSend: "SendSerialGraphNode genv g sreq s = Some (s', r) \<Longrightarrow> serviceStep s s'"
| SvGraphData: "dataReceived genv evt (graphView s a) = Some w \<Longrightarrow> serviceStep s (putGraph a w s)"

text \<open>What is reached from the new service\<close>

inductive serviceReach :: "serialService \<Rightarrow> bool" where
  sv_start: "serviceReach NewService"
| sv_step: "serviceReach s \<Longrightarrow> serviceStep s s' \<Longrightarrow> serviceReach s'"

lemma serviceData_good: "good_step s (serviceData evt s)"
  by (simp add: serviceData_def good_buffers good_refl split: option.split)

lemma forward_good: "good_step s (s\<lparr>svMonitors := monUpdate a (\<lambda>x. fst (forwardTurn lower dir p fev x)) (svMonitors s)\<rparr>)"
  by (intro monitors_good update_less quiet_ops) (simp add: mon_ok_def)

lemma step_good: "serviceStep s s' \<Longrightarrow> good_step s s'"
  by (induction rule: serviceStep.induct)
    (simp_all add: OpenPort_good ClosePort_good Send_good serviceData_good StartMonitor_good StartAuto_good end_monitor_good
      forward_good OpenModbus_good close_session_good modbus_section_good OpenFecbus_good fecbus_section_good
      virtual_ports_good CreateBridge_good DeleteBridge_good graph_table_good good_buffers good_refl startNode_good
      startAuto_good graphStop_good stopGraph_good send_graph_good data_graph_good)

lemma new_service: "service_wf NewService \<and> ports.apart NewService"
  by (simp add: service_wf_def ports.apart_def NewService_def new_portManager handles_open_def manager_wf_def fec_manager_wf_def
      mon_ok_def portManager_wf_def monRunningAt_def NewMonitorManager_def NewModbusManager_def NewFecManager_def NewPortManager_def
      NewVirtualManager_def heldPorts_def handlePort_def portOf_def fecPortOf_def ListBridges_def ran_def split: port_user.split)

lemma reach_good: "serviceReach s \<Longrightarrow> service_wf s \<and> ports.apart s"
  by (induction rule: serviceReach.induct) (use new_service step_good in \<open>auto simp: good_step_def\<close>)

section \<open>Property\<close>


definition comConfig :: "string \<Rightarrow> serialConfig" where
  "comConfig p = \<lparr>scPortName = p, scBaudRate = 9600, scDataBits = 8, scStopBits = ''1'', scParity = ''none'',
     scFlowMode = ''none'', scReadBufKB = 32\<rparr>"

definition busyService :: serialService where
  "busyService = fst (OpenPort None (comConfig ''COM1'') (fst (StartMonitor False None None (sampleMonitor ''m'' ''COM1'' ''COM2'')
     (fst (OpenModbusSession None None (sampleOpen ''a'') NewService)))))"

lemma busy_reached: "serviceReach busyService"
  unfolding busyService_def by (intro sv_step [OF _ SvOpen] sv_step [OF _ SvMonitor] sv_step [OF _ SvModbus] sv_start)

lemma busy_modbus: "portOf (svModbus busyService) ''a'' = Some ''COM3''"
  by code_simp


text \<open>Opening a terminal does not look at the monitors: a port that a monitor has open is opened again,
  if the driver allows it, although the reverse order is refused.\<close>

theorem terminal_joins_monitor:
  "monitorPortInUse busyService ''COM1'' \<and> findOpenHandle busyService ''COM1'' \<noteq> None
    \<and> snd (StartMonitor False None None (sampleMonitor ''m'' ''COM1'' ''COM2'') (fst (OpenPort None (comConfig ''COM1'') NewService)))
      = Inl (SvConflict ''monitor port already open in serial terminal'')"
  by (intro conjI; code_simp)

end
