(* ===== verification/ModuleRegistry.thy ===== *)
theory ModuleRegistry
  imports GoMaps "HOL-Library.Multiset"
begin

text \<open>
  The core of the application: its errors (\<open>internal/core/errors/errors.go\<close>), the registry of modules
  with the order of their dependencies and their lifecycle (\<open>internal/core/module/registry.go\<close>), and
  what the application does at its start and its shutdown (\<open>internal/core/app/app.go\<close>, lines 100 to
  130). A module is an implementation of an interface, so the outcome of its calls is the environment: a
  function of the calls made so far and the call itself. The calls are recorded in the order in which
  they are made. An operation that walks a Go map takes the order of the walk as an argument.
\<close>

section \<open>Errors\<close>

datatype goError =
    Opaque string
  | Wrapping string goError
  | CoreError (errCode: string) (errMessage: string) (errCause: "goError option") (errFields: "(string, string) table")

definition CodeInvalid :: string where "CodeInvalid = ''invalid''"
definition CodeNotFound :: string where "CodeNotFound = ''not_found''"
definition CodeConflict :: string where "CodeConflict = ''conflict''"
definition CodeModuleInit :: string where "CodeModuleInit = ''module_init''"
definition CodeModuleStart :: string where "CodeModuleStart = ''module_start''"
definition CodeModuleStop :: string where "CodeModuleStop = ''module_stop''"
definition CodeInternal :: string where "CodeInternal = ''internal''"

lemmas code_defs = CodeInvalid_def CodeNotFound_def CodeConflict_def CodeModuleInit_def CodeModuleStart_def
  CodeModuleStop_def CodeInternal_def

text \<open>An error with the text of the panic when code or message is missing.\<close>

definition errorsNew :: "string \<Rightarrow> string \<Rightarrow> string + goError" where
  "errorsNew code message =
     (if code = [] then Inl ''errors.New: code must not be empty''
      else if message = [] then Inl ''errors.New: message must not be empty''
      else Inr (CoreError code message None []))"

definition errorsWrap :: "string \<Rightarrow> string \<Rightarrow> goError option \<Rightarrow> string + goError" where
  "errorsWrap code message cause =
     (case cause of None \<Rightarrow> Inl ''errors.Wrap: cause must not be nil''
      | Some e \<Rightarrow>
          if code = [] then Inl ''errors.Wrap: code must not be empty''
          else if message = [] then Inl ''errors.Wrap: message must not be empty''
          else Inr (CoreError code message (Some e) []))"

fun errorText :: "goError \<Rightarrow> string" where
  "errorText (Opaque s) = s"
| "errorText (Wrapping s e) = s"
| "errorText (CoreError code message None fields) = code @ '': '' @ message"
| "errorText (CoreError code message (Some cause) fields) = code @ '': '' @ message @ '': '' @ errorText cause"

definition withField :: "string \<Rightarrow> string \<Rightarrow> goError \<Rightarrow> goError" where
  "withField key val e = (case e of
       CoreError code message cause fields \<Rightarrow> CoreError code message cause (table_put key val fields)
     | other \<Rightarrow> other)"

fun AsCode :: "goError option \<Rightarrow> string" where
  "AsCode None = CodeInternal"
| "AsCode (Some (CoreError code message cause fields)) = code"
| "AsCode (Some (Wrapping s e)) = AsCode (Some e)"
| "AsCode (Some (Opaque s)) = CodeInternal"

section \<open>Modules and their registration\<close>

record frontendView =
  fvID :: string
  fvTitle :: string
  fvComponent :: string

record frontendContribution =
  fcActivityIcon :: string
  fcActivityTitle :: string
  fcViews :: "frontendView list"

record moduleManifest =
  mfID :: string
  mfVersion :: string
  mfDependencies :: "string list"
  mfFrontend :: frontendContribution

record appModule =
  mdID :: string
  mdManifest :: moduleManifest
  mdServicesWrapped :: "string list"

record moduleContribution =
  mcModuleID :: string
  mcManifest :: moduleManifest

type_synonym registry = "(string, appModule) table"

definition Register :: "appModule \<Rightarrow> registry \<Rightarrow> registry \<times> goError option" where
  "Register m r =
     (let i = mdID m in
      if i = [] then (r, Some (CoreError CodeInvalid ''module ID must not be empty'' None []))
      else if map_of r i \<noteq> None then (r, Some (CoreError CodeConflict (''module already registered: '' @ i) None []))
      else (table_put i m r, None))"

definition dependencies :: "registry \<Rightarrow> string \<Rightarrow> string list" where
  "dependencies r i = (case map_of r i of None \<Rightarrow> [] | Some m \<Rightarrow> mfDependencies (mdManifest m))"

section \<open>The order of the dependencies\<close>

definition count_of :: "(string, int) table \<Rightarrow> string \<Rightarrow> int" where
  "count_of t k = (case map_of t k of None \<Rightarrow> 0 | Some v \<Rightarrow> v)"

type_synonym dependencyCount = "(string, int) table \<times> (string \<Rightarrow> string list)"

definition missingDependency :: "string \<Rightarrow> string \<Rightarrow> goError" where
  "missingDependency i dep = CoreError CodeNotFound (''module '' @ i @ '' depends on missing module '' @ dep) None []"

definition circularDependency :: goError where
  "circularDependency = CoreError CodeInvalid ''circular module dependency detected'' None []"

fun addDependencies :: "registry \<Rightarrow> string \<Rightarrow> string list \<Rightarrow> dependencyCount \<Rightarrow> goError + dependencyCount" where
  "addDependencies r i [] c = Inr c"
| "addDependencies r i (dep # deps) (indegree, dependents) =
     (if map_of r dep = None then Inl (missingDependency i dep)
      else addDependencies r i deps
        (table_put i (count_of indegree i + 1) indegree, dependents(dep := dependents dep @ [i])))"

fun countDependencies :: "registry \<Rightarrow> registry \<Rightarrow> dependencyCount \<Rightarrow> goError + dependencyCount" where
  "countDependencies r [] c = Inr c"
| "countDependencies r ((i, m) # rest) (indegree, dependents) =
     (case addDependencies r i (mfDependencies (mdManifest m)) (table_put i 0 indegree, dependents) of
        Inl e \<Rightarrow> Inl e
      | Inr c \<Rightarrow> countDependencies r rest c)"

text \<open>The inner loop over the dependents of a module that was taken from the queue.\<close>

fun releaseDependents :: "string list \<Rightarrow> (string, int) table \<Rightarrow> string list \<Rightarrow> (string, int) table \<times> string list" where
  "releaseDependents [] indegree queue = (indegree, queue)"
| "releaseDependents (dep # deps) indegree queue =
     (let n = count_of indegree dep - 1 in
      releaseDependents deps (table_put dep n indegree) (if n = 0 then queue @ [dep] else queue))"

definition waiting :: "(string, int) table \<Rightarrow> string set" where
  "waiting t = {k. 0 < count_of t k}"

lemma count_of_put [simp]: "count_of (table_put k v t) j = (if j = k then v else count_of t j)"
  by (simp add: count_of_def)

lemma finite_waiting [simp]: "finite (waiting t)"
proof (rule finite_subset)
  show "waiting t \<subseteq> dom (map_of t)"
    by (auto simp: waiting_def count_of_def split: option.splits)
qed (simp add: finite_dom_map_of)

lemma release_measure:
  "releaseDependents deps t q = (t', q') \<Longrightarrow> card (waiting t') + length q' \<le> card (waiting t) + length q"
proof (induction deps arbitrary: t q)
  case (Cons dep deps)
  define n where "n = count_of t dep - 1"
  define u where "u = table_put dep n t"
  have ih: "card (waiting t') + length q' \<le> card (waiting u) + length (if n = 0 then q @ [dep] else q)"
    using Cons.prems by (intro Cons.IH) (simp add: n_def u_def Let_def)
  have sub: "waiting u \<subseteq> waiting t"
    by (auto simp: waiting_def u_def n_def split: if_splits)
  show ?case
  proof (cases "n = 0")
    case True
    then have "dep \<in> waiting t - waiting u" by (simp add: waiting_def u_def n_def)
    with sub have "waiting u \<subset> waiting t" by auto
    then have "card (waiting u) < card (waiting t)" by (simp add: psubset_card_mono)
    with ih True show ?thesis by simp
  next
    case False
    have "card (waiting u) \<le> card (waiting t)" using sub by (simp add: card_mono)
    with ih False show ?thesis by simp
  qed
qed simp

function kahn :: "(string \<Rightarrow> string list) \<Rightarrow> (string, int) table \<Rightarrow> string list \<Rightarrow> string list \<Rightarrow> string list" where
  "kahn dependents indegree [] order = order"
| "kahn dependents indegree (i # queue) order =
     (case releaseDependents (dependents i) indegree queue of
        (indegree1, queue1) \<Rightarrow> kahn dependents indegree1 queue1 (order @ [i]))"
  by pat_completeness auto

termination
proof (relation "measure (\<lambda>(_, t, q, _). card (waiting t) + length q)", goal_cases)
  case (2 dependents indegree i queue order x y)
  with release_measure [of "dependents i" indegree queue x y] show ?case by simp
qed simp

text \<open>\<open>visit\<close> is the order in which the second loop walks the counters.\<close>

definition orderLocked :: "string list \<Rightarrow> registry \<Rightarrow> goError + string list" where
  "orderLocked visit r = (case countDependencies r r ([], \<lambda>_. []) of
       Inl e \<Rightarrow> Inl e
     | Inr (indegree, dependents) \<Rightarrow>
         (let order = kahn dependents indegree (filter (\<lambda>i. count_of indegree i = 0) visit) [] in
          if length order \<noteq> length r then Inl circularDependency else Inr order))"

section \<open>Lifecycle\<close>

datatype moduleCall = InitCall string | StartCall string | StopCall string | DisposeCall string

type_synonym moduleEnv = "moduleCall list \<Rightarrow> moduleCall \<Rightarrow> goError option"

fun initModules :: "moduleEnv \<Rightarrow> string list \<Rightarrow> string list \<Rightarrow> moduleCall list \<Rightarrow> moduleCall list \<times> goError option" where
  "initModules env [] initialised calls = (calls, None)"
| "initModules env (i # order) initialised calls =
     (case env calls (InitCall i) of
        Some err \<Rightarrow> (calls @ [InitCall i, DisposeCall i] @ map DisposeCall (rev initialised),
          Some (CoreError CodeModuleInit (''init module '' @ i) (Some err) []))
      | None \<Rightarrow> initModules env order (initialised @ [i]) (calls @ [InitCall i]))"

definition InitAll :: "moduleEnv \<Rightarrow> string list \<Rightarrow> registry \<Rightarrow> moduleCall list \<Rightarrow> moduleCall list \<times> goError option" where
  "InitAll env visit r calls = (case orderLocked visit r of
       Inl e \<Rightarrow> (calls, Some e)
     | Inr order \<Rightarrow> initModules env order [] calls)"

fun startModules :: "moduleEnv \<Rightarrow> string list \<Rightarrow> string list \<Rightarrow> moduleCall list \<Rightarrow> moduleCall list \<times> goError option" where
  "startModules env [] started calls = (calls, None)"
| "startModules env (i # order) started calls =
     (case env calls (StartCall i) of
        Some err \<Rightarrow> (calls @ [StartCall i] @ concat (map (\<lambda>j. [StopCall j, DisposeCall j]) (rev started)),
          Some (CoreError CodeModuleStart (''start module '' @ i) (Some err) []))
      | None \<Rightarrow> startModules env order (started @ [i]) (calls @ [StartCall i]))"

definition StartAll :: "moduleEnv \<Rightarrow> string list \<Rightarrow> registry \<Rightarrow> moduleCall list \<Rightarrow> moduleCall list \<times> goError option" where
  "StartAll env visit r calls = (case orderLocked visit r of
       Inl e \<Rightarrow> (calls, Some e)
     | Inr order \<Rightarrow> startModules env order [] calls)"

fun stopModules :: "moduleEnv \<Rightarrow> string list \<Rightarrow> goError option \<Rightarrow> moduleCall list \<Rightarrow> moduleCall list \<times> goError option" where
  "stopModules env [] firstErr calls = (calls, firstErr)"
| "stopModules env (i # order) firstErr calls =
     stopModules env order
       (case env calls (StopCall i) of
          None \<Rightarrow> firstErr
        | Some err \<Rightarrow> if firstErr = None then Some (CoreError CodeModuleStop (''stop module '' @ i) (Some err) [])
            else firstErr)
       (calls @ [StopCall i])"

definition StopAll :: "moduleEnv \<Rightarrow> string list \<Rightarrow> registry \<Rightarrow> moduleCall list \<Rightarrow> moduleCall list \<times> goError option" where
  "StopAll env visit r calls = (case orderLocked visit r of
       Inl e \<Rightarrow> (calls, Some e)
     | Inr order \<Rightarrow> stopModules env (rev order) None calls)"

definition DisposeAll :: "string list \<Rightarrow> registry \<Rightarrow> moduleCall list \<Rightarrow> moduleCall list" where
  "DisposeAll visit r calls = (case orderLocked visit r of
       Inl e \<Rightarrow> calls
     | Inr order \<Rightarrow> calls @ map DisposeCall (rev order))"

definition AllServicesWrapped :: "string list \<Rightarrow> registry \<Rightarrow> string list" where
  "AllServicesWrapped visit r = (case orderLocked visit r of
       Inl e \<Rightarrow> []
     | Inr order \<Rightarrow> concat (map (\<lambda>i. mdServicesWrapped (the (map_of r i))) order))"

definition FrontendContributions :: "string list \<Rightarrow> registry \<Rightarrow> moduleContribution list" where
  "FrontendContributions visit r = (case orderLocked visit r of
       Inl e \<Rightarrow> []
     | Inr order \<Rightarrow> map (\<lambda>i. \<lparr>mcModuleID = i, mcManifest = mdManifest (the (map_of r i))\<rparr>) order)"

section \<open>Start and shutdown of the application\<close>

datatype appEvent = AppError string | AppModules "moduleContribution list"

text \<open>The handler of ApplicationStarted. Every call of the registry walks its map anew.\<close>

definition applicationStarted :: "moduleEnv \<Rightarrow> string list \<Rightarrow> string list \<Rightarrow> string list \<Rightarrow> registry \<Rightarrow> moduleCall list \<Rightarrow>
    moduleCall list \<times> appEvent" where
  "applicationStarted env v1 v2 v3 r calls = (case InitAll env v1 r calls of
       (calls1, Some e) \<Rightarrow> (calls1, AppError (errorText e))
     | (calls1, None) \<Rightarrow> (case StartAll env v2 r calls1 of
           (calls2, Some e) \<Rightarrow> (calls2, AppError (errorText e))
         | (calls2, None) \<Rightarrow> (calls2, AppModules (FrontendContributions v3 r))))"

text \<open>The flag is the \<open>sync.Once\<close> of the shutdown.\<close>

definition shutdownRegistryOnce :: "moduleEnv \<Rightarrow> string list \<Rightarrow> string list \<Rightarrow> registry \<Rightarrow> bool \<times> moduleCall list \<Rightarrow>
    bool \<times> moduleCall list" where
  "shutdownRegistryOnce env v1 v2 r s = (case s of (spent, calls) \<Rightarrow>
     if spent then (spent, calls) else (True, DisposeAll v2 r (fst (StopAll env v1 r calls))))"

end
