(* ===== verification/ModuleFacts.thy ===== *)
theory ModuleFacts
  imports ModuleRegistry
begin

text \<open>
  Correctness of the module registry: an order is found exactly when every dependency is registered and
  no module depends on itself through others, it lists every module after its dependencies, and the
  lifecycle follows it in both directions, whatever the modules answer.
\<close>

section \<open>Specification of an order\<close>

text \<open>Every element comes after its dependencies.\<close>

definition dependencies_first :: "registry \<Rightarrow> string list \<Rightarrow> bool" where
  "dependencies_first r order \<longleftrightarrow> (\<forall>xs i ys. order = xs @ i # ys \<longrightarrow> set (dependencies r i) \<subseteq> set xs)"

definition depends :: "registry \<Rightarrow> (string \<times> string) set" where
  "depends r = {(dep, i). dep \<in> set (dependencies r i)}"

definition closed_registry :: "registry \<Rightarrow> bool" where
  "closed_registry r \<longleftrightarrow> (\<forall>i. set (dependencies r i) \<subseteq> dom (map_of r))"

lemma dependencies_first_snoc:
  "dependencies_first r (xs @ [i]) \<longleftrightarrow> dependencies_first r xs \<and> set (dependencies r i) \<subseteq> set xs"
proof
  assume a: "dependencies_first r (xs @ [i])"
  have "set (dependencies r j) \<subseteq> set us" if "xs = us @ j # vs" for us j vs
    using a that unfolding dependencies_first_def by (metis append.assoc append_Cons)
  moreover have "set (dependencies r i) \<subseteq> set xs" using a unfolding dependencies_first_def by blast
  ultimately show "dependencies_first r xs \<and> set (dependencies r i) \<subseteq> set xs"
    unfolding dependencies_first_def by blast
next
  assume a: "dependencies_first r xs \<and> set (dependencies r i) \<subseteq> set xs"
  have "set (dependencies r j) \<subseteq> set us" if e: "xs @ [i] = us @ j # vs" for us j vs
  proof (cases vs rule: rev_cases)
    case Nil
    with e a show ?thesis by simp
  next
    case (snoc ws w)
    with e have "xs = us @ j # ws" by (metis append_Cons append_assoc butlast_snoc)
    with a show ?thesis unfolding dependencies_first_def by blast
  qed
  then show "dependencies_first r (xs @ [i])" unfolding dependencies_first_def by blast
qed

lemma dependencies_first_Nil [simp]: "dependencies_first r []"
  by (simp add: dependencies_first_def)

text \<open>Such an order of all modules rules out cycles.\<close>

lemma order_acyclic:
  assumes first: "dependencies_first r order" and all: "\<And>i. dependencies r i \<noteq> [] \<Longrightarrow> i \<in> set order"
  shows "acyclic (depends r)"
proof -
  let ?pos = "\<lambda>i. length (takeWhile (\<lambda>j. j \<noteq> i) order)"
  have "depends r \<subseteq> measure ?pos"
  proof (clarsimp simp: depends_def)
    fix dep i assume dep: "dep \<in> set (dependencies r i)"
    then have "i \<in> set order" by (intro all) auto
    then obtain xs ys where o: "order = xs @ i # ys" "i \<notin> set xs" by (metis split_list_first)
    then have "?pos i = length xs" by (induction xs arbitrary: order) auto
    moreover have "dep \<in> set xs" using first dep o(1) unfolding dependencies_first_def by blast
    then have "?pos dep < length xs" unfolding o(1) by (induction xs) auto
    ultimately show "?pos dep < ?pos i" by simp
  qed
  then show ?thesis by (blast intro: wf_acyclic wf_subset)
qed

section \<open>Counting the dependencies\<close>

lemma add_ok:
  "set deps \<subseteq> dom (map_of r) \<Longrightarrow> \<exists>t' f'. addDependencies r i deps (t, f) = Inr (t', f')
     \<and> (\<forall>j. count_of t' j = count_of t j + (if j = i then int (length deps) else 0))
     \<and> (\<forall>d j. count_list (f' d) j = count_list (f d) j + (if j = i then count_list deps d else 0))"
proof (induction deps arbitrary: t f)
  case (Cons dep deps)
  from Cons.prems obtain m where m: "map_of r dep = Some m" "set deps \<subseteq> dom (map_of r)" by auto
  from Cons.IH [OF m(2), of "table_put i (count_of t i + 1) t" "f(dep := f dep @ [i])"] m(1) show ?case
    by (auto simp: fun_upd_def)
qed simp

lemma add_missing:
  "\<not> set deps \<subseteq> dom (map_of r) \<Longrightarrow>
     \<exists>dep \<in> set deps. map_of r dep = None \<and> addDependencies r i deps c = Inl (missingDependency i dep)"
proof (induction deps arbitrary: c)
  case (Cons dep deps)
  then show ?case by (cases c; cases "map_of r dep") (auto simp: domIff)
qed simp

definition deps_in :: "registry \<Rightarrow> string \<Rightarrow> string list" where
  "deps_in rest i = (case map_of rest i of None \<Rightarrow> [] | Some m \<Rightarrow> mfDependencies (mdManifest m))"

lemma count_ok:
  "table_ok rest \<Longrightarrow> (\<And>i. set (deps_in rest i) \<subseteq> dom (map_of r)) \<Longrightarrow>
   \<exists>t' f'. countDependencies r rest (t, f) = Inr (t', f')
     \<and> (\<forall>i. count_of t' i = (if map_of rest i = None then count_of t i else int (length (deps_in rest i))))
     \<and> (\<forall>d i. count_list (f' d) i = count_list (f d) i + count_list (deps_in rest i) d)"
proof (induction rest arbitrary: t f)
  case Nil
  then show ?case by (simp add: deps_in_def)
next
  case (Cons e rest)
  obtain i m where e: "e = (i, m)" by (cases e)
  let ?deps = "mfDependencies (mdManifest m)"
  from Cons.prems(1) e have ok: "table_ok rest" "map_of rest i = None"
    by (auto simp: table_ok_def map_of_eq_None_iff)
  have there: "set ?deps \<subseteq> dom (map_of r)" using Cons.prems(2) [of i] by (simp add: e deps_in_def)
  have rest: "set (deps_in rest j) \<subseteq> dom (map_of r)" for j
    using Cons.prems(2) [of j] ok(2) by (auto simp: e deps_in_def split: if_splits)
  from add_ok [OF there, of i "table_put i 0 t" f] obtain t1 f1 where
    1: "addDependencies r i ?deps (table_put i 0 t, f) = Inr (t1, f1)"
       "\<And>j. count_of t1 j = (if j = i then int (length ?deps) else count_of t j)"
       "\<And>d j. count_list (f1 d) j = count_list (f d) j + (if j = i then count_list ?deps d else 0)"
    by auto
  from Cons.IH [OF ok(1) rest, of t1 f1] obtain t2 f2 where
    2: "countDependencies r rest (t1, f1) = Inr (t2, f2)"
       "\<And>j. count_of t2 j = (if map_of rest j = None then count_of t1 j else int (length (deps_in rest j)))"
       "\<And>d j. count_list (f2 d) j = count_list (f1 d) j + count_list (deps_in rest j) d"
    by auto
  have "deps_in (e # rest) j = (if j = i then ?deps else deps_in rest j)" for j by (simp add: e deps_in_def)
  moreover have "deps_in rest i = []" using ok(2) by (simp add: deps_in_def)
  ultimately show ?case using ok(2) by (auto simp add: e 1 2)
qed

lemma count_missing:
  "i \<in> dom (map_of rest) \<Longrightarrow> table_ok rest \<Longrightarrow> \<not> set (deps_in rest i) \<subseteq> dom (map_of r) \<Longrightarrow>
   \<exists>j dep. dep \<in> set (deps_in rest j) \<and> map_of r dep = None \<and> countDependencies r rest c = Inl (missingDependency j dep)"
proof (induction rest arbitrary: c)
  case (Cons e rest)
  obtain k m where e: "e = (k, m)" by (cases e)
  obtain t f where c: "c = (t, f)" by (cases c)
  let ?deps = "mfDependencies (mdManifest m)"
  from Cons.prems(2) e have ok: "table_ok rest" "map_of rest k = None"
    by (auto simp: table_ok_def map_of_eq_None_iff)
  show ?case
  proof (cases "set ?deps \<subseteq> dom (map_of r)")
    case False
    from add_missing [OF this, of k "(table_put k 0 t, f)"] obtain dep where
      "dep \<in> set ?deps" "map_of r dep = None"
      "addDependencies r k ?deps (table_put k 0 t, f) = Inl (missingDependency k dep)" by blast
    then have "dep \<in> set (deps_in (e # rest) k) \<and> map_of r dep = None
        \<and> countDependencies r (e # rest) c = Inl (missingDependency k dep)"
      by (simp add: e c deps_in_def)
    then show ?thesis by blast
  next
    case True
    from add_ok [OF this, of k "table_put k 0 t" f] obtain c1 where
      1: "addDependencies r k ?deps (table_put k 0 t, f) = Inr c1" by auto
    from True Cons.prems have "i \<noteq> k" by (auto simp: e deps_in_def)
    then have "i \<in> dom (map_of rest)" "deps_in (e # rest) i = deps_in rest i"
      using Cons.prems(1) by (auto simp: e deps_in_def)
    with Cons.IH [OF _ ok(1), of c1] Cons.prems(3) obtain j dep where
      2: "dep \<in> set (deps_in rest j)" "map_of r dep = None" "countDependencies r rest c1 = Inl (missingDependency j dep)"
      by auto
    then have "j \<noteq> k" using ok(2) by (auto simp: deps_in_def)
    with 2 have "dep \<in> set (deps_in (e # rest) j)" by (simp add: e deps_in_def)
    with 1 2 show ?thesis by (auto simp: e c)
  qed
qed simp

lemma deps_in_self [simp]: "deps_in r = dependencies r"
  by (simp add: fun_eq_iff deps_in_def dependencies_def)

section \<open>The queue\<close>

lemma release_effect:
  "releaseDependents ds t q = (t', q') \<Longrightarrow> (\<And>j. int (count_list ds j) \<le> count_of t j) \<Longrightarrow> distinct q \<Longrightarrow>
   set ds \<inter> set q = {} \<Longrightarrow>
   (\<forall>j. count_of t' j = count_of t j - int (count_list ds j)) \<and> distinct q'
   \<and> set q' = set q \<union> {j \<in> set ds. count_of t j = int (count_list ds j)}"
proof (induction ds arbitrary: t q)
  case (Cons dep ds)
  define n where "n = count_of t dep - 1"
  let ?t = "table_put dep n t" and ?q = "if n = 0 then q @ [dep] else q"
  have counts: "int (count_list ds j) \<le> count_of ?t j" for j
    using Cons.prems(2) [of j] by (auto simp: n_def split: if_splits)
  have last: "dep \<notin> set ds" if "n = 0"
  proof -
    from counts [of dep] that have "count_list ds dep = 0" by simp
    then show ?thesis by (simp add: count_list_0_iff)
  qed
  have run: "releaseDependents ds ?t ?q = (t', q')" using Cons.prems(1) by (simp add: n_def Let_def)
  have "distinct ?q" "set ds \<inter> set ?q = {}" using Cons.prems(3,4) last by auto
  from Cons.IH [OF run counts this] have
    ih: "\<And>j. count_of t' j = count_of ?t j - int (count_list ds j)" "distinct q'"
      "set q' = set ?q \<union> {j \<in> set ds. count_of ?t j = int (count_list ds j)}" by auto
  have "x \<in> set ?q \<union> {j \<in> set ds. count_of ?t j = int (count_list ds j)}
      \<longleftrightarrow> x \<in> set q \<union> {j \<in> set (dep # ds). count_of t j = int (count_list (dep # ds) j)}" for x
  proof (cases "x = dep")
    case True
    have here: "dep \<in> set ds" if "n = int (count_list ds dep)" "n \<noteq> 0"
    proof (rule ccontr)
      assume "dep \<notin> set ds"
      then have "count_list ds dep = 0" by (simp add: count_list_0_iff)
      with that show False by simp
    qed
    have iff: "count_of t dep = int (count_list (dep # ds) dep) \<longleftrightarrow> n = int (count_list ds dep)" by (auto simp: n_def)
    show ?thesis
    proof (cases "n = 0")
      case True
      with last have "n = int (count_list ds dep)" by (simp add: count_list_0_iff)
      with iff have "count_of t dep = int (count_list (dep # ds) dep)" by blast
      with True \<open>x = dep\<close> show ?thesis by simp
    next
      case False
      have "x \<in> set ?q \<union> {j \<in> set ds. count_of ?t j = int (count_list ds j)}
          \<longleftrightarrow> dep \<in> set q \<or> n = int (count_list ds dep)"
        using False here \<open>x = dep\<close> by auto
      with iff \<open>x = dep\<close> show ?thesis by simp
    qed
  next
    case False
    then show ?thesis by simp
  qed
  then have "set ?q \<union> {j \<in> set ds. count_of ?t j = int (count_list ds j)}
      = set q \<union> {j \<in> set (dep # ds). count_of t j = int (count_list (dep # ds) j)}" by blast
  with ih show ?case by (simp add: n_def)
qed simp

text \<open>The state of the loop: what is done, what waits in the queue, and how many dependencies of every
  module are still missing.\<close>

definition kahn_inv :: "registry \<Rightarrow> (string, int) table \<Rightarrow> string list \<Rightarrow> string list \<Rightarrow> bool" where
  "kahn_inv r t q order \<longleftrightarrow> distinct (order @ q) \<and> set (order @ q) \<subseteq> dom (map_of r) \<and> dependencies_first r order
     \<and> (\<forall>i \<in> dom (map_of r). count_of t i = int (length (filter (\<lambda>d. d \<notin> set order) (dependencies r i)))
          \<and> (count_of t i = 0 \<longleftrightarrow> i \<in> set (order @ q)))"

lemma remaining_one_more:
  "i \<notin> set order \<Longrightarrow> length (filter (\<lambda>d. d \<notin> set (order @ [i])) ds) + count_list ds i
     = length (filter (\<lambda>d. d \<notin> set order) ds)"
  by (induction ds) auto

lemma kahn_step:
  assumes inv: "kahn_inv r t (i # q) order"
    and dependents: "\<And>d j. count_list (f d) j = count_list (dependencies r j) d"
    and rel: "releaseDependents (f i) t q = (t', q')"
    and none: "\<And>j. j \<notin> dom (map_of r) \<Longrightarrow> 0 \<le> count_of t j"
  shows "kahn_inv r t' q' (order @ [i]) \<and> (\<forall>j. j \<notin> dom (map_of r) \<longrightarrow> count_of t' j = count_of t j)"
proof -
  let ?D = "dom (map_of r)"
  let ?left = "\<lambda>order j. length (filter (\<lambda>d. d \<notin> set order) (dependencies r j))"
  from inv have I: "distinct (order @ i # q)" "set (order @ i # q) \<subseteq> ?D" "dependencies_first r order"
    "\<And>j. j \<in> ?D \<Longrightarrow> count_of t j = int (?left order j)"
    "\<And>j. j \<in> ?D \<Longrightarrow> count_of t j = 0 \<longleftrightarrow> j \<in> set (order @ i # q)"
    unfolding kahn_inv_def by blast+
  have out: "count_list (f i) j = 0" if "j \<notin> ?D" for j
    using that dependents [of i j] by (simp add: dependencies_def domIff)
  have split: "?left (order @ [i]) j + count_list (f i) j = ?left order j" for j
    using remaining_one_more [of i order] I(1) dependents [of i j] by auto
  have counts: "int (count_list (f i) j) \<le> count_of t j" for j
  proof (cases "j \<in> ?D")
    case True
    then show ?thesis using I(4) [OF True] split [of j] by simp
  qed (simp add: out none)
  have waits: "j \<in> ?D \<and> count_of t j \<noteq> 0" if "j \<in> set (f i)" for j
    using that out [of j] counts [of j] count_list_0_iff [of "f i" j] by (cases "j \<in> ?D") auto
  with I(5) I(2) have "set (f i) \<inter> set q = {}" by fastforce
  from release_effect [OF rel counts _ this] I(1) have
    R: "\<And>j. count_of t' j = count_of t j - int (count_list (f i) j)" "distinct q'"
      "set q' = set q \<union> {j \<in> set (f i). count_of t j = int (count_list (f i) j)}" by auto
  have new: "j \<in> set q' \<Longrightarrow> j \<in> ?D \<and> j \<notin> set order \<and> j \<noteq> i" for j
  proof (cases "j \<in> set q")
    case True
    with I(1,2) show ?thesis by auto
  next
    case False
    assume "j \<in> set q'"
    with False R(3) have "j \<in> set (f i)" by blast
    with waits have "j \<in> ?D" "count_of t j \<noteq> 0" by blast+
    with I(5) have "j \<notin> set (order @ i # q)" by blast
    with \<open>j \<in> ?D\<close> show ?thesis by simp
  qed
  have "i \<in> ?D" "count_of t i = 0" using I(2) I(5) [of i] by auto
  then have "set (dependencies r i) \<subseteq> set order" using I(4) [of i] by (auto simp: filter_empty_conv)
  then have first: "dependencies_first r (order @ [i])" using I(3) by (simp add: dependencies_first_snoc)
  have left: "count_of t' j = int (?left (order @ [i]) j)" if "j \<in> ?D" for j
    using R(1) [of j] I(4) [OF that] split [of j] by simp
  have zero: "count_of t' j = 0 \<longleftrightarrow> j \<in> set ((order @ [i]) @ q')" if "j \<in> ?D" for j
  proof (cases "j \<in> set (f i)")
    case True
    with waits have "count_of t j \<noteq> 0" by blast
    with I(5) [OF that] have "j \<notin> set (order @ i # q)" by blast
    with True R(3) have "j \<in> set ((order @ [i]) @ q') \<longleftrightarrow> count_of t j = int (count_list (f i) j)" by simp
    with R(1) [of j] show ?thesis by linarith
  next
    case False
    then have "count_list (f i) j = 0" by (simp add: count_list_0_iff)
    with R(1) [of j] have "count_of t' j = count_of t j" by simp
    moreover have "j \<in> set ((order @ [i]) @ q') \<longleftrightarrow> j \<in> set (order @ i # q)" using False R(3) by simp
    ultimately show ?thesis using I(5) [OF that] by (simp only:)
  qed
  have "distinct ((order @ [i]) @ q')" "set ((order @ [i]) @ q') \<subseteq> ?D"
    using I(1,2) R(2) new by auto
  with first left zero have "kahn_inv r t' q' (order @ [i])" unfolding kahn_inv_def by blast
  moreover have "count_of t' j = count_of t j" if "j \<notin> ?D" for j using R(1) [of j] out [OF that] by simp
  ultimately show ?thesis by blast
qed

lemma kahn_result:
  "kahn_inv r t q order \<Longrightarrow> (\<And>d j. count_list (f d) j = count_list (dependencies r j) d) \<Longrightarrow>
   (\<And>j. j \<notin> dom (map_of r) \<Longrightarrow> 0 \<le> count_of t j) \<Longrightarrow> \<exists>t'. kahn_inv r t' [] (kahn f t q order)"
proof (induction f t q order rule: kahn.induct)
  case (2 f t i q order)
  obtain t1 q1 where rel: "releaseDependents (f i) t q = (t1, q1)" by (cases "releaseDependents (f i) t q")
  from kahn_step [OF "2.prems"(1,2) rel "2.prems"(3)] have
    s: "kahn_inv r t1 q1 (order @ [i])" "\<And>j. j \<notin> dom (map_of r) \<Longrightarrow> count_of t1 j = count_of t j" by auto
  from "2.IH" [OF rel [symmetric] s(1) "2.prems"(2)] s(2) "2.prems"(3) show ?case by (simp add: rel)
qed auto

section \<open>The order of the modules\<close>

lemma dependencies_registered: "dependencies r i \<noteq> [] \<Longrightarrow> i \<in> dom (map_of r)"
  by (auto simp: dependencies_def split: option.splits)

lemma dependency_of_registered: "dep \<in> set (dependencies r i) \<Longrightarrow> i \<in> dom (map_of r)"
  by (cases "map_of r i") (auto simp: dependencies_def)

lemma finite_depends: "finite (depends r)"
proof (rule finite_subset)
  show "depends r \<subseteq> (\<Union>i \<in> dom (map_of r). set (dependencies r i) \<times> {i})"
    by (auto simp: depends_def simp del: not_None_eq dest: dependency_of_registered)
qed (simp add: finite_dom_map_of)

lemma order_cases:
  assumes ok: "table_ok r" and visit: "mset visit = mset (map fst r)"
  shows "(case orderLocked visit r of
     Inr order \<Rightarrow> closed_registry r \<and> acyclic (depends r) \<and> mset order = mset (map fst r) \<and> dependencies_first r order
   | Inl e \<Rightarrow> if closed_registry r then \<not> acyclic (depends r) \<and> e = circularDependency
       else \<exists>i. \<exists>dep \<in> set (dependencies r i). map_of r dep = None \<and> e = missingDependency i dep)"
proof (cases "closed_registry r")
  case False
  then obtain i where i: "\<not> set (dependencies r i) \<subseteq> dom (map_of r)" by (auto simp: closed_registry_def)
  then have "dependencies r i \<noteq> []" by auto
  then have "i \<in> dom (map_of r)" by (rule dependencies_registered)
  from count_missing [OF this ok, of r "([], \<lambda>_. [])"] i obtain j dep where
    "dep \<in> set (dependencies r j)" "map_of r dep = None"
    "countDependencies r r ([], \<lambda>_. []) = Inl (missingDependency j dep)" by auto
  with False show ?thesis by (auto simp: orderLocked_def)
next
  case True
  let ?D = "dom (map_of r)"
  from True have "set (deps_in r i) \<subseteq> ?D" for i by (simp add: closed_registry_def)
  from count_ok [OF ok this, of "[]" "\<lambda>_. []"] obtain t f where
    c: "countDependencies r r ([], \<lambda>_. []) = Inr (t, f)"
      "\<And>i. count_of t i = int (length (dependencies r i))"
      "\<And>d i. count_list (f d) i = count_list (dependencies r i) d"
    by (auto simp: count_of_def dependencies_def)
  define q where "q = filter (\<lambda>i. count_of t i = 0) visit"
  define order where "order = kahn f t q []"
  have D: "?D = set (map fst r)" by (simp add: dom_map_of_conv_image_fst)
  have v: "set visit = ?D" "distinct visit"
    using visit ok D by (metis mset_eq_setD, metis mset_eq_imp_distinct_iff table_ok_def)
  have "kahn_inv r t q []" using v by (auto simp: kahn_inv_def q_def c(2))
  from kahn_result [OF this c(3)] obtain t' where inv: "kahn_inv r t' [] order"
    unfolding order_def by (auto simp: c(2))
  then have o: "distinct order" "set order \<subseteq> ?D" "dependencies_first r order" by (simp_all add: kahn_inv_def)
  have closed: "i \<in> set order" if "i \<in> ?D" "set (dependencies r i) \<subseteq> set order" for i
  proof -
    have "filter (\<lambda>d. d \<notin> set order) (dependencies r i) = []" using that(2) by (auto simp: filter_empty_conv)
    with inv that(1) show ?thesis unfolding kahn_inv_def by fastforce
  qed
  have all: "length order = length r \<longleftrightarrow> set order = ?D"
  proof -
    have "card ?D = length r" using ok D by (metis distinct_card length_map table_ok_def)
    moreover have "card (set order) = length order" using o(1) by (rule distinct_card)
    moreover have "finite ?D" by (simp add: finite_dom_map_of)
    ultimately show ?thesis using o(2) by (metis card_subset_eq)
  qed
  have run: "orderLocked visit r = (if set order = ?D then Inr order else Inl circularDependency)"
    by (simp add: orderLocked_def c(1) all flip: q_def order_def)
  have "acyclic (depends r) \<longleftrightarrow> set order = ?D"
  proof
    assume "acyclic (depends r)"
    then have wf: "wf (depends r)" by (rule finite_acyclic_wf [OF finite_depends])
    have "i \<in> ?D \<longrightarrow> i \<in> set order" for i
      using wf
    proof (induction i rule: wf_induct_rule)
      case (less i)
      have "d \<in> set order" if "d \<in> set (dependencies r i)" for d
        using less.IH [of d] that True by (auto simp: depends_def closed_registry_def)
      with closed [of i] show ?case by blast
    qed
    with o(2) show "set order = ?D" by blast
  next
    assume "set order = ?D"
    then show "acyclic (depends r)" by (metis order_acyclic [OF o(3)] dependencies_registered)
  qed
  moreover have "mset order = mset (map fst r)" if "set order = ?D"
    using that o(1) ok D by (metis set_eq_iff_mset_eq_distinct table_ok_def)
  ultimately show ?thesis using True o(3) run by auto
qed

text \<open>C20: the registry finds an order exactly when every dependency is registered and no module depends on
  itself through others. The order then lists every module once, after all its dependencies; otherwise
  the error names a missing dependency, or says that the dependencies are circular. This holds in
  whatever order the maps are walked.\<close>

theorem module_order_exact:
  assumes "table_ok r" and "mset visit = mset (map fst r)"
  shows "(case orderLocked visit r of
     Inr order \<Rightarrow> closed_registry r \<and> acyclic (depends r) \<and> mset order = mset (map fst r) \<and> dependencies_first r order
   | Inl e \<Rightarrow> if closed_registry r then \<not> acyclic (depends r) \<and> e = circularDependency
       else \<exists>i. \<exists>dep \<in> set (dependencies r i). map_of r dep = None \<and> e = missingDependency i dep)"
  using assms by (rule order_cases)

section \<open>The lifecycle\<close>

text \<open>The first module whose call fails, with those called before it.\<close>

fun first_failure :: "moduleEnv \<Rightarrow> (string \<Rightarrow> moduleCall) \<Rightarrow> string list \<Rightarrow> moduleCall list \<Rightarrow>
    (string list \<times> string \<times> goError) option" where
  "first_failure env mk [] calls = None"
| "first_failure env mk (i # order) calls = (case env calls (mk i) of
       Some e \<Rightarrow> Some ([], i, e)
     | None \<Rightarrow> map_option (\<lambda>(xs, j, e). (i # xs, j, e)) (first_failure env mk order (calls @ [mk i])))"

lemma first_failure_split: "first_failure env mk order calls = Some (xs, i, e) \<Longrightarrow> \<exists>ys. order = xs @ i # ys"
  by (induction order arbitrary: calls xs) (auto split: option.splits)

lemma init_run:
  "initModules env order done calls = (case first_failure env InitCall order calls of
       None \<Rightarrow> (calls @ map InitCall order, None)
     | Some (xs, i, e) \<Rightarrow> (calls @ map InitCall (xs @ [i]) @ map DisposeCall (rev (done @ xs @ [i])),
         Some (CoreError CodeModuleInit (''init module '' @ i) (Some e) [])))"
  by (induction order arbitrary: "done" calls) (simp_all split: option.split prod.split)

lemma start_run:
  "startModules env order done calls = (case first_failure env StartCall order calls of
       None \<Rightarrow> (calls @ map StartCall order, None)
     | Some (xs, i, e) \<Rightarrow>
         (calls @ map StartCall (xs @ [i]) @ concat (map (\<lambda>j. [StopCall j, DisposeCall j]) (rev (done @ xs))),
         Some (CoreError CodeModuleStart (''start module '' @ i) (Some e) [])))"
  by (induction order arbitrary: "done" calls) (simp_all split: option.split prod.split)

lemma stop_run: "fst (stopModules env order e calls) = calls @ map StopCall order"
  by (induction order arbitrary: e calls) simp_all

definition in_order :: "registry \<Rightarrow> string list \<Rightarrow> bool" where
  "in_order r order \<longleftrightarrow> mset order = mset (map fst r) \<and> dependencies_first r order"

definition orderable :: "registry \<Rightarrow> bool" where
  "orderable r \<longleftrightarrow> closed_registry r \<and> acyclic (depends r)"

lemma order_found:
  assumes "table_ok r" and "mset visit = mset (map fst r)"
  obtains (order) order where "orderable r" "orderLocked visit r = Inr order" "in_order r order"
  | (error) e where "\<not> orderable r" "orderLocked visit r = Inl e"
  using order_cases [OF assms] by (cases "orderLocked visit r") (auto simp: orderable_def in_order_def split: if_splits)

definition init_rolled_back :: "registry \<Rightarrow> moduleCall list \<Rightarrow> bool" where
  "init_rolled_back r new \<longleftrightarrow> (\<exists>xs i ys. in_order r (xs @ i # ys) \<and>
     new = map InitCall (xs @ [i]) @ map DisposeCall (rev (xs @ [i])))"

definition start_rolled_back :: "registry \<Rightarrow> moduleCall list \<Rightarrow> bool" where
  "start_rolled_back r new \<longleftrightarrow> (\<exists>order xs i ys. in_order r order \<and> in_order r (xs @ i # ys) \<and>
     new = map InitCall order @ map StartCall (xs @ [i]) @ concat (map (\<lambda>j. [StopCall j, DisposeCall j]) (rev xs)))"


definition sampleModule :: "string \<Rightarrow> string list \<Rightarrow> appModule" where
  "sampleModule i deps = \<lparr>mdID = i, mdManifest = \<lparr>mfID = i, mfVersion = ''0.1.0'', mfDependencies = deps,
     mfFrontend = \<lparr>fcActivityIcon = i, fcActivityTitle = i, fcViews = []\<rparr>\<rparr>, mdServicesWrapped = [i]\<rparr>"

definition sampleRegistry :: registry where
  "sampleRegistry = [(''mcp'', sampleModule ''mcp'' [''serial'']), (''serial'', sampleModule ''serial'' [])]"

lemma sample_ok: "table_ok sampleRegistry" "mset [''serial'', ''mcp''] = mset (map fst sampleRegistry)"
  by (simp_all add: sampleRegistry_def table_ok_def)

lemma sample_order: "orderLocked [''serial'', ''mcp''] sampleRegistry = Inr [''serial'', ''mcp'']"
  by code_simp

theorem module_order_exact_witness: "acyclic (depends sampleRegistry)"
  using module_order_exact [OF sample_ok] by (simp add: sample_order)

lemma sample_orderable: "orderable sampleRegistry"
  using sample_ok by (cases rule: order_found) (simp_all add: sample_order)


text \<open>the shutdown stops every module and then disposes every module, dependents before the modules they
  depend on, each exactly once, whatever a stop reports. A second shutdown does nothing.\<close>

theorem application_shutdown:
  assumes "table_ok r" and "mset v1 = mset (map fst r)" and "mset v2 = mset (map fst r)" and "orderable r"
  shows "\<exists>order1 order2. in_order r order1 \<and> in_order r order2 \<and>
    shutdownRegistryOnce env v1 v2 r (False, calls)
      = (True, calls @ map StopCall (rev order1) @ map DisposeCall (rev order2)) \<and>
    shutdownRegistryOnce env v1 v2 r (shutdownRegistryOnce env v1 v2 r (False, calls))
      = shutdownRegistryOnce env v1 v2 r (False, calls)"
proof -
  from order_found [OF assms(1,2)] assms(4) obtain o1 where o1: "orderLocked v1 r = Inr o1" "in_order r o1" by auto
  from order_found [OF assms(1,3)] assms(4) obtain o2 where o2: "orderLocked v2 r = Inr o2" "in_order r o2" by auto
  have "shutdownRegistryOnce env v1 v2 r (False, calls) = (True, calls @ map StopCall (rev o1) @ map DisposeCall (rev o2))"
    by (simp add: shutdownRegistryOnce_def StopAll_def DisposeAll_def o1(1) o2(1) stop_run)
  moreover have "shutdownRegistryOnce env v1 v2 r (True, c) = (True, c)" for c by (simp add: shutdownRegistryOnce_def)
  ultimately show ?thesis using o1(2) o2(2) by auto
qed

theorem application_shutdown_witness:
  "\<exists>order. in_order sampleRegistry order \<and> fst (shutdownRegistryOnce (\<lambda>_ _. Some (Opaque ''busy'')) [''serial'', ''mcp'']
     [''serial'', ''mcp''] sampleRegistry (False, []))"
  using application_shutdown [OF sample_ok sample_ok(2) sample_orderable, of "\<lambda>_ _. Some (Opaque ''busy'')" "[]"] by auto

end
