(* ===== verification/EventBus.thy ===== *)
theory EventBus
  imports Prelude
begin

text \<open>
  The event bus (\<open>internal/core/eventbus/bus.go\<close>). Handlers are the environment: a function of the
  handler, the published data and the bus, because a handler may itself subscribe, cancel or publish; it
  returns the bus it leaves and whether it panicked. The cancel function of a subscription is a token with
  the flag of its \<open>sync.Once\<close>. The theorem is about any history of subscriptions and cancellations.
\<close>

section \<open>The bus\<close>

record 'f busHandler =
  bhID :: int
  bhFn :: 'f

record 'f eventBus =
  ebSubs :: "string \<Rightarrow> 'f busHandler list"
  ebBridge :: bool
  ebNextHandlerID :: int

record busToken =
  tkName :: string
  tkID :: int
  tkDone :: bool

definition newBus :: "int \<Rightarrow> 'f eventBus" where
  "newBus n = \<lparr>ebSubs = (\<lambda>_. []), ebBridge = False, ebNextHandlerID = n\<rparr>"

definition BridgeToFrontend :: "bool \<Rightarrow> 'f eventBus \<Rightarrow> 'f eventBus" where
  "BridgeToFrontend br b = b\<lparr>ebBridge := br\<rparr>"

definition Subscribe :: "string \<Rightarrow> 'f \<Rightarrow> 'f eventBus \<Rightarrow> 'f eventBus \<times> busToken" where
  "Subscribe name fn b =
     (let i = ebNextHandlerID b + 1 in
      (b\<lparr>ebNextHandlerID := i, ebSubs := (ebSubs b)(name := ebSubs b name @ [\<lparr>bhID = i, bhFn = fn\<rparr>])\<rparr>,
       \<lparr>tkName = name, tkID = i, tkDone = False\<rparr>))"

fun removeHandler :: "int \<Rightarrow> 'f busHandler list \<Rightarrow> 'f busHandler list" where
  "removeHandler i [] = []"
| "removeHandler i (h # hs) = (if bhID h = i then hs else h # removeHandler i hs)"

definition cancelSubscription :: "busToken \<Rightarrow> 'f eventBus \<Rightarrow> busToken \<times> 'f eventBus" where
  "cancelSubscription tk b =
     (if tkDone tk then (tk, b)
      else (tk\<lparr>tkDone := True\<rparr>,
            b\<lparr>ebSubs := (ebSubs b)(tkName tk := removeHandler (tkID tk) (ebSubs b (tkName tk)))\<rparr>))"

datatype 'f busAction = Notified 'f | HandlerPanicked 'f | Bridged string

type_synonym ('f, 'd) handlerEnv = "'f \<Rightarrow> 'd \<Rightarrow> 'f eventBus \<Rightarrow> 'f eventBus \<times> bool"

fun notifyAll :: "('f, 'd) handlerEnv \<Rightarrow> 'd \<Rightarrow> 'f busHandler list \<Rightarrow> 'f eventBus \<Rightarrow> 'f eventBus \<times> 'f busAction list" where
  "notifyAll run data [] b = (b, [])"
| "notifyAll run data (h # hs) b =
     (case run (bhFn h) data b of (b1, panicked) \<Rightarrow>
        (case notifyAll run data hs b1 of (b2, actions) \<Rightarrow>
           (b2, Notified (bhFn h) # (if panicked then [HandlerPanicked (bhFn h)] else []) @ actions)))"

definition Publish :: "('f, 'd) handlerEnv \<Rightarrow> string \<Rightarrow> 'd \<Rightarrow> 'f eventBus \<Rightarrow> 'f eventBus \<times> 'f busAction list" where
  "Publish run name data b =
     (case notifyAll run data (ebSubs b name) b of (b1, actions) \<Rightarrow>
        (b1, actions @ (if ebBridge b then [Bridged name] else [])))"

section \<open>Histories\<close>

text \<open>What the callers of the bus do; a cancellation names a subscription by its position in the history.\<close>

datatype 'f busOp = DoSubscribe string 'f | DoCancel nat | DoBridge bool

fun busDo :: "'f busOp \<Rightarrow> busToken list \<times> 'f eventBus \<Rightarrow> busToken list \<times> 'f eventBus" where
  "busDo (DoSubscribe name fn) (tks, b) = (case Subscribe name fn b of (b1, tk) \<Rightarrow> (tks @ [tk], b1))"
| "busDo (DoCancel k) (tks, b) =
     (if k < length tks then (case cancelSubscription (tks ! k) b of (tk, b1) \<Rightarrow> (tks[k := tk], b1)) else (tks, b))"
| "busDo (DoBridge br) (tks, b) = (tks, BridgeToFrontend br b)"

definition busAfter :: "int \<Rightarrow> 'f busOp list \<Rightarrow> busToken list \<times> 'f eventBus" where
  "busAfter n ops = fold busDo ops ([], newBus n)"

text \<open>The contract: the subscriptions in their order, each with whether it was cancelled.\<close>

fun specDo :: "'f busOp \<Rightarrow> (string \<times> 'f \<times> bool) list \<Rightarrow> (string \<times> 'f \<times> bool) list" where
  "specDo (DoSubscribe name fn) h = h @ [(name, fn, False)]"
| "specDo (DoCancel k) h = (if k < length h then h[k := (case h ! k of (name, fn, _) \<Rightarrow> (name, fn, True))] else h)"
| "specDo (DoBridge br) h = h"

definition subscribed :: "'f busOp list \<Rightarrow> string \<Rightarrow> 'f list" where
  "subscribed ops name = map (fst \<circ> snd) (filter (\<lambda>(n, _, cancelled). n = name \<and> \<not> cancelled) (fold specDo ops []))"

text \<open>How the bus stands for a history: the tokens have distinct increasing numbers, and the handlers of a
  topic are the subscriptions that were not cancelled.\<close>

definition live :: "string \<Rightarrow> busToken \<times> 'f \<Rightarrow> bool" where
  "live name e \<longleftrightarrow> tkName (fst e) = name \<and> \<not> tkDone (fst e)"

definition entry_handler :: "busToken \<times> 'f \<Rightarrow> 'f busHandler" where
  "entry_handler e = \<lparr>bhID = tkID (fst e), bhFn = snd e\<rparr>"

definition entry_spec :: "busToken \<times> 'f \<Rightarrow> string \<times> 'f \<times> bool" where
  "entry_spec e = (tkName (fst e), snd e, tkDone (fst e))"

definition bus_holds :: "(busToken \<times> 'f) list \<Rightarrow> 'f eventBus \<Rightarrow> bool" where
  "bus_holds es b \<longleftrightarrow> distinct (map (tkID \<circ> fst) es) \<and> (\<forall>e \<in> set es. tkID (fst e) \<le> ebNextHandlerID b)
     \<and> (\<forall>name. ebSubs b name = map entry_handler (filter (live name) es))"

lemma remove_is_filter: "distinct (map bhID hs) \<Longrightarrow> removeHandler i hs = filter (\<lambda>h. bhID h \<noteq> i) hs"
proof (induction hs)
  case (Cons h hs)
  then have "filter (\<lambda>x. bhID x \<noteq> bhID h) hs = hs" by (auto simp: filter_id_conv image_iff)
  with Cons show ?case by auto
qed simp

lemma filter_update:
  "distinct (map f es) \<Longrightarrow> k < length es \<Longrightarrow> \<not> P e \<Longrightarrow> filter P (es[k := e]) = filter (\<lambda>x. P x \<and> f x \<noteq> f (es ! k)) es"
proof (induction es arbitrary: k)
  case (Cons x es)
  show ?case
  proof (cases k)
    case 0
    with Cons.prems show ?thesis by (auto simp: image_iff intro!: filter_cong)
  next
    case (Suc j)
    with Cons show ?thesis using nth_mem [of j es] by auto
  qed
qed simp

lemma holds_subscribe:
  assumes "bus_holds es b" and "Subscribe name fn b = (b1, tk)"
  shows "bus_holds (es @ [(tk, fn)]) b1 \<and> entry_spec (tk, fn) = (name, fn, False)"
proof -
  from assms(1) have "\<forall>e \<in> set es. tkID (fst e) \<noteq> ebNextHandlerID b + 1" by (fastforce simp: bus_holds_def)
  with assms show ?thesis
    by (fastforce simp: bus_holds_def Subscribe_def Let_def entry_handler_def entry_spec_def live_def)
qed

lemma holds_cancel:
  assumes h: "bus_holds es b" and k: "k < length es" and c: "cancelSubscription (fst (es ! k)) b = (tk, b1)"
  shows "bus_holds (es[k := (tk, snd (es ! k))]) b1
    \<and> entry_spec (tk, snd (es ! k)) = (case entry_spec (es ! k) of (name, fn, _) \<Rightarrow> (name, fn, True))"
proof (cases "tkDone (fst (es ! k))")
  case True
  with c h k show ?thesis by (auto simp: cancelSubscription_def entry_spec_def)
next
  case False
  let ?e = "es ! k" and ?name = "tkName (fst (es ! k))" and ?id = "tkID \<circ> fst"
  from False c have r: "tk = (fst ?e)\<lparr>tkDone := True\<rparr>"
    "b1 = b\<lparr>ebSubs := (ebSubs b)(?name := removeHandler (tkID (fst ?e)) (ebSubs b ?name))\<rparr>"
    by (auto simp: cancelSubscription_def)
  have ids: "map ?id (es[k := (tk, snd ?e)]) = map ?id es"
  proof -
    have "map ?id (es[k := (tk, snd ?e)]) = (map ?id es)[k := map ?id es ! k]"
      unfolding map_update using k by (simp add: r(1))
    then show ?thesis by (simp only: list_update_id)
  qed
  have d: "distinct (map ?id es)" using h by (simp add: bus_holds_def)
  have "distinct (map bhID (map entry_handler (filter (live ?name) es)))"
    using d by (simp add: comp_def entry_handler_def distinct_map_filter)
  then have removed: "removeHandler (tkID (fst ?e)) (map entry_handler (filter (live ?name) es))
      = map entry_handler (filter (\<lambda>x. live ?name x \<and> ?id x \<noteq> ?id ?e) es)"
    by (simp add: remove_is_filter filter_map comp_def entry_handler_def conj_commute)
  have only: "x = ?e" if "x \<in> set es" "?id x = ?id ?e" for x
    using d k that by (simp add: distinct_map inj_on_def)
  have subs: "ebSubs b1 name = map entry_handler (filter (live name) (es[k := (tk, snd ?e)]))" for name
  proof -
    have u: "filter (live name) (es[k := (tk, snd ?e)]) = filter (\<lambda>x. live name x \<and> ?id x \<noteq> ?id ?e) es"
      by (rule filter_update [OF d k]) (simp add: live_def r(1))
    show ?thesis
    proof (cases "name = ?name")
      case True
      with h u removed show ?thesis by (simp add: r(2) bus_holds_def)
    next
      case False
      then have "filter (\<lambda>x. live name x \<and> ?id x \<noteq> ?id ?e) es = filter (live name) es"
        using only by (intro filter_cong refl) (metis live_def)
      with False h u show ?thesis by (simp add: r(2) bus_holds_def)
    qed
  qed
  have "\<forall>e \<in> set (es[k := (tk, snd ?e)]). tkID (fst e) \<le> ebNextHandlerID b1"
    using h k by (auto simp: r bus_holds_def dest!: set_update_subset_insert [THEN subsetD])
  with d ids subs show ?thesis by (simp add: bus_holds_def entry_spec_def r(1))
qed

definition refines :: "busToken list \<times> 'f eventBus \<Rightarrow> (string \<times> 'f \<times> bool) list \<Rightarrow> bool" where
  "refines s h \<longleftrightarrow> (\<exists>es. fst s = map fst es \<and> h = map entry_spec es \<and> bus_holds es (snd s))"

lemma refines_start [simp]: "refines ([], newBus n) []"
  by (auto simp: refines_def bus_holds_def newBus_def)

lemma refines_step: "refines s h \<Longrightarrow> refines (busDo op s) (specDo op h)"
proof -
  assume r: "refines s h"
  then obtain es b where es: "s = (map fst es, b)" "h = map entry_spec es" "bus_holds es b"
    by (cases s) (auto simp: refines_def)
  show ?thesis
  proof (cases op)
    case (DoSubscribe name fn)
    obtain b1 tk where sub: "Subscribe name fn b = (b1, tk)" by (cases "Subscribe name fn b")
    from holds_subscribe [OF es(3) sub] have "bus_holds (es @ [(tk, fn)]) b1" "entry_spec (tk, fn) = (name, fn, False)" by auto
    then show ?thesis
      by (auto simp: DoSubscribe es(1,2) sub refines_def intro!: exI [of _ "es @ [(tk, fn)]"])
  next
    case (DoCancel k)
    show ?thesis
    proof (cases "k < length es")
      case True
      obtain tk b1 where c: "cancelSubscription (fst (es ! k)) b = (tk, b1)"
        by (cases "cancelSubscription (fst (es ! k)) b")
      let ?es = "es[k := (tk, snd (es ! k))]"
      have "busDo op s = (map fst ?es, b1)" using True by (simp add: DoCancel es(1) c map_update)
      moreover have "specDo op h = map entry_spec ?es"
        using True holds_cancel [OF es(3) True c] by (simp add: DoCancel es(2) map_update)
      ultimately show ?thesis using holds_cancel [OF es(3) True c] by (auto simp: refines_def)
    qed (use r in \<open>simp add: DoCancel es(1,2)\<close>)
  next
    case (DoBridge br)
    with r show ?thesis by (cases s) (simp add: refines_def bus_holds_def BridgeToFrontend_def)
  qed
qed

lemma refines_history: "refines s h \<Longrightarrow> refines (fold busDo ops s) (fold specDo ops h)"
proof (induction ops arbitrary: s h)
  case (Cons op ops)
  from Cons.IH [OF refines_step [OF Cons.prems]] show ?case by simp
qed simp

lemma refines_handlers:
  assumes "refines s h"
  shows "map bhFn (ebSubs (snd s) name) = map (fst \<circ> snd) (filter (\<lambda>(n, _, cancelled). n = name \<and> \<not> cancelled) h)"
proof -
  from assms obtain es where es: "h = map entry_spec es" "ebSubs (snd s) name = map entry_handler (filter (live name) es)"
    by (auto simp: refines_def bus_holds_def)
  have "filter (\<lambda>(n, _, cancelled). n = name \<and> \<not> cancelled) h = map entry_spec (filter (live name) es)"
    by (simp add: es(1) filter_map comp_def entry_spec_def live_def [abs_def])
  then show ?thesis by (simp add: es(2) comp_def entry_spec_def entry_handler_def)
qed

fun notified :: "'f busAction list \<Rightarrow> 'f list" where
  "notified [] = []"
| "notified (Notified f # acts) = f # notified acts"
| "notified (HandlerPanicked f # acts) = notified acts"
| "notified (Bridged name # acts) = notified acts"

lemma notified_append [simp]: "notified (acts @ acts') = notified acts @ notified acts'"
  by (induction acts rule: notified.induct) simp_all

lemma notify_all: "notified (snd (notifyAll run data hs b)) = map bhFn hs"
proof (induction hs arbitrary: b)
  case (Cons h hs)
  obtain b1 p where 1: "run (bhFn h) data b = (b1, p)" by (cases "run (bhFn h) data b")
  obtain b2 acts where 2: "notifyAll run data hs b1 = (b2, acts)" by (cases "notifyAll run data hs b1")
  from Cons.IH [of b1] show ?case by (simp add: 1 2)
qed simp

text \<open>a publication notifies exactly the handlers that are subscribed to its topic and were not cancelled,
  each once, in the order of the subscriptions, whatever was subscribed and cancelled before and in
  whatever the handlers do to the bus or panic meanwhile. It is forwarded after them, if a bridge is set.\<close>

theorem publish_exact:
  "notified (snd (Publish run name data (snd (busAfter n ops)))) = subscribed ops name"
proof -
  let ?s = "busAfter n ops"
  have r: "refines ?s (fold specDo ops [])"
    unfolding busAfter_def by (rule refines_history) simp
  obtain b1 acts where n: "notifyAll run data (ebSubs (snd ?s) name) (snd ?s) = (b1, acts)"
    by (cases "notifyAll run data (ebSubs (snd ?s) name) (snd ?s)")
  have "notified acts = map bhFn (ebSubs (snd ?s) name)"
    using notify_all [of run data "ebSubs (snd ?s) name" "snd ?s"] by (simp add: n)
  then show ?thesis
    using refines_handlers [OF r, of name] by (simp add: Publish_def n subscribed_def)
qed

end
