(* ===== verification/McpGraph.thy ===== *)
theory McpGraph
  imports GraphValidateFacts
begin

text \<open>
  Graphs in the MCP server (\<open>internal/modules/mcpserver/server.go\<close>, lines 381 to 478 and 1219 to 1957):
  the arguments of its graph tools, its catalogue of node kinds, its own validation of a topology, the
  request it hands to the runtime, and the topologies of its templates. The validation is written anew
  there, apart from that of the runtime (\<open>GraphValidate\<close>). Titles and descriptions are left out.
\<close>

section \<open>Arguments\<close>

record graphNodeArg =
  naID :: string
  naType :: string
  naX :: int
  naY :: int
  naConfig :: config

record graphEdgeArg =
  eaID :: string
  eaSource :: string
  eaSourceHandle :: string
  eaSourceHandleCamel :: string
  eaTarget :: string
  eaTargetHandle :: string
  eaTargetHandleCamel :: string

record graphValidateArgs =
  gvNodes :: "graphNodeArg list"
  gvEdges :: "graphEdgeArg list"

record graphStartArgs =
  gaID :: string
  gaNodes :: "graphNodeArg list"
  gaEdges :: "graphEdgeArg list"

record graphProvider =
  gpType :: string
  gpInputs :: "portSpec list"
  gpOutputs :: "portSpec list"
  gpDefaultConfig :: config
  gpResourceOwner :: bool
  gpResourceKeys :: "string list"

section \<open>Configurations\<close>

definition withConfig :: "config \<Rightarrow> config \<Rightarrow> config" where
  "withConfig base patch = table_put_all fst snd patch (table_put_all fst snd base [])"

definition scriptDefaultsForTemplate :: config where
  "scriptDefaultsForTemplate =
    [(''script'', CString ''output.bytes(input.bytes())''), (''timeoutMs'', CInt 50),
     (''maxOutputBytes'', CInt 65536), (''maxStateBytes'', CInt 262144),
     (''onError'', CString ''mark-error-and-drop''), (''encoding'', CString ''utf-8''),
     (''autoRun'', CBool False), (''intervalMs'', CInt 1000), (''displayMode'', CString ''hex'')]"

definition serialDefaults :: config where
  "serialDefaults =
    [(''portName'', CString ''''), (''baudRate'', CInt 115200), (''dataBits'', CInt 8), (''stopBits'', CString ''1''),
     (''parity'', CString ''none''), (''flowMode'', CString ''none''), (''readBufKB'', CInt 32)]"

definition remoteDefaults :: config where
  "remoteDefaults =
    [(''protocol'', CString ''raw-tcp''), (''role'', CString ''client''), (''host'', CString ''''), (''port'', CInt 3001),
     (''connectTimeoutMs'', CInt 3000), (''writeTimeoutMs'', CInt 3000), (''reconnect'', CBool True),
     (''reconnectIntervalMs'', CInt 1000), (''allowStartDisconnected'', CBool False), (''readBufKB'', CInt 32),
     (''baudRate'', CInt 115200), (''dataBits'', CInt 8), (''stopBits'', CString ''1''), (''parity'', CString ''none''),
     (''flowMode'', CString ''none''), (''viewMode'', CString ''ascii''), (''autoScroll'', CBool True),
     (''showTimestamp'', CBool False)]"

definition serialGraphStringConfig :: "config \<Rightarrow> string \<Rightarrow> string \<Rightarrow> string" where
  "serialGraphStringConfig config key fallback = (case map_of config key of
       None \<Rightarrow> fallback
     | Some value \<Rightarrow> if value = CNil then fallback else trim_space (sprint value))"

text \<open>\<open>parsed\<close> if it is valid\<close>

definition serialGraphStrictIntConfig :: "config \<Rightarrow> string \<Rightarrow> int \<Rightarrow> int option" where
  "serialGraphStrictIntConfig config key fallback = (case map_of config key of
       None \<Rightarrow> Some fallback
     | Some value \<Rightarrow> (case value of
           CNil \<Rightarrow> None
         | CInt i \<Rightarrow> Some i
         | CFloat64 f \<Rightarrow> if gfExact f then Some (gfInt f) else None
         | CFloat32 f \<Rightarrow> if gfExact f then Some (gfInt f) else None
         | CString s \<Rightarrow> atoi (trim_space s)
         | _ \<Rightarrow> None))"

section \<open>The catalogue\<close>

definition graphPort :: "string \<Rightarrow> string \<Rightarrow> portSpec" where
  "graphPort p direction = \<lparr>psID = p, psKind = ''bytes'', psMultiple = False, psDirection = direction\<rparr>"

definition graphProviderOf :: "string \<Rightarrow> string list \<Rightarrow> string list \<Rightarrow> config \<Rightarrow> graphProvider" where
  "graphProviderOf t ins outs config = \<lparr>gpType = t, gpInputs = map (\<lambda>p. graphPort p ''input'') ins,
     gpOutputs = map (\<lambda>p. graphPort p ''output'') outs, gpDefaultConfig = config,
     gpResourceOwner = False, gpResourceKeys = []\<rparr>"

definition serialGraphProviders :: "graphProvider list" where
  "serialGraphProviders =
    [(graphProviderOf ''serial.physical'' [''tx''] [''rx''] serialDefaults)
       \<lparr>gpResourceOwner := True, gpResourceKeys := [''portName'']\<rparr>,
     (graphProviderOf ''serial.virtual'' [''tx''] [''rx''] serialDefaults)
       \<lparr>gpResourceOwner := True, gpResourceKeys := [''portName'']\<rparr>,
     (graphProviderOf ''serial.remote'' [''tx''] [''rx''] remoteDefaults)\<lparr>gpResourceOwner := True\<rparr>,
     graphProviderOf ''serial.bridge'' [''a-in'', ''b-in''] [''a-out'', ''b-out''] [],
     graphProviderOf ''serial.monitor'' [''in''] [] [(''displayMode'', CString ''hex'')],
     graphProviderOf ''serial.filter'' [''in''] [''out'']
       [(''mode'', CString ''plain''), (''expression'', CString ''''), (''caseSensitive'', CBool False), (''wholeWord'', CBool False)],
     graphProviderOf ''serial.script.transform'' [''in''] [''out''] scriptDefaultsForTemplate,
     graphProviderOf ''serial.script.generator'' [] [''out'']
       (withConfig scriptDefaultsForTemplate
         [(''script'', CString ''output.text(\"tick\", \"utf-8\")''), (''autoRun'', CBool True), (''intervalMs'', CInt 1000)]),
     graphProviderOf ''serial.script.analyzer'' [''in''] []
       (withConfig scriptDefaultsForTemplate
         [(''script'', CString ''field(\"length\", input.bytes().length)''), (''displayMode'', CString ''hex'')]),
     graphProviderOf ''serial.modbus.master'' [''rx''] [''tx'']
       [(''mode'', CString ''rtu''), (''unitIds'', CString ''1''), (''addressMode'', CString ''zero-based''),
        (''functionCode'', CInt 3), (''address'', CInt 0), (''quantity'', CInt 1), (''value'', CInt 0)],
     graphProviderOf ''serial.modbus.slave'' [''rx''] [''tx''] [(''mode'', CString ''rtu''), (''unitIds'', CString ''1'')],
     graphProviderOf ''serial.fecbus.master'' [''rx''] [''tx'']
       [(''sourceAddress'', CInt 1), (''targetAddress'', CInt 2), (''priority'', CInt 3), (''messageNumber'', CInt 1),
        (''groupNumber'', CInt 0), (''functionCode'', CInt 44), (''dataHex'', CString '''')],
     graphProviderOf ''serial.fecbus.slave'' [''rx''] [''tx'']
       [(''address'', CInt 2), (''defaultStatus'', CInt 10), (''autoStatusAnswer'', CBool True)]]"

definition serialGraphProviderMap :: "string \<Rightarrow> graphProvider option" where
  "serialGraphProviderMap t = map_of (map (\<lambda>p. (gpType p, p)) serialGraphProviders) t"

definition mcpInputPort :: "graphProvider \<Rightarrow> string \<Rightarrow> portSpec option" where
  "mcpInputPort p i = find (\<lambda>q. psID q = i) (gpInputs p)"

definition mcpOutputPort :: "graphProvider \<Rightarrow> string \<Rightarrow> portSpec option" where
  "mcpOutputPort p i = find (\<lambda>q. psID q = i) (gpOutputs p)"

section \<open>Errors\<close>

text \<open>An error of a connection, and where an error of the validation is.\<close>

datatype connection_error =
    SourceMissing string | TargetMissing string | ConnectsToItself | ProviderMissing string
  | OutputMissing string string | InputMissing string string | KindsDiffer string string
  | InputTaken string string | DirectedCycle

datatype mcp_error = AtGraph graph_error | AtEdge string connection_error

section \<open>Remote end points and resources\<close>

definition strictRange :: "string \<Rightarrow> string \<Rightarrow> int option \<Rightarrow> int \<Rightarrow> int \<Rightarrow> graph_error list" where
  "strictRange nodeID name value lo hi = (case value of
       None \<Rightarrow> [RemoteNotInteger nodeID name]
     | Some v \<Rightarrow>
         if v \<le> 0 then [RemoteNotPositive nodeID name]
         else if v < lo \<or> hi < v then [RemoteOutOfRange nodeID name] else [])"

definition validateSerialGraphRemoteConfig :: "string \<Rightarrow> config \<Rightarrow> graph_error list" where
  "validateSerialGraphRemoteConfig nodeID config =
     (let protocol = serialGraphStringConfig config ''protocol'' ''raw-tcp'';
          role = serialGraphStringConfig config ''role'' ''client'';
          host = serialGraphStringConfig config ''host'' [] in
      (if protocol \<noteq> ''raw-tcp'' then [RemoteProtocol nodeID protocol] else [])
      @ (if role \<noteq> ''client'' \<and> role \<noteq> ''server'' then [RemoteRole nodeID role] else [])
      @ (if host = [] then [RemoteHostRequired nodeID] else [])
      @ (if contains host ''://'' then [RemoteHostScheme nodeID] else [])
      @ (case serialGraphStrictIntConfig config ''port'' 3001 of
           None \<Rightarrow> [RemoteNotInteger nodeID ''port'']
         | Some p \<Rightarrow> if p < 1 \<or> 65535 < p then [RemoteOutOfRange nodeID ''port''] else [])
      @ strictRange nodeID ''connectTimeoutMs'' (serialGraphStrictIntConfig config ''connectTimeoutMs'' 3000) 100 60000
      @ strictRange nodeID ''writeTimeoutMs'' (serialGraphStrictIntConfig config ''writeTimeoutMs'' 3000) 100 60000
      @ strictRange nodeID ''reconnectIntervalMs'' (serialGraphStrictIntConfig config ''reconnectIntervalMs'' 1000) 100 60000
      @ strictRange nodeID ''readBufKB'' (serialGraphStrictIntConfig config ''readBufKB'' 32) 1 1024)"

definition serialGraphRemoteEndpoint :: "(string \<Rightarrow> string) \<Rightarrow> config \<Rightarrow> string option" where
  "serialGraphRemoteEndpoint lower config =
     (let host = serialGraphStringConfig config ''host'' [] in
      case serialGraphStrictIntConfig config ''port'' 3001 of
        None \<Rightarrow> None
      | Some p \<Rightarrow> if host = [] \<or> contains host ''://'' \<or> p < 1 \<or> 65535 < p then None
          else Some (join_host_port (lower host) (itoa p)))"

fun claimValues :: "config \<Rightarrow> string \<Rightarrow> string list \<Rightarrow> (string, string) table \<Rightarrow> graph_error list \<times> (string, string) table" where
  "claimValues config nodeID [] used = ([], used)"
| "claimValues config nodeID (key # keys) used =
     (let value = trim_space (sprint (case map_of config key of None \<Rightarrow> CNil | Some v \<Rightarrow> v)) in
      if value = [] \<or> value = ''<nil>'' then claimValues config nodeID keys used
      else case map_of used (key @ '':'' @ value) of
          Some previous \<Rightarrow> (case claimValues config nodeID keys used of
              (es, used1) \<Rightarrow> (ResourceDuplicated value previous nodeID # es, used1))
        | None \<Rightarrow> claimValues config nodeID keys (table_put (key @ '':'' @ value) nodeID used))"

fun resourceOwners :: "(string \<Rightarrow> string) \<Rightarrow> graphNodeArg list \<Rightarrow> (string, string) table \<Rightarrow> graph_error list" where
  "resourceOwners lower [] used = []"
| "resourceOwners lower (node # ns) used =
     (case serialGraphProviderMap (naType node) of
        None \<Rightarrow> resourceOwners lower ns used
      | Some p \<Rightarrow>
          if \<not> gpResourceOwner p then resourceOwners lower ns used
          else if naType node = ''serial.remote'' then
            (case serialGraphRemoteEndpoint lower (naConfig node) of
               None \<Rightarrow> resourceOwners lower ns used
             | Some endpoint \<Rightarrow>
                 (let role = serialGraphStringConfig (naConfig node) ''role'' ''client'';
                      resourceKey = ''remote:'' @ endpoint @ '':'' @ role in
                  case map_of used resourceKey of
                    Some previous \<Rightarrow> EndpointDuplicated endpoint previous (naID node) # resourceOwners lower ns used
                  | None \<Rightarrow> resourceOwners lower ns (table_put resourceKey (naID node) used)))
          else (case claimValues (naConfig node) (naID node) (gpResourceKeys p) used of
              (es, used1) \<Rightarrow> es @ resourceOwners lower ns used1))"

definition validateSerialGraphResourceOwners :: "(string \<Rightarrow> string) \<Rightarrow> graphNodeArg list \<Rightarrow> graph_error list" where
  "validateSerialGraphResourceOwners lower ns = resourceOwners lower ns []"

section \<open>Connections\<close>

definition normalizeSerialGraphEdge :: "graphEdgeArg \<Rightarrow> graphEdgeArg" where
  "normalizeSerialGraphEdge e =
     (let e1 = (if eaSourceHandle e = [] then e\<lparr>eaSourceHandle := eaSourceHandleCamel e\<rparr> else e) in
      if eaTargetHandle e1 = [] then e1\<lparr>eaTargetHandle := eaTargetHandleCamel e1\<rparr> else e1)"

definition serialGraphOtherEdges :: "graphEdgeArg list \<Rightarrow> string \<Rightarrow> graphEdgeArg list" where
  "serialGraphOtherEdges edges i = filter (\<lambda>e. eaID e \<noteq> i) (map normalizeSerialGraphEdge edges)"

type_synonym arg_table = "(string, graphNodeArg) table"

definition edgeTargetsTerminalInput :: "arg_table \<Rightarrow> graphEdgeArg \<Rightarrow> bool" where
  "edgeTargetsTerminalInput nodes e \<longleftrightarrow> eaTargetHandle e = ''rx'' \<and>
     (case map_of nodes (eaTarget e) of None \<Rightarrow> False
      | Some target \<Rightarrow> naType target = ''serial.modbus.master'' \<or> naType target = ''serial.fecbus.master'')"

definition pushed :: "arg_table \<Rightarrow> graphEdgeArg list \<Rightarrow> string \<Rightarrow> string list" where
  "pushed nodes edges nodeID =
     rev (map eaTarget (filter (\<lambda>e. \<not> edgeTargetsTerminalInput nodes e \<and> eaSource e = nodeID) edges))"

function cycleSearch :: "arg_table \<Rightarrow> graphEdgeArg list \<Rightarrow> string \<Rightarrow> string list \<Rightarrow> string list \<Rightarrow> bool" where
  "cycleSearch nodes edges source visited [] = False"
| "cycleSearch nodes edges source visited (nodeID # stack) =
     (if nodeID \<in> set visited then cycleSearch nodes edges source visited stack
      else if nodeID = source then True
      else cycleSearch nodes edges source (nodeID # visited) (pushed nodes edges nodeID @ stack))"
  by pat_completeness auto
termination
proof (relation "measures [\<lambda>(nodes, edges, source, visited, stack). length (filter (\<lambda>e. eaSource e \<notin> set visited) edges),
    \<lambda>(nodes, edges, source, visited, stack). length stack]", goal_cases)
  case (3 nodes edges source visited nodeID stack)
  show ?case
  proof (cases "nodeID \<in> set (map eaSource edges)")
    case True
    with unvisited_less [OF True 3(1)] show ?thesis by simp
  next
    case False
    then have "pushed nodes edges nodeID = []" by (auto simp: pushed_def filter_empty_conv)
    moreover have "filter (\<lambda>e. eaSource e \<notin> set (nodeID # visited)) edges = filter (\<lambda>e. eaSource e \<notin> set visited) edges"
      using False by (intro filter_cong) auto
    ultimately show ?thesis by simp
  qed
qed auto

definition serialGraphCreatesCycle :: "graphEdgeArg \<Rightarrow> graphEdgeArg list \<Rightarrow> arg_table \<Rightarrow> bool" where
  "serialGraphCreatesCycle draft edges nodes = cycleSearch nodes edges (eaSource draft) [] [eaTarget draft]"

definition connectPorts :: "graphValidateArgs \<Rightarrow> graphEdgeArg \<Rightarrow> arg_table \<Rightarrow> graphNodeArg \<Rightarrow> portSpec \<Rightarrow> portSpec \<Rightarrow>
    connection_error list" where
  "connectPorts graph draft nodes targetNode sourcePort targetPort =
     (let otherEdges = serialGraphOtherEdges (gvEdges graph) (eaID draft) in
      (if psKind sourcePort \<noteq> psKind targetPort then [KindsDiffer (psKind sourcePort) (psKind targetPort)] else [])
      @ (if \<not> psMultiple targetPort
            \<and> list_ex (\<lambda>e. eaTarget e = eaTarget draft \<and> eaTargetHandle e = eaTargetHandle draft) otherEdges
         then [InputTaken (naID targetNode) (psID targetPort)] else [])
      @ (if \<not> edgeTargetsTerminalInput nodes draft \<and> serialGraphCreatesCycle draft otherEdges nodes
         then [DirectedCycle] else []))"

definition validateSerialGraphConnection :: "graphValidateArgs \<Rightarrow> graphEdgeArg \<Rightarrow> arg_table \<Rightarrow> connection_error list" where
  "validateSerialGraphConnection graph draft nodes =
     (case (map_of nodes (eaSource draft), map_of nodes (eaTarget draft)) of
        (Some sourceNode, Some targetNode) \<Rightarrow>
          (if naID sourceNode = naID targetNode then [ConnectsToItself] else [])
          @ (case (serialGraphProviderMap (naType sourceNode), serialGraphProviderMap (naType targetNode)) of
               (Some sourceProvider, Some targetProvider) \<Rightarrow>
                 (case (mcpOutputPort sourceProvider (eaSourceHandle draft), mcpInputPort targetProvider (eaTargetHandle draft)) of
                    (Some sourcePort, Some targetPort) \<Rightarrow> connectPorts graph draft nodes targetNode sourcePort targetPort
                  | (so, ti) \<Rightarrow>
                      (if so = None then [OutputMissing (naType sourceNode) (eaSourceHandle draft)] else [])
                      @ (if ti = None then [InputMissing (naType targetNode) (eaTargetHandle draft)] else []))
             | (sp, tp) \<Rightarrow>
                 (if sp = None then [ProviderMissing (naType sourceNode)] else [])
                 @ (if tp = None then [ProviderMissing (naType targetNode)] else []))
      | (s, t) \<Rightarrow>
          (if s = None then [SourceMissing (eaSource draft)] else [])
          @ (if t = None then [TargetMissing (eaTarget draft)] else []))"

section \<open>The whole graph\<close>

fun graphNodesValid :: "graphNodeArg list \<Rightarrow> arg_table \<Rightarrow> graph_error list \<times> arg_table" where
  "graphNodesValid [] nodes = ([], nodes)"
| "graphNodesValid (node # ns) nodes =
     (if naID node = [] then (case graphNodesValid ns nodes of (es, t) \<Rightarrow> (NodeIDEmpty # es, t))
      else if map_of nodes (naID node) \<noteq> None
      then (case graphNodesValid ns nodes of (es, t) \<Rightarrow> (DuplicateNode (naID node) # es, t))
      else case graphNodesValid ns (table_put (naID node) node nodes) of (es, t) \<Rightarrow>
        ((if serialGraphProviderMap (naType node) = None then [ProviderNotFound (naType node)] else [])
         @ (if naType node = ''serial.remote'' then validateSerialGraphRemoteConfig (naID node) (naConfig node) else [])
         @ es, t))"

fun graphEdgesValid :: "graphValidateArgs \<Rightarrow> arg_table \<Rightarrow> string list \<Rightarrow> graphEdgeArg list \<Rightarrow> mcp_error list" where
  "graphEdgesValid graph nodes seen [] = []"
| "graphEdgesValid graph nodes seen (arg # es) =
     (let edge = normalizeSerialGraphEdge arg in
      if eaID edge = [] then AtGraph EdgeIDEmpty # graphEdgesValid graph nodes seen es
      else if eaID edge \<in> set seen then AtGraph (DuplicateEdge (eaID edge)) # graphEdgesValid graph nodes seen es
      else map (AtEdge (eaID edge)) (validateSerialGraphConnection graph edge nodes)
        @ graphEdgesValid graph nodes (eaID edge # seen) es)"

definition validateSerialGraph :: "(string \<Rightarrow> string) \<Rightarrow> graphValidateArgs \<Rightarrow> mcp_error list" where
  "validateSerialGraph lower graph =
     (case graphNodesValid (gvNodes graph) [] of (errs, nodes) \<Rightarrow>
        map AtGraph errs @ map AtGraph (validateSerialGraphResourceOwners lower (gvNodes graph))
        @ graphEdgesValid graph nodes [] (gvEdges graph))"

text \<open>The request handed to the runtime, which reads no positions.\<close>

definition nodeOf :: "graphNodeArg \<Rightarrow> nodeSpec" where
  "nodeOf n = \<lparr>nsID = naID n, nsType = naType n, nsConfig = naConfig n\<rparr>"

definition edgeOf :: "graphEdgeArg \<Rightarrow> edgeSpec" where
  "edgeOf e = \<lparr>esID = eaID e, esSource = eaSource e, esSourceHandle = eaSourceHandle e,
     esTarget = eaTarget e, esTargetHandle = eaTargetHandle e\<rparr>"

definition serialGraphStartRequest :: "graphStartArgs \<Rightarrow> graphStartRequest" where
  "serialGraphStartRequest args = \<lparr>gqID = gaID args, gqNodes = map nodeOf (gaNodes args),
     gqEdges = map (\<lambda>e. edgeOf (normalizeSerialGraphEdge e)) (gaEdges args)\<rparr>"

section \<open>Templates\<close>

record demoArgs =
  daID :: string
  daGraphID :: string
  daPortName :: string
  daRemoteHost :: string
  daRemotePort :: config_value
  daAllowStartDisconnected :: bool

definition observabilityTemplateID :: string where "observabilityTemplateID = ''serial-observability-filter-logging''"
definition remoteTemplateID :: string where "remoteTemplateID = ''serial-remote-raw-tcp''"

definition nodeArg :: "string \<Rightarrow> string \<Rightarrow> int \<Rightarrow> int \<Rightarrow> config \<Rightarrow> graphNodeArg" where
  "nodeArg i t x y config = \<lparr>naID = i, naType = t, naX = x, naY = y, naConfig = config\<rparr>"

definition edgeArg :: "string \<Rightarrow> string \<Rightarrow> string \<Rightarrow> string \<Rightarrow> string \<Rightarrow> graphEdgeArg" where
  "edgeArg i source sourceHandle target targetHandle = \<lparr>eaID = i, eaSource = source, eaSourceHandle = sourceHandle,
     eaSourceHandleCamel = [], eaTarget = target, eaTargetHandle = targetHandle, eaTargetHandleCamel = []\<rparr>"

text \<open>The line end of a sample text, as the script writes it.\<close>

definition escaped_crlf :: string where "escaped_crlf = [CHR 92, CHR ''r'', CHR 92, CHR ''n'']"

definition filterConfig :: "string \<Rightarrow> string \<Rightarrow> config" where
  "filterConfig mode expression = [(''mode'', CString mode), (''expression'', CString expression),
     (''caseSensitive'', CBool False), (''wholeWord'', CBool False)]"

definition observabilityNodes :: "config \<Rightarrow> string \<Rightarrow> graphNodeArg list" where
  "observabilityNodes generatorConfig portName =
    [nodeArg ''generator'' ''serial.script.generator'' 20 80 generatorConfig,
     nodeArg ''virtual'' ''serial.virtual'' 240 80
       [(''portName'', CString portName), (''baudRate'', CInt 115200), (''dataBits'', CInt 8),
        (''stopBits'', CString ''1''), (''parity'', CString ''none''), (''flowMode'', CString ''none''),
        (''readBufKB'', CInt 32)],
     nodeArg ''filter-plain'' ''serial.filter'' 520 0 (filterConfig ''plain'' ''OK''),
     nodeArg ''filter-regex'' ''serial.filter'' 520 120 (filterConfig ''regex'' ''TEMP=[0-9]+''),
     nodeArg ''filter-expression'' ''serial.filter'' 520 240
       (filterConfig ''expression'' ''len >= 4 and hex contains \"0d0a\"''),
     nodeArg ''monitor-plain'' ''serial.monitor'' 780 0 [(''displayMode'', CString ''ascii'')],
     nodeArg ''monitor-regex'' ''serial.monitor'' 780 120 [(''displayMode'', CString ''hex'')],
     nodeArg ''monitor-expression'' ''serial.monitor'' 780 240 [(''displayMode'', CString ''ascii'')]]"

definition observabilityEdges :: "graphEdgeArg list" where
  "observabilityEdges =
    [edgeArg ''edge-generator-virtual'' ''generator'' ''out'' ''virtual'' ''tx'',
     edgeArg ''edge-virtual-filter-plain'' ''virtual'' ''rx'' ''filter-plain'' ''in'',
     edgeArg ''edge-virtual-filter-regex'' ''virtual'' ''rx'' ''filter-regex'' ''in'',
     edgeArg ''edge-virtual-filter-expression'' ''virtual'' ''rx'' ''filter-expression'' ''in'',
     edgeArg ''edge-filter-plain-monitor'' ''filter-plain'' ''out'' ''monitor-plain'' ''in'',
     edgeArg ''edge-filter-regex-monitor'' ''filter-regex'' ''out'' ''monitor-regex'' ''in'',
     edgeArg ''edge-filter-expression-monitor'' ''filter-expression'' ''out'' ''monitor-expression'' ''in'']"

definition serialGraphObservabilityDemoTemplate :: "demoArgs \<Rightarrow> graphStartArgs" where
  "serialGraphObservabilityDemoTemplate args =
     (let graphID = (let g = trim_space (daGraphID args) in if g = [] then ''serial-observability-mcp-demo'' else g);
          portName = trim_space (daPortName args);
          generatorConfig = withConfig scriptDefaultsForTemplate
            [(''script'', CString (''output.text(\"OK TEMP=42'' @ escaped_crlf @ ''\", \"utf-8\")'')),
             (''autoRun'', CBool True), (''intervalMs'', CInt 1000)] in
      \<lparr>gaID = graphID, gaNodes = observabilityNodes generatorConfig portName, gaEdges = observabilityEdges\<rparr>)"

text \<open>The configuration of the remote nodes, and the topology built from the two of them.\<close>

definition remoteBaseConfig :: "string \<Rightarrow> int \<Rightarrow> bool \<Rightarrow> config" where
  "remoteBaseConfig host p allow =
    [(''protocol'', CString ''raw-tcp''), (''host'', CString host), (''port'', CInt p), (''connectTimeoutMs'', CInt 3000),
     (''writeTimeoutMs'', CInt 3000), (''reconnect'', CBool True), (''reconnectIntervalMs'', CInt 1000),
     (''allowStartDisconnected'', CBool allow), (''readBufKB'', CInt 32), (''baudRate'', CInt 115200), (''dataBits'', CInt 8),
     (''stopBits'', CString ''1''), (''parity'', CString ''none''), (''flowMode'', CString ''none''),
     (''viewMode'', CString ''ascii''), (''autoScroll'', CBool True), (''showTimestamp'', CBool True)]"

definition remoteNodes :: "config \<Rightarrow> config \<Rightarrow> config \<Rightarrow> graphNodeArg list" where
  "remoteNodes generatorConfig serverConfig clientConfig =
    [nodeArg ''client-generator'' ''serial.script.generator'' 20 240 generatorConfig,
     nodeArg ''a-remote-server'' ''serial.remote'' 260 60 serverConfig,
     nodeArg ''b-remote-client'' ''serial.remote'' 260 240 clientConfig,
     nodeArg ''server-monitor'' ''serial.monitor'' 520 60 [(''displayMode'', CString ''hex'')],
     nodeArg ''client-monitor'' ''serial.monitor'' 520 240 [(''displayMode'', CString ''hex'')]]"

definition remoteEdges :: "graphEdgeArg list" where
  "remoteEdges =
    [edgeArg ''edge-client-generator-remote'' ''client-generator'' ''out'' ''b-remote-client'' ''tx'',
     edgeArg ''edge-server-remote-monitor'' ''a-remote-server'' ''rx'' ''server-monitor'' ''in'',
     edgeArg ''edge-client-remote-monitor'' ''b-remote-client'' ''rx'' ''client-monitor'' ''in'']"

definition remoteDemoGraph :: "string \<Rightarrow> config \<Rightarrow> config \<Rightarrow> graphStartArgs" where
  "remoteDemoGraph graphID serverConfig clientConfig =
     \<lparr>gaID = graphID,
      gaNodes = remoteNodes (withConfig scriptDefaultsForTemplate
         [(''script'', CString (''output.text(\"client -> server'' @ escaped_crlf @ ''\", \"utf-8\")'')),
          (''autoRun'', CBool True), (''intervalMs'', CInt 1000)]) serverConfig clientConfig,
      gaEdges = remoteEdges\<rparr>"

datatype demo_error = RemoteHostHasScheme | RemotePortNotInteger | RemotePortOutOfRange int | RemoteConfigInvalid "graph_error list"

definition serialGraphRemoteDemoTemplate :: "demoArgs \<Rightarrow> demo_error + graphStartArgs" where
  "serialGraphRemoteDemoTemplate args =
     (let graphID = (let g = trim_space (daGraphID args) in if g = [] then ''serial-remote-raw-tcp-mcp-demo'' else g);
          host = (let h = trim_space (daRemoteHost args) in if h = [] then ''127.0.0.1'' else h);
          portValue = (if daRemotePort args = CNil then CInt 3001 else daRemotePort args) in
      if contains host ''://'' then Inl RemoteHostHasScheme
      else case serialGraphStrictIntConfig [(''remote_port'', portValue)] ''remote_port'' 3001 of
        None \<Rightarrow> Inl RemotePortNotInteger
      | Some p \<Rightarrow>
          if p < 1 \<or> 65535 < p then Inl (RemotePortOutOfRange p)
          else let base = remoteBaseConfig host p (daAllowStartDisconnected args);
              serverConfig = withConfig base [(''role'', CString ''server''), (''reconnect'', CBool False), (''allowStartDisconnected'', CBool False)];
              clientConfig = withConfig base [(''role'', CString ''client''), (''reconnect'', CBool True),
                (''allowStartDisconnected'', CBool (daAllowStartDisconnected args))] in
            (case validateSerialGraphRemoteConfig ''a-remote-server'' serverConfig of
               e # es \<Rightarrow> Inl (RemoteConfigInvalid (e # es))
             | [] \<Rightarrow> (case validateSerialGraphRemoteConfig ''b-remote-client'' clientConfig of
                   e # es \<Rightarrow> Inl (RemoteConfigInvalid (e # es))
                 | [] \<Rightarrow> Inr (remoteDemoGraph graphID serverConfig clientConfig))))"

definition serialGraphDemoTemplate :: "demoArgs \<Rightarrow> (demo_error + graphStartArgs) option" where
  "serialGraphDemoTemplate args =
     (if daID args = observabilityTemplateID then Some (Inr (serialGraphObservabilityDemoTemplate args))
      else if daID args = remoteTemplateID then Some (serialGraphRemoteDemoTemplate args)
      else None)"

end
