(* ===== verification/McpGraphFacts.thy ===== *)
theory McpGraphFacts
  imports McpGraph
begin

text \<open>
  The validation of the MCP server against that of the runtime: they accept the same topologies, except
  that the server refuses a remote node whose protocol or role is given as blank text, which the runtime
  reads as the default. The topologies of the templates pass.
\<close>

section \<open>Nodes and their configuration\<close>

text \<open>A text that is given, but blank.\<close>

definition blank_text :: "config \<Rightarrow> string \<Rightarrow> bool" where
  "blank_text config key \<longleftrightarrow> (case map_of config key of None \<Rightarrow> False
     | Some v \<Rightarrow> v \<noteq> CNil \<and> (trim_space (sprint v) = [] \<or> trim_space (sprint v) = ''<nil>''))"

definition plain_node :: "graphNodeArg \<Rightarrow> bool" where
  "plain_node n \<longleftrightarrow> (if naType n = ''serial.remote''
     then \<not> (blank_text (naConfig n) ''protocol'' \<or> blank_text (naConfig n) ''role'') else True)"

lemma string_config: "\<not> blank_text c k \<Longrightarrow> serialGraphStringConfig c k f = graphStringConfigWithDefault c k f"
  by (auto simp: blank_text_def serialGraphStringConfig_def graphStringConfigWithDefault_def graphStringConfig_def
      split: option.splits)

lemma string_config_blank: "blank_text c k \<Longrightarrow> serialGraphStringConfig c k f \<in> {[], ''<nil>''}"
  by (auto simp: blank_text_def serialGraphStringConfig_def split: option.splits)

lemma string_config_empty: "serialGraphStringConfig c k [] = graphStringConfig c k"
  by (simp add: serialGraphStringConfig_def graphStringConfig_def split: option.split)

lemma strict_config: "serialGraphStrictIntConfig c k f = graphStrictIntConfig c k f"
  by (simp add: serialGraphStrictIntConfig_def graphStrictIntConfig_def split: option.split config_value.split)

lemma strict_range: "strictRange i n v lo hi = rangedInt i n v lo hi"
  by (simp add: strictRange_def rangedInt_def)

lemma remote_config:
  "validateSerialGraphRemoteConfig i c = [] \<longleftrightarrow>
     validateGraphRemoteConfig i c = [] \<and> \<not> blank_text c ''protocol'' \<and> \<not> blank_text c ''role''"
proof (cases "blank_text c ''protocol'' \<or> blank_text c ''role''")
  case True
  have "serialGraphStringConfig c ''protocol'' ''raw-tcp'' \<noteq> ''raw-tcp''" if "blank_text c ''protocol''"
    using string_config_blank [OF that, of "''raw-tcp''"] by auto
  moreover have "serialGraphStringConfig c ''role'' ''client'' \<notin> {''client'', ''server''}" if "blank_text c ''role''"
    using string_config_blank [OF that, of "''client''"] by auto
  ultimately have "validateSerialGraphRemoteConfig i c \<noteq> []"
    using True unfolding validateSerialGraphRemoteConfig_def Let_def by auto
  with True show ?thesis by blast
next
  case False
  then show ?thesis
    by (simp add: validateSerialGraphRemoteConfig_def validateGraphRemoteConfig_def string_config string_config_empty
        strict_config strict_range)
qed

text \<open>The two catalogues list the same kinds of nodes with the same ports.\<close>

definition specOf :: "graphProvider \<Rightarrow> providerSpec" where
  "specOf p = \<lparr>pvType = gpType p, pvInputs = gpInputs p, pvOutputs = gpOutputs p,
     pvResourceOwner = gpResourceOwner p, pvResourceKeys = gpResourceKeys p\<rparr>"

lemma same_catalogue: "map specOf serialGraphProviders = serialGraphRuntimeProviders"
  by (simp add: specOf_def serialGraphProviders_def serialGraphRuntimeProviders_def graphProviderOf_def provider_def
      graphPort_def inputPort_def outputPort_def)

lemma same_provider: "providerOf t = map_option specOf (serialGraphProviderMap t)"
proof -
  have "map_of (map (\<lambda>p. (pvType p, p)) (map specOf ps)) t = map_option specOf (map_of (map (\<lambda>p. (gpType p, p)) ps) t)" for ps
    by (induction ps) (auto simp: specOf_def)
  then show ?thesis by (simp only: providerOf_def serialGraphProviderMap_def flip: same_catalogue)
qed

lemma provider_exists: "providerOf t = None \<longleftrightarrow> serialGraphProviderMap t = None"
  by (simp add: same_provider)

lemma node_fields [simp]: "nsID (nodeOf n) = naID n" "nsType (nodeOf n) = naType n" "nsConfig (nodeOf n) = naConfig n"
  by (simp_all add: nodeOf_def)

lemma edge_fields [simp]: "esID (edgeOf e) = eaID e" "esSource (edgeOf e) = eaSource e" "esTarget (edgeOf e) = eaTarget e"
  "esSourceHandle (edgeOf e) = eaSourceHandle e" "esTargetHandle (edgeOf e) = eaTargetHandle e"
  by (simp_all add: edgeOf_def)

definition specTable :: "arg_table \<Rightarrow> node_table" where
  "specTable t = map (\<lambda>(i, n). (i, nodeOf n)) t"

lemma map_of_specTable: "map_of (specTable t) i = map_option nodeOf (map_of t i)"
  by (induction t) (auto simp: specTable_def)

lemma specTable_put: "specTable (table_put i n t) = table_put i (nodeOf n) (specTable t)"
proof -
  have "map (\<lambda>(i, n). (i, nodeOf n)) (filter (\<lambda>(j, _). j \<noteq> i) t)
      = filter (\<lambda>(j, _). j \<noteq> i) (map (\<lambda>(i, n). (i, nodeOf n)) t)"
    by (induction t) auto
  then show ?thesis by (simp add: specTable_def table_put_def table_del_def)
qed

lemma nodes_agree:
  "snd (validateNodes (map nodeOf ns) (specTable t)) = specTable (snd (graphNodesValid ns t)) \<and>
   (fst (graphNodesValid ns t) = [] \<longleftrightarrow> fst (validateNodes (map nodeOf ns) (specTable t)) = [] \<and> list_all plain_node ns)"
proof (induction ns arbitrary: t)
  case (Cons n ns)
  show ?case
  proof (cases "naID n = [] \<or> map_of t (naID n) \<noteq> None")
    case True
    with Cons.IH [of t] show ?thesis by (auto simp: map_of_specTable split: prod.splits)
  next
    case False
    have put: "table_put (naID n) (nodeOf n) (specTable t) = specTable (table_put (naID n) n t)" by (simp add: specTable_put)
    obtain es t1 where m: "graphNodesValid ns (table_put (naID n) n t) = (es, t1)"
      by (cases "graphNodesValid ns (table_put (naID n) n t)")
    obtain es' t1' where r: "validateNodes (map nodeOf ns) (specTable (table_put (naID n) n t)) = (es', t1')"
      by (cases "validateNodes (map nodeOf ns) (specTable (table_put (naID n) n t))")
    from Cons.IH [of "table_put (naID n) n t"] have ih: "t1' = specTable t1" "es = [] \<longleftrightarrow> es' = [] \<and> list_all plain_node ns"
      by (simp_all add: m r)
    from False show ?thesis
      by (simp add: put map_of_specTable provider_exists remote_config plain_node_def [of n] m r ih conj_ac)
  qed
qed simp

section \<open>Resources\<close>

lemma claims_values:
  "claimValues config i keys used = claimKeys i used (List.map_filter (\<lambda>key.
     let value = trim_space (case map_of config key of None \<Rightarrow> ''<nil>'' | Some v \<Rightarrow> sprint v) in
     if value = [] \<or> value = ''<nil>'' then None
     else Some (key @ '':'' @ value, \<lambda>previous. ResourceDuplicated value previous i)) keys)"
proof (induction keys arbitrary: used)
  case (Cons key keys)
  have "sprint (case map_of config key of None \<Rightarrow> CNil | Some v \<Rightarrow> v) = (case map_of config key of None \<Rightarrow> ''<nil>'' | Some v \<Rightarrow> sprint v)"
    by (simp split: option.split)
  with Cons show ?case by (simp add: List.map_filter_simps Let_def split: option.split prod.split)
qed (simp add: List.map_filter_simps)

lemma rangedInt_ok: "rangedInt i n v lo hi = [] \<longleftrightarrow> (case v of None \<Rightarrow> False | Some x \<Rightarrow> 0 < x \<and> lo \<le> x \<and> x \<le> hi)"
  by (auto simp: rangedInt_def split: option.split)

lemma remote_config_name: "validateGraphRemoteConfig i c = [] \<longleftrightarrow> validateGraphRemoteConfig j c = []"
  by (simp add: validateGraphRemoteConfig_def rangedInt_ok Let_def split: option.split)

lemma endpoint_agrees:
  assumes "validateSerialGraphRemoteConfig i c = []"
  obtains e where "serialGraphRemoteEndpoint lower c = Some e" "graphRemoteEndpoint lower c = Inr e"
proof -
  from assms have r: "validateGraphRemoteConfig i c = []" by (simp add: remote_config)
  have "validateGraphRemoteConfig ''remote'' c = []" using r by (simp only: remote_config_name [of "''remote''" c i])
  moreover from r obtain p where "graphStrictIntConfig c ''port'' 3001 = Some p" "1 \<le> p" "p \<le> 65535"
    by (auto simp: validateGraphRemoteConfig_def Let_def split: option.splits if_splits)
  moreover from r have "graphStringConfig c ''host'' \<noteq> []" "\<not> contains (graphStringConfig c ''host'') ''://''"
    by (auto simp: validateGraphRemoteConfig_def Let_def split: if_splits)
  ultimately show ?thesis
    by (intro that) (auto simp: serialGraphRemoteEndpoint_def graphRemoteEndpoint_def string_config_empty strict_config Let_def)
qed

lemmas claims_of = resourceClaims_def [of lower "nodeOf n" for lower n, unfolded node_fields]

lemma resources_agree:
  "list_all (\<lambda>n. naType n = ''serial.remote'' \<longrightarrow> validateSerialGraphRemoteConfig (naID n) (naConfig n) = []) ns \<Longrightarrow>
   resourceOwners lower ns used = claimResources lower used (map nodeOf ns)"
proof (induction ns arbitrary: used)
  case (Cons n ns)
  show ?case
  proof (cases "serialGraphProviderMap (naType n)")
    case None
    with Cons show ?thesis by (simp add: resourceClaims_def same_provider)
  next
    case (Some p)
    show ?thesis
    proof (cases "naType n = ''serial.remote''")
      case True
      with Cons.prems have v: "validateSerialGraphRemoteConfig (naID n) (naConfig n) = []" by simp
      then obtain e where e: "serialGraphRemoteEndpoint lower (naConfig n) = Some e" "graphRemoteEndpoint lower (naConfig n) = Inr e"
        by (rule endpoint_agrees)
      from v have role: "serialGraphStringConfig (naConfig n) ''role'' ''client'' = graphStringConfigWithDefault (naConfig n) ''role'' ''client''"
        by (simp add: remote_config string_config)
      from Cons True Some show ?thesis
        by (simp add: resourceClaims_def same_provider specOf_def e role Let_def split: option.split)
    next
      case False
      with Cons Some show ?thesis
        by (simp add: claims_of same_provider specOf_def claims_values split: prod.split)
    qed
  qed
qed simp

section \<open>Connections\<close>

lemma other_edges:
  "graphRuntimeOtherEdges (map (\<lambda>e. edgeOf (normalizeSerialGraphEdge e)) es) i = map edgeOf (serialGraphOtherEdges es i)"
  by (induction es) (simp_all add: graphRuntimeOtherEdges_def serialGraphOtherEdges_def)

lemma terminal_agrees: "graphRuntimeEdgeTargetsTerminalProtocolInput (specTable t) (edgeOf e) = edgeTargetsTerminalInput t e"
  by (simp add: graphRuntimeEdgeTargetsTerminalProtocolInput_def edgeTargetsTerminalInput_def map_of_specTable split: option.split)

lemma pushed_agrees: "pushTargets (specTable t) (map edgeOf es) i = pushed t es i"
  by (induction es) (simp_all add: pushTargets_def pushed_def terminal_agrees)

lemma search_agrees: "searchSource (specTable t) (map edgeOf es) s v st = cycleSearch t es s v st"
  by (induction t es s v st rule: cycleSearch.induct) (simp_all add: pushed_agrees)

lemma cycle_agrees: "graphRuntimeCreatesCycle (edgeOf e) (map edgeOf es) (specTable t) = serialGraphCreatesCycle e es t"
  by (simp only: graphRuntimeCreatesCycle_def serialGraphCreatesCycle_def search_agrees edge_fields)

lemma target_taken:
  "list_ex (\<lambda>e. esTarget e = x \<and> esTargetHandle e = h) (map edgeOf es) = list_ex (\<lambda>e. eaTarget e = x \<and> eaTargetHandle e = h) es"
  by (induction es) simp_all

lemma connection_agrees:
  assumes "\<And>i n. map_of t i = Some n \<Longrightarrow> serialGraphProviderMap (naType n) \<noteq> None"
    and "gqEdges req = map (\<lambda>e. edgeOf (normalizeSerialGraphEdge e)) (gvEdges graph)"
  shows "validateSerialGraphConnection graph e t = [] \<longleftrightarrow> validateGraphRuntimeEdge req (edgeOf e) (specTable t) = []"
proof (cases "map_of t (eaSource e) = None \<or> map_of t (eaTarget e) = None")
  case True
  then show ?thesis
    by (auto simp: validateSerialGraphConnection_def validateGraphRuntimeEdge_def map_of_specTable split: option.split)
next
  case False
  then obtain a b where ab: "map_of t (eaSource e) = Some a" "map_of t (eaTarget e) = Some b" by auto
  with assms(1) obtain p q where pq: "serialGraphProviderMap (naType a) = Some p" "serialGraphProviderMap (naType b) = Some q"
    by (meson not_None_eq)
  show ?thesis
    by (simp add: validateSerialGraphConnection_def validateGraphRuntimeEdge_def map_of_specTable ab pq same_provider
        specOf_def mcpOutputPort_def mcpInputPort_def graphRuntimePort_def connectPorts_def assms(2) other_edges
        terminal_agrees cycle_agrees target_taken Let_def split: option.split)
qed

lemma edges_agree:
  assumes "\<And>i n. map_of t i = Some n \<Longrightarrow> serialGraphProviderMap (naType n) \<noteq> None"
    and "gqEdges req = map (\<lambda>e. edgeOf (normalizeSerialGraphEdge e)) (gvEdges graph)"
  shows "graphEdgesValid graph t seen es = [] \<longleftrightarrow>
    validateEdges req (specTable t) seen (map (\<lambda>e. edgeOf (normalizeSerialGraphEdge e)) es) = []"
  by (induction es arbitrary: seen) (simp_all add: connection_agrees [OF assms] Let_def)

section \<open>The two validations\<close>

definition providers_known :: "arg_table \<Rightarrow> bool" where
  "providers_known t \<longleftrightarrow> (\<forall>i n. map_of t i = Some n \<longrightarrow> serialGraphProviderMap (naType n) \<noteq> None)"

lemma nodes_valid:
  "fst (graphNodesValid ns t) = [] \<Longrightarrow> providers_known t \<Longrightarrow>
     providers_known (snd (graphNodesValid ns t))
     \<and> list_all (\<lambda>n. naType n = ''serial.remote'' \<longrightarrow> validateSerialGraphRemoteConfig (naID n) (naConfig n) = []) ns"
proof (induction ns arbitrary: t)
  case (Cons n ns)
  from Cons.prems(1) have ok: "naID n \<noteq> []" "map_of t (naID n) = None" "serialGraphProviderMap (naType n) \<noteq> None"
    "naType n = ''serial.remote'' \<Longrightarrow> validateSerialGraphRemoteConfig (naID n) (naConfig n) = []"
    "fst (graphNodesValid ns (table_put (naID n) n t)) = []"
    by (auto split: if_splits prod.splits)
  from ok(3) Cons.prems(2) have "providers_known (table_put (naID n) n t)" by (simp add: providers_known_def)
  from Cons.IH [OF ok(5) this] ok show ?case by (auto split: prod.split)
qed simp

lemma validations_agree:
  "validateSerialGraph lower \<lparr>gvNodes = gaNodes args, gvEdges = gaEdges args\<rparr> = [] \<longleftrightarrow>
     validateSerialGraphRuntimeRequest lower (serialGraphStartRequest args) = [] \<and> list_all plain_node (gaNodes args)"
proof -
  let ?graph = "\<lparr>gvNodes = gaNodes args, gvEdges = gaEdges args\<rparr>" and ?req = "serialGraphStartRequest args"
  obtain es t where m: "graphNodesValid (gaNodes args) [] = (es, t)" by (cases "graphNodesValid (gaNodes args) []")
  obtain es' where r: "validateNodes (map nodeOf (gaNodes args)) [] = (es', specTable t)"
    using nodes_agree [of "gaNodes args" "[]"]
    by (cases "validateNodes (map nodeOf (gaNodes args)) []") (simp add: m specTable_def)
  have nodes: "es = [] \<longleftrightarrow> es' = [] \<and> list_all plain_node (gaNodes args)"
    using nodes_agree [of "gaNodes args" "[]"] by (simp add: m r specTable_def)
  have req: "gqNodes ?req = map nodeOf (gaNodes args)" "gqEdges ?req = map (\<lambda>e. edgeOf (normalizeSerialGraphEdge e)) (gvEdges ?graph)"
    by (simp_all add: serialGraphStartRequest_def)
  have rest: "validateSerialGraphResourceOwners lower (gaNodes args) = validateGraphRuntimeResources lower (map nodeOf (gaNodes args))
      \<and> (graphEdgesValid ?graph t [] (gaEdges args) = [] \<longleftrightarrow> validateEdges ?req (specTable t) [] (gqEdges ?req) = [])"
    if "es = []"
  proof -
    from that nodes_valid [of "gaNodes args" "[]"] have v: "providers_known t"
      "list_all (\<lambda>n. naType n = ''serial.remote'' \<longrightarrow> validateSerialGraphRemoteConfig (naID n) (naConfig n) = []) (gaNodes args)"
      by (simp_all add: m providers_known_def)
    from v(1) have p: "\<And>i n. map_of t i = Some n \<Longrightarrow> serialGraphProviderMap (naType n) \<noteq> None" by (simp add: providers_known_def)
    have "graphEdgesValid ?graph t [] (gaEdges args) = [] \<longleftrightarrow> validateEdges ?req (specTable t) [] (gqEdges ?req) = []"
      using edges_agree [OF p req(2), where seen = "[]" and es = "gaEdges args"] by (simp add: req(2))
    with resources_agree [OF v(2), of lower "[]"] show ?thesis
      by (simp only: validateSerialGraphResourceOwners_def validateGraphRuntimeResources_def)
  qed
  show ?thesis
    using nodes rest by (cases "es = []") (simp_all add: validateSerialGraph_def validateSerialGraphRuntimeRequest_def m r req)
qed

text \<open>C22: the validation offered by the MCP server accepts a topology exactly when the runtime will accept
  the request made from it, apart from remote nodes with a protocol or role of blank text: the server
  refuses those, while the runtime takes the default.\<close>

theorem mcp_validation_exact:
  "validateSerialGraph lower \<lparr>gvNodes = gaNodes args, gvEdges = gaEdges args\<rparr> = [] \<longleftrightarrow>
     validateSerialGraphRuntimeRequest lower (serialGraphStartRequest args) = [] \<and> list_all plain_node (gaNodes args)"
  by (rule validations_agree)

text \<open>The difference: a remote node with the role given as the empty text.\<close>

definition blankRole :: graphStartArgs where
  "blankRole = \<lparr>gaID = ''g'', gaNodes = [\<lparr>naID = ''r'', naType = ''serial.remote'', naX = 0, naY = 0,
     naConfig = [(''host'', CString ''10.0.0.1''), (''role'', CString [])]\<rparr>], gaEdges = []\<rparr>"

lemma blank_role_refused:
  "validateSerialGraph to_lower \<lparr>gvNodes = gaNodes blankRole, gvEdges = gaEdges blankRole\<rparr> = [AtGraph (RemoteRole ''r'' [])]"
  "validateSerialGraphRuntimeRequest to_lower (serialGraphStartRequest blankRole) = []"
  by code_simp+

section \<open>The templates\<close>

lemma observability_nodes: "fst (graphNodesValid (observabilityNodes g p) []) = []"
  by code_simp

lemma observability_edges:
  "graphEdgesValid \<lparr>gvNodes = ns, gvEdges = observabilityEdges\<rparr> (snd (graphNodesValid (observabilityNodes g p) [])) []
     observabilityEdges = []"
  by code_simp

lemma not_owner:
  "map_option gpResourceOwner (serialGraphProviderMap (naType n)) = Some False \<Longrightarrow>
     resourceOwners lower (n # ns) used = resourceOwners lower ns used"
  by (auto split: option.splits)

lemma no_owners: "list_all (\<lambda>n. map_option gpResourceOwner (serialGraphProviderMap (naType n)) = Some False) ns \<Longrightarrow>
    resourceOwners lower ns used = []"
proof (induction ns)
  case (Cons n ns)
  then have "map_option gpResourceOwner (serialGraphProviderMap (naType n)) = Some False" by simp
  with Cons show ?case by (simp only: not_owner) simp
qed simp

lemma owner_kinds:
  "map_option gpResourceOwner (serialGraphProviderMap ''serial.script.generator'') = Some False"
  "map_option gpResourceOwner (serialGraphProviderMap ''serial.filter'') = Some False"
  "map_option gpResourceOwner (serialGraphProviderMap ''serial.monitor'') = Some False"
  "map_option gpResourceOwner (serialGraphProviderMap ''serial.remote'') = Some True"
  "map_option (\<lambda>p. (gpResourceOwner p, gpResourceKeys p)) (serialGraphProviderMap ''serial.virtual'') = Some (True, [''portName''])"
  by code_simp+

lemma observability_resources: "resourceOwners lower (observabilityNodes g p) [] = []"
proof -
  obtain v rest where ns: "observabilityNodes g p = nodeArg ''generator'' ''serial.script.generator'' 20 80 g # v # rest"
    and v: "naType v = ''serial.virtual''"
    and rest: "list_all (\<lambda>n. map_option gpResourceOwner (serialGraphProviderMap (naType n)) = Some False) rest"
    using owner_kinds by (auto simp add: observabilityNodes_def nodeArg_def)
  obtain q where q: "serialGraphProviderMap ''serial.virtual'' = Some q" "gpResourceOwner q" "gpResourceKeys q = [''portName'']"
    using owner_kinds(5) by auto
  have "resourceOwners lower (v # rest) [] = []"
    using no_owners [OF rest] by (simp add: v q Let_def)
  then show ?thesis unfolding ns by (subst not_owner) (simp_all add: nodeArg_def owner_kinds)
qed

lemma observability_valid:
  "validateSerialGraph lower \<lparr>gvNodes = observabilityNodes g p, gvEdges = observabilityEdges\<rparr> = []"
  using observability_nodes [of g p] observability_edges [of "observabilityNodes g p" g p] observability_resources [of lower g p]
  by (cases "graphNodesValid (observabilityNodes g p) []")
    (simp add: validateSerialGraph_def validateSerialGraphResourceOwners_def)

lemma known_kinds: "serialGraphProviderMap ''serial.script.generator'' \<noteq> None" "serialGraphProviderMap ''serial.monitor'' \<noteq> None"
  "serialGraphProviderMap ''serial.remote'' \<noteq> None"
  using owner_kinds by auto

lemma remote_nodes:
  "fst (graphNodesValid (remoteNodes g s c) []) =
     validateSerialGraphRemoteConfig ''a-remote-server'' s @ validateSerialGraphRemoteConfig ''b-remote-client'' c"
  using known_kinds by (simp add: remoteNodes_def nodeArg_def)

lemma remote_table: "snd (graphNodesValid (remoteNodes g s c) []) = rev (map (\<lambda>n. (naID n, n)) (remoteNodes g s c))"
  by (simp add: remoteNodes_def nodeArg_def table_put_def table_del_def)

lemma remote_edges:
  "graphEdgesValid \<lparr>gvNodes = ns, gvEdges = remoteEdges\<rparr> (rev (map (\<lambda>n. (naID n, n)) (remoteNodes g s c))) [] remoteEdges = []"
  by code_simp

lemma remote_resources:
  assumes "serialGraphRemoteEndpoint lower s = Some e" "serialGraphRemoteEndpoint lower c = Some e"
    and "serialGraphStringConfig s ''role'' ''client'' = ''server''" "serialGraphStringConfig c ''role'' ''client'' = ''client''"
  shows "resourceOwners lower (remoteNodes g s c) [] = []"
proof -
  obtain q where q: "serialGraphProviderMap ''serial.remote'' = Some q" "gpResourceOwner q" using owner_kinds(4) by auto
  obtain n1 n2 rest where ns: "remoteNodes g s c = nodeArg ''client-generator'' ''serial.script.generator'' 20 240 g # n1 # n2 # rest"
    and n: "naType n1 = ''serial.remote''" "naConfig n1 = s" "naType n2 = ''serial.remote''" "naConfig n2 = c"
    and rest: "list_all (\<lambda>n. map_option gpResourceOwner (serialGraphProviderMap (naType n)) = Some False) rest"
    using owner_kinds by (auto simp add: remoteNodes_def nodeArg_def)
  have "resourceOwners lower (n1 # n2 # rest) [] = []"
    using assms no_owners [OF rest] by (simp add: n q Let_def)
  then show ?thesis unfolding ns by (subst not_owner) (simp_all add: nodeArg_def owner_kinds)
qed

lemma remote_valid:
  assumes "validateSerialGraphRemoteConfig ''a-remote-server'' s = []" "validateSerialGraphRemoteConfig ''b-remote-client'' c = []"
    and "serialGraphRemoteEndpoint lower s = serialGraphRemoteEndpoint lower c"
    and "serialGraphStringConfig s ''role'' ''client'' = ''server''" "serialGraphStringConfig c ''role'' ''client'' = ''client''"
  shows "validateSerialGraph lower \<lparr>gvNodes = remoteNodes g s c, gvEdges = remoteEdges\<rparr> = []"
proof -
  from assms(1) obtain e where "serialGraphRemoteEndpoint lower s = Some e" by (rule endpoint_agrees)
  with assms have "resourceOwners lower (remoteNodes g s c) [] = []" by (intro remote_resources [where e = e]) simp_all
  with assms(1,2) remote_edges [of "remoteNodes g s c" g s c] remote_nodes [of g s c] remote_table [of g s c]
  show ?thesis
    by (cases "graphNodesValid (remoteNodes g s c) []")
      (simp add: validateSerialGraph_def validateSerialGraphResourceOwners_def)
qed

text \<open>whatever arguments a template of the MCP server is asked for with, the topology it returns passes
  the validation, and the runtime accepts it.\<close>

theorem demo_templates_valid:
  assumes "serialGraphDemoTemplate args = Some (Inr t)"
  shows "validateSerialGraph lower \<lparr>gvNodes = gaNodes t, gvEdges = gaEdges t\<rparr> = []
    \<and> validateSerialGraphRuntimeRequest lower (serialGraphStartRequest t) = []"
proof -
  have "validateSerialGraph lower \<lparr>gvNodes = gaNodes t, gvEdges = gaEdges t\<rparr> = []"
  proof (cases "daID args = observabilityTemplateID")
    case True
    with assms have "t = serialGraphObservabilityDemoTemplate args" by (simp add: serialGraphDemoTemplate_def)
    then show ?thesis by (simp add: serialGraphObservabilityDemoTemplate_def observability_valid Let_def)
  next
    case False
    with assms have "serialGraphRemoteDemoTemplate args = Inr t" by (simp add: serialGraphDemoTemplate_def split: if_splits)
    then obtain graphID host p s c where t: "t = remoteDemoGraph graphID s c"
      and v: "validateSerialGraphRemoteConfig ''a-remote-server'' s = []" "validateSerialGraphRemoteConfig ''b-remote-client'' c = []"
      and s: "s = withConfig (remoteBaseConfig host p (daAllowStartDisconnected args))
        [(''role'', CString ''server''), (''reconnect'', CBool False), (''allowStartDisconnected'', CBool False)]"
      and c: "c = withConfig (remoteBaseConfig host p (daAllowStartDisconnected args)) [(''role'', CString ''client''),
        (''reconnect'', CBool True), (''allowStartDisconnected'', CBool (daAllowStartDisconnected args))]"
      by (auto simp: serialGraphRemoteDemoTemplate_def Let_def split: option.splits if_splits list.splits)
    have "trim_space ''server'' = ''server''" "trim_space ''client'' = ''client''" by code_simp+
    then have "serialGraphStringConfig s ''role'' ''client'' = ''server''" "serialGraphStringConfig c ''role'' ''client'' = ''client''"
      by (simp_all add: s c withConfig_def table_put_all_def serialGraphStringConfig_def)
    moreover have "serialGraphRemoteEndpoint lower s = serialGraphRemoteEndpoint lower c"
      by (simp add: s c withConfig_def table_put_all_def remoteBaseConfig_def serialGraphRemoteEndpoint_def
          serialGraphStringConfig_def serialGraphStrictIntConfig_def)
    ultimately show ?thesis using v by (simp add: t remoteDemoGraph_def remote_valid)
  qed
  then show ?thesis by (simp add: validations_agree)
qed

definition sampleDemoArgs :: demoArgs where
  "sampleDemoArgs = \<lparr>daID = remoteTemplateID, daGraphID = [], daPortName = [], daRemoteHost = ''10.0.0.1'',
     daRemotePort = CString ''4001'', daAllowStartDisconnected = True\<rparr>"

lemma sample_demo: "\<exists>t. serialGraphDemoTemplate sampleDemoArgs = Some (Inr t)"
proof -
  have "(case serialGraphDemoTemplate sampleDemoArgs of Some (Inr t) \<Rightarrow> True | _ \<Rightarrow> False)" by code_simp
  then show ?thesis by (auto split: option.splits sum.splits)
qed

theorem demo_templates_valid_witness:
  "\<exists>t. serialGraphDemoTemplate sampleDemoArgs = Some (Inr t)
    \<and> validateSerialGraphRuntimeRequest to_lower (serialGraphStartRequest t) = []"
  using sample_demo demo_templates_valid [of sampleDemoArgs _ to_lower] by blast

end
