(* ===== verification/Float64.thy ===== *)
theory Float64
  imports Prelude Complex_Main
begin

text \<open>
  The type \<open>float64\<close> of Go: binary floating point with 53 bits of precision, rounding to the nearest
  value with ties to even, gradual underflow and infinities. A finite value is the rational number it
  denotes. The two zeros are one value: no operation used by the program tells them apart, since a
  divisor is never zero where it divides and a zero is displayed as an integer. Go leaves the conversion
  of a number out of range to \<open>int64\<close> to the machine; it is an argument (\<open>wild\<close>) where it occurs.
\<close>

datatype float64 = NaN | Infinite bool | Finite rat

section \<open>Rounding\<close>

definition pow2 :: "int \<Rightarrow> rat" where
  "pow2 k = (if 0 \<le> k then 2 ^ nat k else 1 / 2 ^ nat (- k))"

fun bit_length :: "nat \<Rightarrow> nat" where
  "bit_length n = (if n = 0 then 0 else Suc (bit_length (n div 2)))"

declare bit_length.simps [simp del]

text \<open>The exponent of the leading binary digit of a positive number.\<close>

definition exponent_of :: "rat \<Rightarrow> int" where
  "exponent_of q =
     (let (n, d) = quotient_of q; k = int (bit_length (nat n)) - int (bit_length (nat d))
      in if pow2 k \<le> q then k else k - 1)"

definition round_even :: "rat \<Rightarrow> int" where
  "round_even q =
     (let f = \<lfloor>q\<rfloor>; r = q - of_int f
      in if r < 1 / 2 \<or> r = 1 / 2 \<and> even f then f else f + 1)"

definition round64 :: "rat \<Rightarrow> float64" where
  "round64 q =
     (if q = 0 then Finite 0
      else let e = max (exponent_of \<bar>q\<bar> - 52) (- 1074);
               v = of_int (round_even (q / pow2 e)) * pow2 e
           in if pow2 1024 \<le> \<bar>v\<bar> then Infinite (q < 0) else Finite v)"

section \<open>Operations\<close>

definition float_of_int :: "int \<Rightarrow> float64" where
  "float_of_int n = round64 (of_int n)"

fun negative :: "float64 \<Rightarrow> bool" where
  "negative NaN = False"
| "negative (Infinite s) = s"
| "negative (Finite q) = (q < 0)"

fun float_neg :: "float64 \<Rightarrow> float64" where
  "float_neg NaN = NaN"
| "float_neg (Infinite s) = Infinite (\<not> s)"
| "float_neg (Finite q) = Finite (- q)"

fun float_add :: "float64 \<Rightarrow> float64 \<Rightarrow> float64" where
  "float_add NaN y = NaN"
| "float_add x NaN = NaN"
| "float_add (Infinite s) (Infinite t) = (if s = t then Infinite s else NaN)"
| "float_add (Infinite s) (Finite q) = Infinite s"
| "float_add (Finite q) (Infinite t) = Infinite t"
| "float_add (Finite p) (Finite q) = round64 (p + q)"

definition float_sub :: "float64 \<Rightarrow> float64 \<Rightarrow> float64" where
  "float_sub x y = float_add x (float_neg y)"

fun float_mul :: "float64 \<Rightarrow> float64 \<Rightarrow> float64" where
  "float_mul NaN y = NaN"
| "float_mul x NaN = NaN"
| "float_mul (Finite p) (Finite q) = round64 (p * q)"
| "float_mul (Finite p) (Infinite t) = (if p = 0 then NaN else Infinite ((p < 0) \<noteq> t))"
| "float_mul (Infinite s) (Finite q) = (if q = 0 then NaN else Infinite (s \<noteq> (q < 0)))"
| "float_mul (Infinite s) (Infinite t) = Infinite (s \<noteq> t)"

text \<open>Division by zero does not occur in the program and is not given a sign.\<close>

fun float_div :: "float64 \<Rightarrow> float64 \<Rightarrow> float64" where
  "float_div NaN y = NaN"
| "float_div x NaN = NaN"
| "float_div (Infinite s) (Infinite t) = NaN"
| "float_div (Infinite s) (Finite q) = Infinite (s \<noteq> (q < 0))"
| "float_div (Finite p) (Infinite t) = Finite 0"
| "float_div (Finite p) (Finite q) =
     (if q \<noteq> 0 then round64 (p / q) else if p = 0 then NaN else Infinite (p < 0))"

text \<open>The operator \<open>==\<close>: nothing equals a NaN.\<close>

definition float_eq :: "float64 \<Rightarrow> float64 \<Rightarrow> bool" where
  "float_eq x y = (x \<noteq> NaN \<and> x = y)"

text \<open>\<open>math.Trunc\<close>\<close>

fun float_trunc :: "float64 \<Rightarrow> float64" where
  "float_trunc (Finite q) = Finite (of_int (if q < 0 then \<lceil>q\<rceil> else \<lfloor>q\<rfloor>))"
| "float_trunc x = x"

text \<open>\<open>int64(x)\<close>\<close>

definition float_to_int64 :: "(float64 \<Rightarrow> int) \<Rightarrow> float64 \<Rightarrow> int" where
  "float_to_int64 wild x =
     (case x of Finite q \<Rightarrow>
        (let n = (if q < 0 then \<lceil>q\<rceil> else \<lfloor>q\<rfloor>) in if - (2 ^ 63) \<le> n \<and> n < 2 ^ 63 then n else wild x)
      | _ \<Rightarrow> wild x)"

text \<open>
  \<open>math.Float64frombits\<close> and \<open>float64(math.Float32frombits(b))\<close>: the fields of the bit pattern, with
  \<open>p\<close> bits of fraction and \<open>e\<close> bits of exponent.
\<close>

definition float_from_bits :: "nat \<Rightarrow> nat \<Rightarrow> nat \<Rightarrow> float64" where
  "float_from_bits p e b =
     (let fraction = b mod 2 ^ p; ex = (b div 2 ^ p) mod 2 ^ e; sign = odd (b div 2 ^ (p + e));
          bias = 2 ^ (e - 1) - (1 :: int);
          magnitude = (if ex = 0 then of_nat fraction * pow2 (1 - bias - int p)
                       else of_nat (2 ^ p + fraction) * pow2 (int ex - bias - int p))
      in if ex = 2 ^ e - 1 then (if fraction = 0 then Infinite sign else NaN)
         else Finite (if sign then - magnitude else magnitude))"

section \<open>Integers up to 2 to the 53rd are represented\<close>

lemma pow2_pos [simp]: "0 < pow2 k"
  by (simp add: pow2_def)

lemma pow2_nonneg: "0 \<le> k \<Longrightarrow> pow2 k = 2 ^ nat k"
  by (simp add: pow2_def)

lemma pow2_Suc: "pow2 (k + 1) = 2 * pow2 k"
proof (cases "0 \<le> k")
  case True
  then show ?thesis by (simp add: pow2_def nat_add_distrib)
next
  case False
  then have "nat (- k) = Suc (nat (- k - 1))" by simp
  then show ?thesis using False by (cases "k = - 1") (simp_all add: pow2_def)
qed

lemma pow2_less_exp:
  assumes "pow2 a < pow2 b"
  shows "a < b"
proof (rule ccontr)
  have mono: "pow2 x \<le> pow2 (x + int n)" for x n
  proof (induction n)
    case (Suc n)
    have "pow2 (x + int (Suc n)) = 2 * pow2 (x + int n)"
      using pow2_Suc [of "x + int n"] by (simp add: ac_simps)
    moreover have "0 < pow2 (x + int n)" by simp
    ultimately show ?case using Suc by linarith
  qed simp
  assume "\<not> a < b"
  then have "pow2 b \<le> pow2 a" using mono [of b "nat (a - b)"] by simp
  with assms show False by simp
qed

lemma bit_length_upper: "n < 2 ^ bit_length n"
proof (induction n rule: bit_length.induct)
  case (1 n)
  show ?case
  proof (cases "n = 0")
    case False
    with 1 have "n div 2 < 2 ^ bit_length (n div 2)" by simp
    then have "n < 2 * 2 ^ bit_length (n div 2)" by linarith
    with False show ?thesis by (simp add: bit_length.simps [of n])
  qed simp
qed

lemma bit_length_lower: "0 < n \<Longrightarrow> 2 ^ bit_length n \<le> 2 * n"
proof (induction n rule: bit_length.induct)
  case (1 n)
  show ?case
  proof (cases "n = 1")
    case True
    then show ?thesis by (simp add: bit_length.simps)
  next
    case False
    then have "2 ^ bit_length (n div 2) \<le> 2 * (n div 2)" using 1 by simp
    then show ?thesis using 1 by (simp add: bit_length.simps [of n])
  qed
qed

text \<open>The exponent of the leading digit never exceeds the number.\<close>

lemma pow2_diff: "pow2 (int a - int b) * 2 ^ b = 2 ^ a"
proof (cases "b \<le> a")
  case True
  then show ?thesis by (simp add: pow2_def flip: power_add of_nat_diff)
next
  case False
  then have "nat (int b - int a) + a = b" by simp
  then have "(2 :: rat) ^ b = 2 ^ nat (int b - int a) * 2 ^ a" by (metis power_add)
  with False show ?thesis by (simp add: pow2_def)
qed

lemma exponent_of_le:
  assumes "0 < q"
  shows "pow2 (exponent_of q) \<le> q"
proof -
  obtain n d where nd: "quotient_of q = (n, d)" by (cases "quotient_of q")
  then have d: "0 < d" and q: "q = of_int n / of_int d"
    by (auto simp: quotient_of_denom_pos quotient_of_div)
  with assms have n: "0 < n" by (simp add: zero_less_divide_iff)
  define a where "a = bit_length (nat n)"
  define b where "b = bit_length (nat d)"
  have "2 ^ a \<le> 2 * nat n" using bit_length_lower [of "nat n"] n by (simp add: a_def)
  then have "(2 :: int) ^ a \<le> 2 * n" using n of_nat_le_iff [where ?'a = int, of "2 ^ a" "2 * nat n"] by simp
  then have "(2 :: rat) ^ a \<le> 2 * of_int n"
    using of_int_le_iff [where ?'a = rat, of "2 ^ a" "2 * n"] by simp
  moreover have "nat d < 2 ^ b" by (simp add: b_def bit_length_upper)
  then have "d < 2 ^ b" using d by (simp add: nat_less_iff)
  then have "(of_int d :: rat) < 2 ^ b" using of_int_less_iff [where ?'a = rat, of d "2 ^ b"] by simp
  moreover have "pow2 (int a - int b - 1) * 2 = pow2 (int a - int b)"
    using pow2_Suc [of "int a - int b - 1"] by simp
  moreover have "pow2 (int a - int b) * 2 ^ b = 2 ^ a" by (rule pow2_diff)
  ultimately have le: "2 * (pow2 (int a - int b - 1) * 2 ^ b) \<le> 2 * of_int n"
    and lt: "(of_int d :: rat) < 2 ^ b" by (metis (no_types) mult.assoc mult.commute)+
  have "pow2 (int a - int b - 1) * of_int d \<le> pow2 (int a - int b - 1) * 2 ^ b"
    using lt by (intro mult_left_mono) (simp_all add: less_imp_le)
  with le have "pow2 (int a - int b - 1) * of_int d \<le> of_int n" by linarith
  moreover have "(0 :: rat) < of_int d" using d by simp
  ultimately have "pow2 (int a - int b - 1) \<le> q" unfolding q by (simp only: pos_le_divide_eq)
  then show ?thesis by (simp add: exponent_of_def nd a_def b_def Let_def)
qed

lemma round_even_int [simp]: "round_even (of_int n) = n"
  by (simp add: round_even_def)

lemma round64_int:
  assumes "\<bar>n\<bar> \<le> 2 ^ 53"
  shows "round64 (of_int n) = Finite (of_int n)"
proof (cases "n = 0")
  case True
  then show ?thesis by (simp add: round64_def)
next
  case False
  define q where "q = (of_int n :: rat)"
  define e where "e = max (exponent_of \<bar>q\<bar> - 52) (- 1074)"
  have small: "\<bar>q\<bar> \<le> 2 ^ 53"
    using assms by (metis q_def of_int_abs of_int_le_iff of_int_numeral of_int_power)
  have "pow2 (exponent_of \<bar>q\<bar>) \<le> \<bar>q\<bar>" using False by (intro exponent_of_le) (simp add: q_def)
  with small have "pow2 (exponent_of \<bar>q\<bar>) \<le> 2 ^ 53" by linarith
  also have "(2 :: rat) ^ 53 < pow2 54" by (simp add: pow2_def)
  finally have "exponent_of \<bar>q\<bar> < 54" by (rule pow2_less_exp)
  then have e1: "e \<le> 1" by (simp add: e_def)
  have "\<exists>m. q / pow2 e = of_int m"
  proof (cases "e \<le> 0")
    case True
    then have "q / pow2 e = of_int (n * 2 ^ nat (- e))"
      by (cases "e = 0") (simp_all add: q_def pow2_def)
    then show ?thesis by blast
  next
    case False
    with e1 have "e = 1" by simp
    then have "exponent_of \<bar>q\<bar> = 53" by (simp add: e_def max_def split: if_splits)
    then have "2 ^ 53 \<le> \<bar>q\<bar>" using \<open>pow2 (exponent_of \<bar>q\<bar>) \<le> \<bar>q\<bar>\<close> by (simp add: pow2_def)
    with small have "\<bar>q\<bar> = 2 ^ 53" by simp
    then have "q = 2 ^ 53 \<or> q = - (2 ^ 53)" by linarith
    with \<open>e = 1\<close> have "q / pow2 e = of_int (2 ^ 52) \<or> q / pow2 e = of_int (- (2 ^ 52))"
      by (auto simp: pow2_def)
    then show ?thesis by blast
  qed
  then obtain m where m: "q / pow2 e = of_int m" by blast
  have "pow2 e \<noteq> 0" using pow2_pos [of e] by linarith
  with m have whole: "of_int m * pow2 e = q" by (simp add: nonzero_divide_eq_eq)
  have "\<not> pow2 1024 \<le> \<bar>q\<bar>"
  proof
    assume "pow2 1024 \<le> \<bar>q\<bar>"
    with small have "pow2 1024 \<le> 2 ^ 53" by linarith
    also have "(2 :: rat) ^ 53 < pow2 54" by (simp add: pow2_def)
    finally show False using pow2_less_exp by fastforce
  qed
  then show ?thesis
    using False by (simp add: round64_def flip: q_def) (simp add: Let_def m whole flip: e_def)
qed

lemma float_of_int_exact: "\<bar>n\<bar> \<le> 2 ^ 53 \<Longrightarrow> float_of_int n = Finite (of_int n)"
  by (simp add: float_of_int_def round64_int)

end
