(* ===== verification/ModbusConversion.thy ===== *)
theory ModbusConversion
  imports ModbusProtocol GoStrings Float64
begin

text \<open>
  The conversion between texts the user sees and the registers of a device, and the grouping of
  configured registers into blocks that are read together (\<open>modbus/conversion.go\<close>, types from
  \<open>modbus/types.go\<close>). Arguments: \<open>strconv.ParseFloat\<close> as the bit pattern it yields and
  \<open>strconv.FormatFloat\<close> with the shortest digits (\<open>float_texts\<close>), the offset of the local time zone in
  seconds at a Unix time, and the order \<open>sort.Slice\<close> gives to mappings with the same address.
\<close>

section \<open>Types\<close>

type_synonym data_type = string

abbreviation "DataTypeNone \<equiv> ''none''"
abbreviation "DataTypeInt16 \<equiv> ''int16''"
abbreviation "DataTypeUint16 \<equiv> ''uint16''"
abbreviation "DataTypeInt32 \<equiv> ''int32''"
abbreviation "DataTypeUint32 \<equiv> ''uint32''"
abbreviation "DataTypeInt64 \<equiv> ''int64''"
abbreviation "DataTypeUint64 \<equiv> ''uint64''"
abbreviation "DataTypeFloat \<equiv> ''float''"
abbreviation "DataTypeDouble \<equiv> ''double''"
abbreviation "DataTypeUnix \<equiv> ''unix''"
abbreviation "DataTypeDateTime \<equiv> ''datetime''"
abbreviation "DataTypeUTF8 \<equiv> ''utf8''"

record linearInterpolation =
  liX1 :: float64
  liX2 :: float64
  liY1 :: float64
  liY2 :: float64

record registerValueSpec =
  vsDataType :: data_type
  vsWordOrder :: string
  vsLength :: u16
  vsScalingFactor :: float64
  vsInterpolate :: "linearInterpolation option"
  vsLocalTime :: bool

record decodedRegisterValue =
  dvDataType :: data_type
  dvRaw :: "u16 list"
  dvDisplay :: string
  dvNumeric :: float64

record registerMapping =
  rmAddress :: u16
  rmDataType :: data_type
  rmWordOrder :: string
  rmLength :: u16
  rmScalingFactor :: float64
  rmComment :: string
  rmInterpolate :: "linearInterpolation option"
  rmGroupEnd :: bool

record addressGroup =
  agAddress :: u16
  agQuantity :: u16

datatype conversion_error =
    DataTypeIsNone
  | NotANumber
  | NeedRegisters nat nat
  | DateTimeLength
  | UnsupportedType data_type

record float_texts =
  ftParse32 :: "string \<Rightarrow> u32 option"
  ftParse64 :: "string \<Rightarrow> u64 option"
  ftFormat :: "float64 \<Rightarrow> string"
  ftWild :: "float64 \<Rightarrow> int"

section \<open>Registers and bytes\<close>

definition normalizeDataType :: "data_type \<Rightarrow> data_type" where
  "normalizeDataType t = (if t = [] then DataTypeUint16 else to_lower t)"

definition defaultUTF8Registers :: u16 where
  "defaultUTF8Registers = 24"

definition registerLength :: "registerValueSpec \<Rightarrow> u16" where
  "registerLength spec =
     (let t = normalizeDataType (vsDataType spec) in
      if t = DataTypeNone then 0
      else if t \<in> {DataTypeInt16, DataTypeUint16} then 1
      else if t \<in> {DataTypeInt32, DataTypeUint32, DataTypeFloat, DataTypeUnix} then 2
      else if t \<in> {DataTypeInt64, DataTypeUint64, DataTypeDouble, DataTypeDateTime} then 4
      else if t = DataTypeUTF8 then (if 0 < vsLength spec then vsLength spec else defaultUTF8Registers)
      else 0)"

text \<open>\<open>binary.BigEndian.PutUint16\<close>, \<open>PutUint32\<close>, \<open>PutUint64\<close> into \<open>n\<close> bytes, and their inverses\<close>

fun put_be :: "nat \<Rightarrow> nat \<Rightarrow> bytes" where
  "put_be 0 v = []"
| "put_be (Suc n) v = put_be n (v div 256) @ [word_of_nat v]"

definition get_be :: "bytes \<Rightarrow> nat" where
  "get_be bs = foldl (\<lambda>v b. 256 * v + unat b) 0 bs"

text \<open>An integer at a width of \<open>n\<close> bytes: its unsigned pattern, and a pattern read as signed.\<close>

definition to_unsigned :: "nat \<Rightarrow> int \<Rightarrow> nat" where
  "to_unsigned n v = nat (v mod 256 ^ n)"

definition to_signed :: "nat \<Rightarrow> nat \<Rightarrow> int" where
  "to_signed n u = (if 2 * u < 256 ^ n then int u else int u - 256 ^ n)"

fun bytesToRegisters :: "bytes \<Rightarrow> u16 list" where
  "bytesToRegisters (a # b # bs) = word_of_nat (256 * unat a + unat b) # bytesToRegisters bs"
| "bytesToRegisters bs = []"

definition registersToBytes :: "u16 list \<Rightarrow> bytes" where
  "registersToBytes rs = concat (map (\<lambda>r. put_be 2 (unat r)) rs)"

text \<open>The loop that exchanges the words at both ends and moves inwards.\<close>

function reverseLoop :: "nat \<Rightarrow> nat \<Rightarrow> bytes \<Rightarrow> bytes" where
  "reverseLoop l r d =
     (if l < r
      then let d1 = d[l := d ! r, r := d ! l];
               d2 = d1[l + 1 := d1 ! (r + 1), r + 1 := d1 ! (l + 1)]
           in reverseLoop (l + 2) (r - 2) d2
      else d)"
  by pat_completeness auto

termination by (relation "measure (\<lambda>(l, r, d). r - l)") auto

declare reverseLoop.simps [simp del]

definition reverseRegisterWords :: "bytes \<Rightarrow> bytes" where
  "reverseRegisterWords d = (if length d < 2 then d else reverseLoop 0 (length d - 2) d)"

section \<open>Dates\<close>

text \<open>
  The calendar of package \<open>time\<close>: days since 1 January 1970 and civil dates. The calendar repeats every
  400 years, which are 146097 days; within such an era the years and months are counted off.
\<close>

definition leap_year :: "int \<Rightarrow> bool" where
  "leap_year y = (4 dvd y \<and> (\<not> 100 dvd y \<or> 400 dvd y))"

definition year_days :: "int \<Rightarrow> nat" where
  "year_days y = (if leap_year y then 366 else 365)"

definition month_days :: "int \<Rightarrow> nat \<Rightarrow> nat" where
  "month_days y m = (if m = 2 then (if leap_year y then 29 else 28) else if m \<in> {4, 6, 9, 11} then 30 else 31)"

function count_years :: "int \<Rightarrow> nat \<Rightarrow> int \<times> nat" where
  "count_years y d = (if d < year_days y then (y, d) else count_years (y + 1) (d - year_days y))"
  by pat_completeness auto

termination by (relation "measure snd") (auto simp: year_days_def split: if_splits)

function count_months :: "int \<Rightarrow> nat \<Rightarrow> nat \<Rightarrow> nat \<times> nat" where
  "count_months y m d = (if d < month_days y m then (m, d) else count_months y (m + 1) (d - month_days y m))"
  by pat_completeness auto

termination by (relation "measure (\<lambda>(y, m, d). d)") (auto simp: month_days_def split: if_splits)

declare count_years.simps [simp del] count_months.simps [simp del]

definition civil_date :: "int \<Rightarrow> int \<times> nat \<times> nat" where
  "civil_date days =
     (let era = days div 146097; (y, d) = count_years 1970 (nat (days mod 146097));
          (m, k) = count_months y 1 d
      in (y + 400 * era, m, k + 1))"

text \<open>The date of \<open>time.Date\<close>: a day past the end of the month runs on into the next.\<close>

definition days_of_date :: "int \<Rightarrow> nat \<Rightarrow> nat \<Rightarrow> int" where
  "days_of_date y m d =
     (\<Sum>i \<leftarrow> [1970..y - 1]. int (year_days i)) + (\<Sum>i \<leftarrow> [1..<m]. int (month_days y i)) + int d - 1"

definition pad2 :: "nat \<Rightarrow> string" where
  "pad2 n = (if n < 10 then CHR ''0'' # nat_digits n else nat_digits n)"

definition pad4 :: "int \<Rightarrow> string" where
  "pad4 y = (let s = nat_digits (nat \<bar>y\<bar>) in
     (if y < 0 then ''-'' else []) @ replicate (4 - length s) (CHR ''0'') @ s)"

text \<open>\<open>t.Format("2006/01/02 15:04:05")\<close> of a time given in seconds, in UTC or shifted to a zone\<close>

definition format_seconds :: "int \<Rightarrow> string" where
  "format_seconds t =
     (let (y, m, d) = civil_date (t div 86400); s = nat (t mod 86400)
      in pad4 y @ ''/'' @ pad2 m @ ''/'' @ pad2 d @ '' '' @
         pad2 (s div 3600) @ '':'' @ pad2 (s div 60 mod 60) @ '':'' @ pad2 (s mod 60))"

definition formatModbusTime :: "(int \<Rightarrow> int) \<Rightarrow> int \<Rightarrow> bool \<Rightarrow> string" where
  "formatModbusTime zone t localTime = format_seconds (if localTime then t + zone t else t)"

definition encodeIEC870DateTime :: "int \<Rightarrow> bytes" where
  "encodeIEC870DateTime timestampMs =
     (let ms = (if timestampMs < 946684800000 then 946684800000 else timestampMs);
          t = ms div 1000; (y, m, d) = civil_date (t div 86400); s = nat (t mod 86400)
      in put_be 2 (to_unsigned 2 (y - 2000)) @
         put_be 2 (256 * m + d) @
         put_be 2 (256 * (s div 3600) + s div 60 mod 60) @
         put_be 2 (s mod 60 * 1000 + nat (ms mod 1000)))"

definition decodeIEC870DateTime :: "(int \<Rightarrow> int) \<Rightarrow> bytes \<Rightarrow> bool \<Rightarrow> conversion_error + string" where
  "decodeIEC870DateTime zone data localTime =
     (if length data \<noteq> 8 then Inl DateTimeLength
      else let word1 = get_be (take 2 data); word2 = get_be (take 2 (drop 2 data));
               word3 = get_be (take 2 (drop 4 data)); word4 = get_be (drop 6 data) in
      if word1 = 0xffff \<and> word2 = 0xffff \<and> word3 = 0xffff \<and> word4 = 0xffff then Inr []
      else let year = int (word1 mod 128) + 2000; month = word2 div 256 mod 16; day = word2 mod 32;
               hour = word3 div 256 mod 32; minute = word3 mod 64;
               second = word4 div 1000; millisecond = word4 mod 1000;
               invalid = odd (word3 div 128) in
      if invalid \<or> year < 2000 \<or> 2127 < year \<or> month < 1 \<or> 12 < month \<or> day < 1 \<or> 31 < day \<or>
         23 < hour \<or> 59 < minute \<or> 59 < second \<or> 999 < millisecond then Inr []
      else Inr (formatModbusTime zone
             (days_of_date year month day * 86400 + int (hour * 3600 + minute * 60 + second)) localTime))"

section \<open>Text\<close>

text \<open>
  The length of the UTF-8 sequence a text begins with, 0 if it begins with none (package
  \<open>unicode/utf8\<close>); \<open>utf8.Valid\<close>; and \<open>strings.ToValidUTF8\<close> with an empty replacement.
\<close>

definition continuation :: "byte \<Rightarrow> bool" where
  "continuation b = (0x80 \<le> b \<and> b \<le> 0xBF)"

text \<open>The length a first byte announces (0: none), and the range of the byte after it.\<close>

definition rune_header :: "byte \<Rightarrow> nat \<times> byte \<times> byte" where
  "rune_header b =
     (if b < 0x80 then (1, 0, 0)
      else if 0xC2 \<le> b \<and> b \<le> 0xDF then (2, 0x80, 0xBF)
      else if 0xE0 \<le> b \<and> b \<le> 0xEF
      then (3, if b = 0xE0 then 0xA0 else 0x80, if b = 0xED then 0x9F else 0xBF)
      else if 0xF0 \<le> b \<and> b \<le> 0xF4
      then (4, if b = 0xF0 then 0x90 else 0x80, if b = 0xF4 then 0x8F else 0xBF)
      else (0, 0, 0))"

definition rune_length :: "bytes \<Rightarrow> nat" where
  "rune_length bs =
     (case bs of [] \<Rightarrow> 0
      | b # r \<Rightarrow>
          let (n, lo, hi) = rune_header b; after = take (n - 1) r in
          if length after = n - 1 \<and> list_all continuation after \<and> (1 < n \<longrightarrow> lo \<le> hd after \<and> hd after \<le> hi)
          then n else 0)"

function valid_utf8 :: "bytes \<Rightarrow> bool" where
  "valid_utf8 bs =
     (if bs = [] then True
      else if rune_length bs = 0 then False
      else valid_utf8 (drop (rune_length bs) bs))"
  by pat_completeness auto

termination by (relation "measure length") auto

function to_valid_utf8 :: "bytes \<Rightarrow> bytes" where
  "to_valid_utf8 bs =
     (if bs = [] then []
      else if rune_length bs = 0 then to_valid_utf8 (tl bs)
      else take (rune_length bs) bs @ to_valid_utf8 (drop (rune_length bs) bs))"
  by pat_completeness auto

termination by (relation "measure length") auto

declare valid_utf8.simps [simp del] to_valid_utf8.simps [simp del]

definition trimInvalidUTF8 :: "bytes \<Rightarrow> bytes" where
  "trimInvalidUTF8 data = (if valid_utf8 data then data else to_valid_utf8 data)"

text \<open>\<open>strings.TrimRight(s, "\x00 ")\<close>\<close>

definition trim_padding :: "bytes \<Rightarrow> bytes" where
  "trim_padding bs = rev (dropWhile (\<lambda>b. b = 0 \<or> b = 32) (rev bs))"

section \<open>Numbers\<close>

definition linearInterpolate :: "float64 \<Rightarrow> linearInterpolation \<Rightarrow> float64" where
  "linearInterpolate value i =
     (if float_eq (liX2 i) (liX1 i) then liY1 i
      else let t = float_div (float_sub value (liX1 i)) (float_sub (liX2 i) (liX1 i))
           in float_add (liY1 i) (float_mul t (float_sub (liY2 i) (liY1 i))))"

definition applyNumericTransforms :: "float64 \<Rightarrow> registerValueSpec \<Rightarrow> float64" where
  "applyNumericTransforms value spec =
     (let scaled = (if \<not> float_eq (vsScalingFactor spec) (Finite 0)
                    then float_mul value (vsScalingFactor spec) else value)
      in case vsInterpolate spec of None \<Rightarrow> scaled | Some i \<Rightarrow> linearInterpolate scaled i)"

definition formatNumber :: "float_texts \<Rightarrow> float64 \<Rightarrow> string" where
  "formatNumber ft value =
     (if value \<in> {NaN, Infinite True, Infinite False} then ftFormat ft value
      else if float_eq (float_trunc value) value then itoa (float_to_int64 (ftWild ft) value)
      else ftFormat ft value)"

section \<open>Encoding and decoding a value\<close>

text \<open>The widths of the integer types in bytes, and the texts the parser of each accepts.\<close>

definition integer_bytes :: "data_type \<Rightarrow> nat" where
  "integer_bytes t =
     (if t \<in> {DataTypeInt16, DataTypeUint16} then 2
      else if t \<in> {DataTypeInt32, DataTypeUint32, DataTypeUnix} then 4 else 8)"

definition plain_integer :: "data_type \<Rightarrow> bool" where
  "plain_integer t \<longleftrightarrow>
     t \<in> {DataTypeInt16, DataTypeUint16, DataTypeInt32, DataTypeUint32, DataTypeInt64, DataTypeUint64}"

definition parseInteger :: "data_type \<Rightarrow> string \<Rightarrow> int option" where
  "parseInteger t input =
     (if t \<in> {DataTypeInt16, DataTypeInt32, DataTypeInt64}
      then parse_int10 (8 * integer_bytes t) (trim_space input)
      else map_option int (parse_uint10 (8 * integer_bytes t) (trim_space input)))"

definition encodeBytes :: "float_texts \<Rightarrow> registerValueSpec \<Rightarrow> string \<Rightarrow> conversion_error + bytes" where
  "encodeBytes ft spec input =
     (let t = normalizeDataType (vsDataType spec) in
      if plain_integer t \<or> t = DataTypeUnix
      then (case parseInteger t input of
              None \<Rightarrow> Inl NotANumber
            | Some v \<Rightarrow> Inr (put_be (integer_bytes t) (to_unsigned (integer_bytes t) v)))
      else if t = DataTypeFloat
      then (case ftParse32 ft (trim_space input) of None \<Rightarrow> Inl NotANumber | Some b \<Rightarrow> Inr (put_be 4 (unat b)))
      else if t = DataTypeDouble
      then (case ftParse64 ft (trim_space input) of None \<Rightarrow> Inl NotANumber | Some b \<Rightarrow> Inr (put_be 8 (unat b)))
      else if t = DataTypeDateTime
      then (case parse_int10 64 (trim_space input) of
              None \<Rightarrow> Inl NotANumber | Some v \<Rightarrow> Inr (encodeIEC870DateTime v))
      else if t = DataTypeUTF8
      then (let n = unat (registerLength spec) * 2; text = bytes_of input
            in Inr (take n text @ replicate (n - length text) 0))
      else Inl (UnsupportedType t))"

definition EncodeRegisterValue :: "float_texts \<Rightarrow> registerValueSpec \<Rightarrow> string \<Rightarrow> conversion_error + u16 list" where
  "EncodeRegisterValue ft spec input =
     (if registerLength spec = 0 then Inl DataTypeIsNone
      else case encodeBytes ft spec input of
             Inl e \<Rightarrow> Inl e
           | Inr bs \<Rightarrow> Inr (bytesToRegisters
               (if vsWordOrder spec = ''little'' then reverseRegisterWords bs else bs)))"

text \<open>The number a pattern stands for, before scaling, for the types that are numbers.\<close>

definition decodeNumber :: "data_type \<Rightarrow> bytes \<Rightarrow> float64 option" where
  "decodeNumber t bs =
     (if t = DataTypeInt16 then Some (float_of_int (to_signed 2 (get_be (take 2 bs))))
      else if t = DataTypeUint16 then Some (float_of_int (int (get_be (take 2 bs))))
      else if t = DataTypeInt32 then Some (float_of_int (to_signed 4 (get_be (take 4 bs))))
      else if t = DataTypeUint32 then Some (float_of_int (int (get_be (take 4 bs))))
      else if t = DataTypeInt64 then Some (float_of_int (to_signed 8 (get_be (take 8 bs))))
      else if t = DataTypeUint64 then Some (float_of_int (int (get_be (take 8 bs))))
      else if t = DataTypeFloat then Some (float_from_bits 23 8 (get_be (take 4 bs)))
      else if t = DataTypeDouble then Some (float_from_bits 52 11 (get_be (take 8 bs)))
      else None)"

definition DecodeRegisterValue :: "float_texts \<Rightarrow> (int \<Rightarrow> int) \<Rightarrow> registerValueSpec \<Rightarrow> u16 list \<Rightarrow>
    conversion_error + decodedRegisterValue" where
  "DecodeRegisterValue ft zone spec registers =
     (let t = normalizeDataType (vsDataType spec); n = unat (registerLength spec) in
      if n = 0 then Inl DataTypeIsNone
      else if length registers < n then Inl (NeedRegisters n (length registers))
      else let raw = take n registers;
               bs0 = registersToBytes raw;
               bs = (if vsWordOrder spec = ''little'' then reverseRegisterWords bs0 else bs0);
               out = (\<lambda>display numeric. Inr \<lparr>dvDataType = t, dvRaw = raw, dvDisplay = display, dvNumeric = numeric\<rparr>) in
      case decodeNumber t bs of
        Some v \<Rightarrow> (let v1 = applyNumericTransforms v spec in out (formatNumber ft v1) v1)
      | None \<Rightarrow>
          if t = DataTypeUnix
          then (let seconds = int (get_be (take 4 bs))
                in out (formatModbusTime zone seconds (vsLocalTime spec)) (float_of_int seconds))
          else if t = DataTypeDateTime
          then (case decodeIEC870DateTime zone bs (vsLocalTime spec) of
                  Inl e \<Rightarrow> Inl e | Inr display \<Rightarrow> out display (Finite 0))
          else if t = DataTypeUTF8
          then out (string_of (trim_padding (trimInvalidUTF8 bs))) (Finite 0)
          else Inl (UnsupportedType t))"

section \<open>Grouping configured registers into blocks\<close>

definition mappingEnd :: "registerMapping \<Rightarrow> u16" where
  "mappingEnd m =
     (let n = registerLength \<lparr>vsDataType = rmDataType m, vsWordOrder = [], vsLength = rmLength m,
                vsScalingFactor = Finite 0, vsInterpolate = None, vsLocalTime = False\<rparr>
      in rmAddress m + (if n = 0 then 1 else n) - 1)"

definition unmapped :: "registerMapping \<Rightarrow> bool" where
  "unmapped m = (normalizeDataType (rmDataType m) = DataTypeNone)"

text \<open>
  The inner loop: \<open>cur\<close> is the mapping at the position \<open>j\<close>, the list what follows it. The result is the
  end of the block and the mappings that did not join it.
\<close>

fun extendGroup :: "u16 \<Rightarrow> u16 \<Rightarrow> u16 \<Rightarrow> registerMapping \<Rightarrow> registerMapping list \<Rightarrow> u16 \<times> registerMapping list" where
  "extendGroup maxLength start end cur [] = (end, [])"
| "extendGroup maxLength start end cur (m # ms) =
     (if rmGroupEnd cur then (end, m # ms)
      else if unmapped m then extendGroup maxLength start end m ms
      else let candidateEnd = (if end < mappingEnd m then mappingEnd m else end) in
        if maxLength < candidateEnd - start + 1 then (end, m # ms)
        else extendGroup maxLength start candidateEnd m ms)"

lemma length_extendGroup: "length (snd (extendGroup n s e c ms)) \<le> length ms"
proof (induction n s e c ms rule: extendGroup.induct)
  case (2 n s e c m ms)
  then show ?case by (simp add: Let_def le_SucI)
qed simp

function groupItems :: "u16 \<Rightarrow> registerMapping list \<Rightarrow> addressGroup list" where
  "groupItems maxLength [] = []"
| "groupItems maxLength (m # ms) =
     (if unmapped m then groupItems maxLength ms
      else let r = extendGroup maxLength (rmAddress m) (mappingEnd m) m ms in
        \<lparr>agAddress = rmAddress m, agQuantity = fst r - rmAddress m + 1\<rparr> # groupItems maxLength (snd r))"
  by pat_completeness auto

termination by (relation "measure (length \<circ> snd)") (auto simp: le_imp_less_Suc length_extendGroup)

definition GroupRegisterMappings :: "(registerMapping list \<Rightarrow> registerMapping list) \<Rightarrow>
    registerMapping list \<Rightarrow> u16 \<Rightarrow> addressGroup list" where
  "GroupRegisterMappings srt mappings maxLength =
     groupItems (if maxLength = 0 then 100 else maxLength) (srt mappings)"

end
