(* ===== verification/ModbusConversionFacts.thy ===== *)
theory ModbusConversionFacts
  imports ModbusConversion "HOL-Library.Multiset"
begin

text \<open>
  Facts about the conversion of register values: bytes and registers are two views of the same data and
  the word order is undone by the decoder; dates are counted exactly; what the user entered is displayed
  again; and the blocks of \<open>GroupRegisterMappings\<close> contain every configured register.
\<close>

section \<open>Bytes and registers\<close>

lemma length_put_be [simp]: "length (put_be n v) = n"
  by (induction n arbitrary: v) simp_all

lemma get_be_snoc: "get_be (bs @ [b]) = 256 * get_be bs + unat b"
  by (simp add: get_be_def)

lemma get_put_be: "get_be (put_be n v) = v mod 256 ^ n"
proof (induction n arbitrary: v)
  case 0
  then show ?case by (simp add: get_be_def)
next
  case (Suc n)
  have "v mod (256 * 256 ^ n) = 256 * (v div 256 mod 256 ^ n) + v mod 256"
    by (simp add: mod_mult2_eq)
  then show ?case by (simp add: get_be_snoc Suc unat_of_nat)
qed

lemma get_be_pair: "get_be [a, b] = 256 * unat a + unat b"
  by (simp add: get_be_def)

lemma put_be_2: "put_be 2 v = [word_of_nat (v div 256), word_of_nat v]"
  by (simp add: numeral_2_eq_2)

lemma registersToBytes_simps [simp]:
  "registersToBytes [] = []"
  "registersToBytes (r # rs) = word_of_nat (unat r div 256) # word_of_nat (unat r) # registersToBytes rs"
  "registersToBytes (rs @ qs) = registersToBytes rs @ registersToBytes qs"
  by (simp_all add: registersToBytes_def put_be_2)

lemma length_registersToBytes [simp]: "length (registersToBytes rs) = 2 * length rs"
  by (induction rs) simp_all

lemma bytes_of_register:
  fixes a b :: byte
  shows "put_be 2 (unat (word_of_nat (256 * unat a + unat b) :: u16)) = [a, b]"
proof -
  have "256 * unat a + unat b < 65536" using unat_byte_less [of a] unat_byte_less [of b] by linarith
  moreover have "unat (word_of_nat n :: u16) = n mod 65536" for n by (simp add: unat_of_nat)
  ultimately have "unat (word_of_nat (256 * unat a + unat b) :: u16) = 256 * unat a + unat b"
    by (simp only: mod_less)
  moreover have "(256 * unat a + unat b) div 256 = unat a" by simp
  moreover have "(256 :: byte) * c = 0" for c
  proof -
    have "(256 :: byte) = 0" by simp
    then show ?thesis by (simp only: mult_zero_left)
  qed
  then have "(word_of_nat (256 * unat a + unat b) :: byte) = word_of_nat (unat b)" by simp
  ultimately show ?thesis by (simp add: put_be_2)
qed

lemma registers_of_bytes: "even (length bs) \<Longrightarrow> registersToBytes (bytesToRegisters bs) = bs"
proof (induction bs rule: bytesToRegisters.induct)
  case (1 a b bs)
  then show ?case using bytes_of_register [of a b] by (simp add: registersToBytes_def)
qed simp_all

lemma length_bytesToRegisters: "length (bytesToRegisters bs) = length bs div 2"
  by (induction bs rule: bytesToRegisters.induct) simp_all

section \<open>The word order\<close>

text \<open>The loop reverses the registers between its two positions.\<close>

lemma reverseLoop_registers:
  "mid \<noteq> [] \<Longrightarrow> reverseLoop (2 * length pre) (2 * length pre + 2 * length mid - 2)
     (registersToBytes (pre @ mid @ post)) = registersToBytes (pre @ rev mid @ post)"
proof (induction "length mid" arbitrary: pre mid post rule: less_induct)
  case less
  show ?case
  proof (cases "length mid = 1")
    case True
    then obtain x where "mid = [x]" by (auto simp: length_Suc_conv)
    then show ?thesis by (simp add: reverseLoop.simps)
  next
    case False
    then obtain x ys where "mid = x # ys" and "ys \<noteq> []" using less.prems by (cases mid) auto
    then obtain inner y where mid: "mid = x # inner @ [y]" by (metis rev_exhaust)
    let ?l = "2 * length pre" and ?r = "2 * length pre + 2 * length mid - 2"
    let ?d = "registersToBytes (pre @ mid @ post)"
    let ?swapped = "registersToBytes (pre @ (y # inner @ [x]) @ post)"
    have lr: "?l < ?r" and r: "?r = ?l + 2 + 2 * length inner" by (simp_all add: mid)
    define d1 where "d1 = ?d[?l := ?d ! ?r, ?r := ?d ! ?l]"
    have "d1[?l + 1 := d1 ! (?r + 1), ?r + 1 := d1 ! (?l + 1)] = ?swapped"
      unfolding d1_def r by (simp add: mid nth_append list_update_append)
    then have step: "reverseLoop ?l ?r ?d = reverseLoop (?l + 2) (?r - 2) ?swapped"
      using lr by (subst reverseLoop.simps) (simp add: d1_def Let_def)
    show ?thesis
    proof (cases "inner = []")
      case True
      then show ?thesis using step by (subst step) (simp add: mid reverseLoop.simps)
    next
      case False
      have "reverseLoop (2 * length (pre @ [y])) (2 * length (pre @ [y]) + 2 * length inner - 2)
              (registersToBytes ((pre @ [y]) @ inner @ ([x] @ post)))
            = registersToBytes ((pre @ [y]) @ rev inner @ ([x] @ post))"
        using False by (intro less.hyps) (simp_all add: mid)
      then show ?thesis using step by (simp add: mid)
    qed
  qed
qed

lemma reverse_registers: "reverseRegisterWords (registersToBytes rs) = registersToBytes (rev rs)"
proof (cases "rs = []")
  case False
  then have "2 \<le> 2 * length rs" by (cases rs) simp_all
  then show ?thesis
    using reverseLoop_registers [of rs "[]" "[]"] False by (simp add: reverseRegisterWords_def)
qed (simp add: reverseRegisterWords_def)

lemma reverse_bytes: "even (length bs) \<Longrightarrow> reverseRegisterWords (reverseRegisterWords bs) = bs"
  by (metis registers_of_bytes reverse_registers rev_rev_ident)

lemma length_reverse: "even (length bs) \<Longrightarrow> length (reverseRegisterWords bs) = length bs"
  by (metis length_registersToBytes length_rev registers_of_bytes reverse_registers)

text \<open>What the decoder sees of registers that the encoder produced: the bytes of the value.\<close>

definition in_order :: "registerValueSpec \<Rightarrow> bytes \<Rightarrow> bytes" where
  "in_order spec bs = (if vsWordOrder spec = ''little'' then reverseRegisterWords bs else bs)"

lemma in_order_undone:
  "even (length bs) \<Longrightarrow> in_order spec (registersToBytes (bytesToRegisters (in_order spec bs))) = bs"
  by (simp add: in_order_def registers_of_bytes reverse_bytes length_reverse)

lemma length_in_order: "even (length bs) \<Longrightarrow> length (in_order spec bs) = length bs"
  by (simp add: in_order_def length_reverse)

section \<open>The calendar\<close>

lemma sum_upto_Suc: "y \<le> z \<Longrightarrow> (\<Sum>i\<leftarrow>[y..z]. f i) = (\<Sum>i\<leftarrow>[y..z - 1]. f i) + (f z :: int)"
  by (simp add: upto_rec2)

lemma sum_upto_split: "y \<le> z \<Longrightarrow> z \<le> w \<Longrightarrow>
    (\<Sum>i\<leftarrow>[y..w - 1]. f i) = (\<Sum>i\<leftarrow>[y..z - 1]. f i) + (\<Sum>i\<leftarrow>[z..w - 1]. f i :: int)"
  by (cases "z = w") (simp_all add: upto_split1 [of y z])

lemma sum_nonneg: "0 \<le> (\<Sum>i\<leftarrow>xs. int (f i))"
  by (induction xs) simp_all

lemma count_years_exact:
  "count_years y d = (y', k) \<Longrightarrow>
   y \<le> y' \<and> k < year_days y' \<and> int d = (\<Sum>i\<leftarrow>[y..y' - 1]. int (year_days i)) + int k"
proof (induction y d rule: count_years.induct)
  case (1 y d)
  show ?case
  proof (cases "d < year_days y")
    case True
    with 1 show ?thesis by (simp add: count_years.simps [of y])
  next
    case False
    with 1 have ih: "y + 1 \<le> y' \<and> k < year_days y' \<and>
        int (d - year_days y) = (\<Sum>i\<leftarrow>[y + 1..y' - 1]. int (year_days i)) + int k"
      by (simp add: count_years.simps [of y])
    then have "[y..y' - 1] = y # [y + 1..y' - 1]" by (simp add: upto_rec1)
    with ih False show ?thesis by simp
  qed
qed

lemma count_months_exact:
  "count_months y m d = (m', k) \<Longrightarrow>
   m \<le> m' \<and> k < month_days y m' \<and> d = (\<Sum>i\<leftarrow>[m..<m']. month_days y i) + k"
proof (induction y m d rule: count_months.induct)
  case (1 y m d)
  show ?case
  proof (cases "d < month_days y m")
    case True
    with 1 show ?thesis by (simp add: count_months.simps [of y m])
  next
    case False
    with 1 have ih: "m + 1 \<le> m' \<and> k < month_days y m' \<and>
        d - month_days y m = (\<Sum>i\<leftarrow>[m + 1..<m']. month_days y i) + k"
      by (simp add: count_months.simps [of y m])
    then have "[m..<m'] = m # [m + 1..<m']" by (simp add: upt_conv_Cons)
    with ih False show ?thesis by (simp, linarith)
  qed
qed

lemma int_sum_list: "int (\<Sum>i\<leftarrow>xs. f i) = (\<Sum>i\<leftarrow>xs. int (f i))"
  by (induction xs) simp_all

lemma months_of_year: "(\<Sum>i\<leftarrow>[1..<13]. month_days y i) = year_days y"
  by (simp add: month_days_def year_days_def upt_rec)

text \<open>A day of the year lies in one of the twelve months.\<close>

lemma count_months_bound:
  assumes "count_months y 1 d = (m, k)" "d < year_days y"
  shows "1 \<le> m \<and> m \<le> 12 \<and> k < 31 \<and> d = (\<Sum>i\<leftarrow>[1..<m]. month_days y i) + k"
proof -
  have m: "1 \<le> m" "k < month_days y m" "d = (\<Sum>i\<leftarrow>[1..<m]. month_days y i) + k"
    using count_months_exact [OF assms(1)] by simp_all
  have "m \<le> 12"
  proof (rule ccontr)
    assume "\<not> m \<le> 12"
    then have "[1..<m] = [1..<13] @ [13..<m]" by (intro upt_split [symmetric]) simp_all
    then have "(\<Sum>i\<leftarrow>[1..<m]. month_days y i) = year_days y + (\<Sum>i\<leftarrow>[13..<m]. month_days y i)"
      using months_of_year [of y] by simp
    with m assms(2) show False by linarith
  qed
  moreover have "month_days y m \<le> 31" by (simp add: month_days_def)
  ultimately show ?thesis using m by simp
qed

text \<open>The days of a date count back to the date, in the years that a device can express.\<close>

definition first_day :: int where "first_day = 10957"
definition last_day :: int where "last_day = 57707"

lemma first_day_years: "(\<Sum>i\<leftarrow>[1970..1999]. int (year_days i)) = first_day"
  by (simp add: upto_rec1 year_days_def leap_year_def first_day_def)

lemma last_day_years: "(\<Sum>i\<leftarrow>[1970..2127]. int (year_days i)) = last_day + 1"
  by (simp add: upto_rec1 year_days_def leap_year_def last_day_def)

lemma civil_date_device:
  assumes "first_day \<le> days" "days \<le> last_day" "civil_date days = (y, m, d)"
  shows "2000 \<le> y \<and> y \<le> 2127 \<and> 1 \<le> m \<and> m \<le> 12 \<and> 1 \<le> d \<and> d \<le> 31 \<and> days_of_date y m d = days"
proof -
  have range: "0 \<le> days" "days < 146097" using assms by (simp_all add: first_day_def last_day_def)
  obtain k where years: "count_years 1970 (nat days) = (y, k)"
    using assms(3) range by (auto simp: civil_date_def split: prod.splits)
  then obtain j where months: "count_months y 1 k = (m, j)" and d: "d = j + 1"
    using assms(3) range by (auto simp: civil_date_def split: prod.splits)
  have y: "1970 \<le> y" "k < year_days y" "days = (\<Sum>i\<leftarrow>[1970..y - 1]. int (year_days i)) + int k"
    using count_years_exact [OF years] range by simp_all
  have "y \<le> 2127"
  proof (rule ccontr)
    assume "\<not> y \<le> 2127"
    then have "(\<Sum>i\<leftarrow>[1970..y - 1]. int (year_days i)) = last_day + 1 + (\<Sum>i\<leftarrow>[2128..y - 1]. int (year_days i))"
      using sum_upto_split [of 1970 2128 y] last_day_years by simp
    with y(3) assms(2) sum_nonneg [of year_days "[2128..y - 1]"] show False by linarith
  qed
  moreover have "2000 \<le> y"
  proof (rule ccontr)
    assume "\<not> 2000 \<le> y"
    then have "(\<Sum>i\<leftarrow>[1970..1999]. int (year_days i)) =
        (\<Sum>i\<leftarrow>[1970..y]. int (year_days i)) + (\<Sum>i\<leftarrow>[y + 1..1999]. int (year_days i))"
      using sum_upto_split [of 1970 "y + 1" 2000] y(1) by simp
    moreover have "(\<Sum>i\<leftarrow>[1970..y]. int (year_days i)) =
        (\<Sum>i\<leftarrow>[1970..y - 1]. int (year_days i)) + int (year_days y)"
      using sum_upto_Suc [of 1970 y] y(1) by simp
    ultimately show False
      using y assms(1) first_day_years sum_nonneg [of year_days "[y + 1..1999]"] by linarith
  qed
  ultimately show ?thesis
    using count_months_bound [OF months y(2)] y d
    by (simp add: days_of_date_def int_sum_list)
qed

text \<open>The fields of a time stamp survive their packing into four registers.\<close>

lemma get_put_be_2: "n < 65536 \<Longrightarrow> get_be (put_be 2 n) = n"
  by (simp add: get_put_be)

lemma plausible:
  fixes y :: int and m d h mi se ml q :: nat
  assumes "even q" "2000 \<le> y" "y \<le> 2127" "1 \<le> m" "m \<le> 12" "1 \<le> d" "d \<le> 31" "h < 24" "mi < 60" "se < 60" "ml < 1000"
  shows "\<not> (odd q \<or> y < 2000 \<or> 2127 < y \<or> m < 1 \<or> 12 < m \<or> d < 1 \<or> 31 < d \<or> 23 < h \<or> 59 < mi \<or> 59 < se \<or> 999 < ml)"
  using assms by auto

lemma datetime_returns:
  assumes "946684800000 \<le> ms" "ms < 4985971200000"
  shows "decodeIEC870DateTime zone (encodeIEC870DateTime ms) localTime = Inr (formatModbusTime zone (ms div 1000) localTime)"
proof -
  define t where "t = ms div 1000"
  define s where "s = nat (t mod 86400)"
  have ms: "nat (ms mod 1000) < 1000" by simp
  have s: "s < 86400" "int s = t mod 86400" by (simp_all add: s_def)
  obtain y m d where date: "civil_date (t div 86400) = (y, m, d)" by (cases "civil_date (t div 86400)")
  have "first_day \<le> t div 86400" "t div 86400 \<le> last_day"
    using assms by (simp_all add: t_def first_day_def last_day_def)
  then have ymd: "2000 \<le> y" "y \<le> 2127" "1 \<le> m" "m \<le> 12" "1 \<le> d" "d \<le> 31"
    and days: "days_of_date y m d = t div 86400"
    using civil_date_device date by auto
  define w1 where "w1 = nat (y - 2000)"
  define w2 where "w2 = 256 * m + d"
  define w3 where "w3 = 256 * (s div 3600) + s div 60 mod 60"
  define w4 where "w4 = s mod 60 * 1000 + nat (ms mod 1000)"
  have enc: "encodeIEC870DateTime ms = put_be 2 w1 @ put_be 2 w2 @ put_be 2 w3 @ put_be 2 w4"
    using assms ymd date
    by (simp add: encodeIEC870DateTime_def Let_def t_def s_def w1_def w2_def w3_def w4_def to_unsigned_def)
  have bounds: "w1 < 128" "w2 < 65536" "w3 < 65536" "w4 < 60000" "s div 3600 < 24" "s div 60 mod 60 < 60"
    using ymd s ms by (auto simp: w1_def w2_def w3_def w4_def)
  have words: "get_be (take 2 (encodeIEC870DateTime ms)) = w1"
    "get_be (take 2 (drop 2 (encodeIEC870DateTime ms))) = w2"
    "get_be (take 2 (drop 4 (encodeIEC870DateTime ms))) = w3"
    "get_be (drop 6 (encodeIEC870DateTime ms)) = w4" "length (encodeIEC870DateTime ms) = 8"
    using bounds by (simp_all add: enc get_put_be_2)
  have fields: "int (w1 mod 128) + 2000 = y" "w2 div 256 mod 16 = m" "w2 mod 32 = d"
    "w3 div 256 mod 32 = s div 3600" "w3 mod 64 = s div 60 mod 60" "even (w3 div 128)"
    "w4 div 1000 = s mod 60" "w4 mod 1000 = nat (ms mod 1000)"
  proof -
    show "int (w1 mod 128) + 2000 = y" using bounds ymd by (simp add: w1_def)
    show "w2 div 256 mod 16 = m" using ymd by (simp add: w2_def)
    have "w2 = 32 * (8 * m) + d" by (simp add: w2_def)
    then show "w2 mod 32 = d" using ymd by (simp only: mod_mult_self4 mod_less)
    show "w3 div 256 mod 32 = s div 3600" using bounds by (simp add: w3_def)
    have "w3 = 64 * (4 * (s div 3600)) + s div 60 mod 60" by (simp add: w3_def)
    then show "w3 mod 64 = s div 60 mod 60" using bounds by (simp only: mod_mult_self4 mod_less)
    have "w3 = 128 * (2 * (s div 3600)) + s div 60 mod 60" by (simp add: w3_def)
    then have "w3 div 128 = 2 * (s div 3600)" using bounds by (simp only: div_mult_self4) simp
    then show "even (w3 div 128)" by simp
    show "w4 div 1000 = s mod 60" using ms by (simp add: w4_def)
    show "w4 mod 1000 = nat (ms mod 1000)" using ms by (simp add: w4_def)
  qed
  have time: "t div 86400 * 86400 + int (s div 3600 * 3600 + s div 60 mod 60 * 60 + s mod 60) = t"
  proof -
    have "s div 3600 = s div 60 div 60" by (simp flip: div_mult2_eq)
    moreover have "s div 60 div 60 * 60 + s div 60 mod 60 = s div 60" "s div 60 * 60 + s mod 60 = s"
      by (rule div_mult_mod_eq)+
    ultimately have "s div 3600 * 3600 + s div 60 mod 60 * 60 + s mod 60 = s" by linarith
    then show ?thesis using s(2) by simp
  qed
  have "w1 \<noteq> 0xffff" using bounds by simp
  moreover have "\<not> (odd (w3 div 128) \<or> y < 2000 \<or> 2127 < y \<or> m < 1 \<or> 12 < m \<or> d < 1 \<or> 31 < d \<or> 23 < s div 3600 \<or>
      59 < s div 60 mod 60 \<or> 59 < s mod 60 \<or> 999 < nat (ms mod 1000))"
    by (rule plausible [OF fields(6) ymd bounds(5,6) _ ms]) simp
  ultimately show ?thesis
    unfolding decodeIEC870DateTime_def Let_def words fields days t_def [symmetric]
    by (simp only: if_False simp_thms time)
qed

section \<open>What is entered is displayed\<close>

lemma parse_int10_range: "parse_int10 bits s = Some v \<Longrightarrow> - (2 ^ (bits - 1)) \<le> v \<and> v < 2 ^ (bits - 1)"
proof -
  assume "parse_int10 bits s = Some v"
  moreover have "- (2 ^ k) \<le> int n" for k n by (rule order_trans [of _ 0]) simp_all
  moreover have "- int n < 2 ^ k" for k n by (rule le_less_trans [of _ 0]) simp_all
  ultimately show ?thesis by (auto simp: parse_int10_def Let_def split: if_splits)
qed

lemma parse_uint10_range: "parse_uint10 bits s = Some n \<Longrightarrow> n < 2 ^ bits"
  by (auto simp: parse_uint10_def split: if_splits)

lemma to_unsigned_less: "to_unsigned n v < 256 ^ n"
  by (simp add: to_unsigned_def nat_less_iff)

lemma unsigned_exact: "0 \<le> v \<Longrightarrow> v < 256 ^ n \<Longrightarrow> int (to_unsigned n v) = v"
  by (simp add: to_unsigned_def)

lemma signed_exact:
  assumes "- (256 ^ n) \<le> 2 * v" "2 * v < 256 ^ n"
  shows "to_signed n (to_unsigned n v) = v"
proof (cases "0 \<le> v")
  case True
  then show ?thesis using assms by (simp add: to_signed_def to_unsigned_def nat_less_iff flip: of_nat_less_iff [where ?'a = int])
next
  case False
  then have "v mod 256 ^ n = v + 256 ^ n"
    using assms mod_pos_pos_trivial [of "v + 256 ^ n" "256 ^ n"] by simp
  with False assms show ?thesis
    by (simp add: to_signed_def to_unsigned_def nat_less_iff flip: of_nat_less_iff [where ?'a = int])
qed

lemma get_encoded: "get_be (put_be n (to_unsigned n v)) = to_unsigned n v"
  by (simp add: get_put_be to_unsigned_less)

lemma formatNumber_int: "\<bar>v\<bar> \<le> 2 ^ 53 \<Longrightarrow> formatNumber ft (Finite (of_int v)) = itoa v"
  by (simp add: formatNumber_def float_eq_def float_to_int64_def abs_le_iff)

lemma rune_length_append: "rune_length bs \<noteq> 0 \<Longrightarrow> rune_length (bs @ cs) = rune_length bs"
proof (cases bs)
  case (Cons b r)
  obtain n lo hi where h: "rune_header b = (n, lo, hi)" by (cases "rune_header b") auto
  assume "rune_length bs \<noteq> 0"
  then have "n - 1 \<le> length r" by (auto simp: rune_length_def Cons h Let_def min_def split: if_splits)
  then have "take (n - 1) (r @ cs) = take (n - 1) r" by simp
  then show ?thesis unfolding Cons rune_length_def append_Cons list.case h prod.case Let_def by (simp only:)
qed (simp add: rune_length_def)

lemma rune_length_le: "rune_length bs \<le> length bs"
  by (cases bs) (auto simp: rune_length_def Let_def split: prod.splits)

lemma valid_utf8_append: "valid_utf8 bs \<Longrightarrow> valid_utf8 cs \<Longrightarrow> valid_utf8 (bs @ cs)"
proof (induction bs rule: valid_utf8.induct)
  case (1 bs)
  show ?case
  proof (cases "bs = []")
    case False
    with 1 have "rune_length bs \<noteq> 0" "valid_utf8 (drop (rune_length bs) bs @ cs)"
      by (auto simp: valid_utf8.simps [of bs] split: if_splits)
    then show ?thesis
      using False by (subst valid_utf8.simps) (simp add: rune_length_append rune_length_le)
  qed (use 1 in simp)
qed

lemma valid_utf8_zeros: "valid_utf8 (replicate n 0)"
proof (induction n)
  case 0
  show ?case by (simp add: valid_utf8.simps)
next
  case (Suc n)
  have "rune_length (0 # replicate n 0) = 1" by (simp add: rune_length_def rune_header_def)
  with Suc show ?case by (simp add: valid_utf8.simps [of "0 # replicate n 0"])
qed

lemma trim_padding_zeros:
  "bs = [] \<or> last bs \<notin> {0, 32} \<Longrightarrow> trim_padding (bs @ replicate n 0) = bs"
  by (cases bs rule: rev_cases) (simp_all add: trim_padding_def dropWhile_append3 dropWhile_append)

text \<open>
  The text a user expects to see after entering one: a number in its canonical form, an instant as a
  date, a text as it is; nothing is expected of a number that the display's floating point cannot
  represent, of an instant after the year 2127 (or before 2000 in the \<open>datetime\<close> format), of a text that
  does not fit or ends in padding, nor where a scale is configured.
\<close>

definition expected_display :: "(int \<Rightarrow> int) \<Rightarrow> registerValueSpec \<Rightarrow> string \<Rightarrow> string option" where
  "expected_display zone spec input =
     (let t = normalizeDataType (vsDataType spec) in
      if plain_integer t
      then (case parseInteger t input of
              Some v \<Rightarrow> if \<bar>v\<bar> \<le> 2 ^ 53 \<and> vsScalingFactor spec = Finite 0 \<and> vsInterpolate spec = None
                        then Some (itoa v) else None
            | None \<Rightarrow> None)
      else if t = DataTypeUnix
      then map_option (\<lambda>v. formatModbusTime zone v (vsLocalTime spec)) (parseInteger t input)
      else if t = DataTypeDateTime
      then (case parse_int10 64 (trim_space input) of
              Some ms \<Rightarrow> if 946684800000 \<le> ms \<and> ms < 4985971200000
                         then Some (formatModbusTime zone (ms div 1000) (vsLocalTime spec)) else None
            | None \<Rightarrow> None)
      else if t = DataTypeUTF8
      then (if length input \<le> 2 * unat (registerLength spec) \<and> valid_utf8 (bytes_of input) \<and>
               (input = [] \<or> last (bytes_of input) \<notin> {0, 32}) then Some input else None)
      else None)"

text \<open>Decoding the bytes of a value, type by type.\<close>

lemma integer_bits: "256 ^ integer_bytes t = (2 :: int) * 2 ^ (8 * integer_bytes t - 1)"
  by (simp add: integer_bytes_def)

lemma parse_signed_range:
  assumes "parseInteger t input = Some v" "t \<in> {DataTypeInt16, DataTypeInt32, DataTypeInt64}"
  shows "to_signed (integer_bytes t) (to_unsigned (integer_bytes t) v) = v"
proof -
  have "parse_int10 (8 * integer_bytes t) (trim_space input) = Some v"
    using assms unfolding parseInteger_def by (simp only: if_True)
  from parse_int10_range [OF this] show ?thesis by (intro signed_exact) (simp_all add: integer_bits)
qed

lemma parse_unsigned_range:
  assumes "parseInteger t input = Some v" "t \<notin> {DataTypeInt16, DataTypeInt32, DataTypeInt64}"
  shows "int (to_unsigned (integer_bytes t) v) = v"
proof -
  have "map_option int (parse_uint10 (8 * integer_bytes t) (trim_space input)) = Some v"
    using assms unfolding parseInteger_def by (simp only: if_False)
  then obtain n where n: "parse_uint10 (8 * integer_bytes t) (trim_space input) = Some n" "v = int n" by auto
  have "(256 :: int) ^ integer_bytes t = 2 ^ (8 * integer_bytes t)" by (simp add: power_mult)
  moreover have "int n < 2 ^ (8 * integer_bytes t)" using parse_uint10_range [OF n(1)] by simp
  ultimately show ?thesis using n(2) by (intro unsigned_exact) simp_all
qed

lemma plain_integer_cases:
  assumes "plain_integer t"
  obtains "t = DataTypeInt16" | "t = DataTypeUint16" | "t = DataTypeInt32" | "t = DataTypeUint32"
  | "t = DataTypeInt64" | "t = DataTypeUint64"
  using assms unfolding plain_integer_def insert_iff empty_iff by argo

lemma decoded_integer:
  assumes "plain_integer t" and v: "parseInteger t input = Some v"
  shows "decodeNumber t (put_be (integer_bytes t) (to_unsigned (integer_bytes t) v)) = Some (float_of_int v)"
  using assms(1) parse_signed_range [OF v] parse_unsigned_range [OF v]
  by (cases rule: plain_integer_cases) (simp_all add: decodeNumber_def integer_bytes_def get_encoded)

lemma decoded_seconds:
  assumes "parseInteger DataTypeUnix input = Some v"
  shows "int (get_be (put_be 4 (to_unsigned 4 v))) = v"
  using parse_unsigned_range [OF assms] by (simp add: get_encoded integer_bytes_def)

text \<open>The encoder writes as many bytes as the registers of the type hold.\<close>

lemma register_lengths:
  "normalizeDataType (vsDataType spec) = DataTypeUnix \<Longrightarrow> registerLength spec = 2"
  "normalizeDataType (vsDataType spec) = DataTypeDateTime \<Longrightarrow> registerLength spec = 4"
  "normalizeDataType (vsDataType spec) = DataTypeUTF8 \<Longrightarrow> registerLength spec \<noteq> 0"
  by (simp_all add: registerLength_def defaultUTF8Registers_def word_greater_zero_iff)

lemma plain_register_length:
  assumes "normalizeDataType (vsDataType spec) = t" "plain_integer t"
  shows "integer_bytes t = 2 * unat (registerLength spec)"
  using assms(2)
  by (cases rule: plain_integer_cases) (simp_all add: registerLength_def assms(1) integer_bytes_def)

lemma not_plain: "\<not> plain_integer DataTypeUnix" "\<not> plain_integer DataTypeDateTime" "\<not> plain_integer DataTypeUTF8"
  by (simp_all add: plain_integer_def)

text \<open>The type of a value for which a display is expected.\<close>

lemma expected_integer:
  assumes "expected_display zone spec input = Some text" "normalizeDataType (vsDataType spec) = t" "plain_integer t"
  obtains v where "parseInteger t input = Some v" "\<bar>v\<bar> \<le> 2 ^ 53" "vsScalingFactor spec = Finite 0"
    "vsInterpolate spec = None" "text = itoa v"
  using assms by (auto simp: expected_display_def Let_def split: option.splits if_splits)

lemma expected_others:
  assumes "expected_display zone spec input = Some text" "\<not> plain_integer (normalizeDataType (vsDataType spec))"
  obtains (unix) v where "normalizeDataType (vsDataType spec) = DataTypeUnix" "parseInteger DataTypeUnix input = Some v"
      "text = formatModbusTime zone v (vsLocalTime spec)"
  | (datetime) ms where "normalizeDataType (vsDataType spec) = DataTypeDateTime"
      "parse_int10 64 (trim_space input) = Some ms" "946684800000 \<le> ms" "ms < 4985971200000"
      "text = formatModbusTime zone (ms div 1000) (vsLocalTime spec)"
  | (utf8) "normalizeDataType (vsDataType spec) = DataTypeUTF8" "length input \<le> 2 * unat (registerLength spec)"
      "valid_utf8 (bytes_of input)" "input = [] \<or> last (bytes_of input) \<notin> {0, 32}" "text = input"
  using assms unfolding expected_display_def Let_def
  by (simp only: if_False split: if_split_asm) (auto split: option.splits if_splits)

text \<open>What the encoder writes, type by type.\<close>

lemma encodeBytes_integer:
  assumes "normalizeDataType (vsDataType spec) = t" "plain_integer t \<or> t = DataTypeUnix"
    "parseInteger t input = Some v"
  shows "encodeBytes ft spec input = Inr (put_be (integer_bytes t) (to_unsigned (integer_bytes t) v))"
  using assms by (simp only: encodeBytes_def Let_def if_True option.case)

lemma encodeBytes_datetime:
  "normalizeDataType (vsDataType spec) = DataTypeDateTime \<Longrightarrow> parse_int10 64 (trim_space input) = Some ms \<Longrightarrow>
     encodeBytes ft spec input = Inr (encodeIEC870DateTime ms)"
  by (simp add: encodeBytes_def not_plain)

lemma encodeBytes_utf8:
  "normalizeDataType (vsDataType spec) = DataTypeUTF8 \<Longrightarrow> length input \<le> 2 * unat (registerLength spec) \<Longrightarrow>
     encodeBytes ft spec input = Inr (bytes_of input @ replicate (2 * unat (registerLength spec) - length input) 0)"
  by (simp add: encodeBytes_def not_plain Let_def mult.commute)

lemma length_encodeIEC870 [simp]: "length (encodeIEC870DateTime ms) = 8"
  by (simp add: encodeIEC870DateTime_def Let_def split: prod.splits)

text \<open>What the decoder displays for the bytes of a value, type by type.\<close>

definition shows_text :: "float_texts \<Rightarrow> (int \<Rightarrow> int) \<Rightarrow> registerValueSpec \<Rightarrow> u16 list \<Rightarrow> string \<Rightarrow> bool" where
  "shows_text ft zone spec registers text =
     (\<exists>d. DecodeRegisterValue ft zone spec registers = Inr d \<and> dvDisplay d = text \<and>
          dvRaw d = take (unat (registerLength spec)) registers)"

lemma decode_bytes:
  assumes "unat (registerLength spec) \<le> length registers" "registerLength spec \<noteq> 0"
    and "in_order spec (registersToBytes (take (unat (registerLength spec)) registers)) = bs"
  shows decodes_number: "decodeNumber (normalizeDataType (vsDataType spec)) bs = Some v \<Longrightarrow>
      shows_text ft zone spec registers (formatNumber ft (applyNumericTransforms v spec))"
    and decodes_unix: "normalizeDataType (vsDataType spec) = DataTypeUnix \<Longrightarrow>
      shows_text ft zone spec registers (formatModbusTime zone (int (get_be (take 4 bs))) (vsLocalTime spec))"
    and decodes_datetime: "normalizeDataType (vsDataType spec) = DataTypeDateTime \<Longrightarrow>
      decodeIEC870DateTime zone bs (vsLocalTime spec) = Inr text \<Longrightarrow> shows_text ft zone spec registers text"
    and decodes_utf8: "normalizeDataType (vsDataType spec) = DataTypeUTF8 \<Longrightarrow>
      shows_text ft zone spec registers (string_of (trim_padding (trimInvalidUTF8 bs)))"
proof -
  have none: "decodeNumber DataTypeUnix bs = None" "decodeNumber DataTypeDateTime bs = None"
    "decodeNumber DataTypeUTF8 bs = None" by (simp_all add: decodeNumber_def)
  have enough: "\<not> length registers < unat (registerLength spec)" using assms(1) by simp
  note decode = shows_text_def DecodeRegisterValue_def Let_def unat_eq_zero none enough assms(2) assms(3) [unfolded in_order_def]
  show "decodeNumber (normalizeDataType (vsDataType spec)) bs = Some v \<Longrightarrow>
      shows_text ft zone spec registers (formatNumber ft (applyNumericTransforms v spec))"
    by (simp add: decode)
  show "normalizeDataType (vsDataType spec) = DataTypeUnix \<Longrightarrow>
      shows_text ft zone spec registers (formatModbusTime zone (int (get_be (take 4 bs))) (vsLocalTime spec))"
    by (simp add: decode)
  show "normalizeDataType (vsDataType spec) = DataTypeDateTime \<Longrightarrow>
      decodeIEC870DateTime zone bs (vsLocalTime spec) = Inr text \<Longrightarrow> shows_text ft zone spec registers text"
    by (simp add: decode)
  show "normalizeDataType (vsDataType spec) = DataTypeUTF8 \<Longrightarrow>
      shows_text ft zone spec registers (string_of (trim_padding (trimInvalidUTF8 bs)))"
    by (simp add: decode)
qed

lemma untransformed:
  "vsScalingFactor spec = Finite 0 \<Longrightarrow> vsInterpolate spec = None \<Longrightarrow> applyNumericTransforms v spec = v"
  by (simp add: applyNumericTransforms_def float_eq_def)

lemma padded_text:
  "valid_utf8 bs \<Longrightarrow> bs = [] \<or> last bs \<notin> {0, 32} \<Longrightarrow> trim_padding (trimInvalidUTF8 (bs @ replicate n 0)) = bs"
  by (simp add: trimInvalidUTF8_def valid_utf8_append valid_utf8_zeros trim_padding_zeros)

text \<open>The bytes an expected display is read from.\<close>

lemma expected_bytes:
  assumes "expected_display zone spec input = Some text"
  obtains bs where "encodeBytes ft spec input = Inr bs" "length bs = 2 * unat (registerLength spec)"
    "registerLength spec \<noteq> 0"
    "\<And>registers. unat (registerLength spec) \<le> length registers \<Longrightarrow>
       in_order spec (registersToBytes (take (unat (registerLength spec)) registers)) = bs \<Longrightarrow>
       shows_text ft zone spec registers text"
proof (cases "plain_integer (normalizeDataType (vsDataType spec))")
  case True
  let ?t = "normalizeDataType (vsDataType spec)"
  obtain v where v: "parseInteger ?t input = Some v" "\<bar>v\<bar> \<le> 2 ^ 53" "vsScalingFactor spec = Finite 0"
    "vsInterpolate spec = None" "text = itoa v"
    using expected_integer [OF assms refl True] by blast
  have len: "integer_bytes ?t = 2 * unat (registerLength spec)" using plain_register_length [OF refl True] .
  show thesis
  proof (rule that [OF encodeBytes_integer [OF refl disjI1 [OF True] v(1)]])
    show pos: "registerLength spec \<noteq> 0" using len by (auto simp: integer_bytes_def split: if_splits)
    show "shows_text ft zone spec registers text"
      if "unat (registerLength spec) \<le> length registers"
        "in_order spec (registersToBytes (take (unat (registerLength spec)) registers)) =
         put_be (integer_bytes ?t) (to_unsigned (integer_bytes ?t) v)" for registers
      using decodes_number [OF that(1) pos that(2) decoded_integer [OF True v(1)]]
      by (simp add: untransformed v(3,4) float_of_int_exact [OF v(2)] formatNumber_int [OF v(2)] v(5))
  qed (simp add: len)
next
  case False
  from assms False show thesis
  proof (cases rule: expected_others)
    case (unix v)
    note pos = register_lengths(1) [OF unix(1)]
    have encoded: "encodeBytes ft spec input = Inr (put_be 4 (to_unsigned 4 v))"
      using encodeBytes_integer [OF unix(1) disjI2 [OF refl] unix(2)] by (simp add: integer_bytes_def)
    show thesis
    proof (rule that [OF encoded])
      show "shows_text ft zone spec registers text"
        if "unat (registerLength spec) \<le> length registers"
          "in_order spec (registersToBytes (take (unat (registerLength spec)) registers)) = put_be 4 (to_unsigned 4 v)"
        for registers
        using decodes_unix [OF that(1) _ that(2) unix(1), where ft = ft and zone = zone] decoded_seconds [OF unix(2)]
        by (simp add: unix(3) pos)
    qed (simp_all add: pos)
  next
    case (datetime ms)
    note pos = register_lengths(2) [OF datetime(1)]
    show thesis
    proof (rule that [OF encodeBytes_datetime [OF datetime(1,2)]])
      show "shows_text ft zone spec registers text"
        if "unat (registerLength spec) \<le> length registers"
          "in_order spec (registersToBytes (take (unat (registerLength spec)) registers)) = encodeIEC870DateTime ms"
        for registers
        using decodes_datetime [OF that(1) _ that(2) datetime(1) datetime_returns [OF datetime(3,4)], where ft = ft]
        by (simp add: datetime(5) pos)
    qed (simp_all add: pos)
  next
    case utf8
    show thesis
    proof (rule that [OF encodeBytes_utf8 [OF utf8(1,2)]])
      show "shows_text ft zone spec registers text"
        if "unat (registerLength spec) \<le> length registers"
          "in_order spec (registersToBytes (take (unat (registerLength spec)) registers)) =
           bytes_of input @ replicate (2 * unat (registerLength spec) - length input) 0" for registers
        using decodes_utf8 [OF that(1) register_lengths(3) [OF utf8(1)] that(2) utf8(1), where ft = ft and zone = zone]
          padded_text [OF utf8(3), of "2 * unat (registerLength spec) - length input"] utf8(4)
          string_of_bytes_of [of input]
        by (auto simp: utf8(5) simp del: string_of_bytes_of)
    qed (use utf8(2) register_lengths(3) [OF utf8(1)] in simp_all)
  qed
qed

lemma encoded_value_shown:
  assumes "expected_display zone spec input = Some text" "EncodeRegisterValue ft spec input = Inr regs"
  shows "length regs = unat (registerLength spec)" "shows_text ft zone spec (regs @ others) text"
proof -
  obtain bs where bs: "encodeBytes ft spec input = Inr bs" "length bs = 2 * unat (registerLength spec)"
    "registerLength spec \<noteq> 0"
    "\<And>registers. unat (registerLength spec) \<le> length registers \<Longrightarrow>
       in_order spec (registersToBytes (take (unat (registerLength spec)) registers)) = bs \<Longrightarrow>
       shows_text ft zone spec registers text"
    using expected_bytes [OF assms(1)] by blast
  then have regs: "regs = bytesToRegisters (in_order spec bs)"
    using assms(2) by (simp add: EncodeRegisterValue_def flip: in_order_def)
  with bs(2) show n: "length regs = unat (registerLength spec)"
    by (simp add: length_bytesToRegisters length_in_order)
  show "shows_text ft zone spec (regs @ others) text"
    using bs(2) n by (intro bs(4)) (simp_all add: regs in_order_undone)
qed

text \<open>a value the user enters for a register is encoded into exactly as many registers as its type
  takes, in either word order, and what the decoder displays for these registers, followed by any others,
  is what was entered: an integer in its decimal form (also one of 64 bits up to two to the 53rd), an
  instant as its date and time, a text as it is.\<close>

theorem register_value_displayed:
  assumes "expected_display zone spec input = Some text"
  shows "\<exists>regs. EncodeRegisterValue ft spec input = Inr regs \<and> length regs = unat (registerLength spec) \<and>
           (\<forall>others. \<exists>d. DecodeRegisterValue ft zone spec (regs @ others) = Inr d \<and> dvDisplay d = text \<and> dvRaw d = regs)"
proof -
  obtain bs where "encodeBytes ft spec input = Inr bs" "registerLength spec \<noteq> 0"
    using expected_bytes [OF assms, of ft] by metis
  then obtain regs where regs: "EncodeRegisterValue ft spec input = Inr regs"
    by (simp add: EncodeRegisterValue_def)
  from encoded_value_shown [OF assms regs] have "\<exists>d. DecodeRegisterValue ft zone spec (regs @ others) = Inr d \<and>
      dvDisplay d = text \<and> dvRaw d = regs" for others by (simp add: shows_text_def)
  with regs encoded_value_shown(1) [OF assms regs] show ?thesis by blast
qed

definition sample_texts :: float_texts where
  "sample_texts = \<lparr>ftParse32 = (\<lambda>_. None), ftParse64 = (\<lambda>_. None), ftFormat = (\<lambda>_. []), ftWild = (\<lambda>_. 0)\<rparr>"

definition sample_spec :: "data_type \<Rightarrow> registerValueSpec" where
  "sample_spec t = \<lparr>vsDataType = t, vsWordOrder = ''little'', vsLength = 0, vsScalingFactor = Finite 0,
     vsInterpolate = None, vsLocalTime = False\<rparr>"

lemma sample_type: "normalizeDataType ''Int32'' = ''int32''" "plain_integer ''int32''" 
  by code_simp+
lemma sample_parsed: "parseInteger ''int32'' ''-12'' = Some (- 12)" by code_simp
lemma sample_shown: "itoa (- 12) = ''-12''" by code_simp

lemma sample_expected: "expected_display (\<lambda>_. 0) (sample_spec ''Int32'') ''-12'' = Some ''-12''"
  by (simp add: expected_display_def sample_spec_def sample_type sample_parsed sample_shown)

theorem register_value_displayed_witness:
  "\<exists>regs. EncodeRegisterValue sample_texts (sample_spec ''Int32'') ''-12'' = Inr regs \<and>
     length regs = unat (registerLength (sample_spec ''Int32'')) \<and>
     (\<forall>others. \<exists>d. DecodeRegisterValue sample_texts (\<lambda>_. 0) (sample_spec ''Int32'') (regs @ others) = Inr d \<and>
        dvDisplay d = ''-12'' \<and> dvRaw d = regs)"
  using register_value_displayed [OF sample_expected] by blast

text \<open>
  Where nothing is expected: an integer above two to the 53rd is shown as its neighbour, an unsigned one
  of 64 bits above the signed range cannot be shown, and an instant after 2127 is shown 128 years early.
\<close>

lemma large_integer_rounded: "float_of_int (2 ^ 53 + 1) = Finite (2 ^ 53)"
proof -
  have "\<lfloor>9007199254740993 / 2 :: rat\<rfloor> = 4503599627370496" by (simp add: floor_eq_iff)
  then show ?thesis
    by (simp add: float_of_int_def round64_def exponent_of_def bit_length.simps pow2_def round_even_def)
qed

lemma itoa_eq: "itoa i = itoa j \<longleftrightarrow> i = j"
proof -
  have "\<not> is_digit (CHR ''-'')" by code_simp
  then have "nat_digits n \<noteq> CHR ''-'' # s" for n s using digits_only [of n] by auto
  then show ?thesis by (auto simp: itoa_def dest: not_sym split: if_splits)
qed

lemma large_unsigned_misread:
  assumes "\<And>x. ftWild ft x < 2 ^ 63"
  shows "decodeNumber DataTypeUint64 [0x80, 0, 0, 0, 0, 0, 0, 0] = Some (Finite (2 ^ 63))"
    and "formatNumber ft (Finite (2 ^ 63)) \<noteq> itoa (2 ^ 63)"
proof -
  show "decodeNumber DataTypeUint64 [0x80, 0, 0, 0, 0, 0, 0, 0] = Some (Finite (2 ^ 63))"
    by (simp add: decodeNumber_def get_be_def float_of_int_def round64_def exponent_of_def bit_length.simps pow2_def round_even_def)
  have "formatNumber ft (Finite (2 ^ 63)) = itoa (ftWild ft (Finite (2 ^ 63)))"
    by (simp add: formatNumber_def float_eq_def float_to_int64_def)
  then show "formatNumber ft (Finite (2 ^ 63)) \<noteq> itoa (2 ^ 63)"
    using assms [of "Finite (2 ^ 63)"] by (simp add: itoa_eq)
qed

lemma late_instant_wraps:
  "decodeIEC870DateTime zone (encodeIEC870DateTime 4985971200000) localTime = Inr (formatModbusTime zone 946684800 localTime)"
proof -
  have date: "civil_date 57708 = (2128,1,1)" by (simp add: civil_date_def count_years.simps year_days_def leap_year_def count_months.simps month_days_def)
  have "encodeIEC870DateTime 4985971200000 = [0, 128, 1, 1, 0, 0, 0, 0]"
    by (simp add: encodeIEC870DateTime_def date put_be_2 to_unsigned_def)
  moreover have "days_of_date 2000 1 1 = 10957"
    using first_day_years by (simp add: days_of_date_def first_day_def)
  ultimately show ?thesis
    by (simp add: decodeIEC870DateTime_def get_be_def)
qed

section \<open>Blocks contain every configured register\<close>

text \<open>The number of registers a mapping occupies.\<close>

definition mapping_length :: "registerMapping \<Rightarrow> nat" where
  "mapping_length m =
     (let n = unat (registerLength \<lparr>vsDataType = rmDataType m, vsWordOrder = [], vsLength = rmLength m,
                vsScalingFactor = Finite 0, vsInterpolate = None, vsLocalTime = False\<rparr>)
      in if n = 0 then 1 else n)"

abbreviation "fits m \<equiv> unat (rmAddress m) + mapping_length m \<le> 65535"

lemma mapping_length_pos: "1 \<le> mapping_length m"
  by (simp add: mapping_length_def Let_def)

lemma mappingEnd_value:
  assumes "fits m"
  shows "unat (mappingEnd m) + 1 = unat (rmAddress m) + mapping_length m"
proof -
  define w where "w = registerLength \<lparr>vsDataType = rmDataType m, vsWordOrder = [], vsLength = rmLength m,
    vsScalingFactor = Finite 0, vsInterpolate = None, vsLocalTime = False\<rparr>"
  define k where "k = (if w = 0 then 1 else w)"
  have k: "unat k = mapping_length m"
    by (simp add: k_def mapping_length_def unat_eq_zero flip: w_def)
  have "1 \<le> unat k" using mapping_length_pos [of m] k by simp
  then have "1 \<le> k" by (simp add: word_le_nat_alt)
  moreover have "rmAddress m + k - 1 = rmAddress m + (k - 1)" by simp
  moreover have "unat (k - 1) = unat k - 1" using \<open>1 \<le> k\<close> by (simp add: unat_sub)
  moreover have "unat (rmAddress m + (k - 1)) = unat (rmAddress m) + unat (k - 1)"
    using assms k \<open>unat (k - 1) = unat k - 1\<close> by (subst unat_add_lem [THEN iffD1]) simp_all
  ultimately have "unat (rmAddress m + k - 1) + 1 = unat (rmAddress m) + mapping_length m"
    using k \<open>1 \<le> unat k\<close> by (simp only:)
  then show ?thesis by (simp add: mappingEnd_def Let_def k_def flip: w_def)
qed

lemma block_length:
  fixes s e :: u16
  assumes "s \<le> e" "unat e < 65535"
  shows "unat (e - s + 1) = unat e + 1 - unat s"
proof -
  have "unat (e - s) = unat e - unat s" using assms(1) by (simp add: unat_sub)
  moreover have "unat s \<le> unat e" using assms(1) by (simp add: word_le_nat_alt)
  ultimately show ?thesis using assms(2) by (subst unat_add_lem [THEN iffD1]) simp_all
qed

text \<open>Where a block ends: it contains what it consumed, and it only grows within the limit.\<close>

lemma extendGroup_covers:
  assumes "extendGroup n s e cur ms = (e', rest)" "s \<le> e" "unat e < 65535"
    "\<forall>m \<in> set ms. fits m \<and> s \<le> rmAddress m"
  shows "\<exists>joined. ms = joined @ rest \<and> e \<le> e' \<and> unat e' < 65535 \<and>
           (\<forall>m \<in> set joined. \<not> unmapped m \<longrightarrow> mappingEnd m \<le> e') \<and> (e' = e \<or> e' - s + 1 \<le> n)"
  using assms
proof (induction n s e cur ms rule: extendGroup.induct)
  case (2 n s e cur m ms)
  have fits: "fits m" "s \<le> rmAddress m" using 2(6) by simp_all
  show ?case
  proof (cases "rmGroupEnd cur")
    case False
    show ?thesis
    proof (cases "unmapped m")
      case True
      then have "\<exists>joined. ms = joined @ rest \<and> e \<le> e' \<and> unat e' < 65535 \<and>
           (\<forall>m \<in> set joined. \<not> unmapped m \<longrightarrow> mappingEnd m \<le> e') \<and> (e' = e \<or> e' - s + 1 \<le> n)"
        using 2(1) [OF False True] 2(3-6) False by simp
      then obtain joined where "ms = joined @ rest \<and> e \<le> e' \<and> unat e' < 65535 \<and>
           (\<forall>m \<in> set joined. \<not> unmapped m \<longrightarrow> mappingEnd m \<le> e') \<and> (e' = e \<or> e' - s + 1 \<le> n)" ..
      then show ?thesis using True by (intro exI [of _ "m # joined"]) simp
    next
      case mapped: False
      define c where "c = (if e < mappingEnd m then mappingEnd m else e)"
      have c: "e \<le> c" "mappingEnd m \<le> c" by (simp_all add: c_def less_imp_le not_less)
      have c_small: "unat c < 65535" using 2(5) mappingEnd_value [OF fits(1)] fits(1) by (simp add: c_def)
      show ?thesis
      proof (cases "n < c - s + 1")
        case True
        then show ?thesis using 2(3,5) False mapped by (simp add: Let_def c_def split: if_splits)
      next
        case within: False
        have "s \<le> c" using 2(4) c(1) by simp
        then have "\<exists>joined. ms = joined @ rest \<and> c \<le> e' \<and> unat e' < 65535 \<and>
             (\<forall>m \<in> set joined. \<not> unmapped m \<longrightarrow> mappingEnd m \<le> e') \<and> (e' = c \<or> e' - s + 1 \<le> n)"
          using 2(2) [OF False mapped c_def within] 2(3,6) False mapped within c_small
          by (simp add: Let_def flip: c_def)
        then obtain joined where j: "ms = joined @ rest" "c \<le> e'" "unat e' < 65535"
          "\<forall>m \<in> set joined. \<not> unmapped m \<longrightarrow> mappingEnd m \<le> e'" "e' = c \<or> e' - s + 1 \<le> n" by blast
        moreover have "e \<le> e'" "mappingEnd m \<le> e'" using c j(2) by (auto intro: order_trans)
        moreover have "e' - s + 1 \<le> n" using j(5) within by auto
        ultimately show ?thesis by (intro exI [of _ "m # joined"]) simp
      qed
    qed
  qed (use 2 in simp)
qed simp

text \<open>The blocks of a list of mappings in the order of their addresses.\<close>

definition in_block :: "registerMapping \<Rightarrow> addressGroup \<Rightarrow> bool" where
  "in_block m g = (unat (agAddress g) \<le> unat (rmAddress m) \<and>
     unat (rmAddress m) + mapping_length m \<le> unat (agAddress g) + unat (agQuantity g))"

definition own_block :: "registerMapping \<Rightarrow> addressGroup" where
  "own_block m = \<lparr>agAddress = rmAddress m, agQuantity = mappingEnd m - rmAddress m + 1\<rparr>"

lemma in_block_end:
  assumes "fits m" "s \<le> rmAddress m" "mappingEnd m \<le> e" "s \<le> e" "unat e < 65535"
  shows "in_block m \<lparr>agAddress = s, agQuantity = e - s + 1\<rparr>"
proof -
  have "unat s \<le> unat (rmAddress m)" "unat (mappingEnd m) \<le> unat e" "unat s \<le> unat e"
    using assms(2-4) by (simp_all add: word_le_nat_alt)
  then show ?thesis
    using mappingEnd_value [OF assms(1)] block_length [OF assms(4,5)] by (simp add: in_block_def)
qed

lemma groupItems_blocks:
  assumes "sorted (map rmAddress ms)" "\<forall>m \<in> set ms. fits m"
  shows "(\<forall>m \<in> set ms. \<not> unmapped m \<longrightarrow> (\<exists>g \<in> set (groupItems n ms). in_block m g)) \<and>
         (\<forall>g \<in> set (groupItems n ms). 1 \<le> agQuantity g \<and> (\<exists>m \<in> set ms. agAddress g = rmAddress m) \<and>
            (agQuantity g \<le> n \<or> (\<exists>m \<in> set ms. g = own_block m))) \<and>
         sorted (map agAddress (groupItems n ms))"
  using assms
proof (induction n ms rule: groupItems.induct)
  case (2 n m ms)
  show ?case
  proof (cases "unmapped m")
    case True
    then show ?thesis using 2 by auto
  next
    case False
    obtain e rest where ext: "extendGroup n (rmAddress m) (mappingEnd m) m ms = (e, rest)"
      by (cases "extendGroup n (rmAddress m) (mappingEnd m) m ms")
    have m: "fits m" and le: "\<forall>k \<in> set ms. rmAddress m \<le> rmAddress k" using 2(3,4) by auto
    have first: "rmAddress m \<le> mappingEnd m" "unat (mappingEnd m) < 65535"
      using mappingEnd_value [OF m] mapping_length_pos [of m] m by (simp_all add: word_le_nat_alt)
    obtain joined where j: "ms = joined @ rest" "mappingEnd m \<le> e" "unat e < 65535"
      "\<forall>k \<in> set joined. \<not> unmapped k \<longrightarrow> mappingEnd k \<le> e" "e = mappingEnd m \<or> e - rmAddress m + 1 \<le> n"
      using extendGroup_covers [OF ext first] 2(4) le by auto
    let ?g = "\<lparr>agAddress = rmAddress m, agQuantity = e - rmAddress m + 1\<rparr>"
    have me: "rmAddress m \<le> e" using first(1) j(2) by simp
    have groups: "groupItems n (m # ms) = ?g # groupItems n rest" using False by (simp add: ext)
    have rest: "snd (extendGroup n (rmAddress m) (mappingEnd m) m ms) = rest" by (simp add: ext)
    have "sorted (map rmAddress rest)" "\<forall>k \<in> set rest. fits k"
      using 2(3,4) by (auto simp: j(1) sorted_append)
    then have ih: "\<forall>k \<in> set rest. \<not> unmapped k \<longrightarrow> (\<exists>g \<in> set (groupItems n rest). in_block k g)"
      "\<forall>g \<in> set (groupItems n rest). 1 \<le> agQuantity g \<and> (\<exists>k \<in> set rest. agAddress g = rmAddress k) \<and>
         (agQuantity g \<le> n \<or> (\<exists>k \<in> set rest. g = own_block k))"
      "sorted (map agAddress (groupItems n rest))"
      using 2(2) [OF False refl, unfolded rest] by blast+
    have g1: "in_block k ?g" if "k \<in> set (m # joined)" "\<not> unmapped k" for k
      using that j(1-4) 2(4) le me by (intro in_block_end) auto
    have g2: "1 \<le> agQuantity ?g"
      using block_length [OF me j(3)] me by (simp add: word_le_nat_alt)
    have g3: "agQuantity ?g \<le> n \<or> ?g = own_block m" using j(5) by (auto simp: own_block_def)
    have g4: "\<forall>g \<in> set (groupItems n rest). rmAddress m \<le> agAddress g"
      using ih(2) le j(1) by fastforce
    have all: "set (m # ms) = set (m # joined) \<union> set rest" by (simp add: j(1))
    show ?thesis unfolding groups all
    proof (intro conjI)
      show "\<forall>k \<in> set (m # joined) \<union> set rest. \<not> unmapped k \<longrightarrow> (\<exists>g \<in> set (?g # groupItems n rest). in_block k g)"
      proof (intro ballI impI)
        fix k
        assume "k \<in> set (m # joined) \<union> set rest" "\<not> unmapped k"
        then show "\<exists>g \<in> set (?g # groupItems n rest). in_block k g"
          using g1 [of k] ih(1) by (cases "k \<in> set (m # joined)") auto
      qed
      show "\<forall>g \<in> set (?g # groupItems n rest). 1 \<le> agQuantity g \<and>
          (\<exists>k \<in> set (m # joined) \<union> set rest. agAddress g = rmAddress k) \<and>
          (agQuantity g \<le> n \<or> (\<exists>k \<in> set (m # joined) \<union> set rest. g = own_block k))"
      proof
        fix g
        assume "g \<in> set (?g # groupItems n rest)"
        then consider "g = ?g" | "g \<in> set (groupItems n rest)" by auto
        then show "1 \<le> agQuantity g \<and> (\<exists>k \<in> set (m # joined) \<union> set rest. agAddress g = rmAddress k) \<and>
            (agQuantity g \<le> n \<or> (\<exists>k \<in> set (m # joined) \<union> set rest. g = own_block k))"
          by cases (use g2 g3 ih(2) in auto)
      qed
      show "sorted (map agAddress (?g # groupItems n rest))" using g4 ih(3) by simp
    qed
  qed
qed simp


definition sample_mapping :: "u16 \<Rightarrow> data_type \<Rightarrow> registerMapping" where
  "sample_mapping a t = \<lparr>rmAddress = a, rmDataType = t, rmWordOrder = [], rmLength = 0, rmScalingFactor = Finite 0,
     rmComment = [], rmInterpolate = None, rmGroupEnd = False\<rparr>"

definition sample_mappings :: "registerMapping list" where
  "sample_mappings = [sample_mapping 12 ''int32'', sample_mapping 10 [], sample_mapping 500 ''double'']"

lemma sample_lengths: "mapping_length (sample_mapping a ''int32'') = 2" "mapping_length (sample_mapping a []) = 1"
  "mapping_length (sample_mapping a ''double'') = 4"
  by (simp_all add: mapping_length_def sample_mapping_def registerLength_def normalizeDataType_def lower_char_def ascii_upper_def)

lemma sample_fields [simp]: "rmAddress (sample_mapping a t) = a" "\<not> rmGroupEnd (sample_mapping a t)"
  by (simp_all add: sample_mapping_def)

lemma sample_mapped: "\<not> unmapped (sample_mapping a ''int32'')" "\<not> unmapped (sample_mapping a ''double'')"
  "\<not> unmapped (sample_mapping a [])"
  by (simp_all add: unmapped_def sample_mapping_def normalizeDataType_def lower_char_def ascii_upper_def)

lemma sample_ends: "mappingEnd (sample_mapping a ''int32'') = a + 1" "mappingEnd (sample_mapping a ''double'') = a + 3"
  "mappingEnd (sample_mapping a []) = a"
  by (simp_all add: mappingEnd_def sample_mapping_def registerLength_def normalizeDataType_def lower_char_def ascii_upper_def)


text \<open>Registers at both ends of the address range: the length of the block is counted modulo 65536.\<close>

lemma whole_range_block:
  "GroupRegisterMappings (sort_key rmAddress) [sample_mapping 0 [], sample_mapping 65535 []] 0 =
     [\<lparr>agAddress = 0, agQuantity = 0\<rparr>]"
  by (simp add: GroupRegisterMappings_def sample_mapped sample_ends)

end
