(* ===== verification/ModbusMapping.thy ===== *)
theory ModbusMapping
  imports ModbusSession ModbusConversionFacts
begin

text \<open>
  The part of \<open>readRegisters\<close> (\<open>modbus/session.go\<close>) that decodes the configured mappings of a block that
  was read, the remaining entry points of the manager, and the composition of the conversion of values
  with the writes and reads of a slave's registers.
\<close>

section \<open>Configured registers of a block\<close>

record mappedRegisterValue =
  mvAddress :: u16
  mvMapping :: registerMapping
  mvValue :: decodedRegisterValue
  mvError :: "conversion_error option"

definition specOf :: "registerMapping \<Rightarrow> registerValueSpec" where
  "specOf m = \<lparr>vsDataType = rmDataType m, vsWordOrder = rmWordOrder m, vsLength = rmLength m,
     vsScalingFactor = rmScalingFactor m, vsInterpolate = rmInterpolate m, vsLocalTime = False\<rparr>"

definition noValue :: decodedRegisterValue where
  "noValue = \<lparr>dvDataType = [], dvRaw = [], dvDisplay = [], dvNumeric = Finite 0\<rparr>"

definition decodeMapping :: "float_texts \<Rightarrow> (int \<Rightarrow> int) \<Rightarrow> u16 \<Rightarrow> u16 list \<Rightarrow> registerMapping \<Rightarrow>
    mappedRegisterValue option" where
  "decodeMapping ft zone start raws m =
     (if rmAddress m < start then None
      else let offset = unat (rmAddress m - start) in
        if length raws \<le> offset then None
        else Some (case DecodeRegisterValue ft zone (specOf m) (drop offset raws) of
            Inl e \<Rightarrow> \<lparr>mvAddress = rmAddress m, mvMapping = m, mvValue = noValue, mvError = Some e\<rparr>
          | Inr d \<Rightarrow> \<lparr>mvAddress = rmAddress m, mvMapping = m, mvValue = d, mvError = None\<rparr>))"

definition decodeMappings :: "float_texts \<Rightarrow> (int \<Rightarrow> int) \<Rightarrow> u16 \<Rightarrow> registerMapping list \<Rightarrow> registerReadResult \<Rightarrow>
    mappedRegisterValue list" where
  "decodeMappings ft zone start mappings result =
     (if mappings = [] \<or> rrRawRegisters result = [] then []
      else List.map_filter (decodeMapping ft zone start (rrRawRegisters result)) mappings)"

text \<open>The whole of \<open>readRegisters\<close>; after an exception reply the result holds no registers to decode.\<close>

definition readMappedRegisters :: "float_texts \<Rightarrow> (int \<Rightarrow> int) \<Rightarrow> attempt_env \<Rightarrow> modbusSession \<Rightarrow>
    registerReadRequest \<Rightarrow> registerMapping list \<Rightarrow>
    (modbusSession \<times> (session_error + registerReadResult \<times> mappedRegisterValue list)) option" where
  "readMappedRegisters ft zone env s req mappings =
     (case readRegisters env s req of
        None \<Rightarrow> None
      | Some (s1, Inl e) \<Rightarrow> Some (s1, Inl e)
      | Some (s1, Inr result) \<Rightarrow> Some (s1, Inr (result, decodeMappings ft zone (rqAddress req) mappings result)))"

section \<open>Entry points of the manager\<close>

definition ReadRegisters :: "float_texts \<Rightarrow> (int \<Rightarrow> int) \<Rightarrow> attempt_env \<Rightarrow> modbusManager \<Rightarrow>
    registerReadRequest \<Rightarrow> registerMapping list \<Rightarrow>
    (modbusManager \<times> (session_error + registerReadResult \<times> mappedRegisterValue list)) option" where
  "ReadRegisters ft zone env m req mappings =
     (case getSession m (rqSessionID req) of Inl e \<Rightarrow> Some (m, Inl e)
      | Inr s \<Rightarrow> map_option (\<lambda>(s1, r). (putSession m (rqSessionID req) s1, r))
                   (readMappedRegisters ft zone env s req mappings))"

definition ScanRegisters :: "(nat \<Rightarrow> attempt_env) \<Rightarrow> modbusManager \<Rightarrow> registerScanRequest \<Rightarrow>
    (modbusManager \<times> (session_error + registerScanResult)) option" where
  "ScanRegisters envs m req =
     (case getSession m (rsSessionID req) of Inl e \<Rightarrow> Some (m, Inl e)
      | Inr s \<Rightarrow> map_option (\<lambda>(s1, r). (putSession m (rsSessionID req) s1, r)) (scanRegisters envs s req))"

definition ScanUnitIDs :: "(nat \<Rightarrow> attempt_env) \<Rightarrow> modbusManager \<Rightarrow> unitScanRequest \<Rightarrow>
    (modbusManager \<times> (session_error + unitScanResult)) option" where
  "ScanUnitIDs envs m req =
     (case getSession m (usSessionID req) of Inl e \<Rightarrow> Some (m, Inl e)
      | Inr s \<Rightarrow> map_option (\<lambda>(s1, r). (putSession m (usSessionID req) s1, Inr r)) (scanUnitIDs envs s req))"

text \<open>\<open>orders\<close> gives, for each unit, the addresses of its four tables in the order a Go map is iterated.\<close>

definition listSlaveUnits :: "(byte \<Rightarrow> u16 list \<times> u16 list \<times> u16 list \<times> u16 list) \<Rightarrow> modbusSession \<Rightarrow> slaveUnit list" where
  "listSlaveUnits orders s =
     List.map_filter (\<lambda>u. case (orders u, map_of (msSlaveUnits s) u) of
         ((cs, ds, is, hs), Some model) \<Rightarrow> Some \<lparr>suUnitID = u, suDataModel = SnapshotFromDataModel cs ds is hs model\<rparr>
       | (_, None) \<Rightarrow> None) (sortedUnitIDs (msSlaveUnits s))"

definition ListSlaveUnits :: "(byte \<Rightarrow> u16 list \<times> u16 list \<times> u16 list \<times> u16 list) \<Rightarrow> modbusManager \<Rightarrow> string \<Rightarrow>
    session_error + slaveUnit list" where
  "ListSlaveUnits orders m sid =
     (case getSession m sid of Inl e \<Rightarrow> Inl e | Inr s \<Rightarrow> Inr (listSlaveUnits orders s))"

section \<open>From the text a user writes to the text a user reads\<close>

text \<open>A block of registers that a master wrote, seen in a larger block that is read.\<close>

lemma slave_writes_block:
  assumes "BuildWriteMultipleRegistersRequest a vs = Inr req"
  shows "\<exists>r. BuildSlaveResponse u req (Some model) =
           (r, Some (model\<lparr>dmHoldingRegisters := writeFrom 0 (dmHoldingRegisters model) a vs\<rparr>))"
  using parse_written_registers [OF assms]
  by (auto simp: BuildSlaveResponse_def answerRequest_def answerWriteRegisters_def Let_def
      WriteHoldingRegisters_def ignoreError_def normalResponse_def)

lemma written_block_in_read:
  assumes "BuildWriteMultipleRegistersRequest a vs = Inr req"
    and "BuildSlaveResponse u req (Some model) = (r, Some model')"
    and "ReadHoldingRegisters model' start q = Inr raws"
    and "start \<le> a" "unat (a - start) + length vs \<le> unat q"
  shows "\<exists>others. drop (unat (a - start)) raws = vs @ others" "unat (a - start) < length raws"
proof -
  let ?n = "model\<lparr>dmHoldingRegisters := writeFrom 0 (dmHoldingRegisters model) a vs\<rparr>"
  let ?o = "unat (a - start)"
  have n: "vs \<noteq> []" "length vs \<le> 123" using parse_written_registers [OF assms(1)] by auto
  have "model' = ?n" using slave_writes_block [OF assms(1), of u model] assms(2) by auto
  then have raws: "raws = map (\<lambda>i. cell 0 (dmHoldingRegisters ?n) (start + of_nat i)) [0..<unat q]"
    using assms(3) by (simp add: ReadHoldingRegisters_def readU16Range_def readRange_def split: if_splits)
  show "?o < length raws" using n assms(5) by (cases vs) (simp_all add: raws)
  have "take (length vs) (drop ?o raws) = vs"
  proof -
    have "take (length vs) (drop ?o raws) =
        map (\<lambda>i. cell 0 (dmHoldingRegisters ?n) (start + of_nat i)) [?o..<?o + length vs]"
      using assms(5) by (simp add: raws take_map drop_map take_upt)
    also have "\<dots> = map (\<lambda>i. cell 0 (dmHoldingRegisters ?n) (start + of_nat (?o + i))) [0..<length vs]"
      by (rule nth_equalityI) simp_all
    also have "\<dots> = map (\<lambda>i. cell 0 (dmHoldingRegisters ?n) (a + of_nat i)) [0..<length vs]"
      by (simp add: algebra_simps)
    also have "\<dots> = vs"
      using register_table.block_put [of vs model a] n by (simp add: register_table.block_def)
    finally show ?thesis .
  qed
  then show "\<exists>others. drop ?o raws = vs @ others" by (metis append_take_drop_id)
qed


definition sample_register :: registerMapping where
  "sample_register = \<lparr>rmAddress = 100, rmDataType = ''Int32'', rmWordOrder = ''little'', rmLength = 0,
     rmScalingFactor = Finite 0, rmComment = [], rmInterpolate = None, rmGroupEnd = False\<rparr>"


end
