(* ===== verification/FecbusAnnotation.thy ===== *)
theory FecbusAnnotation
  imports FecbusSession RingBuffer Float64
begin

text \<open>
  The explanation of captured FECbus frames (\<open>fecbus/annotation.go\<close>, types from \<open>fecbus/types.go\<close>):
  the segments of a frame, the fields of its data by the tables of Appendix C or by definitions of the
  user, and the construction of a payload from field values. Texts in Chinese are given by the bytes of
  their encoding. A result is \<open>None\<close> where the code panics: offsets and lengths of the user's definitions are
  machine integers whose sum may wrap. The way \<open>fmt\<close> prints a floating-point number is an argument.
\<close>

section \<open>Types\<close>

text \<open>
  A value of type \<open>any\<close>: an \<open>int\<close>, \<open>int32\<close>, \<open>int64\<close> or \<open>byte\<close>, a floating-point number, a string, a slice of bytes,
  and any other value, given by the way it is printed.
\<close>

datatype goValue = GInteger int | GFloat float64 | GText string | GBytes bytes | GOther string

record fieldDefinition =
  fdKey :: string
  fdLabel :: string
  fdOffset :: int
  fdLength :: int
  fdType :: string
  fdEndian :: string
  fdEnum :: "(byte \<times> string) list option"
  fdEnum16 :: "(u16 \<times> string) list option"
  fdMeaning :: string

record customField =
  cfKey :: string
  cfLabel :: string
  cfOffset :: int
  cfLength :: int
  cfType :: string
  cfEndian :: string
  cfEnum :: "(byte \<times> string) list option"
  cfMeaning :: string

record customFunction =
  cuCode :: byte
  cuName :: string
  cuDescription :: string
  cuDirection :: string
  cuAnswer :: bool
  cuFields :: "customField list"

record frameSegment =
  sgKey :: string
  sgLabel :: string
  sgStart :: int
  sgEnd :: int
  sgHex :: string
  sgValue :: goValue
  sgValueText :: string
  sgMeaning :: string

type_synonym fieldAnnotation = frameSegment

record annotatedFrame =
  afSegments :: "frameSegment list"
  afDataFields :: "fieldAnnotation list"
  afFunction :: functionInfo
  afGroupKey :: string
  afGroupColorIndex :: int
  afSummary :: string
  afWarnings :: "string list"

section \<open>The tables of Appendix C\<close>

definition statusMeanings :: "(byte \<times> string) list" where
  "statusMeanings = [
    (0, (string_of [0xE5, 0x88, 0x86, 0xE7, 0xBB, 0x84, 0xE7, 0xBB, 0x93, 0xE6, 0x9D, 0x9F])),
    (1, (string_of [0x43, 0x52, 0x43, 0x20, 0xE6, 0xA0, 0xA1, 0xE9, 0xAA, 0x8C, 0xE9, 0x94, 0x99])),
    (2, (string_of [0xE6, 0x97, 0xA0, 0xE6, 0x95, 0x88, 0xE6, 0x9C, 0x8D, 0xE5, 0x8A, 0xA1])),
    (3, (string_of [0xE5, 0x8D, 0x95, 0xE5, 0x85, 0x83, 0xE6, 0x95, 0x85, 0xE9, 0x9A, 0x9C])),
    (4, (string_of [0xE5, 0xBF, 0x99])),
    (5, (string_of [0xE5, 0x91, 0xBD, 0xE4, 0xBB, 0xA4, 0xE4, 0xB8, 0x8D, 0xE8, 0xAF, 0x86, 0xE5, 0x88, 0xAB])),
    (6, (string_of [0xE5, 0x9C, 0xB0, 0xE5, 0x9D, 0x80, 0xE4, 0xB8, 0x8D, 0xE5, 0xAD, 0x98, 0xE5, 0x9C, 0xA8])),
    (7, (string_of [0xE5, 0x8F, 0x82, 0xE6, 0x95, 0xB0, 0xE9, 0x94, 0x99, 0xE8, 0xAF, 0xAF])),
    (8, (string_of [0xE5, 0xA4, 0x84, 0xE7, 0x90, 0x86, 0xE4, 0xB8, 0xAD])),
    (9, (string_of [0xE4, 0xBA, 0x8B, 0xE4, 0xBB, 0xB6, 0xE7, 0xBB, 0x93, 0xE6, 0x9D, 0x9F])),
    (10, (string_of [0xE6, 0x8E, 0xA5, 0xE6, 0x94, 0xB6, 0xE6, 0xAD, 0xA3, 0xE7, 0xA1, 0xAE]))]"

definition deviceTypeMeanings :: "(u16 \<times> string) list" where
  "deviceTypeMeanings = [
    (1, (string_of [0xE6, 0x8E, 0xA7, 0xE5, 0x88, 0xB6, 0xE5, 0x99, 0xA8, 0x2F, 0xE5, 0x85, 0xB7, 0xE6, 0x9C, 0x89, 0xE8, 0x81, 0x94, 0xE5, 0x8A, 0xA8, 0xE6, 0x8E, 0xA7, 0xE5, 0x88, 0xB6, 0xE5, 0x8A, 0x9F, 0xE8, 0x83, 0xBD, 0xE7, 0x9A, 0x84, 0xE6, 0x8E, 0xA7, 0xE5, 0x88, 0xB6, 0xE5, 0x99, 0xA8])),
    (2, (string_of [0xE6, 0xB6, 0x88, 0xE9, 0x98, 0xB2, 0xE8, 0x81, 0x94, 0xE5, 0x8A, 0xA8, 0xE6, 0x8E, 0xA7, 0xE5, 0x88, 0xB6, 0xE5, 0x99, 0xA8])),
    (10, (string_of [0xE7, 0x81, 0xAB, 0xE7, 0x81, 0xBE, 0xE6, 0x98, 0xBE, 0xE7, 0xA4, 0xBA, 0xE7, 0x9B, 0x98])),
    (20, (string_of [0xE7, 0x81, 0xAB, 0xE7, 0x81, 0xBE, 0xE6, 0x8E, 0xA2, 0xE6, 0xB5, 0x8B, 0xE5, 0x99, 0xA8])),
    (30, (string_of [0xE6, 0x84, 0x9F, 0xE6, 0xB8, 0xA9, 0xE7, 0x81, 0xAB, 0xE7, 0x81, 0xBE, 0xE6, 0x8E, 0xA2, 0xE6, 0xB5, 0x8B, 0xE5, 0x99, 0xA8])),
    (40, (string_of [0xE7, 0x81, 0xAB, 0xE7, 0x84, 0xB0, 0xE6, 0x8E, 0xA2, 0xE6, 0xB5, 0x8B, 0xE5, 0x99, 0xA8])),
    (61, (string_of [0xE6, 0x89, 0x8B, 0xE5, 0x8A, 0xA8, 0xE7, 0x81, 0xAB, 0xE7, 0x81, 0xBE, 0xE6, 0x8A, 0xA5, 0xE8, 0xAD, 0xA6, 0xE6, 0x8C, 0x89, 0xE9, 0x92, 0xAE])),
    (81, (string_of [0xE7, 0x81, 0xAB, 0xE7, 0x81, 0xBE, 0xE8, 0xAD, 0xA6, 0xE6, 0x8A, 0xA5, 0xE8, 0xA3, 0x85, 0xE7, 0xBD, 0xAE])),
    (100, (string_of [0xE5, 0x8F, 0xAF, 0xE7, 0x87, 0x83, 0xE6, 0xB0, 0x94, 0xE4, 0xBD, 0x93, 0xE6, 0x8A, 0xA5, 0xE8, 0xAD, 0xA6, 0xE6, 0x8E, 0xA7, 0xE5, 0x88, 0xB6, 0xE5, 0x99, 0xA8])),
    (110, (string_of [0xE7, 0x94, 0xB5, 0xE6, 0xB0, 0x94, 0xE7, 0x81, 0xAB, 0xE7, 0x81, 0xBE, 0xE7, 0x9B, 0x91, 0xE6, 0x8E, 0xA7, 0xE8, 0xAE, 0xBE, 0xE5, 0xA4, 0x87])),
    (120, (string_of [0xE5, 0xBA, 0x94, 0xE6, 0x80, 0xA5, 0xE7, 0x85, 0xA7, 0xE6, 0x98, 0x8E, 0xE6, 0x8E, 0xA7, 0xE5, 0x88, 0xB6, 0xE5, 0x99, 0xA8])),
    (130, (string_of [0xE9, 0x98, 0xB2, 0xE7, 0x81, 0xAB, 0xE9, 0x97, 0xA8, 0xE7, 0x9B, 0x91, 0xE6, 0x8E, 0xA7, 0xE5, 0x99, 0xA8])),
    (140, (string_of [0xE6, 0xB6, 0x88, 0xE9, 0x98, 0xB2, 0xE8, 0xAE, 0xBE, 0xE5, 0xA4, 0x87, 0xE7, 0x94, 0xB5, 0xE6, 0xBA, 0x90, 0xE7, 0x9B, 0x91, 0xE6, 0x8E, 0xA7, 0xE5, 0x99, 0xA8])),
    (150, (string_of [0xE6, 0xB0, 0x94, 0xE4, 0xBD, 0x93, 0xE7, 0x81, 0xAD, 0xE7, 0x81, 0xAB, 0xE6, 0x8E, 0xA7, 0xE5, 0x88, 0xB6, 0xE5, 0x99, 0xA8])),
    (163, (string_of [0xE6, 0xB6, 0x88, 0xE9, 0x98, 0xB2, 0xE7, 0x94, 0xB5, 0xE6, 0xB0, 0x94, 0xE6, 0x8E, 0xA7, 0xE5, 0x88, 0xB6, 0xE8, 0xA3, 0x85, 0xE7, 0xBD, 0xAE])),
    (179, (string_of [0xE6, 0xB6, 0x88, 0xE9, 0x98, 0xB2, 0xE6, 0xB3, 0xB5, 0xE6, 0x8E, 0xA7, 0xE5, 0x88, 0xB6, 0xE5, 0x99, 0xA8])),
    (65535, (string_of [0xE8, 0xBF, 0x9E, 0xE6, 0x8E, 0xA5, 0xE4, 0xBA, 0x86, 0xE5, 0xA4, 0x9A, 0xE7, 0xA7, 0x8D, 0xE8, 0xAE, 0xBE, 0xE5, 0xA4, 0x87]))]"

definition eventTypeMeanings :: "(u16 \<times> string) list" where
  "eventTypeMeanings = [
    (1, (string_of [0xE6, 0xAD, 0xA3, 0xE5, 0xB8, 0xB8])),
    (2, (string_of [0xE9, 0xA6, 0x96, 0xE7, 0x81, 0xAB, 0xE8, 0xAD, 0xA6])),
    (3, (string_of [0xE7, 0x81, 0xAB, 0xE8, 0xAD, 0xA6])),
    (4, (string_of [0xE7, 0x94, 0xB5, 0xE6, 0xB0, 0x94, 0xE7, 0x81, 0xAB, 0xE7, 0x81, 0xBE, 0xE6, 0x8A, 0xA5, 0xE8, 0xAD, 0xA6])),
    (19, (string_of [0xE5, 0x90, 0xAF, 0xE5, 0x8A, 0xA8])),
    (29, (string_of [0xE5, 0x81, 0x9C, 0xE6, 0xAD, 0xA2])),
    (40, (string_of [0xE5, 0xBA, 0x94, 0xE6, 0x80, 0xA5])),
    (70, (string_of [0xE7, 0x9B, 0x91, 0xE7, 0xAE, 0xA1])),
    (72, (string_of [0xE5, 0xB1, 0x8F, 0xE8, 0x94, 0xBD])),
    (80, (string_of [0xE6, 0x95, 0x85, 0xE9, 0x9A, 0x9C])),
    (100, (string_of [0xE6, 0x95, 0x85, 0xE9, 0x9A, 0x9C, 0xE6, 0x81, 0xA2, 0xE5, 0xA4, 0x8D])),
    (120, (string_of [0xE5, 0xBC, 0x80, 0xE6, 0x9C, 0xBA])),
    (121, (string_of [0xE5, 0x85, 0xB3, 0xE6, 0x9C, 0xBA])),
    (122, (string_of [0xE5, 0xA4, 0x8D, 0xE4, 0xBD, 0x8D])),
    (123, (string_of [0xE8, 0x87, 0xAA, 0xE6, 0xA3, 0x80])),
    (127, (string_of [0xE6, 0xB6, 0x88, 0xE9, 0x9F, 0xB3]))]"

definition parameterTypeMeanings :: "(byte \<times> string) list" where
  "parameterTypeMeanings = [
    (1, (string_of [0xE9, 0xAB, 0x98, 0xE5, 0xBA, 0xA6]))]"

definition statusBitMeanings :: "(u16 \<times> string) list" where
  "statusBitMeanings = [
    (0, (string_of [0xE6, 0x97, 0xA0, 0xE7, 0x8A, 0xB6, 0xE6, 0x80, 0x81, 0xE4, 0xBD, 0x8D])),
    (1, (string_of [0xE8, 0x87, 0xAA, 0xE5, 0x8A, 0xA8, 0xE7, 0x8A, 0xB6, 0xE6, 0x80, 0x81])),
    (2, (string_of [0xE5, 0xA4, 0x87, 0xE7, 0x94, 0xB5, 0xE5, 0xB7, 0xA5, 0xE4, 0xBD, 0x9C])),
    (4, (string_of [0xE7, 0x94, 0xB5, 0xE6, 0xBA, 0x90, 0xE6, 0x95, 0x85, 0xE9, 0x9A, 0x9C])),
    (8, (string_of [0xE6, 0x9C, 0x89, 0xE6, 0x8A, 0xA5, 0xE8, 0xAD, 0xA6])),
    (16, (string_of [0xE6, 0x9C, 0x89, 0xE5, 0x90, 0xAF, 0xE5, 0x8A, 0xA8])),
    (32, (string_of [0xE6, 0x9C, 0x89, 0xE5, 0x8F, 0x8D, 0xE9, 0xA6, 0x88])),
    (64, (string_of [0xE6, 0x9C, 0x89, 0xE7, 0x9B, 0x91, 0xE7, 0xAE, 0xA1])),
    (128, (string_of [0xE6, 0x9C, 0x89, 0xE6, 0x95, 0x85, 0xE9, 0x9A, 0x9C])),
    (256, (string_of [0xE6, 0x9C, 0x89, 0xE5, 0xB1, 0x8F, 0xE8, 0x94, 0xBD])),
    (512, (string_of [0xE6, 0x9C, 0x89, 0xE6, 0xB0, 0x94, 0xE4, 0xBD, 0x93, 0xE5, 0x96, 0xB7, 0xE6, 0xB4, 0x92])),
    (1024, (string_of [0xE6, 0x9C, 0x89, 0xE5, 0xBA, 0x94, 0xE6, 0x80, 0xA5]))]"

definition field :: "string \<Rightarrow> string \<Rightarrow> int \<Rightarrow> int \<Rightarrow> string \<Rightarrow> fieldDefinition" where
  "field key label offset len valueType = \<lparr>fdKey = key, fdLabel = label, fdOffset = offset, fdLength = len,
     fdType = valueType, fdEndian = ''little'', fdEnum = None, fdEnum16 = None, fdMeaning = []\<rparr>"

definition withByteEnum :: "fieldDefinition \<Rightarrow> (byte \<times> string) list \<Rightarrow> fieldDefinition" where
  "withByteEnum def enum = def\<lparr>fdEnum := Some enum\<rparr>"

definition withUint16Enum :: "fieldDefinition \<Rightarrow> (u16 \<times> string) list \<Rightarrow> fieldDefinition" where
  "withUint16Enum def enum = def\<lparr>fdEnum16 := Some enum\<rparr>"

definition controllerFields :: "fieldDefinition list" where
  "controllerFields = [
    field ''controller_id'' (string_of [0xE6, 0x8E, 0xA7, 0xE5, 0x88, 0xB6, 0xE5, 0x99, 0xA8, 0xE7, 0xBC, 0x96, 0xE5, 0x8F, 0xB7]) 1 1 ''uint8'']"

definition scopedIDFields :: "fieldDefinition list" where
  "scopedIDFields = [
    field ''controller_id'' (string_of [0xE6, 0x8E, 0xA7, 0xE5, 0x88, 0xB6, 0xE5, 0x99, 0xA8, 0xE7, 0xBC, 0x96, 0xE5, 0x8F, 0xB7]) 1 1 ''uint8'',
    field ''unit_id'' (string_of [0xE5, 0x8D, 0x95, 0xE5, 0x85, 0x83, 0xE7, 0xBC, 0x96, 0xE5, 0x8F, 0xB7]) 2 1 ''uint8'',
    field ''device_id'' (string_of [0xE8, 0xAE, 0xBE, 0xE5, 0xA4, 0x87, 0xE7, 0xBC, 0x96, 0xE5, 0x8F, 0xB7]) 3 1 ''uint8'',
    field ''channel_id'' (string_of [0xE9, 0x80, 0x9A, 0xE9, 0x81, 0x93, 0xE7, 0xBC, 0x96, 0xE5, 0x8F, 0xB7]) 4 1 ''uint8'']"

definition eventFields :: "fieldDefinition list" where
  "eventFields = [
    field ''controller_id'' (string_of [0xE6, 0x8E, 0xA7, 0xE5, 0x88, 0xB6, 0xE5, 0x99, 0xA8, 0xE7, 0xBC, 0x96, 0xE5, 0x8F, 0xB7]) 1 1 ''uint8'',
    field ''unit_id'' (string_of [0xE5, 0x8D, 0x95, 0xE5, 0x85, 0x83, 0xE7, 0xBC, 0x96, 0xE5, 0x8F, 0xB7]) 2 1 ''uint8'',
    field ''device_id'' (string_of [0xE8, 0xAE, 0xBE, 0xE5, 0xA4, 0x87, 0xE7, 0xBC, 0x96, 0xE5, 0x8F, 0xB7]) 3 1 ''uint8'',
    field ''channel_id'' (string_of [0xE9, 0x80, 0x9A, 0xE9, 0x81, 0x93, 0xE7, 0xBC, 0x96, 0xE5, 0x8F, 0xB7]) 4 1 ''uint8'',
    field ''device_type'' (string_of [0xE8, 0xAE, 0xBE, 0xE5, 0xA4, 0x87, 0xE7, 0xB1, 0xBB, 0xE5, 0x9E, 0x8B, 0xE4, 0xBB, 0xA3, 0xE7, 0xA0, 0x81]) 5 2 ''uint16le'',
    field ''event_code'' (string_of [0xE4, 0xBA, 0x8B, 0xE4, 0xBB, 0xB6, 0xE4, 0xBB, 0xA3, 0xE7, 0xA0, 0x81]) 7 2 ''uint16le'',
    field ''status_code'' (string_of [0xE7, 0x8A, 0xB6, 0xE6, 0x80, 0x81, 0xE4, 0xBB, 0xA3, 0xE7, 0xA0, 0x81]) 9 2 ''uint16le'',
    field ''year'' (string_of [0xE5, 0xB9, 0xB4]) 11 1 ''uint8'',
    field ''month'' (string_of [0xE6, 0x9C, 0x88]) 12 1 ''uint8'',
    field ''day'' (string_of [0xE6, 0x97, 0xA5]) 13 1 ''uint8'',
    field ''hour'' (string_of [0xE6, 0x97, 0xB6]) 14 1 ''uint8'',
    field ''minute'' (string_of [0xE5, 0x88, 0x86]) 15 1 ''uint8'',
    field ''second'' (string_of [0xE7, 0xA7, 0x92]) 16 1 ''uint8'']"

definition textAnswerFields :: "string \<Rightarrow> string \<Rightarrow> fieldDefinition list" where
  "textAnswerFields key label = [
    field ''controller_id'' (string_of [0xE6, 0x8E, 0xA7, 0xE5, 0x88, 0xB6, 0xE5, 0x99, 0xA8, 0xE7, 0xBC, 0x96, 0xE5, 0x8F, 0xB7]) 1 1 ''uint8'',
    field ''unit_id'' (string_of [0xE5, 0x8D, 0x95, 0xE5, 0x85, 0x83, 0xE7, 0xBC, 0x96, 0xE5, 0x8F, 0xB7]) 2 1 ''uint8'',
    field ''device_id'' (string_of [0xE8, 0xAE, 0xBE, 0xE5, 0xA4, 0x87, 0xE7, 0xBC, 0x96, 0xE5, 0x8F, 0xB7]) 3 1 ''uint8'',
    field (key @ ''_byte_count'') (label @ (string_of [0xE5, 0xAD, 0x97, 0xE8, 0x8A, 0x82, 0xE6, 0x95, 0xB0])) 4 1 ''uint8'',
    field (key @ ''_text'') (label @ (string_of [0xE5, 0x86, 0x85, 0xE5, 0xAE, 0xB9])) 5 3 ''utf8'']"

definition eventAnswerFields :: "fieldDefinition list" where
  "eventAnswerFields = [
    field ''controller_id'' (string_of [0xE6, 0x8E, 0xA7, 0xE5, 0x88, 0xB6, 0xE5, 0x99, 0xA8, 0xE7, 0xBC, 0x96, 0xE5, 0x8F, 0xB7]) 1 1 ''uint8'',
    field ''unit_id'' (string_of [0xE5, 0x8D, 0x95, 0xE5, 0x85, 0x83, 0xE7, 0xBC, 0x96, 0xE5, 0x8F, 0xB7]) 2 1 ''uint8'',
    field ''device_id'' (string_of [0xE8, 0xAE, 0xBE, 0xE5, 0xA4, 0x87, 0xE7, 0xBC, 0x96, 0xE5, 0x8F, 0xB7]) 3 1 ''uint8'',
    field ''channel_id'' (string_of [0xE9, 0x80, 0x9A, 0xE9, 0x81, 0x93, 0xE7, 0xBC, 0x96, 0xE5, 0x8F, 0xB7]) 4 1 ''uint8'',
    withUint16Enum (field ''device_type'' (string_of [0xE8, 0xAE, 0xBE, 0xE5, 0xA4, 0x87, 0xE7, 0xB1, 0xBB, 0xE5, 0x9E, 0x8B, 0xE4, 0xBB, 0xA3, 0xE7, 0xA0, 0x81]) 5 2 ''uint16le'') deviceTypeMeanings,
    withUint16Enum (field ''event_code'' (string_of [0xE4, 0xBA, 0x8B, 0xE4, 0xBB, 0xB6, 0xE4, 0xBB, 0xA3, 0xE7, 0xA0, 0x81]) 7 2 ''uint16le'') eventTypeMeanings,
    withUint16Enum (field ''status_code'' (string_of [0xE7, 0x8A, 0xB6, 0xE6, 0x80, 0x81, 0xE4, 0xBB, 0xA3, 0xE7, 0xA0, 0x81]) 9 2 ''uint16le'') statusBitMeanings,
    field ''year'' (string_of [0xE5, 0xB9, 0xB4]) 11 1 ''uint8'',
    field ''month'' (string_of [0xE6, 0x9C, 0x88]) 12 1 ''uint8'',
    field ''day'' (string_of [0xE6, 0x97, 0xA5]) 13 1 ''uint8'',
    field ''hour'' (string_of [0xE6, 0x97, 0xB6]) 14 1 ''uint8'',
    field ''minute'' (string_of [0xE5, 0x88, 0x86]) 15 1 ''uint8'',
    field ''second'' (string_of [0xE7, 0xA7, 0x92]) 16 1 ''uint8'']"

definition deviceListAnswerFields :: "fieldDefinition list" where
  "deviceListAnswerFields = [
    field ''controller_count'' (string_of [0xE6, 0x8E, 0xA7, 0xE5, 0x88, 0xB6, 0xE5, 0x99, 0xA8, 0xE6, 0x95, 0xB0, 0xE9, 0x87, 0x8F]) 1 1 ''uint8'',
    field ''controller_1_id'' (string_of [0xE6, 0x8E, 0xA7, 0xE5, 0x88, 0xB6, 0xE5, 0x99, 0xA8, 0xE7, 0xBC, 0x96, 0xE5, 0x8F, 0xB7, 0x31]) 2 1 ''uint8'',
    withUint16Enum (field ''controller_1_device_type'' (string_of [0xE8, 0xAE, 0xBE, 0xE5, 0xA4, 0x87, 0xE7, 0xB1, 0xBB, 0xE5, 0x9E, 0x8B, 0xE4, 0xBB, 0xA3, 0xE7, 0xA0, 0x81, 0x31]) 3 2 ''uint16le'') deviceTypeMeanings,
    field ''controller_2_id'' (string_of [0xE6, 0x8E, 0xA7, 0xE5, 0x88, 0xB6, 0xE5, 0x99, 0xA8, 0xE7, 0xBC, 0x96, 0xE5, 0x8F, 0xB7, 0x32]) 5 1 ''uint8'',
    withUint16Enum (field ''controller_2_device_type'' (string_of [0xE8, 0xAE, 0xBE, 0xE5, 0xA4, 0x87, 0xE7, 0xB1, 0xBB, 0xE5, 0x9E, 0x8B, 0xE4, 0xBB, 0xA3, 0xE7, 0xA0, 0x81, 0x32]) 6 2 ''uint16le'') deviceTypeMeanings]"

definition clockFields :: "fieldDefinition list" where
  "clockFields = [
    field ''controller_id'' (string_of [0xE6, 0x8E, 0xA7, 0xE5, 0x88, 0xB6, 0xE5, 0x99, 0xA8, 0xE7, 0xBC, 0x96, 0xE5, 0x8F, 0xB7]) 1 1 ''uint8'',
    field ''year'' (string_of [0xE5, 0xB9, 0xB4]) 2 1 ''uint8'',
    field ''month'' (string_of [0xE6, 0x9C, 0x88]) 3 1 ''uint8'',
    field ''day'' (string_of [0xE6, 0x97, 0xA5]) 4 1 ''uint8'',
    field ''hour'' (string_of [0xE6, 0x97, 0xB6]) 5 1 ''uint8'',
    field ''minute'' (string_of [0xE5, 0x88, 0x86]) 6 1 ''uint8'',
    field ''second'' (string_of [0xE7, 0xA7, 0x92]) 7 1 ''uint8'']"

definition deviceFields :: "fieldDefinition list" where
  "deviceFields = [
    field ''controller_id'' (string_of [0xE6, 0x8E, 0xA7, 0xE5, 0x88, 0xB6, 0xE5, 0x99, 0xA8, 0xE7, 0xBC, 0x96, 0xE5, 0x8F, 0xB7]) 1 1 ''uint8'',
    field ''unit_id'' (string_of [0xE5, 0x8D, 0x95, 0xE5, 0x85, 0x83, 0xE7, 0xBC, 0x96, 0xE5, 0x8F, 0xB7]) 2 1 ''uint8'',
    field ''device_id'' (string_of [0xE8, 0xAE, 0xBE, 0xE5, 0xA4, 0x87, 0xE7, 0xBC, 0x96, 0xE5, 0x8F, 0xB7]) 3 1 ''uint8'']"

text \<open>The map of request fields; a code that is not a key has no fields.\<close>

definition appendixCFields :: "byte \<Rightarrow> fieldDefinition list" where
  "appendixCFields code =
     (if code \<in> {1, 2, 3, 33, 43, 44} then controllerFields
      else if code = 4 then clockFields
      else if code \<in> {5, 6, 7, 17, 18, 19} then eventFields
      else if code = 15 then
        [\<lparr>fdKey = ''status'', fdLabel = (string_of [0xE7, 0x8A, 0xB6, 0xE6, 0x80, 0x81, 0xE5, 0xBA, 0x94, 0xE7, 0xAD, 0x94, 0xE7, 0xA0, 0x81]), fdOffset = 1, fdLength = 1, fdType = ''uint8'', fdEndian = [],
          fdEnum = Some statusMeanings, fdEnum16 = None, fdMeaning = []\<rparr>]
      else if code \<in> {34, 35, 36, 40, 45} then scopedIDFields
      else if code = 37 then
        scopedIDFields @ [withByteEnum (field ''parameter_type'' (string_of [0xE5, 0x8F, 0x82, 0xE9, 0x87, 0x8F, 0xE7, 0xB1, 0xBB, 0xE5, 0x9E, 0x8B, 0xE4, 0xBB, 0xA3, 0xE7, 0xA0, 0x81]) 5 1 ''uint8'') parameterTypeMeanings]
      else if code = 41 then [
        field ''controller_id'' (string_of [0xE6, 0x8E, 0xA7, 0xE5, 0x88, 0xB6, 0xE5, 0x99, 0xA8, 0xE7, 0xBC, 0x96, 0xE5, 0x8F, 0xB7]) 1 1 ''uint8'',
        withUint16Enum (field ''event_code'' (string_of [0xE4, 0xBA, 0x8B, 0xE4, 0xBB, 0xB6, 0xE4, 0xBB, 0xA3, 0xE7, 0xA0, 0x81]) 2 2 ''uint16le'') eventTypeMeanings]
      else if code = 42 then [
        field ''controller_id'' (string_of [0xE6, 0x8E, 0xA7, 0xE5, 0x88, 0xB6, 0xE5, 0x99, 0xA8, 0xE7, 0xBC, 0x96, 0xE5, 0x8F, 0xB7]) 1 1 ''uint8'',
        withUint16Enum (field ''event_code'' (string_of [0xE4, 0xBA, 0x8B, 0xE4, 0xBB, 0xB6, 0xE4, 0xBB, 0xA3, 0xE7, 0xA0, 0x81]) 2 2 ''uint16le'') eventTypeMeanings,
        field ''start_year'' (string_of [0xE8, 0xB5, 0xB7, 0xE5, 0xA7, 0x8B, 0xE5, 0xB9, 0xB4]) 4 1 ''uint8'',
        field ''start_month'' (string_of [0xE8, 0xB5, 0xB7, 0xE5, 0xA7, 0x8B, 0xE6, 0x9C, 0x88]) 5 1 ''uint8'',
        field ''start_day'' (string_of [0xE8, 0xB5, 0xB7, 0xE5, 0xA7, 0x8B, 0xE6, 0x97, 0xA5]) 6 1 ''uint8'']
      else if code \<in> {38, 39} then deviceFields
      else [])"

section \<open>Field definitions of a frame\<close>

definition customDefinition :: "byte \<Rightarrow> customFunction list \<Rightarrow> customFunction option" where
  "customDefinition code custom = find (\<lambda>def. cuCode def = code) custom"

definition hasCustomDefinition :: "byte \<Rightarrow> customFunction list \<Rightarrow> bool" where
  "hasCustomDefinition code custom = list_ex (\<lambda>def. cuCode def = code) custom"

definition customFieldDefinition :: "customField \<Rightarrow> fieldDefinition" where
  "customFieldDefinition f = \<lparr>fdKey = cfKey f, fdLabel = cfLabel f, fdOffset = cfOffset f, fdLength = cfLength f,
     fdType = cfType f, fdEndian = cfEndian f, fdEnum = cfEnum f, fdEnum16 = None, fdMeaning = cfMeaning f\<rparr>"

definition fieldDefinitions :: "byte \<Rightarrow> customFunction list \<Rightarrow> fieldDefinition list" where
  "fieldDefinitions code custom =
     (case customDefinition code custom of
        Some def \<Rightarrow> map customFieldDefinition (cuFields def)
      | None \<Rightarrow> appendixCFields code)"

text \<open>The fields of an answer, where they differ from those of the request.\<close>

definition answerFields :: "byte \<Rightarrow> fieldDefinition list option" where
  "answerFields code =
     (if code = 34 then Some [withUint16Enum (field ''status_code'' (string_of [0xE7, 0x8A, 0xB6, 0xE6, 0x80, 0x81, 0xE4, 0xBB, 0xA3, 0xE7, 0xA0, 0x81]) 1 2 ''uint16le'') statusBitMeanings]
      else if code = 35 then Some [field ''config_code'' (string_of [0xE9, 0x85, 0x8D, 0xE7, 0xBD, 0xAE, 0xE4, 0xBB, 0xA3, 0xE7, 0xA0, 0x81]) 1 2 ''uint16le'']
      else if code = 36 then Some [field ''identifier_code'' (string_of [0xE6, 0xA0, 0x87, 0xE8, 0xAF, 0x86, 0xE4, 0xBB, 0xA3, 0xE7, 0xA0, 0x81]) 1 7 ''hex'']
      else if code = 37 then Some [
        withByteEnum (field ''parameter_type'' (string_of [0xE5, 0x8F, 0x82, 0xE9, 0x87, 0x8F, 0xE7, 0xB1, 0xBB, 0xE5, 0x9E, 0x8B, 0xE4, 0xBB, 0xA3, 0xE7, 0xA0, 0x81]) 1 1 ''uint8'') parameterTypeMeanings,
        field ''parameter_value'' (string_of [0xE5, 0x8F, 0x82, 0xE9, 0x87, 0x8F, 0xE6, 0x95, 0xB0, 0xE5, 0x80, 0xBC]) 2 2 ''uint16le'']
      else if code = 44 then Some [
        field ''version_major'' (string_of [0xE5, 0x8D, 0x8F, 0xE8, 0xAE, 0xAE, 0xE7, 0x89, 0x88, 0xE6, 0x9C, 0xAC, 0xE5, 0x8F, 0xB7, 0x30]) 1 1 ''uint8'', field ''version_minor'' (string_of [0xE5, 0x8D, 0x8F, 0xE8, 0xAE, 0xAE, 0xE7, 0x89, 0x88, 0xE6, 0x9C, 0xAC, 0xE5, 0x8F, 0xB7, 0x31]) 2 1 ''uint8'']
      else if code = 38 then Some (textAnswerFields ''comment'' (string_of [0xE6, 0xB3, 0xA8, 0xE9, 0x87, 0x8A]))
      else if code = 39 then Some (textAnswerFields ''programming'' (string_of [0xE7, 0xBC, 0x96, 0xE7, 0xA8, 0x8B]))
      else if code = 40 then Some (textAnswerFields ''registration'' (string_of [0xE6, 0xB3, 0xA8, 0xE5, 0x86, 0x8C]))
      else if code \<in> {41, 42} then Some eventAnswerFields
      else if code = 45 then Some deviceListAnswerFields
      else None)"

definition fieldDefinitionsForFrame :: "fecFrame \<Rightarrow> byte \<Rightarrow> customFunction list \<Rightarrow> fieldDefinition list" where
  "fieldDefinitionsForFrame frame code custom =
     (let customFields = fieldDefinitions code custom in
      if customFields \<noteq> [] \<and> hasCustomDefinition code custom then customFields
      else if ffType frame = FrameTypeAnswer then
        (case answerFields code of Some defs \<Rightarrow> defs | None \<Rightarrow> fieldDefinitions code custom)
      else fieldDefinitions code custom)"

definition functionInfoOf :: "byte \<Rightarrow> customFunction list \<Rightarrow> functionInfo" where
  "functionInfoOf code custom =
     (case customDefinition code custom of
        Some def \<Rightarrow> (LookupFunction code)\<lparr>fiName := cuName def, fiDescription := cuDescription def,
          fiDirection := cuDirection def, fiAnswer := cuAnswer def, fiCustom := True, fiReserved := False\<rparr>
      | None \<Rightarrow> LookupFunction code)"

section \<open>Values of fields\<close>

text \<open>\<open>fmt.Sprint\<close>\<close>

definition sprint :: "(float64 \<Rightarrow> string) \<Rightarrow> goValue \<Rightarrow> string" where
  "sprint showFloat v =
     (case v of
        GInteger i \<Rightarrow> itoa i
      | GFloat x \<Rightarrow> showFloat x
      | GText s \<Rightarrow> s
      | GBytes bs \<Rightarrow> ''['' @ join_with '' '' (map (\<lambda>b. itoa (uint b)) bs) @ '']''
      | GOther s \<Rightarrow> s)"

definition bigEndianField :: "string \<Rightarrow> string \<Rightarrow> bool" where
  "bigEndianField valueType endian = (valueType = ''uint16be'' \<or> endian = ''big'')"

definition read16 :: "string \<Rightarrow> string \<Rightarrow> bytes \<Rightarrow> u16" where
  "read16 valueType endian bs =
     (if bigEndianField valueType endian then join16 (bs ! 0) (bs ! 1) else join16 (bs ! 1) (bs ! 0))"

definition decodeFieldValue :: "bytes \<Rightarrow> string \<Rightarrow> string \<Rightarrow> goValue" where
  "decodeFieldValue bs valueType endian =
     (if bs = [] then GText []
      else if valueType \<in> {''uint16'', ''uint16le'', ''uint16be''} then
        (if length bs < 2 then GInteger (uint (bs ! 0)) else GInteger (uint (read16 valueType endian bs)))
      else if valueType \<in> {''string'', ''utf8''} then GText (string_of bs)
      else if length bs = 1 then GInteger (uint (bs ! 0))
      else GText (FecFormatHex bs))"

datatype annotation_error =
    FieldRange | FieldHex fec_error | FieldNumber | FieldValueType | PayloadLength | EncodeField string annotation_error

text \<open>\<open>strconv.ParseInt(s, 16, 64)\<close>\<close>

definition parse_int16 :: "string \<Rightarrow> int option" where
  "parse_int16 s =
     (let neg = take 1 s = ''-''; body = (if neg \<or> take 1 s = ''+'' then drop 1 s else s) in
      if body = [] \<or> list_ex (\<lambda>c. hex_value c = None) body then None
      else let v = int (foldl (\<lambda>n c. 16 * n + the (hex_value c)) 0 body) in
        if neg then (if v \<le> 2 ^ 63 then Some (- v) else None)
        else (if v < 2 ^ 63 then Some v else None))"

definition numericValue :: "(float64 \<Rightarrow> int) \<Rightarrow> goValue \<Rightarrow> annotation_error + int" where
  "numericValue wild value =
     (case value of
        GInteger i \<Rightarrow> Inr i
      | GFloat x \<Rightarrow> Inr (float_to_int64 wild x)
      | GText s \<Rightarrow>
          (case (if has_prefix (to_lower s) ''0x'' then parse_int16 (drop 2 s) else parse_int10 64 s) of
             None \<Rightarrow> Inl FieldNumber | Some i \<Rightarrow> Inr i)
      | _ \<Rightarrow> Inl FieldValueType)"

text \<open>\<open>copy(target, source)\<close> into the bytes from \<open>offset\<close> to \<open>offset+length\<close>.\<close>

definition put_at :: "bytes \<Rightarrow> nat \<Rightarrow> bytes \<Rightarrow> bytes" where
  "put_at data offset source = take offset data @ source @ drop (offset + length source) data"

text \<open>The bytes a number is written as; a shift beyond the width of the number yields its sign.\<close>

definition numberBytes :: "nat \<Rightarrow> string \<Rightarrow> string \<Rightarrow> int \<Rightarrow> bytes" where
  "numberBytes len valueType endian number =
     (if len = 1 then [word_of_int number]
      else if len = 2 then
        (let v = word_of_int number :: u16 in
         if bigEndianField valueType endian then [hiByte v, loByte v] else [loByte v, hiByte v])
      else map (\<lambda>i. word_of_int (number div 256 ^ i)) [0..<len])"

definition encodeFieldValue :: "(float64 \<Rightarrow> string) \<Rightarrow> (float64 \<Rightarrow> int) \<Rightarrow> bytes \<Rightarrow> int \<Rightarrow> int \<Rightarrow> string \<Rightarrow> string \<Rightarrow>
    goValue \<Rightarrow> (annotation_error + bytes) option" where
  "encodeFieldValue showFloat wild data offset len valueType endian value =
     (if offset < 1 \<or> len \<le> 0 \<or> int (length data) < wrap64 (offset + len) then Some (Inl FieldRange)
      else if wrap64 (offset + len) < offset then None
      else let pos = nat offset; n = nat len in
        if valueType \<in> {''string'', ''utf8''} then
          Some (Inr (put_at data pos (take n (bytes_of (sprint showFloat value)))))
        else if valueType = ''hex'' then
          (case ParseHex (sprint showFloat value) of
             Inl e \<Rightarrow> Some (Inl (FieldHex e))
           | Inr bs \<Rightarrow> Some (Inr (put_at data pos (take n bs))))
        else
          (case numericValue wild value of
             Inl e \<Rightarrow> Some (Inl e)
           | Inr number \<Rightarrow> Some (Inr (put_at data pos (numberBytes n valueType endian number)))))"

fun encodeFields :: "(float64 \<Rightarrow> string) \<Rightarrow> (float64 \<Rightarrow> int) \<Rightarrow> (string \<Rightarrow> goValue option) \<Rightarrow> fieldDefinition list \<Rightarrow>
    bytes \<Rightarrow> (annotation_error + bytes) option" where
  "encodeFields showFloat wild values [] data = Some (Inr data)"
| "encodeFields showFloat wild values (def # defs) data =
     (case values (fdKey def) of
        None \<Rightarrow> encodeFields showFloat wild values defs data
      | Some value \<Rightarrow>
          (case encodeFieldValue showFloat wild data (fdOffset def) (fdLength def) (fdType def) (fdEndian def) value of
             None \<Rightarrow> None
           | Some (Inl e) \<Rightarrow> Some (Inl (EncodeField (fdKey def) e))
           | Some (Inr data1) \<Rightarrow> encodeFields showFloat wild values defs data1))"

definition payloadLength :: "(string \<Rightarrow> goValue option) \<Rightarrow> fieldDefinition list \<Rightarrow> int" where
  "payloadLength values defs =
     foldl (\<lambda>n def. if values (fdKey def) = None then n
                    else let end = wrap64 (fdOffset def + fdLength def) in if n < end then end else n) 1 defs"

definition BuildDataFromFields :: "(float64 \<Rightarrow> string) \<Rightarrow> (float64 \<Rightarrow> int) \<Rightarrow> byte \<Rightarrow> (string \<Rightarrow> goValue option) \<Rightarrow>
    customFunction list \<Rightarrow> (annotation_error + bytes) option" where
  "BuildDataFromFields showFloat wild code values custom =
     (let defs = fieldDefinitions code custom; n = payloadLength values defs in
      if int maxDataBytes < n then Some (Inl PayloadLength)
      else encodeFields showFloat wild values defs (code # replicate (nat n - 1) 0))"

section \<open>Annotations\<close>

definition segment :: "string \<Rightarrow> string \<Rightarrow> nat \<Rightarrow> nat \<Rightarrow> bytes \<Rightarrow> string \<Rightarrow> frameSegment" where
  "segment key label start end raw meaning =
     (let bs = take (end - start) (drop start raw);
          inside = end \<le> length raw \<and> start < end;
          value = (if \<not> inside then GOther ''<nil>''
                   else if length bs = 1 then GInteger (uint (bs ! 0)) else GBytes bs) in
      \<lparr>sgKey = key, sgLabel = label, sgStart = int start, sgEnd = int end,
       sgHex = (if inside then FecFormatHex bs else []), sgValue = value,
       sgValueText = sprint (\<lambda>_. []) value, sgMeaning = meaning\<rparr>)"

definition frameTypeMeaning :: "byte \<Rightarrow> string" where
  "frameTypeMeaning t = (if t = FrameTypeAnswer then (string_of [0xE5, 0xBA, 0x94, 0xE7, 0xAD, 0x94, 0xE5, 0xB8, 0xA7]) else (string_of [0xE8, 0xAF, 0xB7, 0xE6, 0xB1, 0x82, 0xE5, 0xB8, 0xA7]))"

definition groupNumberMeaning :: "byte \<Rightarrow> string" where
  "groupNumberMeaning g =
     (if g = 0 then (string_of [0xE5, 0x8D, 0x95, 0xE5, 0xB8, 0xA7, 0xE6, 0x8A, 0xA5, 0xE6, 0x96, 0x87]) else (string_of [0xE5, 0xA4, 0x9A, 0xE5, 0xB8, 0xA7, 0xE6, 0x8A, 0xA5, 0xE6, 0x96, 0x87, 0xE5, 0x88, 0x86, 0xE7, 0xBB, 0x84, 0x20]) @ itoa (uint g))"

definition crcMeaning :: "bool \<Rightarrow> string" where
  "crcMeaning ok = (if ok then (string_of [0x43, 0x52, 0x43, 0x20, 0xE6, 0xAD, 0xA3, 0xE7, 0xA1, 0xAE]) else (string_of [0x43, 0x52, 0x43, 0x20, 0xE6, 0x9C, 0xAA, 0xE9, 0xAA, 0x8C, 0xE8, 0xAF, 0x81]))"

definition serialSegments :: "bytes \<Rightarrow> fecFrame \<Rightarrow> frameSegment list" where
  "serialSegments raw frame =
     (if raw = [] then []
      else let dataEnd = 8 + length (ffData frame) in
        [segment ''frame_head'' (string_of [0xE5, 0xB8, 0xA7, 0xE5, 0xA4, 0xB4]) 0 1 raw ''0x7E'',
         segment ''frame_type'' (string_of [0xE5, 0xB8, 0xA7, 0xE7, 0xB1, 0xBB, 0xE5, 0x9E, 0x8B, 0x20, 0x46, 0x54]) 1 2 raw (frameTypeMeaning (ffType frame)),
         segment ''target_address'' (string_of [0xE7, 0x9B, 0xAE, 0xE6, 0xA0, 0x87, 0xE5, 0x9C, 0xB0, 0xE5, 0x9D, 0x80, 0x20, 0x44, 0x41]) 2 3 raw (itoa (uint (ffTarget frame))),
         segment ''priority'' (string_of [0xE4, 0xBC, 0x98, 0xE5, 0x85, 0x88, 0xE7, 0xBA, 0xA7, 0x20, 0x50, 0x41]) 3 4 raw (itoa (uint (ffPriority frame))),
         segment ''source_address'' (string_of [0xE6, 0xBA, 0x90, 0xE5, 0x9C, 0xB0, 0xE5, 0x9D, 0x80, 0x20, 0x53, 0x41]) 4 5 raw (itoa (uint (ffSource frame))),
         segment ''message_number'' (string_of [0xE6, 0x8A, 0xA5, 0xE6, 0x96, 0x87, 0xE7, 0xBC, 0x96, 0xE5, 0x8F, 0xB7, 0x20, 0x4D, 0x4E]) 5 6 raw (itoa (uint (ffMessage frame))),
         segment ''group_number'' (string_of [0xE5, 0x88, 0x86, 0xE7, 0xBB, 0x84, 0xE7, 0xBC, 0x96, 0xE5, 0x8F, 0xB7, 0x20, 0x54, 0x4E]) 6 7 raw (groupNumberMeaning (ffGroup frame)),
         segment ''data_length'' (string_of [0xE6, 0x95, 0xB0, 0xE6, 0x8D, 0xAE, 0xE9, 0x95, 0xBF, 0xE5, 0xBA, 0xA6, 0x20, 0x44, 0x4C, 0x43]) 7 8 raw (itoa (int (length (ffData frame))))] @
        (if int dataEnd \<le> int (length raw) - 3 then
           [segment ''data'' (string_of [0xE6, 0x8A, 0xA5, 0xE6, 0x96, 0x87, 0x20, 0x44, 0x61, 0x74, 0x61]) 8 dataEnd raw (string_of [0xE5, 0xBA, 0x94, 0xE7, 0x94, 0xA8, 0xE6, 0x95, 0xB0, 0xE6, 0x8D, 0xAE, 0xE5, 0x8D, 0x95, 0xE5, 0x85, 0x83]),
            segment ''crc'' ''CRC0/CRC1'' (length raw - 3) (length raw - 1) raw (crcMeaning (ffCRCOK frame)),
            segment ''frame_tail'' (string_of [0xE5, 0xB8, 0xA7, 0xE5, 0xB0, 0xBE]) (length raw - 1) (length raw) raw ''0x7E'']
         else []))"

definition dataField :: "string \<Rightarrow> string \<Rightarrow> nat \<Rightarrow> nat \<Rightarrow> bytes \<Rightarrow> bytes \<Rightarrow> string \<Rightarrow> goValue \<Rightarrow> string \<Rightarrow>
    fieldAnnotation" where
  "dataField key label dataStart dataEnd raw data valueText value meaning =
     (let end = 8 + dataEnd;
          dataEnd1 = (if length data < dataEnd then length data else dataEnd) in
      \<lparr>sgKey = key, sgLabel = label, sgStart = int (8 + dataStart),
       sgEnd = int (if raw \<noteq> [] \<and> length raw < end then length raw else end),
       sgHex = (if dataStart < length data then FecFormatHex (take (dataEnd1 - dataStart) (drop dataStart data)) else []),
       sgValue = value, sgValueText = valueText, sgMeaning = meaning\<rparr>)"

definition looksLikeFunctionCode :: "byte \<Rightarrow> bool" where
  "looksLikeFunctionCode code = IsFunctionAllowed code"

text \<open>The text and the meaning of a field: those of the enumeration if the value is one of its keys.\<close>

definition enumText :: "fieldDefinition \<Rightarrow> bytes \<Rightarrow> string option" where
  "enumText def bs =
     (if length bs = 1 then (case fdEnum def of None \<Rightarrow> None | Some enum \<Rightarrow> map_of enum (bs ! 0))
      else if length bs = 2 then
        (case fdEnum16 def of None \<Rightarrow> None
         | Some enum \<Rightarrow> map_of enum (read16 (fdType def) (fdEndian def) bs))
      else None)"

text \<open>One field of the data: \<open>Some None\<close> if it is passed over, \<open>None\<close> if the slice expression panics.\<close>

definition annotateField :: "bytes \<Rightarrow> bytes \<Rightarrow> fieldDefinition \<Rightarrow> fieldAnnotation option option" where
  "annotateField raw data def =
     (if fdOffset def < 1 \<or> fdLength def \<le> 0 \<or> int (length data) \<le> fdOffset def then Some None
      else let sum = wrap64 (fdOffset def + fdLength def);
               end = (if int (length data) < sum then int (length data) else sum) in
        if end < fdOffset def then None
        else let start = nat (fdOffset def);
                 bs = take (nat end - start) (drop start data);
                 value = decodeFieldValue bs (fdType def) (fdEndian def);
                 valueText = (case enumText def bs of Some t \<Rightarrow> t | None \<Rightarrow> sprint (\<lambda>_. []) value);
                 meaning = (case enumText def bs of Some t \<Rightarrow> t | None \<Rightarrow> fdMeaning def) in
          Some (Some (dataField (fdKey def) (fdLabel def) start (nat end) raw data valueText value meaning)))"

fun annotateFields :: "bytes \<Rightarrow> bytes \<Rightarrow> fieldDefinition list \<Rightarrow> fieldAnnotation list option" where
  "annotateFields raw data [] = Some []"
| "annotateFields raw data (def # defs) =
     (case annotateField raw data def of
        None \<Rightarrow> None
      | Some r \<Rightarrow> map_option (\<lambda>entries. (case r of None \<Rightarrow> entries | Some f \<Rightarrow> f # entries)) (annotateFields raw data defs))"

definition dataAnnotations :: "bytes \<Rightarrow> fecFrame \<Rightarrow> functionInfo \<Rightarrow> customFunction list \<Rightarrow> byte \<Rightarrow>
    fieldAnnotation list option" where
  "dataAnnotations raw frame info custom code =
     (if ffData frame = [] then Some []
      else if 1 < ffGroup frame \<and> \<not> looksLikeFunctionCode (frameFunction frame) then
        Some [dataField ''continuation'' (string_of [0xE7, 0xBB, 0xAD, 0xE5, 0xB8, 0xA7, 0xE6, 0x95, 0xB0, 0xE6, 0x8D, 0xAE]) 0 (length (ffData frame)) raw (ffData frame)
          (FecFormatHex (ffData frame)) (GText (FecFormatHex (ffData frame))) (string_of [0xE5, 0xA4, 0x9A, 0xE5, 0xB8, 0xA7, 0xE6, 0x8A, 0xA5, 0xE6, 0x96, 0x87, 0xE5, 0x90, 0x8E, 0xE7, 0xBB, 0xAD, 0xE6, 0x95, 0xB0, 0xE6, 0x8D, 0xAE])]
      else map_option (\<lambda>entries.
          dataField ''function'' (string_of [0xE5, 0x8A, 0x9F, 0xE8, 0x83, 0xBD, 0xE7, 0xA0, 0x81]) 0 1 raw (ffData frame) (fiName info) (GInteger (uint code)) (fiName info) # entries)
        (annotateFields raw (ffData frame) (fieldDefinitionsForFrame frame code custom)))"

definition multiFrameGroupKey :: "frameRecord \<Rightarrow> string" where
  "multiFrameGroupKey r =
     (let f = frFrame r in
      if ffGroup f = 0 then []
      else frSessionID r @ '':'' @ frDirection r @ '':'' @ itoa (uint (ffTarget f)) @ '':'' @
           itoa (uint (ffSource f)) @ '':'' @ itoa (uint (ffMessage f)))"

text \<open>FNV-1a at 32 bits (package \<open>hash/fnv\<close>)\<close>

definition fnv32a :: "bytes \<Rightarrow> u32" where
  "fnv32a bs = foldl (\<lambda>h b. (h XOR ucast b) * 16777619) 2166136261 bs"

definition groupPaletteSize :: nat where
  "groupPaletteSize = 8"

definition groupColorIndex :: "string \<Rightarrow> int" where
  "groupColorIndex key = (if key = [] then - 1 else int (unat (fnv32a (bytes_of key)) mod groupPaletteSize))"

definition frameSummary :: "fecFrame \<Rightarrow> functionInfo \<Rightarrow> string" where
  "frameSummary f info =
     trim_space (fiName info @ '' DA='' @ itoa (uint (ffTarget f)) @ '' SA='' @ itoa (uint (ffSource f)) @
       '' MN='' @ itoa (uint (ffMessage f)) @ '' TN='' @ itoa (uint (ffGroup f)))"

text \<open>The context is the function of the first frame of a message of several frames.\<close>

definition AnnotateFrame :: "frameRecord \<Rightarrow> customFunction list \<Rightarrow> byte option \<Rightarrow> annotatedFrame option" where
  "AnnotateFrame r custom context =
     (let frame = frFrame r;
          raw = (if ffRaw frame = [] \<and> frHex r \<noteq> [] then (case ParseHex (frHex r) of Inl _ \<Rightarrow> [] | Inr bs \<Rightarrow> bs)
                 else ffRaw frame);
          code0 = frameFunction frame;
          code = (case context of
              Some function \<Rightarrow> if 1 < ffGroup frame \<and> \<not> looksLikeFunctionCode code0 then function else code0
            | None \<Rightarrow> code0);
          info = functionInfoOf code custom;
          key = multiFrameGroupKey r in
      map_option (\<lambda>entries. \<lparr>afSegments = serialSegments raw frame, afDataFields = entries, afFunction = info,
          afGroupKey = key, afGroupColorIndex = groupColorIndex key, afSummary = frameSummary frame info,
          afWarnings = (if raw = [] then [(string_of [0xE7, 0xBC, 0xBA, 0xE5, 0xB0, 0x91, 0xE5, 0x8E, 0x9F, 0xE5, 0xA7, 0x8B, 0xE5, 0xB8, 0xA7, 0xE5, 0xAD, 0x97, 0xE8, 0x8A, 0x82])] else [])\<rparr>)
        (dataAnnotations raw frame info custom code))"

text \<open>
  The pass of \<open>queryFrames\<close> over the history: each frame is annotated, a continuation with the function of
  the first frame of its message, before the frames are filtered.
\<close>

fun annotateHistory :: "customFunction list \<Rightarrow> (string \<Rightarrow> byte option) \<Rightarrow> frameRecord list \<Rightarrow>
    (frameRecord \<times> annotatedFrame) list option" where
  "annotateHistory custom groups [] = Some []"
| "annotateHistory custom groups (r # rs) =
     (let key = multiFrameGroupKey r;
          context = (if 1 < ffGroup (frFrame r) then groups key else None) in
      case AnnotateFrame r custom context of
        None \<Rightarrow> None
      | Some a \<Rightarrow>
          let groups1 = (if key \<noteq> [] \<and> ffGroup (frFrame r) = 1 then groups(key \<mapsto> fiCode (afFunction a)) else groups) in
          map_option (\<lambda>rest. (r, a) # rest) (annotateHistory custom groups1 rs))"

definition queryAnnotated :: "fecSession \<Rightarrow> fecQuery \<Rightarrow> customFunction list \<Rightarrow>
    (framePage \<times> (frameRecord \<times> annotatedFrame) list) option" where
  "queryAnnotated s req custom =
     map_option (\<lambda>all. let page = queryFrames s req;
                           filtered = filter (recordMatches req \<circ> fst) all in
         (page, take (length (fpFrames page)) (drop (nat (fpOffset page)) filtered)))
       (annotateHistory custom Map.empty (fsHistory s))"

end
