(* ===== verification/FecbusAnnotationFacts.thy ===== *)
theory FecbusAnnotationFacts
  imports FecbusAnnotation FecbusFacts
begin

text \<open>
  Facts about the explanation of FECbus frames: the segments partition the bytes of a frame; a payload built
  from field values is explained with these values; and the annotation of a history neither panics nor
  changes what a query returns, unless a definition of the user overflows.
\<close>

section \<open>Segments\<close>

definition covered :: "bytes \<Rightarrow> frameSegment \<Rightarrow> bytes" where
  "covered raw s = take (nat (sgEnd s) - nat (sgStart s)) (drop (nat (sgStart s)) raw)"

lemma covered_segment [simp]: "covered raw (segment k l a b raw' m) = take (b - a) (drop a raw)"
  by (simp add: covered_def segment_def Let_def)

lemma segment_bounds [simp]:
  "sgStart (segment k l a b raw m) = int a" "sgEnd (segment k l a b raw m) = int b"
  "a < b \<Longrightarrow> b \<le> length raw \<Longrightarrow> sgHex (segment k l a b raw m) = FecFormatHex (take (b - a) (drop a raw))"
  by (simp_all add: segment_def Let_def)

text \<open>Segments that each begin where the one before ends.\<close>

fun chained :: "nat \<Rightarrow> frameSegment list \<Rightarrow> nat \<Rightarrow> bool" where
  "chained a [] b = (a = b)"
| "chained a (s # ss) b = (sgStart s = int a \<and> int a < sgEnd s \<and> chained (nat (sgEnd s)) ss b)"

lemma chained_covers:
  "chained a ss b \<Longrightarrow> a \<le> b \<and> concat (map (covered raw) ss) = take (b - a) (drop a raw)"
proof (induction a ss b rule: chained.induct)
  case (2 a s ss b)
  let ?c = "nat (sgEnd s)"
  from 2 have c: "sgStart s = int a" "a < ?c" "?c \<le> b"
    and ih: "concat (map (covered raw) ss) = take (b - ?c) (drop ?c raw)" by auto
  have "take (?c - a) (drop a raw) @ take (b - ?c) (drop ?c raw) = take (b - a) (drop a raw)"
  proof -
    have "take (b - a) (drop a raw) = take ((?c - a) + (b - ?c)) (drop a raw)" using c by simp
    also have "\<dots> = take (?c - a) (drop a raw) @ take (b - ?c) (drop (?c - a) (drop a raw))" by (rule take_add)
    also have "drop (?c - a) (drop a raw) = drop ?c raw" using c by simp
    finally show ?thesis by simp
  qed
  with c ih show ?case by (simp add: covered_def [of raw s])
qed simp

lemma decoded_length:
  assumes "FecDecodeFrame raw = Inr f"
  shows "length raw = 11 + length (ffData f)" "ffRaw f = raw" "1 \<le> length (ffData f)"
  using assms by (auto simp: FecDecodeFrame_def Let_def minFrameBytes_def maxDataBytes_def split: if_splits option.splits)

text \<open>C25: the segments that explain a received frame partition its bytes: the first begins at the first byte,
  each begins where the one before ends, the last ends with the frame, and each shows its own bytes in
  hexadecimal, so that the segments put together are the frame.\<close>

theorem frame_segments_partition:
  assumes "FecDecodeFrame raw = Inr f"
  shows "chained 0 (serialSegments raw f) (length raw) \<and>
         concat (map (covered raw) (serialSegments raw f)) = raw \<and>
         (\<forall>s \<in> set (serialSegments raw f). sgHex s = FecFormatHex (covered raw s))"
proof -
  note len = decoded_length [OF assms]
  let ?n = "length (ffData f)"
  have data: "ffData f \<noteq> []" using len(3) by auto
  have raw: "raw \<noteq> []" "int (8 + ?n) \<le> int (length raw) - 3" "length raw - 3 = 8 + ?n" "length raw - 1 = 10 + ?n"
    using len by auto
  have chain: "chained 0 (serialSegments raw f) (length raw)"
    using len raw data by (simp add: serialSegments_def Let_def)
  moreover have "\<forall>s \<in> set (serialSegments raw f). sgHex s = FecFormatHex (covered raw s)"
    using len raw data by (simp add: serialSegments_def Let_def)
  ultimately show ?thesis using chained_covers [OF chain, of raw] by simp
qed

theorem frame_segments_partition_witness:
  "concat (map (covered (fecWire sampleFec)) (serialSegments (fecWire sampleFec) (fecView sampleFec))) = fecWire sampleFec"
  using frame_segments_partition [OF fec_decode_encode, of sampleFec "fecWire sampleFec"] sampleFec_valid
  by (simp add: FecEncode_iff)

section \<open>Payloads built from field values\<close>

text \<open>The fields of the tables: numbers of one or two bytes, the latter with the low byte first.\<close>

definition number_field :: "fieldDefinition \<Rightarrow> bool" where
  "number_field d \<longleftrightarrow> 1 \<le> fdOffset d \<and> fdOffset d \<le> 100 \<and> fdEndian d \<noteq> ''big'' \<and>
     (fdType d = ''uint8'' \<and> fdLength d = 1 \<or> fdType d = ''uint16le'' \<and> fdLength d = 2)"

fun in_sequence :: "fieldDefinition list \<Rightarrow> bool" where
  "in_sequence (d # e # ds) = (fdOffset d + fdLength d \<le> fdOffset e \<and> in_sequence (e # ds))"
| "in_sequence _ = True"

lemma tables_are_numbers: "list_all number_field (appendixCFields code) \<and> in_sequence (appendixCFields code)"
  by (simp add: appendixCFields_def controllerFields_def clockFields_def eventFields_def scopedIDFields_def deviceFields_def
      field_def number_field_def withByteEnum_def withUint16Enum_def)

lemma number_field_bounds:
  "number_field d \<Longrightarrow> 1 \<le> fdOffset d \<and> fdOffset d \<le> 100 \<and> 1 \<le> fdLength d \<and> fdLength d \<le> 2 \<and>
     wrap64 (fdOffset d + fdLength d) = fdOffset d + fdLength d"
  by (auto simp: number_field_def wrap64_def)

lemma in_sequence_later:
  "in_sequence (d # ds) \<Longrightarrow> list_all number_field ds \<Longrightarrow> e \<in> set ds \<Longrightarrow> fdOffset d + fdLength d \<le> fdOffset e"
proof (induction ds arbitrary: d)
  case (Cons x xs)
  then show ?case using number_field_bounds [of x] by fastforce
qed simp

lemma in_sequence_tail: "in_sequence (d # ds) \<Longrightarrow> in_sequence ds"
  by (cases ds) simp_all

text \<open>The bytes of a field.\<close>

definition field_bytes :: "fieldDefinition \<Rightarrow> bytes \<Rightarrow> bytes" where
  "field_bytes d data = take (nat (fdLength d)) (drop (nat (fdOffset d)) data)"

lemma length_put_at: "pos + length source \<le> length data \<Longrightarrow> length (put_at data pos source) = length data"
  by (simp add: put_at_def)

lemma put_at_hit: "pos + length source \<le> length data \<Longrightarrow> take (length source) (drop pos (put_at data pos source)) = source"
  by (simp add: put_at_def)

lemma put_at_miss:
  "pos + length source \<le> length data \<Longrightarrow> k + n \<le> pos \<Longrightarrow> take n (drop k (put_at data pos source)) = take n (drop k data)"
  by (simp add: put_at_def take_drop min_def)

lemma length_numberBytes: "number_field d \<Longrightarrow> length (numberBytes (nat (fdLength d)) (fdType d) (fdEndian d) v) = nat (fdLength d)"
  by (auto simp: number_field_def numberBytes_def Let_def)

text \<open>A number is read back modulo its width.\<close>

lemma decode_numberBytes:
  assumes "number_field d"
  shows "decodeFieldValue (numberBytes (nat (fdLength d)) (fdType d) (fdEndian d) v) (fdType d) (fdEndian d) =
         GInteger (v mod 256 ^ nat (fdLength d))"
  using assms
  by (auto simp: number_field_def numberBytes_def decodeFieldValue_def bigEndianField_def read16_def Let_def
      unsigned_of_int take_bit_int_def)

lemma encode_number:
  assumes "number_field d" "fdOffset d + fdLength d \<le> int (length data)" "numericValue wild x = Inr v"
  shows "encodeFieldValue showFloat wild data (fdOffset d) (fdLength d) (fdType d) (fdEndian d) x =
         Some (Inr (put_at data (nat (fdOffset d)) (numberBytes (nat (fdLength d)) (fdType d) (fdEndian d) v)))"
proof -
  have "fdType d \<notin> {''string'', ''utf8''}" "fdType d \<noteq> ''hex''" using assms(1) by (auto simp: number_field_def)
  then show ?thesis
    using number_field_bounds [OF assms(1)] assms(2,3) by (simp add: encodeFieldValue_def Let_def)
qed

text \<open>Every field that is written can be read, and bytes before the fields are left alone.\<close>

definition field_written :: "(float64 \<Rightarrow> int) \<Rightarrow> (string \<Rightarrow> goValue option) \<Rightarrow> bytes \<Rightarrow> fieldDefinition \<Rightarrow> bool" where
  "field_written wild values out d =
     (case values (fdKey d) of None \<Rightarrow> True
      | Some x \<Rightarrow> (\<exists>v. numericValue wild x = Inr v \<and>
          decodeFieldValue (field_bytes d out) (fdType d) (fdEndian d) = GInteger (v mod 256 ^ nat (fdLength d))))"

lemma encodeFields_written:
  assumes "encodeFields showFloat wild values defs data = Some (Inr out)"
    and "list_all number_field defs" "in_sequence defs"
    and "\<forall>d \<in> set defs. values (fdKey d) \<noteq> None \<longrightarrow> fdOffset d + fdLength d \<le> int (length data)"
  shows "length out = length data \<and> list_all (field_written wild values out) defs \<and>
         (\<forall>k n. (\<forall>d \<in> set defs. int (k + n) \<le> fdOffset d) \<longrightarrow> take n (drop k out) = take n (drop k data))"
  using assms
proof (induction defs arbitrary: data)
  case (Cons d ds)
  have later: "\<forall>e \<in> set ds. fdOffset d + fdLength d \<le> fdOffset e"
    using in_sequence_later [OF Cons.prems(3)] Cons.prems(2) by simp
  have rest: "list_all number_field ds" "in_sequence ds" "number_field d"
    using Cons.prems(2) in_sequence_tail [OF Cons.prems(3)] by simp_all
  note bounds = number_field_bounds [OF rest(3)]
  show ?case
  proof (cases "values (fdKey d)")
    case None
    then show ?thesis using Cons.IH [of data] Cons.prems rest by (simp add: field_written_def)
  next
    case (Some x)
    have fit: "fdOffset d + fdLength d \<le> int (length data)" using Cons.prems(4) Some by simp
    have ty: "fdType d \<notin> {''string'', ''utf8''}" "fdType d \<noteq> ''hex''" using rest(3) by (auto simp: number_field_def)
    obtain v where v: "numericValue wild x = Inr v"
      using Cons.prems(1) Some ty bounds fit
      by (cases "numericValue wild x") (simp_all add: encodeFieldValue_def Let_def)
    define nb where "nb = numberBytes (nat (fdLength d)) (fdType d) (fdEndian d) v"
    define data1 where "data1 = put_at data (nat (fdOffset d)) nb"
    have nb: "length nb = nat (fdLength d)" using length_numberBytes [OF rest(3)] by (simp add: nb_def)
    have room: "nat (fdOffset d) + length nb \<le> length data" using fit bounds nb by linarith
    have l1: "length data1 = length data" using room by (simp add: data1_def length_put_at)
    have "encodeFields showFloat wild values ds data1 = Some (Inr out)"
      using Cons.prems(1) Some encode_number [OF rest(3) fit v] by (simp add: data1_def nb_def)
    then have ih: "length out = length data1" "list_all (field_written wild values out) ds"
      "\<And>k n. (\<forall>e \<in> set ds. int (k + n) \<le> fdOffset e) \<Longrightarrow> take n (drop k out) = take n (drop k data1)"
      using Cons.IH [of data1] rest Cons.prems(4) l1 by auto
    have "field_bytes d out = field_bytes d data1"
      unfolding field_bytes_def using later bounds by (intro ih(3)) auto
    also have "\<dots> = nb" unfolding field_bytes_def data1_def using put_at_hit [OF room] by (simp add: nb)
    finally have "field_written wild values out d"
      using decode_numberBytes [OF rest(3)] Some v by (simp add: field_written_def nb_def)
    moreover have "take n (drop k out) = take n (drop k data)"
      if "\<forall>e \<in> set (d # ds). int (k + n) \<le> fdOffset e" for k n
    proof -
      have "take n (drop k out) = take n (drop k data1)" using that by (intro ih(3)) simp
      also have "\<dots> = take n (drop k data)" unfolding data1_def using that room by (intro put_at_miss) auto
      finally show ?thesis .
    qed
    ultimately show ?thesis using ih(1,2) l1 by simp
  qed
qed simp

lemma payloadLength_bound:
  "\<forall>d \<in> set defs. values (fdKey d) \<noteq> None \<longrightarrow> wrap64 (fdOffset d + fdLength d) \<le> payloadLength values defs"
  "1 \<le> payloadLength values defs"
proof -
  let ?f = "\<lambda>n def. if values (fdKey def) = None then n
                    else let end = wrap64 (fdOffset def + fdLength def) in if n < end then end else n"
  have "n \<le> foldl ?f n defs \<and>
      (\<forall>d \<in> set defs. values (fdKey d) \<noteq> None \<longrightarrow> wrap64 (fdOffset d + fdLength d) \<le> foldl ?f n defs)" for n
  proof (induction defs arbitrary: n)
    case (Cons d ds)
    have "n \<le> ?f n d" "values (fdKey d) \<noteq> None \<longrightarrow> wrap64 (fdOffset d + fdLength d) \<le> ?f n d" by (simp_all add: Let_def)
    with Cons [of "?f n d"] show ?case by (auto simp del: if_split simp: Let_def)
  qed simp
  then show "\<forall>d \<in> set defs. values (fdKey d) \<noteq> None \<longrightarrow> wrap64 (fdOffset d + fdLength d) \<le> payloadLength values defs"
    "1 \<le> payloadLength values defs" by (simp_all add: payloadLength_def)
qed

text \<open>A definition whose end does not overflow is explained without a panic.\<close>

definition sane_field :: "fieldDefinition \<Rightarrow> bool" where
  "sane_field d \<longleftrightarrow> (1 \<le> fdOffset d \<and> 0 < fdLength d \<longrightarrow> fdOffset d \<le> wrap64 (fdOffset d + fdLength d))"

lemma annotateFields_explains:
  assumes "list_all sane_field defs"
  shows "\<exists>entries. annotateFields raw data defs = Some entries \<and>
    (\<forall>d \<in> set defs. number_field d \<and> fdOffset d + fdLength d \<le> int (length data) \<longrightarrow>
       (\<exists>e \<in> set entries. sgKey e = fdKey d \<and> sgValue e = decodeFieldValue (field_bytes d data) (fdType d) (fdEndian d)))"
  using assms
proof (induction defs)
  case (Cons d ds)
  then obtain entries where ih: "annotateFields raw data ds = Some entries"
    "\<forall>d \<in> set ds. number_field d \<and> fdOffset d + fdLength d \<le> int (length data) \<longrightarrow>
       (\<exists>e \<in> set entries. sgKey e = fdKey d \<and> sgValue e = decodeFieldValue (field_bytes d data) (fdType d) (fdEndian d))"
    by auto
  have "annotateField raw data d \<noteq> None"
    using Cons.prems by (auto simp: annotateField_def sane_field_def Let_def)
  then obtain r where r: "annotateField raw data d = Some r" by blast
  have "\<exists>e. r = Some e \<and> sgKey e = fdKey d \<and> sgValue e = decodeFieldValue (field_bytes d data) (fdType d) (fdEndian d)"
    if "number_field d" "fdOffset d + fdLength d \<le> int (length data)"
  proof -
    note b = number_field_bounds [OF that(1)]
    have "nat (fdOffset d + fdLength d) - nat (fdOffset d) = nat (fdLength d)" using b by linarith
    then show ?thesis
      using r b that(2) by (auto simp: annotateField_def Let_def dataField_def field_bytes_def)
  qed
  then show ?case using ih r by (auto split: option.split)
qed simp

lemma number_field_sane: "number_field d \<Longrightarrow> sane_field d"
  using number_field_bounds [of d] by (simp add: sane_field_def)

text \<open>a payload built from field values by the tables of Appendix C begins with the function code, has
  at most eight bytes, and when the request that carries it is explained, every field shows the value it
  was given, reduced to the width of the field.\<close>

theorem structured_payload_explained:
  assumes "BuildDataFromFields showFloat wild code values [] = Some (Inr data)"
    and "ffData frame = data" "ffType frame = FrameTypeRequest" "ffGroup frame \<le> 1"
  shows "data \<noteq> [] \<and> hd data = code \<and> length data \<le> maxDataBytes \<and>
    (\<exists>entries. dataAnnotations raw frame info [] code = Some entries \<and>
      (\<forall>d \<in> set (appendixCFields code). \<forall>x. values (fdKey d) = Some x \<longrightarrow>
         (\<exists>v. numericValue wild x = Inr v \<and>
           (\<exists>e \<in> set entries. sgKey e = fdKey d \<and> sgValue e = GInteger (v mod 256 ^ nat (fdLength d))))))"
proof -
  let ?defs = "appendixCFields code"
  let ?n = "payloadLength values ?defs"
  have tables: "list_all number_field ?defs" "in_sequence ?defs" using tables_are_numbers by simp_all
  have request: "fieldDefinitions code [] = ?defs" by (simp add: fieldDefinitions_def customDefinition_def)
  have n: "1 \<le> ?n" "?n \<le> int maxDataBytes"
    and enc: "encodeFields showFloat wild values ?defs (code # replicate (nat ?n - 1) 0) = Some (Inr data)"
    using assms(1) payloadLength_bound(2) [of "values" ?defs]
    by (simp_all add: BuildDataFromFields_def request Let_def split: if_splits)
  have len: "int (length (code # replicate (nat ?n - 1) (0 :: byte))) = ?n" using n by simp
  have fit: "\<forall>d \<in> set ?defs. values (fdKey d) \<noteq> None \<longrightarrow> fdOffset d + fdLength d \<le> ?n"
    using payloadLength_bound(1) [of ?defs "values"] tables(1) number_field_bounds
    by (metis (mono_tags, lifting) list_all_iff)
  have out: "length data = nat ?n" "list_all (field_written wild values data) ?defs"
    "take 1 (drop 0 data) = take 1 (drop 0 (code # replicate (nat ?n - 1) 0))"
  proof -
    note written = encodeFields_written [OF enc tables, unfolded len, OF fit]
    show "length data = nat ?n" using written n by simp
    show "list_all (field_written wild values data) ?defs" using written by blast
    have "\<forall>d \<in> set ?defs. int (0 + 1) \<le> fdOffset d" using tables(1) by (auto simp: list_all_iff number_field_def)
    with written show "take 1 (drop 0 data) = take 1 (drop 0 (code # replicate (nat ?n - 1) 0))" by blast
  qed
  have data: "data \<noteq> []" "hd data = code" using out(1,3) n by (cases data; simp)+
  have group_number: "\<not> 1 < ffGroup frame" using assms(4) by simp
  have "fieldDefinitionsForFrame frame code [] = ?defs"
    using assms(3) by (simp add: fieldDefinitionsForFrame_def hasCustomDefinition_def request)
  moreover obtain entries where entries: "annotateFields raw data ?defs = Some entries"
    "\<forall>d \<in> set ?defs. number_field d \<and> fdOffset d + fdLength d \<le> int (length data) \<longrightarrow>
       (\<exists>e \<in> set entries. sgKey e = fdKey d \<and> sgValue e = decodeFieldValue (field_bytes d data) (fdType d) (fdEndian d))"
    using annotateFields_explains [of ?defs raw data] tables(1) by (auto simp: list_all_iff number_field_sane)
  ultimately obtain all where all: "dataAnnotations raw frame info [] code = Some all" "set entries \<subseteq> set all"
    using assms(2) data(1) group_number by (simp add: dataAnnotations_def) blast
  have "\<exists>v. numericValue wild x = Inr v \<and>
      (\<exists>e \<in> set all. sgKey e = fdKey d \<and> sgValue e = GInteger (v mod 256 ^ nat (fdLength d)))"
    if "d \<in> set ?defs" "values (fdKey d) = Some x" for d x
  proof -
    have "field_written wild values data d" "number_field d" "fdOffset d + fdLength d \<le> int (length data)"
      using that out(1,2) tables(1) fit n by (auto simp: list_all_iff)
    with that entries(2) all(2) show ?thesis by (force simp: field_written_def)
  qed
  with all(1) data n out(1) show ?thesis by auto
qed

definition sample_values :: "string \<Rightarrow> goValue option" where
  "sample_values = [''controller_id'' \<mapsto> GInteger 3, ''event_code'' \<mapsto> GInteger 300]"

lemma sample_payload:
  "BuildDataFromFields (\<lambda>_. []) (\<lambda>_. 0) 41 sample_values [] = Some (Inr [41, 3, 44, 1])"
  by (simp add: BuildDataFromFields_def fieldDefinitions_def customDefinition_def appendixCFields_def field_def
      withUint16Enum_def payloadLength_def sample_values_def wrap64_def maxDataBytes_def encodeFieldValue_def Let_def
      numericValue_def numberBytes_def bigEndianField_def put_at_def hiByte_def loByte_def)

definition sample_event_query :: fecFrame where
  "sample_event_query = fecFrameZero\<lparr>ffTarget := 5, ffSource := 1, ffMessage := 1, ffData := [41, 3, 44, 1]\<rparr>"

theorem structured_payload_explained_witness:
  "\<exists>entries e. dataAnnotations [] sample_event_query (functionInfoOf 41 []) [] 41 = Some entries \<and>
     e \<in> set entries \<and> sgKey e = ''event_code'' \<and> sgValue e = GInteger 300"
proof -
  have frame: "ffData sample_event_query = [41, 3, 44, 1]" "ffType sample_event_query = FrameTypeRequest"
    "ffGroup sample_event_query \<le> 1" by (simp_all add: sample_event_query_def fecFrameZero_def)
  have "sample_values ''event_code'' = Some (GInteger 300)" by (simp add: sample_values_def)
  moreover have "\<exists>d \<in> set (appendixCFields 41). fdKey d = ''event_code'' \<and> fdLength d = 2"
    by (simp add: appendixCFields_def field_def withUint16Enum_def)
  ultimately show ?thesis
    using structured_payload_explained [OF sample_payload frame, of "[]" "functionInfoOf 41 []"]
    by (fastforce simp: numericValue_def)
qed

section \<open>The annotated history\<close>

lemma appendix_sane: "list_all sane_field (appendixCFields code)"
  using tables_are_numbers [of code] number_field_sane by (auto simp: list_all_iff)

lemma answers_sane: "answerFields code = Some defs \<Longrightarrow> list_all sane_field defs"
  by (auto simp: answerFields_def textAnswerFields_def eventAnswerFields_def deviceListAnswerFields_def field_def
      withByteEnum_def withUint16Enum_def sane_field_def wrap64_def split: if_splits)

text \<open>The definitions of a user whose fields end within the range of an \<open>int\<close>.\<close>

definition sane_custom :: "customFunction list \<Rightarrow> bool" where
  "sane_custom custom \<longleftrightarrow>
     (\<forall>def \<in> set custom. \<forall>f \<in> set (cuFields def). cfOffset f + cfLength f < 2 ^ 63)"

lemma definitions_sane:
  assumes "sane_custom custom"
  shows "list_all sane_field (fieldDefinitionsForFrame frame code custom)"
proof -
  have "sane_field (customFieldDefinition f)" if "def \<in> set custom" "f \<in> set (cuFields def)" for def f
  proof -
    have "cfOffset f + cfLength f < 2 ^ 63" using assms that by (auto simp: sane_custom_def)
    then show ?thesis by (auto simp: sane_field_def customFieldDefinition_def wrap64_id)
  qed
  then have "list_all sane_field (fieldDefinitions code custom)"
    using appendix_sane [of code] by (auto simp: fieldDefinitions_def customDefinition_def list_all_iff find_Some_iff
        split: option.splits) (metis nth_mem)
  then show ?thesis
    using answers_sane [of code] by (auto simp: fieldDefinitionsForFrame_def Let_def split: option.splits)
qed

lemma annotate_total:
  assumes "sane_custom custom"
  shows "AnnotateFrame r custom context \<noteq> None"
proof -
  have "dataAnnotations raw frame info custom code \<noteq> None" for raw frame info code
    using annotateFields_explains [OF definitions_sane [OF assms], of raw "ffData frame" frame code]
    by (auto simp: dataAnnotations_def)
  then show ?thesis by (auto simp: AnnotateFrame_def Let_def)
qed

lemma annotateHistory_total:
  assumes "sane_custom custom"
  shows "\<exists>all. annotateHistory custom groups rs = Some all \<and> map fst all = rs"
proof (induction rs arbitrary: groups)
  case (Cons r rs)
  obtain a where a: "AnnotateFrame r custom (if 1 < ffGroup (frFrame r) then groups (multiFrameGroupKey r) else None) = Some a"
    using annotate_total [OF assms] by blast
  let ?groups = "if multiFrameGroupKey r \<noteq> [] \<and> ffGroup (frFrame r) = 1
    then groups(multiFrameGroupKey r \<mapsto> fiCode (afFunction a)) else groups"
  obtain rest where "annotateHistory custom ?groups rs = Some rest" "map fst rest = rs" using Cons by blast
  with a show ?case by (simp add: Let_def)
qed simp

lemma filter_map_fst: "map fst (filter (P \<circ> fst) xs) = filter P (map fst xs)"
  by (induction xs) auto

lemma page_prefix:
  "fpFrames (queryFrames s req) =
   take (length (fpFrames (queryFrames s req))) (drop (nat (fpOffset (queryFrames s req))) (filter (recordMatches req) (fsHistory s)))"
proof -
  let ?rest = "drop (nat (fpOffset (queryFrames s req))) (filter (recordMatches req) (fsHistory s))"
  define F where "F = filter (recordMatches req) (fsHistory s)"
  define off where "off = (if fqOffset req < 0 then 0 else fqOffset req)"
  define lim where "lim = (if fqLimit req \<le> 0 \<or> 500 < fqLimit req then 200 else fqLimit req)"
  define stop where "stop = (if int (length F) < off + lim then int (length F) else off + lim)"
  have q: "queryFrames s req =
      (if int (length F) \<le> off then
         \<lparr>fpFrames = [], fpOffset = off, fpLimit = lim, fpTotal = int (length F), fpEOF = True\<rparr>
       else \<lparr>fpFrames = take (nat (stop - off)) (drop (nat off) F), fpOffset = off, fpLimit = lim,
         fpTotal = int (length F), fpEOF = (int (length F) \<le> stop)\<rparr>)"
    unfolding queryFrames_def Let_def F_def off_def lim_def stop_def by (rule refl)
  have "\<exists>k. fpFrames (queryFrames s req) = take k ?rest"
  proof (cases "int (length F) \<le> off")
    case True
    then show ?thesis by (intro exI [of _ 0]) (simp add: q)
  next
    case False
    then show ?thesis by (intro exI [of _ "nat (stop - off)"]) (simp add: q F_def)
  qed
  then obtain k where k: "fpFrames (queryFrames s req) = take k ?rest" ..
  have "take (length (take k ?rest)) ?rest = take k ?rest" by (simp only: length_take) (simp add: min_def)
  with k show ?thesis by metis
qed

text \<open>a query with the function definitions of a user never panics and returns exactly the frames that
  the query returns without them, each with its explanation, provided that no field of a definition ends
  beyond the range of a machine integer; see \<open>overflowing_field_panics\<close> for a field that does.\<close>

theorem annotated_query_exact:
  assumes "\<forall>def \<in> set custom. \<forall>f \<in> set (cuFields def). cfOffset f + cfLength f < 2 ^ 63"
  shows "\<exists>annotated. queryAnnotated s req custom = Some (queryFrames s req, annotated) \<and>
           map fst annotated = fpFrames (queryFrames s req)"
proof -
  have "sane_custom custom" using assms by (simp add: sane_custom_def)
  then obtain all where all: "annotateHistory custom Map.empty (fsHistory s) = Some all" "map fst all = fsHistory s"
    using annotateHistory_total by blast
  let ?page = "queryFrames s req"
  let ?annotated = "take (length (fpFrames ?page)) (drop (nat (fpOffset ?page)) (filter (recordMatches req \<circ> fst) all))"
  have "map fst ?annotated =
      take (length (fpFrames ?page)) (drop (nat (fpOffset ?page)) (filter (recordMatches req) (fsHistory s)))"
    by (simp only: filter_map_fst all(2) flip: take_map drop_map)
  also have "\<dots> = fpFrames ?page" by (rule page_prefix [symmetric])
  finally have "map fst ?annotated = fpFrames ?page" .
  moreover have "queryAnnotated s req custom = Some (?page, ?annotated)" by (simp add: queryAnnotated_def all(1) Let_def)
  ultimately show ?thesis by blast
qed

definition huge_field :: customFunction where
  "huge_field = \<lparr>cuCode = 46, cuName = [], cuDescription = [], cuDirection = [], cuAnswer = False,
     cuFields = [\<lparr>cfKey = ''x'', cfLabel = [], cfOffset = 1, cfLength = 9223372036854775807, cfType = ''hex'',
       cfEndian = [], cfEnum = None, cfMeaning = []\<rparr>]\<rparr>"

lemma overflowing_field_panics:
  "annotateField raw [46, 1, 2] (customFieldDefinition (hd (cuFields huge_field))) = None"
  by (simp add: annotateField_def customFieldDefinition_def huge_field_def wrap64_def Let_def)

definition sample_history :: fecSession where
  "sample_history = recordFrame (newFecSession (sampleFecOpen ''a'')) ''rx'' (fecView sampleFec) (fecWire sampleFec) []"

definition sample_query :: fecQuery where
  "sample_query = \<lparr>fqSessionID = [], fqOffset = 0, fqLimit = 10, fqDirection = [], fqSearch = []\<rparr>"

definition small_field :: customFunction where
  "small_field = huge_field\<lparr>cuFields := map (\<lambda>f. f\<lparr>cfLength := 2\<rparr>) (cuFields huge_field)\<rparr>"

theorem annotated_query_exact_witness:
  "\<exists>annotated. queryAnnotated sample_history sample_query [small_field] =
       Some (queryFrames sample_history sample_query, annotated) \<and>
     map fst annotated = fpFrames (queryFrames sample_history sample_query)"
  by (rule annotated_query_exact) (simp add: small_field_def huge_field_def)

end
