(* ===== verification/FrameParser.thy ===== *)
theory FrameParser
  imports RingBuffer GoStrings
begin

text \<open>
  The configurable frame parser (\<open>internal/modules/serial/protocol/parser.go\<close>, \<open>framespec.go\<close>, \<open>visual/\<close>)
  and the registry of protocol templates (\<open>templates/\<close>). A slice expression with bad bounds panics, which
  is \<open>None\<close>. Lengths read from a frame are added at 64 bits; the offsets and widths of a specification are
  taken to be small enough for their sums. Descriptions and the text of the NMEA script are left out of the templates.
\<close>

section \<open>Specifications and results\<close>

record lengthField =
  lfOffset :: int
  lfWidth :: int
  lfEndianness :: string
  lfIncludesHeader :: bool
  lfIncludesChecksum :: bool

record checksumSpec =
  ckType :: string
  ckOffset :: int
  ckWidth :: int
  ckPoly :: u32
  ckInit :: u32
  ckXorOut :: u32

record fieldSpec =
  fldName :: string
  fldOffset :: int
  fldWidth :: int
  fldType :: string

record frameSpec =
  fspName :: string
  fspHeader :: bytes
  fspFooter :: bytes
  fspLengthField :: "lengthField option"
  fspChecksum :: "checksumSpec option"
  fspFields :: "fieldSpec list"
  fspMaxFrameLen :: int
  fspMinFrameLen :: int

record parsedField =
  pfName :: string
  pfOffset :: int
  pfWidth :: int
  pfType :: string
  pfValue :: u64
  pfDisplay :: string

datatype parse_error = ChecksumMismatch u64 u32

record parseResult =
  plOK :: bool
  plFields :: "parsedField list"
  plErrors :: "parse_error list"
  plConsumed :: int
  plNeedMore :: int

definition needMore :: "int \<Rightarrow> parseResult" where
  "needMore n = \<lparr>plOK = False, plFields = [], plErrors = [], plConsumed = 0, plNeedMore = n\<rparr>"

section \<open>Checksums\<close>

definition polyShift :: "'a::len word \<Rightarrow> 'a word \<Rightarrow> 'a word" where
  "polyShift poly crc = (if bit crc (LENGTH('a) - 1) then push_bit 1 crc XOR poly else push_bit 1 crc)"

definition polyByte :: "'a::len word \<Rightarrow> 'a word \<Rightarrow> byte \<Rightarrow> 'a word" where
  "polyByte poly crc b = (polyShift poly ^^ 8) (crc XOR ucast b)"

definition crc8 :: "bytes \<Rightarrow> byte \<Rightarrow> byte \<Rightarrow> byte \<Rightarrow> byte" where
  "crc8 data poly start xorOut = foldl (polyByte poly) start data XOR xorOut"

definition crc16 :: "bytes \<Rightarrow> u16 \<Rightarrow> u16 \<Rightarrow> u16 \<Rightarrow> u16" where
  "crc16 data poly start xorOut = foldl (polyByte poly) start data XOR xorOut"

definition crc32 :: "bytes \<Rightarrow> u32 \<Rightarrow> u32 \<Rightarrow> u32 \<Rightarrow> u32" where
  "crc32 data poly start xorOut = foldl (polyByte poly) start data XOR xorOut"

definition visualChecksum :: "bytes \<Rightarrow> checksumSpec \<Rightarrow> u32" where
  "visualChecksum data spec =
     (if ckType spec = ''sum8'' then foldl (\<lambda>sum b. sum + ucast b) 0 data AND 0xFF
      else if ckType spec = ''crc8'' then ucast (crc8 data (ucast (ckPoly spec)) (ucast (ckInit spec)) (ucast (ckXorOut spec)))
      else if ckType spec = ''crc16'' then ucast (crc16 data (ucast (ckPoly spec)) (ucast (ckInit spec)) (ucast (ckXorOut spec)))
      else if ckType spec = ''crc32'' then crc32 data (ckPoly spec) (ckInit spec) (ckXorOut spec)
      else 0)"

section \<open>Parsing\<close>

definition decodeUint :: "bytes \<Rightarrow> bool \<Rightarrow> u64" where
  "decodeUint data littleEndian = foldl (\<lambda>r b. push_bit 8 r OR ucast b) 0 (if littleEndian then rev data else data)"

text \<open>\<open>data[a:b]\<close> with \<open>b\<close> at most the length\<close>

definition goSlice :: "int \<Rightarrow> int \<Rightarrow> 'a list \<Rightarrow> 'a list option" where
  "goSlice a b data = (if 0 \<le> a \<and> a \<le> b then Some (take (nat (b - a)) (drop (nat a) data)) else None)"

definition findHeader :: "frameSpec \<Rightarrow> bytes \<Rightarrow> int option" where
  "findHeader spec data = (if fspHeader spec = [] then Some 0 else map_option int (index_of data (fspHeader spec)))"

text \<open>The frame length that a length field gives, or the bytes that are missing for it\<close>

definition fieldLength :: "frameSpec \<Rightarrow> lengthField \<Rightarrow> int \<Rightarrow> bytes \<Rightarrow> (int + int) option" where
  "fieldLength spec lf start data =
     (if int (length data) < start + lfOffset lf + lfWidth lf
      then Some (Inl (start + lfOffset lf + lfWidth lf - int (length data)))
      else map_option (\<lambda>lengthBytes.
        let len0 = sint (decodeUint lengthBytes (lfEndianness lf = ''le''));
            len1 = (if lfIncludesHeader lf then len0 else wrap64 (len0 + int (length (fspHeader spec)))) in
        Inr (if lfIncludesChecksum lf then len1
             else case fspChecksum spec of
                 Some cs \<Rightarrow> if 0 < ckWidth cs then wrap64 (len1 + ckWidth cs) else len1
               | None \<Rightarrow> len1))
        (goSlice (start + lfOffset lf) (start + lfOffset lf + lfWidth lf) data))"

definition defaultLength :: "frameSpec \<Rightarrow> int" where
  "defaultLength spec = (if fspMinFrameLen spec = 0 then int (length (fspHeader spec)) + 1 else fspMinFrameLen spec)"

definition frameLength :: "frameSpec \<Rightarrow> int \<Rightarrow> bytes \<Rightarrow> (int + int) option" where
  "frameLength spec start data =
     map_option (map_sum id (\<lambda>len. if fspMaxFrameLen spec < len \<and> 0 < fspMaxFrameLen spec then fspMaxFrameLen spec else len))
       (case fspLengthField spec of
          Some lf \<Rightarrow> if 0 < lfWidth lf then fieldLength spec lf start data else Some (Inr (defaultLength spec))
        | None \<Rightarrow> Some (Inr (defaultLength spec)))"

text \<open>\<open>Some (Some e)\<close> is a mismatch; a checksum that lies beyond the frame is not looked at.\<close>

definition checkChecksum :: "frameSpec \<Rightarrow> bytes \<Rightarrow> parse_error option option" where
  "checkChecksum spec frame = (case fspChecksum spec of
       None \<Rightarrow> Some None
     | Some cs \<Rightarrow>
         if ckWidth cs \<le> 0 \<or> int (length frame) < ckOffset cs + ckWidth cs then Some None
         else case (goSlice (ckOffset cs) (ckOffset cs + ckWidth cs) frame, goSlice 0 (ckOffset cs) frame) of
             (Some stored, Some covered) \<Rightarrow>
               (let expected = decodeUint stored True; actual = visualChecksum covered cs in
                Some (if ucast expected \<noteq> actual then Some (ChecksumMismatch expected actual) else None))
           | _ \<Rightarrow> None)"

text \<open>The verb \<open>%0*x\<close>: at least twice as many hexadecimal digits as bytes\<close>

fun hexDigits :: "nat \<Rightarrow> string" where
  "hexDigits n = (if n < 16 then [hex_char n] else hexDigits (n div 16) @ [hex_char (n mod 16)])"

declare hexDigits.simps [simp del]

definition hexDisplay :: "int \<Rightarrow> u64 \<Rightarrow> string" where
  "hexDisplay width v = (let digits = hexDigits (unat v) in
     ''0x'' @ replicate (nat (2 * width) - length digits) (CHR ''0'') @ digits)"

fun extractFields :: "fieldSpec list \<Rightarrow> bytes \<Rightarrow> parsedField list option" where
  "extractFields [] frame = Some []"
| "extractFields (fs # rest) frame =
     (if int (length frame) < fldOffset fs + fldWidth fs then extractFields rest frame
      else case goSlice (fldOffset fs) (fldOffset fs + fldWidth fs) frame of
          None \<Rightarrow> None
        | Some fieldData \<Rightarrow>
            (let v = decodeUint fieldData True in
             map_option (Cons \<lparr>pfName = fldName fs, pfOffset = fldOffset fs, pfWidth = fldWidth fs, pfType = fldType fs,
               pfValue = v, pfDisplay = hexDisplay (fldWidth fs) v\<rparr>) (extractFields rest frame)))"

definition parseFrame :: "frameSpec \<Rightarrow> int \<Rightarrow> int \<Rightarrow> bytes \<Rightarrow> parseResult option" where
  "parseFrame spec start stop data =
     (case goSlice start stop data of
        None \<Rightarrow> None
      | Some frame \<Rightarrow>
          (case checkChecksum spec frame of
             None \<Rightarrow> None
           | Some (Some e) \<Rightarrow> Some \<lparr>plOK = False, plFields = [], plErrors = [e], plConsumed = stop, plNeedMore = 0\<rparr>
           | Some None \<Rightarrow> map_option (\<lambda>fs. \<lparr>plOK = True, plFields = fs, plErrors = [], plConsumed = stop, plNeedMore = 0\<rparr>)
               (extractFields (fspFields spec) frame)))"

definition Parse :: "frameSpec \<Rightarrow> bytes \<Rightarrow> parseResult option" where
  "Parse spec data =
     (if data = [] then Some (needMore 1)
      else case findHeader spec data of
          None \<Rightarrow> Some (needMore (int (length (fspHeader spec))))
        | Some start \<Rightarrow>
            (case frameLength spec start data of
               None \<Rightarrow> None
             | Some (Inl missing) \<Rightarrow> Some (needMore missing)
             | Some (Inr len) \<Rightarrow>
                 let stop = wrap64 (start + len) in
                 if int (length data) < stop then Some (needMore (stop - int (length data)))
                 else parseFrame spec start stop data))"

section \<open>Templates\<close>

datatype parser_kind = KindVisual | KindScript | KindTemplate

record protocolTemplate =
  tpName :: string
  tpKind :: parser_kind
  tpVisual :: "frameSpec option"

definition rtuSpec :: frameSpec where
  "rtuSpec = \<lparr>fspName = ''Modbus RTU'', fspHeader = [], fspFooter = [], fspLengthField = None,
     fspChecksum = Some \<lparr>ckType = ''crc16'', ckOffset = - 2, ckWidth = 2, ckPoly = 0xA001, ckInit = 0xFFFF, ckXorOut = 0\<rparr>,
     fspFields = [\<lparr>fldName = ''SlaveAddr'', fldOffset = 0, fldWidth = 1, fldType = ''u8''\<rparr>,
       \<lparr>fldName = ''FuncCode'', fldOffset = 1, fldWidth = 1, fldType = ''u8''\<rparr>],
     fspMaxFrameLen = 256, fspMinFrameLen = 4\<rparr>"

definition aa55Spec :: frameSpec where
  "aa55Spec = \<lparr>fspName = ''AA55'', fspHeader = [0xAA, 0x55], fspFooter = [],
     fspLengthField = Some \<lparr>lfOffset = 2, lfWidth = 2, lfEndianness = ''le'', lfIncludesHeader = False, lfIncludesChecksum = True\<rparr>,
     fspChecksum = Some \<lparr>ckType = ''sum8'', ckOffset = 4, ckWidth = 1, ckPoly = 0, ckInit = 0, ckXorOut = 0\<rparr>,
     fspFields = [\<lparr>fldName = ''cmd'', fldOffset = 4, fldWidth = 1, fldType = ''u8''\<rparr>],
     fspMaxFrameLen = 1024, fspMinFrameLen = 5\<rparr>"

definition templateRegistry :: "protocolTemplate list" where
  "templateRegistry =
    [\<lparr>tpName = ''Modbus RTU'', tpKind = KindVisual, tpVisual = Some rtuSpec\<rparr>,
     \<lparr>tpName = ''AA55 '' @ string_of [0xE8, 0x87, 0xAA, 0xE5, 0xAE, 0x9A, 0xE4, 0xB9, 0x89, 0xE5, 0xB8, 0xA7],
      tpKind = KindVisual, tpVisual = Some aa55Spec\<rparr>,
     \<lparr>tpName = ''NMEA'', tpKind = KindScript, tpVisual = None\<rparr>]"

definition GetTemplate :: "string \<Rightarrow> protocolTemplate option" where
  "GetTemplate name = find (\<lambda>t. tpName t = name) templateRegistry"

definition ListTemplates :: "(string \<times> parser_kind) list" where
  "ListTemplates = map (\<lambda>t. (tpName t, tpKind t)) templateRegistry"

end
