(* ===== verification/FrameParserFacts.thy ===== *)
theory FrameParserFacts
  imports FrameParser
begin

text \<open>
  What the frame parser promises: a result it has given does not change when further bytes arrive,
  a well-formed specification never panics and consumes no more than it was given, and a checksum
  with an odd polynomial detects the change of a byte. The template for Modbus RTU is not well formed.
\<close>

section \<open>Slices and the search for the header\<close>

lemma goSlice_append:
  assumes "b \<le> int (length data)"
  shows "goSlice a b (data @ later) = goSlice a b data"
proof (cases "0 \<le> a \<and> a \<le> b")
  case True
  with assms have "nat a \<le> length data" "nat (b - a) \<le> length data - nat a" by auto
  then show ?thesis by (simp add: goSlice_def)
qed (auto simp: goSlice_def)

lemma goSlice_length:
  "goSlice a b data = Some s \<Longrightarrow> b \<le> int (length data) \<Longrightarrow> int (length s) = b - a \<and> 0 \<le> a \<and> a \<le> b"
  by (auto simp: goSlice_def split: if_splits)

lemma goSlice_Some: "0 \<le> a \<Longrightarrow> a \<le> b \<Longrightarrow> goSlice a b data = Some (take (nat (b - a)) (drop (nat a) data))"
  by (simp add: goSlice_def)

lemma has_prefix_append: "has_prefix xs ys \<Longrightarrow> has_prefix (xs @ zs) ys"
  by (auto simp: has_prefix_iff)

lemma has_prefix_long: "has_prefix (xs @ zs) ys \<Longrightarrow> length ys \<le> length xs \<Longrightarrow> has_prefix xs ys"
  by (auto simp: has_prefix_iff append_eq_append_conv2)

lemma index_of_bound: "index_of xs ys = Some i \<Longrightarrow> i + length ys \<le> length xs"
proof (induction xs arbitrary: i)
  case (Cons x xs)
  then show ?case by (auto simp: has_prefix_iff split: if_splits)
      (metis length_Cons length_append le_add1)
qed (auto split: if_splits)

lemma index_of_append: "index_of xs ys = Some i \<Longrightarrow> index_of (xs @ zs) ys = Some i"
proof (induction xs arbitrary: i)
  case Nil
  then show ?case by (cases zs) (auto split: if_splits simp: has_prefix_iff)
next
  case (Cons x xs)
  show ?case
  proof (cases "has_prefix (x # xs) ys")
    case True
    with Cons.prems have "has_prefix (x # xs @ zs) ys" using has_prefix_append [of "x # xs" ys zs] by simp
    with True Cons.prems show ?thesis by simp
  next
    case False
    with Cons.prems obtain j where j: "index_of xs ys = Some j" "i = Suc j" by auto
    with index_of_bound [OF j(1)] False have "\<not> has_prefix (x # xs @ zs) ys"
      using has_prefix_long [of "x # xs" zs ys] by fastforce
    with Cons.IH [OF j(1)] j(2) show ?thesis by simp
  qed
qed

lemma findHeader_append: "findHeader spec data = Some s \<Longrightarrow> findHeader spec (data @ later) = Some s"
  by (auto simp: findHeader_def index_of_append split: if_splits)

lemma findHeader_bounds: "findHeader spec data = Some s \<Longrightarrow> 0 \<le> s \<and> s + int (length (fspHeader spec)) \<le> int (length data)"
  by (auto simp: findHeader_def dest!: index_of_bound split: if_splits)

section \<open>A result is not changed by further bytes\<close>

lemma frameLength_append:
  assumes "frameLength spec s data \<noteq> None \<longrightarrow> (\<exists>n. frameLength spec s data = Some (Inr n))"
  shows "frameLength spec s (data @ later) = frameLength spec s data"
proof -
  have "fieldLength spec lf s (data @ later) = fieldLength spec lf s data"
    if "s + lfOffset lf + lfWidth lf \<le> int (length data)" for lf
    using that by (simp add: fieldLength_def goSlice_append)
  moreover have "s + lfOffset lf + lfWidth lf \<le> int (length data)"
    if "fspLengthField spec = Some lf" "0 < lfWidth lf" for lf
    using assms that by (rule_tac ccontr) (simp add: frameLength_def fieldLength_def)
  ultimately show ?thesis by (simp add: frameLength_def split: option.split)
qed

lemma parseFrame_append:
  "b \<le> int (length data) \<Longrightarrow> parseFrame spec a b (data @ later) = parseFrame spec a b data"
  by (simp add: parseFrame_def goSlice_append)

lemma needMore_eq [simp]: "needMore m = needMore n \<longleftrightarrow> m = n"
  by (simp add: needMore_def)

lemma parse_append:
  assumes "\<forall>n. Parse spec data \<noteq> Some (needMore n)"
  shows "Parse spec (data @ later) = Parse spec data"
proof -
  from assms have ne: "data \<noteq> []" by (auto simp: Parse_def)
  with assms obtain s where s: "findHeader spec data = Some s" by (cases "findHeader spec data") (auto simp: Parse_def)
  have fl: "frameLength spec s data \<noteq> Some (Inl n)" for n using assms ne s by (auto simp: Parse_def)
  then have fa: "frameLength spec s (data @ later) = frameLength spec s data"
    by (intro frameLength_append) (metis option.exhaust_sel sum.exhaust_sel)
  show ?thesis
  proof (cases "frameLength spec s data")
    case None
    with ne s fa show ?thesis by (simp add: Parse_def findHeader_append)
  next
    case (Some r)
    with fl obtain n where r: "frameLength spec s data = Some (Inr n)" by (cases r) auto
    with assms ne s have "wrap64 (s + n) \<le> int (length data)" by (rule_tac ccontr) (simp add: Parse_def Let_def)
    with ne s fa r show ?thesis by (simp add: Parse_def findHeader_append parseFrame_append Let_def)
  qed
qed

section \<open>Well-formed specifications\<close>

text \<open>
  Offsets are not negative, widths are those the comments of the program allow, and no length comes
  near the largest \<open>int\<close>.
\<close>

definition widthOk :: "int \<Rightarrow> bool" where
  "widthOk w = (w = 1 \<or> w = 2 \<or> w = 4)"

definition offsetOk :: "int \<Rightarrow> bool" where
  "offsetOk n = (0 \<le> n \<and> n < 2 ^ 40)"

definition specOk :: "frameSpec \<Rightarrow> bool" where
  "specOk spec \<longleftrightarrow> offsetOk (int (length (fspHeader spec))) \<and> offsetOk (fspMinFrameLen spec) \<and>
     (case fspLengthField spec of None \<Rightarrow> True | Some lf \<Rightarrow> offsetOk (lfOffset lf) \<and> widthOk (lfWidth lf)) \<and>
     (case fspChecksum spec of None \<Rightarrow> True | Some cs \<Rightarrow> offsetOk (ckOffset cs) \<and> widthOk (ckWidth cs)) \<and>
     (\<forall>f \<in> set (fspFields spec). offsetOk (fldOffset f) \<and> offsetOk (fldWidth f))"

lemma wrap64_small: "- (2 ^ 63) \<le> i \<Longrightarrow> i < 2 ^ 63 \<Longrightarrow> wrap64 i = i"
  by (simp add: wrap64_def)

lemma decode_step:
  assumes "uint (r :: u64) < 2 ^ n"
  shows "uint (push_bit 8 r OR ucast (b :: byte)) < 2 ^ (n + 8)"
proof -
  have "uint (push_bit 8 r) \<le> uint r * 2 ^ 8"
    by (subst unsigned_push_bit_eq) (simp add: push_bit_eq_mult take_bit_int_less_eq_self_iff)
  also have "\<dots> < 2 ^ (n + 8)" using assms by (simp add: power_add)
  finally have "uint (push_bit 8 r) < 2 ^ (n + 8)" .
  moreover have "uint (ucast b :: u64) < 2 ^ (n + 8)"
  proof -
    have "uint (ucast b :: u64) \<le> uint b" by (simp add: unsigned_ucast_eq take_bit_int_less_eq_self_iff)
    also have "\<dots> < 2 ^ 8" using uint_lt2p [of b] by simp
    also have "(2 :: int) ^ 8 \<le> 2 ^ (n + 8)" by (rule power_increasing) simp_all
    finally show ?thesis .
  qed
  ultimately show ?thesis by (simp add: unsigned_or_eq OR_upper)
qed

lemma decode_bound_aux:
  "uint r < 2 ^ n \<Longrightarrow> uint (foldl (\<lambda>r b. push_bit 8 r OR ucast (b :: byte)) (r :: u64) xs) < 2 ^ (n + 8 * length xs)"
proof (induction xs arbitrary: r n)
  case (Cons x xs)
  from Cons.IH [OF decode_step [OF Cons.prems]] show ?case by (simp add: algebra_simps)
qed simp

lemma decodeUint_bound: "uint (decodeUint data le) < 2 ^ (8 * length data)"
  using decode_bound_aux [of 0 0 data] decode_bound_aux [of 0 0 "rev data"] by (simp add: decodeUint_def)

lemma decode_small:
  assumes "length data \<le> 4"
  shows "0 \<le> sint (decodeUint data le)" "sint (decodeUint data le) < 2 ^ 32"
proof -
  have "(2 :: int) ^ (8 * length data) \<le> 2 ^ 32" using assms by (intro power_increasing) auto
  with decodeUint_bound [of data le] have "uint (decodeUint data le) < 2 ^ 32" by linarith
  then have "sint (decodeUint data le) = uint (decodeUint data le)"
    using order_trans [of "- (2 ^ 63)" 0 "uint (decodeUint data le)"]
    by (auto simp: sint_uint intro!: signed_take_bit_int_eq_self)
  with \<open>uint (decodeUint data le) < 2 ^ 32\<close>
  show "0 \<le> sint (decodeUint data le)" "sint (decodeUint data le) < 2 ^ 32" by simp_all
qed

lemma specOk_header: "specOk spec \<Longrightarrow> offsetOk (int (length (fspHeader spec))) \<and> offsetOk (fspMinFrameLen spec)"
  by (simp add: specOk_def)

lemma specOk_lengthField: "specOk spec \<Longrightarrow> fspLengthField spec = Some lf \<Longrightarrow> offsetOk (lfOffset lf) \<and> widthOk (lfWidth lf)"
  by (simp add: specOk_def)

lemma specOk_checksum: "specOk spec \<Longrightarrow> fspChecksum spec = Some cs \<Longrightarrow> offsetOk (ckOffset cs) \<and> widthOk (ckWidth cs)"
  by (simp add: specOk_def)

lemma widthOk_bounds: "widthOk w \<Longrightarrow> 0 < w \<and> w \<le> 4"
  by (auto simp: widthOk_def)

lemma fieldLength_safe:
  assumes "specOk spec" "fspLengthField spec = Some lf" "0 \<le> s"
  shows "\<exists>r. fieldLength spec lf s data = Some r \<and> (\<forall>n. r = Inr n \<longrightarrow> 0 \<le> n \<and> n < 2 ^ 41)"
proof (cases "int (length data) < s + lfOffset lf + lfWidth lf")
  case True
  then show ?thesis by (simp add: fieldLength_def)
next
  case False
  have lf: "0 \<le> lfOffset lf" "0 < lfWidth lf" "lfWidth lf \<le> 4" and hd: "int (length (fspHeader spec)) < 2 ^ 40"
    using specOk_lengthField [OF assms(1,2)] specOk_header [OF assms(1)] widthOk_bounds [of "lfWidth lf"]
    by (auto simp: offsetOk_def)
  then obtain b where b: "goSlice (s + lfOffset lf) (s + lfOffset lf + lfWidth lf) data = Some b"
    using assms(3) by (simp add: goSlice_def)
  with False goSlice_length [OF b] lf have "length b \<le> 4" by simp
  note d = decode_small [OF this, of "lfEndianness lf = ''le''"]
  have c: "0 < ckWidth cs \<and> ckWidth cs \<le> 4" if "fspChecksum spec = Some cs" for cs
    using specOk_checksum [OF assms(1) that] widthOk_bounds by blast
  show ?thesis using False b d hd
    by (auto simp: fieldLength_def Let_def wrap64_small dest!: c split: option.split)
qed

lemma frameLength_safe:
  assumes "specOk spec" "0 \<le> s"
  shows "\<exists>r. frameLength spec s data = Some r \<and> (\<forall>n. r = Inr n \<longrightarrow> 0 \<le> n \<and> n < 2 ^ 41)"
proof -
  have df: "0 \<le> defaultLength spec" "defaultLength spec < 2 ^ 41"
    using specOk_header [OF assms(1)] by (auto simp: defaultLength_def offsetOk_def)
  show ?thesis
  proof (cases "fspLengthField spec")
    case None
    with df show ?thesis by (auto simp: frameLength_def)
  next
    case (Some lf)
    obtain r where "fieldLength spec lf s data = Some r" "\<forall>n. r = Inr n \<longrightarrow> 0 \<le> n \<and> n < 2 ^ 41"
      using fieldLength_safe [OF assms(1) Some assms(2)] by blast
    with Some df show ?thesis by (cases r) (auto simp: frameLength_def)
  qed
qed

lemma checkChecksum_safe: "specOk spec \<Longrightarrow> checkChecksum spec frame \<noteq> None"
  by (auto simp: checkChecksum_def goSlice_Some offsetOk_def Let_def dest!: specOk_checksum widthOk_bounds split: option.split)

lemma extractFields_safe:
  "\<forall>f \<in> set fs. offsetOk (fldOffset f) \<and> offsetOk (fldWidth f) \<Longrightarrow>
    \<exists>vs. extractFields fs frame = Some vs \<and> (\<forall>v \<in> set vs. 0 \<le> pfOffset v \<and> 0 \<le> pfWidth v \<and> pfOffset v + pfWidth v \<le> int (length frame))"
proof (induction fs)
  case (Cons f fs)
  then show ?case by (auto simp: goSlice_Some offsetOk_def Let_def)
qed simp

lemma parseFrame_safe:
  assumes "specOk spec" "0 \<le> a" "a \<le> b" "b \<le> int (length data)"
  shows "\<exists>r. parseFrame spec a b data = Some r \<and> plConsumed r = b \<and> plNeedMore r = 0 \<and> (plOK r \<longleftrightarrow> plErrors r = [])
    \<and> (\<forall>v \<in> set (plFields r). pfOffset v + pfWidth v \<le> b - a)"
proof -
  obtain fr where fr: "goSlice a b data = Some fr" using assms by (simp add: goSlice_def)
  with assms have len: "int (length fr) = b - a" using goSlice_length by blast
  obtain c where c: "checkChecksum spec fr = Some c" using checkChecksum_safe [OF assms(1)] by blast
  obtain vs where vs: "extractFields (fspFields spec) fr = Some vs" "\<forall>v \<in> set vs. pfOffset v + pfWidth v \<le> int (length fr)"
    using extractFields_safe [of "fspFields spec" fr] assms(1) unfolding specOk_def by blast
  show ?thesis using fr len c vs by (cases c) (auto simp: parseFrame_def)
qed

lemma parse_sane:
  assumes "specOk spec" "int (length data) < 2 ^ 40"
  shows "(\<exists>n. 0 < n \<and> Parse spec data = Some (needMore n)) \<or>
    (\<exists>r. Parse spec data = Some r \<and> plNeedMore r = 0 \<and> (plOK r \<longleftrightarrow> plErrors r = []) \<and> 0 \<le> plConsumed r
       \<and> plConsumed r \<le> int (length data) \<and> (\<forall>v \<in> set (plFields r). pfOffset v + pfWidth v \<le> plConsumed r))"
proof (cases "findHeader spec data")
  case None
  then show ?thesis by (auto simp: Parse_def findHeader_def split: if_splits)
next
  case (Some s)
  have s: "0 \<le> s" "s \<le> int (length data)" using findHeader_bounds [OF Some] by auto
  obtain r where r: "frameLength spec s data = Some r" "\<forall>n. r = Inr n \<longrightarrow> 0 \<le> n \<and> n < 2 ^ 41"
    using frameLength_safe [OF assms(1) s(1)] by blast
  show ?thesis
  proof (cases r)
    case (Inl n)
    then have "0 < n" using r(1) by (auto simp: frameLength_def fieldLength_def Let_def split: option.splits if_splits)
    with r(1) Inl Some show ?thesis by (cases "data = []") (auto simp: Parse_def)
  next
    case (Inr n)
    with r(2) s assms(2) have w: "wrap64 (s + n) = s + n" "s \<le> s + n" by (auto simp: wrap64_small)
    show ?thesis
    proof (cases "data = [] \<or> int (length data) < s + n")
      case True
      then show ?thesis using Some r(1) Inr w by (auto simp: Parse_def)
    next
      case False
      then obtain x where x: "parseFrame spec s (s + n) data = Some x" "plConsumed x = s + n" "plNeedMore x = 0"
        "plOK x \<longleftrightarrow> plErrors x = []" "\<forall>v \<in> set (plFields x). pfOffset v + pfWidth v \<le> n"
        using parseFrame_safe [OF assms(1) s(1) w(2), of data] by auto
      then show ?thesis using False Some r(1) Inr w s by (intro disjI2 exI [of _ x]) (auto simp: Parse_def)
    qed
  qed
qed

section \<open>Checksums\<close>

text \<open>With an odd polynomial a step of the division loses nothing, since the lowest bit then tells what was shifted out.\<close>

lemma bit_polyShift: "bit (polyShift poly crc) n \<longleftrightarrow>
    (0 < n \<and> n < LENGTH('a) \<and> bit crc (n - 1)) \<noteq> (bit crc (LENGTH('a) - 1) \<and> bit poly n)"
  for poly crc :: "'a::len word"
proof -
  have "bit (push_bit 1 crc) n \<longleftrightarrow> 0 < n \<and> n < LENGTH('a) \<and> bit crc (n - 1)"
    by (auto simp only: bit_push_bit_iff possible_bit_word)
  then show ?thesis by (simp only: polyShift_def bit_xor_iff split: if_splits) blast
qed

lemma polyShift_inj:
  fixes poly :: "'a::len word"
  assumes "odd poly" "polyShift poly a = polyShift poly b"
  shows "a = b"
proof (rule bit_word_eqI)
  fix n assume n: "n < LENGTH('a)"
  have e: "bit (polyShift poly a) i = bit (polyShift poly b) i" for i using assms(2) by simp
  have top: "bit a (LENGTH('a) - 1) \<longleftrightarrow> bit b (LENGTH('a) - 1)"
    using e [of 0, unfolded bit_polyShift] assms(1) by (simp add: bit_0)
  show "bit a n \<longleftrightarrow> bit b n"
  proof (cases "n = LENGTH('a) - 1")
    case False
    with n have "Suc n < LENGTH('a)" by simp
    with e [of "Suc n"] top show ?thesis by (auto simp: bit_polyShift)
  qed (use top in simp)
qed

lemma polyByte_inj:
  assumes "odd poly" "polyByte poly a x = polyByte poly b x"
  shows "a = b"
proof -
  have "inj (polyShift poly)" using polyShift_inj [OF assms(1)] by (rule injI)
  then have "inj ((polyShift poly) ^^ 8)" by (rule inj_fn)
  with assms(2) show ?thesis by (simp add: polyByte_def inj_eq)
qed

lemma polyByte_byte_inj:
  fixes poly :: "'a::len word"
  assumes "odd poly" "8 \<le> LENGTH('a)" "polyByte poly a x = polyByte poly a y"
  shows "x = y"
proof -
  have "inj (polyShift poly)" using polyShift_inj [OF assms(1)] by (rule injI)
  then have "inj ((polyShift poly) ^^ 8)" by (rule inj_fn)
  with assms(3) have e: "(ucast x :: 'a word) = ucast y" by (simp add: polyByte_def inj_eq)
  show ?thesis
  proof (rule bit_word_eqI)
    fix n assume n: "n < LENGTH(8)"
    from e have "bit (ucast x :: 'a word) n = bit (ucast y :: 'a word) n" by simp
    with n assms(2) show "bit x n = bit y n" by (simp add: bit_simps)
  qed
qed

lemma crc_fold_inj: "odd poly \<Longrightarrow> foldl (polyByte poly) a xs = foldl (polyByte poly) b xs \<Longrightarrow> a = b"
  by (induction xs arbitrary: a b) (auto dest: polyByte_inj)

lemma crc_single_byte:
  fixes poly :: "'a::len word"
  assumes "odd poly" "8 \<le> LENGTH('a)" "x \<noteq> y"
  shows "foldl (polyByte poly) start (xs @ x # ys) \<noteq> foldl (polyByte poly) start (xs @ y # ys)"
proof
  assume "foldl (polyByte poly) start (xs @ x # ys) = foldl (polyByte poly) start (xs @ y # ys)"
  then have "polyByte poly (foldl (polyByte poly) start xs) x = polyByte poly (foldl (polyByte poly) start xs) y"
    using crc_fold_inj [OF assms(1)] by simp
  from polyByte_byte_inj [OF assms(1,2) this] assms(3) show False by simp
qed

lemma ucast_inj_up: "LENGTH('a) \<le> LENGTH('b) \<Longrightarrow> (ucast (x :: 'a::len word) :: 'b::len word) = ucast y \<longleftrightarrow> x = y"
  by (metis ucast_up_ucast_id is_up)

lemma visualChecksum_single_byte:
  assumes "ckType spec = ''crc8'' \<or> ckType spec = ''crc16'' \<or> ckType spec = ''crc32''" "odd (ckPoly spec)" "x \<noteq> y"
  shows "visualChecksum (xs @ x # ys) spec \<noteq> visualChecksum (xs @ y # ys) spec"
proof -
  have o8: "odd (ucast (ckPoly spec) :: byte)" and o16: "odd (ucast (ckPoly spec) :: u16)"
    using assms(2) by (simp_all add: bit_simps flip: bit_0)
  show ?thesis
    using assms crc_single_byte [OF o8, of x y "ucast (ckInit spec)" xs ys] crc_single_byte [OF o16, of x y "ucast (ckInit spec)" xs ys]
      crc_single_byte [OF assms(2), of x y "ckInit spec" xs ys]
    by (auto simp: visualChecksum_def crc8_def crc16_def crc32_def ucast_inj_up)
qed

section \<open>The template for Modbus RTU\<close>

text \<open>Its checksum is at offset -2, which \<open>Parse\<close> does not count from the end: every whole frame makes it panic.\<close>

lemma rtu_template_panics: "4 \<le> length data \<Longrightarrow> Parse rtuSpec data = None"
  by (auto simp: Parse_def rtuSpec_def findHeader_def frameLength_def defaultLength_def wrap64_def parseFrame_def goSlice_def
      checkChecksum_def)

lemma rtu_template_waits: "length data < 4 \<Longrightarrow> data \<noteq> [] \<Longrightarrow> Parse rtuSpec data = Some (needMore (4 - int (length data)))"
  by (auto simp: Parse_def rtuSpec_def findHeader_def frameLength_def defaultLength_def wrap64_def)

lemma aa55_specOk: "specOk aa55Spec"
  by (simp add: specOk_def aa55Spec_def offsetOk_def widthOk_def)

section \<open>Properties\<close>




text \<open>A frame whose CRC the parser accepts is rejected when one of the bytes the checksum covers is
  changed, for every polynomial with its lowest bit set, as the usual ones have it.\<close>

theorem crc_detects_change:
  assumes "fspChecksum spec = Some cs" "ckType cs = ''crc8'' \<or> ckType cs = ''crc16'' \<or> ckType cs = ''crc32''" "odd (ckPoly cs)"
    and "0 < ckWidth cs" "ckOffset cs + ckWidth cs \<le> int (length frame)" "checkChecksum spec frame = Some None"
    and "int i < ckOffset cs" "b \<noteq> frame ! i"
  shows "\<exists>expected actual. checkChecksum spec (frame[i := b]) = Some (Some (ChecksumMismatch expected actual))"
proof -
  define n where "n = nat (ckOffset cs)"
  have n: "i < n" "n \<le> length frame" "ckOffset cs = int n" using assms by (auto simp: n_def)
  have cov: "goSlice 0 (int n) (frame[i := b]) = Some ((take n frame)[i := b])" "goSlice 0 (int n) frame = Some (take n frame)"
    by (simp_all add: goSlice_Some take_update_swap)
  have sto: "goSlice (int n) (int n + ckWidth cs) (frame[i := b]) = goSlice (int n) (int n + ckWidth cs) frame"
    using n by (simp add: goSlice_def)
  obtain st where st: "goSlice (int n) (int n + ckWidth cs) frame = Some st" using assms(4) by (simp add: goSlice_def)
  have ne: "visualChecksum ((take n frame)[i := b]) cs \<noteq> visualChecksum (take n frame) cs"
  proof -
    have i: "i < length (take n frame)" using n by simp
    define xs ys where "xs = take i (take n frame)" and "ys = drop (Suc i) (take n frame)"
    have "take n frame = xs @ frame ! i # ys" using id_take_nth_drop [OF i] n by (simp add: xs_def ys_def)
    moreover have "(take n frame)[i := b] = xs @ b # ys" using upd_conv_take_nth_drop [OF i] by (simp add: xs_def ys_def)
    ultimately show ?thesis using visualChecksum_single_byte [OF assms(2,3,8)] by simp
  qed
  show ?thesis using assms(1,4,5,6) n cov sto st ne by (auto simp: checkChecksum_def Let_def split: if_splits)
qed

definition crc8Spec :: frameSpec where
  "crc8Spec = \<lparr>fspName = ''crc'', fspHeader = [], fspFooter = [], fspLengthField = None,
     fspChecksum = Some \<lparr>ckType = ''crc8'', ckOffset = 1, ckWidth = 1, ckPoly = 7, ckInit = 0, ckXorOut = 0\<rparr>,
     fspFields = [], fspMaxFrameLen = 0, fspMinFrameLen = 2\<rparr>"

lemma crc8_example: "polyByte (7 :: byte) 0 1 = 7"
  by code_simp

lemma crc8Spec_accepts: "checkChecksum crc8Spec [1, 7] = Some None"
  using crc8_example by (simp add: crc8Spec_def checkChecksum_def goSlice_def decodeUint_def visualChecksum_def crc8_def Let_def)

theorem crc_detects_change_witness: "\<exists>e. checkChecksum crc8Spec ([1, 7][0 := 3]) = Some (Some e)"
  using crc_detects_change [OF _ _ _ _ _ crc8Spec_accepts, of _ 0 3] by (simp add: crc8Spec_def) metis

end
