(* ===== verification/GoErrors.thy ===== *)
theory GoErrors
  imports ModuleRegistry
begin

text \<open>
  The codes and the short forms of \<open>errors.New\<close> and \<open>errors.Wrap\<close> (\<open>internal/core/errors/errors.go\<close>) that the
  back ends and the files use. Their codes and messages are never empty, so they do not panic.
\<close>

definition CodeIO :: string where "CodeIO = ''io''"
definition CodePlatform :: string where "CodePlatform = ''platform''"

definition newError :: "string \<Rightarrow> string \<Rightarrow> goError" where
  "newError code message = CoreError code message None []"

definition wrapError :: "string \<Rightarrow> string \<Rightarrow> string \<Rightarrow> goError" where
  "wrapError code message cause = CoreError code message (Some (Opaque cause)) []"

definition invalid :: "string \<Rightarrow> goError" where
  "invalid message = newError CodeInvalid message"

end
