(* ===== verification/VirtualBackends.thy ===== *)
theory VirtualBackends
  imports VirtualSerial GoStrings GoErrors
begin

text \<open>
  The back ends that make virtual ports (\<open>internal/modules/serial/virtualserial/backend_windows.go\<close> and
  \<open>backend_socat.go\<close>). The setup program of com0com answers a command as an arbitrary function of all the
  commands it was given so far; the commands are part of every result. Files and processes of the socat back
  end are a list of operations of the system with the outcomes as arguments. The text of \<open>setupc\<close> is ASCII.
  The search for \<open>setupc.exe\<close> is an outcome as well.
\<close>

section \<open>Strings\<close>

text \<open>\<open>strings.Split\<close> by one character, \<open>strings.Cut\<close> at the first one, and \<open>strings.Fields\<close>\<close>

fun split_on :: "'a \<Rightarrow> 'a list \<Rightarrow> 'a list list" where
  "split_on c [] = [[]]"
| "split_on c (x # xs) = (if x = c then [] # split_on c xs
     else case split_on c xs of [] \<Rightarrow> [[x]] | y # ys \<Rightarrow> (x # y) # ys)"

fun cut_at :: "'a \<Rightarrow> 'a list \<Rightarrow> ('a list \<times> 'a list) option" where
  "cut_at c [] = None"
| "cut_at c (x # xs) = (if x = c then Some ([], xs) else map_option (\<lambda>(before, rest). (x # before, rest)) (cut_at c xs))"

function fields_of :: "string \<Rightarrow> string \<Rightarrow> string list" where
  "fields_of word s =
     (if s = [] then (if word = [] then [] else [word])
      else if leading_space s = 0 then fields_of (word @ [hd s]) (tl s)
      else (if word = [] then [] else [word]) @ fields_of [] (drop (leading_space s) s))"
  by pat_completeness auto
termination by (relation "measure (length \<circ> snd)") auto

declare fields_of.simps [simp del]

section \<open>Names of Windows ports\<close>

definition isWindowsCOMName :: "string \<Rightarrow> bool" where
  "isWindowsCOMName name = (case name of
       a # b # c # d # ds \<Rightarrow> [a, b, c] = ''COM'' \<and> is_digit d \<and> d \<noteq> CHR ''0'' \<and> list_all is_digit ds
     | _ \<Rightarrow> False)"

definition devicePrefix :: string where
  "devicePrefix = [CHR 0x5C, CHR 0x5C, CHR ''.'', CHR 0x5C]"

definition normalizeWindowsPortName :: "string \<Rightarrow> goError + string" where
  "normalizeWindowsPortName name =
     (let trimmed = trim_space name in
      if trimmed = [] then Inl (invalid ''port name must not be empty'')
      else let upper = to_upper trimmed;
               upper = (if has_prefix upper devicePrefix then drop (length devicePrefix) upper else upper) in
        if \<not> isWindowsCOMName upper then Inl (invalid ''Windows virtual serial ports must use COM<number> names'')
        else Inr upper)"

record windowsPortSpec =
  wpArg :: string
  wpExact :: string

definition windowsVisiblePortSpec :: "string \<Rightarrow> goError + windowsPortSpec" where
  "windowsVisiblePortSpec name = (case normalizeWindowsPortName name of
       Inr exact \<Rightarrow> Inr \<lparr>wpArg = ''PortName='' @ exact, wpExact = exact\<rparr>
     | Inl err \<Rightarrow>
         if AsCode (Some err) \<noteq> CodeInvalid then Inl err
         else if trim_space name = [] then Inl err
         else Inr \<lparr>wpArg = ''PortName=COM#'', wpExact = []\<rparr>)"

definition windowsPortMatches :: "string \<Rightarrow> windowsPortSpec \<Rightarrow> bool" where
  "windowsPortMatches actual spec =
     (let upper = to_upper (trim_space actual) in
      if wpExact spec \<noteq> [] then equal_fold upper (wpExact spec) else isWindowsCOMName upper)"

section \<open>The setup program\<close>

text \<open>What a run of \<open>setupc\<close> ends with: its output, the error of the process, and the error of the context\<close>

record setupRun =
  srOutput :: string
  srError :: "string option"
  srContext :: "string option"

type_synonym command = "string list"
type_synonym setupc = "command list \<Rightarrow> setupRun"

definition runSetupc :: "setupc \<Rightarrow> command \<Rightarrow> command list \<Rightarrow> command list \<times> (string + string)" where
  "runSetupc setupc args history =
     (let history = history @ [args]; run = setupc history; text = trim_space (srOutput run) in
      (history, case srContext run of
          Some e \<Rightarrow> Inl e
        | None \<Rightarrow> (case srError run of
              Some e \<Rightarrow> Inl (if text = [] then e else e @ '': '' @ text)
            | None \<Rightarrow> Inr text)))"

definition classifyCom0comError :: "string \<Rightarrow> string \<Rightarrow> goError" where
  "classifyCom0comError action err =
     (let message = to_lower err in
      if contains message ''access is denied'' \<or> contains message ''elevat'' \<or> contains message ''administrator''
      then (wrapError CodePlatform (action @ '' requires administrator privileges'') err)
      else if contains message ''already'' \<or> contains message ''exist'' \<or> contains message ''in use''
      then (wrapError CodeConflict (action @ '' failed because a COM name is already in use'') err)
      else (wrapError CodeIO (action) err))"

record com0comListPair =
  cpNumber :: string
  cpPortA :: string
  cpPortB :: string

text \<open>The port name and the real port name, after the tokens of one field\<close>

definition readToken :: "string \<times> string \<Rightarrow> string \<Rightarrow> string \<times> string" where
  "readToken = (\<lambda>(portName, realPortName) token. case cut_at (CHR ''='') token of
       None \<Rightarrow> (portName, realPortName)
     | Some (key, val) \<Rightarrow>
         if val = [] then (portName, realPortName)
         else if equal_fold key ''RealPortName'' then (portName, to_upper val)
         else if equal_fold key ''PortName'' \<and> val \<noteq> ''-'' then (to_upper val, realPortName)
         else (portName, realPortName))"

definition readTokens :: "string \<Rightarrow> string list \<Rightarrow> string" where
  "readTokens device flds =
     (case foldl readToken (device, []) (concat (map (split_on (CHR '','')) flds)) of
        (portName, realPortName) \<Rightarrow> if realPortName \<noteq> [] then realPortName else portName)"

type_synonym list_state = "(string \<Rightarrow> string option) \<times> com0comListPair list"

definition parseLine :: "list_state \<Rightarrow> string \<Rightarrow> list_state" where
  "parseLine = (\<lambda>(pending, pairs) line. case fields_of [] (trim_space line) of
       [] \<Rightarrow> (pending, pairs)
     | first # flds \<Rightarrow>
         let device = to_upper first in
         if \<not> has_prefix device ''CNCA'' \<and> \<not> has_prefix device ''CNCB'' then (pending, pairs)
         else let number = drop 4 device;
                  portName = readTokens device flds;
                  pending = (if has_prefix device ''CNCA'' then pending(''A'' @ number \<mapsto> portName)
                             else pending(''B'' @ number \<mapsto> portName)) in
           (pending, case (pending (''A'' @ number), pending (''B'' @ number)) of
               (Some a, Some b) \<Rightarrow> pairs @ [\<lparr>cpNumber = number, cpPortA = a, cpPortB = b\<rparr>]
             | _ \<Rightarrow> pairs))"

definition parseCom0comList :: "string \<Rightarrow> com0comListPair list" where
  "parseCom0comList output = snd (foldl parseLine (Map.empty, []) (split_on (CHR 0x0A) output))"

definition listCom0comPairs :: "setupc \<Rightarrow> command list \<Rightarrow> command list \<times> (goError + com0comListPair list)" where
  "listCom0comPairs setupc history = (case runSetupc setupc [''list''] history of
       (history, Inl err) \<Rightarrow> (history, Inl (classifyCom0comError ''list com0com pairs'' err))
     | (history, Inr output) \<Rightarrow> (history, Inr (parseCom0comList output)))"

definition com0comPairNumbers :: "com0comListPair list \<Rightarrow> string set" where
  "com0comPairNumbers pairs = set (map cpNumber pairs)"

definition findNewCom0comPair :: "setupc \<Rightarrow> com0comListPair list \<Rightarrow> windowsPortSpec \<Rightarrow> windowsPortSpec \<Rightarrow> command list \<Rightarrow>
    command list \<times> (goError + com0comListPair)" where
  "findNewCom0comPair setupc before wantA wantB history = (case listCom0comPairs setupc history of
       (history, Inl err) \<Rightarrow> (history, Inl err)
     | (history, Inr pairs) \<Rightarrow> (history,
         case find (\<lambda>p. cpNumber p \<notin> com0comPairNumbers before
             \<and> windowsPortMatches (cpPortA p) wantA \<and> windowsPortMatches (cpPortB p) wantB) pairs of
           Some p \<Rightarrow> Inr p
         | None \<Rightarrow> Inl (newError CodeIO ''created com0com pair was not found in setupc list output'')))"

definition publicMatches :: "windowsPortSpec \<Rightarrow> com0comListPair \<Rightarrow> bool" where
  "publicMatches publicPort p \<longleftrightarrow> windowsPortMatches (cpPortA p) publicPort \<and> cpPortB p \<noteq> [] \<or>
     windowsPortMatches (cpPortB p) publicPort \<and> cpPortA p \<noteq> []"

definition findNewCom0comPairWithPublic :: "setupc \<Rightarrow> com0comListPair list \<Rightarrow> windowsPortSpec \<Rightarrow> command list \<Rightarrow>
    command list \<times> (goError + com0comListPair \<times> bool)" where
  "findNewCom0comPairWithPublic setupc before publicPort history = (case listCom0comPairs setupc history of
       (history, Inl err) \<Rightarrow> (history, Inl err)
     | (history, Inr pairs) \<Rightarrow> (history,
         case find (\<lambda>p. cpNumber p \<notin> com0comPairNumbers before \<and> publicMatches publicPort p) pairs of
           Some p \<Rightarrow> Inr (p, windowsPortMatches (cpPortA p) publicPort \<and> cpPortB p \<noteq> [])
         | None \<Rightarrow> Inl (newError CodeIO ''created com0com port was not found in setupc list output'')))"

definition removeCom0comPair :: "setupc \<Rightarrow> string \<Rightarrow> string \<Rightarrow> command list \<Rightarrow> command list \<times> goError option" where
  "removeCom0comPair setupc path number history =
     (if path = [] \<or> number = [] then (history, None)
      else case runSetupc setupc [''remove'', number] history of
          (history, Inl err) \<Rightarrow> (history, Some (classifyCom0comError ''remove com0com pair'' err))
        | (history, Inr _) \<Rightarrow> (history, None))"

fun removeEach :: "setupc \<Rightarrow> string \<Rightarrow> com0comListPair list \<Rightarrow> command list \<Rightarrow> command list" where
  "removeEach setupc path [] history = history"
| "removeEach setupc path (p # ps) history = removeEach setupc path ps (fst (removeCom0comPair setupc path (cpNumber p) history))"

definition cleanupMatchingNewCom0comPairs :: "setupc \<Rightarrow> string \<Rightarrow> com0comListPair list \<Rightarrow> (com0comListPair \<Rightarrow> bool) \<Rightarrow>
    command list \<Rightarrow> command list" where
  "cleanupMatchingNewCom0comPairs setupc path before matches history = (case listCom0comPairs setupc history of
       (history, Inl _) \<Rightarrow> history
     | (history, Inr pairs) \<Rightarrow>
         removeEach setupc path (filter (\<lambda>p. \<not> (cpNumber p \<in> com0comPairNumbers before \<or> \<not> matches p)) pairs) history)"

record com0comPairHandle =
  chSetupc :: string
  chNumber :: string

definition com0comStop :: "setupc \<Rightarrow> com0comPairHandle \<Rightarrow> command list \<Rightarrow> command list \<times> goError option" where
  "com0comStop setupc h history = removeCom0comPair setupc (chSetupc h) (chNumber h) history"

section \<open>Making pairs and ports with com0com\<close>

text \<open>
  \<open>found\<close> is what the search for \<open>setupc.exe\<close> answers. An error of the lookup, of a name or of the first
  listing ends the call before anything is installed.
\<close>

definition notFound :: "string \<Rightarrow> goError" where
  "notFound e = (wrapError CodePlatform (''com0com setupc.exe not found'') e)"

definition com0comCreatePair :: "setupc \<Rightarrow> string + string \<Rightarrow> string \<Rightarrow> string \<Rightarrow> string \<Rightarrow> command list \<Rightarrow>
    command list \<times> (goError + virtualPair \<times> com0comPairHandle)" where
  "com0comCreatePair setupc found pairID port1Name port2Name history = (case found of
       Inl e \<Rightarrow> (history, Inl (notFound e))
     | Inr path \<Rightarrow> (case (windowsVisiblePortSpec port1Name, windowsVisiblePortSpec port2Name) of
           (Inl e, _) \<Rightarrow> (history, Inl e)
         | (_, Inl e) \<Rightarrow> (history, Inl e)
         | (Inr port1, Inr port2) \<Rightarrow> (case listCom0comPairs setupc history of
               (history, Inl e) \<Rightarrow> (history, Inl e)
             | (history, Inr before) \<Rightarrow> (case runSetupc setupc [''install'', wpArg port1, wpArg port2] history of
                   (history, Inl e) \<Rightarrow> (history, Inl (classifyCom0comError ''create com0com pair'' e))
                 | (history, Inr _) \<Rightarrow> (case findNewCom0comPair setupc before port1 port2 history of
                       (history, Inl e) \<Rightarrow>
                         (cleanupMatchingNewCom0comPairs setupc path before (\<lambda>p. wpExact port1 \<noteq> [] \<and> wpExact port2 \<noteq> []
                            \<and> windowsPortMatches (cpPortA p) port1 \<and> windowsPortMatches (cpPortB p) port2) history, Inl e)
                     | (history, Inr p) \<Rightarrow> (history, Inr (newVirtualPair pairID (to_upper (cpPortA p)) (to_upper (cpPortB p)),
                         \<lparr>chSetupc = path, chNumber = cpNumber p\<rparr>)))))))"

definition com0comCreatePort :: "setupc \<Rightarrow> string + string \<Rightarrow> string \<Rightarrow> string \<Rightarrow> command list \<Rightarrow>
    command list \<times> (goError + virtualPair \<times> com0comPairHandle)" where
  "com0comCreatePort setupc found portID publicName history = (case found of
       Inl e \<Rightarrow> (history, Inl (notFound e))
     | Inr path \<Rightarrow> (case windowsVisiblePortSpec publicName of
           Inl e \<Rightarrow> (history, Inl e)
         | Inr publicPort \<Rightarrow> (case listCom0comPairs setupc history of
               (history, Inl e) \<Rightarrow> (history, Inl e)
             | (history, Inr before) \<Rightarrow> (case runSetupc setupc [''install'', wpArg publicPort, ''-''] history of
                   (history, Inl e) \<Rightarrow> (history, Inl (classifyCom0comError ''create com0com port'' e))
                 | (history, Inr _) \<Rightarrow> (case findNewCom0comPairWithPublic setupc before publicPort history of
                       (history, Inl e) \<Rightarrow>
                         (cleanupMatchingNewCom0comPairs setupc path before
                            (\<lambda>p. wpExact publicPort \<noteq> [] \<and> publicMatches publicPort p) history, Inl e)
                     | (history, Inr (p, publicOnA)) \<Rightarrow>
                         let a = to_upper (cpPortA p); b = to_upper (cpPortB p) in
                         (history, Inr (if publicOnA then newVirtualPair portID a b else newVirtualPair portID b a,
                            \<lparr>chSetupc = path, chNumber = cpNumber p\<rparr>)))))))"

record backendStatus =
  bsName :: string
  bsAvailable :: bool
  bsMessage :: string
  bsReason :: string
  bsRequiresAdmin :: bool

definition com0comStatus :: "setupc \<Rightarrow> string + string \<Rightarrow> command list \<Rightarrow> command list \<times> backendStatus" where
  "com0comStatus setupc found history = (case found of
       Inl e \<Rightarrow> (history, \<lparr>bsName = ''com0com'', bsAvailable = False, bsMessage = ''com0com setupc.exe was not found'',
          bsReason = e, bsRequiresAdmin = True\<rparr>)
     | Inr path \<Rightarrow> (case runSetupc setupc [''list''] history of
           (history, Inl e) \<Rightarrow> (history, \<lparr>bsName = ''com0com'', bsAvailable = False,
              bsMessage = ''com0com setupc.exe is present but the backend is not ready'', bsReason = e, bsRequiresAdmin = True\<rparr>)
         | (history, Inr _) \<Rightarrow> (history, \<lparr>bsName = ''com0com'', bsAvailable = True,
              bsMessage = ''com0com virtual serial backend is available'', bsReason = path, bsRequiresAdmin = True\<rparr>)))"

section \<open>Making pairs with socat\<close>

text \<open>Operations of the system, in the order they are made\<close>

datatype system_op = MakeDir string | StartSocat string string | KillProcess | WaitProcess | RemovePath string

definition endpointChar :: "char \<Rightarrow> bool" where
  "endpointChar r = (ascii_lower r \<or> ascii_upper r \<or> is_digit r \<or> r = CHR ''_'' \<or> r = CHR ''-'' \<or> r = CHR ''.'')"

text \<open>\<open>filepath.Clean\<close> leaves a name that is not empty and has no separator as it is.\<close>

definition socatEndpointName :: "string \<Rightarrow> goError + string" where
  "socatEndpointName name =
     (let trimmed = trim_space name in
      if trimmed = [] then Inl (invalid ''virtual serial endpoint name must not be empty'')
      else if has_prefix trimmed ''/'' then Inl (invalid ''virtual serial endpoint name must be relative'')
      else if contains trimmed ''..'' then Inl (invalid (''virtual serial endpoint name must not contain '' @ [CHR 0x27] @ ''..'' @ [CHR 0x27]))
      else if list_ex (\<lambda>c. c = CHR ''/'' \<or> c = CHR 0x5C) trimmed
      then Inl (invalid ''virtual serial endpoint name must not contain path separators'')
      else if trimmed = ''.'' then Inl (invalid ''virtual serial endpoint name must be a simple file name'')
      else if \<not> list_all endpointChar trimmed
      then Inl (invalid ''virtual serial endpoint name contains unsupported characters'')
      else Inr trimmed)"

definition joinPath :: "string \<Rightarrow> string \<Rightarrow> string" where
  "joinPath dir name = dir @ ''/'' @ name"

definition socatEndpointPaths :: "string + string \<Rightarrow> string \<Rightarrow> string \<Rightarrow> system_op list \<times> (goError + string \<times> string \<times> string)" where
  "socatEndpointPaths tempDir port1Name port2Name = (case (socatEndpointName port1Name, socatEndpointName port2Name) of
       (Inl e, _) \<Rightarrow> ([], Inl e)
     | (_, Inl e) \<Rightarrow> ([], Inl e)
     | (Inr port1Base, Inr port2Base) \<Rightarrow>
         if port1Base = port2Base then ([], Inl (invalid ''virtual serial endpoint names must be distinct''))
         else case tempDir of
             Inl e \<Rightarrow> ([], Inl (wrapError CodeIO (''create virtual serial temp directory'') e))
           | Inr dir \<Rightarrow> ([MakeDir dir], Inr (joinPath dir port1Base, joinPath dir port2Base, dir)))"

record socatPairHandle =
  shPaths :: "string list"
  shDir :: string

text \<open>
  \<open>CreatePair\<close>: the error of the context, what making the directory and starting socat answer, and for each
  poll before the deadline whether both links exist.
\<close>

definition socatCreatePair :: "string option \<Rightarrow> string + string \<Rightarrow> string option \<Rightarrow> (bool \<times> bool) list \<Rightarrow>
    string \<Rightarrow> string \<Rightarrow> string \<Rightarrow> system_op list \<times> (goError + virtualPair \<times> socatPairHandle)" where
  "socatCreatePair ctxErr tempDir started polls pairID port1Name port2Name = (case ctxErr of
       Some e \<Rightarrow> ([], Inl (wrapError CodeIO (''create virtual serial pair'') e))
     | None \<Rightarrow> (case socatEndpointPaths tempDir port1Name port2Name of
           (ops, Inl e) \<Rightarrow> (ops, Inl e)
         | (ops, Inr (p1, p2, dir)) \<Rightarrow> (case started of
               Some e \<Rightarrow> (ops @ [RemovePath p1, RemovePath p2, RemovePath dir],
                  Inl (wrapError CodeIO (''start socat'') e))
             | None \<Rightarrow>
                 if list_ex (\<lambda>(a, b). a \<and> b) polls
                 then (ops @ [StartSocat p1 p2], Inr (newVirtualPair pairID p1 p2, \<lparr>shPaths = [p1, p2], shDir = dir\<rparr>))
                 else (ops @ [StartSocat p1 p2, KillProcess, WaitProcess, RemovePath p1, RemovePath p2, RemovePath dir],
                   Inl (newError CodeIO ''timeout waiting for socat symlinks'')))))"

definition socatCreatePort :: "string option \<Rightarrow> string + string \<Rightarrow> string option \<Rightarrow> (bool \<times> bool) list \<Rightarrow>
    string \<Rightarrow> string \<Rightarrow> system_op list \<times> (goError + virtualPair \<times> socatPairHandle)" where
  "socatCreatePort ctxErr tempDir started polls portID publicName =
     socatCreatePair ctxErr tempDir started polls portID publicName (publicName @ ''-peer'')"

definition socatStop :: "socatPairHandle \<Rightarrow> system_op list" where
  "socatStop h = [KillProcess, WaitProcess] @ map RemovePath (shPaths h) @ (if shDir h \<noteq> [] then [RemovePath (shDir h)] else [])"

end
