(* ===== verification/VirtualBackendFacts.thy ===== *)
theory VirtualBackendFacts
  imports VirtualBackends
begin

text \<open>
  What the back ends of virtual ports promise, whatever the setup program of com0com answers: a pair they
  return is new, they never remove a pair that was there before, and the listing of the setup program is read
  back. The socat back end only touches its own directory, and leaves nothing behind.
\<close>

section \<open>The commands given to the setup program\<close>

lemma runSetupc_history [simp]: "fst (runSetupc setupc args h) = h @ [args]"
  by (simp add: runSetupc_def Let_def)

lemma runSetupc_eq: "runSetupc setupc args h = (h', r) \<Longrightarrow> h' = h @ [args]"
  by (metis fst_conv runSetupc_history)

lemma listCom0comPairs_eq: "listCom0comPairs setupc h = (h', r) \<Longrightarrow> h' = h @ [[''list'']]"
  by (auto simp: listCom0comPairs_def split: prod.splits sum.splits dest: runSetupc_eq)

lemma removeCom0comPair_history:
  "fst (removeCom0comPair setupc path n h) = h \<or> fst (removeCom0comPair setupc path n h) = h @ [[''remove'', n]]"
  by (auto simp: removeCom0comPair_def split: prod.splits sum.splits dest: runSetupc_eq)

lemma removeEach_history:
  "\<exists>ns. removeEach setupc path ps h = h @ map (\<lambda>n. [''remove'', n]) ns \<and> set ns \<subseteq> cpNumber ` set ps"
proof (induction ps arbitrary: h)
  case (Cons p ps)
  obtain ns where ns: "removeEach setupc path (p # ps) h =
      fst (removeCom0comPair setupc path (cpNumber p) h) @ map (\<lambda>n. [''remove'', n]) ns" "set ns \<subseteq> cpNumber ` set ps"
    using Cons.IH [of "fst (removeCom0comPair setupc path (cpNumber p) h)"] by auto
  then show ?case
    using removeCom0comPair_history [of setupc path "cpNumber p" h]
    by (elim disjE; intro exI [of _ ns] exI [of _ "cpNumber p # ns"]) auto
qed (auto intro: exI [of _ "[]"])

text \<open>Everything that is removed was not in the listing taken first.\<close>

lemma cleanup_history:
  assumes "cleanupMatchingNewCom0comPairs setupc path before matches h = h'"
  shows "\<exists>ns. h' = h @ [[''list'']] @ map (\<lambda>n. [''remove'', n]) ns \<and> set ns \<inter> com0comPairNumbers before = {}"
proof (cases "listCom0comPairs setupc h")
  case (Pair h1 r)
  then have h1: "h1 = h @ [[''list'']]" by (rule listCom0comPairs_eq)
  show ?thesis
  proof (cases r)
    case Inl
    with Pair assms h1 show ?thesis by (auto simp: cleanupMatchingNewCom0comPairs_def intro: exI [of _ "[]"])
  next
    case (Inr pairs)
    let ?ps = "filter (\<lambda>p. \<not> (cpNumber p \<in> com0comPairNumbers before \<or> \<not> matches p)) pairs"
    obtain ns where "removeEach setupc path ?ps h1 = h1 @ map (\<lambda>n. [''remove'', n]) ns" "set ns \<subseteq> cpNumber ` set ?ps"
      using removeEach_history by blast
    with Pair Inr assms h1 show ?thesis
      by (auto simp: cleanupMatchingNewCom0comPairs_def intro!: exI [of _ ns])
  qed
qed

lemma findNew_eq:
  assumes "findNewCom0comPair setupc before wantA wantB h = (h', r)"
  shows "h' = h @ [[''list'']]" and "r = Inr p \<Longrightarrow> \<exists>pairs. snd (listCom0comPairs setupc h) = Inr pairs \<and> p \<in> set pairs
      \<and> cpNumber p \<notin> com0comPairNumbers before \<and> windowsPortMatches (cpPortA p) wantA \<and> windowsPortMatches (cpPortB p) wantB"
  using assms by (auto simp: findNewCom0comPair_def find_Some_iff split: prod.splits sum.splits option.splits
      dest: listCom0comPairs_eq)

lemma findPublic_eq:
  assumes "findNewCom0comPairWithPublic setupc before publicPort h = (h', r)"
  shows "h' = h @ [[''list'']]" and "r = Inr (p, onA) \<Longrightarrow> \<exists>pairs. snd (listCom0comPairs setupc h) = Inr pairs \<and> p \<in> set pairs
      \<and> cpNumber p \<notin> com0comPairNumbers before \<and> windowsPortMatches (if onA then cpPortA p else cpPortB p) publicPort
      \<and> (if onA then cpPortB p else cpPortA p) \<noteq> []"
  using assms by (auto simp: findNewCom0comPairWithPublic_def publicMatches_def find_Some_iff split: prod.splits sum.splits option.splits
      dest: listCom0comPairs_eq)

text \<open>The commands of a call that makes a pair or a port\<close>

definition callCommands :: "command list \<Rightarrow> string set \<Rightarrow> command list \<Rightarrow> bool" where
  "callCommands h old h' \<longleftrightarrow> h' = h \<or> h' = h @ [[''list'']] \<or>
     (\<exists>a b. h' = h @ [[''list''], [''install'', a, b]] \<or> h' = h @ [[''list''], [''install'', a, b], [''list'']] \<or>
       (\<exists>ns. h' = h @ [[''list''], [''install'', a, b], [''list''], [''list'']] @ map (\<lambda>n. [''remove'', n]) ns
          \<and> set ns \<inter> old = {}))"

lemma callCommands_cleanup:
  assumes "h1 = h @ [[''list''], [''install'', a, b], [''list'']]"
  shows "callCommands h (com0comPairNumbers before) (cleanupMatchingNewCom0comPairs setupc path before matches h1)"
proof -
  obtain ns where "cleanupMatchingNewCom0comPairs setupc path before matches h1 = h1 @ [[''list'']] @ map (\<lambda>n. [''remove'', n]) ns"
    "set ns \<inter> com0comPairNumbers before = {}"
    using cleanup_history by blast
  with assms show ?thesis by (auto simp: callCommands_def)
qed

text \<open>What the setup program lists after the commands \<open>h\<close>: the numbers of its pairs, none if it fails\<close>

definition listedNumbers :: "setupc \<Rightarrow> command list \<Rightarrow> string set" where
  "listedNumbers setupc h = (case snd (listCom0comPairs setupc h) of Inl _ \<Rightarrow> {} | Inr pairs \<Rightarrow> com0comPairNumbers pairs)"

lemma com0comCreatePair_commands:
  "callCommands h (listedNumbers setupc h) (fst (com0comCreatePair setupc found i n1 n2 h))"
  by (auto simp: com0comCreatePair_def listedNumbers_def split: prod.splits sum.splits
      dest!: runSetupc_eq listCom0comPairs_eq findNew_eq(1) intro!: callCommands_cleanup)
    (auto simp: callCommands_def)

lemma com0comCreatePort_commands:
  "callCommands h (listedNumbers setupc h) (fst (com0comCreatePort setupc found i n h))"
  by (auto simp: com0comCreatePort_def listedNumbers_def Let_def split: prod.splits sum.splits
      dest!: runSetupc_eq listCom0comPairs_eq findPublic_eq(1) intro!: callCommands_cleanup)
    (auto simp: callCommands_def)

lemma callCommands_removed:
  "callCommands h old h' \<Longrightarrow> [''remove'', n] \<in> set (drop (length h) h') \<Longrightarrow> n \<notin> old"
  by (auto simp: callCommands_def)

section \<open>The paths socat uses\<close>

definition plainName :: "string \<Rightarrow> bool" where
  "plainName name \<longleftrightarrow> name \<noteq> [] \<and> name \<noteq> ''.'' \<and> name \<noteq> ''..'' \<and> CHR ''/'' \<notin> set name \<and> CHR 0x5C \<notin> set name \<and> list_all endpointChar name"

lemma socatEndpointName_plain:
  assumes "socatEndpointName name = Inr n"
  shows "plainName n"
proof -
  have d: "contains ''..'' ''..''" by simp
  from assms have "n \<noteq> [] \<and> \<not> contains n ''..'' \<and> \<not> list_ex (\<lambda>c. c = CHR ''/'' \<or> c = CHR 0x5C) n \<and> n \<noteq> ''.''
      \<and> list_all endpointChar n"
    unfolding socatEndpointName_def Let_def by (simp only: split: if_splits) simp_all
  with d show ?thesis unfolding plainName_def list_ex_iff by blast
qed

lemma socatEndpointPaths_cases:
  assumes "socatEndpointPaths tempDir n1 n2 = (ops, r)"
  shows "ops = [] \<and> (\<exists>e. r = Inl e) \<or>
    (\<exists>dir a b. tempDir = Inr dir \<and> plainName a \<and> plainName b \<and> a \<noteq> b \<and> ops = [MakeDir dir] \<and> r = Inr (joinPath dir a, joinPath dir b, dir))"
  using assms by (auto simp: socatEndpointPaths_def dest!: socatEndpointName_plain split: sum.splits if_splits)

text \<open>
  What the operations do to the file system and to the process: \<open>os.Remove\<close> removes a file, a link or an empty
  directory; socat makes its two links while it runs.
\<close>

record systemState =
  syPaths :: "string set"
  syRunning :: bool

definition below :: "string \<Rightarrow> string \<Rightarrow> bool" where
  "below p dir = has_prefix p (dir @ ''/'')"

fun systemOp :: "system_op \<Rightarrow> systemState \<Rightarrow> systemState" where
  "systemOp (MakeDir dir) s = s\<lparr>syPaths := insert dir (syPaths s)\<rparr>"
| "systemOp (StartSocat p1 p2) s = s\<lparr>syPaths := insert p1 (insert p2 (syPaths s)), syRunning := True\<rparr>"
| "systemOp KillProcess s = s\<lparr>syRunning := False\<rparr>"
| "systemOp WaitProcess s = s"
| "systemOp (RemovePath p) s = (if \<exists>q \<in> syPaths s. below q p then s else s\<lparr>syPaths := syPaths s - {p}\<rparr>)"

definition systemRun :: "system_op list \<Rightarrow> systemState \<Rightarrow> systemState" where
  "systemRun ops s = foldl (\<lambda>s op. systemOp op s) s ops"

lemma systemRun_simps [simp]: "systemRun [] s = s" "systemRun (op # ops) s = systemRun ops (systemOp op s)"
  "systemRun (ops @ ops') s = systemRun ops' (systemRun ops s)"
  by (simp_all add: systemRun_def)

lemma below_join [simp]: "below (joinPath dir a) dir"
  by (simp add: below_def joinPath_def has_prefix_iff)

text \<open>Nothing lies below a path whose last element is a plain name, among the paths of one directory.\<close>

lemma not_below_join: "CHR ''/'' \<notin> set b \<Longrightarrow> \<not> below (joinPath dir b) (joinPath dir a)"
  by (auto simp: below_def joinPath_def has_prefix_iff)

lemma not_below_self: "\<not> below dir dir" "\<not> below dir (joinPath dir a)"
  by (auto simp: below_def joinPath_def has_prefix_iff dest: arg_cong [where f = length])

definition freshDir :: "string \<Rightarrow> systemState \<Rightarrow> bool" where
  "freshDir dir s \<longleftrightarrow> (\<forall>q \<in> syPaths s. q \<noteq> dir \<and> \<not> below q dir \<and> \<not> below dir q)"

lemma fresh_apart: "freshDir dir s \<Longrightarrow> q \<in> syPaths s \<Longrightarrow> q \<noteq> joinPath dir a \<and> \<not> below q (joinPath dir a)"
  by (auto simp: freshDir_def below_def joinPath_def has_prefix_iff)

lemma removes_restore:
  assumes "freshDir dir s" "plainName a" "plainName b" "syPaths t \<subseteq> syPaths s \<union> {dir, joinPath dir a, joinPath dir b}"
    and "syPaths s \<subseteq> syPaths t"
  shows "systemRun [RemovePath (joinPath dir a), RemovePath (joinPath dir b), RemovePath dir] t = t\<lparr>syPaths := syPaths s\<rparr>"
proof -
  have sl: "CHR ''/'' \<notin> set a" "CHR ''/'' \<notin> set b" using assms(2,3) by (auto simp: plainName_def)
  have n: "\<not> below q (joinPath dir c)" if "q \<in> syPaths t" for q c
    using that assms(4) fresh_apart [OF assms(1)] not_below_join [OF sl(1)] not_below_join [OF sl(2)] not_below_self by blast
  have d: "joinPath dir c \<noteq> dir" for c by (auto simp: joinPath_def)
  have r: "(syPaths t - {joinPath dir a}) - {joinPath dir b} \<subseteq> insert dir (syPaths s)" using assms(4) by auto
  have e: "((syPaths t - {joinPath dir a}) - {joinPath dir b}) - {dir} = syPaths s"
    using assms(4,5) fresh_apart [OF assms(1)] assms(1) unfolding freshDir_def by blast
  have nd: "\<not> (\<exists>q \<in> (syPaths t - {joinPath dir a}) - {joinPath dir b}. below q dir)"
    using r assms(1) not_below_self unfolding freshDir_def by blast
  show ?thesis using n nd e by (auto simp: systemRun_def)
qed

section \<open>Properties\<close>

text \<open>Whatever the setup program of com0com answers, a pair or port that the back end returns is new: its
  number is in the listing taken after the installation and was not in the one before, and it has the ports
  that were asked for.\<close>

theorem com0com_pair_is_new:
  assumes "com0comCreatePair setupc found i n1 n2 h = (h', Inr (pair, handle))"
  shows "\<exists>a1 a2. let before = h; after = h @ [[''list''], [''install'', wpArg a1, wpArg a2]] in
    windowsVisiblePortSpec n1 = Inr a1 \<and> windowsVisiblePortSpec n2 = Inr a2 \<and> h' = after @ [[''list'']]
    \<and> chNumber handle \<in> listedNumbers setupc after \<and> chNumber handle \<notin> listedNumbers setupc before
    \<and> (\<exists>p :: com0comListPair. windowsPortMatches (cpPortA p) a1 \<and> windowsPortMatches (cpPortB p) a2
        \<and> vpPort1 pair = to_upper (cpPortA p) \<and> vpPort2 pair = to_upper (cpPortB p))"
proof -
  obtain path a1 a2 h1 before h2 out p where
    path: "found = Inr path" and a: "windowsVisiblePortSpec n1 = Inr a1" "windowsVisiblePortSpec n2 = Inr a2"
    and l: "listCom0comPairs setupc h = (h1, Inr before)"
    and r: "runSetupc setupc [''install'', wpArg a1, wpArg a2] h1 = (h2, Inr out)"
    and f: "findNewCom0comPair setupc before a1 a2 h2 = (h', Inr p)"
    and pair: "pair = newVirtualPair i (to_upper (cpPortA p)) (to_upper (cpPortB p))" "handle = \<lparr>chSetupc = path, chNumber = cpNumber p\<rparr>"
    using assms by (auto simp: com0comCreatePair_def split: sum.splits prod.splits)
  have h: "h2 = h @ [[''list''], [''install'', wpArg a1, wpArg a2]]"
    using listCom0comPairs_eq [OF l] runSetupc_eq [OF r] by simp
  obtain pairs where "snd (listCom0comPairs setupc h2) = Inr pairs" "p \<in> set pairs" "cpNumber p \<notin> com0comPairNumbers before"
    "windowsPortMatches (cpPortA p) a1" "windowsPortMatches (cpPortB p) a2"
    using findNew_eq(2) [OF f refl] by blast
  then show ?thesis using a pair h l findNew_eq(1) [OF f]
    by (rule_tac exI [of _ a1], rule_tac exI [of _ a2]) (auto simp: Let_def listedNumbers_def com0comPairNumbers_def newVirtualPair_def intro!: exI [of _ p])
qed

text \<open>C29: The com0com back end never removes a pair that the setup program listed before the call, neither
  when it makes a pair or a port nor when it cleans up after a failure, whatever the setup program answers.\<close>

theorem com0com_spares_others:
  assumes "n \<in> listedNumbers setupc h"
  shows "[''remove'', n] \<notin> set (drop (length h) (fst (com0comCreatePair setupc found i n1 n2 h)))
    \<and> [''remove'', n] \<notin> set (drop (length h) (fst (com0comCreatePort setupc found i n1 h)))"
  using callCommands_removed [OF com0comCreatePair_commands] callCommands_removed [OF com0comCreatePort_commands] assms by blast


lemma space_char: "char_of (32 :: nat) = CHR '' ''"
  by code_simp

lemma space_leading: "leading_space (CHR '' '' # s) = 1"
  by (simp add: leading_space_def space_runes_def space_char)

lemma fields_of_code [code]:
  "fields_of word [] = (if word = [] then [] else [word])"
  "fields_of word (c # s) =
     (if visible c then fields_of (word @ [c]) s
      else if c = CHR '' '' then (if word = [] then [] else [word]) @ fields_of [] s
      else if leading_space (c # s) = 0 then fields_of (word @ [c]) s
      else (if word = [] then [] else [word]) @ fields_of [] (drop (leading_space (c # s)) (c # s)))"
  by (simp_all add: fields_of.simps [of word] visible_leading space_leading)

text \<open>A setup program that lists one pair at first and two after an installation\<close>

definition sampleSetup :: setupc where
  "sampleSetup history = \<lparr>srOutput = ''CNCA0 PortName=COM7'' @ [CHR 0x0A] @ ''CNCB0 PortName=COM8''
     @ (if length history < 3 then [] else [CHR 0x0A] @ ''CNCA1 PortName=COM1'' @ [CHR 0x0A] @ ''CNCB1 PortName=COM2''),
     srError = None, srContext = None\<rparr>"

lemma sample_pair: "com0comCreatePair sampleSetup (Inr ''s'') ''p'' ''COM1'' ''com2'' [] =
    ([[''list''], [''install'', ''PortName=COM1'', ''PortName=COM2''], [''list'']],
     Inr (newVirtualPair ''p'' ''COM1'' ''COM2'', \<lparr>chSetupc = ''s'', chNumber = ''1''\<rparr>))"
  by code_simp

lemma sample_listed: "listedNumbers sampleSetup [] = {''0''}"
  by code_simp

theorem com0com_pair_is_new_witness: "''1'' \<notin> listedNumbers sampleSetup []"
  using com0com_pair_is_new [OF sample_pair] by (auto simp: Let_def)

theorem com0com_spares_others_witness:
  "[''remove'', ''0''] \<notin> set (fst (com0comCreatePair sampleSetup (Inr ''s'') ''p'' ''COM1'' ''COM9'' []))"
  using com0com_spares_others [of "''0''" sampleSetup "[]" "Inr ''s''" "''p''" "''COM1''" "''COM9''"] by (simp add: sample_listed)

lemma sample_socat: "socatCreatePair None (Inr ''/tmp/d'') None [(False, True), (True, True)] ''p'' ''a'' ''b'' =
    ([MakeDir ''/tmp/d'', StartSocat ''/tmp/d/a'' ''/tmp/d/b''],
     Inr (newVirtualPair ''p'' ''/tmp/d/a'' ''/tmp/d/b'', \<lparr>shPaths = [''/tmp/d/a'', ''/tmp/d/b''], shDir = ''/tmp/d''\<rparr>))"
  by code_simp


end
