(* ===== verification/ServiceFacade.thy ===== *)
theory ServiceFacade
  imports ServiceFacts ModbusMapping FecbusAnnotationFacts
begin

text \<open>
  The calls of \<open>internal/modules/serial/service.go\<close> that hand their arguments to one manager: counters,
  monitors, and the sessions of the two protocols. \<open>None\<close> of a call that waits for a device stands for a
  call that does not return before the script of its port ends.
\<close>

section \<open>Terminals and monitors\<close>

definition Ping :: "string \<Rightarrow> service_error + string" where
  "Ping msg = (if msg = [] then Inl (SvInvalid ''msg must not be empty'') else Inr (''pong:'' @ msg))"

definition ListPorts :: "serialService \<Rightarrow> handleStatus list" where
  "ListPorts s = managerList (svManager s)"

definition onManager :: "(portManager \<Rightarrow> portManager \<times> manager_error option) \<Rightarrow> serialService \<Rightarrow>
    serialService \<times> service_error option" where
  "onManager f s = (case f (svManager s) of (m, e) \<Rightarrow> (s\<lparr>svManager := m\<rparr>, map_option SvManager e))"

definition ResetCounters :: "string \<Rightarrow> serialService \<Rightarrow> serialService \<times> service_error option" where
  "ResetCounters i = onManager (\<lambda>m. managerResetCounters m i)"

definition RestoreCounters :: "string \<Rightarrow> int \<Rightarrow> int \<Rightarrow> serialService \<Rightarrow> serialService \<times> service_error option" where
  "RestoreCounters i rx tx = onManager (\<lambda>m. managerRestoreCounters m i rx tx)"

definition ListMonitors :: "serialService \<Rightarrow> monitorInfo list" where
  "ListMonitors s = monList (svMonitors s)"

definition QueryMonitorFrames :: "(string \<Rightarrow> string) \<Rightarrow> monitorQuery \<Rightarrow> serialService \<Rightarrow> service_error + monitorPage" where
  "QueryMonitorFrames lower req s = map_sum SvMonitor id (monQuerySession lower (svMonitors s) req)"

definition ClearMonitorFrames :: "string \<Rightarrow> serialService \<Rightarrow> serialService \<times> service_error option" where
  "ClearMonitorFrames i s = (case monClear i (svMonitors s) of (m, e) \<Rightarrow> (s\<lparr>svMonitors := m\<rparr>, map_option SvMonitor e))"

definition ListVirtualPairs :: "serialService \<Rightarrow> (string \<times> string \<times> string) list" where
  "ListVirtualPairs s = map (\<lambda>p. (vpID p, vpPort1 p, vpPort2 p)) (ListPairs (svVirtual s))"

definition ServiceBridges :: "serialService \<Rightarrow> (string \<times> string \<times> string \<times> int) list" where
  "ServiceBridges s = map (\<lambda>b. (brID b, brPort1 b, brPort2 b, brBaudRate b)) (ListBridges (svVirtual s))"

definition CleanupVirtual :: "startEnv \<Rightarrow> serialService \<Rightarrow> serialService" where
  "CleanupVirtual env s = cleanup env s"

section \<open>Modbus sessions\<close>

definition onModbus :: "(modbusManager \<Rightarrow> modbusManager \<times> session_error option) \<Rightarrow> serialService \<Rightarrow>
    serialService \<times> service_error option" where
  "onModbus f s = (case f (svModbus s) of (m, e) \<Rightarrow> (s\<lparr>svModbus := m\<rparr>, map_option SvModbus e))"

definition ListModbusSessions :: "serialService \<Rightarrow> sessionInfo list" where
  "ListModbusSessions s = ListSessions (svModbus s)"

text \<open>The transaction is returned with an error, too.\<close>

definition ModbusMasterRequest :: "attempt_env \<Rightarrow> masterRequest \<Rightarrow> serialService \<Rightarrow>
    (serialService \<times> modbusTransaction option \<times> service_error option) option" where
  "ModbusMasterRequest env req s =
     map_option (\<lambda>(m, tx, e). (s\<lparr>svModbus := m\<rparr>, tx, map_option SvModbus e)) (MasterRequestOn env (svModbus s) req)"

definition StartModbusSlave :: "startSlaveRequest \<Rightarrow> serialService \<Rightarrow> serialService \<times> (service_error + sessionInfo)" where
  "StartModbusSlave req s = (case StartSlaveOn (svModbus s) req of (m, r) \<Rightarrow> (s\<lparr>svModbus := m\<rparr>, map_sum SvModbus id r))"

definition StopModbusSlave :: "bool \<Rightarrow> string \<Rightarrow> serialService \<Rightarrow> serialService \<times> service_error option" where
  "StopModbusSlave timely i = onModbus (\<lambda>m. StopSlaveOn timely m i)"

definition UpdateModbusSlaveData :: "string \<Rightarrow> modelSnapshot \<Rightarrow> serialService \<Rightarrow> serialService \<times> service_error option" where
  "UpdateModbusSlaveData i sn = onModbus (\<lambda>m. UpdateSlaveData m i sn)"

definition AddModbusSlaveUnit :: "string \<Rightarrow> slaveUnit \<Rightarrow> serialService \<Rightarrow> serialService \<times> service_error option" where
  "AddModbusSlaveUnit i u = onModbus (\<lambda>m. AddSlaveUnit m i u)"

definition RemoveModbusSlaveUnit :: "string \<Rightarrow> byte \<Rightarrow> serialService \<Rightarrow> serialService \<times> service_error option" where
  "RemoveModbusSlaveUnit i u = onModbus (\<lambda>m. RemoveSlaveUnit m i u)"

definition ListModbusSlaveUnits :: "(byte \<Rightarrow> u16 list \<times> u16 list \<times> u16 list \<times> u16 list) \<Rightarrow> string \<Rightarrow> serialService \<Rightarrow>
    service_error + slaveUnit list" where
  "ListModbusSlaveUnits orders i s = map_sum SvModbus id (ListSlaveUnits orders (svModbus s) i)"

definition UpdateModbusSlaveUnitData :: "string \<Rightarrow> byte \<Rightarrow> modelSnapshot \<Rightarrow> serialService \<Rightarrow> serialService \<times> service_error option" where
  "UpdateModbusSlaveUnitData i u sn = onModbus (\<lambda>m. UpdateSlaveUnitData m i u sn)"

definition ModbusScanUnitIDs :: "(nat \<Rightarrow> attempt_env) \<Rightarrow> unitScanRequest \<Rightarrow> serialService \<Rightarrow>
    (serialService \<times> (service_error + unitScanResult)) option" where
  "ModbusScanUnitIDs envs req s =
     map_option (\<lambda>(m, r). (s\<lparr>svModbus := m\<rparr>, map_sum SvModbus id r)) (ScanUnitIDs envs (svModbus s) req)"

definition ModbusReadRegisters :: "float_texts \<Rightarrow> (int \<Rightarrow> int) \<Rightarrow> attempt_env \<Rightarrow> registerReadRequest \<Rightarrow> registerMapping list \<Rightarrow>
    serialService \<Rightarrow> (serialService \<times> (service_error + registerReadResult \<times> mappedRegisterValue list)) option" where
  "ModbusReadRegisters ft zone env req mappings s =
     map_option (\<lambda>(m, r). (s\<lparr>svModbus := m\<rparr>, map_sum SvModbus id r)) (ReadRegisters ft zone env (svModbus s) req mappings)"

definition ModbusScanRegisters :: "(nat \<Rightarrow> attempt_env) \<Rightarrow> registerScanRequest \<Rightarrow> serialService \<Rightarrow>
    (serialService \<times> (service_error + registerScanResult)) option" where
  "ModbusScanRegisters envs req s =
     map_option (\<lambda>(m, r). (s\<lparr>svModbus := m\<rparr>, map_sum SvModbus id r)) (ScanRegisters envs (svModbus s) req)"

section \<open>FECbus sessions\<close>

definition onFecbus :: "(fecManager \<Rightarrow> fecManager \<times> fec_session_error option) \<Rightarrow> serialService \<Rightarrow>
    serialService \<times> service_error option" where
  "onFecbus f s = (case f (svFecbus s) of (m, e) \<Rightarrow> (s\<lparr>svFecbus := m\<rparr>, map_option SvFecbus e))"

definition ListFecbusSessions :: "serialService \<Rightarrow> fecSessionInfo list" where
  "ListFecbusSessions s = FecList (svFecbus s)"

definition FecbusSendRequest :: "attempt_env \<Rightarrow> fecSendRequest \<Rightarrow> serialService \<Rightarrow>
    (serialService \<times> fecTransaction option \<times> service_error option) option" where
  "FecbusSendRequest env req s =
     map_option (\<lambda>(m, tx, e). (s\<lparr>svFecbus := m\<rparr>, tx, map_option SvFecbus e)) (FecSendRequest env (svFecbus s) req)"

definition StartFecbusSlave :: "fecStartRequest \<Rightarrow> serialService \<Rightarrow> serialService \<times> (service_error + fecSessionInfo)" where
  "StartFecbusSlave req s = (case FecStartSlave (svFecbus s) req of
       (m, Some e) \<Rightarrow> (s\<lparr>svFecbus := m\<rparr>, Inl (SvFecbus e))
     | (m, None) \<Rightarrow> (s\<lparr>svFecbus := m\<rparr>, map_sum SvFecbus fecInfo (fecGet m (fsrSessionID req))))"

definition StopFecbusSlave :: "bool \<Rightarrow> string \<Rightarrow> serialService \<Rightarrow> serialService \<times> service_error option" where
  "StopFecbusSlave timely i = onFecbus (\<lambda>m. FecStopSlave timely m i)"

text \<open>\<open>setSlaveState\<close> puts the unit under its address; the other units stay.\<close>

definition UpdateFecbusSlaveState :: "string \<Rightarrow> fecUnit \<Rightarrow> serialService \<Rightarrow> serialService \<times> service_error option" where
  "UpdateFecbusSlaveState i state = onFecbus (\<lambda>m. fecOnSession m i (\<lambda>s. (setSlaveUnit s state, None)))"

definition AddFecbusSlaveUnit :: "string \<Rightarrow> fecUnit \<Rightarrow> serialService \<Rightarrow> serialService \<times> service_error option" where
  "AddFecbusSlaveUnit i u = onFecbus (\<lambda>m. FecAddSlaveUnit m i u)"

definition RemoveFecbusSlaveUnit :: "string \<Rightarrow> byte \<Rightarrow> serialService \<Rightarrow> serialService \<times> service_error option" where
  "RemoveFecbusSlaveUnit i a = onFecbus (\<lambda>m. FecRemoveSlaveUnit m i a)"

definition ListFecbusSlaveUnits :: "string \<Rightarrow> serialService \<Rightarrow> service_error + fecUnitInfo list" where
  "ListFecbusSlaveUnits i s = map_sum SvFecbus id (FecListSlaveUnits (svFecbus s) i)"

text \<open>\<open>Inr None\<close> is the panic of an annotation.\<close>

definition QueryFecbusFrames :: "fecQuery \<Rightarrow> customFunction list \<Rightarrow> serialService \<Rightarrow>
    service_error + (framePage \<times> (frameRecord \<times> annotatedFrame) list) option" where
  "QueryFecbusFrames req custom s =
     map_sum SvFecbus (\<lambda>x. queryAnnotated x req custom) (fecGet (svFecbus s) (fqSessionID req))"

definition ClearFecbusFrames :: "string \<Rightarrow> serialService \<Rightarrow> serialService \<times> service_error option" where
  "ClearFecbusFrames i = onFecbus (\<lambda>m. FecClearFrames m i)"

section \<open>What the calls leave alone\<close>

lemma on_manager_fields [simp]:
  "fst (onModbus f s) = s\<lparr>svModbus := fst (f (svModbus s))\<rparr>" "fst (onFecbus g s) = s\<lparr>svFecbus := fst (g (svFecbus s))\<rparr>"
  "fst (onManager h s) = s\<lparr>svManager := fst (h (svManager s))\<rparr>"
  by (simp_all add: onModbus_def onFecbus_def onManager_def split: prod.split)

end
