(* ===== verification/SessionCalls.thy ===== *)
theory SessionCalls
  imports ServiceFacade
begin

text \<open>
  What the calls on an open session leave alone. A master's request, a read or a scan counts bytes, frames
  and transactions; whatever does not depend on these counts holds after the call if it held before.
\<close>

declare runAttempts.simps [simp del] fecAttempts.simps [simp del] readFrame.simps [simp del] fecReadFrame.simps [simp del]

section \<open>Modbus\<close>

locale modbus_quiet =
  fixes P :: "modbusSession \<Rightarrow> bool"
  assumes counts_rx: "P s \<Longrightarrow> P (s\<lparr>msRxBytes := n\<rparr>)"
    and keeps_sent: "P s \<Longrightarrow> P (s\<lparr>msSent := d\<rparr>)"
    and counts_tx: "P s \<Longrightarrow> P (s\<lparr>msTxBytes := n\<rparr>)"
    and counts_transactions: "P s \<Longrightarrow> P (s\<lparr>msNextTx := n\<rparr>)"
begin

lemma read_quiet: "readFrame mode stoppable s buf es = Some (s', r) \<Longrightarrow> P s \<Longrightarrow> P s'"
  using readFrame_session counts_rx by blast

lemma write_quiet: "sessionWrite s d ev = (s', n, e) \<Longrightarrow> P s \<Longrightarrow> P s'"
  by (auto simp: sessionWrite_def Let_def intro: keeps_sent counts_tx split: if_splits writeEvent.splits)

lemma attempts_quiet:
  "runAttempts mode u frame timeout env i n s tx e = Some (s', tx', e') \<Longrightarrow> P s \<Longrightarrow> P s'"
proof (induction n arbitrary: i s tx e)
  case (Suc n)
  obtain s1 w werr where w: "sessionWrite s frame (fst (env i)) = (s1, w, werr)" by (metis prod_cases3)
  then have P1: "P s1" using write_quiet Suc.prems(2) by blast
  show ?case
  proof (cases werr)
    case None
    then obtain s2 r where r: "readFrame mode False s1 [] (snd (env i) timeout) = Some (s2, r)"
      using Suc.prems(1) w by (auto simp: run_attempts Let_def split: option.splits)
    then have "P s2" using read_quiet P1 by blast
    with None r w Suc.prems(1) show ?thesis
      by (auto simp: run_attempts Let_def split: sum.splits prod.splits if_splits intro: Suc.IH)
  qed (use w P1 Suc.prems(1) in \<open>auto simp: run_attempts Let_def intro: Suc.IH\<close>)
qed (simp add: run_attempts Let_def)

lemma request_quiet: "runMasterRequest env s req = Some (s', r) \<Longrightarrow> P s \<Longrightarrow> P s'"
  by (auto simp: runMasterRequest_def Let_def dest: attempts_quiet intro: counts_transactions split: if_splits sum.splits)

lemma registers_quiet: "readRegisters env s req = Some (s', r) \<Longrightarrow> P s \<Longrightarrow> P s'"
  by (auto simp: readRegisters_def Let_def dest: request_quiet split: if_splits option.splits prod.splits)

lemma mapped_quiet: "readMappedRegisters ft zone env s req ms = Some (s', r) \<Longrightarrow> P s \<Longrightarrow> P s'"
  by (auto simp: readMappedRegisters_def dest: registers_quiet split: option.splits sum.splits)

lemma units_quiet: "scanUnits envs i req s res us = Some (s', r) \<Longrightarrow> P s \<Longrightarrow> P s'"
proof (induction us arbitrary: i s res)
  case (Cons raw raws)
  show ?case
  proof (cases "unitIDByte raw")
    case (Inr u)
    with Cons.prems(1) obtain s1 tx e where q: "runMasterRequest (envs i) s (probeRequest req u) = Some (s1, tx, e)"
      by (cases "runMasterRequest (envs i) s (probeRequest req u)") auto
    with request_quiet Cons.prems(2) have "P s1" by blast
    with Cons.prems(1) Inr q show ?thesis by (auto simp: Let_def intro: Cons.IH split: option.splits)
  qed (use Cons in auto)
qed simp

lemma unit_scan_quiet: "scanUnitIDs envs s req = Some (s', r) \<Longrightarrow> P s \<Longrightarrow> P s'"
  by (auto simp: scanUnitIDs_def Let_def dest: units_quiet)

lemma chunks_quiet: "scanChunks envs i req chunk address s res = Some y \<Longrightarrow> P s \<longrightarrow> P (fst y)"
proof (rule scanChunks.raw_induct [rotated], assumption)
  fix f :: "(nat \<Rightarrow> attempt_env) \<Rightarrow> nat \<Rightarrow> registerScanRequest \<Rightarrow> u16 \<Rightarrow> u16 \<Rightarrow> modbusSession \<Rightarrow> registerScanResult \<Rightarrow>
      (modbusSession \<times> registerScanResult) option"
  fix envs i req chunk address s res y
  assume IH: "\<And>envs i req chunk address s res y. f envs i req chunk address s res = Some y \<Longrightarrow> P s \<longrightarrow> P (fst y)"
    and r: "(let quantity = chunkQuantity chunk (rsEnd req) address in
      case readRegisters (envs i) s (chunkRead req address quantity) of
        None \<Rightarrow> None
      | Some (s1, read) \<Rightarrow>
          let res1 = addRange address quantity read res in
          if address + quantity = 0 \<or> rsEnd req < address + quantity then Some (s1, res1)
          else f envs (Suc i) req chunk (address + quantity) s1 res1) = Some y"
  show "P s \<longrightarrow> P (fst y)"
    using r by (auto simp: Let_def dest: registers_quiet IH split: option.splits prod.splits if_splits)
qed

lemma scan_quiet: "scanRegisters envs s req = Some (s', r) \<Longrightarrow> P s \<Longrightarrow> P s'"
  by (auto simp: scanRegisters_def Let_def dest: chunks_quiet split: if_splits)

end

text \<open>The parts of a session that its requests keep\<close>

definition modbusKept :: "modbusSession \<Rightarrow> openRequest \<times> string \<times> (byte, dataModel) table \<times> bool \<times> bool" where
  "modbusKept s = (msReq s, msStatus s, msSlaveUnits s, msSlaveRunning s, msPort s)"

interpretation mq: modbus_quiet "\<lambda>x. modbusKept x = k" for k
  by unfold_locales (auto simp: modbusKept_def)

lemmas modbus_calls_keep = mq.request_quiet mq.mapped_quiet mq.unit_scan_quiet mq.scan_quiet

section \<open>FECbus\<close>

locale fecbus_quiet =
  fixes P :: "fecSession \<Rightarrow> bool"
  assumes counts_rx: "P s \<Longrightarrow> P (s\<lparr>fsRxBytes := n\<rparr>)"
    and keeps_sent: "P s \<Longrightarrow> P (s\<lparr>fsSent := d\<rparr>)"
    and counts_tx: "P s \<Longrightarrow> P (s\<lparr>fsTxBytes := n\<rparr>)"
    and counts_transactions: "P s \<Longrightarrow> P (s\<lparr>fsNextTx := n\<rparr>)"
    and records: "P s \<Longrightarrow> P (recordFrame s dir f bs msg)"
begin

lemma read_quiet: "fecReadFrame stoppable s buf es = Some (s', r) \<Longrightarrow> P s \<Longrightarrow> P s'"
  using fecReadFrame_session counts_rx by blast

lemma write_quiet: "fecWrite s d ev = (s', n, e) \<Longrightarrow> P s \<Longrightarrow> P s'"
  by (auto simp: fecWrite_def Let_def intro: keeps_sent counts_tx split: if_splits writeEvent.splits)

lemma attempts_quiet:
  "fecAttempts req frame raw timeout env i n s tx e = Some (s', tx', e') \<Longrightarrow> P s \<Longrightarrow> P s'"
proof (induction n arbitrary: i s tx e)
  case (Suc n)
  obtain s1 w werr where w: "fecWrite s raw (fst (env i)) = (s1, w, werr)" by (metis prod_cases3)
  then have P1: "P (recordFrame s1 ''tx'' frame raw [])" using write_quiet records Suc.prems(2) by blast
  show ?case
  proof (cases "werr = None \<and> fqrExpectAnswer req")
    case True
    then obtain s2 r where r: "fecReadFrame False (recordFrame s1 ''tx'' frame raw []) [] (snd (env i) timeout) = Some (s2, r)"
      using Suc.prems(1) w by (auto simp: fec_attempts Let_def split: option.splits)
    then have "P s2" using read_quiet P1 by blast
    with True r w Suc.prems(1) show ?thesis
      by (auto simp: fec_attempts Let_def split: sum.splits prod.splits if_splits intro: Suc.IH records)
  qed (use w P1 Suc.prems(1) in \<open>auto simp: fec_attempts Let_def intro: Suc.IH split: option.splits\<close>)
qed (simp add: fec_attempts Let_def)

lemma send_quiet: "fecSend env s req = Some (s', r) \<Longrightarrow> P s \<Longrightarrow> P s'"
  by (auto simp: fecSend_def Let_def dest: attempts_quiet intro: counts_transactions split: if_splits sum.splits)

lemma answers_quiet:
  assumes errors: "\<And>s e. P s \<Longrightarrow> P (fecSetError s e)"
  shows "answerUnits s f writes i us = (s', st) \<Longrightarrow> P s \<Longrightarrow> P s'"
proof (induction us arbitrary: s i)
  case (Cons u us)
  show ?case
  proof (cases "buildSlaveAnswer f u")
    case (AnswerWith a)
    show ?thesis
    proof (cases "FecEncodeFrame a")
      case (Inr raw)
      obtain s1 n e where w: "fecWrite s raw (writes i) = (s1, n, e)" by (metis prod_cases3)
      with write_quiet Cons.prems(2) have "P s1" by blast
      with w AnswerWith Inr Cons.prems(1) show ?thesis by (auto intro: Cons.IH records errors split: option.splits)
    qed (use AnswerWith Cons.prems errors in auto)
  qed (use Cons.prems in \<open>auto intro: Cons.IH records\<close>)
qed simp

lemma round_quiet:
  assumes errors: "\<And>s e. P s \<Longrightarrow> P (fecSetError s e)" and r: "fecSlaveRound s rd = Some (s', st)" and P: "P s"
  shows "P s'"
proof -
  obtain s1 x where x: "fecReadFrame True s [] (frdScript rd) = Some (s1, x)"
    using r by (auto simp: fecSlaveRound_def split: option.splits)
  with read_quiet P have P1: "P s1" by blast
  show ?thesis
  proof (cases x)
    case (Inr y)
    with x r show ?thesis
      by (auto simp: fecSlaveRound_def Let_def intro: answers_quiet [OF errors] records P1 split: prod.splits)
  qed (use x r P1 errors in \<open>auto simp: fecSlaveRound_def split: if_splits\<close>)
qed

end

definition fecKept :: "fecSession \<Rightarrow> fecOpenRequest \<times> string \<times> (byte, fecUnit) table \<times> bool \<times> bool" where
  "fecKept s = (fsReq s, fsStatus s, fsSlaveUnits s, fsSlaveRunning s, fsPort s)"

interpretation fq: fecbus_quiet "\<lambda>x. fecKept x = k" for k
  by unfold_locales (auto simp: fecKept_def recordFrame_def appendRecord_def Let_def)

end
