(* ===== verification/McpTools.thy ===== *)
theory McpTools
  imports ServiceFacade McpGraph
begin

text \<open>
  The tools of the MCP server (\<open>internal/modules/mcpserver/server.go\<close>): their arguments, the requests they
  make of them, and their handlers (\<open>registerTools\<close>). A handler is named as its tool; its reply is the key
  of the returned map with the value. What drivers and devices answer is an argument, as it is for the
  service. The tools of the graph templates are in \<open>McpGraph\<close>; the two tools that list protocol templates
  are left out, and so are names and descriptions.
\<close>

section \<open>Arguments\<close>

text \<open>Integers are those of the JSON text. A map is the list of its entries in the order it is iterated.\<close>

record openPortArgs =
  opaPortName :: string
  opaBaudRate :: int
  opaDataBits :: int
  opaStopBits :: string
  opaParity :: string
  opaFlowMode :: string
  opaReadBufKB :: int

record portIDArgs =
  piaPortID :: string

record sendArgs =
  sdaPortID :: string
  sdaContent :: string
  sdaMode :: string
  sdaEncoding :: string

record queryBufferArgs =
  qbaPortID :: string
  qbaOffset :: int
  qbaLength :: int

record virtualPortArgs =
  vpaID :: string
  vpaPortName :: string

record virtualPairArgs =
  vraID :: string
  vraPort1Name :: string
  vraPort2Name :: string

record idArgs =
  idaID :: string

record bridgeArgs =
  braID :: string
  braPort1 :: string
  braPort2 :: string
  braBaudRate :: int

record startMonitorArgs =
  smaID :: string
  smaName :: string
  smaPort :: string
  smaBaudRate :: int
  smaDataBits :: int
  smaStopBits :: string
  smaParity :: string
  smaFlowMode :: string
  smaReadBufKB :: int
  smaEncoding :: string

record monitorIDArgs =
  miaMonitorID :: string

record queryMonitorFramesArgs =
  qmaMonitorID :: string
  qmaOffset :: int
  qmaLimit :: int
  qmaDirection :: string
  qmaSearch :: string

record modbusOpenSessionArgs =
  moaID :: string
  moaName :: string
  moaPort :: string
  moaMode :: string
  moaRole :: string
  moaBaudRate :: int
  moaDataBits :: int
  moaStopBits :: string
  moaParity :: string
  moaFlowMode :: string
  moaReadBufKB :: int
  moaTimeoutMs :: int
  moaRetries :: int

record modbusSessionIDArgs =
  msaSessionID :: string

record modbusMasterRequestArgs =
  mraSessionID :: string
  mraUnitID :: int
  mraFunction :: int
  mraAddressMode :: string
  mraAddress :: int
  mraQuantity :: int
  mraValue :: int
  mraCoilValues :: "bool list"
  mraRegisterValues :: "u16 list"
  mraTimeoutMs :: int
  mraRetries :: int

record modbusBoolPointArg =
  mbaAddress :: int
  mbaValue :: bool

record modbusRegisterPointArg =
  mpaAddress :: int
  mpaValue :: int

record modbusDataModelArgs =
  mdaCoils :: "modbusBoolPointArg list"
  mdaDiscreteInputs :: "modbusBoolPointArg list"
  mdaInputRegisters :: "modbusRegisterPointArg list"
  mdaHoldingRegisters :: "modbusRegisterPointArg list"

record modbusSlaveUnitArg =
  muaUnitID :: int
  muaDataModel :: modbusDataModelArgs

record modbusStartSlaveArgs =
  mlaSessionID :: string
  mlaUnitID :: int
  mlaDataModel :: modbusDataModelArgs
  mlaUnits :: "modbusSlaveUnitArg list"

record modbusUnitIDArgs =
  mnaSessionID :: string
  mnaUnitID :: int

record modbusUpdateSlaveDataArgs =
  mtaSessionID :: string
  mtaDataModel :: modbusDataModelArgs

record modbusAddSlaveUnitArgs =
  mxaSessionID :: string
  mxaUnitID :: int
  mxaDataModel :: modbusDataModelArgs

record modbusUpdateSlaveUnitDataArgs =
  myaSessionID :: string
  myaUnitID :: int
  myaDataModel :: modbusDataModelArgs

record modbusRegisterMappingArg =
  mgaAddress :: int
  mgaDataType :: string
  mgaWordOrder :: string
  mgaLength :: int
  mgaScalingFactor :: float64
  mgaComment :: string
  mgaGroupEnd :: bool

record modbusReadRegistersArgs =
  meaSessionID :: string
  meaUnitID :: int
  meaFunction :: int
  meaAddressMode :: string
  meaAddress :: int
  meaQuantity :: int
  meaMappings :: "modbusRegisterMappingArg list"
  meaTimeoutMs :: int
  meaRetries :: int

record modbusScanUnitIDsArgs =
  mcaSessionID :: string
  mcaUnitIDs :: "int list"
  mcaFunction :: int
  mcaAddressMode :: string
  mcaAddress :: int
  mcaQuantity :: int
  mcaTimeoutMs :: int
  mcaRetries :: int

record modbusScanRegistersArgs =
  mzaSessionID :: string
  mzaUnitID :: int
  mzaFunction :: int
  mzaAddressMode :: string
  mzaStartAddress :: int
  mzaEndAddress :: int
  mzaChunkSize :: int
  mzaTimeoutMs :: int
  mzaRetries :: int

record fecbusOpenSessionArgs =
  foaID :: string
  foaName :: string
  foaPort :: string
  foaRole :: string
  foaBaudRate :: int
  foaDataBits :: int
  foaStopBits :: string
  foaParity :: string
  foaFlowMode :: string
  foaReadBufKB :: int
  foaTimeoutMs :: int
  foaRetries :: int

record fecbusSessionIDArgs =
  fiaSessionID :: string

record fecbusSendRequestArgs =
  fraSessionID :: string
  fraFrameType :: int
  fraTargetAddress :: int
  fraPriority :: int
  fraSourceAddress :: int
  fraMessageNumber :: int
  fraGroupNumber :: int
  fraFunction :: int
  fraDataHex :: string
  fraExpectAnswer :: bool
  fraTimeoutMs :: int
  fraRetries :: int

record fecbusStateUnitArg =
  ftaAddress :: int
  ftaStatusCode :: int
  ftaAutoStatusAnswer :: bool
  ftaAcceptBroadcast :: bool

record fecbusSlaveStateArgs =
  fsaSessionID :: string
  fsaAddress :: int
  fsaStatusCode :: int
  fsaAutoStatusAnswer :: bool
  fsaAcceptBroadcast :: bool
  fsaUnits :: "fecbusStateUnitArg list"

record fecbusSlaveUnitArgs =
  fuaSessionID :: string
  fuaAddress :: int
  fuaStatusCode :: int
  fuaAutoStatusAnswer :: bool
  fuaAcceptBroadcast :: bool

record fecbusCustomDataArg =
  fdaKey :: string
  fdaLabel :: string
  fdaOffset :: int
  fdaLength :: int
  fdaType :: string
  fdaEndian :: string
  fdaEnum :: "(string \<times> string) list"
  fdaMeaning :: string

record fecbusCustomFunctionArg =
  fcaCode :: int
  fcaName :: string
  fcaDescription :: string
  fcaDirection :: string
  fcaAnswer :: bool
  fcaFields :: "fecbusCustomDataArg list"

record fecbusQueryFramesArgs =
  fqaSessionID :: string
  fqaOffset :: int
  fqaLimit :: int
  fqaDirection :: string
  fqaSearch :: string
  fqaCustom :: "fecbusCustomFunctionArg list"

record serialGraphIDArgs =
  giaGraphID :: string

record serialGraphSendArgs =
  gsaGraphID :: string
  gsaNodeID :: string
  gsaContent :: string
  gsaMode :: string
  gsaEncoding :: string

record serialGraphNodeBufferArgs =
  gbaGraphID :: string
  gbaNodeID :: string
  gbaOffset :: int
  gbaLength :: int

record serialGraphNodeFrameArgs =
  gfaGraphID :: string
  gfaNodeID :: string
  gfaOffset :: int
  gfaLimit :: int
  gfaDirection :: string
  gfaSearch :: string

record serialGraphResetNodeArgs =
  graGraphID :: string
  graNodeID :: string

section \<open>Requests\<close>

definition clampInt :: "int \<Rightarrow> int \<Rightarrow> int \<Rightarrow> int" where
  "clampInt v low high = (if v < low then low else if high < v then high else v)"

definition parseFlexibleInt :: "string \<Rightarrow> int" where
  "parseFlexibleInt text =
     (let s = trim_space text;
          decimal = (case parse_int10 64 s of Some n \<Rightarrow> n | None \<Rightarrow> 0) in
      if has_prefix (to_lower s) ''0x''
      then (case parse_int16 (drop 2 s) of
          Some n \<Rightarrow> if - (2 ^ 31) \<le> n \<and> n < 2 ^ 31 then n else decimal
        | None \<Rightarrow> decimal)
      else decimal)"

definition boolPoints :: "modbusBoolPointArg list \<Rightarrow> boolPoint list" where
  "boolPoints args = map (\<lambda>a. \<lparr>bpAddress = word_of_int (clampInt (mbaAddress a) 0 65535), bpValue = mbaValue a\<rparr>) args"

definition registerPoints :: "modbusRegisterPointArg list \<Rightarrow> registerPoint list" where
  "registerPoints args = map (\<lambda>a. \<lparr>rpAddress = word_of_int (clampInt (mpaAddress a) 0 65535),
     rpValue = word_of_int (clampInt (mpaValue a) 0 65535)\<rparr>) args"

definition dataModelSnapshot :: "modbusDataModelArgs \<Rightarrow> modelSnapshot" where
  "dataModelSnapshot a = \<lparr>snCoils = boolPoints (mdaCoils a), snDiscreteInputs = boolPoints (mdaDiscreteInputs a),
     snInputRegisters = registerPoints (mdaInputRegisters a), snHoldingRegisters = registerPoints (mdaHoldingRegisters a)\<rparr>"

definition registerMappings :: "modbusRegisterMappingArg list \<Rightarrow> registerMapping list" where
  "registerMappings args = map (\<lambda>a. \<lparr>rmAddress = word_of_int (clampInt (mgaAddress a) 0 65535),
     rmDataType = mgaDataType a, rmWordOrder = mgaWordOrder a, rmLength = word_of_int (clampInt (mgaLength a) 0 65535),
     rmScalingFactor = mgaScalingFactor a, rmComment = mgaComment a, rmInterpolate = None,
     rmGroupEnd = mgaGroupEnd a\<rparr>) args"

text \<open>\<open>fb.SlaveState\<close> and \<open>fb.SlaveUnitState\<close> have the same fields; the payloads stay nil.\<close>

definition fecUnitOf :: "int \<Rightarrow> int \<Rightarrow> bool \<Rightarrow> bool \<Rightarrow> fecUnit" where
  "fecUnitOf address statusCode auto broadcast =
     (let status = (if statusCode = 0 then uint StatusReceivedOK else statusCode) in
      \<lparr>fuAddress = word_of_int (clampInt address 1 63), fuDefaultStatus = word_of_int (clampInt status 0 255),
       fuAutoStatusAnswer = auto, fuAcceptBroadcast = broadcast, fuPayloads = []\<rparr>)"

definition fecbusSlaveState :: "fecbusSlaveStateArgs \<Rightarrow> fecUnit" where
  "fecbusSlaveState a = fecUnitOf (fsaAddress a) (fsaStatusCode a) (fsaAutoStatusAnswer a) (fsaAcceptBroadcast a)"

definition fecbusSlaveUnits :: "fecbusSlaveStateArgs \<Rightarrow> fecUnit list" where
  "fecbusSlaveUnits a =
     map (\<lambda>u. fecUnitOf (ftaAddress u) (ftaStatusCode u) (ftaAutoStatusAnswer u) (ftaAcceptBroadcast u)) (fsaUnits a)"

definition fecbusSlaveUnit :: "fecbusSlaveUnitArgs \<Rightarrow> fecUnit" where
  "fecbusSlaveUnit a = fecUnitOf (fuaAddress a) (fuaStatusCode a) (fuaAutoStatusAnswer a) (fuaAcceptBroadcast a)"

definition customEnum :: "(string \<times> string) list \<Rightarrow> (byte \<times> string) list" where
  "customEnum raws = foldl (\<lambda>m (raw, label). table_put (word_of_int (clampInt (parseFlexibleInt raw) 0 255)) label m) [] raws"

definition customFieldOf :: "fecbusCustomDataArg \<Rightarrow> customField" where
  "customFieldOf a = \<lparr>cfKey = fdaKey a, cfLabel = fdaLabel a, cfOffset = fdaOffset a, cfLength = fdaLength a,
     cfType = fdaType a, cfEndian = fdaEndian a, cfEnum = Some (customEnum (fdaEnum a)), cfMeaning = fdaMeaning a\<rparr>"

definition fecbusCustomFunctions :: "fecbusCustomFunctionArg list \<Rightarrow> customFunction list" where
  "fecbusCustomFunctions args = map (\<lambda>a. \<lparr>cuCode = word_of_int (clampInt (fcaCode a) 0 255), cuName = fcaName a,
     cuDescription = fcaDescription a, cuDirection = fcaDirection a, cuAnswer = fcaAnswer a,
     cuFields = map customFieldOf (fcaFields a)\<rparr>) args"

section \<open>Replies\<close>

text \<open>A handler returns a map with one key, or the error of the call.\<close>

definition reply :: "string \<Rightarrow> 's \<times> ('e + 'a) \<Rightarrow> 's \<times> ('e + string \<times> 'a)" where
  "reply key = map_prod id (map_sum id (Pair key))"

definition doneReply :: "string \<Rightarrow> 's \<times> 'e option \<Rightarrow> 's \<times> ('e + string \<times> bool)" where
  "doneReply key = map_prod id (\<lambda>e. case e of Some x \<Rightarrow> Inl x | None \<Rightarrow> Inr (key, True))"

lemma fst_replies [simp]: "fst (reply key r) = fst r" "fst (doneReply key d) = fst d"
  by (simp_all add: reply_def doneReply_def)

section \<open>Tools of terminals\<close>

definition argConfig :: "string \<Rightarrow> int \<Rightarrow> int \<Rightarrow> string \<Rightarrow> string \<Rightarrow> string \<Rightarrow> int \<Rightarrow> serialConfig" where
  "argConfig name baud bits stop par flow kb = \<lparr>scPortName = name, scBaudRate = baud, scDataBits = bits, scStopBits = stop,
     scParity = par, scFlowMode = flow, scReadBufKB = kb\<rparr>"

definition serial_enumerate_ports :: "service_error + string list \<Rightarrow> serialService \<Rightarrow> service_error + string \<times> string list" where
  "serial_enumerate_ports found s = (case found of Inl e \<Rightarrow> Inl e | Inr ports \<Rightarrow> Inr (''ports'', EnumeratePorts ports s))"

definition serial_open_port :: "openEvent \<Rightarrow> openPortArgs \<Rightarrow> serialService \<Rightarrow>
    serialService \<times> (service_error + string \<times> handleStatus)" where
  "serial_open_port opened a s = reply ''handle'' (OpenPort opened
     (argConfig (opaPortName a) (opaBaudRate a) (opaDataBits a) (opaStopBits a) (opaParity a) (opaFlowMode a) (opaReadBufKB a)) s)"

definition serial_close_port :: "portIDArgs \<Rightarrow> serialService \<Rightarrow> serialService \<times> (service_error + string \<times> bool)" where
  "serial_close_port a s = doneReply ''closed'' (ClosePort (piaPortID a) s)"

definition serial_list_open_ports :: "serialService \<Rightarrow> string \<times> handleStatus list" where
  "serial_list_open_ports s = (''handles'', ListPorts s)"

definition serial_send :: "text_codecs \<Rightarrow> writeEvent \<Rightarrow> sendArgs \<Rightarrow> serialService \<Rightarrow>
    serialService \<times> (service_error + string \<times> int)" where
  "serial_send codecs ev a s = reply ''bytes_written''
     (Send codecs ev (sdaPortID a) (sdaContent a) (if sdaMode a = [] then ''ascii'' else sdaMode a) (sdaEncoding a) s)"

record bufferReply =
  bfOffset :: int
  bfData :: bytes
  bfHex :: string
  bfTotal :: int
  bfEOF :: bool

definition bufferPage :: "snapshot \<Rightarrow> bufferReply" where
  "bufferPage p = \<lparr>bfOffset = snOffset p, bfData = snData p, bfHex = hex_encode (snData p), bfTotal = snTotal p, bfEOF = snEOF p\<rparr>"

definition serial_query_buffer :: "queryBufferArgs \<Rightarrow> serialService \<Rightarrow> service_error + bufferReply option" where
  "serial_query_buffer a s = map_sum id (map_option bufferPage)
     (QueryPage s (qbaPortID a) (qbaOffset a) (if qbaLength a \<le> 0 then 4096 else qbaLength a))"

definition serial_reset_counters :: "portIDArgs \<Rightarrow> serialService \<Rightarrow> serialService \<times> (service_error + string \<times> bool)" where
  "serial_reset_counters a s = doneReply ''reset'' (ResetCounters (piaPortID a) s)"

section \<open>Tools of virtual ports and bridges\<close>

definition serial_create_virtual_port :: "backend_event \<Rightarrow> virtualPortArgs \<Rightarrow> serialService \<Rightarrow>
    serialService \<times> (service_error + string \<times> virtualPair)" where
  "serial_create_virtual_port made a s = reply ''virtual_port'' (CreateVirtualPort made (vpaID a) (vpaPortName a) s)"

definition serial_delete_virtual_port :: "string option \<Rightarrow> idArgs \<Rightarrow> serialService \<Rightarrow>
    serialService \<times> (service_error + string \<times> bool)" where
  "serial_delete_virtual_port outcome a s = doneReply ''deleted'' (DeleteVirtualPair outcome (idaID a) s)"

definition serial_list_virtual_ports :: "serialService \<Rightarrow> string \<times> (string \<times> string) list" where
  "serial_list_virtual_ports s = (''virtual_ports'', ListVirtualPorts s)"

definition serial_create_virtual_pair :: "backend_event \<Rightarrow> virtualPairArgs \<Rightarrow> serialService \<Rightarrow>
    serialService \<times> (service_error + string \<times> virtualPair)" where
  "serial_create_virtual_pair made a s =
     reply ''virtual_pair'' (CreateVirtualPair made (vraID a) (vraPort1Name a) (vraPort2Name a) s)"

definition serial_delete_virtual_pair :: "string option \<Rightarrow> idArgs \<Rightarrow> serialService \<Rightarrow>
    serialService \<times> (service_error + string \<times> bool)" where
  "serial_delete_virtual_pair outcome a s = doneReply ''deleted'' (DeleteVirtualPair outcome (idaID a) s)"

definition serial_list_virtual_pairs :: "serialService \<Rightarrow> string \<times> (string \<times> string \<times> string) list" where
  "serial_list_virtual_pairs s = (''virtual_pairs'', ListVirtualPairs s)"

definition serial_create_bridge :: "openEvent \<Rightarrow> openEvent \<Rightarrow> bridgeArgs \<Rightarrow> serialService \<Rightarrow>
    serialService \<times> (service_error + string \<times> bridge)" where
  "serial_create_bridge open1 open2 a s =
     reply ''bridge'' (CreateBridge open1 open2 (braID a) (braPort1 a) (braPort2 a) (braBaudRate a) s)"

definition serial_delete_bridge :: "idArgs \<Rightarrow> serialService \<Rightarrow> serialService \<times> (service_error + string \<times> bool)" where
  "serial_delete_bridge a s = doneReply ''deleted'' (DeleteBridge (idaID a) s)"

definition serial_list_bridges :: "serialService \<Rightarrow> string \<times> (string \<times> string \<times> string \<times> int) list" where
  "serial_list_bridges s = (''bridges'', ServiceBridges s)"

definition serial_cleanup_virtual :: "startEnv \<Rightarrow> serialService \<Rightarrow> serialService \<times> string \<times> bool" where
  "serial_cleanup_virtual env s = (CleanupVirtual env s, ''cleaned'', True)"

section \<open>Tools of graphs\<close>

definition serial_graph_provider_catalog :: "string \<times> graphProvider list" where
  "serial_graph_provider_catalog = (''providers'', serialGraphProviders)"

text \<open>The reply to a validation: whether there are errors, and which.\<close>

definition serial_graph_validate :: "(string \<Rightarrow> string) \<Rightarrow> graphValidateArgs \<Rightarrow> bool \<times> mcp_error list" where
  "serial_graph_validate lower a = (let result = validateSerialGraph lower a in (result = [], result))"

text \<open>The topology of the template; \<open>Inl None\<close> if there is none of that name.\<close>

definition serial_graph_demo_template :: "demoArgs \<Rightarrow> demo_error option + graphStartArgs" where
  "serial_graph_demo_template a = (case serialGraphDemoTemplate a of
       None \<Rightarrow> Inl None | Some (Inl e) \<Rightarrow> Inl (Some e) | Some (Inr template) \<Rightarrow> Inr template)"

definition serial_graph_start :: "startEnv \<Rightarrow> string option \<Rightarrow> string \<Rightarrow> graphStartArgs \<Rightarrow> serialService \<Rightarrow>
    serialService \<times> (service_error + string \<times> string \<times> string \<times> runtime_error option \<times> nodeStatus list)" where
  "serial_graph_start env ctxErr now a s = reply ''graph'' (StartSerialGraph env ctxErr now (serialGraphStartRequest a) s)"

definition serial_graph_stop :: "startEnv \<Rightarrow> serialGraphIDArgs \<Rightarrow> serialService \<Rightarrow>
    serialService \<times> (service_error + string \<times> bool)" where
  "serial_graph_stop env a s = doneReply ''stopped'' (StopSerialGraph env (giaGraphID a) s)"

definition serial_graph_status :: "serialGraphIDArgs \<Rightarrow> serialService \<Rightarrow>
    service_error + string \<times> string \<times> string \<times> runtime_error option \<times> nodeStatus list" where
  "serial_graph_status a s = map_sum id (Pair ''graph'') (GetSerialGraphStatus s (giaGraphID a))"

definition serial_graph_send :: "graphEnv \<Rightarrow> serialGraphSendArgs \<Rightarrow> serialService \<Rightarrow>
    (serialService \<times> (service_error + string \<times> int)) option" where
  "serial_graph_send env a s = map_option (reply ''bytes_written'') (SendSerialGraphNode env (gsaGraphID a)
     \<lparr>gsNodeID = gsaNodeID a, gsContent = gsaContent a, gsMode = gsaMode a, gsEncoding = gsaEncoding a\<rparr> s)"

definition serial_graph_query_node_buffer :: "serialGraphNodeBufferArgs \<Rightarrow> serialService \<Rightarrow>
    service_error + bufferReply option" where
  "serial_graph_query_node_buffer a s = map_sum id (map_option bufferPage)
     (QuerySerialGraphNodeBuffer s (gbaGraphID a) (gbaNodeID a) (gbaOffset a) (gbaLength a))"

definition serial_graph_query_node_frames :: "(string \<Rightarrow> string) \<Rightarrow> serialGraphNodeFrameArgs \<Rightarrow> serialService \<Rightarrow>
    service_error + graphFramePage option" where
  "serial_graph_query_node_frames lower a s = QuerySerialGraphNodeFrames lower s (gfaGraphID a) (gfaNodeID a)
     \<lparr>fyOffset = gfaOffset a, fyLimit = gfaLimit a, fyDirection = gfaDirection a, fySearch = gfaSearch a\<rparr>"

definition serial_graph_clear_node_buffer :: "serialGraphResetNodeArgs \<Rightarrow> serialService \<Rightarrow>
    serialService \<times> (service_error + string \<times> bool)" where
  "serial_graph_clear_node_buffer a s = doneReply ''cleared'' (ClearSerialGraphNodeBuffer (graGraphID a) (graNodeID a) s)"

definition serial_graph_reset_node_counters :: "serialGraphResetNodeArgs \<Rightarrow> serialService \<Rightarrow>
    serialService \<times> (service_error + string \<times> bool)" where
  "serial_graph_reset_node_counters a s = doneReply ''reset'' (ResetSerialGraphNodeCounters (graGraphID a) (graNodeID a) s)"

section \<open>Tools of monitors\<close>

text \<open>The name of the port is that of the request, not of its configuration.\<close>

definition monitorArgRequest :: "startMonitorArgs \<Rightarrow> monitorRequest" where
  "monitorArgRequest a = \<lparr>moID = smaID a, moName = smaName a, moProvider = [], moPortA = smaPort a, moPortB = [],
     moEndpointA = [], moEndpointB = [], moExternalPort = [], moAutoVirtualPortID = [],
     moConfig = argConfig [] (smaBaudRate a) (smaDataBits a) (smaStopBits a) (smaParity a) (smaFlowMode a) (smaReadBufKB a),
     moEncoding = smaEncoding a\<rparr>"

definition serial_start_monitor :: "backend_event \<Rightarrow> string option \<Rightarrow> bool \<Rightarrow> openEvent \<Rightarrow> openEvent \<Rightarrow> string \<Rightarrow> string \<Rightarrow>
    startMonitorArgs \<Rightarrow> serialService \<Rightarrow> serialService \<times> (service_error + string \<times> monitorInfo)" where
  "serial_start_monitor made unpaired cancelled openA openB stamp1 stamp2 a s = reply ''monitor''
     (StartAutoVirtualMonitor made unpaired cancelled openA openB stamp1 stamp2 (monitorArgRequest a) s)"

definition serial_stop_monitor :: "string option \<Rightarrow> monitorIDArgs \<Rightarrow> serialService \<Rightarrow>
    serialService \<times> (service_error + string \<times> bool)" where
  "serial_stop_monitor unpaired a s = doneReply ''stopped'' (StopMonitor unpaired (miaMonitorID a) s)"

definition serial_delete_monitor :: "string option \<Rightarrow> monitorIDArgs \<Rightarrow> serialService \<Rightarrow>
    serialService \<times> (service_error + string \<times> bool)" where
  "serial_delete_monitor unpaired a s = doneReply ''deleted'' (DeleteMonitor unpaired (miaMonitorID a) s)"

definition serial_list_monitors :: "serialService \<Rightarrow> string \<times> monitorInfo list" where
  "serial_list_monitors s = (''monitors'', ListMonitors s)"

definition serial_query_monitor_frames :: "(string \<Rightarrow> string) \<Rightarrow> queryMonitorFramesArgs \<Rightarrow> serialService \<Rightarrow>
    service_error + string \<times> monitorPage" where
  "serial_query_monitor_frames lower a s = map_sum id (Pair ''page'') (QueryMonitorFrames lower
     \<lparr>mqMonitorID = qmaMonitorID a, mqOffset = qmaOffset a, mqLimit = qmaLimit a, mqDirection = qmaDirection a,
      mqSearch = qmaSearch a\<rparr> s)"

definition serial_clear_monitor_frames :: "monitorIDArgs \<Rightarrow> serialService \<Rightarrow> serialService \<times> (service_error + string \<times> bool)" where
  "serial_clear_monitor_frames a s = doneReply ''cleared'' (ClearMonitorFrames (miaMonitorID a) s)"

section \<open>Modbus tools\<close>

text \<open>\<open>byte(clampInt(unit, 1, 247))\<close> and \<open>uint16(clampInt(value, low, 65535))\<close>\<close>

definition unitArg :: "int \<Rightarrow> byte" where "unitArg u = word_of_int (clampInt u 1 247)"
definition wordArg :: "int \<Rightarrow> int \<Rightarrow> u16" where "wordArg low v = word_of_int (clampInt v low 65535)"

text \<open>The function code is converted without a check: \<open>mb.FunctionCode(args.Function)\<close> keeps its low byte.\<close>

definition functionArg :: "int \<Rightarrow> function_code" where "functionArg f = word_of_int f"

definition modbusOpenRequest :: "modbusOpenSessionArgs \<Rightarrow> openRequest" where
  "modbusOpenRequest a = \<lparr>orID = moaID a, orName = moaName a, orMode = moaMode a, orRole = moaRole a,
     orConfig = argConfig (moaPort a) (moaBaudRate a) (moaDataBits a) (moaStopBits a) (moaParity a) (moaFlowMode a) (moaReadBufKB a),
     orEndpoint = [], orTimeoutMs = moaTimeoutMs a, orRetries = moaRetries a\<rparr>"

definition modbus_open_session :: "string option \<Rightarrow> openEvent \<Rightarrow> modbusOpenSessionArgs \<Rightarrow> serialService \<Rightarrow>
    serialService \<times> (service_error + string \<times> sessionInfo)" where
  "modbus_open_session ctxErr opened a s = reply ''session'' (OpenModbusSession ctxErr opened (modbusOpenRequest a) s)"

definition modbus_close_session :: "bool \<Rightarrow> string option \<Rightarrow> modbusSessionIDArgs \<Rightarrow> serialService \<Rightarrow>
    serialService \<times> (service_error + string \<times> bool)" where
  "modbus_close_session timely closeErr a s = doneReply ''closed'' (CloseModbusSession timely closeErr (msaSessionID a) s)"

definition modbus_list_sessions :: "serialService \<Rightarrow> string \<times> sessionInfo list" where
  "modbus_list_sessions s = (''sessions'', ListModbusSessions s)"

definition masterArgRequest :: "modbusMasterRequestArgs \<Rightarrow> masterRequest" where
  "masterArgRequest a = \<lparr>mqSessionID = mraSessionID a, mqUnitID = unitArg (mraUnitID a), mqFunction = functionArg (mraFunction a),
     mqAddressMode = mraAddressMode a, mqAddress = wordArg 0 (mraAddress a), mqQuantity = wordArg 0 (mraQuantity a),
     mqValue = wordArg 0 (mraValue a), mqCoilValues = mraCoilValues a, mqRegisterValues = mraRegisterValues a,
     mqTimeoutMs = mraTimeoutMs a, mqRetries = mraRetries a\<rparr>"

text \<open>A transaction that failed is not part of the reply.\<close>

definition transactionReply :: "'tx option \<times> 'e option \<Rightarrow> 'e + string \<times> 'tx option" where
  "transactionReply r = (case r of (tx, Some e) \<Rightarrow> Inl e | (tx, None) \<Rightarrow> Inr (''transaction'', tx))"

definition modbus_master_request :: "attempt_env \<Rightarrow> modbusMasterRequestArgs \<Rightarrow> serialService \<Rightarrow>
    (serialService \<times> (service_error + string \<times> modbusTransaction option)) option" where
  "modbus_master_request env a s = map_option (map_prod id transactionReply) (ModbusMasterRequest env (masterArgRequest a) s)"

definition startSlaveArgRequest :: "modbusStartSlaveArgs \<Rightarrow> startSlaveRequest" where
  "startSlaveArgRequest a = \<lparr>srqSessionID = mlaSessionID a, srqUnitID = unitArg (mlaUnitID a),
     srqDataModel = dataModelSnapshot (mlaDataModel a),
     srqUnits = map (\<lambda>u. \<lparr>suUnitID = unitArg (muaUnitID u), suDataModel = dataModelSnapshot (muaDataModel u)\<rparr>) (mlaUnits a)\<rparr>"

definition modbus_start_slave :: "modbusStartSlaveArgs \<Rightarrow> serialService \<Rightarrow> serialService \<times> (service_error + string \<times> sessionInfo)" where
  "modbus_start_slave a s = reply ''session'' (StartModbusSlave (startSlaveArgRequest a) s)"

definition modbus_stop_slave :: "bool \<Rightarrow> modbusSessionIDArgs \<Rightarrow> serialService \<Rightarrow> serialService \<times> (service_error + string \<times> bool)" where
  "modbus_stop_slave timely a s = doneReply ''stopped'' (StopModbusSlave timely (msaSessionID a) s)"

definition modbus_update_slave_data :: "modbusUpdateSlaveDataArgs \<Rightarrow> serialService \<Rightarrow> serialService \<times> (service_error + string \<times> bool)" where
  "modbus_update_slave_data a s = doneReply ''updated'' (UpdateModbusSlaveData (mtaSessionID a) (dataModelSnapshot (mtaDataModel a)) s)"

definition modbus_add_slave_unit :: "modbusAddSlaveUnitArgs \<Rightarrow> serialService \<Rightarrow> serialService \<times> (service_error + string \<times> bool)" where
  "modbus_add_slave_unit a s = doneReply ''added'' (AddModbusSlaveUnit (mxaSessionID a)
     \<lparr>suUnitID = unitArg (mxaUnitID a), suDataModel = dataModelSnapshot (mxaDataModel a)\<rparr> s)"

definition modbus_remove_slave_unit :: "modbusUnitIDArgs \<Rightarrow> serialService \<Rightarrow> serialService \<times> (service_error + string \<times> bool)" where
  "modbus_remove_slave_unit a s = doneReply ''removed'' (RemoveModbusSlaveUnit (mnaSessionID a) (unitArg (mnaUnitID a)) s)"

definition modbus_list_slave_units :: "(byte \<Rightarrow> u16 list \<times> u16 list \<times> u16 list \<times> u16 list) \<Rightarrow> modbusSessionIDArgs \<Rightarrow>
    serialService \<Rightarrow> service_error + string \<times> slaveUnit list" where
  "modbus_list_slave_units orders a s = map_sum id (Pair ''units'') (ListModbusSlaveUnits orders (msaSessionID a) s)"

definition modbus_update_slave_unit_data :: "modbusUpdateSlaveUnitDataArgs \<Rightarrow> serialService \<Rightarrow>
    serialService \<times> (service_error + string \<times> bool)" where
  "modbus_update_slave_unit_data a s = doneReply ''updated''
     (UpdateModbusSlaveUnitData (myaSessionID a) (unitArg (myaUnitID a)) (dataModelSnapshot (myaDataModel a)) s)"

definition readArgRequest :: "modbusReadRegistersArgs \<Rightarrow> registerReadRequest" where
  "readArgRequest a = \<lparr>rqSessionID = meaSessionID a, rqUnitID = unitArg (meaUnitID a), rqFunction = functionArg (meaFunction a),
     rqAddressMode = meaAddressMode a, rqAddress = wordArg 0 (meaAddress a), rqQuantity = wordArg 1 (meaQuantity a),
     rqTimeoutMs = meaTimeoutMs a, rqRetries = meaRetries a\<rparr>"

definition modbus_read_registers :: "float_texts \<Rightarrow> (int \<Rightarrow> int) \<Rightarrow> attempt_env \<Rightarrow> modbusReadRegistersArgs \<Rightarrow> serialService \<Rightarrow>
    (serialService \<times> (service_error + string \<times> registerReadResult \<times> mappedRegisterValue list)) option" where
  "modbus_read_registers ft zone env a s = map_option (reply ''result'')
     (ModbusReadRegisters ft zone env (readArgRequest a) (registerMappings (meaMappings a)) s)"

definition unitScanArgRequest :: "modbusScanUnitIDsArgs \<Rightarrow> unitScanRequest" where
  "unitScanArgRequest a = \<lparr>usSessionID = mcaSessionID a, usUnitIDs = mcaUnitIDs a, usFunction = functionArg (mcaFunction a),
     usAddressMode = mcaAddressMode a, usAddress = wordArg 0 (mcaAddress a), usQuantity = wordArg 1 (mcaQuantity a),
     usTimeoutMs = mcaTimeoutMs a, usRetries = mcaRetries a\<rparr>"

definition modbus_scan_unit_ids :: "(nat \<Rightarrow> attempt_env) \<Rightarrow> modbusScanUnitIDsArgs \<Rightarrow> serialService \<Rightarrow>
    (serialService \<times> (service_error + string \<times> unitScanResult)) option" where
  "modbus_scan_unit_ids envs a s = map_option (reply ''result'') (ModbusScanUnitIDs envs (unitScanArgRequest a) s)"

definition scanArgRequest :: "modbusScanRegistersArgs \<Rightarrow> registerScanRequest" where
  "scanArgRequest a = \<lparr>rsSessionID = mzaSessionID a, rsUnitID = unitArg (mzaUnitID a), rsFunction = functionArg (mzaFunction a),
     rsAddressMode = mzaAddressMode a, rsStart = wordArg 0 (mzaStartAddress a), rsEnd = wordArg 0 (mzaEndAddress a),
     rsChunkSize = wordArg 1 (mzaChunkSize a), rsTimeoutMs = mzaTimeoutMs a, rsRetries = mzaRetries a\<rparr>"

definition modbus_scan_registers :: "(nat \<Rightarrow> attempt_env) \<Rightarrow> modbusScanRegistersArgs \<Rightarrow> serialService \<Rightarrow>
    (serialService \<times> (service_error + string \<times> registerScanResult)) option" where
  "modbus_scan_registers envs a s = map_option (reply ''result'') (ModbusScanRegisters envs (scanArgRequest a) s)"

section \<open>FECbus tools\<close>

definition fecbus_function_catalog :: "string \<times> functionInfo list" where
  "fecbus_function_catalog = (''functions'', FunctionCatalog)"

definition fecbusOpenRequest :: "fecbusOpenSessionArgs \<Rightarrow> fecOpenRequest" where
  "fecbusOpenRequest a = \<lparr>foID = foaID a, foName = foaName a, foRole = foaRole a,
     foConfig = argConfig (foaPort a) (foaBaudRate a) (foaDataBits a) (foaStopBits a) (foaParity a) (foaFlowMode a) (foaReadBufKB a),
     foEndpoint = [], foTimeoutMs = foaTimeoutMs a, foRetries = foaRetries a\<rparr>"

definition fecbus_open_session :: "string option \<Rightarrow> openEvent \<Rightarrow> fecbusOpenSessionArgs \<Rightarrow> serialService \<Rightarrow>
    serialService \<times> (service_error + string \<times> fecSessionInfo)" where
  "fecbus_open_session ctxErr opened a s = reply ''session'' (OpenFecbusSession ctxErr opened (fecbusOpenRequest a) s)"

definition fecbus_close_session :: "bool \<Rightarrow> string option \<Rightarrow> fecbusSessionIDArgs \<Rightarrow> serialService \<Rightarrow>
    serialService \<times> (service_error + string \<times> bool)" where
  "fecbus_close_session timely closeErr a s = doneReply ''closed'' (CloseFecbusSession timely closeErr (fiaSessionID a) s)"

definition fecbus_list_sessions :: "serialService \<Rightarrow> string \<times> fecSessionInfo list" where
  "fecbus_list_sessions s = (''sessions'', ListFecbusSessions s)"

definition byteArg :: "int \<Rightarrow> int \<Rightarrow> byte" where "byteArg high v = word_of_int (clampInt v 0 high)"

definition fecSendArgRequest :: "fecbusSendRequestArgs \<Rightarrow> fecSendRequest" where
  "fecSendArgRequest a = \<lparr>fqrSessionID = fraSessionID a, fqrFrameType = byteArg 1 (fraFrameType a),
     fqrTarget = byteArg 63 (fraTargetAddress a), fqrPriority = byteArg 3 (fraPriority a),
     fqrSource = byteArg 63 (fraSourceAddress a), fqrMessage = byteArg 63 (fraMessageNumber a),
     fqrGroup = byteArg 127 (fraGroupNumber a), fqrFunction = byteArg 255 (fraFunction a), fqrDataHex = fraDataHex a,
     fqrData = [], fqrExpectAnswer = fraExpectAnswer a, fqrTimeoutMs = fraTimeoutMs a, fqrRetries = fraRetries a\<rparr>"

definition fecbus_send_request :: "attempt_env \<Rightarrow> fecbusSendRequestArgs \<Rightarrow> serialService \<Rightarrow>
    (serialService \<times> (service_error + string \<times> fecTransaction option)) option" where
  "fecbus_send_request env a s = map_option (map_prod id transactionReply) (FecbusSendRequest env (fecSendArgRequest a) s)"

definition fecbus_start_slave :: "fecbusSlaveStateArgs \<Rightarrow> serialService \<Rightarrow> serialService \<times> (service_error + string \<times> fecSessionInfo)" where
  "fecbus_start_slave a s = reply ''session'' (StartFecbusSlave
     \<lparr>fsrSessionID = fsaSessionID a, fsrState = fecbusSlaveState a, fsrUnits = fecbusSlaveUnits a\<rparr> s)"

definition fecbus_stop_slave :: "bool \<Rightarrow> fecbusSessionIDArgs \<Rightarrow> serialService \<Rightarrow> serialService \<times> (service_error + string \<times> bool)" where
  "fecbus_stop_slave timely a s = doneReply ''stopped'' (StopFecbusSlave timely (fiaSessionID a) s)"

definition fecbus_update_slave_state :: "fecbusSlaveStateArgs \<Rightarrow> serialService \<Rightarrow> serialService \<times> (service_error + string \<times> bool)" where
  "fecbus_update_slave_state a s = doneReply ''updated'' (UpdateFecbusSlaveState (fsaSessionID a) (fecbusSlaveState a) s)"

definition fecbus_list_slave_units :: "fecbusSessionIDArgs \<Rightarrow> serialService \<Rightarrow> service_error + string \<times> fecUnitInfo list" where
  "fecbus_list_slave_units a s = map_sum id (Pair ''units'') (ListFecbusSlaveUnits (fiaSessionID a) s)"

definition fecbus_add_slave_unit :: "fecbusSlaveUnitArgs \<Rightarrow> serialService \<Rightarrow> serialService \<times> (service_error + string \<times> bool)" where
  "fecbus_add_slave_unit a s = doneReply ''updated'' (AddFecbusSlaveUnit (fuaSessionID a) (fecbusSlaveUnit a) s)"

definition fecbus_remove_slave_unit :: "fecbusSlaveUnitArgs \<Rightarrow> serialService \<Rightarrow> serialService \<times> (service_error + string \<times> bool)" where
  "fecbus_remove_slave_unit a s = doneReply ''removed''
     (RemoveFecbusSlaveUnit (fuaSessionID a) (word_of_int (clampInt (fuaAddress a) 1 63)) s)"

definition fecbus_query_frames :: "fecbusQueryFramesArgs \<Rightarrow> serialService \<Rightarrow>
    service_error + string \<times> (framePage \<times> (frameRecord \<times> annotatedFrame) list) option" where
  "fecbus_query_frames a s = map_sum id (Pair ''page'') (QueryFecbusFrames
     \<lparr>fqSessionID = fqaSessionID a, fqOffset = fqaOffset a, fqLimit = fqaLimit a, fqDirection = fqaDirection a,
      fqSearch = fqaSearch a\<rparr> (fecbusCustomFunctions (fqaCustom a)) s)"

definition fecbus_clear_frames :: "fecbusSessionIDArgs \<Rightarrow> serialService \<Rightarrow> serialService \<times> (service_error + string \<times> bool)" where
  "fecbus_clear_frames a s = doneReply ''cleared'' (ClearFecbusFrames (fiaSessionID a) s)"

end
