(* ===== verification/McpToolsFacts.thy ===== *)
theory McpToolsFacts
  imports SessionCalls McpTools
begin

text \<open>
  The service as the tools of the MCP server drive it: every state that tool calls and received data lead
  to keeps the sessions apart from the ports of others, and every simulated FECbus device in it can answer.
\<close>

section \<open>Calls on open sessions hold what they held\<close>

lemma modbus_same:
  assumes "manager_wf (svModbus s) \<Longrightarrow> manager_wf m \<and> portOf m = portOf (svModbus s)"
  shows "good_step s (s\<lparr>svModbus := m\<rparr>)"
  by (rule part_good, intro exI [of _ ModbusSessions] exI [of _ "{}"])
    (use assms in \<open>auto simp: part_ok_def service_wf_def intro!: takes_modbus\<close>)

lemma fecbus_same:
  assumes "fec_manager_wf (svFecbus s) \<Longrightarrow> fec_manager_wf m \<and> fecPortOf m = fecPortOf (svFecbus s)"
  shows "good_step s (s\<lparr>svFecbus := m\<rparr>)"
  by (rule part_good, intro exI [of _ FecbusSessions] exI [of _ "{}"])
    (use assms in \<open>auto simp: part_ok_def service_wf_def intro!: takes_fecbus\<close>)

lemma put_kept:
  assumes "getSession m i = Inr x" and "modbusKept y = modbusKept x" and "manager_wf m"
  shows "manager_wf (putSession m i y)" and "portOf (putSession m i y) = portOf m"
proof -
  have "putSession m i y = fst (onSession m i (\<lambda>s. (if s = x then y else s, None)))"
    using assms(1) by (simp add: onSession_def)
  moreover have "manager_wf (fst (onSession m i (\<lambda>s. (if s = x then y else s, None))))
      \<and> portOf (fst (onSession m i (\<lambda>s. (if s = x then y else s, None)))) = portOf m"
    by (rule onSession_wf [OF assms(3)]) (use assms(2) in \<open>auto simp: modbusKept_def\<close>)
  ultimately show "manager_wf (putSession m i y)" and "portOf (putSession m i y) = portOf m" by simp_all
qed

lemma fecPut_kept:
  assumes "fecGet m i = Inr x" and "fecKept y = fecKept x" and "fec_manager_wf m"
  shows "fec_manager_wf (fecPutSession m i y)" and "fecPortOf (fecPutSession m i y) = fecPortOf m"
proof -
  have "fecPutSession m i y = fst (fecOnSession m i (\<lambda>s. (if s = x then y else s, None)))"
    using assms(1) by (simp add: fecOnSession_def)
  moreover have "fec_manager_wf (fst (fecOnSession m i (\<lambda>s. (if s = x then y else s, None))))
      \<and> fecPortOf (fst (fecOnSession m i (\<lambda>s. (if s = x then y else s, None)))) = fecPortOf m"
    by (rule fecOnSession_wf [OF assms(3)]) (use assms(2) in \<open>auto simp: fecKept_def\<close>)
  ultimately show "fec_manager_wf (fecPutSession m i y)" and "fecPortOf (fecPutSession m i y) = fecPortOf m" by simp_all
qed

lemma modbus_session_op:
  assumes "\<And>x. msStatus x \<noteq> StatusClosed \<Longrightarrow> msStatus (fst (f x)) \<noteq> StatusClosed \<and> msReq (fst (f x)) = msReq x"
  shows "good_step s (fst (onModbus (\<lambda>m. onSession m i f) s))"
  by (simp, rule modbus_same) (rule onSession_wf [OF _ assms])

lemma fecbus_session_op:
  assumes "\<And>x. fsStatus x \<noteq> fecClosed \<Longrightarrow> fsStatus (fst (f x)) \<noteq> fecClosed \<and> fsReq (fst (f x)) = fsReq x"
  shows "good_step s (fst (onFecbus (\<lambda>m. fecOnSession m i f) s))"
  by (simp, rule fecbus_same) (rule fecOnSession_wf [OF _ assms])

lemma modbus_requests_good:
  "ModbusMasterRequest env req s = Some (s', r) \<Longrightarrow> good_step s s'"
  "ModbusReadRegisters ft zone env rreq ms s = Some (s', rr) \<Longrightarrow> good_step s s'"
  "ModbusScanUnitIDs envs ureq s = Some (s', ru) \<Longrightarrow> good_step s s'"
  "ModbusScanRegisters envs sreq s = Some (s', rs) \<Longrightarrow> good_step s s'"
  by (auto simp: ModbusMasterRequest_def MasterRequestOn_def ModbusReadRegisters_def ReadRegisters_def ModbusScanUnitIDs_def
      ScanUnitIDs_def ModbusScanRegisters_def ScanRegisters_def good_refl
      intro!: modbus_same intro: put_kept modbus_calls_keep [OF _ refl] split: sum.splits)

lemma fecbus_request_good: "FecbusSendRequest env req s = Some (s', r) \<Longrightarrow> good_step s s'"
  by (auto simp: FecbusSendRequest_def FecSendRequest_def good_refl
      intro!: fecbus_same intro: fecPut_kept fq.send_quiet [OF _ refl] split: sum.splits)

lemma modbus_slave_good:
  "good_step s (fst (StopModbusSlave timely i s))" "good_step s (fst (UpdateModbusSlaveData i sn s))"
  "good_step s (fst (AddModbusSlaveUnit i unit s))" "good_step s (fst (RemoveModbusSlaveUnit i u s))"
  "good_step s (fst (UpdateModbusSlaveUnitData i u sn s))"
  unfolding StopModbusSlave_def StopSlaveOn_def UpdateModbusSlaveData_def UpdateSlaveData_def AddModbusSlaveUnit_def
    AddSlaveUnit_def RemoveModbusSlaveUnit_def RemoveSlaveUnit_def UpdateModbusSlaveUnitData_def UpdateSlaveUnitData_def
  by (rule modbus_session_op; auto simp: stopSlave_def setDataModel_def addSlaveUnit_def removeSlaveUnit_def
      updateSlaveUnitData_def setUnitDataModel_def Let_def split: option.splits)+

lemma modbus_start_good: "good_step s (fst (StartModbusSlave req s))"
proof -
  have "good_step s (s\<lparr>svModbus := fst (StartSlaveOn (svModbus s) req)\<rparr>)"
    unfolding StartSlaveOn_onSession
    by (rule modbus_same, rule onSession_wf) (auto simp: startSlave_def Let_def split: sum.splits)
  then show ?thesis by (simp add: StartModbusSlave_def split: prod.split) (metis fst_conv)
qed

lemma fecbus_slave_good:
  "good_step s (fst (StopFecbusSlave timely i s))" "good_step s (fst (UpdateFecbusSlaveState i u s))"
  "good_step s (fst (AddFecbusSlaveUnit i u s))" "good_step s (fst (RemoveFecbusSlaveUnit i a s))"
  "good_step s (fst (ClearFecbusFrames i s))"
  unfolding StopFecbusSlave_def FecStopSlave_def UpdateFecbusSlaveState_def AddFecbusSlaveUnit_def FecAddSlaveUnit_def
    RemoveFecbusSlaveUnit_def FecRemoveSlaveUnit_def ClearFecbusFrames_def FecClearFrames_def
  by (rule fecbus_session_op; auto simp: fecStopSlave_def setSlaveUnit_def fecRemoveUnit_def clearFrames_def Let_def)+

lemma fecbus_start_good: "good_step s (fst (StartFecbusSlave req s))"
proof -
  have "good_step s (s\<lparr>svFecbus := fst (FecStartSlave (svFecbus s) req)\<rparr>)"
    unfolding FecStartSlave_def
    by (rule fecbus_same, rule fecOnSession_wf) (auto simp: fecStartSlave_def Let_def)
  then show ?thesis by (auto simp: StartFecbusSlave_def split: prod.split option.split)
qed

lemma clear_monitor_good: "good_step s (fst (ClearMonitorFrames i s))"
proof -
  have "good_step s (s\<lparr>svMonitors := fst (monClear i (svMonitors s))\<rparr>)"
    by (intro monitors_good clear_less) (simp add: mon_ok_def)
  then show ?thesis by (simp add: ClearMonitorFrames_def split: prod.split) (metis fst_conv)
qed

lemma counters_good: "good_step s (fst (ResetCounters i s))"
proof -
  let ?m = "fst (managerResetCounters (svManager s) i)"
  have "portManager_wf ?m \<and> handlePort ?m = handlePort (svManager s)" if "portManager_wf (svManager s)"
    using withHandle_wf [OF that, of "\<lambda>h. h\<lparr>hdRxBytes := 0, hdTxBytes := 0\<rparr>" i] that
    by (simp add: managerResetCounters_def)
  moreover have "handles_open ?m" if "handles_open (svManager s)"
    using that by (auto simp: managerResetCounters_def withHandle_def handles_open_def table_put_def table_del_def
        dest!: map_of_SomeD split: option.splits)
  ultimately have "good_step s (s\<lparr>svManager := ?m\<rparr>)"
    by (intro part_good exI [of _ Terminals] exI [of _ "{}"]) (auto simp: part_ok_def service_wf_def intro!: takes_manager)
  then show ?thesis by (simp add: ResetCounters_def)
qed

section \<open>Graphs without virtual ports\<close>

definition physicalOnly :: "graphRuntime \<Rightarrow> bool" where
  "physicalOnly r \<longleftrightarrow> (\<forall>n \<in> snd ` set (grNodes r). nsType (gnSpec n) \<noteq> ''serial.virtual'')"

lemma physical_put: "nsType (gnSpec n) \<noteq> ''serial.virtual'' \<Longrightarrow> physicalOnly r \<Longrightarrow> physicalOnly (r\<lparr>grNodes := table_put i n (grNodes r)\<rparr>)"
  by (auto simp: physicalOnly_def table_put_def table_del_def)

lemma physical_on:
  assumes "\<And>n. gnSpec (f n) = gnSpec n" and "physicalOnly r"
  shows "physicalOnly (runtimeOnNode i f r)"
proof (cases "map_of (grNodes r) i")
  case (Some n)
  then have "(i, n) \<in> set (grNodes r)" by (rule map_of_SomeD)
  with assms have "nsType (gnSpec (f n)) \<noteq> ''serial.virtual''" by (force simp: physicalOnly_def)
  with Some assms(2) show ?thesis by (simp add: runtimeOnNode_def physical_put)
qed (simp add: runtimeOnNode_def assms(2))

lemma physical_simps [simp]:
  "physicalOnly (addOwnedPort i r) = physicalOnly r" "physicalOnly (subscribeSerialData r) = physicalOnly r"
  by (simp_all add: addOwnedPort_def subscribeSerialData_def physicalOnly_def)

lemma physical_begin: "physicalOnly r \<Longrightarrow> physicalOnly (graphBegin r)"
  by (force simp: graphBegin_def allNodes_def nodeSetStatus_def physicalOnly_def)

lemma physical_onGraph: "(physicalOnly (graphAt s a) \<Longrightarrow> physicalOnly (f (graphAt s a))) \<Longrightarrow> physicalOnly (graphAt s a) \<Longrightarrow>
    physicalOnly (graphAt (onGraph a f s) a)"
  by (cases "a < length (svHeap s)") (simp_all add: onGraph_def graphAt_def list_update_beyond)

lemma node_specs [simp]:
  "gnSpec (setHandleID h n) = gnSpec n" "gnSpec (setResourceID h n) = gnSpec n" "gnSpec (nodeSetStatus st e n) = gnSpec n"
  "gnSpec (setRemoteConn k n) = gnSpec n" "gnSpec (setRemoteListener n) = gnSpec n"
  by (simp_all add: setHandleID_def setResourceID_def nodeSetStatus_def setRemoteConn_def setRemoteListener_def)

lemma physical_error: "physicalOnly (graphAt s a) \<Longrightarrow> physicalOnly (graphAt (setNodeError a n e s) a)"
  unfolding setNodeError_def by (rule physical_onGraph) (simp_all add: physical_on)

lemma physical_manager [simp]: "graphAt (s\<lparr>svManager := m\<rparr>) a = graphAt s a"
  by (simp add: graphAt_def)

lemma physical_no_virtual: "physicalOnly (graphAt s a) \<Longrightarrow> \<not> starts_virtual s a i"
  by (force simp: physicalOnly_def starts_virtual_def dest: map_of_SomeD)

lemma startNode_physical:
  assumes "physicalOnly (graphAt s a)"
  shows "physicalOnly (graphAt (fst (startNode env a i s)) a)"
proof (cases "map_of (grNodes (graphAt s a)) i")
  case (Some node)
  have "physicalOnly (graphAt (fst (startPhysicalNode env a node s)) a)"
    using assms by (auto simp: startPhysicalNode_def Let_def intro!: physical_error physical_onGraph physical_on
        split: option.split prod.split sum.split)
  moreover have "physicalOnly (graphAt (fst (startRemoteNode env a node s)) a)"
    using assms by (auto simp: startRemoteNode_def Let_def intro!: physical_error physical_onGraph physical_on split: option.split sum.split)
  ultimately show ?thesis using physical_no_virtual [OF assms, of i] Some assms by (auto simp: startNode_def starts_virtual_def)
qed (use assms in \<open>simp add: startNode_def\<close>)

lemma startNodes_physical:
  "physicalOnly (graphAt s a) \<Longrightarrow> good_step s (fst (startNodes env a is s)) \<and> physicalOnly (graphAt (fst (startNodes env a is s)) a)"
proof (induction "is" arbitrary: s)
  case (Cons i "is")
  obtain s1 e where s1: "startNode env a i s = (s1, e)" by fastforce
  with startNode_good [OF physical_no_virtual [OF Cons.prems], of env i] startNode_physical [OF Cons.prems, of env i]
  have "good_step s s1" "physicalOnly (graphAt s1 a)" by simp_all
  with Cons.IH [of s1] s1 show ?case by (auto intro: good_trans split: option.split)
qed (simp add: good_refl)

lemma graphStart_physical:
  assumes "physicalOnly (graphAt s a)"
  shows "good_step s (fst (graphStart env a s))"
proof (cases "grStatus (graphAt s a) = statusRunning")
  case False
  let ?s0 = "onGraph a graphBegin s"
  have p0: "physicalOnly (graphAt ?s0 a)" by (rule physical_onGraph [OF _ assms]) (rule physical_begin)
  obtain s1 e1 where s1: "startResourceNodes env a ?s0 = (s1, e1)" by fastforce
  have g0: "good_step s ?s0" by (simp add: good_buffers good_refl)
  have g1: "good_step s s1"
    using good_trans [OF g0 conjunct1 [OF startNodes_physical [OF p0]]] s1 by (metis fst_conv startResourceNodes_def)
  obtain s2 e2 where s2: "startAutoSenders env a (onGraph a subscribeSerialData s1) = (s2, e2)" by fastforce
  have "good_step s1 (onGraph a subscribeSerialData s1)" by (simp add: good_buffers good_refl)
  then have "good_step s s2" using g1 startAuto_good s2 by (metis good_trans fst_conv)
  with False g1 s1 s2 show ?thesis by (auto simp: graphStart_def good_buffers split: option.split)
qed (simp add: graphStart_def good_refl)

lemma new_physical:
  assumes "\<forall>n \<in> set (gqNodes req). nsType n \<noteq> ''serial.virtual''"
  shows "physicalOnly (newSerialGraphRuntime req)"
proof -
  have put: "snd ` set (table_put k v t) \<subseteq> insert v (snd ` set t)" for k v and t :: "(string, graphNode) table"
    by (auto simp: table_put_def table_del_def)
  have "snd ` set (foldl (\<lambda>t spec. table_put (nsID spec) (newGraphNode spec) t) t specs) \<subseteq> newGraphNode ` set specs \<union> snd ` set t" for specs t
  proof (induction specs arbitrary: t)
    case (Cons spec specs)
    from Cons.IH [of "table_put (nsID spec) (newGraphNode spec) t"] put [of "nsID spec" "newGraphNode spec" t]
    show ?case by (simp only: foldl_Cons list.set image_insert) blast
  qed simp
  from this [of "[]" "gqNodes req"] have "snd ` set (grNodes (newSerialGraphRuntime req)) \<subseteq> newGraphNode ` set (gqNodes req)"
    by (simp add: newSerialGraphRuntime_def)
  moreover have "gnSpec (newGraphNode spec) = spec" for spec by (simp add: newGraphNode_def)
  ultimately show ?thesis using assms by (fastforce simp: physicalOnly_def)
qed

lemma start_graph_good:
  assumes "\<forall>n \<in> set (gqNodes req). nsType n \<noteq> ''serial.virtual''"
  shows "good_step s (fst (StartSerialGraph env ctxErr now req s))"
proof -
  define req1 where "req1 = (if gqID req = [] then req\<lparr>gqID := ''serial-graph-'' @ now\<rparr> else req)"
  obtain s1 r where i: "graphInsert (stLower env) ctxErr req1 s = (s1, r)" by fastforce
  then have g1: "good_step s s1" using graph_table_good(1) by (metis fst_conv)
  show ?thesis
  proof (cases r)
    case (Inr a)
    with i have "graphAt s1 a = newSerialGraphRuntime req1"
      by (auto simp: graphInsert_def graphAt_def Let_def split: option.splits if_splits)
    moreover have "\<forall>n \<in> set (gqNodes req1). nsType n \<noteq> ''serial.virtual''" using assms by (simp add: req1_def)
    ultimately have "physicalOnly (graphAt s1 a)" by (simp add: new_physical)
    then have "good_step s (fst (graphStart env a s1))" by (rule good_trans [OF g1 graphStart_physical])
    moreover have "good_step t (graphStop env a (graphRemove (gqID req1) a t))" for t
      by (rule good_trans [OF graph_table_good(2) graphStop_good])
    ultimately show ?thesis
      using i Inr by (auto simp: StartSerialGraph_def req1_def [symmetric] intro: good_trans split: prod.split option.split)
  qed (use i g1 in \<open>simp add: StartSerialGraph_def req1_def [symmetric]\<close>)
qed

end
