(* ===== verification/McpReach.thy ===== *)
theory McpReach
  imports McpToolsFacts
begin

text \<open>
  The states of the service that a client of the MCP server can bring about: every sequence of tool calls with
  any arguments, and between them what runs on its own (received data, forwarding monitors, rounds of the
  simulated slaves). In all of them the sessions stay apart from the ports of others, and the simulated FECbus
  devices can answer.
\<close>

section \<open>Tool calls and background steps\<close>

text \<open>With \<open>virtual\<close>, graphs may have virtual ports.\<close>

inductive toolStep :: "bool \<Rightarrow> serialService \<Rightarrow> serialService \<Rightarrow> bool" for virtual where
  ToolOpenPort: "toolStep virtual s (fst (serial_open_port ev oa s))"
| ToolClosePort: "toolStep virtual s (fst (serial_close_port pa s))"
| ToolSend: "toolStep virtual s (fst (serial_send codecs wev sa s))"
| ToolReset: "toolStep virtual s (fst (serial_reset_counters pa s))"
| ToolVirtualPort: "toolStep virtual s (fst (serial_create_virtual_port made va s))"
| ToolNoVirtualPort: "toolStep virtual s (fst (serial_delete_virtual_port out ia s))"
| ToolPair: "toolStep virtual s (fst (serial_create_virtual_pair made vpa s))"
| ToolNoPair: "toolStep virtual s (fst (serial_delete_virtual_pair out ia s))"
| ToolBridge: "toolStep virtual s (fst (serial_create_bridge ev ev2 ba s))"
| ToolNoBridge: "toolStep virtual s (fst (serial_delete_bridge ia s))"
| ToolCleanup: "toolStep virtual s (fst (serial_cleanup_virtual env s))"
| ToolGraph: "virtual \<or> (\<forall>n \<in> set (gqNodes (serialGraphStartRequest ga)). nsType n \<noteq> ''serial.virtual'') \<Longrightarrow>
    toolStep virtual s (fst (serial_graph_start env ctx now ga s))"
| ToolStopGraph: "toolStep virtual s (fst (serial_graph_stop env gi s))"
| ToolGraphSend: "serial_graph_send genv gsa s = Some (s', r) \<Longrightarrow> toolStep virtual s s'"
| ToolClearNode: "toolStep virtual s (fst (serial_graph_clear_node_buffer na s))"
| ToolResetNode: "toolStep virtual s (fst (serial_graph_reset_node_counters na s))"
| ToolMonitor: "toolStep virtual s (fst (serial_start_monitor made out cancelled ev ev2 st1 st2 ma s))"
| ToolStopMonitor: "toolStep virtual s (fst (serial_stop_monitor out mi s))"
| ToolNoMonitor: "toolStep virtual s (fst (serial_delete_monitor out mi s))"
| ToolClearMonitor: "toolStep virtual s (fst (serial_clear_monitor_frames mi s))"
| ToolModbus: "toolStep virtual s (fst (modbus_open_session ctx ev moa s))"
| ToolNoModbus: "toolStep virtual s (fst (modbus_close_session timely out msi s))"
| ToolMaster: "modbus_master_request aenv mra s = Some (s', mr) \<Longrightarrow> toolStep virtual s s'"
| ToolSlave: "toolStep virtual s (fst (modbus_start_slave msa s))"
| ToolNoSlave: "toolStep virtual s (fst (modbus_stop_slave timely msi s))"
| ToolSlaveData: "toolStep virtual s (fst (modbus_update_slave_data mda s))"
| ToolUnit: "toolStep virtual s (fst (modbus_add_slave_unit mua s))"
| ToolNoUnit: "toolStep virtual s (fst (modbus_remove_slave_unit mui s))"
| ToolUnitData: "toolStep virtual s (fst (modbus_update_slave_unit_data muda s))"
| ToolRead: "modbus_read_registers ft zone aenv mrr s = Some (s', rr) \<Longrightarrow> toolStep virtual s s'"
| ToolScanUnits: "modbus_scan_unit_ids envs msu s = Some (s', ru) \<Longrightarrow> toolStep virtual s s'"
| ToolScan: "modbus_scan_registers envs msr s = Some (s', rs) \<Longrightarrow> toolStep virtual s s'"
| ToolFecbus: "toolStep virtual s (fst (fecbus_open_session ctx ev foa s))"
| ToolNoFecbus: "toolStep virtual s (fst (fecbus_close_session timely out fsi s))"
| ToolFecSend: "fecbus_send_request aenv fra s = Some (s', fr) \<Longrightarrow> toolStep virtual s s'"
| ToolFecSlave: "toolStep virtual s (fst (fecbus_start_slave fsa s))"
| ToolNoFecSlave: "toolStep virtual s (fst (fecbus_stop_slave timely fsi s))"
| ToolFecState: "toolStep virtual s (fst (fecbus_update_slave_state fsa s))"
| ToolDevice: "toolStep virtual s (fst (fecbus_add_slave_unit fua s))"
| ToolNoDevice: "toolStep virtual s (fst (fecbus_remove_slave_unit fua s))"
| ToolClearFrames: "toolStep virtual s (fst (fecbus_clear_frames fsi s))"
| PortData: "toolStep virtual s (serviceData devt s)"
| GraphData: "dataReceived genv devt (graphView s a) = Some w \<Longrightarrow> toolStep virtual s (putGraph a w s)"
| MonitorForwards: "toolStep virtual s (s\<lparr>svMonitors := monUpdate a (\<lambda>x. fst (forwardTurn lower dir p fev x)) (svMonitors s)\<rparr>)"
| DeviceRound: "fecGet (svFecbus s) i = Inr x \<Longrightarrow> fecSlaveRound x rd = Some (x', st) \<Longrightarrow>
    toolStep virtual s (s\<lparr>svFecbus := fecPutSession (svFecbus s) i x'\<rparr>)"

inductive toolReach :: "bool \<Rightarrow> serialService \<Rightarrow> bool" for virtual where
  tr_start: "toolReach virtual NewService"
| tr_step: "toolReach virtual s \<Longrightarrow> toolStep virtual s s' \<Longrightarrow> toolReach virtual s'"

section \<open>Ports stay apart\<close>

lemmas tool_defs = serial_open_port_def serial_close_port_def serial_send_def serial_reset_counters_def
  serial_create_virtual_port_def serial_delete_virtual_port_def serial_create_virtual_pair_def serial_delete_virtual_pair_def
  serial_create_bridge_def serial_delete_bridge_def serial_cleanup_virtual_def serial_graph_start_def serial_graph_stop_def serial_graph_send_def
  serial_graph_clear_node_buffer_def serial_graph_reset_node_counters_def serial_start_monitor_def serial_stop_monitor_def
  serial_delete_monitor_def serial_clear_monitor_frames_def modbus_open_session_def modbus_close_session_def
  modbus_master_request_def modbus_start_slave_def modbus_stop_slave_def modbus_update_slave_data_def modbus_add_slave_unit_def
  modbus_remove_slave_unit_def modbus_update_slave_unit_data_def modbus_read_registers_def modbus_scan_unit_ids_def
  modbus_scan_registers_def fecbus_open_session_def fecbus_close_session_def fecbus_send_request_def fecbus_start_slave_def
  fecbus_stop_slave_def fecbus_update_slave_state_def fecbus_add_slave_unit_def fecbus_remove_slave_unit_def fecbus_clear_frames_def

lemma round_kept: "fecSlaveRound x rd = Some (x', st) \<Longrightarrow> fsStatus x \<noteq> fecClosed \<Longrightarrow> fsStatus x' \<noteq> fecClosed \<and> fsReq x' = fsReq x"
proof -
  assume r: "fecSlaveRound x rd = Some (x', st)" and o: "fsStatus x \<noteq> fecClosed"
  have q: "fecbus_quiet (\<lambda>y. fsStatus y \<noteq> fecClosed \<and> fsReq y = fsReq x)"
    by unfold_locales auto
  show ?thesis by (rule fecbus_quiet.round_quiet [OF q _ r]) (use o in \<open>auto simp: fecSetError_def\<close>)
qed

lemma round_put_good:
  assumes "fecGet (svFecbus s) i = Inr x" "fecSlaveRound x rd = Some (x', st)"
  shows "good_step s (s\<lparr>svFecbus := fecPutSession (svFecbus s) i x'\<rparr>)"
proof (rule fecbus_same)
  assume wf: "fec_manager_wf (svFecbus s)"
  have o: "fsStatus x \<noteq> fecClosed" using assms(1) wf by (auto simp: fecGet_def fec_manager_wf_def split: if_splits option.splits)
  have "fecPutSession (svFecbus s) i x' = fst (fecOnSession (svFecbus s) i (\<lambda>s. (if s = x then x' else s, None)))"
    using assms(1) by (simp add: fecOnSession_def)
  moreover have "fec_manager_wf (fst (fecOnSession (svFecbus s) i (\<lambda>s. (if s = x then x' else s, None))))
      \<and> fecPortOf (fst (fecOnSession (svFecbus s) i (\<lambda>s. (if s = x then x' else s, None)))) = fecPortOf (svFecbus s)"
    by (rule fecOnSession_wf [OF wf]) (use round_kept [OF assms(2) o] in auto)
  ultimately show "fec_manager_wf (fecPutSession (svFecbus s) i x') \<and> fecPortOf (fecPutSession (svFecbus s) i x') = fecPortOf (svFecbus s)"
    by simp
qed

lemma onGraphNode_manager [simp]: "gwManager (fst (onGraphNode i f w)) = gwManager w"
  by (simp add: onGraphNode_def onNode_def split: option.split)

lemma node_buffers_good:
  "good_step s (fst (ClearSerialGraphNodeBuffer g n s))" "good_step s (fst (ResetSerialGraphNodeCounters g n s))"
proof -
  have "good_step s (fst (onGraphWorld (onGraphNode n f) g s))" for f
  proof (cases "serialGraphRuntime s g")
    case (Inr a)
    have "good_step s (putGraph a (fst (onGraphNode n f (graphView s a))) s)" by (rule writes_only) simp
    with Inr show ?thesis by (simp add: onGraphWorld_def split: prod.split) (metis fst_conv)
  qed (simp add: onGraphWorld_def good_refl)
  then show "good_step s (fst (ClearSerialGraphNodeBuffer g n s))" "good_step s (fst (ResetSerialGraphNodeCounters g n s))"
    by (simp_all add: ClearSerialGraphNodeBuffer_def ResetSerialGraphNodeCounters_def clearBuffer_def [abs_def] resetCounters_def [abs_def])
qed

lemma cleanup_idle: "mon_ok m \<Longrightarrow> \<not> monRunningAt (monCleanup m) a"
  unfolding mon_ok_def monCleanup_def by (auto simp: fold_stops) (metis image_eqI map_of_SomeD snd_conv)

lemma cleanup_good: "good_step s (cleanup env s)"
proof -
  let ?s1 = "stopAllSerialGraphs env s"
  have g: "good_step s ?s1"
    unfolding stopAllSerialGraphs_def
    by (rule good_foldl) (auto simp: good_buffers good_refl graphStop_good split: prod.split)
  have "good_step ?s1 (cleanup env s)"
    unfolding good_step_def ports.apart_def service_wf_def heldPorts_def
    by (auto simp: cleanup_def Let_def managerCloseAll_def portManager_wf_def handles_open_def CloseAll_def FecCloseAll_def
        manager_wf_def fec_manager_wf_def cleanup_ok cleanup_idle virtualCleanup_def NewVirtualManager_def ListBridges_def
        handlePort_def portOf_def fecPortOf_def ran_def split: port_user.splits)
  with g show ?thesis by (rule good_trans)
qed

lemma tool_good: "toolStep False s s' \<Longrightarrow> good_step s s'"
  by (induction rule: toolStep.induct)
    (auto simp: tool_defs OpenPort_good ClosePort_good Send_good counters_good virtual_ports_good CreateBridge_good DeleteBridge_good
      CleanupVirtual_def cleanup_good start_graph_good stopGraph_good node_buffers_good StartAuto_good end_monitor_good clear_monitor_good
      OpenModbus_good close_session_good modbus_start_good modbus_slave_good OpenFecbus_good fecbus_start_good fecbus_slave_good
      serviceData_good data_graph_good forward_good round_put_good reply_def
      intro: modbus_requests_good fecbus_request_good send_graph_good)

lemma tool_reach_good: "toolReach False s \<Longrightarrow> service_wf s \<and> ports.apart s"
  by (induction rule: toolReach.induct) (use new_service tool_good in \<open>auto simp: good_step_def\<close>)

section \<open>FECbus devices\<close>

definition deviceLegal :: "fecUnit \<Rightarrow> bool" where
  "deviceLegal u \<longleftrightarrow> fuAddress u \<noteq> 0 \<and> fuAddress u \<le> 63 \<and> fuAutoStatusAnswer u \<and> fuPayloads u = []"

definition unitsLegal :: "fecSession \<Rightarrow> bool" where
  "unitsLegal x \<longleftrightarrow> (\<forall>u \<in> snd ` set (fsSlaveUnits x). deviceLegal u)"

definition devicesLegal :: "fecManager \<Rightarrow> bool" where
  "devicesLegal m \<longleftrightarrow> (\<forall>x \<in> snd ` set (fmSessions m). unitsLegal x)"

lemma clamped_address: "word_of_int (clampInt a 1 63) \<noteq> (0 :: byte)" "word_of_int (clampInt a 1 63) \<le> (63 :: byte)"
proof -
  have "1 \<le> clampInt a 1 63" "clampInt a 1 63 \<le> 63" by (simp_all add: clampInt_def)
  then have "uint (word_of_int (clampInt a 1 63) :: byte) = clampInt a 1 63" by (simp add: uint_word_of_int)
  with \<open>1 \<le> clampInt a 1 63\<close> \<open>clampInt a 1 63 \<le> 63\<close>
  show "word_of_int (clampInt a 1 63) \<noteq> (0 :: byte)" "word_of_int (clampInt a 1 63) \<le> (63 :: byte)"
    by (auto simp: word_le_def)
qed

lemma normalized_legal: "deviceLegal (normalizeSlaveUnit (fecUnitOf a c au b))"
  by (simp add: deviceLegal_def normalizeSlaveUnit_def fecUnitOf_def Let_def clamped_address)

lemma table_put_values: "(a, v) \<in> set (table_put k w t) \<Longrightarrow> v = w \<or> (a, v) \<in> set t"
  by (auto simp: table_put_def table_del_def)

lemma table_del_values: "(a, v) \<in> set (table_del k t) \<Longrightarrow> (a, v) \<in> set t"
  by (auto simp: table_del_def)

lemma legal_session: "devicesLegal m \<Longrightarrow> fecGet m i = Inr x \<Longrightarrow> unitsLegal x"
  by (force simp: fecGet_def devicesLegal_def dest: map_of_SomeD split: if_splits option.splits)

lemma fecPut_legal: "devicesLegal m \<Longrightarrow> unitsLegal y \<Longrightarrow> devicesLegal (fecPutSession m i y)"
  unfolding devicesLegal_def fecPutSession_def by (force dest!: table_put_values)

lemma fecOnSession_legal:
  assumes "devicesLegal m" and "\<And>x. unitsLegal x \<Longrightarrow> unitsLegal (fst (f x))"
  shows "devicesLegal (fst (fecOnSession m i f))"
proof (cases "fecGet m i")
  case (Inr x)
  with assms(2) [OF legal_session [OF assms(1) Inr]] fecPut_legal [OF assms(1)] show ?thesis
    by (simp add: fecOnSession_def split: prod.split) (metis fst_conv)
qed (use assms(1) in \<open>simp add: fecOnSession_def\<close>)

lemma put_unit_legal: "deviceLegal (normalizeSlaveUnit u) \<Longrightarrow> unitsLegal x \<Longrightarrow> unitsLegal (setSlaveUnit x u)"
  unfolding unitsLegal_def setSlaveUnit_def Let_def by (force dest!: table_put_values)

lemma put_all_legal:
  "\<forall>u \<in> set us. deviceLegal (normalizeSlaveUnit u) \<Longrightarrow> \<forall>u \<in> snd ` set t. deviceLegal u \<Longrightarrow>
    \<forall>u \<in> snd ` set (table_put_all (\<lambda>u. fuAddress (normalizeSlaveUnit u)) normalizeSlaveUnit us t). deviceLegal u"
proof (induction us arbitrary: t)
  case (Cons u us)
  have "\<forall>v \<in> snd ` set (table_put (fuAddress (normalizeSlaveUnit u)) (normalizeSlaveUnit u) t). deviceLegal v"
    using Cons.prems by (force dest!: table_put_values)
  with Cons show ?case by (simp add: table_put_all_def)
qed (simp add: table_put_all_def)

lemma fec_tools_legal:
  assumes "devicesLegal (svFecbus s)"
  shows "devicesLegal (svFecbus (fst (fecbus_start_slave fsa s)))" "devicesLegal (svFecbus (fst (fecbus_stop_slave timely fsi s)))"
    "devicesLegal (svFecbus (fst (fecbus_update_slave_state fsa s)))" "devicesLegal (svFecbus (fst (fecbus_add_slave_unit fua s)))"
    "devicesLegal (svFecbus (fst (fecbus_remove_slave_unit fua s)))" "devicesLegal (svFecbus (fst (fecbus_clear_frames fsi s)))"
proof -
  have "devicesLegal (fst (FecStartSlave (svFecbus s) \<lparr>fsrSessionID = fsaSessionID fsa, fsrState = fecbusSlaveState fsa,
      fsrUnits = fecbusSlaveUnits fsa\<rparr>))"
    unfolding FecStartSlave_def
  proof (rule fecOnSession_legal [OF assms])
    fix x assume "unitsLegal x"
    moreover have "\<forall>u \<in> snd ` set (fecNormalizeUnits \<lparr>fsrSessionID = fsaSessionID fsa, fsrState = fecbusSlaveState fsa,
        fsrUnits = fecbusSlaveUnits fsa\<rparr>). deviceLegal u"
      using put_all_legal [of "fecbusSlaveUnits fsa" "[]"]
      by (auto simp: fecNormalizeUnits_def Let_def fecbusSlaveUnits_def fecbusSlaveState_def normalized_legal)
    ultimately show "unitsLegal (fst (fecStartSlave x \<lparr>fsrSessionID = fsaSessionID fsa,
        fsrState = fecbusSlaveState fsa, fsrUnits = fecbusSlaveUnits fsa\<rparr>))"
      by (simp add: fecStartSlave_def Let_def unitsLegal_def)
  qed
  then show "devicesLegal (svFecbus (fst (fecbus_start_slave fsa s)))"
    by (simp add: fecbus_start_slave_def StartFecbusSlave_def split: prod.split option.split) (metis fst_conv)
  show "devicesLegal (svFecbus (fst (fecbus_stop_slave timely fsi s)))" "devicesLegal (svFecbus (fst (fecbus_clear_frames fsi s)))"
    by (auto simp: fecbus_stop_slave_def StopFecbusSlave_def FecStopSlave_def fecStopSlave_def fecbus_clear_frames_def
        ClearFecbusFrames_def FecClearFrames_def clearFrames_def unitsLegal_def intro!: fecOnSession_legal [OF assms])
  show "devicesLegal (svFecbus (fst (fecbus_update_slave_state fsa s)))" "devicesLegal (svFecbus (fst (fecbus_add_slave_unit fua s)))"
    by (simp_all add: fecbus_update_slave_state_def UpdateFecbusSlaveState_def fecbus_add_slave_unit_def AddFecbusSlaveUnit_def
        FecAddSlaveUnit_def fecOnSession_legal [OF assms] put_unit_legal fecbusSlaveState_def fecbusSlaveUnit_def normalized_legal)
  show "devicesLegal (svFecbus (fst (fecbus_remove_slave_unit fua s)))"
    unfolding fecbus_remove_slave_unit_def RemoveFecbusSlaveUnit_def FecRemoveSlaveUnit_def fst_replies on_manager_fields
    by simp (rule fecOnSession_legal [OF assms], force simp: unitsLegal_def fecRemoveUnit_def dest!: table_del_values)
qed

text \<open>The other tools leave the FECbus sessions alone.\<close>

lemma node_fecbus [simp]: "svFecbus (onGraph a f s) = svFecbus s" "svFecbus (setNodeError a n e s) = svFecbus s"
  "svFecbus (putGraph a w s) = svFecbus s"
  by (simp_all add: onGraph_def setNodeError_def putGraph_def)

lemma ports_fecbus [simp]:
  "svFecbus (fst (OpenPort ev c s)) = svFecbus s" "svFecbus (fst (ClosePort i s)) = svFecbus s"
  "svFecbus (fst (Send codecs wev i content mode enc s)) = svFecbus s"
  by (auto simp: OpenPort_def ClosePort_def Send_def Let_def split: option.split prod.split sum.split)

lemma virtual_fecbus [simp]:
  "svFecbus (fst (CreateVirtualPort made i n s)) = svFecbus s" "svFecbus (fst (CreateVirtualPair made i p q s)) = svFecbus s"
  "svFecbus (fst (DeleteVirtualPair out i s)) = svFecbus s" "svFecbus (fst (CreateBridge ev ev2 i p q baud s)) = svFecbus s"
  "svFecbus (fst (DeleteBridge i s)) = svFecbus s"
  by (auto simp: CreateVirtualPort_def CreateVirtualPair_def DeleteVirtualPair_def CreateBridge_def DeleteBridge_def Let_def
      split: option.split prod.split sum.split)

lemma virtual_fecbus_eq: "CreateVirtualPort made i n s = (s', r) \<Longrightarrow> svFecbus s' = svFecbus s"
  "DeleteVirtualPair out i s = (s', e) \<Longrightarrow> svFecbus s' = svFecbus s"
  by (metis fst_conv virtual_fecbus(1), metis fst_conv virtual_fecbus(3))

lemma start_monitor_fecbus [simp]: "svFecbus (fst (StartMonitor c ev ev2 req s)) = svFecbus s"
  by (auto simp: StartMonitor_def split: prod.split)

lemma start_monitor_fecbus_eq: "StartMonitor c ev ev2 req s = (s', r) \<Longrightarrow> svFecbus s' = svFecbus s"
  by (metis fst_conv start_monitor_fecbus)

lemma auto_fecbus [simp]: "svFecbus (fst (cleanupAutoMonitorVirtual out i s)) = svFecbus s"
  by (auto simp: cleanupAutoMonitorVirtual_def Let_def dest: virtual_fecbus_eq split: option.split prod.split)

lemma monitor_fecbus [simp]:
  "svFecbus (fst (StopMonitor out i s)) = svFecbus s" "svFecbus (fst (DeleteMonitor out i s)) = svFecbus s"
  "svFecbus (fst (StartAutoVirtualMonitor made out c ev ev2 st1 st2 req s)) = svFecbus s"
  by (auto simp: StopMonitor_def DeleteMonitor_def StartAutoVirtualMonitor_def Let_def
      dest!: virtual_fecbus_eq start_monitor_fecbus_eq split: option.split prod.split sum.split)

lemma start_node_fecbus [simp]: "svFecbus (fst (startNode env a i s)) = svFecbus s"
  by (auto simp: startNode_def startPhysicalNode_def startVirtualNode_def startRemoteNode_def Let_def
      dest!: virtual_fecbus_eq split: option.split prod.split sum.split)

lemma start_nodes_fecbus: "startNodes env a is s = (s', e) \<Longrightarrow> svFecbus s' = svFecbus s"
proof (induction "is" arbitrary: s)
  case (Cons i "is")
  obtain s1 e1 where "startNode env a i s = (s1, e1)" by fastforce
  with Cons start_node_fecbus [of env a i s] show ?case by (auto split: option.splits)
qed simp

lemma auto_senders_fecbus: "startAutoSenders env a s = (s', e) \<Longrightarrow> svFecbus s' = svFecbus s"
  by (auto simp: startAutoSenders_def Let_def split: sum.splits prod.splits)

lemma graph_start_fecbus: "graphStart env a s = (s', e) \<Longrightarrow> svFecbus s' = svFecbus s"
  by (auto simp: graphStart_def startResourceNodes_def dest!: start_nodes_fecbus auto_senders_fecbus
      split: if_splits option.splits prod.splits)

lemma foldl_fecbus: "(\<And>t i. svFecbus (f t i) = svFecbus t) \<Longrightarrow> svFecbus (foldl f s is) = svFecbus s"
  by (induction "is" arbitrary: s) simp_all

lemma graph_stop_fecbus [simp]: "svFecbus (graphStop env a s) = svFecbus s"
  by (simp add: graphStop_def Let_def foldl_fecbus)

lemma graph_table_fecbus [simp]: "svFecbus (graphRemove i a s) = svFecbus s"
  "graphInsert lower ctx req s = (s', r) \<Longrightarrow> svFecbus s' = svFecbus s"
  by (auto simp: graphRemove_def graphInsert_def Let_def split: option.splits if_splits)

lemma graph_fecbus [simp]:
  "svFecbus (fst (StartSerialGraph env ctx now req s)) = svFecbus s" "svFecbus (fst (StopSerialGraph env i s)) = svFecbus s"
  "svFecbus (fst (ClearSerialGraphNodeBuffer g n s)) = svFecbus s" "svFecbus (fst (ResetSerialGraphNodeCounters g n s)) = svFecbus s"
  by (auto simp: StartSerialGraph_def StopSerialGraph_def ClearSerialGraphNodeBuffer_def ResetSerialGraphNodeCounters_def
      onGraphWorld_def Let_def dest!: graph_table_fecbus(2) graph_start_fecbus split: option.split prod.split sum.split)

lemma graph_send_fecbus: "SendSerialGraphNode env g req s = Some (s', r) \<Longrightarrow> svFecbus s' = svFecbus s"
  by (auto simp: SendSerialGraphNode_def split: if_splits sum.splits)

lemma modbus_fecbus [simp]:
  "svFecbus (fst (OpenModbusSession ctx ev req s)) = svFecbus s" "svFecbus (fst (CloseModbusSession timely out i s)) = svFecbus s"
  "svFecbus (fst (StartModbusSlave sreq s)) = svFecbus s"
  by (auto simp: OpenModbusSession_def CloseModbusSession_def StartModbusSlave_def Let_def split: prod.split option.split)

lemma modbus_calls_fecbus:
  "ModbusMasterRequest aenv mreq s = Some (s', mr) \<Longrightarrow> svFecbus s' = svFecbus s"
  "ModbusReadRegisters ft zone aenv rreq ms s = Some (s', rr) \<Longrightarrow> svFecbus s' = svFecbus s"
  "ModbusScanUnitIDs envs ureq s = Some (s', ru) \<Longrightarrow> svFecbus s' = svFecbus s"
  "ModbusScanRegisters envs qreq s = Some (s', rs) \<Longrightarrow> svFecbus s' = svFecbus s"
  by (auto simp: ModbusMasterRequest_def ModbusReadRegisters_def ModbusScanUnitIDs_def ModbusScanRegisters_def)

lemma modbus_slave_fecbus [simp]:
  "svFecbus (fst (StopModbusSlave timely i s)) = svFecbus s" "svFecbus (fst (UpdateModbusSlaveData i sn s)) = svFecbus s"
  "svFecbus (fst (AddModbusSlaveUnit i unit s)) = svFecbus s" "svFecbus (fst (RemoveModbusSlaveUnit i u s)) = svFecbus s"
  "svFecbus (fst (UpdateModbusSlaveUnitData i u sn s)) = svFecbus s" "svFecbus (fst (ClearMonitorFrames i s)) = svFecbus s"
  "svFecbus (fst (ResetCounters i s)) = svFecbus s" "svFecbus (serviceData evt s) = svFecbus s"
  by (auto simp: StopModbusSlave_def UpdateModbusSlaveData_def AddModbusSlaveUnit_def RemoveModbusSlaveUnit_def
      UpdateModbusSlaveUnitData_def ClearMonitorFrames_def ResetCounters_def serviceData_def split: prod.split option.split)

text \<open>Opening and closing a FECbus session, a request, and a round of a simulated device\<close>

lemma new_session_legal: "unitsLegal (newFecSession req)"
  by (simp add: unitsLegal_def newFecSession_def deviceLegal_def)

lemma commit_legal: "devicesLegal m \<Longrightarrow> devicesLegal (fst (fecOpenCommit m req))"
  using fecPut_legal [OF _ new_session_legal, of m "foID req" req]
  by (simp add: fecOpenCommit_def fecPutSession_def split: option.split)

lemma fec_open_legal:
  assumes "devicesLegal m"
  shows "devicesLegal (fst (FecOpenSession ctx ev m req))"
proof -
  obtain m1 req1 where f: "fillFecRequest m req = (m1, req1)" by fastforce
  then have "devicesLegal m1" using assms by (auto simp: fillFecRequest_def devicesLegal_def Let_def split: if_splits)
  with f assms commit_legal show ?thesis by (simp add: FecOpenSession_def split: option.split)
qed

lemma fecbus_open_legal:
  assumes "devicesLegal (svFecbus s)"
  shows "devicesLegal (svFecbus (fst (OpenFecbusSession ctx ev req s)))"
proof -
  obtain m r where "FecOpenSession ctx ev (svFecbus s) (req\<lparr>foEndpoint := monitorEndpoint s (scPortName (foConfig req))\<rparr>) = (m, r)"
    by fastforce
  with fec_open_legal [OF assms] assms show ?thesis by (auto simp: OpenFecbusSession_def Let_def) (metis fst_conv)
qed

lemma fecbus_close_legal: "devicesLegal (svFecbus s) \<Longrightarrow> devicesLegal (svFecbus (fst (CloseFecbusSession timely out i s)))"
  by (auto simp: CloseFecbusSession_def FecCloseSession_def Let_def devicesLegal_def
      dest!: table_del_values split: option.splits prod.splits if_splits)

lemma send_legal: "fecSend env x req = Some (x', r) \<Longrightarrow> unitsLegal x \<Longrightarrow> unitsLegal x'"
  using fq.send_quiet [of env x req x' r "fecKept x"] by (simp add: fecKept_def unitsLegal_def)

lemma round_legal: "fecSlaveRound x rd = Some (x', st) \<Longrightarrow> unitsLegal x \<Longrightarrow> unitsLegal x'"
proof -
  assume r: "fecSlaveRound x rd = Some (x', st)" and l: "unitsLegal x"
  have q: "fecbus_quiet unitsLegal"
    by unfold_locales (auto simp: unitsLegal_def)
  show "unitsLegal x'" by (rule fecbus_quiet.round_quiet [OF q _ r l]) (simp add: fecSetError_def unitsLegal_def)
qed

lemma fecbus_request_legal:
  assumes "FecbusSendRequest env req s = Some (s', r)" and "devicesLegal (svFecbus s)"
  shows "devicesLegal (svFecbus s')"
proof (cases "fecGet (svFecbus s) (fqrSessionID req)")
  case (Inr x)
  with assms(1) obtain x' y where "fecSend env x req = Some (x', y)" "svFecbus s' = fecPutSession (svFecbus s) (fqrSessionID req) x'"
    by (auto simp: FecbusSendRequest_def FecSendRequest_def)
  with send_legal legal_session [OF assms(2) Inr] fecPut_legal [OF assms(2)] show ?thesis by simp
qed (use assms in \<open>auto simp: FecbusSendRequest_def FecSendRequest_def\<close>)

lemma tool_legal: "toolStep virtual s s' \<Longrightarrow> devicesLegal (svFecbus s) \<Longrightarrow> devicesLegal (svFecbus s')"
proof (induction rule: toolStep.induct)
  case (ToolCleanup s env)
  show ?case
    by (simp add: serial_cleanup_virtual_def CleanupVirtual_def cleanup_def Let_def FecCloseAll_def devicesLegal_def)
next
  case (DeviceRound s i x rd x' st)
  then show ?case using round_legal legal_session fecPut_legal by simp
next
  case ToolGraphSend
  then show ?case by (auto simp: serial_graph_send_def reply_def dest: graph_send_fecbus)
next
  case ToolFecSend
  then show ?case by (auto simp: fecbus_send_request_def dest: fecbus_request_legal)
qed (use fec_tools_legal in \<open>auto simp: tool_defs fecbus_open_legal fecbus_close_legal reply_def dest: modbus_calls_fecbus\<close>)

lemma tool_reach_legal: "toolReach virtual s \<Longrightarrow> devicesLegal (svFecbus s)"
  by (induction rule: toolReach.induct) (use tool_legal in \<open>auto simp: devicesLegal_def NewService_def NewFecManager_def\<close>)

section \<open>Properties\<close>


text \<open>A simulated FECbus device that was set up by tools of the MCP server never ends its simulation:
  in every state that tool calls lead to, a session that receives a valid frame and can write goes on
  answering. The arguments of the tools are clamped to legal addresses, which those of the user interface
  are not.\<close>

theorem mcp_devices_survive:
  assumes "toolReach virtual s" and "fecGet (svFecbus s) i = Inr x" and "fsPort x"
    and "\<And>k. \<exists>n. frdWrites rd k = Wrote n None"
    and "fecReadFrame True x [] (frdScript rd) = Some (x1, Inr (raw, f))"
  shows "\<exists>x'. fecSlaveRound x rd = Some (x', Looping) \<and> fsStatus x' = fsStatus x"
proof -
  have legal: "unitsLegal x" by (rule legal_session [OF tool_reach_legal [OF assms(1)] assms(2)])
  obtain n where x1: "x1 = x\<lparr>fsRxBytes := n\<rparr>" using fecReadFrame_session [OF assms(5)] by blast
  have v: "validateFrameFields f = None" by (rule decoded_valid [OF fecReadFrame_decoded [OF assms(5)]])
  let ?x2 = "recordFrame x1 ''rx'' f raw []"
  have "\<exists>x'. answerUnits ?x2 f (frdWrites rd) 0 (matchingSlaveUnits f (fsSlaveUnits x)) = (x', Looping)
      \<and> fsStatus x' = fsStatus ?x2"
    by (rule answerUnits_survives [OF v assms(4)])
      (use legal assms(3) x1 in \<open>force simp: unitsLegal_def deviceLegal_def dest!: matching_units map_of_SomeD\<close>)+
  then show ?thesis using assms(5) by (auto simp: fecSlaveRound_def Let_def x1)
qed

text \<open>A FECbus session and a Modbus session on two ports, opened by tools\<close>

definition deviceArgs :: fecbusOpenSessionArgs where
  "deviceArgs = \<lparr>foaID = ''a'', foaName = ''a'', foaPort = ''COM1'', foaRole = ''slave'', foaBaudRate = 9600, foaDataBits = 8,
     foaStopBits = ''1'', foaParity = ''none'', foaFlowMode = ''none'', foaReadBufKB = 32, foaTimeoutMs = 0, foaRetries = 0\<rparr>"

definition masterArgs :: modbusOpenSessionArgs where
  "masterArgs = \<lparr>moaID = ''b'', moaName = ''b'', moaPort = ''COM2'', moaMode = ''rtu'', moaRole = ''master'', moaBaudRate = 9600,
     moaDataBits = 8, moaStopBits = ''1'', moaParity = ''none'', moaFlowMode = ''none'', moaReadBufKB = 32, moaTimeoutMs = 0,
     moaRetries = 0\<rparr>"

definition toolService :: serialService where
  "toolService = fst (modbus_open_session None None masterArgs (fst (fecbus_open_session None None deviceArgs NewService)))"

lemma tool_service_reached: "toolReach virtual toolService"
  unfolding toolService_def by (intro tr_step [OF _ ToolModbus] tr_step [OF _ ToolFecbus] tr_start)

lemma tool_service_ports: "portOf (svModbus toolService) ''b'' = Some ''COM2''" "fecPortOf (svFecbus toolService) ''a'' = Some ''COM1''"
  by code_simp+

lemma tool_service_device:
  "fecGet (svFecbus toolService) ''a'' = Inr (newFecSession ((fecbusOpenRequest deviceArgs)\<lparr>foEndpoint := ''COM1''\<rparr>))"
  by code_simp


theorem mcp_devices_survive_witness:
  "\<exists>x x'. fecGet (svFecbus toolService) ''a'' = Inr x \<and> fecSlaveRound x sampleRound = Some (x', Looping)"
  using mcp_devices_survive [OF tool_service_reached tool_service_device _ _ sample_read]
  by (simp add: tool_service_device new_units) (auto simp: sampleRound_def)

end
