(* ===== verification/ScriptHost.thy ===== *)
theory ScriptHost
  imports GraphConfig TextEncoding ModbusProtocol RingBuffer
begin

text \<open>
  The hosts of scripts: the functions a script of a graph node can call (\<open>internal/modules/serial/script_runtime.go\<close>)
  and those of a parser script (\<open>protocol/script/engine.go\<close>). The interpreter goja is not part of the program: a
  script is any tree of calls, whose continuation is given the reply. How many calls it makes before the timer
  fires, and how many more before it notices that, are arguments. The conversions of the interpreter and of
  \<open>encoding/json\<close> are arguments as well.
\<close>

section \<open>Scripts and values\<close>

codatatype ('c, 'r) script = Ends | Throws string | Loops | Calls 'c "'r \<Rightarrow> ('c, 'r) script"

text \<open>
  What \<open>Export\<close> gives: a float is known by the integer it equals, if any; other values by their type.
\<close>

datatype js_number = JInt int | JFloat "int option"
datatype js = JNil | JBytes bytes | JInts "int list" | JList "js list" | JString string | JNumber js_number | JOther string

record script_lib =
  slString :: "js \<Rightarrow> string"
  slClone :: "js \<Rightarrow> js option"
  slSize :: "(string, js) table \<Rightarrow> int option"
  slCodecs :: text_codecs
  slText :: "text_error \<Rightarrow> string"
  slHex :: "string \<Rightarrow> string"
  slMissing :: "string \<Rightarrow> string"

section \<open>Bytes from values\<close>

definition byteInts :: "bytes \<Rightarrow> int list" where
  "byteInts data = map uint data"

definition numericByte :: "js \<Rightarrow> int option" where
  "numericByte val = (case val of
       JNumber (JInt n) \<Rightarrow> if 0 \<le> n \<and> n \<le> 255 then Some n else None
     | JNumber (JFloat (Some n)) \<Rightarrow> if 0 \<le> n \<and> n \<le> 255 then Some n else None
     | _ \<Rightarrow> None)"

fun intBytes :: "int list \<Rightarrow> string + bytes" where
  "intBytes [] = Inr []"
| "intBytes (n # ns) = (if n < 0 \<or> 255 < n then Inl (''byte value out of range: '' @ itoa n)
     else map_sum id (Cons (word_of_int n)) (intBytes ns))"

fun itemBytes :: "nat \<Rightarrow> js list \<Rightarrow> string + bytes" where
  "itemBytes i [] = Inr []"
| "itemBytes i (item # items) = (case numericByte item of
       None \<Rightarrow> Inl (''byte value at index '' @ itoa (int i) @ '' is not numeric'')
     | Some n \<Rightarrow> map_sum id (Cons (word_of_int n)) (itemBytes (Suc i) items))"

definition typeName :: "js \<Rightarrow> string" where
  "typeName val = (case val of JOther t \<Rightarrow> t | JNumber (JInt _) \<Rightarrow> ''int64'' | JNumber (JFloat _) \<Rightarrow> ''float64'' | _ \<Rightarrow> [])"

definition gojaValueToBytes :: "js \<Rightarrow> string + bytes" where
  "gojaValueToBytes val = (case val of
       JNil \<Rightarrow> Inr []
     | JBytes data \<Rightarrow> Inr data
     | JInts ns \<Rightarrow> intBytes ns
     | JList items \<Rightarrow> itemBytes 0 items
     | JString s \<Rightarrow> Inr (bytes_of s)
     | _ \<Rightarrow> Inl (''unsupported byte value: '' @ typeName val))"

section \<open>The state that lasts between runs\<close>

record scriptState =
  ssValues :: "(string, js) table"
  ssMaxSize :: int

definition serialScriptDefaultMaxStateSize :: int where "serialScriptDefaultMaxStateSize = 256 * 1024"
definition serialScriptDefaultMaxOutputSize :: int where "serialScriptDefaultMaxOutputSize = 64 * 1024"
definition serialScriptDefaultTimeout :: int where "serialScriptDefaultTimeout = 50 * 1000000"

definition newSerialScriptState :: "int \<Rightarrow> scriptState" where
  "newSerialScriptState maxSize = \<lparr>ssValues = [],
     ssMaxSize = (if maxSize \<le> 0 then serialScriptDefaultMaxStateSize else maxSize)\<rparr>"

definition jsonCompatibleClone :: "script_lib \<Rightarrow> js \<Rightarrow> js option" where
  "jsonCompatibleClone lib val = (if val = JNil then Some JNil else slClone lib val)"

definition stateGet :: "script_lib \<Rightarrow> scriptState \<Rightarrow> string \<Rightarrow> js" where
  "stateGet lib st key = (case jsonCompatibleClone lib (case map_of (ssValues st) key of None \<Rightarrow> JNil | Some v \<Rightarrow> v) of
       None \<Rightarrow> JNil | Some c \<Rightarrow> c)"

definition stateSet :: "script_lib \<Rightarrow> string \<Rightarrow> js \<Rightarrow> scriptState \<Rightarrow> scriptState \<times> string option" where
  "stateSet lib key val st = (case jsonCompatibleClone lib val of
       None \<Rightarrow> (st, Some ''json'')
     | Some cloned \<Rightarrow>
         let next = table_put key cloned (ssValues st) in
         case slSize lib next of
           None \<Rightarrow> (st, Some ''json'')
         | Some encoded \<Rightarrow>
             if ssMaxSize st < encoded then (st, Some (''script state exceeds '' @ itoa (ssMaxSize st) @ '' bytes''))
             else (st\<lparr>ssValues := next\<rparr>, None))"

definition stateDelete :: "string \<Rightarrow> scriptState \<Rightarrow> scriptState" where
  "stateDelete key st = st\<lparr>ssValues := table_del key (ssValues st)\<rparr>"

section \<open>The runtime of a node\<close>

record scriptRuntime =
  srScript :: string
  srTimeout :: int
  srMaxOutput :: int
  srEncoding :: string
  srNodeType :: string

text \<open>The runtime and the state it starts with; the timeout is in nanoseconds, at 64 bits.\<close>

definition newSerialScriptRuntimeForNode :: "string \<Rightarrow> config \<Rightarrow> scriptRuntime \<times> scriptState" where
  "newSerialScriptRuntimeForNode nodeType config =
     (let timeout = wrap64 (graphIntConfig config ''timeoutMs'' 50 * 1000000);
          maxOutput = graphIntConfig config ''maxOutputBytes'' serialScriptDefaultMaxOutputSize in
      (\<lparr>srScript = graphStringConfigRaw config ''script'',
        srTimeout = (if timeout \<le> 0 then serialScriptDefaultTimeout else timeout),
        srMaxOutput = (if maxOutput \<le> 0 then serialScriptDefaultMaxOutputSize else maxOutput),
        srEncoding = graphStringConfigWithDefault config ''encoding'' ''utf-8'',
        srNodeType = nodeType\<rparr>,
       newSerialScriptState (graphIntConfig config ''maxStateBytes'' serialScriptDefaultMaxStateSize)))"

definition newSerialScriptRuntime :: "config \<Rightarrow> scriptRuntime \<times> scriptState" where
  "newSerialScriptRuntime config = newSerialScriptRuntimeForNode ''serial.script.transform'' config"

definition exposesInputAPI :: "scriptRuntime \<Rightarrow> bool" where
  "exposesInputAPI r = (srNodeType r \<noteq> ''serial.script.generator'')"

definition exposesOutputAPI :: "scriptRuntime \<Rightarrow> bool" where
  "exposesOutputAPI r = (srNodeType r \<noteq> ''serial.script.analyzer'')"

text \<open>Arguments that a call leaves out are undefined.\<close>

definition argument :: "js list \<Rightarrow> nat \<Rightarrow> js" where
  "argument args i = (if i < length args then args ! i else JNil)"

datatype host_call = InputBytes | InputHex | InputText "js list"
  | OutputBytes "js list" | OutputHex "js list" | OutputText "js list"
  | DropCall | FieldCall "js list" | ErrorCall "js list"
  | StateGet "js list" | StateSet "js list" | StateDelete "js list"
  | Crc16Call "js list" | Sum8Call "js list" | NowCall

datatype host_reply = Undefined | Replies js | Fails string

record scriptField =
  sfName :: string
  sfValue :: js
  sfDisplay :: string

record scriptHost =
  shOutput :: bytes
  shDrop :: bool
  shFields :: "scriptField list"
  shErrors :: "string list"
  shState :: scriptState

definition newScriptHost :: "scriptState \<Rightarrow> scriptHost" where
  "newScriptHost st = \<lparr>shOutput = [], shDrop = False, shFields = [], shErrors = [], shState = st\<rparr>"

definition appendOutput :: "scriptRuntime \<Rightarrow> bytes \<Rightarrow> scriptHost \<Rightarrow> scriptHost \<times> host_reply" where
  "appendOutput r data h =
     (if data = [] then (h, Undefined)
      else if srMaxOutput r < int (length (shOutput h) + length data)
      then (h, Fails (''script output exceeds '' @ itoa (srMaxOutput r) @ '' bytes''))
      else (h\<lparr>shOutput := shOutput h @ data\<rparr>, Undefined))"

definition appendDecoded :: "scriptRuntime \<Rightarrow> string + bytes \<Rightarrow> scriptHost \<Rightarrow> scriptHost \<times> host_reply" where
  "appendDecoded r decoded h = (case decoded of Inl e \<Rightarrow> (h, Fails e) | Inr data \<Rightarrow> appendOutput r data h)"

definition onBytes :: "(bytes \<Rightarrow> int) \<Rightarrow> js list \<Rightarrow> host_reply" where
  "onBytes f args = (case gojaValueToBytes (argument args 0) of Inl e \<Rightarrow> Fails e | Inr data \<Rightarrow> Replies (JNumber (JInt (f data))))"

definition encodingArg :: "script_lib \<Rightarrow> scriptRuntime \<Rightarrow> js list \<Rightarrow> nat \<Rightarrow> string" where
  "encodingArg lib r args i = (if argument args i \<noteq> JNil then slString lib (argument args i) else srEncoding r)"

definition inputCall :: "script_lib \<Rightarrow> scriptRuntime \<Rightarrow> bytes \<Rightarrow> host_call \<Rightarrow> host_reply" where
  "inputCall lib r data call = (case call of
       InputBytes \<Rightarrow> Replies (JInts (byteInts data))
     | InputHex \<Rightarrow> Replies (JString (formatHexBytes data))
     | InputText args \<Rightarrow> (case decodeSerialText (slCodecs lib) data (encodingArg lib r args 0) of
           Inl e \<Rightarrow> Fails (slText lib e) | Inr text \<Rightarrow> Replies (JString text))
     | _ \<Rightarrow> Fails (slMissing lib ''input''))"

definition outputCall :: "script_lib \<Rightarrow> scriptRuntime \<Rightarrow> host_call \<Rightarrow> scriptHost \<Rightarrow> scriptHost \<times> host_reply" where
  "outputCall lib r call h = (case call of
       OutputBytes args \<Rightarrow> appendDecoded r (gojaValueToBytes (argument args 0)) h
     | OutputHex args \<Rightarrow> (let text = slString lib (argument args 0) in
         appendDecoded r (case decodeHexContent text of None \<Rightarrow> Inl (slHex lib text) | Some data \<Rightarrow> Inr data) h)
     | OutputText args \<Rightarrow> appendDecoded r (map_sum (slText lib) id
         (encodeSerialText (slCodecs lib) (slString lib (argument args 0)) (encodingArg lib r args 1))) h
     | _ \<Rightarrow> (h, Fails (slMissing lib ''output'')))"

text \<open>One call of the script; \<open>now\<close> is the clock. A name that is not exposed is a reference error.\<close>

definition hostCall :: "script_lib \<Rightarrow> scriptRuntime \<Rightarrow> bytes \<Rightarrow> int \<Rightarrow> host_call \<Rightarrow> scriptHost \<Rightarrow> scriptHost \<times> host_reply" where
  "hostCall lib r data now call h = (case call of
       InputBytes \<Rightarrow> (h, if exposesInputAPI r then inputCall lib r data call else Fails (slMissing lib ''input''))
     | InputHex \<Rightarrow> (h, if exposesInputAPI r then inputCall lib r data call else Fails (slMissing lib ''input''))
     | InputText _ \<Rightarrow> (h, if exposesInputAPI r then inputCall lib r data call else Fails (slMissing lib ''input''))
     | OutputBytes _ \<Rightarrow> if exposesOutputAPI r then outputCall lib r call h else (h, Fails (slMissing lib ''output''))
     | OutputHex _ \<Rightarrow> if exposesOutputAPI r then outputCall lib r call h else (h, Fails (slMissing lib ''output''))
     | OutputText _ \<Rightarrow> if exposesOutputAPI r then outputCall lib r call h else (h, Fails (slMissing lib ''output''))
     | DropCall \<Rightarrow> (h\<lparr>shDrop := True\<rparr>, Undefined)
     | FieldCall args \<Rightarrow> (h\<lparr>shFields := shFields h @ [\<lparr>sfName = slString lib (argument args 0), sfValue = argument args 1,
         sfDisplay = (if 2 < length args then slString lib (argument args 2) else [])\<rparr>]\<rparr>, Undefined)
     | ErrorCall args \<Rightarrow> (h\<lparr>shErrors := shErrors h @ [slString lib (argument args 0)]\<rparr>, Undefined)
     | StateGet args \<Rightarrow> (h, Replies (stateGet lib (shState h) (slString lib (argument args 0))))
     | StateSet args \<Rightarrow> (case stateSet lib (slString lib (argument args 0)) (argument args 1) (shState h) of
           (st, Some e) \<Rightarrow> (h\<lparr>shState := st\<rparr>, Fails e)
         | (st, None) \<Rightarrow> (h\<lparr>shState := st\<rparr>, Undefined))
     | StateDelete args \<Rightarrow> (h\<lparr>shState := stateDelete (slString lib (argument args 0)) (shState h)\<rparr>, Undefined)
     | Crc16Call args \<Rightarrow> (h, onBytes (\<lambda>data. uint (CRC16 data)) args)
     | Sum8Call args \<Rightarrow> (h, onBytes (\<lambda>data. uint (foldl (+) 0 data)) args)
     | NowCall \<Rightarrow> (h, Replies (JNumber (JInt now))))"

datatype script_outcome = RanToEnd | Raised string | StillRunning

text \<open>The first \<open>n\<close> calls of a script\<close>

primrec execute :: "script_lib \<Rightarrow> scriptRuntime \<Rightarrow> bytes \<Rightarrow> (nat \<Rightarrow> int) \<Rightarrow> nat \<Rightarrow> (host_call, host_reply) script \<Rightarrow> scriptHost \<Rightarrow>
    scriptHost \<times> script_outcome" where
  "execute lib r data clock 0 sc h = (h, case sc of Ends \<Rightarrow> RanToEnd | Throws e \<Rightarrow> Raised e | _ \<Rightarrow> StillRunning)"
| "execute lib r data clock (Suc n) sc h = (case sc of
     Calls call continue \<Rightarrow> (case hostCall lib r data (clock n) call h of
       (h1, reply) \<Rightarrow> execute lib r data clock n (continue reply) h1)
   | Ends \<Rightarrow> (h, RanToEnd) | Throws e \<Rightarrow> (h, Raised e) | Loops \<Rightarrow> (h, StillRunning))"

record scriptRunResult =
  rrOutput :: bytes
  rrDrop :: bool
  rrFields :: "scriptField list"
  rrErrors :: "string list"

text \<open>
  A run in which the script makes \<open>n\<close> calls before the timer fires, and \<open>late\<close> more before it notices. The
  changes of a state last also when the run fails.
\<close>

definition runScriptNode :: "script_lib \<Rightarrow> scriptRuntime \<Rightarrow> bytes \<Rightarrow> (nat \<Rightarrow> int) \<Rightarrow> nat \<Rightarrow> nat \<Rightarrow> (host_call, host_reply) script \<Rightarrow>
    scriptState \<Rightarrow> scriptState \<times> (string + scriptRunResult)" where
  "runScriptNode lib r data clock n late sc st =
     (if trim_space (srScript r) = [] then (st, Inl ''script must not be empty'')
      else case execute lib r data clock n sc (newScriptHost st) of
          (h, Raised e) \<Rightarrow> (shState h, Inl (''script error: '' @ e))
        | (h, StillRunning) \<Rightarrow> (shState (fst (execute lib r data clock (n + late) sc (newScriptHost st))), Inl ''script execution timeout'')
        | (h, RanToEnd) \<Rightarrow> (shState h, Inr \<lparr>rrOutput = (if shDrop h then [] else shOutput h), rrDrop = shDrop h,
             rrFields = shFields h, rrErrors = shErrors h\<rparr>))"

section \<open>Parser scripts\<close>

text \<open>An index out of range is a panic, \<open>None\<close>; offsets are added at 64 bits.\<close>

definition getByte :: "bytes \<Rightarrow> int \<Rightarrow> int" where
  "getByte data offset = (if offset < 0 \<or> int (length data) \<le> offset then 0 else uint (data ! nat offset))"

definition getBytes :: "bytes \<Rightarrow> int \<Rightarrow> int \<Rightarrow> int list option" where
  "getBytes data offset len = (if len < 0 then None
     else Some (map (\<lambda>i. getByte data (wrap64 (offset + int i))) [0..<nat len]))"

definition dataAt :: "bytes \<Rightarrow> int \<Rightarrow> int option" where
  "dataAt data i = (if 0 \<le> i \<and> i < int (length data) then Some (uint (data ! nat i)) else None)"

definition readU16 :: "bytes \<Rightarrow> int \<Rightarrow> bool \<Rightarrow> int option" where
  "readU16 data offset le =
     (if int (length data) \<le> wrap64 (offset + 1) then Some 0
      else case (dataAt data offset, dataAt data (wrap64 (offset + 1))) of
          (Some a, Some b) \<Rightarrow> Some (if le then a OR push_bit 8 b else push_bit 8 a OR b)
        | _ \<Rightarrow> None)"

definition readU32 :: "bytes \<Rightarrow> int \<Rightarrow> bool \<Rightarrow> int option" where
  "readU32 data offset le =
     (if int (length data) \<le> wrap64 (offset + 3) then Some 0
      else case (dataAt data offset, dataAt data (wrap64 (offset + 1)), dataAt data (wrap64 (offset + 2)), dataAt data (wrap64 (offset + 3))) of
          (Some a, Some b, Some c, Some d) \<Rightarrow>
            Some (if le then a OR push_bit 8 b OR push_bit 16 c OR push_bit 24 d
                  else push_bit 24 a OR push_bit 16 b OR push_bit 8 c OR d)
        | _ \<Rightarrow> None)"

datatype parser_call = PByte int | PBytes int int | PU16 int "bool option" | PU32 int "bool option"
  | PField "js list" | PError "js list" | PLen | PNow

record scriptEngine =
  enFields :: "scriptField list"
  enErrs :: "string list"
  enData :: bytes

definition NewEngine :: scriptEngine where
  "NewEngine = \<lparr>enFields = [], enErrs = [], enData = []\<rparr>"

definition replyInt :: "int option \<Rightarrow> host_reply option" where
  "replyInt n = map_option (\<lambda>i. Replies (JNumber (JInt i))) n"

definition parserCall :: "script_lib \<Rightarrow> int \<Rightarrow> parser_call \<Rightarrow> scriptEngine \<Rightarrow> (scriptEngine \<times> host_reply) option" where
  "parserCall lib now call e = (case call of
       PByte offset \<Rightarrow> map_option (Pair e) (replyInt (Some (getByte (enData e) offset)))
     | PBytes offset len \<Rightarrow> map_option (\<lambda>ns. (e, Replies (JInts ns))) (getBytes (enData e) offset len)
     | PU16 offset le \<Rightarrow> map_option (Pair e) (replyInt (readU16 (enData e) offset (case le of None \<Rightarrow> True | Some b \<Rightarrow> b)))
     | PU32 offset le \<Rightarrow> map_option (Pair e) (replyInt (readU32 (enData e) offset (case le of None \<Rightarrow> True | Some b \<Rightarrow> b)))
     | PField args \<Rightarrow> Some (e\<lparr>enFields := enFields e @ [\<lparr>sfName = slString lib (argument args 0), sfValue = argument args 1,
         sfDisplay = (if 2 < length args then slString lib (argument args 2) else [])\<rparr>]\<rparr>, Undefined)
     | PError args \<Rightarrow> Some (e\<lparr>enErrs := enErrs e @ [slString lib (argument args 0)]\<rparr>, Undefined)
     | PLen \<Rightarrow> map_option (Pair e) (replyInt (Some (int (length (enData e)))))
     | PNow \<Rightarrow> map_option (Pair e) (replyInt (Some now)))"

text \<open>\<open>None\<close> is a panic inside a call.\<close>

primrec parseCalls :: "script_lib \<Rightarrow> (nat \<Rightarrow> int) \<Rightarrow> nat \<Rightarrow> (parser_call, host_reply) script \<Rightarrow> scriptEngine \<Rightarrow>
    (scriptEngine \<times> script_outcome) option" where
  "parseCalls lib clock 0 sc e = Some (e, case sc of Ends \<Rightarrow> RanToEnd | Throws err \<Rightarrow> Raised err | _ \<Rightarrow> StillRunning)"
| "parseCalls lib clock (Suc n) sc e = (case sc of
     Calls call continue \<Rightarrow> (case parserCall lib (clock n) call e of
         None \<Rightarrow> None
       | Some (e1, reply) \<Rightarrow> parseCalls lib clock n (continue reply) e1)
   | Ends \<Rightarrow> Some (e, RanToEnd) | Throws err \<Rightarrow> Some (e, Raised err) | Loops \<Rightarrow> Some (e, StillRunning))"

record scriptParse =
  spOK :: bool
  spFields :: "scriptField list"
  spErrors :: "string list"
  spConsumed :: int

definition RunScript :: "script_lib \<Rightarrow> (nat \<Rightarrow> int) \<Rightarrow> nat \<Rightarrow> (parser_call, host_reply) script \<Rightarrow> bytes \<Rightarrow> scriptEngine \<Rightarrow>
    (scriptEngine \<times> (string + scriptParse)) option" where
  "RunScript lib clock n sc data e =
     (case parseCalls lib clock n sc (e\<lparr>enFields := [], enErrs := [], enData := data\<rparr>) of
        None \<Rightarrow> None
      | Some (e1, Raised err) \<Rightarrow> Some (e1, Inl (''script error: '' @ err))
      | Some (e1, StillRunning) \<Rightarrow> Some (e1, Inl ''script execution timed out'')
      | Some (e1, RanToEnd) \<Rightarrow> Some (e1, Inr \<lparr>spOK = (enErrs e1 = []), spFields = enFields e1, spErrors = enErrs e1,
          spConsumed = int (length data)\<rparr>))"

end
