(* ===== verification/ScriptHostFacts.thy ===== *)
theory ScriptHostFacts
  imports ScriptHost
begin

text \<open>
  The limits a host keeps whatever the script does: the output of a run and the state between runs stay within
  their sizes, an analyzer sends nothing, a generator sees nothing, and a parser script that reads with offsets
  that are not negative never panics.
\<close>

section \<open>Output\<close>

lemma appendOutput_bound:
  "int (length (shOutput h)) \<le> srMaxOutput r \<Longrightarrow> int (length (shOutput (fst (appendOutput r data h)))) \<le> srMaxOutput r"
  by (simp add: appendOutput_def)

lemma appendOutput_state [simp]: "shState (fst (appendOutput r data h)) = shState h"
  by (simp add: appendOutput_def)

lemma outputCall_bound:
  "int (length (shOutput h)) \<le> srMaxOutput r \<Longrightarrow> int (length (shOutput (fst (outputCall lib r call h)))) \<le> srMaxOutput r"
  by (auto simp: outputCall_def appendDecoded_def Let_def appendOutput_bound split: host_call.split sum.split)

lemma outputCall_state [simp]: "shState (fst (outputCall lib r call h)) = shState h"
  by (auto simp: outputCall_def appendDecoded_def Let_def split: host_call.split sum.split)

lemma hostCall_bound:
  "int (length (shOutput h)) \<le> srMaxOutput r \<Longrightarrow> int (length (shOutput (fst (hostCall lib r data now call h)))) \<le> srMaxOutput r"
  by (auto simp: hostCall_def outputCall_bound split: host_call.split prod.split option.split)

lemma hostCall_silent: "\<not> exposesOutputAPI r \<Longrightarrow> shOutput (fst (hostCall lib r data now call h)) = shOutput h"
  by (auto simp: hostCall_def split: host_call.split prod.split option.split)

lemma hostCall_blind: "\<not> exposesInputAPI r \<Longrightarrow> hostCall lib r data now call h = hostCall lib r data' now call h"
  by (cases call) (auto simp: hostCall_def)

section \<open>The state between runs\<close>

text \<open>The state is within its size; removing a key does not make the JSON text longer.\<close>

definition stateFits :: "script_lib \<Rightarrow> scriptState \<Rightarrow> bool" where
  "stateFits lib st \<longleftrightarrow> (\<exists>n. slSize lib (ssValues st) = Some n \<and> n \<le> ssMaxSize st)"

definition sizeShrinks :: "script_lib \<Rightarrow> bool" where
  "sizeShrinks lib \<longleftrightarrow> (\<forall>k t n. slSize lib t = Some n \<longrightarrow> (\<exists>m \<le> n. slSize lib (table_del k t) = Some m))"

lemma stateSet_fits: "stateFits lib st \<Longrightarrow> stateFits lib (fst (stateSet lib k v st)) \<and> ssMaxSize (fst (stateSet lib k v st)) = ssMaxSize st"
  by (auto simp: stateSet_def stateFits_def Let_def split: option.split)

lemma stateSet_failed: "stateSet lib k v st = (st', Some e) \<Longrightarrow> st' = st"
  by (auto simp: stateSet_def Let_def split: option.splits if_splits)

lemma stateDelete_fits: "sizeShrinks lib \<Longrightarrow> stateFits lib st \<Longrightarrow> stateFits lib (stateDelete k st)"
  unfolding sizeShrinks_def stateFits_def stateDelete_def by (simp, meson order_trans)

lemma hostCall_fits:
  assumes "sizeShrinks lib" "stateFits lib (shState h)"
  shows "stateFits lib (shState (fst (hostCall lib r data now call h))) \<and>
    ssMaxSize (shState (fst (hostCall lib r data now call h))) = ssMaxSize (shState h)"
proof (cases call)
  case (StateSet args)
  have "stateFits lib st \<and> ssMaxSize st = ssMaxSize (shState h)"
    if "stateSet lib k v (shState h) = (st, e)" for k v st e
    using stateSet_fits [OF assms(2), of k v] that by simp
  with StateSet show ?thesis by (auto simp: hostCall_def split: prod.split option.split)
next
  case (StateDelete args)
  with stateDelete_fits [OF assms] show ?thesis by (simp add: hostCall_def) (simp add: stateDelete_def)
qed (use assms(2) in \<open>auto simp: hostCall_def\<close>)

section \<open>Runs\<close>

lemma execute_keeps:
  assumes "\<And>now call h. P h \<Longrightarrow> P (fst (hostCall lib r data now call h))" and "P h"
  shows "P (fst (execute lib r data clock n sc h))"
  using assms(2)
proof (induction n arbitrary: sc h)
  case (Suc n)
  show ?case
  proof (cases sc)
    case (Calls call continue)
    obtain h1 reply where c: "hostCall lib r data (clock n) call h = (h1, reply)" by fastforce
    with assms(1) [OF Suc.prems] have "P h1" by (metis fst_conv)
    with Suc.IH c Calls show ?thesis by simp
  qed (use Suc.prems in auto)
qed simp

lemma execute_blind:
  "\<not> exposesInputAPI r \<Longrightarrow> execute lib r data clock n sc h = execute lib r data' clock n sc h"
proof (induction n arbitrary: sc h)
  case (Suc n)
  show ?case
  proof (cases sc)
    case (Calls call continue)
    obtain h1 reply where "hostCall lib r data (clock n) call h = (h1, reply)" by fastforce
    with hostCall_blind [OF Suc.prems, of lib data "clock n" call h data'] Suc.IH [OF Suc.prems] Calls show ?thesis by simp
  qed simp_all
qed simp

lemma run_output_bound:
  assumes "runScriptNode lib r data clock n late sc st = (st', Inr res)" and "0 \<le> srMaxOutput r"
  shows "int (length (rrOutput res)) \<le> srMaxOutput r \<and> (\<not> exposesOutputAPI r \<longrightarrow> rrOutput res = []) \<and> (rrDrop res \<longrightarrow> rrOutput res = [])"
proof -
  obtain h where e: "execute lib r data clock n sc (newScriptHost st) = (h, RanToEnd)"
    and res: "rrOutput res = (if shDrop h then [] else shOutput h)" "rrDrop res = shDrop h"
    using assms(1) by (auto simp: runScriptNode_def split: if_splits prod.splits script_outcome.splits)
  have "int (length (shOutput h)) \<le> srMaxOutput r"
    using execute_keeps [of "\<lambda>h. int (length (shOutput h)) \<le> srMaxOutput r" lib r data "newScriptHost st" clock n sc] hostCall_bound assms(2) e
    by (simp add: newScriptHost_def)
  moreover have "shOutput h = []" if "\<not> exposesOutputAPI r"
    using execute_keeps [of "\<lambda>h. shOutput h = []" lib r data "newScriptHost st" clock n sc] hostCall_silent [OF that] e
    by (simp add: newScriptHost_def)
  ultimately show ?thesis using res assms(2) by auto
qed

lemma execute_fits:
  assumes "sizeShrinks lib" "stateFits lib st"
  shows "stateFits lib (shState (fst (execute lib r data clock n sc (newScriptHost st)))) \<and>
    ssMaxSize (shState (fst (execute lib r data clock n sc (newScriptHost st)))) = ssMaxSize st"
  using execute_keeps [of "\<lambda>h. stateFits lib (shState h) \<and> ssMaxSize (shState h) = ssMaxSize st" lib r data "newScriptHost st" clock n sc]
    hostCall_fits [OF assms(1)] assms(2) by (simp add: newScriptHost_def)

lemma run_fits:
  assumes "sizeShrinks lib" "stateFits lib st"
  shows "stateFits lib (fst (runScriptNode lib r data clock n late sc st)) \<and>
    ssMaxSize (fst (runScriptNode lib r data clock n late sc st)) = ssMaxSize st"
proof -
  have "stateFits lib (shState h) \<and> ssMaxSize (shState h) = ssMaxSize st"
    if "execute lib r data clock k sc (newScriptHost st) = (h, x)" for k h x
    using execute_fits [OF assms, of r data clock k sc] that by simp
  then show ?thesis using assms execute_fits [OF assms]
    by (auto simp: runScriptNode_def split: prod.split script_outcome.split)
qed

text \<open>The runs of a node, one after the other: the data each receives, its clock, its calls and its script\<close>

type_synonym script_event = "bytes \<times> (nat \<Rightarrow> int) \<times> nat \<times> nat \<times> (host_call, host_reply) script"

fun scriptRuns :: "script_lib \<Rightarrow> scriptRuntime \<Rightarrow> script_event list \<Rightarrow> scriptState \<Rightarrow> scriptState \<times> (string + scriptRunResult) list" where
  "scriptRuns lib r [] st = (st, [])"
| "scriptRuns lib r ((data, clock, n, late, sc) # evs) st =
     (case runScriptNode lib r data clock n late sc st of
        (st1, res) \<Rightarrow> (case scriptRuns lib r evs st1 of (st2, rest) \<Rightarrow> (st2, res # rest)))"

lemma runtime_limits: "0 < srMaxOutput (fst (newSerialScriptRuntimeForNode t c)) \<and> 0 < srTimeout (fst (newSerialScriptRuntimeForNode t c))
    \<and> 0 < ssMaxSize (snd (newSerialScriptRuntimeForNode t c)) \<and> ssValues (snd (newSerialScriptRuntimeForNode t c)) = []
    \<and> srNodeType (fst (newSerialScriptRuntimeForNode t c)) = t"
  by (simp add: newSerialScriptRuntimeForNode_def Let_def newSerialScriptState_def serialScriptDefaultMaxOutputSize_def
      serialScriptDefaultTimeout_def serialScriptDefaultMaxStateSize_def)

lemma runs_bound:
  "sizeShrinks lib \<Longrightarrow> stateFits lib st \<Longrightarrow> 0 \<le> srMaxOutput r \<Longrightarrow> scriptRuns lib r evs st = (st', results) \<Longrightarrow>
    stateFits lib st' \<and> ssMaxSize st' = ssMaxSize st \<and> length results = length evs \<and>
    (\<forall>res. Inr res \<in> set results \<longrightarrow> int (length (rrOutput res)) \<le> srMaxOutput r \<and> (\<not> exposesOutputAPI r \<longrightarrow> rrOutput res = []))"
proof (induction evs arbitrary: st st' results)
  case (Cons ev evs)
  obtain data clock n late sc where ev: "ev = (data, clock, n, late, sc)" by (metis prod_cases5)
  obtain st1 res where r1: "runScriptNode lib r data clock n late sc st = (st1, res)" by fastforce
  obtain st2 rest where r2: "scriptRuns lib r evs st1 = (st2, rest)" by fastforce
  have f: "stateFits lib st1" "ssMaxSize st1 = ssMaxSize st"
    using run_fits [OF Cons.prems(1,2), of r data clock n late sc] r1 by simp_all
  note IH = Cons.IH [OF Cons.prems(1) f(1) Cons.prems(3) r2]
  have "st' = st2" "results = res # rest" using Cons.prems(4) ev r1 r2 by simp_all
  moreover have "int (length (rrOutput x)) \<le> srMaxOutput r \<and> (\<not> exposesOutputAPI r \<longrightarrow> rrOutput x = [])" if "res = Inr x" for x
    using run_output_bound [OF r1 [unfolded that] Cons.prems(3)] by blast
  ultimately show ?case using IH f(2) by auto
qed auto

section \<open>Parser scripts\<close>

lemma wrap64_add: "0 \<le> i \<Longrightarrow> i < 2 ^ 62 \<Longrightarrow> 0 \<le> k \<Longrightarrow> k \<le> 3 \<Longrightarrow> wrap64 (i + k) = i + k"
  by (simp add: wrap64_def)

text \<open>Offsets of the script that are not negative are read without a panic, and those that are panic.\<close>

lemma reads_safe:
  assumes "0 \<le> offset" "offset < 2 ^ 62"
  shows "readU16 data offset le \<noteq> None" "readU32 data offset le \<noteq> None"
  using assms wrap64_add [OF assms, of 1] wrap64_add [OF assms, of 2] wrap64_add [OF assms, of 3]
  by (auto simp: readU16_def readU32_def dataAt_def)

lemma read_below_panics: "2 \<le> length data \<Longrightarrow> readU16 data (- 1) le = None" "4 \<le> length data \<Longrightarrow> readU32 data (- 1) le = None"
  by (auto simp: readU16_def readU32_def dataAt_def wrap64_def)

section \<open>Properties\<close>

text \<open>C31: Whatever the scripts of a node do, in whatever sequence of runs and however late they notice that
  their time is over: every output is within the configured size, an analyzer sends nothing, and the state that
  lasts between the runs stays within its size, also after runs that failed. The text of the state must not
  grow when a key is removed, which holds of JSON, and the empty state must fit.\<close>

theorem script_limits:
  assumes "newSerialScriptRuntimeForNode nodeType config = (r, st)" and "scriptRuns lib r evs st = (st', results)"
    and "sizeShrinks lib" and "slSize lib [] = Some n" and "n \<le> ssMaxSize st"
  shows "(\<exists>m. slSize lib (ssValues st') = Some m \<and> m \<le> ssMaxSize st) \<and> length results = length evs \<and>
    (\<forall>res. Inr res \<in> set results \<longrightarrow> int (length (rrOutput res)) \<le> srMaxOutput r
       \<and> (nodeType = ''serial.script.analyzer'' \<longrightarrow> rrOutput res = []))"
proof -
  note lim = runtime_limits [of nodeType config, unfolded assms(1) fst_conv snd_conv]
  have "stateFits lib st" using lim assms(4,5) by (simp add: stateFits_def)
  moreover have "0 \<le> srMaxOutput r" using lim by linarith
  ultimately show ?thesis using runs_bound [OF assms(3) _ _ assms(2)] lim by (auto simp: stateFits_def exposesOutputAPI_def)
qed

text \<open>A node with 4 bytes of output and 30 of state, whose script keeps a text and sends it twice\<close>

definition sampleLib :: script_lib where
  "sampleLib = \<lparr>slString = (\<lambda>v. case v of JString s \<Rightarrow> s | _ \<Rightarrow> []), slClone = Some,
     slSize = (\<lambda>t. Some (2 + 10 * int (length t))), slCodecs = \<lparr>tcEncode = (\<lambda>_ _. None), tcDecode = (\<lambda>_ _. None)\<rparr>,
     slText = (\<lambda>_. ''text''), slHex = (\<lambda>_. ''hex''), slMissing = (\<lambda>n. n @ '' is not defined'')\<rparr>"

definition sampleScript :: "(host_call, host_reply) script" where
  "sampleScript = Calls (StateSet [JString ''k'', JString ''v'']) (\<lambda>_. Calls (OutputBytes [JString ''abc''])
     (\<lambda>_. Calls (OutputBytes [JString ''de'']) (\<lambda>reply. case reply of Fails e \<Rightarrow> Ends | _ \<Rightarrow> Throws ''unexpected'')))"

definition sampleConfig :: config where
  "sampleConfig = [(''script'', CString ''run''), (''maxOutputBytes'', CInt 4), (''maxStateBytes'', CInt 30)]"

lemma sampleLib_shrinks: "sizeShrinks sampleLib"
  by (simp add: sizeShrinks_def sampleLib_def table_del_def)

theorem script_limits_witness:
  "\<exists>st results. scriptRuns sampleLib (fst (newSerialScriptRuntimeForNode ''serial.script.transform'' sampleConfig))
      [([], \<lambda>_. 0, 3, 0, sampleScript)] (snd (newSerialScriptRuntimeForNode ''serial.script.transform'' sampleConfig)) = (st, results)
    \<and> (\<exists>m. slSize sampleLib (ssValues st) = Some m \<and> m \<le> 30)"
proof -
  define r where "r = fst (newSerialScriptRuntimeForNode ''serial.script.transform'' sampleConfig)"
  define s where "s = snd (newSerialScriptRuntimeForNode ''serial.script.transform'' sampleConfig)"
  have n: "newSerialScriptRuntimeForNode ''serial.script.transform'' sampleConfig = (r, s)" by (simp add: r_def s_def)
  have m: "ssMaxSize s = 30"
    by (simp add: s_def newSerialScriptRuntimeForNode_def Let_def newSerialScriptState_def graphIntConfig_def sampleConfig_def)
  obtain st results where e: "scriptRuns sampleLib r [([], \<lambda>_. 0, 3, 0, sampleScript)] s = (st, results)" by fastforce
  have "slSize sampleLib [] = Some 2" by (simp add: sampleLib_def)
  from script_limits [OF n e sampleLib_shrinks this] m have "\<exists>m. slSize sampleLib (ssValues st) = Some m \<and> m \<le> 30" by simp
  with e show ?thesis unfolding r_def s_def by blast
qed

lemma sample_script_run: "rrOutput (projr (snd (runScriptNode sampleLib \<lparr>srScript = ''run'', srTimeout = 1, srMaxOutput = 4, srEncoding = ''utf-8'',
    srNodeType = ''serial.script.transform''\<rparr> [] (\<lambda>_. 0) 3 0 sampleScript \<lparr>ssValues = [], ssMaxSize = 30\<rparr>))) = bytes_of ''abc''"
  by (simp add: runScriptNode_def numeral_eq_Suc sampleScript_def hostCall_def stateSet_def sampleLib_def jsonCompatibleClone_def argument_def
      exposesOutputAPI_def outputCall_def appendDecoded_def gojaValueToBytes_def appendOutput_def newScriptHost_def Let_def)
    (simp add: trim_space_visible visible_def)

end
