(* ===== verification/FileStore.thy ===== *)
theory FileStore
  imports GoErrors GoStrings
begin

text \<open>
  Files: the workspace service (\<open>internal/core/workspace/service.go\<close>) and the configuration
  (\<open>internal/core/config/config.go\<close>). A call that writes passes through a list of file systems, in any of which
  the program may be killed; the last one is what it leaves. The failures of the system, the paths the library
  \<open>filepath\<close> computes, the dialogs, and the texts of JSON and TOML are arguments.
\<close>

section \<open>Writing a file in one step\<close>

type_synonym files = "string \<Rightarrow> bytes option"

text \<open>
  How the calls of the system end: the directory, the temporary file (its name), the number of bytes written
  before an error, closing, changing the mode, renaming, and whether a left-over file can be removed.
\<close>

record writeOutcome =
  woMkdir :: "string option"
  woTemp :: "string + string"
  woWrite :: "(nat \<times> string) option"
  woClose :: "string option"
  woChmod :: "string option"
  woRename :: "string option"
  woRemove :: bool

text \<open>The deferred removal of the temporary file, if it is still there\<close>

definition removeTemp :: "writeOutcome \<Rightarrow> string \<Rightarrow> files \<Rightarrow> files" where
  "removeTemp out tmp fs = (if fs tmp \<noteq> None \<and> woRemove out then fs(tmp := None) else fs)"

definition renameFile :: "string \<Rightarrow> string \<Rightarrow> files \<Rightarrow> files" where
  "renameFile tmp path fs = (if tmp = path then fs else (fs(path := fs tmp))(tmp := None))"

text \<open>The states while the bytes are written one by one\<close>

definition growing :: "string \<Rightarrow> bytes \<Rightarrow> nat \<Rightarrow> files \<Rightarrow> files list" where
  "growing tmp data n fs = map (\<lambda>k. fs(tmp \<mapsto> take k data)) [0..<Suc n]"

text \<open>What follows the creation of the temporary file: an error closes and removes it\<close>

definition replaceFile :: "(string \<Rightarrow> string \<Rightarrow> goError) \<Rightarrow> bool \<Rightarrow> writeOutcome \<Rightarrow> string \<Rightarrow> string \<Rightarrow> bytes \<Rightarrow> files \<Rightarrow>
    files list \<times> goError option" where
  "replaceFile failed chmod out tmp path data fs =
     (case woWrite out of
        Some (n, e) \<Rightarrow> (let steps = growing tmp data (min n (length data)) fs in
          (steps @ [removeTemp out tmp (last steps)], Some (failed ''write'' e)))
      | None \<Rightarrow>
         let steps = growing tmp data (length data) fs; full = fs(tmp \<mapsto> data); cleaned = [removeTemp out tmp full] in
         case woClose out of
           Some e \<Rightarrow> (steps @ cleaned, Some (failed ''close'' e))
         | None \<Rightarrow> (case (if chmod then woChmod out else None) of
               Some e \<Rightarrow> (steps @ cleaned, Some (failed ''chmod'' e))
             | None \<Rightarrow> (case woRename out of
                   Some e \<Rightarrow> (steps @ cleaned, Some (failed ''rename'' e))
                 | None \<Rightarrow> let renamed = renameFile tmp path full in
                     (steps @ [renamed, removeTemp out tmp renamed], None))))"

definition workspaceFailed :: "string \<Rightarrow> string \<Rightarrow> string \<Rightarrow> goError" where
  "workspaceFailed path action e =
     wrapError CodeIO (if action = ''rename'' then ''rename temp workspace to '' @ path else action @ '' temp workspace'') e"

definition writeAtomic :: "writeOutcome \<Rightarrow> string \<Rightarrow> bytes \<Rightarrow> files \<Rightarrow> files list \<times> goError option" where
  "writeAtomic out path data fs =
     (if path = [] then ([fs], Some (invalid ''path must not be empty''))
      else case woMkdir out of
          Some e \<Rightarrow> ([fs], Some (wrapError CodePlatform ''create workspace directory'' e))
        | None \<Rightarrow> (case woTemp out of
              Inl e \<Rightarrow> ([fs], Some (wrapError CodeIO ''create temp workspace'' e))
            | Inr tmp \<Rightarrow> replaceFile (workspaceFailed path) True out tmp path data fs))"

section \<open>The workspace service\<close>

text \<open>The dialogs, the paths, and the JSON text of the remembered path\<close>

record workspaceLib =
  wlJoin :: "string \<Rightarrow> string \<Rightarrow> string"
  wlDir :: "string \<Rightarrow> string"
  wlBase :: "string \<Rightarrow> string"
  wlEncode :: "string \<Rightarrow> bytes"
  wlDecode :: "bytes \<Rightarrow> string + string"
  wlOpenDialog :: "string \<Rightarrow> goError + string"
  wlSaveDialog :: "string \<Rightarrow> string \<Rightarrow> goError + string"

text \<open>The directory for configuration, if there are paths\<close>

definition configDir :: "string option \<Rightarrow> string" where
  "configDir paths = (case paths of Some d \<Rightarrow> if d \<noteq> [] then d else ''.'' | None \<Rightarrow> ''.'')"

definition stateFileName :: string where "stateFileName = ''workspace-state.json''"

definition statePath :: "workspaceLib \<Rightarrow> string option \<Rightarrow> string" where
  "statePath lib paths = wlJoin lib (configDir paths) stateFileName"

definition cancelled :: "string \<Rightarrow> goError" where
  "cancelled e = Opaque e"

definition emptyPath :: goError where
  "emptyPath = invalid ''workspace path must not be empty''"

definition RememberLastWorkspace :: "workspaceLib \<Rightarrow> string option \<Rightarrow> string option \<Rightarrow> writeOutcome \<Rightarrow> string \<Rightarrow> files \<Rightarrow>
    files list \<times> goError option" where
  "RememberLastWorkspace lib paths ctx out path fs = (case ctx of
       Some e \<Rightarrow> ([fs], Some (cancelled e))
     | None \<Rightarrow> if path = [] then ([fs], Some emptyPath)
         else writeAtomic out (statePath lib paths) (wlEncode lib path) fs)"

text \<open>\<open>ctx\<close> and \<open>ctx2\<close> are what the context answers at the start and before the path is remembered.\<close>

definition SaveWorkspace :: "workspaceLib \<Rightarrow> string option \<Rightarrow> string option \<Rightarrow> string option \<Rightarrow> writeOutcome \<Rightarrow> writeOutcome \<Rightarrow>
    string \<Rightarrow> string \<Rightarrow> files \<Rightarrow> files list \<times> goError option" where
  "SaveWorkspace lib paths ctx ctx2 out out2 path content fs = (case ctx of
       Some e \<Rightarrow> ([fs], Some (cancelled e))
     | None \<Rightarrow> if path = [] then ([fs], Some emptyPath)
         else case writeAtomic out path (bytes_of content) fs of
             (steps, Some e) \<Rightarrow> (steps, Some e)
           | (steps, None) \<Rightarrow> (case RememberLastWorkspace lib paths ctx2 out2 path (last steps) of
                 (steps2, e) \<Rightarrow> (steps @ steps2, e)))"

definition ExportWorkspace :: "string option \<Rightarrow> writeOutcome \<Rightarrow> string \<Rightarrow> string \<Rightarrow> files \<Rightarrow> files list \<times> goError option" where
  "ExportWorkspace ctx out path content fs = (case ctx of
       Some e \<Rightarrow> ([fs], Some (cancelled e))
     | None \<Rightarrow> if path = [] then ([fs], Some emptyPath) else writeAtomic out path (bytes_of content) fs)"

text \<open>A read fails, finds no file, or gives the content.\<close>

datatype read_result = ReadFails string | NotExist | Content bytes

definition readFile :: "(string \<Rightarrow> string option) \<Rightarrow> files \<Rightarrow> string \<Rightarrow> read_result" where
  "readFile broken fs path = (case broken path of Some e \<Rightarrow> ReadFails e
     | None \<Rightarrow> (case fs path of None \<Rightarrow> NotExist | Some data \<Rightarrow> Content data))"

definition ReadWorkspace :: "string option \<Rightarrow> (string \<Rightarrow> string option) \<Rightarrow> string \<Rightarrow> files \<Rightarrow> goError + string \<times> string" where
  "ReadWorkspace ctx broken path fs = (case ctx of
       Some e \<Rightarrow> Inl (cancelled e)
     | None \<Rightarrow> if path = [] then Inl emptyPath
         else case readFile broken fs path of
             Content data \<Rightarrow> Inr (path, string_of data)
           | NotExist \<Rightarrow> Inl (wrapError CodeIO ''read workspace file'' ''not exist'')
           | ReadFails e \<Rightarrow> Inl (wrapError CodeIO ''read workspace file'' e))"

definition loadState :: "workspaceLib \<Rightarrow> string option \<Rightarrow> (string \<Rightarrow> string option) \<Rightarrow> files \<Rightarrow> goError + string" where
  "loadState lib paths broken fs = (case readFile broken fs (statePath lib paths) of
       ReadFails e \<Rightarrow> Inl (wrapError CodeIO ''read workspace state'' e)
     | NotExist \<Rightarrow> Inr []
     | Content data \<Rightarrow> (case wlDecode lib data of
           Inl e \<Rightarrow> Inl (wrapError CodeInvalid ''parse workspace state'' e) | Inr path \<Rightarrow> Inr path))"

record lastWorkspace =
  lwFound :: bool
  lwPath :: string
  lwContent :: string

definition LoadLastWorkspace :: "workspaceLib \<Rightarrow> string option \<Rightarrow> string option \<Rightarrow> (string \<Rightarrow> string option) \<Rightarrow> files \<Rightarrow>
    goError + lastWorkspace" where
  "LoadLastWorkspace lib paths ctx broken fs = (case ctx of
       Some e \<Rightarrow> Inl (cancelled e)
     | None \<Rightarrow> (case loadState lib paths broken fs of
           Inl e \<Rightarrow> Inl e
         | Inr path \<Rightarrow>
             if path = [] then Inr \<lparr>lwFound = False, lwPath = [], lwContent = []\<rparr>
             else case readFile broken fs path of
                 NotExist \<Rightarrow> Inr \<lparr>lwFound = False, lwPath = path, lwContent = []\<rparr>
               | ReadFails e \<Rightarrow> Inl (wrapError CodeIO ''read last workspace file'' e)
               | Content data \<Rightarrow> Inr \<lparr>lwFound = True, lwPath = path, lwContent = string_of data\<rparr>))"

definition DefaultWorkspacePath :: "workspaceLib \<Rightarrow> string option \<Rightarrow> string option \<Rightarrow> goError + string" where
  "DefaultWorkspacePath lib paths ctx = (case ctx of Some e \<Rightarrow> Inl (cancelled e)
     | None \<Rightarrow> Inr (wlJoin lib (configDir paths) ''workspace.portweave.json''))"

definition workspaceDialogDirectory :: "workspaceLib \<Rightarrow> string \<Rightarrow> string \<Rightarrow> string" where
  "workspaceDialogDirectory lib path fallback =
     (if path \<noteq> [] then wlDir lib path else if fallback \<noteq> [] then fallback else ''.'')"

definition SelectWorkspaceOpenPath :: "workspaceLib \<Rightarrow> string option \<Rightarrow> string option \<Rightarrow> string \<Rightarrow> goError + string" where
  "SelectWorkspaceOpenPath lib paths ctx currentPath = (case ctx of Some e \<Rightarrow> Inl (cancelled e)
     | None \<Rightarrow> wlOpenDialog lib (workspaceDialogDirectory lib currentPath (configDir paths)))"

definition SelectWorkspaceSavePath :: "workspaceLib \<Rightarrow> string option \<Rightarrow> string option \<Rightarrow> string option \<Rightarrow> string \<Rightarrow> goError + string" where
  "SelectWorkspaceSavePath lib paths ctx ctx2 currentPath = (case ctx of Some e \<Rightarrow> Inl (cancelled e)
     | None \<Rightarrow> (case DefaultWorkspacePath lib paths ctx2 of
           Inl e \<Rightarrow> Inl e
         | Inr defaultPath \<Rightarrow> let basePath = (if currentPath = [] then defaultPath else currentPath) in
             wlSaveDialog lib (workspaceDialogDirectory lib basePath (configDir paths)) (wlBase lib basePath)))"

section \<open>The configuration\<close>

record appConfig = acName :: string acVersion :: string

record mcpConfig =
  mcEnabled :: bool
  mcHost :: string
  mcPort :: int
  mcPath :: string
  mcAllowLocalOrigins :: bool

record windowConfig =
  wcWidth :: int
  wcHeight :: int
  wcTheme :: string

record portPreset =
  ppName :: string
  ppPort :: string
  ppBaudRate :: int
  ppDataBits :: int
  ppStopBits :: string
  ppParity :: string
  ppFlowMode :: string

record quickButton =
  qbID :: string
  qbLabel :: string
  qbContent :: string
  qbMode :: string

text \<open>The raw configuration of the modules is a table of texts that nothing here reads.\<close>

record configSchema =
  csApp :: appConfig
  csMCP :: mcpConfig
  csWindow :: windowConfig
  csPresets :: "portPreset list"
  csQuickButtons :: "quickButton list"
  csModules :: "(string, string) table"

definition configDefault :: configSchema where
  "configDefault = \<lparr>csApp = \<lparr>acName = ''PortWeave'', acVersion = ''0.1.0''\<rparr>,
     csMCP = \<lparr>mcEnabled = True, mcHost = ''127.0.0.1'', mcPort = 39391, mcPath = ''/mcp'', mcAllowLocalOrigins = True\<rparr>,
     csWindow = \<lparr>wcWidth = 1280, wcHeight = 800, wcTheme = ''dark''\<rparr>,
     csPresets = [\<lparr>ppName = string_of [0xE9, 0xBB, 0x98, 0xE8, 0xAE, 0xA4] @ '' 115200'', ppPort = [], ppBaudRate = 115200,
       ppDataBits = 8, ppStopBits = ''1'', ppParity = ''none'', ppFlowMode = ''none''\<rparr>],
     csQuickButtons = [], csModules = []\<rparr>"

text \<open>The TOML library: the text of a configuration, and a text read into a configuration\<close>

record configLib =
  clMarshal :: "configSchema \<Rightarrow> string + bytes"
  clUnmarshal :: "bytes \<Rightarrow> configSchema \<Rightarrow> string + configSchema"

definition configLoad :: "configLib \<Rightarrow> (string \<Rightarrow> string option) \<Rightarrow> string \<Rightarrow> files \<Rightarrow> goError + configSchema" where
  "configLoad lib broken path fs = (case readFile broken fs path of
       NotExist \<Rightarrow> Inr configDefault
     | ReadFails e \<Rightarrow> Inl (wrapError CodeIO ''read config file'' e)
     | Content data \<Rightarrow> (case clUnmarshal lib data configDefault of
           Inl e \<Rightarrow> Inl (wrapError CodeInvalid ''parse config TOML'' e) | Inr cfg \<Rightarrow> Inr cfg))"

definition configFailed :: "string \<Rightarrow> string \<Rightarrow> string \<Rightarrow> goError" where
  "configFailed path action e =
     wrapError CodeIO (if action = ''rename'' then ''rename temp config to '' @ path else action @ '' temp config'') e"

definition configSave :: "configLib \<Rightarrow> writeOutcome \<Rightarrow> string \<Rightarrow> configSchema \<Rightarrow> files \<Rightarrow> files list \<times> goError option" where
  "configSave lib out path cfg fs =
     (if path = [] then ([fs], Some (invalid ''config path must not be empty''))
      else case woMkdir out of
          Some e \<Rightarrow> ([fs], Some (wrapError CodePlatform ''create config directory'' e))
        | None \<Rightarrow> (case clMarshal lib cfg of
              Inl e \<Rightarrow> ([fs], Some (wrapError CodeInternal ''marshal config TOML'' e))
            | Inr data \<Rightarrow> (case woTemp out of
                  Inl e \<Rightarrow> ([fs], Some (wrapError CodeIO ''create temp config'' e))
                | Inr tmp \<Rightarrow> replaceFile (configFailed path) False out tmp path data fs)))"

end
