(* ===== verification/FileStoreFacts.thy ===== *)
theory FileStoreFacts
  imports FileStore
begin

text \<open>
  What the program finds after it was killed at any moment of a save: the old content or the new one, never a
  part; and what a save and a later start give together.
\<close>

section \<open>Replacing a file\<close>

lemma growing_ne [simp]: "growing tmp data n fs \<noteq> []"
  by (simp add: growing_def)

lemma growing_last [simp]: "last (growing tmp data n fs) = fs(tmp \<mapsto> take n data)"
  by (simp add: growing_def last_map)

lemma growing_other: "t \<in> set (growing tmp data n fs) \<Longrightarrow> p \<noteq> tmp \<Longrightarrow> t p = fs p"
  by (auto simp: growing_def)

lemma removeTemp_other [simp]: "p \<noteq> tmp \<Longrightarrow> removeTemp out tmp fs p = fs p"
  by (simp add: removeTemp_def)

lemma removeTemp_new: "fs tmp = None \<Longrightarrow> woRemove out \<Longrightarrow> removeTemp out tmp (fs(tmp \<mapsto> d)) = fs"
  by (auto simp: removeTemp_def fun_eq_iff)

text \<open>Every state on the way, and the one that remains\<close>

lemma replaceFile_states:
  assumes "replaceFile failed chmod out tmp path data fs = (steps, e)" and "path \<noteq> tmp"
  shows "steps \<noteq> []" and "\<forall>t \<in> set steps. (t path = fs path \<or> t path = Some data) \<and> (\<forall>p. p \<noteq> path \<longrightarrow> p \<noteq> tmp \<longrightarrow> t p = fs p)"
    and "last steps path = (if e = None then Some data else fs path)"
    and "fs tmp = None \<Longrightarrow> woRemove out \<Longrightarrow> last steps = (if e = None then fs(path \<mapsto> data) else fs)"
  using assms
  by (auto simp: replaceFile_def Let_def renameFile_def growing_other removeTemp_new split: option.splits if_splits)
    (auto simp: removeTemp_def fun_eq_iff)

lemma writeAtomic_states:
  assumes "writeAtomic out path data fs = (steps, e)" and "woTemp out \<noteq> Inr path"
  shows "steps \<noteq> []"
    and "t \<in> set steps \<Longrightarrow> t path = fs path \<or> t path = Some data"
    and "t \<in> set steps \<Longrightarrow> p \<noteq> path \<Longrightarrow> woTemp out \<noteq> Inr p \<Longrightarrow> t p = fs p"
    and "last steps path = (if e = None then Some data else fs path)"
    and "(\<And>tmp. woTemp out = Inr tmp \<Longrightarrow> fs tmp = None) \<Longrightarrow> woRemove out \<Longrightarrow> last steps = (if e = None then fs(path \<mapsto> data) else fs)"
proof -
  consider "steps = [fs]" "e \<noteq> None"
    | tmp where "woTemp out = Inr tmp" "replaceFile (workspaceFailed path) True out tmp path data fs = (steps, e)"
    using assms(1) by (auto simp: writeAtomic_def split: if_splits option.splits sum.splits)
  note cases = this
  show "steps \<noteq> []" by (cases rule: cases) (use assms(2) replaceFile_states(1) in auto)
  show "t \<in> set steps \<Longrightarrow> t path = fs path \<or> t path = Some data"
    by (cases rule: cases) (use assms(2) replaceFile_states(2) in \<open>force+\<close>)
  show "t \<in> set steps \<Longrightarrow> p \<noteq> path \<Longrightarrow> woTemp out \<noteq> Inr p \<Longrightarrow> t p = fs p"
    by (cases rule: cases) (use assms(2) replaceFile_states(2) in \<open>force+\<close>)
  show "last steps path = (if e = None then Some data else fs path)"
    by (cases rule: cases) (use assms(2) replaceFile_states(3) in \<open>force+\<close>)
  show "(\<And>tmp. woTemp out = Inr tmp \<Longrightarrow> fs tmp = None) \<Longrightarrow> woRemove out \<Longrightarrow> last steps = (if e = None then fs(path \<mapsto> data) else fs)"
    by (cases rule: cases) (use assms(2) replaceFile_states(4) in \<open>force+\<close>)
qed

section \<open>Properties\<close>

text \<open>The outcomes in which the temporary file is a new one, as \<open>os.CreateTemp\<close> makes it, and can be removed\<close>

definition freshTemp :: "writeOutcome \<Rightarrow> files \<Rightarrow> bool" where
  "freshTemp out fs \<longleftrightarrow> (\<forall>tmp. woTemp out = Inr tmp \<longrightarrow> fs tmp = None)"

lemma configSave_cases:
  assumes "configSave lib out path cfg fs = (steps, e)"
  shows "steps = [fs] \<and> e \<noteq> None \<or> (\<exists>data tmp. clMarshal lib cfg = Inr data \<and> woTemp out = Inr tmp
    \<and> replaceFile (configFailed path) False out tmp path data fs = (steps, e))"
  using assms by (auto simp: configSave_def split: if_splits option.splits sum.splits)

text \<open>C32: The program may be killed at any moment of saving the configuration: the file then holds the old
  configuration or the new one, never a part, and no other file but the temporary one has changed. A save that
  fails leaves every file as it was; one that succeeds has changed only this file, and the next start reads back
  what was saved.\<close>

theorem config_save_atomic:
  assumes "configSave lib out path cfg fs = (steps, e)" and "woTemp out \<noteq> Inr path" and "freshTemp out fs" and "woRemove out"
    and "\<And>data. clMarshal lib cfg = Inr data \<Longrightarrow> clUnmarshal lib data configDefault = Inr cfg"
  shows "(\<forall>t \<in> set steps. (t path = fs path \<or> (\<exists>data. clMarshal lib cfg = Inr data \<and> t path = Some data))
        \<and> (\<forall>p. p \<noteq> path \<longrightarrow> woTemp out \<noteq> Inr p \<longrightarrow> t p = fs p))
    \<and> (e \<noteq> None \<longrightarrow> last steps = fs)
    \<and> (e = None \<longrightarrow> (\<exists>data. last steps = fs(path \<mapsto> data)) \<and> configLoad lib (\<lambda>_. None) path (last steps) = Inr cfg)"
  using configSave_cases [OF assms(1)]
proof
  assume "\<exists>data tmp. clMarshal lib cfg = Inr data \<and> woTemp out = Inr tmp
    \<and> replaceFile (configFailed path) False out tmp path data fs = (steps, e)"
  then obtain data tmp where d: "clMarshal lib cfg = Inr data" "woTemp out = Inr tmp"
    and r: "replaceFile (configFailed path) False out tmp path data fs = (steps, e)" by blast
  have ne: "path \<noteq> tmp" using assms(2) d(2) by auto
  have "fs tmp = None" using assms(3) d(2) by (simp add: freshTemp_def)
  note st = replaceFile_states [OF r ne] this assms(4)
  have "configLoad lib (\<lambda>_. None) path (fs(path \<mapsto> data)) = Inr cfg"
    using assms(5) [OF d(1)] by (simp add: configLoad_def readFile_def)
  with st d show ?thesis by auto
qed auto

text \<open>C33: A workspace that is saved is the one the next start finds: after a save that succeeds, loading the last
  workspace gives its path and its content. If the program is killed during the save, the workspace file holds the
  old or the new content, and the remembered path is the old one, or the new one with the new content in place.\<close>

theorem workspace_save_load:
  assumes "SaveWorkspace lib paths ctx ctx2 out out2 path content fs = (steps, e)"
    and "path \<noteq> statePath lib paths" and "woTemp out \<noteq> Inr path" and "woTemp out \<noteq> Inr (statePath lib paths)"
    and "woTemp out2 \<noteq> Inr path" and "woTemp out2 \<noteq> Inr (statePath lib paths)"
    and "wlDecode lib (wlEncode lib path) = Inr path"
  shows "(e = None \<longrightarrow> LoadLastWorkspace lib paths None (\<lambda>_. None) (last steps) = Inr \<lparr>lwFound = True, lwPath = path, lwContent = content\<rparr>)
    \<and> (\<forall>t \<in> set steps. (t path = fs path \<or> t path = Some (bytes_of content))
        \<and> (t (statePath lib paths) = fs (statePath lib paths)
           \<or> t (statePath lib paths) = Some (wlEncode lib path) \<and> t path = Some (bytes_of content)))"
proof -
  let ?sp = "statePath lib paths"
  consider "steps = [fs]" "e \<noteq> None"
    | "path \<noteq> []" "writeAtomic out path (bytes_of content) fs = (steps, e)" "e \<noteq> None"
    | steps1 steps2 where "path \<noteq> []" "writeAtomic out path (bytes_of content) fs = (steps1, None)"
      "RememberLastWorkspace lib paths ctx2 out2 path (last steps1) = (steps2, e)" "steps = steps1 @ steps2"
    using assms(1) by (auto simp: SaveWorkspace_def split: option.splits if_splits prod.splits)
  then show ?thesis
  proof cases
    case 2
    then show ?thesis using writeAtomic_states(2,3) [OF 2(2) assms(3)] assms(2,4) by auto
  next
    case (3 steps1 steps2)
    note w1 = writeAtomic_states [OF 3(2) assms(3)]
    let ?fs1 = "last steps1"
    have l1: "?fs1 path = Some (bytes_of content)" using w1(4) by simp
    have s1: "?fs1 ?sp = fs ?sp" using w1(3) [OF last_in_set [OF w1(1)]] assms(2,4) by metis
    consider "steps2 = [?fs1]" "e \<noteq> None" | "writeAtomic out2 ?sp (wlEncode lib path) ?fs1 = (steps2, e)"
      using 3(1,3) by (auto simp: RememberLastWorkspace_def split: option.splits)
    then show ?thesis
    proof cases
      case 1
      have "\<forall>t \<in> set steps1. t ?sp = fs ?sp" using w1(3) assms(2,4) by metis
      with 1 3(4) w1(2) l1 s1 show ?thesis by auto
    next
      case 2
      note w2 = writeAtomic_states [OF 2 assms(6)]
      have p2: "\<forall>t \<in> set steps2. t path = Some (bytes_of content)" using w2(3) l1 assms(2,5) by metis
      have q1: "\<forall>t \<in> set steps1. t ?sp = fs ?sp" using w1(3) assms(2,4) by metis
      have lp: "last steps2 path = Some (bytes_of content)" using p2 last_in_set [OF w2(1)] by blast
      have "LoadLastWorkspace lib paths None (\<lambda>_. None) (last steps) = Inr \<lparr>lwFound = True, lwPath = path, lwContent = content\<rparr>"
        if "e = None"
        using that w2(1,4) lp assms(7) 3(1,4)
        by (simp add: LoadLastWorkspace_def loadState_def readFile_def)
      with w2(2) p2 q1 w1(2) s1 3(4) show ?thesis by auto
    qed
  qed auto
qed

definition sampleOutcome :: "string \<Rightarrow> writeOutcome" where
  "sampleOutcome tmp = \<lparr>woMkdir = None, woTemp = Inr tmp, woWrite = None, woClose = None, woChmod = None,
     woRename = None, woRemove = True\<rparr>"

definition sampleConfigLib :: configLib where
  "sampleConfigLib = \<lparr>clMarshal = (\<lambda>_. Inr [1]), clUnmarshal = (\<lambda>_ _. Inr configDefault)\<rparr>"

theorem config_save_atomic_witness:
  "\<exists>steps. configSave sampleConfigLib (sampleOutcome ''t'') ''c'' configDefault (\<lambda>_. None) = (steps, None)
    \<and> configLoad sampleConfigLib (\<lambda>_. None) ''c'' (last steps) = Inr configDefault"
proof -
  obtain steps where e: "configSave sampleConfigLib (sampleOutcome ''t'') ''c'' configDefault (\<lambda>_. None) = (steps, None)"
    by (simp add: configSave_def sampleOutcome_def sampleConfigLib_def replaceFile_def Let_def)
  from config_save_atomic [OF e] have "configLoad sampleConfigLib (\<lambda>_. None) ''c'' (last steps) = Inr configDefault"
    by (simp add: sampleOutcome_def freshTemp_def sampleConfigLib_def)
  with e show ?thesis by blast
qed

definition sampleWorkspaceLib :: workspaceLib where
  "sampleWorkspaceLib = \<lparr>wlJoin = (\<lambda>d n. d @ ''/'' @ n), wlDir = (\<lambda>_. ''.''), wlBase = id, wlEncode = bytes_of,
     wlDecode = Inr \<circ> string_of, wlOpenDialog = Inr, wlSaveDialog = (\<lambda>_ n. Inr n)\<rparr>"

theorem workspace_save_load_witness:
  "\<exists>steps. SaveWorkspace sampleWorkspaceLib None None None (sampleOutcome ''t'') (sampleOutcome ''u'') ''w'' ''{}'' (\<lambda>_. None) = (steps, None)
    \<and> LoadLastWorkspace sampleWorkspaceLib None None (\<lambda>_. None) (last steps) = Inr \<lparr>lwFound = True, lwPath = ''w'', lwContent = ''{}''\<rparr>"
proof -
  obtain steps where e: "SaveWorkspace sampleWorkspaceLib None None None (sampleOutcome ''t'') (sampleOutcome ''u'') ''w'' ''{}'' (\<lambda>_. None) = (steps, None)"
    by (simp add: SaveWorkspace_def RememberLastWorkspace_def writeAtomic_def sampleOutcome_def replaceFile_def Let_def statePath_def
        configDir_def sampleWorkspaceLib_def split: prod.split)
  from workspace_save_load [OF e] have "LoadLastWorkspace sampleWorkspaceLib None None (\<lambda>_. None) (last steps)
      = Inr \<lparr>lwFound = True, lwPath = ''w'', lwContent = ''{}''\<rparr>"
    by (simp add: sampleOutcome_def statePath_def configDir_def stateFileName_def sampleWorkspaceLib_def del: bytes_of_simps)
  with e show ?thesis by blast
qed

end
