(* ===== verification/Recorder.thy ===== *)
theory Recorder
  imports GoErrors RingBuffer
begin

text \<open>
  Capture files (\<open>internal/modules/serial/recorder/\<close>) and the time index of a stream
  (\<open>internal/modules/serial/buffer/index.go\<close>). The format pcap-ng is the library's: a file is the list of its
  packets, a time stamp and bytes, and what the reader answers packet by packet is an argument. How the calls of
  the system end is an argument as well.
\<close>

section \<open>Writing a capture\<close>

definition DirectionRX :: byte where "DirectionRX = 0"
definition DirectionTX :: byte where "DirectionTX = 1"

record recFrame =
  rfDirection :: byte
  rfTimestamp :: int
  rfData :: bytes

text \<open>\<open>rcPackets\<close> is what the writer was given; what a failed write leaves in the file is not modelled.\<close>

record recorder =
  rcPackets :: "(int \<times> bytes) list"
  rcPortID :: string
  rcIsOpen :: bool
  rcFrameCnt :: int

definition NewRecorder :: "string option \<Rightarrow> string option \<Rightarrow> string \<Rightarrow> string \<Rightarrow> goError + recorder" where
  "NewRecorder created writer portID filePath =
     (if filePath = [] then Inl (invalid ''file path must not be empty'')
      else case created of
          Some e \<Rightarrow> Inl (wrapError CodeIO (''create pcap file '' @ filePath) e)
        | None \<Rightarrow> (case writer of
              Some e \<Rightarrow> Inl (wrapError CodeIO ''create pcap-ng writer'' e)
            | None \<Rightarrow> Inr \<lparr>rcPackets = [], rcPortID = portID, rcIsOpen = True, rcFrameCnt = 0\<rparr>))"

definition bigEndian32 :: "32 word \<Rightarrow> bytes" where
  "bigEndian32 w = [ucast (drop_bit 24 w), ucast (drop_bit 16 w), ucast (drop_bit 8 w), ucast w]"

definition bigEndianUint32 :: "bytes \<Rightarrow> 32 word" where
  "bigEndianUint32 bs = ucast (bs ! 3) OR push_bit 8 (ucast (bs ! 2)) OR push_bit 16 (ucast (bs ! 1)) OR push_bit 24 (ucast (bs ! 0))"

text \<open>The custom frame: direction, length, payload\<close>

definition recordedBytes :: "byte \<Rightarrow> bytes \<Rightarrow> bytes" where
  "recordedBytes direction data = direction # bigEndian32 (word_of_nat (length data)) @ data"

definition WriteFrame :: "string option \<Rightarrow> byte \<Rightarrow> int \<Rightarrow> bytes \<Rightarrow> recorder \<Rightarrow> recorder \<times> goError option" where
  "WriteFrame written direction ts data r =
     (if \<not> rcIsOpen r then (r, Some (invalid ''recorder is not open''))
      else case written of
          Some e \<Rightarrow> (r, Some (wrapError CodeIO ''write pcap packet'' e))
        | None \<Rightarrow> (r\<lparr>rcPackets := rcPackets r @ [(ts, recordedBytes direction data)],
                     rcFrameCnt := wrap64 (rcFrameCnt r + 1)\<rparr>, None))"

definition recorderClose :: "string option \<Rightarrow> string option \<Rightarrow> recorder \<Rightarrow> recorder \<times> goError option" where
  "recorderClose flushed fileClosed r =
     (if \<not> rcIsOpen r then (r, None)
      else (r\<lparr>rcIsOpen := False\<rparr>, case flushed of
          Some e \<Rightarrow> Some (wrapError CodeIO ''flush pcap'' e)
        | None \<Rightarrow> map_option Opaque fileClosed))"

definition FrameCount :: "recorder \<Rightarrow> int" where
  "FrameCount r = rcFrameCnt r"

section \<open>Playing a capture\<close>

datatype packet_answer = Packet int bytes | PacketFails string

text \<open>The answers of the reader that are left; after the last one it reports the end of the file.\<close>

type_synonym playback = "packet_answer list"

definition NewPlayback :: "string option \<Rightarrow> string + playback \<Rightarrow> string \<Rightarrow> goError + playback" where
  "NewPlayback opened reader filePath =
     (if filePath = [] then Inl (invalid ''file path must not be empty'')
      else case opened of
          Some e \<Rightarrow> Inl (wrapError CodeIO (''open pcap file '' @ filePath) e)
        | None \<Rightarrow> (case reader of
              Inl e \<Rightarrow> Inl (wrapError CodeIO ''create pcap-ng reader'' e)
            | Inr p \<Rightarrow> Inr p))"

text \<open>\<open>data[5 : 5+length]\<close>, whose end is computed at 32 bits: \<open>None\<close> is the panic of a slice out of range.\<close>

definition payloadSlice :: "bytes \<Rightarrow> 32 word \<Rightarrow> bytes option" where
  "payloadSlice data len = (let stop = unat (5 + len) in
     if stop < 5 \<or> length data < stop then None else Some (take (stop - 5) (drop 5 data)))"

datatype frame_read = AtEOF | ReadFailed goError | FrameRead recFrame | ReadPanics

definition frameOf :: "int \<Rightarrow> bytes \<Rightarrow> frame_read" where
  "frameOf ts data =
     (if length data < 5 then ReadFailed (invalid ''pcap frame too short'')
      else let declared = bigEndianUint32 (drop 1 data);
               len = (if length data - 5 < unat declared then word_of_nat (length data - 5) else declared) in
        case payloadSlice data len of
          None \<Rightarrow> ReadPanics
        | Some payload \<Rightarrow> FrameRead \<lparr>rfDirection = data ! 0, rfTimestamp = ts, rfData = payload\<rparr>)"

fun ReadFrame :: "playback \<Rightarrow> playback \<times> frame_read" where
  "ReadFrame [] = ([], AtEOF)"
| "ReadFrame (PacketFails e # rest) = (rest, ReadFailed (wrapError CodeIO ''read pcap packet'' e))"
| "ReadFrame (Packet ts data # rest) = (rest, frameOf ts data)"

text \<open>The frames and the error that ended the reading; \<open>None\<close> is a panic.\<close>

function ReadAll :: "recFrame list \<Rightarrow> playback \<Rightarrow> (recFrame list \<times> goError option) option" where
  "ReadAll frames p = (case ReadFrame p of
       (_, AtEOF) \<Rightarrow> Some (frames, None)
     | (_, ReadFailed e) \<Rightarrow> Some (frames, Some e)
     | (_, ReadPanics) \<Rightarrow> None
     | (rest, FrameRead f) \<Rightarrow> ReadAll (frames @ [f]) rest)"
  by pat_completeness auto

termination
proof (relation "measure (length \<circ> snd)", goal_cases)
  case (2 frames p rest r f)
  then show ?case by (cases p rule: ReadFrame.cases) (auto split: if_splits simp: Let_def frameOf_def)
qed simp

declare ReadAll.simps [simp del]

lemma ReadAll_simps [simp]:
  "ReadAll frames [] = Some (frames, None)"
  "ReadAll frames (PacketFails e # rest) = Some (frames, Some (wrapError CodeIO ''read pcap packet'' e))"
  "ReadAll frames (Packet ts data # rest) = (case frameOf ts data of
       AtEOF \<Rightarrow> Some (frames, None) | ReadFailed e \<Rightarrow> Some (frames, Some e) | ReadPanics \<Rightarrow> None
     | FrameRead f \<Rightarrow> ReadAll (frames @ [f]) rest)"
  by (subst ReadAll.simps, simp split: frame_read.split)+

section \<open>The time index of a stream\<close>

record indexEntry =
  ieOffset :: int
  ieTs :: int
  ieFrameNo :: int

type_synonym timeIndex = "indexEntry list"

definition NewIndex :: timeIndex where
  "NewIndex = []"

definition indexInsert :: "indexEntry \<Rightarrow> timeIndex \<Rightarrow> timeIndex" where
  "indexInsert entry idx = idx @ [entry]"

definition indexReset :: "timeIndex \<Rightarrow> timeIndex" where
  "indexReset idx = []"

text \<open>The binary search of the package sort\<close>

function sortSearch :: "(nat \<Rightarrow> bool) \<Rightarrow> nat \<Rightarrow> nat \<Rightarrow> nat" where
  "sortSearch f i j = (if i < j then let h = (i + j) div 2 in if f h then sortSearch f i h else sortSearch f (Suc h) j else i)"
  by pat_completeness auto

termination
  by (relation "measure (\<lambda>(f, i, j). j - i)") auto

declare sortSearch.simps [simp del]

definition FindByTs :: "int \<Rightarrow> timeIndex \<Rightarrow> indexEntry option" where
  "FindByTs ts idx =
     (if idx = [] then None
      else let i = sortSearch (\<lambda>i. ts < ieTs (idx ! i)) 0 (length idx) in
        if i = 0 then None else Some (idx ! (i - 1)))"

definition FindByFrameNo :: "int \<Rightarrow> timeIndex \<Rightarrow> indexEntry option" where
  "FindByFrameNo frameNo idx = find (\<lambda>e. ieFrameNo e = frameNo) idx"

end
