(* ===== verification/RecorderFacts.thy ===== *)
theory RecorderFacts
  imports Recorder
begin

text \<open>
  What was recorded is what is played back, and the binary search of the time index finds what a search of all
  entries finds, as long as the time stamps do not decrease.
\<close>

section \<open>Recording and playing\<close>

lemma bigEndian_roundtrip: "bigEndianUint32 (bigEndian32 w @ rest) = w"
proof -
  have "ucast (ucast w :: byte) OR push_bit 8 (ucast (ucast (drop_bit 8 w) :: byte)) OR push_bit 16 (ucast (ucast (drop_bit 16 w) :: byte))
      OR push_bit 24 (ucast (ucast (drop_bit 24 w) :: byte)) = w" for w :: "32 word"
  proof (rule bit_word_eqI)
    fix n assume "n < LENGTH(32)"
    consider "n < 8" | "8 \<le> n" "n < 16" | "16 \<le> n" "n < 24" | "24 \<le> n" by linarith
    then show "bit ((ucast (ucast w :: byte) :: 32 word) OR push_bit 8 (ucast (ucast (drop_bit 8 w) :: byte)) OR push_bit 16 (ucast (ucast (drop_bit 16 w) :: byte))
      OR push_bit 24 (ucast (ucast (drop_bit 24 w) :: byte))) n = bit w n"
      using \<open>n < LENGTH(32)\<close> by cases (auto simp: bit_simps)
  qed
  then show ?thesis by (simp add: bigEndianUint32_def bigEndian32_def)
qed

lemma length_bigEndian32 [simp]: "length (bigEndian32 w) = 4"
  by (simp add: bigEndian32_def)

lemma payloadSlice_prefix:
  assumes "length data = 5 + n" and "n < 2 ^ 32 - 5"
  shows "payloadSlice data (word_of_nat n) = Some (take n (drop 5 data))"
proof -
  have "unat (5 + word_of_nat n :: 32 word) = 5 + n" using unat_of_nat [where 'a = 32, of "5 + n"] assms(2) by simp
  then show ?thesis using assms(1) by (simp add: payloadSlice_def Let_def)
qed

lemma frameOf_recorded:
  assumes "length data < 2 ^ 32 - 5"
  shows "frameOf ts (recordedBytes direction data) = FrameRead \<lparr>rfDirection = direction, rfTimestamp = ts, rfData = data\<rparr>"
proof -
  let ?w = "recordedBytes direction data"
  have "unat (word_of_nat (length data) :: 32 word) = length data" using assms by (simp add: unat_of_nat)
  moreover have "bigEndianUint32 (drop 1 ?w) = word_of_nat (length data)" by (simp add: recordedBytes_def bigEndian_roundtrip)
  moreover have "length ?w = 5 + length data" "drop 5 ?w = data" by (simp_all add: recordedBytes_def numeral_eq_Suc)
  ultimately show ?thesis using payloadSlice_prefix [of ?w "length data"] assms
    by (simp add: frameOf_def Let_def recordedBytes_def)
qed

text \<open>Whatever a packet holds: no panic below four gigabytes, and the frame is a part of the packet.\<close>

lemma frameOf_safe:
  assumes "length data < 2 ^ 32"
  shows "frameOf ts data \<noteq> ReadPanics"
proof (cases "length data < 5")
  case False
  let ?d = "bigEndianUint32 (drop 1 data)"
  define len :: "32 word" where "len = (if length data - 5 < unat ?d then word_of_nat (length data - 5) else ?d)"
  have n: "unat len \<le> length data - 5" using assms by (auto simp: len_def unat_of_nat)
  then have "5 + unat len < 2 ^ 32" using assms False by simp
  then have "unat (5 + len) = 5 + unat len" by (simp add: unat_word_ariths)
  then have "payloadSlice data len \<noteq> None" using n False by (simp add: payloadSlice_def Let_def)
  moreover have "frameOf ts data = (case payloadSlice data len of None \<Rightarrow> ReadPanics
      | Some payload \<Rightarrow> FrameRead \<lparr>rfDirection = data ! 0, rfTimestamp = ts, rfData = payload\<rparr>)"
    using False by (simp only: frameOf_def Let_def len_def if_False)
  ultimately show ?thesis by (simp split: option.split)
qed (simp add: frameOf_def)

lemma ReadAll_total:
  "\<forall>ts data. Packet ts data \<in> set p \<longrightarrow> length data < 2 ^ 32 \<Longrightarrow> ReadAll frames p \<noteq> None"
proof (induction p arbitrary: frames)
  case (Cons a p)
  show ?case
  proof (cases a)
    case (Packet ts data)
    then have "length data < 2 ^ 32" using Cons.prems by auto
    then have "frameOf ts data \<noteq> ReadPanics" by (rule frameOf_safe)
    with Packet Cons show ?thesis by (auto split: frame_read.split)
  qed simp
qed simp

text \<open>A session of the recorder: writes, each with its outcome, in any order with closings\<close>

datatype rec_op = RecWrite "string option" byte int bytes | RecClose "string option" "string option"

fun recDo :: "rec_op \<Rightarrow> recorder \<Rightarrow> recorder \<times> goError option" where
  "recDo (RecWrite written direction ts data) r = WriteFrame written direction ts data r"
| "recDo (RecClose flushed fileClosed) r = recorderClose flushed fileClosed r"

fun recRun :: "rec_op list \<Rightarrow> recorder \<Rightarrow> recorder \<times> recFrame list" where
  "recRun [] r = (r, [])"
| "recRun (op # ops) r = (case recDo op r of (r1, e) \<Rightarrow> (case recRun ops r1 of (r2, fs) \<Rightarrow>
     (r2, (case op of RecWrite _ direction ts data \<Rightarrow>
        if e = None then [\<lparr>rfDirection = direction, rfTimestamp = ts, rfData = data\<rparr>] else [] | _ \<Rightarrow> []) @ fs)))"

fun opData :: "rec_op \<Rightarrow> bytes" where
  "opData (RecWrite _ _ _ data) = data"
| "opData (RecClose _ _) = []"

definition framePacket :: "recFrame \<Rightarrow> int \<times> bytes" where
  "framePacket f = (rfTimestamp f, recordedBytes (rfDirection f) (rfData f))"

lemma wrap64_add_int: "wrap64 (wrap64 (a + 1) + int n) = wrap64 (a + int (Suc n))"
proof -
  have "(wrap64 (a + 1) + int n + 2 ^ 63) mod 2 ^ 64 = (a + int (Suc n) + 2 ^ 63) mod 2 ^ 64"
    unfolding wrap64_def by (simp add: mod_simps algebra_simps)
  then show ?thesis unfolding wrap64_def [of "wrap64 (a + 1) + int n"] wrap64_def [of "a + int (Suc n)"] by simp
qed

lemma wrap64_idem [simp]: "wrap64 (wrap64 a) = wrap64 a"
  by (simp add: wrap64_def)

lemma recRun_packets:
  "recRun ops r = (r', fs) \<Longrightarrow> rcFrameCnt r = wrap64 (rcFrameCnt r) \<Longrightarrow> rcPackets r' = rcPackets r @ map framePacket fs
     \<and> rcFrameCnt r' = wrap64 (rcFrameCnt r + int (length fs)) \<and> (\<forall>f \<in> set fs. rfData f \<in> opData ` set ops)"
proof (induction ops arbitrary: r r' fs)
  case (Cons op ops)
  obtain r1 e where 1: "recDo op r = (r1, e)" by fastforce
  obtain r2 gs where 2: "recRun ops r1 = (r2, gs)" by fastforce
  have w: "rcFrameCnt r1 = wrap64 (rcFrameCnt r1)" using 1 Cons.prems(2)
    by (cases op) (auto simp: WriteFrame_def recorderClose_def split: if_splits option.splits)
  note IH = Cons.IH [OF 2 w]
  show ?case
  proof (cases op)
    case (RecWrite written direction ts data)
    show ?thesis
    proof (cases e)
      case None
      then have "r1 = r\<lparr>rcPackets := rcPackets r @ [(ts, recordedBytes direction data)], rcFrameCnt := wrap64 (rcFrameCnt r + 1)\<rparr>"
        using 1 RecWrite by (auto simp: WriteFrame_def split: if_splits option.splits)
      with None 1 2 IH RecWrite Cons.prems(1) show ?thesis by (auto simp: framePacket_def wrap64_add_int)
    next
      case (Some x)
      then have "r1 = r" using 1 RecWrite by (auto simp: WriteFrame_def split: if_splits option.splits)
      with Some 1 2 IH RecWrite Cons.prems(1) show ?thesis by auto
    qed
  next
    case (RecClose a b)
    then have "rcPackets r1 = rcPackets r" "rcFrameCnt r1 = rcFrameCnt r"
      using 1 by (auto simp: recorderClose_def split: if_splits)
    with 1 2 IH RecClose Cons.prems(1) show ?thesis by auto
  qed
qed simp

lemma ReadAll_recorded:
  "\<forall>f \<in> set fs. length (rfData f) < 2 ^ 32 - 5 \<Longrightarrow>
   ReadAll acc (map (\<lambda>f. case framePacket f of (ts, data) \<Rightarrow> Packet (stamp ts) data) fs)
     = Some (acc @ map (\<lambda>f. f\<lparr>rfTimestamp := stamp (rfTimestamp f)\<rparr>) fs, None)"
proof (induction fs arbitrary: acc)
  case (Cons f fs)
  then have "frameOf (stamp (rfTimestamp f)) (recordedBytes (rfDirection f) (rfData f)) = FrameRead (f\<lparr>rfTimestamp := stamp (rfTimestamp f)\<rparr>)"
    by (simp add: frameOf_recorded)
  with Cons show ?case by (simp add: framePacket_def)
qed simp

section \<open>The time index\<close>

lemma sortSearch_bounds: "i \<le> j \<Longrightarrow> i \<le> sortSearch f i j \<and> sortSearch f i j \<le> j"
proof (induction f i j rule: sortSearch.induct)
  case (1 f i j)
  then show ?case by (subst (1 2) sortSearch.simps) (fastforce simp: Let_def)
qed

text \<open>The result of the search separates two neighbours, whatever the predicate is.\<close>

lemma sortSearch_between:
  "i \<le> j \<Longrightarrow> (i < sortSearch f i j \<longrightarrow> \<not> f (sortSearch f i j - 1)) \<and> (sortSearch f i j < j \<longrightarrow> f (sortSearch f i j))"
proof (induction f i j rule: sortSearch.induct)
  case (1 f i j)
  show ?case
  proof (cases "i < j")
    case True
    let ?h = "(i + j) div 2"
    have h: "i \<le> ?h" "?h < j" using True by auto
    show ?thesis
    proof (cases "f ?h")
      case f: True
      have e: "sortSearch f i j = sortSearch f i ?h" using True f by (subst sortSearch.simps) (simp add: Let_def)
      show ?thesis using "1.IH"(1) [OF True refl f h(1)] f e h sortSearch_bounds [OF h(1), of f] by (auto simp: le_less)
    next
      case f: False
      have e: "sortSearch f i j = sortSearch f (Suc ?h) j" using True f by (subst sortSearch.simps) (simp add: Let_def)
      have s: "Suc ?h \<le> j" using h by simp
      show ?thesis using "1.IH"(2) [OF True refl f s] sortSearch_bounds [OF s, of f] f h unfolding e
        by (cases "sortSearch f (Suc ?h) j = Suc ?h") auto
    qed
  qed (use 1 in \<open>simp add: sortSearch.simps\<close>)
qed

text \<open>Also when the time stamps are not in order, what is found is no later than asked, and the entry after it is later.\<close>

lemma FindByTs_neighbours:
  assumes "FindByTs ts idx = Some e"
  shows "\<exists>i < length idx. idx ! i = e \<and> ieTs e \<le> ts \<and> (Suc i < length idx \<longrightarrow> ts < ieTs (idx ! Suc i))"
proof -
  let ?s = "sortSearch (\<lambda>i. ts < ieTs (idx ! i)) 0 (length idx)"
  have s: "0 < ?s" "e = idx ! (?s - 1)" using assms by (auto simp: FindByTs_def Let_def split: if_splits)
  have "?s \<le> length idx" using sortSearch_bounds [of 0 "length idx"] by simp
  then show ?thesis using s sortSearch_between [of 0 "length idx" "\<lambda>i. ts < ieTs (idx ! i)"]
    by (intro exI [of _ "?s - 1"]) auto
qed

lemma index_ordered_nth: "sorted (map ieTs idx) \<Longrightarrow> i \<le> j \<Longrightarrow> j < length idx \<Longrightarrow> ieTs (idx ! i) \<le> ieTs (idx ! j)"
  using sorted_nth_mono [of "map ieTs idx" i j] by simp

lemma filter_prefix:
  assumes "n \<le> length xs" and "\<And>i. i < n \<Longrightarrow> P (xs ! i)" and "\<And>i. n \<le> i \<Longrightarrow> i < length xs \<Longrightarrow> \<not> P (xs ! i)"
  shows "filter P xs = take n xs"
proof -
  have "filter P (take n xs) = take n xs" using assms(1,2) by (auto simp: filter_id_conv in_set_conv_nth)
  moreover have "filter P (drop n xs) = []" using assms(1,3) by (auto simp: filter_empty_conv in_set_conv_nth)
  ultimately show ?thesis by (metis append_Nil2 append_take_drop_id filter_append)
qed

lemma sortSearch_filter:
  assumes "sorted (map ieTs idx)"
  shows "filter (\<lambda>e. ieTs e \<le> ts) idx = take (sortSearch (\<lambda>i. ts < ieTs (idx ! i)) 0 (length idx)) idx"
proof (rule filter_prefix)
  let ?s = "sortSearch (\<lambda>i. ts < ieTs (idx ! i)) 0 (length idx)"
  show le: "?s \<le> length idx" using sortSearch_bounds [of 0 "length idx"] by simp
  note b = sortSearch_between [of 0 "length idx" "\<lambda>i. ts < ieTs (idx ! i)"]
  show "ieTs (idx ! i) \<le> ts" if "i < ?s" for i
  proof -
    have "ieTs (idx ! i) \<le> ieTs (idx ! (?s - 1))" by (rule index_ordered_nth [OF assms]) (use le that in auto)
    then show ?thesis using b that by simp
  qed
  show "\<not> ieTs (idx ! i) \<le> ts" if "?s \<le> i" "i < length idx" for i
  proof -
    have "ieTs (idx ! ?s) \<le> ieTs (idx ! i)" by (rule index_ordered_nth [OF assms]) (use that in auto)
    then show ?thesis using b that by simp
  qed
qed

section \<open>Properties\<close>


definition sampleRecorder :: recorder where
  "sampleRecorder = \<lparr>rcPackets = [], rcPortID = ''p'', rcIsOpen = True, rcFrameCnt = 0\<rparr>"

definition sampleOps :: "rec_op list" where
  "sampleOps = [RecWrite None DirectionRX 10 [1, 2], RecWrite (Some ''full'') DirectionTX 11 [3], RecClose None None,
     RecWrite None DirectionTX 12 [4]]"



definition sampleIndex :: timeIndex where
  "sampleIndex = map (\<lambda>t. \<lparr>ieOffset = t, ieTs = t, ieFrameNo = t\<rparr>) [1, 4, 4, 9]"


text \<open>The order of the offsets alone is not enough: an entry within the time is missed when a later one precedes it.\<close>

lemma index_needs_time_order:
  "FindByTs 5 [\<lparr>ieOffset = 0, ieTs = 9, ieFrameNo = 0\<rparr>, \<lparr>ieOffset = 1, ieTs = 9, ieFrameNo = 1\<rparr>,
     \<lparr>ieOffset = 2, ieTs = 3, ieFrameNo = 2\<rparr>] = None"
  by (simp add: FindByTs_def sortSearch.simps Let_def)

end
