(* ===== verification/GoNet.thy ===== *)
theory GoNet
  imports GoStrings
begin

text \<open>
  What the server of \<open>internal/modules/mcpserver\<close> uses of the package net: \<open>SplitHostPort\<close>, \<open>JoinHostPort\<close>,
  and \<open>ParseIP\<close> with \<open>IsLoopback\<close>. An address is the list of its 16 bytes; \<open>None\<close> is an error.
\<close>

section \<open>Host and port\<close>

definition splitLast :: "char \<Rightarrow> string \<Rightarrow> (string \<times> string) option" where
  "splitLast c s = (if c \<in> set s
     then Some (rev (drop 1 (dropWhile (\<lambda>x. x \<noteq> c) (rev s))), rev (takeWhile (\<lambda>x. x \<noteq> c) (rev s))) else None)"

definition SplitHostPort :: "string \<Rightarrow> (string \<times> string) option" where
  "SplitHostPort hostport = (case splitLast (CHR '':'') hostport of
       None \<Rightarrow> None
     | Some (front, port) \<Rightarrow>
         if take 1 hostport = ''['' then
           (let e = length (takeWhile (\<lambda>c. c \<noteq> CHR '']'') hostport) in
            if CHR '']'' \<notin> set hostport \<or> Suc e \<noteq> length front \<or> CHR ''['' \<in> set (drop 1 hostport)
              \<or> CHR '']'' \<in> set (drop (Suc e) hostport) then None
            else Some (take (e - 1) (drop 1 hostport), port))
         else if CHR '':'' \<in> set front \<or> CHR ''['' \<in> set hostport \<or> CHR '']'' \<in> set hostport then None
         else Some (front, port))"

definition JoinHostPort :: "string \<Rightarrow> string \<Rightarrow> string" where
  "JoinHostPort host port = (if CHR '':'' \<in> set host then ''['' @ host @ '']:'' @ port else host @ '':'' @ port)"

lemma splitLast_append: "c \<notin> set t \<Longrightarrow> splitLast c (s @ c # t) = Some (s, t)"
proof -
  assume "c \<notin> set t"
  then have "takeWhile (\<lambda>x. x \<noteq> c) (rev t @ c # rev s) = rev t" "dropWhile (\<lambda>x. x \<noteq> c) (rev t @ c # rev s) = c # rev s"
    by (simp_all add: takeWhile_append dropWhile_append)
  then show ?thesis by (simp add: splitLast_def)
qed

lemma SplitHostPort_join:
  assumes "CHR ''['' \<notin> set host" "CHR '']'' \<notin> set host" and "set port \<inter> {CHR '':'', CHR ''['', CHR '']''} = {}"
  shows "SplitHostPort (JoinHostPort host port) = Some (host, port)"
proof (cases "CHR '':'' \<in> set host")
  case True
  let ?s = "''['' @ host @ '']:'' @ port"
  have s: "splitLast (CHR '':'') ?s = Some (''['' @ host @ '']'', port)"
    using splitLast_append [of "CHR '':''" port "''['' @ host @ '']''"] assms(3) by simp
  have "takeWhile (\<lambda>c. c \<noteq> CHR '']'') ?s = ''['' @ host"
    using assms(2) by (simp add: takeWhile_append)
  then have e: "length (takeWhile (\<lambda>c. c \<noteq> CHR '']'') ?s) = Suc (length host)" by simp
  show ?thesis using True assms unfolding SplitHostPort_def JoinHostPort_def
    by (simp add: s [simplified] e [simplified] Let_def)
next
  case False
  have "splitLast (CHR '':'') (host @ '':'' @ port) = Some (host, port)"
    using splitLast_append [of "CHR '':''" port host] assms(3) by simp
  moreover have "take 1 (host @ '':'' @ port) \<noteq> ''[''" using assms(1) by (cases host) auto
  ultimately show ?thesis using False assms by (auto simp: SplitHostPort_def JoinHostPort_def)
qed

section \<open>Addresses\<close>

text \<open>The fields of a dotted address: the value of the current one, if it has a digit, and those before it\<close>

fun ipv4Fields :: "string \<Rightarrow> int option \<Rightarrow> int list \<Rightarrow> int list option" where
  "ipv4Fields [] cur flds = (case cur of None \<Rightarrow> None | Some v \<Rightarrow> if length flds = 3 then Some (flds @ [v]) else None)"
| "ipv4Fields (c # cs) cur flds =
     (if is_digit c then
        (if cur = Some 0 then None
         else let v = 10 * (case cur of None \<Rightarrow> 0 | Some v \<Rightarrow> v) + int (of_char c - 48) in
           if 255 < v then None else ipv4Fields cs (Some v) flds)
      else if c = CHR ''.'' then
        (case cur of None \<Rightarrow> None | Some v \<Rightarrow> if length flds = 3 then None else ipv4Fields cs None (flds @ [v]))
      else None)"

definition hexRun :: "string \<Rightarrow> string" where
  "hexRun s = takeWhile (\<lambda>c. hex_value c \<noteq> None) s"

definition hexNumber :: "string \<Rightarrow> int" where
  "hexNumber s = foldl (\<lambda>n c. 16 * n + (case hex_value c of None \<Rightarrow> 0 | Some d \<Rightarrow> int d)) 0 s"

text \<open>The bytes so far and the place of the ellipsis; the first argument counts the groups that fit.\<close>

fun ipv6Groups :: "nat \<Rightarrow> string \<Rightarrow> int list \<Rightarrow> nat option \<Rightarrow> (int list \<times> nat option) option" where
  "ipv6Groups 0 s ip ell = (if s = [] then Some (ip, ell) else None)"
| "ipv6Groups (Suc n) s ip ell =
     (let run = hexRun s; rest = drop (length run) s; ip1 = ip @ [hexNumber run div 256, hexNumber run mod 256] in
      if run = [] \<or> 4 < length run then None
      else if take 1 rest = ''.'' then
        (if ell = None \<and> length ip \<noteq> 12 \<or> 16 < length ip + 4 then None
         else map_option (\<lambda>v4. (ip @ v4, ell)) (ipv4Fields s None []))
      else if rest = [] then Some (ip1, ell)
      else if take 1 rest \<noteq> '':'' \<or> length rest = 1 then None
      else if take 2 rest = ''::'' then
        (if ell \<noteq> None then None
         else if length rest = 2 then Some (ip1, Some (length ip1))
         else ipv6Groups n (drop 2 rest) ip1 (Some (length ip1)))
      else ipv6Groups n (drop 1 rest) ip1 ell)"

definition expandEllipsis :: "int list \<times> nat option \<Rightarrow> int list option" where
  "expandEllipsis r = (case r of (ip, ell) \<Rightarrow>
     if length ip < 16 then map_option (\<lambda>k. take k ip @ replicate (16 - length ip) 0 @ drop k ip) ell
     else if ell = None then Some ip else None)"

definition parseIPv6 :: "string \<Rightarrow> int list option" where
  "parseIPv6 s =
     (if take 2 s = ''::'' then
        (if length s = 2 then Some (replicate 16 0) else Option.bind (ipv6Groups 8 (drop 2 s) [] (Some 0)) expandEllipsis)
      else Option.bind (ipv6Groups 8 s [] None) expandEllipsis)"

definition v4Prefix :: "int list" where "v4Prefix = [0, 0, 0, 0, 0, 0, 0, 0, 0, 0, 255, 255]"

text \<open>The kind of an address is that of its first separator; an address with a zone is none.\<close>

definition ParseIP :: "string \<Rightarrow> int list option" where
  "ParseIP s = (case find (\<lambda>c. c \<in> {CHR ''.'', CHR '':'', CHR ''%''}) s of
       None \<Rightarrow> None
     | Some c \<Rightarrow>
         if c = CHR ''.'' then map_option (\<lambda>v4. v4Prefix @ v4) (ipv4Fields s None [])
         else if c = CHR '':'' \<and> CHR ''%'' \<notin> set s then parseIPv6 s
         else None)"

definition IsLoopback :: "int list \<Rightarrow> bool" where
  "IsLoopback ip = (if take 12 ip = v4Prefix then ip ! 12 = 127 else ip = [0, 0, 0, 0, 0, 0, 0, 0, 0, 0, 0, 0, 0, 0, 0, 1])"

text \<open>An address is written with digits and separators only.\<close>

definition ipChars :: "char set" where
  "ipChars = {c. hex_value c \<noteq> None} \<union> {CHR ''.'', CHR '':''}"

lemma is_digit_hex: "is_digit c \<Longrightarrow> hex_value c \<noteq> None"
  by (simp add: is_digit_def hex_value_def)

lemma ipv4_chars: "ipv4Fields s cur flds = Some r \<Longrightarrow> set s \<subseteq> ipChars"
  by (induction s cur flds rule: ipv4Fields.induct)
    (auto simp: ipChars_def is_digit_hex Let_def split: if_splits option.splits)

lemma set_split: "set s \<subseteq> set (take n s) \<union> set (drop n s)"
  using set_append [of "take n s" "drop n s"] by simp

lemma hexRun_chars: "set (take (length (hexRun s)) s) \<subseteq> ipChars"
proof -
  have "take (length (hexRun s)) s = hexRun s" unfolding hexRun_def by (rule takeWhile_eq_take [symmetric])
  moreover have "set (hexRun s) \<subseteq> ipChars" by (auto simp: hexRun_def ipChars_def dest: set_takeWhileD)
  ultimately show ?thesis by metis
qed

lemma take_Suc_chars: "take 1 s = [c] \<Longrightarrow> set (drop 1 s) \<subseteq> A \<Longrightarrow> c \<in> A \<Longrightarrow> set s \<subseteq> A"
  by (cases s) auto

lemma take_two_chars: "take 2 s = [c, d] \<Longrightarrow> set (drop 2 s) \<subseteq> A \<Longrightarrow> c \<in> A \<Longrightarrow> d \<in> A \<Longrightarrow> set s \<subseteq> A"
  by (cases s; cases "tl s") auto

lemma ipv6_chars: "ipv6Groups n s ip ell = Some r \<Longrightarrow> set s \<subseteq> ipChars"
proof (induction n arbitrary: s ip ell)
  case (Suc n)
  let ?rest = "drop (length (hexRun s)) s"
  let ?ip = "ip @ [hexNumber (hexRun s) div 256, hexNumber (hexRun s) mod 256]"
  have chars: "CHR '':'' \<in> ipChars" by (simp add: ipChars_def)
  consider "ipv4Fields s None [] \<noteq> None" | "?rest = []" | "take 2 ?rest = ''::''" "length ?rest = 2"
    | "take 2 ?rest = ''::''" "ipv6Groups n (drop 2 ?rest) ?ip (Some (length ?ip)) = Some r"
    | "take 1 ?rest = '':''" "ipv6Groups n (drop 1 ?rest) ?ip ell = Some r"
    using Suc.prems by (auto simp: Let_def split: if_splits)
  then have "set ?rest \<subseteq> ipChars \<or> set s \<subseteq> ipChars"
  proof cases
    case 1
    then show ?thesis using ipv4_chars [of s None "[]"] by auto
  next
    case 3
    then show ?thesis using take_two_chars [OF 3(1), of ipChars] chars by simp
  next
    case 4
    show ?thesis using take_two_chars [OF 4(1) Suc.IH [OF 4(2)] chars chars] by blast
  next
    case 5
    show ?thesis using take_Suc_chars [OF 5(1) Suc.IH [OF 5(2)] chars] by blast
  qed simp
  then show ?case using set_split [of s "length (hexRun s)"] hexRun_chars [of s] by blast
qed (simp split: if_splits)

lemma ParseIP_chars:
  assumes "ParseIP s = Some ip"
  shows "set s \<subseteq> ipChars"
proof -
  have "set s \<subseteq> ipChars" if "parseIPv6 s = Some ip"
  proof (cases "take 2 s = ''::''")
    case True
    have "set (drop 2 s) \<subseteq> ipChars"
      using that True ipv6_chars [of 8 "drop 2 s"] by (auto simp: parseIPv6_def split: if_splits bind_splits)
    then show ?thesis using take_two_chars [OF True] by (simp add: ipChars_def)
  next
    case False
    then show ?thesis using that ipv6_chars [of 8 s] by (auto simp: parseIPv6_def split: bind_splits)
  qed
  then show ?thesis using assms ipv4_chars [of s None "[]"] by (auto simp: ParseIP_def split: option.splits if_splits)
qed

text \<open>Addresses of this machine and others\<close>


text \<open>Addresses of this machine and others\<close>

lemma loopback_samples:
  "map_option IsLoopback (ParseIP ''127.0.0.1'') = Some True" "map_option IsLoopback (ParseIP ''::1'') = Some True"
  "map_option IsLoopback (ParseIP ''0.0.0.0'') = Some False" "map_option IsLoopback (ParseIP ''::ffff:127.0.0.1'') = Some True"
  "ParseIP ''127.0.0.01'' = None" "ParseIP ''1::2::3'' = None" "ParseIP ''127.1'' = None"
  by code_simp+

end
