(* ===== verification/McpServer.thy ===== *)
theory McpServer
  imports FileStore GoNet
begin

text \<open>
  The HTTP server around the tools: its life cycle (\<open>internal/modules/mcpserver/module.go\<close>) and the guard of its
  requests (\<open>internal/modules/mcpserver/server.go\<close>, from \<open>originGuard\<close> on). The parts that \<open>url.Parse\<close> finds in
  an origin, scheme and host, and the outcomes of listening, serving and shutting down are arguments.
\<close>

section \<open>Guard and addresses\<close>

definition isLocalHost :: "string \<Rightarrow> bool" where
  "isLocalHost host = (equal_fold host ''localhost'' \<or> (case ParseIP host of None \<Rightarrow> False | Some ip \<Rightarrow> IsLoopback ip))"

definition listenAddress :: "mcpConfig \<Rightarrow> goError + string" where
  "listenAddress cfg =
     (if mcHost cfg = [] then Inl (invalid ''mcp host must not be empty'')
      else if \<not> isLocalHost (mcHost cfg) then Inl (invalid ''mcp host must be localhost or a loopback address'')
      else if mcPort cfg \<le> 0 \<or> 65535 < mcPort cfg then Inl (invalid ''mcp port must be between 1 and 65535'')
      else Inr (JoinHostPort (mcHost cfg) (itoa (mcPort cfg))))"

definition normalizedPath :: "string \<Rightarrow> string" where
  "normalizedPath path = (if path = [] then ''/mcp'' else if \<not> has_prefix path ''/'' then ''/'' @ path else path)"

type_synonym url_parser = "string \<Rightarrow> (string \<times> string) option"

definition isAllowedOrigin :: "url_parser \<Rightarrow> string \<Rightarrow> mcpConfig \<Rightarrow> bool" where
  "isAllowedOrigin parse origin cfg = (case parse origin of
       None \<Rightarrow> False
     | Some (scheme, urlHost) \<Rightarrow>
         if urlHost = [] then False
         else if scheme \<noteq> ''http'' \<and> scheme \<noteq> ''https'' then False
         else let (host, portText) = (case SplitHostPort urlHost of None \<Rightarrow> (urlHost, []) | Some hp \<Rightarrow> hp) in
           if portText = [] then False
           else if atoi portText \<noteq> Some (mcPort cfg) then False
           else if equal_fold host (mcHost cfg) then True
           else if \<not> mcAllowLocalOrigins cfg then False
           else host = ''localhost'' \<or> host = ''127.0.0.1'' \<or> host = ''::1'')"

datatype guard_answer = ForbiddenOrigin | Forwarded

text \<open>A request without the header has the empty origin.\<close>

definition originGuard :: "url_parser \<Rightarrow> mcpConfig \<Rightarrow> string \<Rightarrow> guard_answer" where
  "originGuard parse cfg origin =
     (if origin \<noteq> [] \<and> \<not> isAllowedOrigin parse origin cfg then ForbiddenOrigin else Forwarded)"

section \<open>The module\<close>

record mcpStatus =
  msEnabled :: bool
  msRunning :: bool
  msAddress :: string
  msPath :: string
  msError :: string

text \<open>
  \<open>hmListening\<close> is the address the process listens on, \<open>hmServer\<close> whether the module holds a server, and
  \<open>hmPublished\<close> the statuses handed to the bus.
\<close>

record mcpModule =
  hmSerial :: bool
  hmCfg :: mcpConfig
  hmBus :: bool
  hmServer :: bool
  hmListening :: "string option"
  hmStatus :: mcpStatus
  hmPublished :: "mcpStatus list"

definition noConfig :: mcpConfig where
  "noConfig = \<lparr>mcEnabled = False, mcHost = [], mcPort = 0, mcPath = [], mcAllowLocalOrigins = False\<rparr>"

definition mcpNew :: "bool \<Rightarrow> mcpModule" where
  "mcpNew serial = \<lparr>hmSerial = serial, hmCfg = noConfig, hmBus = False, hmServer = False, hmListening = None,
     hmStatus = \<lparr>msEnabled = False, msRunning = False, msAddress = [], msPath = [], msError = []\<rparr>, hmPublished = []\<rparr>"

definition mcpManifest :: moduleManifest where
  "mcpManifest = \<lparr>mfID = ''mcpserver'', mfVersion = ''0.1.0'', mfDependencies = [''serial''],
     mfFrontend = \<lparr>fcActivityIcon = [], fcActivityTitle = [], fcViews = []\<rparr>\<rparr>"

definition publishStatus :: "mcpModule \<Rightarrow> mcpModule" where
  "publishStatus m = (if hmBus m then m\<lparr>hmPublished := hmPublished m @ [hmStatus m]\<rparr> else m)"

definition mcpSetError :: "string \<Rightarrow> mcpModule \<Rightarrow> mcpModule" where
  "mcpSetError message m = publishStatus (m\<lparr>hmStatus := \<lparr>msEnabled = mcEnabled (hmCfg m), msRunning = False,
     msAddress = [], msPath = mcPath (hmCfg m), msError = message\<rparr>\<rparr>)"

definition mcpInit :: "bool \<Rightarrow> mcpConfig \<Rightarrow> mcpModule \<Rightarrow> mcpModule" where
  "mcpInit bus config m =
     (let cfg = config\<lparr>mcPath := normalizedPath (mcPath config)\<rparr>;
          m1 = m\<lparr>hmBus := bus, hmCfg := cfg, hmStatus := \<lparr>msEnabled = mcEnabled cfg, msRunning = False, msAddress = [],
            msPath = mcPath cfg, msError = []\<rparr>\<rparr> in
      if mcEnabled cfg then m1 else publishStatus m1)"

definition mcpStart :: "string option \<Rightarrow> mcpModule \<Rightarrow> mcpModule" where
  "mcpStart listened m =
     (if \<not> mcEnabled (hmCfg m) then m
      else if \<not> hmSerial m then mcpSetError ''serial service is not available'' m
      else case listenAddress (hmCfg m) of
          Inl e \<Rightarrow> mcpSetError (errorText e) m
        | Inr address \<Rightarrow> (case listened of
              Some e \<Rightarrow> mcpSetError e m
            | None \<Rightarrow> publishStatus (m\<lparr>hmServer := True, hmListening := Some address,
                hmStatus := \<lparr>msEnabled = True, msRunning = True, msAddress = address, msPath = mcPath (hmCfg m), msError = []\<rparr>\<rparr>)))"

text \<open>The goroutine that serves: an error closes the listener and is reported.\<close>

definition mcpServeFails :: "string \<Rightarrow> mcpModule \<Rightarrow> mcpModule" where
  "mcpServeFails e m = mcpSetError e (m\<lparr>hmListening := None\<rparr>)"

definition shutdownHTTPServer :: "string option \<Rightarrow> string option" where
  "shutdownHTTPServer failed = map_option (\<lambda>e. ''shutdown mcp http server: '' @ e) failed"

text \<open>A shutdown closes the listener first, also when waiting for the open requests fails.\<close>

definition mcpStop :: "string option \<Rightarrow> mcpModule \<Rightarrow> mcpModule \<times> string option" where
  "mcpStop failed m =
     (if \<not> hmServer m then (m, None)
      else (publishStatus (m\<lparr>hmServer := False, hmListening := None, hmStatus := (hmStatus m)\<lparr>msRunning := False\<rparr>\<rparr>),
            shutdownHTTPServer failed))"

definition mcpDispose :: "mcpModule \<Rightarrow> mcpModule" where
  "mcpDispose m = (if hmServer m then m\<lparr>hmServer := False, hmListening := None\<rparr> else m)"

section \<open>Runs\<close>

text \<open>
  What can happen to the module: the registry initialises and starts it while it holds no server, and serving
  ends with an error only while it listens.
\<close>

inductive hostStep :: "mcpModule \<Rightarrow> mcpModule \<Rightarrow> bool" where
  init: "\<not> hmServer m \<Longrightarrow> hostStep m (mcpInit bus config m)"
| start: "\<not> hmServer m \<Longrightarrow> hostStep m (mcpStart listened m)"
| serve: "hmListening m \<noteq> None \<Longrightarrow> hostStep m (mcpServeFails e m)"
| stop: "hostStep m (fst (mcpStop failed m))"
| dispose: "hostStep m (mcpDispose m)"

inductive hostReach :: "mcpModule \<Rightarrow> bool" where
  new: "hostReach (mcpNew serial)"
| step: "hostReach m \<Longrightarrow> hostStep m m' \<Longrightarrow> hostReach m'"

end
