(* ===== verification/Program.thy ===== *)
theory Program
  imports McpServer GraphControl
begin

text \<open>
  The program as a whole: \<open>main.go\<close>, the directories (\<open>internal/core/platform/dirs.go\<close>), the assembly of the
  application (\<open>internal/core/app/app.go\<close>), and the two modules it registers
  (\<open>internal/modules/serial/module.go\<close> and the MCP server). The state of the program joins that of the serial
  service with that of the server. The window toolkit, the frontend and the log are left out.
\<close>

section \<open>Directories\<close>

record appPaths =
  apConfigDir :: string
  apDataDir :: string
  apCacheDir :: string
  apLogDir :: string

text \<open>What the system answers: its directories, how a path is joined, and why one cannot be made\<close>

record dirEnv =
  deConfigHome :: "string + string"
  deCacheHome :: "string + string"
  deJoin :: "string \<Rightarrow> string \<Rightarrow> string"
  deEnsure :: "string \<Rightarrow> string option"

fun ensureDirs :: "(string \<Rightarrow> string option) \<Rightarrow> string list \<Rightarrow> string option" where
  "ensureDirs ensure [] = None"
| "ensureDirs ensure (d # ds) = (case ensure d of Some e \<Rightarrow> Some e | None \<Rightarrow> ensureDirs ensure ds)"

definition ResolvePaths :: "dirEnv \<Rightarrow> string \<Rightarrow> goError + appPaths" where
  "ResolvePaths env appName =
     (if appName = [] then Inl (invalid ''appName must not be empty'')
      else case deConfigHome env of
          Inl e \<Rightarrow> Inl (wrapError CodePlatform ''resolve config home'' e)
        | Inr configHome \<Rightarrow> (case deCacheHome env of
              Inl e \<Rightarrow> Inl (wrapError CodePlatform ''resolve cache home'' e)
            | Inr cacheHome \<Rightarrow>
                let dir = deJoin env configHome appName; cacheDir = deJoin env cacheHome appName; logDir = deJoin env dir ''logs'' in
                case ensureDirs (deEnsure env) [dir, dir, cacheDir, logDir] of
                  Some e \<Rightarrow> Inl (wrapError CodePlatform ''ensure application directory'' e)
                | None \<Rightarrow> Inr \<lparr>apConfigDir = dir, apDataDir = dir, apCacheDir = cacheDir, apLogDir = logDir\<rparr>))"

section \<open>The modules of the program\<close>

definition serialManifest :: moduleManifest where
  "serialManifest = \<lparr>mfID = ''serial'', mfVersion = ''0.1.0'', mfDependencies = [],
     mfFrontend = \<lparr>fcActivityIcon = ''serial'',
       fcActivityTitle = string_of [0xE4, 0xB8, 0xB2, 0xE5, 0x8F, 0xA3, 0xE8, 0xB0, 0x83, 0xE8, 0xAF, 0x95],
       fcViews = [\<lparr>fvID = ''serial.connect'', fvTitle = string_of [0xE8, 0xBF, 0x9E, 0xE6, 0x8E, 0xA5],
         fvComponent = ''serial/ConnectView''\<rparr>]\<rparr>\<rparr>"

definition serialModule :: appModule where
  "serialModule = \<lparr>mdID = ''serial'', mdManifest = serialManifest, mdServicesWrapped = [''serial'']\<rparr>"

definition mcpServerModule :: appModule where
  "mcpServerModule = \<lparr>mdID = ''mcpserver'', mdManifest = mcpManifest, mdServicesWrapped = []\<rparr>"

section \<open>The assembly\<close>

record appOptions =
  aoRegistry :: "registry option"
  aoLogger :: bool
  aoPaths :: "appPaths option"
  aoConfig :: "configSchema option"
  aoAssetsDir :: string
  aoExtraServices :: "string list"

text \<open>What is assembled: the services bound to the frontend\<close>

definition appBuild :: "string list \<Rightarrow> appOptions \<Rightarrow> goError + string list" where
  "appBuild visit opts = (case aoRegistry opts of
       None \<Rightarrow> Inl (invalid ''registry must not be nil'')
     | Some r \<Rightarrow>
         if \<not> aoLogger opts then Inl (invalid ''logger must not be nil'')
         else if aoPaths opts = None then Inl (invalid ''paths must not be nil'')
         else if aoConfig opts = None then Inl (invalid ''config must not be nil'')
         else if aoAssetsDir opts = [] then Inl (invalid ''assetsDir must not be empty'')
         else Inr (AllServicesWrapped visit r @ aoExtraServices opts))"

record mainState =
  msPaths :: appPaths
  msConfig :: configSchema
  msRegistry :: registry
  msServices :: "string list"

text \<open>The main function up to the window; an error ends the program with its text.\<close>

definition mainStart :: "dirEnv \<Rightarrow> configLib \<Rightarrow> (string \<Rightarrow> string option) \<Rightarrow> files \<Rightarrow> string list \<Rightarrow> string + mainState" where
  "mainStart env lib broken fs visit = (case ResolvePaths env ''portweave'' of
       Inl e \<Rightarrow> Inl (''resolve paths: '' @ errorText e)
     | Inr paths \<Rightarrow> (case configLoad lib broken (apConfigDir paths @ ''/config.toml'') fs of
           Inl e \<Rightarrow> Inl (''load config: '' @ errorText e)
         | Inr cfg \<Rightarrow> (case Register serialModule [] of
               (_, Some e) \<Rightarrow> Inl (''register serial module: '' @ errorText e)
             | (r1, None) \<Rightarrow> (case Register mcpServerModule r1 of
                   (_, Some e) \<Rightarrow> Inl (''register mcp server module: '' @ errorText e)
                 | (r2, None) \<Rightarrow> (case appBuild visit \<lparr>aoRegistry = Some r2, aoLogger = True, aoPaths = Some paths,
                         aoConfig = Some cfg, aoAssetsDir = ''frontend/dist'', aoExtraServices = [''runtime'', ''workspace'']\<rparr> of
                       Inl e \<Rightarrow> Inl (''build app: '' @ errorText e)
                     | Inr services \<Rightarrow> Inr \<lparr>msPaths = paths, msConfig = cfg, msRegistry = r2, msServices = services\<rparr>)))))"

section \<open>The running program\<close>

text \<open>
  \<open>pgSpent\<close> is the \<open>sync.Once\<close> of the shutdown, \<open>pgStarted\<close> whether the event ApplicationStarted was handled. The
  service of the serial module stands for itself after its \<open>Init\<close>, which only wires it to the bus.
\<close>

record program =
  pgService :: serialService
  pgHost :: mcpModule
  pgCalls :: "moduleCall list"
  pgStarted :: bool
  pgSpent :: bool

definition newProgram :: program where
  "newProgram = \<lparr>pgService = NewService, pgHost = mcpNew True, pgCalls = [], pgStarted = False, pgSpent = False\<rparr>"

text \<open>The outcomes of the system calls of the modules\<close>

record moduleOutcomes =
  poEnv :: startEnv
  poListen :: "string option"
  poShutdown :: "string option"

definition doModuleCall :: "moduleOutcomes \<Rightarrow> mcpConfig \<Rightarrow> moduleCall \<Rightarrow> program \<Rightarrow> program" where
  "doModuleCall out cfg call p =
     (if call = InitCall ''mcpserver'' then p\<lparr>pgHost := mcpInit True cfg (pgHost p)\<rparr>
      else if call = StartCall ''mcpserver'' then p\<lparr>pgHost := mcpStart (poListen out) (pgHost p)\<rparr>
      else if call = StopCall ''mcpserver'' then p\<lparr>pgHost := fst (mcpStop (poShutdown out) (pgHost p))\<rparr>
      else if call = DisposeCall ''mcpserver'' then p\<lparr>pgHost := mcpDispose (pgHost p)\<rparr>
      else if call = StopCall ''serial'' \<or> call = DisposeCall ''serial'' then p\<lparr>pgService := cleanup (poEnv out) (pgService p)\<rparr>
      else p)"

text \<open>Only the stop of the server can report an error.\<close>

definition moduleAnswers :: "moduleOutcomes \<Rightarrow> bool \<Rightarrow> moduleEnv" where
  "moduleAnswers out held calls call =
     (if call = StopCall ''mcpserver'' \<and> held then map_option Opaque (shutdownHTTPServer (poShutdown out)) else None)"

definition programStarted :: "moduleOutcomes \<Rightarrow> string list \<Rightarrow> string list \<Rightarrow> string list \<Rightarrow> registry \<Rightarrow> mcpConfig \<Rightarrow> program \<Rightarrow>
    program \<times> appEvent" where
  "programStarted out v1 v2 v3 r cfg p =
     (case applicationStarted (moduleAnswers out (hmServer (pgHost p))) v1 v2 v3 r (pgCalls p) of
        (calls, ev) \<Rightarrow> ((fold (doModuleCall out cfg) (drop (length (pgCalls p)) calls) p)\<lparr>pgCalls := calls, pgStarted := True\<rparr>, ev))"

definition programShutdown :: "moduleOutcomes \<Rightarrow> string list \<Rightarrow> string list \<Rightarrow> registry \<Rightarrow> mcpConfig \<Rightarrow> program \<Rightarrow> program" where
  "programShutdown out v1 v2 r cfg p =
     (case shutdownRegistryOnce (moduleAnswers out (hmServer (pgHost p))) v1 v2 r (pgSpent p, pgCalls p) of
        (spent, calls) \<Rightarrow> (fold (doModuleCall out cfg) (drop (length (pgCalls p)) calls) p)\<lparr>pgCalls := calls, pgSpent := spent\<rparr>)"

end
