(* ===== verification/McpServerFacts.thy ===== *)
theory McpServerFacts
  imports McpServer
begin

text \<open>
  The server listens on loopback addresses only, the guard lets through what comes from pages of this machine at
  its own port, and the status it publishes is what it does.
\<close>

section \<open>The addresses it listens on\<close>

lemma publishStatus_keeps [simp]:
  "hmSerial (publishStatus m) = hmSerial m" "hmCfg (publishStatus m) = hmCfg m" "hmBus (publishStatus m) = hmBus m"
  "hmServer (publishStatus m) = hmServer m" "hmListening (publishStatus m) = hmListening m" "hmStatus (publishStatus m) = hmStatus m"
  "hmBus m \<Longrightarrow> hmPublished (publishStatus m) = hmPublished m @ [hmStatus m]"
  by (simp_all add: publishStatus_def)

lemma fold_case_plain: "fold_case s = t \<Longrightarrow> c \<in> set s \<Longrightarrow> c \<notin> {CHR 0xE2, CHR 0x84, CHR 0xAA, CHR 0xC5, CHR 0xBF} \<Longrightarrow> lower_char c \<in> set t"
proof (induction s arbitrary: t rule: fold_case.induct)
  case (2 d cs)
  have k: "c \<in> set (drop 2 cs)" if "c \<in> set cs" "take 2 cs = [CHR 0x84, CHR 0xAA]"
    using that "2.prems"(3) by (cases cs; cases "tl cs") auto
  have s: "c \<in> set (drop 1 cs)" if "c \<in> set cs" "take 1 cs = [CHR 0xBF]"
    using that "2.prems"(3) by (cases cs) auto
  show ?case using 2 k s by (auto split: if_splits)
qed simp

lemma localhost_chars:
  assumes "equal_fold host ''localhost''" and "c \<in> {CHR ''['', CHR '']'', CHR '':''}"
  shows "c \<notin> set host"
proof
  assume c: "c \<in> set host"
  have "fold_case ''localhost'' = ''localhost''" by code_simp
  then have f: "fold_case host = ''localhost''" using assms(1) unfolding equal_fold_def by metis
  have "c \<notin> {CHR 0xE2, CHR 0x84, CHR 0xAA, CHR 0xC5, CHR 0xBF}" using assms(2) by auto
  from fold_case_plain [OF f c this] have "lower_char c \<in> set ''localhost''" .
  moreover have "lower_char c = c" using assms(2) by (auto simp: lower_char_def ascii_upper_def)
  ultimately show False using assms(2) by auto
qed

lemma local_chars: "isLocalHost host \<Longrightarrow> CHR ''['' \<notin> set host \<and> CHR '']'' \<notin> set host"
  using localhost_chars [of host] ParseIP_chars [of host]
  by (auto simp: isLocalHost_def ipChars_def hex_value_def split: option.splits)

lemma itoa_port_chars: "0 \<le> n \<Longrightarrow> set (itoa n) \<inter> {CHR '':'', CHR ''['', CHR '']''} = {}"
  using digits_only [of "nat n"] by (auto simp: itoa_def list_all_iff is_digit_def)

lemma atoi_itoa_port:
  assumes "0 \<le> n" "n < 2 ^ 63"
  shows "atoi (itoa n) = Some n"
proof -
  have d: "list_all is_digit (itoa n)" using digits_only [of "nat n"] assms(1) by (simp add: itoa_def)
  have ne: "itoa n \<noteq> []" using assms(1) by (simp add: itoa_def nat_digits.simps [of "nat n"])
  then obtain c cs where c: "itoa n = c # cs" by (cases "itoa n") auto
  with d have "is_digit c" by simp
  then have "take 1 (itoa n) \<noteq> ''-''" "take 1 (itoa n) \<noteq> ''+''" using c by (auto simp: is_digit_def)
  then have "atoi (itoa n) = (if int (digits_value (itoa n)) < 2 ^ (64 - 1) then Some (int (digits_value (itoa n))) else None)"
    using d ne by (simp only: atoi_def parse_int10_def Let_def disj.left_neutral if_False if_True not_True_eq_False simp_thms)
  moreover have "int (digits_value (itoa n)) = n" using assms(1) by (simp add: itoa_def)
  ultimately show ?thesis using assms(2) by simp
qed

lemma listenAddress_local:
  assumes "listenAddress cfg = Inr a"
  shows "SplitHostPort a = Some (mcHost cfg, itoa (mcPort cfg))" "isLocalHost (mcHost cfg)" "1 \<le> mcPort cfg" "mcPort cfg \<le> 65535"
proof -
  have a: "a = JoinHostPort (mcHost cfg) (itoa (mcPort cfg))" and l: "isLocalHost (mcHost cfg)" and p: "1 \<le> mcPort cfg" "mcPort cfg \<le> 65535"
    using assms by (auto simp: listenAddress_def split: if_splits)
  show "SplitHostPort a = Some (mcHost cfg, itoa (mcPort cfg))"
    unfolding a using local_chars [OF l] itoa_port_chars [of "mcPort cfg"] p by (intro SplitHostPort_join) auto
qed (use assms in \<open>auto simp: listenAddress_def split: if_splits\<close>)

section \<open>Runs\<close>

text \<open>While the module holds a server, its status tells whether it listens, and was published.\<close>

definition host_ok :: "mcpModule \<Rightarrow> bool" where
  "host_ok m \<longleftrightarrow> (\<forall>a. hmListening m = Some a \<longrightarrow> hmServer m \<and> hmSerial m \<and> mcEnabled (hmCfg m) \<and> listenAddress (hmCfg m) = Inr a
      \<and> msAddress (hmStatus m) = a \<and> msPath (hmStatus m) = mcPath (hmCfg m))
    \<and> (hmServer m \<longrightarrow> (msRunning (hmStatus m) \<longleftrightarrow> hmListening m \<noteq> None) \<and> (hmBus m \<longrightarrow> hmPublished m \<noteq> [] \<and> last (hmPublished m) = hmStatus m))"

lemma host_ok_step: "hostStep m m' \<Longrightarrow> host_ok m \<Longrightarrow> host_ok m'"
  by (induction rule: hostStep.induct)
    (auto simp: host_ok_def mcpInit_def mcpStart_def mcpServeFails_def mcpStop_def mcpDispose_def mcpSetError_def Let_def
      split: sum.split option.split)

lemma host_ok_reach: "hostReach m \<Longrightarrow> host_ok m"
proof (induction rule: hostReach.induct)
  case (step m m')
  then show ?case by (blast intro: host_ok_step)
qed (simp add: host_ok_def mcpNew_def)

lemma stopped_is_silent: "hostReach m \<Longrightarrow> hmListening (mcpDispose (fst (mcpStop failed m))) = None \<and> hmListening (fst (mcpStop failed m)) = None"
  using host_ok_reach [of m] by (auto simp: mcpStop_def mcpDispose_def host_ok_def)

lemma isAllowedOrigin_cases:
  assumes "isAllowedOrigin parse origin cfg"
  obtains scheme urlHost host portText where "parse origin = Some (scheme, urlHost)" "scheme = ''http'' \<or> scheme = ''https''"
    "SplitHostPort urlHost = Some (host, portText)" "atoi portText = Some (mcPort cfg)"
    "equal_fold host (mcHost cfg) \<or> mcAllowLocalOrigins cfg \<and> (host = ''localhost'' \<or> host = ''127.0.0.1'' \<or> host = ''::1'')"
proof (cases "parse origin")
  case (Some p)
  obtain scheme urlHost where p: "p = (scheme, urlHost)" by (cases p)
  show thesis
  proof (cases "SplitHostPort urlHost")
    case None
    then show thesis using assms Some p unfolding isAllowedOrigin_def by (simp split: if_split_asm)
  next
    case split: (Some hp)
    obtain host portText where hp: "hp = (host, portText)" by (cases hp)
    show thesis
      by (rule that [of scheme urlHost host portText])
        (use assms Some p split hp in \<open>auto simp only: isAllowedOrigin_def option.case prod.case Let_def split: if_split_asm\<close>)
  qed
qed (use assms in \<open>simp add: isAllowedOrigin_def\<close>)

lemma local_names: "isLocalHost ''localhost''" "isLocalHost ''127.0.0.1''" "isLocalHost ''::1''"
  by code_simp+

section \<open>Properties\<close>

text \<open>C36: Whatever configuration the module is given and whatever happens to it: the address it listens on is a
  loopback address with a port of the legal range, and a request that a page sends reaches the tools only if the
  page was served over http or https at that port by the configured host or by this machine.\<close>

theorem mcp_server_local:
  assumes "hostReach m" and "hmListening m = Some a"
  shows "\<exists>host listenPort port. SplitHostPort a = Some (host, listenPort) \<and> atoi listenPort = Some port \<and> isLocalHost host
    \<and> 1 \<le> port \<and> port \<le> 65535 \<and>
    (\<forall>parse origin. originGuard parse (hmCfg m) origin = Forwarded \<longrightarrow> origin = [] \<or>
      (\<exists>scheme urlHost pageHost portText. parse origin = Some (scheme, urlHost) \<and> (scheme = ''http'' \<or> scheme = ''https'')
        \<and> SplitHostPort urlHost = Some (pageHost, portText) \<and> atoi portText = Some port
        \<and> (equal_fold pageHost host \<or> isLocalHost pageHost)))"
proof -
  let ?cfg = "hmCfg m"
  have l: "listenAddress ?cfg = Inr a" using host_ok_reach [OF assms(1)] assms(2) by (auto simp: host_ok_def)
  have page: "origin = [] \<or> (\<exists>scheme urlHost pageHost portText. parse origin = Some (scheme, urlHost) \<and> (scheme = ''http'' \<or> scheme = ''https'')
        \<and> SplitHostPort urlHost = Some (pageHost, portText) \<and> atoi portText = Some (mcPort ?cfg)
        \<and> (equal_fold pageHost (mcHost ?cfg) \<or> isLocalHost pageHost))"
    if "originGuard parse ?cfg origin = Forwarded" for parse origin
  proof (cases "origin = []")
    case False
    with that have "isAllowedOrigin parse origin ?cfg" by (auto simp: originGuard_def split: if_splits)
    then show ?thesis by (rule isAllowedOrigin_cases) (use local_names in auto)
  qed simp
  have "atoi (itoa (mcPort ?cfg)) = Some (mcPort ?cfg)" using listenAddress_local(3,4) [OF l] by (intro atoi_itoa_port) auto
  then show ?thesis using listenAddress_local [OF l] page
    by (intro exI [of _ "mcHost ?cfg"] exI [of _ "itoa (mcPort ?cfg)"] exI [of _ "mcPort ?cfg"]) auto
qed

definition localConfig :: mcpConfig where
  "localConfig = \<lparr>mcEnabled = True, mcHost = ''::1'', mcPort = 80, mcPath = ''mcp'', mcAllowLocalOrigins = True\<rparr>"

definition sampleHost :: mcpModule where
  "sampleHost = mcpStart None (mcpInit True localConfig (mcpNew True))"

lemma sampleHost_reach: "hostReach sampleHost"
  unfolding sampleHost_def
  by (rule hostReach.step [OF hostReach.step [OF hostReach.new hostStep.init] hostStep.start]) (simp_all add: mcpNew_def mcpInit_def Let_def localConfig_def)

lemma sampleHost_listens: "hmListening sampleHost = Some ''[::1]:80''"
  by code_simp

theorem mcp_server_local_witness:
  "\<exists>host listenPort port. SplitHostPort ''[::1]:80'' = Some (host, listenPort) \<and> atoi listenPort = Some port
    \<and> isLocalHost host \<and> port \<le> 65535"
  using mcp_server_local [OF sampleHost_reach sampleHost_listens] by blast

text \<open>Pages that are refused: another machine, another port, no port, and a file\<close>

lemma refused_pages:
  "originGuard (\<lambda>_. Some (''http'', ''evil.example:80'')) localConfig ''o'' = ForbiddenOrigin"
  "originGuard (\<lambda>_. Some (''http'', ''localhost:8080'')) localConfig ''o'' = ForbiddenOrigin"
  "originGuard (\<lambda>_. Some (''http'', ''localhost'')) localConfig ''o'' = ForbiddenOrigin"
  "originGuard (\<lambda>_. Some (''file'', '''')) localConfig ''o'' = ForbiddenOrigin"
  "originGuard (\<lambda>_. Some (''https'', ''[::1]:80'')) localConfig ''o'' = Forwarded"
  by code_simp+



text \<open>Disposing a module that still serves closes the server, and leaves the status that it runs.\<close>

lemma dispose_leaves_status: "msRunning (hmStatus (mcpDispose sampleHost)) \<and> hmListening (mcpDispose sampleHost) = None"
  by code_simp

end
