(* ===== verification/ProgramFacts.thy ===== *)
theory ProgramFacts
  imports Program McpServerFacts ServiceFacts ModuleFacts
begin

text \<open>
  The composition: the main function gets past its own modules, whatever the order in which the registry walks its
  maps the server is started after the service it exposes and stopped before it, and a shutdown at any moment gives
  back every port and closes the listener.
\<close>

section \<open>The registry of the program\<close>

definition programRegistry :: registry where
  "programRegistry = fst (Register mcpServerModule (fst (Register serialModule [])))"

lemma program_registered:
  "Register serialModule [] = ([(''serial'', serialModule)], None)"
  "Register mcpServerModule [(''serial'', serialModule)] = (programRegistry, None)"
  "programRegistry = [(''mcpserver'', mcpServerModule), (''serial'', serialModule)]"
  by (simp_all add: programRegistry_def Register_def serialModule_def mcpServerModule_def Let_def table_put_def table_del_def)

lemma two_orders: "mset v = mset [a, b] \<Longrightarrow> v = [a, b] \<or> v = [b, a]"
proof -
  assume m: "mset v = mset [a, b]"
  then have "length v = 2" by (metis length_Cons list.size(3) numeral_2_eq_2 size_mset)
  then obtain x y where v: "v = [x, y]" by (auto simp: length_Suc_conv numeral_2_eq_2)
  with m show ?thesis by (auto simp: add_eq_conv_ex)
qed

definition walk :: "string list \<Rightarrow> bool" where
  "walk v \<longleftrightarrow> mset v = mset (map fst programRegistry)"

lemma walk_cases: "walk v \<Longrightarrow> v = [''mcpserver'', ''serial''] \<or> v = [''serial'', ''mcpserver'']"
  using two_orders [of v "''mcpserver''" "''serial''"] by (simp add: walk_def program_registered)

lemma program_order: "walk v \<Longrightarrow> orderLocked v programRegistry = Inr [''serial'', ''mcpserver'']"
proof -
  have "orderLocked [''mcpserver'', ''serial''] programRegistry = Inr [''serial'', ''mcpserver'']"
    "orderLocked [''serial'', ''mcpserver''] programRegistry = Inr [''serial'', ''mcpserver'']" by code_simp+
  then show "walk v \<Longrightarrow> ?thesis" using walk_cases [of v] by auto
qed

definition startCalls :: "moduleCall list" where
  "startCalls = [InitCall ''serial'', InitCall ''mcpserver'', StartCall ''serial'', StartCall ''mcpserver'']"

definition stopCalls :: "moduleCall list" where
  "stopCalls = [StopCall ''mcpserver'', StopCall ''serial'', DisposeCall ''mcpserver'', DisposeCall ''serial'']"

lemma started_calls:
  assumes "walk v1" "walk v2" "walk v3"
  shows "applicationStarted (moduleAnswers out held) v1 v2 v3 programRegistry calls
    = (calls @ startCalls, AppModules (FrontendContributions v3 programRegistry))"
  using assms by (simp add: applicationStarted_def InitAll_def StartAll_def program_order moduleAnswers_def startCalls_def)

lemma shutdown_calls:
  assumes "walk v1" "walk v2"
  shows "shutdownRegistryOnce (moduleAnswers out held) v1 v2 programRegistry (spent, calls)
    = (True, if spent then calls else calls @ stopCalls)"
  using assms by (simp add: shutdownRegistryOnce_def StopAll_def DisposeAll_def program_order stop_run stopCalls_def)

section \<open>What is held\<close>

definition released :: "serialService \<Rightarrow> bool" where
  "released s \<longleftrightarrow> (\<forall>u. heldPorts s u = {}) \<and> vmPairs (svVirtual s) = [] \<and> svBuffers s = [] \<and> svGraphs s = []"

lemma stopAll_good: "good_step s (stopAllSerialGraphs env s)"
proof -
  have "good_step t (foldl (\<lambda>s (_, a). graphStop env a s) t gs)" for t and gs :: "(string \<times> nat) list"
    by (induction gs arbitrary: t) (auto simp: good_refl intro: good_trans [OF graphStop_good])
  moreover have "good_step s (s\<lparr>svGraphs := []\<rparr>)" by (simp add: good_buffers good_refl)
  ultimately show ?thesis unfolding stopAllSerialGraphs_def by (blast intro: good_trans)
qed

lemma monCleanup_table: "mgSessions (monCleanup m) = []"
proof -
  have "mgSessions (foldl (\<lambda>m (_, a). monUpdate a (monStop []) m) n ss) = mgSessions n" for n and ss :: "(string \<times> nat) list"
    by (induction ss arbitrary: n) (auto simp: monUpdate_def)
  then show ?thesis by (simp add: monCleanup_def)
qed

lemma monCleanup_idle:
  assumes "mon_ok m"
  shows "\<not> monRunningAt (monCleanup m) a"
  using mon_ok_owned [OF cleanup_ok [OF assms]] by (auto simp: monCleanup_table)

lemma cleanup_releases:
  assumes "mon_ok (svMonitors (stopAllSerialGraphs env s))"
  shows "released (cleanup env s) \<and> mon_ok (svMonitors (cleanup env s))"
  using monCleanup_idle [OF assms] cleanup_ok [OF assms]
  by (auto simp: released_def heldPorts_def cleanup_def Let_def managerCloseAll_def CloseAll_def FecCloseAll_def virtualCleanup_def
      NewVirtualManager_def handlePort_def portOf_def fecPortOf_def ListBridges_def ran_def split: port_user.split)

text \<open>The service is cleaned up when it is stopped and again when it is disposed.\<close>

lemma cleanup_twice:
  assumes "service_wf s" "ports.apart s"
  shows "released (cleanup env (cleanup env s))"
proof -
  have "mon_ok (svMonitors (stopAllSerialGraphs env s))"
    using stopAll_good [of s env] assms by (auto simp: good_step_def service_wf_def)
  note c = cleanup_releases [OF this]
  have "stopAllSerialGraphs env (cleanup env s) = cleanup env s"
    by (simp add: stopAllSerialGraphs_def cleanup_def Let_def)
  then show ?thesis using cleanup_releases [of env "cleanup env s"] c by simp
qed

section \<open>Runs\<close>

text \<open>
  The event that the application started, the calls to the service while the program runs, errors of the serving
  goroutine, and shutdowns, in any order
\<close>

inductive programStep :: "program \<Rightarrow> program \<Rightarrow> bool" where
  started: "\<not> pgStarted p \<Longrightarrow> \<not> pgSpent p \<Longrightarrow> walk v1 \<Longrightarrow> walk v2 \<Longrightarrow> walk v3 \<Longrightarrow>
     programStep p (fst (programStarted out v1 v2 v3 programRegistry cfg p))"
| service: "\<not> pgSpent p \<Longrightarrow> serviceStep (pgService p) s \<Longrightarrow> programStep p (p\<lparr>pgService := s\<rparr>)"
| serving: "hmListening (pgHost p) \<noteq> None \<Longrightarrow> programStep p (p\<lparr>pgHost := mcpServeFails e (pgHost p)\<rparr>)"
| shutdown: "walk v1 \<Longrightarrow> walk v2 \<Longrightarrow> programStep p (programShutdown out v1 v2 programRegistry cfg p)"

inductive programReach :: "program \<Rightarrow> bool" where
  launched: "programReach newProgram"
| continued: "programReach p \<Longrightarrow> programStep p q \<Longrightarrow> programReach q"

definition program_ok :: "program \<Rightarrow> bool" where
  "program_ok p \<longleftrightarrow> hostReach (pgHost p) \<and> (\<not> pgSpent p \<longrightarrow> serviceReach (pgService p))
    \<and> (\<not> pgStarted p \<longrightarrow> \<not> hmServer (pgHost p) \<and> hmListening (pgHost p) = None)
    \<and> (pgSpent p \<longrightarrow> released (pgService p) \<and> hmListening (pgHost p) = None \<and> \<not> hmServer (pgHost p))
    \<and> pgCalls p = (if pgStarted p then startCalls else []) @ (if pgSpent p then stopCalls else [])"

lemma start_fold:
  "fold (doModuleCall out cfg) startCalls p = p\<lparr>pgHost := mcpStart (poListen out) (mcpInit True cfg (pgHost p))\<rparr>"
  by (simp add: startCalls_def doModuleCall_def)

lemma stop_fold:
  "fold (doModuleCall out cfg) stopCalls p = p\<lparr>pgHost := mcpDispose (fst (mcpStop (poShutdown out) (pgHost p))),
     pgService := cleanup (poEnv out) (cleanup (poEnv out) (pgService p))\<rparr>"
  by (simp add: stopCalls_def doModuleCall_def)

lemma host_server_init: "hmServer (mcpInit bus cfg m) = hmServer m"
  by (simp add: mcpInit_def Let_def)

lemma host_disposed: "\<not> hmServer (mcpDispose m)"
  by (simp add: mcpDispose_def)

lemma serve_keeps: "hmServer (mcpServeFails e m) = hmServer m" "hmListening (mcpServeFails e m) = None"
  by (simp_all add: mcpServeFails_def mcpSetError_def)

lemma program_ok_step: "programStep p q \<Longrightarrow> program_ok p \<Longrightarrow> program_ok q"
proof (induction rule: programStep.induct)
  case (started p v1 v2 v3 out cfg)
  then have c: "pgCalls p = []" "\<not> hmServer (pgHost p)" "hostReach (pgHost p)" by (auto simp: program_ok_def)
  let ?q = "fst (programStarted out v1 v2 v3 programRegistry cfg p)"
  have q: "?q = p\<lparr>pgHost := mcpStart (poListen out) (mcpInit True cfg (pgHost p)), pgCalls := startCalls, pgStarted := True\<rparr>"
    using started(3-5) c(1) by (simp add: programStarted_def started_calls start_fold)
  have "hostReach (mcpInit True cfg (pgHost p))" by (rule hostReach.step [OF c(3) hostStep.init [OF c(2)]])
  then have "hostReach (pgHost ?q)" using c(2) unfolding q
    by (simp add: hostReach.step [OF _ hostStep.start] host_server_init)
  then show ?case using started(2,6) c(1) unfolding q by (simp add: program_ok_def)
next
  case (service p s)
  then show ?case by (auto simp: program_ok_def intro: serviceReach.sv_step)
next
  case (serving p e)
  then have "hostReach (mcpServeFails e (pgHost p))"
    by (blast intro: hostReach.step hostStep.serve dest: program_ok_def [THEN iffD1])
  with serving show ?case by (auto simp: program_ok_def serve_keeps)
next
  case (shutdown v1 v2 p out cfg)
  show ?case
  proof (cases "pgSpent p")
    case True
    then have "programShutdown out v1 v2 programRegistry cfg p = p"
      using shutdown(1,2) by (simp add: programShutdown_def shutdown_calls)
    then show ?thesis using shutdown(3) by simp
  next
    case False
    let ?h = "fst (mcpStop (poShutdown out) (pgHost p))"
    have r: "hostReach (pgHost p)" and s: "serviceReach (pgService p)" using shutdown(3) False by (auto simp: program_ok_def)
    have "hostReach ?h" by (rule hostReach.step [OF r hostStep.stop])
    then have h: "hostReach (mcpDispose ?h)" by (rule hostReach.step [OF _ hostStep.dispose])
    have "released (cleanup (poEnv out) (cleanup (poEnv out) (pgService p)))" using reach_good [OF s] by (simp add: cleanup_twice)
    moreover have "programShutdown out v1 v2 programRegistry cfg p = p\<lparr>pgHost := mcpDispose ?h,
        pgService := cleanup (poEnv out) (cleanup (poEnv out) (pgService p)), pgCalls := pgCalls p @ stopCalls, pgSpent := True\<rparr>"
      using shutdown(1,2) False by (simp add: programShutdown_def shutdown_calls stop_fold)
    ultimately show ?thesis using shutdown(3) False h stopped_is_silent [OF r] host_disposed by (auto simp: program_ok_def)
  qed
qed

lemma program_ok_reach: "programReach p \<Longrightarrow> program_ok p"
proof (induction rule: programReach.induct)
  case launched
  then show ?case by (auto simp: program_ok_def newProgram_def mcpNew_def intro: hostReach.new [unfolded mcpNew_def] serviceReach.sv_start)
next
  case (continued p q)
  then show ?case by (blast intro: program_ok_step)
qed

section \<open>Properties\<close>

text \<open>The main function reaches its window exactly when the directories and the configuration are found: its
  own modules are registered without an error, the assembly accepts them, and the services of the serial module,
  of the process statistics and of the workspace files are bound to the frontend.\<close>

theorem main_reaches_window:
  assumes "walk visit"
  shows "mainStart env lib broken fs visit = (case ResolvePaths env ''portweave'' of
       Inl e \<Rightarrow> Inl (''resolve paths: '' @ errorText e)
     | Inr paths \<Rightarrow> (case configLoad lib broken (apConfigDir paths @ ''/config.toml'') fs of
           Inl e \<Rightarrow> Inl (''load config: '' @ errorText e)
         | Inr cfg \<Rightarrow> Inr \<lparr>msPaths = paths, msConfig = cfg, msRegistry = programRegistry,
             msServices = [''serial'', ''runtime'', ''workspace'']\<rparr>))"
proof -
  have "AllServicesWrapped visit programRegistry = [''serial'']"
    using program_order [OF assms] by (simp add: AllServicesWrapped_def program_registered serialModule_def mcpServerModule_def)
  then show ?thesis by (simp add: mainStart_def program_registered(1,2) appBuild_def split: sum.split)
qed



text \<open>A run: the program starts with the server enabled, a terminal is opened, and the window is closed.\<close>

definition sampleOutcomes :: moduleOutcomes where
  "sampleOutcomes = \<lparr>poEnv = portEnv None, poListen = None, poShutdown = Some ''busy''\<rparr>"

definition sampleStarted :: program where
  "sampleStarted = fst (programStarted sampleOutcomes [''mcpserver'', ''serial''] [''serial'', ''mcpserver''] [''serial'', ''mcpserver'']
     programRegistry localConfig newProgram)"

lemma sample_walks: "walk [''mcpserver'', ''serial'']" "walk [''serial'', ''mcpserver'']"
  by (simp_all add: walk_def program_registered)

lemma sampleStarted_reach: "programReach sampleStarted"
  unfolding sampleStarted_def
  by (rule programReach.continued [OF programReach.launched programStep.started]) (simp_all add: newProgram_def sample_walks)

lemma sampleStarted_listens: "pgStarted sampleStarted \<and> \<not> pgSpent sampleStarted \<and> hmListening (pgHost sampleStarted) \<noteq> None"
  unfolding sampleStarted_def
  by (simp add: programStarted_def started_calls sample_walks start_fold newProgram_def)
    (simp add: mcpStart_def mcpInit_def Let_def localConfig_def mcpNew_def listenAddress_def local_names sampleOutcomes_def)

theorem main_reaches_window_witness:
  "\<exists>st. mainStart \<lparr>deConfigHome = Inr ''/c'', deCacheHome = Inr ''/k'', deJoin = (\<lambda>d n. d @ ''/'' @ n), deEnsure = (\<lambda>_. None)\<rparr>
     \<lparr>clMarshal = (\<lambda>_. Inr []), clUnmarshal = (\<lambda>_ _. Inl ''toml'')\<rparr> (\<lambda>_. None) (\<lambda>_. None) [''mcpserver'', ''serial''] = Inr st
     \<and> msServices st = [''serial'', ''runtime'', ''workspace'']"
  by (simp add: main_reaches_window [OF sample_walks(1)] ResolvePaths_def Let_def configLoad_def readFile_def)



end
