(* ===== verification/SystemInfo.thy ===== *)
theory SystemInfo
  imports Float64 TextEncoding RingBuffer
begin

text \<open>
  What the program tells of the system: the resources it uses (\<open>internal/core/runtime/service.go\<close>) and the fonts
  of the terminal (\<open>internal/modules/serial/fonts.go\<close>). The measurements of the operating system, the clock, the
  environment and the files below a directory are arguments; paths are those of Unix.
\<close>

section \<open>Resources\<close>

record processUsage =
  puCPUTime :: int
  puMemoryBytes :: nat

record metrics =
  mxCPUPercent :: float64
  mxMemoryBytes :: nat

record metricsService =
  msvLastCPU :: int
  msvLastWall :: "int option"

definition newMetricsService :: metricsService where
  "newMetricsService = \<lparr>msvLastCPU = 0, msvLastWall = None\<rparr>"

definition cpuCount :: "int \<Rightarrow> int" where
  "cpuCount n = (if n < 1 then 1 else n)"

text \<open>The time between two readings of the clock, which stays within 64 bits\<close>

definition timeSub :: "int \<Rightarrow> int \<Rightarrow> int" where
  "timeSub t u = max (- (2 ^ 63)) (min (2 ^ 63 - 1) (t - u))"

text \<open>The percentage of the processors used between two measurements. A first one has nothing to compare with.\<close>

definition cpuPercent :: "int \<Rightarrow> int \<Rightarrow> int \<Rightarrow> float64" where
  "cpuPercent cpuDelta wallDelta cpus =
     (if 0 < cpuDelta \<and> 0 < wallDelta
      then float_mul (float_div (float_div (float_of_int cpuDelta) (float_of_int wallDelta)) (float_of_int cpus)) (Finite 100)
      else Finite 0)"

definition metricsSnapshot :: "string option \<Rightarrow> string + processUsage \<Rightarrow> int \<Rightarrow> int \<Rightarrow> metricsService \<Rightarrow>
    metricsService \<times> (string + metrics)" where
  "metricsSnapshot ctx usage now cpus s = (case ctx of
       Some e \<Rightarrow> (s, Inl e)
     | None \<Rightarrow> (case usage of
           Inl e \<Rightarrow> (s, Inl e)
         | Inr u \<Rightarrow>
             let percent = (case msvLastWall s of
                   None \<Rightarrow> Finite 0
                 | Some wall \<Rightarrow> cpuPercent (wrap64 (puCPUTime u - msvLastCPU s)) (timeSub now wall) (cpuCount cpus)) in
             (\<lparr>msvLastCPU = puCPUTime u, msvLastWall = Some now\<rparr>,
              Inr \<lparr>mxCPUPercent = (if negative percent then Finite 0 else percent), mxMemoryBytes = puMemoryBytes u\<rparr>)))"

section \<open>Fonts\<close>

datatype system_name = Darwin | Windows | OtherSystem

definition compactDirs :: "string list \<Rightarrow> string list" where
  "compactDirs dirs = filter (\<lambda>d. trim_space d \<noteq> []) dirs"

definition systemFontDirs :: "system_name \<Rightarrow> (string \<Rightarrow> string \<Rightarrow> string) \<Rightarrow> string \<Rightarrow> string \<Rightarrow> string list" where
  "systemFontDirs os join home windir = compactDirs (case os of
       Darwin \<Rightarrow> [''/System/Library/Fonts'', ''/Library/Fonts'', join home ''Library/Fonts'']
     | Windows \<Rightarrow> [join windir ''Fonts'', join home ''AppData/Local/Microsoft/Windows/Fonts'']
     | OtherSystem \<Rightarrow> [''/usr/share/fonts'', ''/usr/local/share/fonts'', join home ''.fonts'', join home ''.local/share/fonts''])"

text \<open>The package filepath: the part after the last separator, and its end from the last dot on\<close>

definition pathBase :: "string \<Rightarrow> string" where
  "pathBase path = (if path = [] then ''.''
     else let p = rev (dropWhile (\<lambda>c. c = CHR ''/'') (rev path)) in
       if p = [] then ''/'' else rev (takeWhile (\<lambda>c. c \<noteq> CHR ''/'') (rev p)))"

definition pathExt :: "string \<Rightarrow> string" where
  "pathExt path = (let tail = rev (takeWhile (\<lambda>c. c \<noteq> CHR ''/'') (rev path)) in
     if CHR ''.'' \<in> set tail then CHR ''.'' # rev (takeWhile (\<lambda>c. c \<noteq> CHR ''.'') (rev tail)) else [])"

definition trimSuffix :: "string \<Rightarrow> string \<Rightarrow> string" where
  "trimSuffix s suffix = (if has_suffix s suffix then take (length s - length suffix) s else s)"

definition fontFamilyName :: "string \<Rightarrow> string" where
  "fontFamilyName path =
     (if to_lower (pathExt path) \<notin> {''.ttf'', ''.ttc'', ''.otf''} then []
      else trim_space (map (\<lambda>c. if c = CHR ''_'' then CHR '' '' else c) (trimSuffix (pathBase path) (pathExt path))))"

text \<open>The names of the files found below the directories, each once, in order\<close>

definition listFontFamiliesFromDirs :: "(string \<Rightarrow> string list) \<Rightarrow> string list \<Rightarrow> string list" where
  "listFontFamiliesFromDirs walk dirs =
     sorted_list_of_set (set (filter (\<lambda>n. n \<noteq> []) (map fontFamilyName (concat (map walk dirs)))))"

definition ListSystemFonts :: "system_name \<Rightarrow> (string \<Rightarrow> string \<Rightarrow> string) \<Rightarrow> string \<Rightarrow> string \<Rightarrow> (string \<Rightarrow> string list) \<Rightarrow> string list" where
  "ListSystemFonts os join home windir walk = listFontFamiliesFromDirs walk (systemFontDirs os join home windir)"

section \<open>Facts\<close>

lemma metrics_first: "metricsSnapshot None (Inr u) now cpus newMetricsService
    = (\<lparr>msvLastCPU = puCPUTime u, msvLastWall = Some now\<rparr>, Inr \<lparr>mxCPUPercent = Finite 0, mxMemoryBytes = puMemoryBytes u\<rparr>)"
  by (simp add: metricsSnapshot_def newMetricsService_def)

lemma metrics_not_negative:
  assumes "metricsSnapshot ctx usage now cpus s = (s', Inr m)"
  shows "\<not> negative (mxCPUPercent m)"
  using assms by (auto simp: metricsSnapshot_def Let_def split: option.splits sum.splits if_splits)

text \<open>Two processors, one of which was busy all the time, twice\<close>

lemma metrics_sample: "cpuPercent 2000000000 1000000000 2 = Finite 100"
  using round64_int [of 2] round64_int [of 1] round64_int [of 100] by (simp add: cpuPercent_def float_of_int_exact)

lemma fonts_sorted: "sorted (ListSystemFonts os join home windir walk) \<and> distinct (ListSystemFonts os join home windir walk)
    \<and> [] \<notin> set (ListSystemFonts os join home windir walk)"
  by (simp add: ListSystemFonts_def listFontFamiliesFromDirs_def)

lemma fonts_exact: "n \<in> set (ListSystemFonts os join home windir walk) \<longleftrightarrow>
    n \<noteq> [] \<and> (\<exists>d \<in> set (systemFontDirs os join home windir). \<exists>path \<in> set (walk d). n = fontFamilyName path)"
  by (auto simp: ListSystemFonts_def listFontFamiliesFromDirs_def)

lemma fonts_sample:
  "fontFamilyName ''/usr/share/fonts/Fira_Code.TTF'' = ''Fira Code''" "fontFamilyName ''/usr/share/fonts/readme.txt'' = []"
  by code_simp+

end
