(* ===== verification/McpCatalog.thy ===== *)
theory McpCatalog
  imports McpGraphFacts FrameParserFacts GoErrors
begin

text \<open>
  What the MCP server offers to read (\<open>internal/modules/mcpserver/server.go\<close>): the catalogue of protocol templates
  and their description, and the catalogue of demo graphs. Descriptions, titles and the text of scripts are left
  out.
\<close>

section \<open>Protocol templates\<close>

record templateItem =
  tiName :: string
  tiKind :: string

record visualOut =
  voName :: string
  voHeaderHex :: string
  voFooterHex :: string
  voFields :: "fieldSpec list"
  voMaxFrameLen :: int
  voMinFrameLen :: int
  voLengthField :: "lengthField option"
  voChecksum :: "checksumSpec option"
  voChecksumType :: "string option"

record templateDetail =
  tdName :: string
  tdKind :: string
  tdVisual :: "visualOut option"

definition kindText :: "parser_kind \<Rightarrow> string" where
  "kindText k = (case k of KindVisual \<Rightarrow> ''visual'' | KindScript \<Rightarrow> ''script'' | KindTemplate \<Rightarrow> ''template'')"

definition protocolTemplateCatalog :: "templateItem list" where
  "protocolTemplateCatalog = map (\<lambda>(name, kind). \<lparr>tiName = name, tiKind = kindText kind\<rparr>) ListTemplates"

definition protocolTemplateConfig :: "protocolTemplate \<Rightarrow> visualOut option" where
  "protocolTemplateConfig t = map_option (\<lambda>visual.
     \<lparr>voName = fspName visual, voHeaderHex = hex_encode (fspHeader visual), voFooterHex = hex_encode (fspFooter visual),
      voFields = fspFields visual, voMaxFrameLen = fspMaxFrameLen visual, voMinFrameLen = fspMinFrameLen visual,
      voLengthField = fspLengthField visual, voChecksum = fspChecksum visual,
      voChecksumType = map_option ckType (fspChecksum visual)\<rparr>) (tpVisual t)"

definition protocolTemplateDetail :: "protocolTemplate \<Rightarrow> templateDetail" where
  "protocolTemplateDetail t = \<lparr>tdName = tpName t, tdKind = kindText (tpKind t), tdVisual = protocolTemplateConfig t\<rparr>"

definition protocol_template_catalog :: "templateItem list" where
  "protocol_template_catalog = protocolTemplateCatalog"

definition protocol_template_describe :: "string \<Rightarrow> goError + templateDetail" where
  "protocol_template_describe arg =
     (let name = trim_space arg in
      if name = [] then Inl (invalid ''protocol template name is required'')
      else case GetTemplate name of
          None \<Rightarrow> Inl (invalid (''protocol template not found: '' @ name))
        | Some t \<Rightarrow> Inr (protocolTemplateDetail t))"

section \<open>Demo graphs\<close>

record demoItem =
  diID :: string
  diTags :: "string list"
  diNodeTypes :: "string list"
  diOperationLogState :: string

definition serialGraphDemoCatalog :: "demoItem list" where
  "serialGraphDemoCatalog =
     [\<lparr>diID = observabilityTemplateID, diTags = [''serial'', ''filter'', ''logging'', ''observability''],
       diNodeTypes = [''serial.script.generator'', ''serial.virtual'', ''serial.filter'', ''serial.monitor''],
       diOperationLogState = ''not_in_backend''\<rparr>,
      \<lparr>diID = remoteTemplateID, diTags = [''serial'', ''remote'', ''raw-tcp'', ''mcp''],
       diNodeTypes = [''serial.script.generator'', ''serial.remote'', ''serial.monitor''],
       diOperationLogState = ''not_in_backend''\<rparr>]"

definition serial_graph_demo_catalog :: "demoItem list" where
  "serial_graph_demo_catalog = serialGraphDemoCatalog"

section \<open>Properties\<close>

lemma remote_demo_nodes:
  assumes "serialGraphRemoteDemoTemplate args = Inr t"
  shows "\<exists>g s c. gaNodes t = remoteNodes g s c"
proof -
  have "\<exists>g s c. t = remoteDemoGraph g s c"
    using assms unfolding serialGraphRemoteDemoTemplate_def Let_def by (simp split: if_split_asm option.split_asm list.split_asm) blast+
  moreover have "\<exists>h. gaNodes (remoteDemoGraph g s c) = remoteNodes h s c" for g s c
    unfolding remoteDemoGraph_def graphStartArgs.select_convs by blast
  ultimately show ?thesis by metis
qed

text \<open>The catalogues of the server are true. A name, also with blanks around it, is described exactly when the
  catalogue lists it, with the kind it is listed with, and the header of a frame can be read back from the
  description. A demo graph exists exactly when the catalogue lists it, and consists of exactly the node types it
  names, whatever arguments it is asked for with.\<close>

theorem catalogues_true:
  "(case protocol_template_describe arg of
      Inl e \<Rightarrow> trim_space arg \<notin> tiName ` set protocol_template_catalog
    | Inr d \<Rightarrow> \<lparr>tiName = trim_space arg, tiKind = tdKind d\<rparr> \<in> set protocol_template_catalog \<and> tdName d = trim_space arg
        \<and> (\<exists>t. GetTemplate (trim_space arg) = Some t \<and> map_option (\<lambda>v. hex_decode (voHeaderHex v)) (tdVisual d)
             = map_option (\<lambda>spec. Some (fspHeader spec)) (tpVisual t)))
   \<and> (case serialGraphDemoTemplate args of
      None \<Rightarrow> daID args \<notin> diID ` set serial_graph_demo_catalog
    | Some r \<Rightarrow> \<exists>item \<in> set serial_graph_demo_catalog. diID item = daID args
        \<and> (case r of Inl e \<Rightarrow> True | Inr t \<Rightarrow> set (diNodeTypes item) = naType ` set (gaNodes t)))"
proof (rule conjI)
  show "(case protocol_template_describe arg of
      Inl e \<Rightarrow> trim_space arg \<notin> tiName ` set protocol_template_catalog
    | Inr d \<Rightarrow> \<lparr>tiName = trim_space arg, tiKind = tdKind d\<rparr> \<in> set protocol_template_catalog \<and> tdName d = trim_space arg
        \<and> (\<exists>t. GetTemplate (trim_space arg) = Some t \<and> map_option (\<lambda>v. hex_decode (voHeaderHex v)) (tdVisual d)
             = map_option (\<lambda>spec. Some (fspHeader spec)) (tpVisual t)))"
  proof (cases "GetTemplate (trim_space arg)")
    case None
    then have "\<forall>t \<in> set templateRegistry. tpName t \<noteq> trim_space arg" by (auto simp: GetTemplate_def find_None_iff)
    then show ?thesis using None
      by (auto simp: image_iff protocol_template_describe_def protocol_template_catalog_def protocolTemplateCatalog_def ListTemplates_def Let_def)
  next
    case (Some t)
    then have t: "t \<in> set templateRegistry" "tpName t = trim_space arg" by (auto simp: GetTemplate_def find_Some_iff)
    then have "\<lparr>tiName = trim_space arg, tiKind = kindText (tpKind t)\<rparr> \<in> set protocol_template_catalog"
      by (force simp: protocol_template_catalog_def protocolTemplateCatalog_def ListTemplates_def)
    moreover have "[] \<notin> tiName ` set protocol_template_catalog"
      by (simp add: protocol_template_catalog_def protocolTemplateCatalog_def ListTemplates_def templateRegistry_def)
    ultimately show ?thesis using Some t(2)
      by (cases "tpVisual t") (simp_all add: protocol_template_describe_def Let_def protocolTemplateDetail_def protocolTemplateConfig_def)
  qed
next
  have obs: "naType ` set (observabilityNodes g p) = {''serial.script.generator'', ''serial.virtual'', ''serial.filter'', ''serial.monitor''}" for g p
    by (auto simp: observabilityNodes_def nodeArg_def)
  have rem: "naType ` set (remoteNodes g s c) = {''serial.script.generator'', ''serial.remote'', ''serial.monitor''}" for g s c
    by (auto simp: remoteNodes_def nodeArg_def)
  show "case serialGraphDemoTemplate args of
      None \<Rightarrow> daID args \<notin> diID ` set serial_graph_demo_catalog
    | Some r \<Rightarrow> \<exists>item \<in> set serial_graph_demo_catalog. diID item = daID args
        \<and> (case r of Inl e \<Rightarrow> True | Inr t \<Rightarrow> set (diNodeTypes item) = naType ` set (gaNodes t))"
  proof (cases "daID args = observabilityTemplateID")
    case True
    then show ?thesis by (simp add: serialGraphDemoTemplate_def serial_graph_demo_catalog_def serialGraphDemoCatalog_def
        serialGraphObservabilityDemoTemplate_def Let_def obs)
  next
    case False
    show ?thesis
    proof (cases "daID args = remoteTemplateID")
      case True
      have "set [''serial.script.generator'', ''serial.remote'', ''serial.monitor''] = naType ` set (gaNodes t)"
        if r: "serialGraphRemoteDemoTemplate args = Inr t" for t
      proof -
        obtain g s c where "gaNodes t = remoteNodes g s c" using remote_demo_nodes [OF r] by blast
        then show ?thesis by (simp add: rem)
      qed
      then show ?thesis using False True
        by (simp add: serialGraphDemoTemplate_def serial_graph_demo_catalog_def serialGraphDemoCatalog_def split: sum.split)
    qed (use False in \<open>simp add: serialGraphDemoTemplate_def serial_graph_demo_catalog_def serialGraphDemoCatalog_def\<close>)
  qed
qed

end
