(* ===== verification/MemoryBackend.thy ===== *)
theory MemoryBackend
  imports SerialPort GoMaps
begin

text \<open>
  The serial back end in memory (\<open>internal/modules/serial/porttest/memory_backend.go\<close>): pairs of linked end points,
  each with a channel of at most 4096 bytes. End points and ports are shared objects, so both live in a list and
  are known by their position. What a \<open>select\<close> takes when several cases are ready, and when a goroutine runs, is
  open: the steps of a port are a relation.
\<close>

section \<open>State\<close>

record memEndpoint =
  meName :: string
  mePeerName :: string
  meData :: bytes
  meActive :: "nat option"

record memPort =
  mpEndpoint :: nat
  mpClosed :: bool
  mpTimeout :: int

record memBackend =
  mbEndpoints :: "(string, nat) table"
  mbHeap :: "memEndpoint list"
  mbPorts :: "memPort list"

definition channelSize :: nat where "channelSize = 4096"

definition NewMemoryBackend :: memBackend where
  "NewMemoryBackend = \<lparr>mbEndpoints = [], mbHeap = [], mbPorts = []\<rparr>"

definition DefaultSerialConfig :: "string \<Rightarrow> serialConfig" where
  "DefaultSerialConfig portName = \<lparr>scPortName = portName, scBaudRate = 115200, scDataBits = 8, scStopBits = ''1'',
     scParity = ''none'', scFlowMode = ''none'', scReadBufKB = 0\<rparr>"

definition newEndpoint :: "string \<Rightarrow> string \<Rightarrow> memEndpoint" where
  "newEndpoint name peer = \<lparr>meName = name, mePeerName = peer, meData = [], meActive = None\<rparr>"

definition AddPair :: "string \<Rightarrow> string \<Rightarrow> memBackend \<Rightarrow> memBackend" where
  "AddPair a c b = b\<lparr>mbHeap := mbHeap b @ [newEndpoint a c, newEndpoint c a],
     mbEndpoints := table_put c (Suc (length (mbHeap b))) (table_put a (length (mbHeap b)) (mbEndpoints b))\<rparr>"

text \<open>The names of the ports, or the error of the context\<close>

definition memEnumerate :: "string option \<Rightarrow> memBackend \<Rightarrow> string + string list" where
  "memEnumerate cancelled b = (case cancelled of Some e \<Rightarrow> Inl e | None \<Rightarrow> Inr (sorted_keys (mbEndpoints b)))"

definition isClosedPort :: "memBackend \<Rightarrow> nat \<Rightarrow> bool" where
  "isClosedPort b p = mpClosed (mbPorts b ! p)"

datatype mem_error = UnknownPort | AlreadyOpen string | ClosedPipe | ReadTimeout

definition memOpen :: "serialConfig \<Rightarrow> memBackend \<Rightarrow> memBackend \<times> (mem_error + nat)" where
  "memOpen cfg b = (case map_of (mbEndpoints b) (scPortName cfg) of
       None \<Rightarrow> (b, Inl UnknownPort)
     | Some e \<Rightarrow>
         let endpoint = mbHeap b ! e; p = length (mbPorts b) in
         if (case meActive endpoint of None \<Rightarrow> False | Some q \<Rightarrow> \<not> isClosedPort b q) then (b, Inl (AlreadyOpen (scPortName cfg)))
         else (b\<lparr>mbPorts := mbPorts b @ [\<lparr>mpEndpoint = e, mpClosed = False, mpTimeout = 0\<rparr>],
                 mbHeap := (mbHeap b)[e := endpoint\<lparr>meActive := Some p\<rparr>]\<rparr>, Inr p))"

section \<open>Reading and writing\<close>

definition endpointOf :: "memBackend \<Rightarrow> nat \<Rightarrow> memEndpoint" where
  "endpointOf b p = mbHeap b ! mpEndpoint (mbPorts b ! p)"

definition onEndpoint :: "nat \<Rightarrow> (memEndpoint \<Rightarrow> memEndpoint) \<Rightarrow> memBackend \<Rightarrow> memBackend" where
  "onEndpoint e f b = b\<lparr>mbHeap := (mbHeap b)[e := f (mbHeap b ! e)]\<rparr>"

text \<open>
  How a read of a buffer of \<open>n\<close> bytes can end: it takes \<open>k\<close> bytes, one or more of those that wait, or it sees that
  the port was closed, or its timer; \<open>None\<close> is a case that is not ready.
\<close>

datatype read_case = TakesBytes nat | SeesClosed | SeesTimer

definition memRead :: "nat \<Rightarrow> read_case \<Rightarrow> nat \<Rightarrow> memBackend \<Rightarrow> (memBackend \<times> bytes \<times> mem_error option) option" where
  "memRead n how p b =
     (if n = 0 then Some (b, [], None)
      else case how of
          TakesBytes k \<Rightarrow>
            let data = meData (endpointOf b p) in
            if 0 < k \<and> k \<le> n \<and> k \<le> length data
            then Some (onEndpoint (mpEndpoint (mbPorts b ! p)) (\<lambda>e. e\<lparr>meData := drop k data\<rparr>) b, take k data, None) else None
        | SeesClosed \<Rightarrow> if isClosedPort b p then Some (b, [], Some ClosedPipe) else None
        | SeesTimer \<Rightarrow> if 0 < mpTimeout (mbPorts b ! p) then Some (b, [], Some ReadTimeout) else None)"

definition peerEndpoint :: "nat \<Rightarrow> memBackend \<Rightarrow> mem_error + nat" where
  "peerEndpoint p b =
     (if isClosedPort b p then Inl ClosedPipe
      else case map_of (mbEndpoints b) (mePeerName (endpointOf b p)) of None \<Rightarrow> Inl ClosedPipe | Some e \<Rightarrow> Inr e)"

text \<open>One byte of a write; \<open>None\<close> waits for room in the channel.\<close>

definition writeByte :: "byte \<Rightarrow> nat \<Rightarrow> memBackend \<Rightarrow> (mem_error + memBackend) option" where
  "writeByte w p b = (case peerEndpoint p b of
       Inl e \<Rightarrow> Some (Inl e)
     | Inr e \<Rightarrow> if length (meData (mbHeap b ! e)) < channelSize
         then Some (Inr (onEndpoint e (\<lambda>x. x\<lparr>meData := meData x @ [w]\<rparr>) b)) else None)"

text \<open>A write that is not interrupted: the bytes written and the error; \<open>None\<close> if it has to wait for a reader.\<close>

fun memWrite :: "bytes \<Rightarrow> nat \<Rightarrow> nat \<Rightarrow> memBackend \<Rightarrow> (memBackend \<times> nat \<times> mem_error option) option" where
  "memWrite [] i p b = Some (b, i, None)"
| "memWrite (w # ws) i p b = (case writeByte w p b of
       None \<Rightarrow> None
     | Some (Inl e) \<Rightarrow> Some (b, i, Some e)
     | Some (Inr b1) \<Rightarrow> memWrite ws (Suc i) p b1)"

definition SetReadTimeout :: "int \<Rightarrow> nat \<Rightarrow> memBackend \<Rightarrow> memBackend" where
  "SetReadTimeout timeout p b = b\<lparr>mbPorts := (mbPorts b)[p := (mbPorts b ! p)\<lparr>mpTimeout := timeout\<rparr>]\<rparr>"

definition memClose :: "nat \<Rightarrow> memBackend \<Rightarrow> memBackend" where
  "memClose p b =
     (if isClosedPort b p then b
      else let b1 = b\<lparr>mbPorts := (mbPorts b)[p := (mbPorts b ! p)\<lparr>mpClosed := True\<rparr>]\<rparr> in
        onEndpoint (mpEndpoint (mbPorts b ! p)) (\<lambda>e. if meActive e = Some p then e\<lparr>meActive := None\<rparr> else e) b1)"

section \<open>Runs\<close>

text \<open>What happens to the bytes: one was written from an end point to another, some were read from one\<close>

datatype mem_event = Quiet | WroteTo nat nat byte | ReadFrom nat bytes

inductive memStep :: "memBackend \<Rightarrow> mem_event \<Rightarrow> memBackend \<Rightarrow> bool" where
  opens: "memStep b Quiet (fst (memOpen cfg b))"
| closes: "p < length (mbPorts b) \<Longrightarrow> memStep b Quiet (memClose p b)"
| times: "p < length (mbPorts b) \<Longrightarrow> memStep b Quiet (SetReadTimeout t p b)"
| writes: "p < length (mbPorts b) \<Longrightarrow> peerEndpoint p b = Inr e \<Longrightarrow> writeByte w p b = Some (Inr b') \<Longrightarrow> memStep b (WroteTo (mpEndpoint (mbPorts b ! p)) e w) b'"
| reads: "p < length (mbPorts b) \<Longrightarrow> memRead n how p b = Some (b', bs, err) \<Longrightarrow> memStep b (ReadFrom (mpEndpoint (mbPorts b ! p)) bs) b'"

inductive memRun :: "memBackend \<Rightarrow> mem_event list \<Rightarrow> memBackend \<Rightarrow> bool" where
  rests: "memRun b [] b"
| goes: "memRun b evs b1 \<Longrightarrow> memStep b1 ev b2 \<Longrightarrow> memRun b (evs @ [ev]) b2"

definition wroteTo :: "nat \<Rightarrow> mem_event list \<Rightarrow> bytes" where
  "wroteTo e evs = concat (map (\<lambda>ev. case ev of WroteTo src dst w \<Rightarrow> if dst = e then [w] else [] | _ \<Rightarrow> []) evs)"

definition sentFrom :: "nat \<Rightarrow> mem_event list \<Rightarrow> bytes" where
  "sentFrom e evs = concat (map (\<lambda>ev. case ev of WroteTo src dst w \<Rightarrow> if src = e then [w] else [] | _ \<Rightarrow> []) evs)"

definition readFrom :: "nat \<Rightarrow> mem_event list \<Rightarrow> bytes" where
  "readFrom e evs = concat (map (\<lambda>ev. case ev of ReadFrom e' bs \<Rightarrow> if e' = e then bs else [] | _ \<Rightarrow> []) evs)"

section \<open>Invariants\<close>

text \<open>Names and ports lead to end points, an open port is the active one of its end point, and no channel overflows.\<close>

definition mem_ok :: "memBackend \<Rightarrow> bool" where
  "mem_ok b \<longleftrightarrow> (\<forall>n e. map_of (mbEndpoints b) n = Some e \<longrightarrow> e < length (mbHeap b))
    \<and> (\<forall>p < length (mbPorts b). mpEndpoint (mbPorts b ! p) < length (mbHeap b)
        \<and> (\<not> isClosedPort b p \<longrightarrow> meActive (endpointOf b p) = Some p))
    \<and> (\<forall>e < length (mbHeap b). length (meData (mbHeap b ! e)) \<le> channelSize
        \<and> (\<forall>q. meActive (mbHeap b ! e) = Some q \<longrightarrow> q < length (mbPorts b) \<and> mpEndpoint (mbPorts b ! q) = e))"

lemma channelSize_pos [simp]: "0 < channelSize"
  by (simp add: channelSize_def)

lemma nth_update_if: "xs[i := x] ! j = (if j = i \<and> i < length xs then x else xs ! j)"
  by (cases "i < length xs") (auto simp: nth_list_update not_less list_update_beyond)

lemma mem_ok_new: "mem_ok NewMemoryBackend"
  by (simp add: mem_ok_def NewMemoryBackend_def)

lemma mem_ok_addPair:
  assumes "mem_ok b"
  shows "mem_ok (AddPair a c b)"
proof -
  have h: "mbHeap (AddPair a c b) ! e = (if e < length (mbHeap b) then mbHeap b ! e
      else if e = length (mbHeap b) then newEndpoint a c else newEndpoint c a)" if "e < length (mbHeap b) + 2" for e
    using that by (auto simp: AddPair_def nth_append nth_Cons split: nat.split)
  show ?thesis using assms h
    by (auto simp: mem_ok_def AddPair_def newEndpoint_def endpointOf_def isClosedPort_def less_Suc_eq nth_append split: if_splits)
qed

lemma mem_okD:
  assumes "mem_ok b"
  shows "map_of (mbEndpoints b) n = Some e \<Longrightarrow> e < length (mbHeap b)"
    and "p < length (mbPorts b) \<Longrightarrow> mpEndpoint (mbPorts b ! p) < length (mbHeap b)"
    and "p < length (mbPorts b) \<Longrightarrow> \<not> isClosedPort b p \<Longrightarrow> meActive (endpointOf b p) = Some p"
    and "e < length (mbHeap b) \<Longrightarrow> length (meData (mbHeap b ! e)) \<le> channelSize"
    and "e < length (mbHeap b) \<Longrightarrow> meActive (mbHeap b ! e) = Some q \<Longrightarrow> q < length (mbPorts b) \<and> mpEndpoint (mbPorts b ! q) = e"
  using assms unfolding mem_ok_def by blast+

text \<open>What no step changes\<close>

definition sameWiring :: "memBackend \<Rightarrow> memBackend \<Rightarrow> bool" where
  "sameWiring b b' \<longleftrightarrow> mbEndpoints b' = mbEndpoints b \<and> length (mbHeap b') = length (mbHeap b)
    \<and> (\<forall>e. mePeerName (mbHeap b' ! e) = mePeerName (mbHeap b ! e))"

lemma onEndpoint_data:
  "meData (mbHeap (onEndpoint e f b) ! e') = (if e' = e \<and> e < length (mbHeap b) then meData (f (mbHeap b ! e)) else meData (mbHeap b ! e'))"
  by (simp add: onEndpoint_def nth_update_if)

lemma mem_ok_data:
  assumes "mem_ok b" and "\<And>x. meActive (f x) = meActive x" and "length (meData (f (mbHeap b ! e))) \<le> channelSize"
  shows "mem_ok (onEndpoint e f b)"
  using assms unfolding mem_ok_def endpointOf_def isClosedPort_def onEndpoint_def
  by (auto simp: nth_update_if split: if_splits)

lemma mem_ok_open:
  assumes "mem_ok b"
  shows "mem_ok (fst (memOpen cfg b))"
proof (cases "fst (memOpen cfg b) = b")
  case False
  then obtain e where e: "map_of (mbEndpoints b) (scPortName cfg) = Some e"
    and free: "\<And>q. meActive (mbHeap b ! e) = Some q \<Longrightarrow> isClosedPort b q"
    and b': "fst (memOpen cfg b) = b\<lparr>mbPorts := mbPorts b @ [\<lparr>mpEndpoint = e, mpClosed = False, mpTimeout = 0\<rparr>],
       mbHeap := (mbHeap b)[e := (mbHeap b ! e)\<lparr>meActive := Some (length (mbPorts b))\<rparr>]\<rparr>"
    by (auto simp: memOpen_def Let_def split: option.splits if_splits)
  note ok = mem_okD [OF assms]
  have le: "e < length (mbHeap b)" using ok(1) [OF e] .
  have other: "mpEndpoint (mbPorts b ! q) \<noteq> e" if "q < length (mbPorts b)" "\<not> mpClosed (mbPorts b ! q)" for q
  proof
    assume "mpEndpoint (mbPorts b ! q) = e"
    then have "meActive (mbHeap b ! e) = Some q" using ok(3) [OF that(1)] that(2) by (simp add: isClosedPort_def endpointOf_def)
    from free [OF this] that(2) show False by (simp add: isClosedPort_def)
  qed
  show ?thesis unfolding b' mem_ok_def
    using ok le other by (auto simp: isClosedPort_def endpointOf_def nth_append nth_update_if less_Suc_eq)
qed (use assms in simp)

lemma mem_ok_close:
  assumes "mem_ok b" "p < length (mbPorts b)"
  shows "mem_ok (memClose p b)"
proof (cases "isClosedPort b p")
  case False
  note ok = mem_okD [OF assms(1)]
  have "mpEndpoint (mbPorts b ! p) < length (mbHeap b)" using ok(2) [OF assms(2)] .
  moreover have "q = p" if "q < length (mbPorts b)" "\<not> mpClosed (mbPorts b ! q)" "mpEndpoint (mbPorts b ! q) = mpEndpoint (mbPorts b ! p)" for q
    using ok(3) [OF that(1)] ok(3) [OF assms(2) False] that(2,3) by (simp add: isClosedPort_def endpointOf_def)
  ultimately show ?thesis using False ok assms(2) unfolding mem_ok_def
    by (auto simp: memClose_def Let_def onEndpoint_def isClosedPort_def endpointOf_def nth_update_if split: if_splits)
qed (use assms in \<open>simp add: memClose_def\<close>)

lemma peerEndpoint_place: "mem_ok b \<Longrightarrow> peerEndpoint p b = Inr e \<Longrightarrow> e < length (mbHeap b)"
  using mem_okD(1) by (auto simp: peerEndpoint_def split: if_splits option.splits)

lemma writeByte_cases:
  "peerEndpoint p b = Inr e \<Longrightarrow> writeByte w p b = Some (Inr b') \<Longrightarrow>
    length (meData (mbHeap b ! e)) < channelSize \<and> b' = onEndpoint e (\<lambda>x. x\<lparr>meData := meData x @ [w]\<rparr>) b"
  by (auto simp: writeByte_def split: if_splits)

lemma memRead_cases:
  assumes "memRead n how p b = Some (b', bs, err)"
  shows "bs = [] \<and> b' = b \<or> (\<exists>k. bs = take k (meData (endpointOf b p))
    \<and> b' = onEndpoint (mpEndpoint (mbPorts b ! p)) (\<lambda>e. e\<lparr>meData := drop k (meData (endpointOf b p))\<rparr>) b)"
  using assms by (auto simp: memRead_def Let_def split: if_splits read_case.splits)

lemma step_ok: "memStep b ev b' \<Longrightarrow> mem_ok b \<Longrightarrow> mem_ok b' \<and> sameWiring b b'"
proof (induction rule: memStep.induct)
  case (opens b cfg)
  have "sameWiring b (fst (memOpen cfg b))"
    by (auto simp: sameWiring_def memOpen_def Let_def nth_update_if split: option.split)
  then show ?case using mem_ok_open [OF opens] by blast
next
  case (closes p b)
  have "sameWiring b (memClose p b)"
    by (auto simp: sameWiring_def memClose_def Let_def onEndpoint_def nth_update_if)
  then show ?case using mem_ok_close [OF closes(2,1)] by blast
next
  case (times p b t)
  then show ?case
    by (auto simp: mem_ok_def sameWiring_def SetReadTimeout_def isClosedPort_def endpointOf_def nth_update_if)
next
  case (writes p b e w b')
  from writeByte_cases [OF writes(2,3)] have w: "length (meData (mbHeap b ! e)) < channelSize"
    "b' = onEndpoint e (\<lambda>x. x\<lparr>meData := meData x @ [w]\<rparr>) b" by auto
  have "mem_ok b'" unfolding w(2) by (rule mem_ok_data [OF writes(4)]) (use w(1) in auto)
  then show ?case by (auto simp: w(2) sameWiring_def onEndpoint_def nth_update_if)
next
  case (reads p b n how b' bs err)
  from memRead_cases [OF reads(2)] show ?case
  proof
    assume "\<exists>k. bs = take k (meData (endpointOf b p))
      \<and> b' = onEndpoint (mpEndpoint (mbPorts b ! p)) (\<lambda>e. e\<lparr>meData := drop k (meData (endpointOf b p))\<rparr>) b"
    then obtain k where k: "b' = onEndpoint (mpEndpoint (mbPorts b ! p)) (\<lambda>e. e\<lparr>meData := drop k (meData (endpointOf b p))\<rparr>) b" by blast
    have "length (meData (endpointOf b p)) \<le> channelSize"
      using mem_okD(2,4) [OF reads(3)] reads(1) by (simp add: endpointOf_def)
    then have "mem_ok b'" unfolding k by (intro mem_ok_data reads(3)) auto
    then show ?case by (auto simp: k sameWiring_def onEndpoint_def nth_update_if)
  qed (use reads(3) in \<open>simp add: sameWiring_def\<close>)
qed

lemma sameWiring_trans: "sameWiring a b \<Longrightarrow> sameWiring b c \<Longrightarrow> sameWiring a c"
  by (simp add: sameWiring_def)

lemma run_ok: "memRun b evs b' \<Longrightarrow> mem_ok b \<Longrightarrow> mem_ok b' \<and> sameWiring b b'"
proof (induction rule: memRun.induct)
  case (goes b evs b1 ev b2)
  then show ?case using step_ok [OF goes(2)] sameWiring_trans by blast
qed (simp add: sameWiring_def)

section \<open>Bytes in order\<close>

lemma logs_simps [simp]:
  "wroteTo e [] = []" "sentFrom e [] = []" "readFrom e [] = []"
  "wroteTo e (evs @ evs') = wroteTo e evs @ wroteTo e evs'" "sentFrom e (evs @ evs') = sentFrom e evs @ sentFrom e evs'"
  "readFrom e (evs @ evs') = readFrom e evs @ readFrom e evs'"
  "wroteTo e [ev] = (case ev of WroteTo src dst w \<Rightarrow> if dst = e then [w] else [] | _ \<Rightarrow> [])"
  "sentFrom e [ev] = (case ev of WroteTo src dst w \<Rightarrow> if src = e then [w] else [] | _ \<Rightarrow> [])"
  "readFrom e [ev] = (case ev of ReadFrom e' bs \<Rightarrow> if e' = e then bs else [] | _ \<Rightarrow> [])"
  by (simp_all add: wroteTo_def sentFrom_def readFrom_def)

lemma step_bytes:
  "memStep b ev b' \<Longrightarrow> mem_ok b \<Longrightarrow> e < length (mbHeap b) \<Longrightarrow>
    meData (mbHeap b ! e) @ wroteTo e [ev] = readFrom e [ev] @ meData (mbHeap b' ! e)"
proof (induction rule: memStep.induct)
  case (opens b cfg)
  then show ?case by (auto simp: memOpen_def Let_def nth_update_if split: option.split)
next
  case (closes p b)
  then show ?case by (auto simp: memClose_def Let_def onEndpoint_def nth_update_if)
next
  case (times p b t)
  then show ?case by (simp add: SetReadTimeout_def)
next
  case (writes p b e' w b')
  from writeByte_cases [OF writes(2,3)] peerEndpoint_place [OF writes(4,2)] show ?case by (auto simp: onEndpoint_data)
next
  case (reads p b n how b' bs err)
  have place: "mpEndpoint (mbPorts b ! p) < length (mbHeap b)" using mem_okD(2) [OF reads(3,1)] .
  from memRead_cases [OF reads(2)] place show ?case by (auto simp: onEndpoint_data endpointOf_def)
qed

lemma run_bytes:
  "memRun b evs b' \<Longrightarrow> mem_ok b \<Longrightarrow> e < length (mbHeap b) \<Longrightarrow>
    meData (mbHeap b ! e) @ wroteTo e evs = readFrom e evs @ meData (mbHeap b' ! e)"
proof (induction rule: memRun.induct)
  case (goes b evs b1 ev b2)
  have b1: "mem_ok b1" "length (mbHeap b1) = length (mbHeap b)" using run_ok [OF goes(1,4)] by (auto simp: sameWiring_def)
  have s: "meData (mbHeap b1 ! e) @ wroteTo e [ev] = readFrom e [ev] @ meData (mbHeap b2 ! e)"
    using step_bytes [OF goes(2) b1(1)] goes(5) b1(2) by simp
  show ?case using goes.IH [OF goes(4,5)] s by (metis append.assoc logs_simps(4) logs_simps(6))
qed simp

text \<open>A fresh pair: what one end sends goes to the other.\<close>

definition freshPair :: "string \<Rightarrow> string \<Rightarrow> memBackend" where
  "freshPair a c = AddPair a c NewMemoryBackend"

lemma freshPair_ok: "mem_ok (freshPair a c)"
  by (simp add: freshPair_def mem_ok_addPair mem_ok_new)

lemma freshPair_parts: "a \<noteq> c \<Longrightarrow> map_of (mbEndpoints (freshPair a c)) a = Some 0 \<and> map_of (mbEndpoints (freshPair a c)) c = Some 1
    \<and> mbHeap (freshPair a c) = [newEndpoint a c, newEndpoint c a]"
  by (simp add: freshPair_def AddPair_def NewMemoryBackend_def)

lemma pair_logs:
  assumes "a \<noteq> c" "memRun b0 evs b" "b0 = freshPair a c"
  shows "sentFrom 0 evs = wroteTo 1 evs \<and> sentFrom 1 evs = wroteTo 0 evs"
  using assms(2,3)
proof (induction rule: memRun.induct)
  case (goes b0 evs b1 ev b2)
  note f = freshPair_parts [OF assms(1)]
  have r: "mem_ok b1" "sameWiring b0 b1" using run_ok [OF goes(1)] goes(4) freshPair_ok by auto
  have w: "mbEndpoints b1 = mbEndpoints (freshPair a c)" "length (mbHeap b1) = 2"
    "mePeerName (mbHeap b1 ! 0) = c" "mePeerName (mbHeap b1 ! 1) = a"
    using r(2) f goes(4) by (simp_all add: sameWiring_def newEndpoint_def)
  have "sentFrom 0 [ev] = wroteTo 1 [ev] \<and> sentFrom 1 [ev] = wroteTo 0 [ev]" using goes(2)
  proof cases
    case (writes p e x)
    have "mpEndpoint (mbPorts b1 ! p) < 2" using mem_okD(2) [OF r(1) writes(2)] w(2) by simp
    then consider "mpEndpoint (mbPorts b1 ! p) = 0" | "mpEndpoint (mbPorts b1 ! p) = 1" by linarith
    then show ?thesis using writes(1,3) f w
      by cases (auto simp: peerEndpoint_def endpointOf_def split: if_splits)
  qed auto
  then show ?case using goes.IH [OF goes(4)] by simp
qed simp

section \<open>Properties\<close>

text \<open>C40: A pair of ports in memory is transparent: whatever is opened, closed, written and read at its two ends, in
  whatever order, the bytes sent from one end are exactly those read at the other, in order, followed by those that
  still wait there, of which there are never more than 4096; and no end has two open ports.\<close>

theorem memory_pair_transparent:
  assumes "a \<noteq> c" and "memRun (freshPair a c) evs b"
  shows "sentFrom 0 evs = readFrom 1 evs @ meData (mbHeap b ! 1) \<and> sentFrom 1 evs = readFrom 0 evs @ meData (mbHeap b ! 0)
    \<and> length (meData (mbHeap b ! 0)) \<le> 4096 \<and> length (meData (mbHeap b ! 1)) \<le> 4096
    \<and> (\<forall>p q. p < length (mbPorts b) \<longrightarrow> q < length (mbPorts b) \<longrightarrow> \<not> isClosedPort b p \<longrightarrow> \<not> isClosedPort b q
         \<longrightarrow> mpEndpoint (mbPorts b ! p) = mpEndpoint (mbPorts b ! q) \<longrightarrow> p = q)"
proof -
  note f = freshPair_parts [OF assms(1)]
  have ok: "mem_ok b" "length (mbHeap b) = 2" using run_ok [OF assms(2) freshPair_ok] f by (auto simp: sameWiring_def)
  have bytes: "wroteTo e evs = readFrom e evs @ meData (mbHeap b ! e)" if "e = 0 \<or> e = 1" for e
    using run_bytes [OF assms(2) freshPair_ok, of e] that f by (auto simp: newEndpoint_def)
  have "p = q" if "p < length (mbPorts b)" "q < length (mbPorts b)" "\<not> isClosedPort b p" "\<not> isClosedPort b q"
    "mpEndpoint (mbPorts b ! p) = mpEndpoint (mbPorts b ! q)" for p q
    using mem_okD(3) [OF ok(1) that(1,3)] mem_okD(3) [OF ok(1) that(2,4)] that(5) by (simp add: endpointOf_def)
  then show ?thesis using pair_logs [OF assms(1,2) refl] bytes mem_okD(4) [OF ok(1)] ok(2) by (auto simp: channelSize_def)
qed

theorem memory_pair_transparent_witness:
  "\<exists>evs b. memRun (freshPair ''a'' ''c'') evs b \<and> sentFrom 0 evs = [7] \<and> meData (mbHeap b ! 1) = [7]"
proof -
  let ?b0 = "freshPair ''a'' ''c''"
  let ?b1 = "fst (memOpen (DefaultSerialConfig ''a'') ?b0)"
  let ?b2 = "onEndpoint 1 (\<lambda>x. x\<lparr>meData := meData x @ [7]\<rparr>) ?b1"
  have p: "peerEndpoint 0 ?b1 = Inr 1" "0 < length (mbPorts ?b1)" "mpEndpoint (mbPorts ?b1 ! 0) = 0" "writeByte 7 0 ?b1 = Some (Inr ?b2)"
    by code_simp+
  have r: "memRun ?b0 [Quiet] ?b1" using memRun.goes [OF memRun.rests memStep.opens, of ?b0] by simp
  have "memRun ?b0 ([Quiet] @ [WroteTo 0 1 7]) ?b2"
    using memRun.goes [OF r memStep.writes [OF p(2,1,4)]] p(3) by simp
  note r2 = this
  have logs: "sentFrom 0 ([Quiet] @ [WroteTo 0 1 7]) = [7]" "readFrom 1 ([Quiet] @ [WroteTo 0 1 7]) = []"
    by (simp_all add: sentFrom_def readFrom_def)
  have "meData (mbHeap ?b2 ! 1) = [7]" using memory_pair_transparent [OF _ r2] logs by simp
  with r2 logs(1) show ?thesis by blast
qed

end
