(* ===== verification/GraphScripts.thy ===== *)
theory GraphScripts
  imports ScriptHostFacts GraphRuntime
begin

text \<open>
  Scripts in a running graph: the runtime takes what a script returns from its environment, and the script host is
  one. The limits of the host are then those of what a script node sends into the graph.
\<close>

definition hostResult :: "(js \<Rightarrow> string) \<Rightarrow> scriptRunResult \<Rightarrow> scriptResult" where
  "hostResult show_value res = \<lparr>scrOutput = rrOutput res, scrDrop = rrDrop res,
     scrFields = map (\<lambda>f. (sfName f, show_value (sfValue f), sfDisplay f)) (rrFields res), scrErrors = rrErrors res\<rparr>"

definition nodeRuntime :: "graphNode \<Rightarrow> scriptRuntime" where
  "nodeRuntime node = fst (newSerialScriptRuntimeForNode (nsType (gnSpec node)) (nsConfig (gnSpec node)))"

text \<open>Every run of the node is a run of the host, for some script, timing and state.\<close>

definition hostedBy :: "script_lib \<Rightarrow> (js \<Rightarrow> string) \<Rightarrow> graphEnv \<Rightarrow> graphNode \<Rightarrow> bool" where
  "hostedBy lib show_value env node \<longleftrightarrow> (\<forall>t data. \<exists>clock n late sc st. geScript env t (nsID (gnSpec node)) data
     = map_sum id (hostResult show_value) (snd (runScriptNode lib (nodeRuntime node) data clock n late sc st)))"

lemma hosted_output:
  assumes "hostedBy lib show_value env node" and "runScript env w node data = (w1, Inr r)"
  shows "int (length (scrOutput r)) \<le> srMaxOutput (nodeRuntime node)
    \<and> (nsType (gnSpec node) = ''serial.script.analyzer'' \<longrightarrow> scrOutput r = [])"
proof -
  let ?rt = "nodeRuntime node"
  have lim: "0 \<le> srMaxOutput ?rt" "srNodeType ?rt = nsType (gnSpec node)"
    using runtime_limits [of "nsType (gnSpec node)" "nsConfig (gnSpec node)"] by (simp_all add: nodeRuntime_def)
  obtain clock n late sc st where h: "geScript env (gwTick w) (nsID (gnSpec node)) data
      = map_sum id (hostResult show_value) (snd (runScriptNode lib ?rt data clock n late sc st))"
    using assms(1) unfolding hostedBy_def by blast
  obtain st' out where o: "runScriptNode lib ?rt data clock n late sc st = (st', out)" by fastforce
  obtain res where res: "out = Inr res" "r = (if rrDrop res then (hostResult show_value res)\<lparr>scrOutput := []\<rparr> else hostResult show_value res)"
    using assms(2) h o by (cases out) (auto simp: runScript_def hostResult_def split: if_splits)
  from run_output_bound [OF o [unfolded res(1)] lim(1)] lim res(2) show ?thesis
    by (auto simp: hostResult_def exposesOutputAPI_def)
qed

text \<open>A transforming node sends at most its configured output, or its input where errors pass it on.\<close>

lemma transform_emits:
  assumes "hostedBy lib show_value env node" and "handleScriptTransform env w node data = (w', Emitting p out a)"
  shows "p = portOut node ''out'' \<and> (int (length out) \<le> srMaxOutput (nodeRuntime node) \<or> out = data)"
proof (cases "runScript env w node data")
  case (Pair w1 x)
  show ?thesis
  proof (cases x)
    case (Inl e)
    then show ?thesis using Pair assms(2) by (auto simp: handleScriptTransform_def Let_def split: if_splits)
  next
    case (Inr r)
    then show ?thesis using Pair assms(2) hosted_output [OF assms(1), of w data w1 r]
      by (auto simp: handleScriptTransform_def split: if_splits)
  qed
qed

text \<open>The empty script is hosted.\<close>

lemma hosted_sample: "hostedBy lib show_value (env\<lparr>geScript := (\<lambda>t i data. map_sum id (hostResult show_value)
    (snd (runScriptNode lib (nodeRuntime node) data (\<lambda>_. 0) 0 0 Ends \<lparr>ssValues = [], ssMaxSize = 1\<rparr>)))\<rparr>) node"
  unfolding hostedBy_def by (intro allI exI) simp

end
